(* ===== verification/S6_Prelude.thy ===== *)
theory S6_Prelude
  imports Complex_Main "HOL-Library.Word"
begin

text \<open>
  Shared vocabulary of the development: machine words, byte stores with
  \<open>memcpy\<close>, and the small facts on lists and words that the component theories
  use.  A block of shared memory is a total function from byte offsets to bytes;
  that a copy stays inside the block is proved where the copy is made, never
  assumed here.
\<close>

unbundle bit_operations_syntax

named_theorems s6_const \<open>unfolding of the compile-time constants of s6_databuf.h\<close>
named_theorems s6_word \<open>reading machine words as naturals\<close>

type_synonym u8 = "8 word"
type_synonym u32 = "32 word"
type_synonym u64 = "64 word"
type_synonym store = "nat \<Rightarrow> u8"

subsection \<open>Byte stores\<close>

definition memcpy :: "store \<Rightarrow> nat \<Rightarrow> store \<Rightarrow> nat \<Rightarrow> store" where
  "memcpy d off src n = (\<lambda>a. if off \<le> a \<and> a < off + n then src (a - off) else d a)"

lemma memcpy_inside [simp]:
  "off \<le> a \<Longrightarrow> a < off + n \<Longrightarrow> memcpy d off src n a = src (a - off)"
  by (simp add: memcpy_def)

lemma memcpy_outside [simp]:
  "a < off \<or> off + n \<le> a \<Longrightarrow> memcpy d off src n a = d a"
  by (auto simp: memcpy_def)

lemma memcpy_zero [simp]: "memcpy d off src 0 = d"
  by (auto simp: memcpy_def fun_eq_iff)

lemma memcpy_append:
  "memcpy (memcpy d off src n) (off + n) (\<lambda>i. src (n + i)) m = memcpy d off src (n + m)"
  by (auto simp: memcpy_def fun_eq_iff)

lemma memcpy_cong_src:
  "(\<And>i. i < n \<Longrightarrow> src i = src' i) \<Longrightarrow> memcpy d off src n = memcpy d off src' n"
  by (auto simp: memcpy_def fun_eq_iff)

lemma memcpy_commute:
  "off + n \<le> off' \<or> off' + n' \<le> off \<Longrightarrow>
   memcpy (memcpy d off src n) off' src' n' = memcpy (memcpy d off' src' n') off src n"
  by (auto simp: memcpy_def fun_eq_iff)

subsection \<open>Decimal numerals\<close>

text \<open>\<open>%d\<close> of a number that is not negative.\<close>

fun digits :: "nat \<Rightarrow> string" where
  "digits n = (if n < 10 then [char_of (48 + n)] else digits (n div 10) @ [char_of (48 + n mod 10)])"

declare digits.simps [simp del]

lemma digits_short: "n < 10 ^ k \<Longrightarrow> 0 < k \<Longrightarrow> length (digits n) \<le> k"
proof (induction n arbitrary: k rule: digits.induct)
  case (1 n)
  show ?case
  proof (cases "n < 10")
    case True
    with 1(3) show ?thesis by (subst digits.simps) simp
  next
    case False
    then obtain j where j: "k = Suc j" "0 < j" using 1(2,3) by (cases k; cases "k - 1") auto
    have "length (digits (n div 10)) \<le> j" using 1(1) [OF False, of j] 1(2) j by (simp add: less_mult_imp_div_less)
    then show ?thesis using False j by (subst digits.simps) simp
  qed
qed

subsection \<open>Words read as naturals\<close>

lemma unat_of_nat_64 [s6_word]: "n < 2 ^ 64 \<Longrightarrow> unat (of_nat n :: u64) = n"
  by (simp add: unat_of_nat)

lemma unat_of_nat_32 [s6_word]: "n < 2 ^ 32 \<Longrightarrow> unat (of_nat n :: u32) = n"
  by (simp add: unat_of_nat)

lemma unat_add_64: "unat (a :: u64) + unat b < 2 ^ 64 \<Longrightarrow> unat (a + b) = unat a + unat b"
  by (simp add: unat_add_lem [THEN iffD1])

lemma unat_mult_64: "unat (a :: u64) * unat b < 2 ^ 64 \<Longrightarrow> unat (a * b) = unat a * unat b"
  by (simp add: unat_mult_lem [THEN iffD1])

lemma unat_sub_64: "unat b \<le> unat (a :: u64) \<Longrightarrow> unat (a - b) = unat a - unat b"
  by (simp add: unat_sub word_le_nat_alt)

lemma unat_lt_64: "unat (a :: u64) < 2 ^ 64"
  using unsigned_less [of a] by simp

lemma signed_take_bit_id_63:
  "- (2 ^ 63) \<le> x \<Longrightarrow> x < 2 ^ 63 \<Longrightarrow> signed_take_bit 63 (x :: int) = x"
  by (rule signed_take_bit_int_eq_self)

lemma sint_below_63:
  assumes "uint (a :: u64) < 2 ^ 63"
  shows "sint a = uint a"
proof -
  have *: "sint a = signed_take_bit 63 (uint a)"
    using sint_uint [of a] by (simp del: uint_sint sint_uint)
  show ?thesis
    unfolding * by (rule signed_take_bit_id_63) (use assms uint_ge_0 [of a] in linarith)+
qed

text \<open>The signed difference of two counters below \<open>2 ^ 63\<close> is their difference as integers.\<close>

lemma sint_diff_64:
  assumes "unat (a :: u64) < 2 ^ 63" "unat b < 2 ^ 63"
  shows "sint (a - b) = int (unat a) - int (unat b)"
proof -
  have a: "uint a < 2 ^ 63" "uint b < 2 ^ 63"
    using assms by (simp_all only: unat_eq_nat_uint nat_less_numeral_power_cancel_iff)
  have *: "sint (a - b) = signed_take_bit 63 (sint a - sint b)"
    by (simp add: sint_word_ariths)
  have "sint (a - b) = uint a - uint b"
    unfolding * sint_below_63 [OF a(1)] sint_below_63 [OF a(2)]
    by (rule signed_take_bit_id_63) (use a uint_ge_0 [of a] uint_ge_0 [of b] in linarith)+
  then show ?thesis by simp
qed

subsection \<open>Lists updated by index\<close>

lemma nth_list_update_if:
  "i < length xs \<Longrightarrow> xs[i := x] ! j = (if j = i then x else xs ! j)"
  by auto

lemma all_less_list_update:
  "(\<And>j. j < length xs \<Longrightarrow> P j (xs ! j)) \<Longrightarrow> P i x \<Longrightarrow>
   j < length xs \<Longrightarrow> P j (xs[i := x] ! j)"
  by (cases "j = i") auto

end
