(* ===== verification/S6_Databuf.thy ===== *)
theory S6_Databuf
  imports S6_Prelude
begin

text \<open>
  The shared-memory ring buffers of \<open>src/src/s6_databuf.h\<close> and
  \<open>src/src/s6_databuf.cpp\<close>: the compile-time constants of the three sites, the
  block headers and blocks of the input ring, the sizes that the two
  \<open>_create\<close> functions hand to hashpipe, and the wrappers around the hashpipe
  semaphore operations.  Hashpipe itself is not part of the repository: its
  databuf operations and its status buffer are records of functions over an
  abstract state (\<open>hashpipe_ops\<close>, \<open>status_ops\<close>).  The locale
  \<open>databuf_ring\<close> states the documented contract of the semaphore
  operations.
\<close>

subsection \<open>Compile-time constants\<close>

datatype site = SOURCE_S6 | SOURCE_DIBAS | SOURCE_FAST

fun N_POLS_PER_BEAM :: "site \<Rightarrow> nat" where
  "N_POLS_PER_BEAM SOURCE_S6 = 2"
| "N_POLS_PER_BEAM SOURCE_DIBAS = 2"
| "N_POLS_PER_BEAM SOURCE_FAST = 1"

definition N_POLS_PER_BEAM_TOTAL :: nat where
  "N_POLS_PER_BEAM_TOTAL = 2"

fun N_BYTES_PER_SAMPLE :: "site \<Rightarrow> nat" where
  "N_BYTES_PER_SAMPLE SOURCE_S6 = 2"
| "N_BYTES_PER_SAMPLE SOURCE_DIBAS = 2"
| "N_BYTES_PER_SAMPLE SOURCE_FAST = 1"

fun N_BEAMS :: "site \<Rightarrow> nat" where
  "N_BEAMS SOURCE_S6 = 7"
| "N_BEAMS SOURCE_DIBAS = 1"
| "N_BEAMS SOURCE_FAST = 19"

fun N_BEAM_SLOTS :: "site \<Rightarrow> nat" where
  "N_BEAM_SLOTS SOURCE_S6 = 8"
| "N_BEAM_SLOTS SOURCE_DIBAS = 1"
| "N_BEAM_SLOTS SOURCE_FAST = 1"

fun N_COARSE_CHAN :: "site \<Rightarrow> nat" where
  "N_COARSE_CHAN SOURCE_S6 = 320"
| "N_COARSE_CHAN SOURCE_DIBAS = 512"
| "N_COARSE_CHAN SOURCE_FAST = 1"

fun N_TIME_SAMPLES :: "site \<Rightarrow> nat" where
  "N_TIME_SAMPLES SOURCE_S6 = 128 * 1024"
| "N_TIME_SAMPLES SOURCE_DIBAS = 512 * 1024"
| "N_TIME_SAMPLES SOURCE_FAST = 256 * 1024 * 1024"

fun N_FINE_CHAN :: "site \<Rightarrow> nat" where
  "N_FINE_CHAN SOURCE_S6 = N_TIME_SAMPLES SOURCE_S6"
| "N_FINE_CHAN SOURCE_DIBAS = N_TIME_SAMPLES SOURCE_DIBAS"
| "N_FINE_CHAN SOURCE_FAST = N_TIME_SAMPLES SOURCE_FAST div 2"

fun N_SPECTRA_PER_PACKET :: "site \<Rightarrow> nat" where
  "N_SPECTRA_PER_PACKET SOURCE_S6 = 1"
| "N_SPECTRA_PER_PACKET SOURCE_DIBAS = 4"
| "N_SPECTRA_PER_PACKET SOURCE_FAST = 4096"

fun N_SUBSPECTRA_PER_SPECTRUM :: "site \<Rightarrow> nat" where
  "N_SUBSPECTRA_PER_SPECTRUM SOURCE_S6 = 1"
| "N_SUBSPECTRA_PER_SPECTRUM SOURCE_DIBAS = 8"
| "N_SUBSPECTRA_PER_SPECTRUM SOURCE_FAST = 1"

fun N_SAMPLES_PER_BLOCK :: "site \<Rightarrow> nat" where
  "N_SAMPLES_PER_BLOCK SOURCE_S6 =
     N_FINE_CHAN SOURCE_S6 * N_COARSE_CHAN SOURCE_S6 * N_POLS_PER_BEAM SOURCE_S6 * N_BEAM_SLOTS SOURCE_S6"
| "N_SAMPLES_PER_BLOCK SOURCE_DIBAS =
     N_FINE_CHAN SOURCE_DIBAS * N_COARSE_CHAN SOURCE_DIBAS * N_POLS_PER_BEAM SOURCE_DIBAS"
| "N_SAMPLES_PER_BLOCK SOURCE_FAST =
     N_TIME_SAMPLES SOURCE_FAST * N_COARSE_CHAN SOURCE_FAST * N_POLS_PER_BEAM SOURCE_FAST"

fun N_BORS :: "site \<Rightarrow> nat" where
  "N_BORS SOURCE_S6 = N_BEAMS SOURCE_S6"
| "N_BORS SOURCE_DIBAS = N_SUBSPECTRA_PER_SPECTRUM SOURCE_DIBAS"
| "N_BORS SOURCE_FAST = N_SUBSPECTRA_PER_SPECTRUM SOURCE_FAST"

fun N_SOURCE_NODES :: "site \<Rightarrow> nat" where
  "N_SOURCE_NODES SOURCE_S6 = N_BEAMS SOURCE_S6"
| "N_SOURCE_NODES SOURCE_DIBAS = 8"
| "N_SOURCE_NODES SOURCE_FAST = N_BEAMS SOURCE_FAST * N_POLS_PER_BEAM_TOTAL"

fun N_COARSE_CHAN_PER_BORS :: "site \<Rightarrow> nat" where
  "N_COARSE_CHAN_PER_BORS SOURCE_S6 = N_COARSE_CHAN SOURCE_S6"
| "N_COARSE_CHAN_PER_BORS SOURCE_DIBAS = N_COARSE_CHAN SOURCE_DIBAS div N_BORS SOURCE_DIBAS"
| "N_COARSE_CHAN_PER_BORS SOURCE_FAST = N_COARSE_CHAN SOURCE_FAST div N_BORS SOURCE_FAST"

fun SMOOTH_SCALE :: "site \<Rightarrow> nat" where
  "SMOOTH_SCALE SOURCE_S6 = 1024"
| "SMOOTH_SCALE SOURCE_DIBAS = 1024"
| "SMOOTH_SCALE SOURCE_FAST = 8 * 1024"

fun N_INPUT_BLOCKS :: "site \<Rightarrow> nat" where
  "N_INPUT_BLOCKS SOURCE_S6 = 3"
| "N_INPUT_BLOCKS SOURCE_DIBAS = 3"
| "N_INPUT_BLOCKS SOURCE_FAST = 24"

definition N_DEBUG_INPUT_BLOCKS :: nat where "N_DEBUG_INPUT_BLOCKS = 0"
definition N_OUTPUT_BLOCKS :: nat where "N_OUTPUT_BLOCKS = 3"
definition CACHE_ALIGNMENT :: nat where "CACHE_ALIGNMENT = 256"
definition MAXHITS :: nat where "MAXHITS = 4096"

definition N_BYTES_PER_SUBSPECTRUM :: "site \<Rightarrow> nat" where
  "N_BYTES_PER_SUBSPECTRUM s =
     N_BYTES_PER_SAMPLE s * N_COARSE_CHAN s div N_SUBSPECTRA_PER_SPECTRUM s * N_POLS_PER_BEAM s"

definition N_DATA_BYTES_PER_BLOCK :: "site \<Rightarrow> nat" where
  "N_DATA_BYTES_PER_BLOCK s = N_BYTES_PER_SAMPLE s * N_SAMPLES_PER_BLOCK s"

text \<open>\<open>(int)(1.0 / MIN_POWER_THRESH * N_FINE_CHAN)\<close> with \<open>MIN_POWER_THRESH\<close> 10.0: a tenth of the channels, truncated.\<close>
definition MAXGPUHITS :: "site \<Rightarrow> nat" where
  "MAXGPUHITS s = N_FINE_CHAN s div 10"

lemmas site_consts [s6_const] =
  N_POLS_PER_BEAM_TOTAL_def N_DEBUG_INPUT_BLOCKS_def N_OUTPUT_BLOCKS_def CACHE_ALIGNMENT_def
  MAXHITS_def N_BYTES_PER_SUBSPECTRUM_def N_DATA_BYTES_PER_BLOCK_def MAXGPUHITS_def

subsection \<open>The input ring\<close>

record in_hdr =
  ih_mcnt :: u64
  ih_coarse_chan_id :: u64
  ih_num_coarse_chan :: u64
  ih_sid :: u64
  ih_time_sec :: u64
  ih_time_nsec :: u64
  ih_missed_pkts :: "u64 list"

record in_block =
  ib_header :: in_hdr
  ib_data :: store

definition sizeof_input_block_header :: "site \<Rightarrow> nat" where
  "sizeof_input_block_header s = 8 * 6 + 8 * N_BORS s"

text \<open>The padding types: \<open>CACHE_ALIGNMENT - (size % CACHE_ALIGNMENT)\<close> bytes.\<close>
definition cache_padding :: "nat \<Rightarrow> nat" where
  "cache_padding n = CACHE_ALIGNMENT - n mod CACHE_ALIGNMENT"

definition sizeof_input_block :: "site \<Rightarrow> nat" where
  "sizeof_input_block s =
     sizeof_input_block_header s + cache_padding (sizeof_input_block_header s)
     + 8 * (N_DATA_BYTES_PER_BLOCK s div 8)"

subsection \<open>The output ring\<close>

definition sizeof_output_block_header :: "site \<Rightarrow> nat" where
  "sizeof_output_block_header s =
     8 * 3 + (if s = SOURCE_FAST then 8 else 0) + 8 * 2 + 8 * N_BORS s + 8 * N_BORS s"

definition sizeof_output_block :: "site \<Rightarrow> nat" where
  "sizeof_output_block s =
     sizeof_output_block_header s + cache_padding (sizeof_output_block_header s)
     + 4 * (N_BORS s * MAXGPUHITS s) + 4 * (N_BORS s * MAXGPUHITS s) + 8 * (N_BORS s * MAXGPUHITS s)
     + 4 * (N_BORS s * MAXGPUHITS s) + 4 * (N_BORS s * MAXGPUHITS s) + 4 * (N_BORS s * MAXGPUHITS s)
     + 4 * (N_BORS s * N_COARSE_CHAN_PER_BORS s) + 4 * (N_BORS s * N_COARSE_CHAN_PER_BORS s)"

subsection \<open>Sizes passed to hashpipe\<close>

text \<open>\<open>db\<close> is \<open>sizeof(hashpipe_databuf_t)\<close>, a type of hashpipe.  The results are the
  three arguments (header size, block size, number of blocks) of
  \<open>hashpipe_databuf_create\<close>.\<close>

definition s6_input_databuf_create :: "site \<Rightarrow> nat \<Rightarrow> nat \<times> nat \<times> nat" where
  "s6_input_databuf_create s db =
     (let header_size = db + cache_padding db;
          block_size = sizeof_input_block s;
          n_block = N_INPUT_BLOCKS s + N_DEBUG_INPUT_BLOCKS
      in (header_size, block_size, n_block))"

definition s6_output_databuf_create :: "site \<Rightarrow> nat \<Rightarrow> nat \<times> nat \<times> nat" where
  "s6_output_databuf_create s db =
     (let header_size = db + cache_padding db;
          block_size = sizeof_output_block s;
          n_block = N_OUTPUT_BLOCKS
      in (header_size, block_size, n_block))"

text \<open>Where \<open>block[i].data\<close> lies in the shared memory segment.\<close>
definition input_data_offset :: "site \<Rightarrow> nat \<Rightarrow> nat \<Rightarrow> nat" where
  "input_data_offset s db i =
     (case s6_input_databuf_create s db of (header_size, block_size, n_block) \<Rightarrow>
        header_size + i * block_size
        + sizeof_input_block_header s + cache_padding (sizeof_input_block_header s))"

subsection \<open>Hashpipe, as a parameter\<close>

datatype hp_rv = HASHPIPE_OK | HASHPIPE_TIMEOUT | HASHPIPE_ERR

record 'q hashpipe_ops =
  hp_wait_free :: "'q \<Rightarrow> nat \<Rightarrow> hp_rv \<times> 'q"
  hp_busywait_free :: "'q \<Rightarrow> nat \<Rightarrow> hp_rv \<times> 'q"
  hp_wait_filled :: "'q \<Rightarrow> nat \<Rightarrow> hp_rv \<times> 'q"
  hp_busywait_filled :: "'q \<Rightarrow> nat \<Rightarrow> hp_rv \<times> 'q"
  hp_set_free :: "'q \<Rightarrow> nat \<Rightarrow> hp_rv \<times> 'q"
  hp_set_filled :: "'q \<Rightarrow> nat \<Rightarrow> hp_rv \<times> 'q"

text \<open>The status buffer: \<open>hputu4\<close>, \<open>hputi4\<close>, ... write a value under a
  keyword; \<open>hgetu4\<close>, \<open>hgeti4\<close>, ... leave their output unchanged when the
  keyword is absent (\<open>None\<close>).  Floating-point values are reals.\<close>

datatype stval = U4 u32 | I4 u32 | U8 u64 | I8 u64 | R4 real | R8 real | Str string

record 's status_ops =
  hput :: "'s \<Rightarrow> string \<Rightarrow> stval \<Rightarrow> 's"
  hgetu4 :: "'s \<Rightarrow> string \<Rightarrow> u32 option"
  hgeti4 :: "'s \<Rightarrow> string \<Rightarrow> int option"
  hgetu8 :: "'s \<Rightarrow> string \<Rightarrow> u64 option"
  hgeti8 :: "'s \<Rightarrow> string \<Rightarrow> int option"
  hgetr4 :: "'s \<Rightarrow> string \<Rightarrow> real option"
  hgetr8 :: "'s \<Rightarrow> string \<Rightarrow> real option"
  hgets :: "'s \<Rightarrow> string \<Rightarrow> string option"

text \<open>What the code relies on: a value written under a keyword is read back, and writing one
  keyword leaves the others alone.\<close>

locale status_buffer =
  fixes so :: "'s status_ops"
  assumes hgetu4_same: "hgetu4 so (hput so b k (U4 v)) k = Some v"
    and hgetu4_other: "k' \<noteq> k \<Longrightarrow> hgetu4 so (hput so b k v') k' = hgetu4 so b k'"
begin

lemma hgetu4_hput_U4: "hgetu4 so (hput so b k (U4 v)) k' = (if k' = k then Some v else hgetu4 so b k')"
  by (simp add: hgetu4_same hgetu4_other)

end

text \<open>A status buffer of this kind: the list of the values written, latest first.\<close>

definition list_status :: "(string \<times> stval) list status_ops" where
  "list_status = \<lparr>
     hput = (\<lambda>b k v. (k, v) # b),
     hgetu4 = (\<lambda>b k. case map_of b k of Some (U4 w) \<Rightarrow> Some w | Some (I4 w) \<Rightarrow> Some w | _ \<Rightarrow> None),
     hgeti4 = (\<lambda>b k. case map_of b k of Some (U4 w) \<Rightarrow> Some (sint w) | Some (I4 w) \<Rightarrow> Some (sint w) | _ \<Rightarrow> None),
     hgetu8 = (\<lambda>b k. case map_of b k of Some (U8 w) \<Rightarrow> Some w | Some (I8 w) \<Rightarrow> Some w | _ \<Rightarrow> None),
     hgeti8 = (\<lambda>b k. case map_of b k of Some (U8 w) \<Rightarrow> Some (sint w) | Some (I8 w) \<Rightarrow> Some (sint w) | _ \<Rightarrow> None),
     hgetr4 = (\<lambda>b k. case map_of b k of Some (R8 x) \<Rightarrow> Some x | Some (R4 x) \<Rightarrow> Some x | _ \<Rightarrow> None),
     hgetr8 = (\<lambda>b k. case map_of b k of Some (R8 x) \<Rightarrow> Some x | Some (R4 x) \<Rightarrow> Some x | _ \<Rightarrow> None),
     hgets = (\<lambda>b k. case map_of b k of Some (Str x) \<Rightarrow> Some x | _ \<Rightarrow> None)\<rparr>"

interpretation list_buf: status_buffer list_status
  by unfold_locales (simp_all add: list_status_def)

definition s6_input_databuf_wait_free :: "'q hashpipe_ops \<Rightarrow> 'q \<Rightarrow> nat \<Rightarrow> hp_rv \<times> 'q" where
  "s6_input_databuf_wait_free e d block_id = (let (rv, d') = hp_wait_free e d block_id in (rv, d'))"

definition s6_input_databuf_busywait_free :: "'q hashpipe_ops \<Rightarrow> 'q \<Rightarrow> nat \<Rightarrow> hp_rv \<times> 'q" where
  "s6_input_databuf_busywait_free e d block_id = (let (rv, d') = hp_busywait_free e d block_id in (rv, d'))"

definition s6_input_databuf_wait_filled :: "'q hashpipe_ops \<Rightarrow> 'q \<Rightarrow> nat \<Rightarrow> hp_rv \<times> 'q" where
  "s6_input_databuf_wait_filled e d block_id = (let (rv, d') = hp_wait_filled e d block_id in (rv, d'))"

definition s6_input_databuf_busywait_filled :: "'q hashpipe_ops \<Rightarrow> 'q \<Rightarrow> nat \<Rightarrow> hp_rv \<times> 'q" where
  "s6_input_databuf_busywait_filled e d block_id = (let (rv, d') = hp_busywait_filled e d block_id in (rv, d'))"

definition s6_input_databuf_set_free :: "'q hashpipe_ops \<Rightarrow> 'q \<Rightarrow> nat \<Rightarrow> hp_rv \<times> 'q" where
  "s6_input_databuf_set_free e d block_id = hp_set_free e d block_id"

definition s6_input_databuf_set_filled :: "'q hashpipe_ops \<Rightarrow> 'q \<Rightarrow> nat \<Rightarrow> hp_rv \<times> 'q" where
  "s6_input_databuf_set_filled e d block_id = hp_set_filled e d block_id"

lemmas s6_databuf_wrappers =
  s6_input_databuf_wait_free_def s6_input_databuf_busywait_free_def
  s6_input_databuf_wait_filled_def s6_input_databuf_busywait_filled_def
  s6_input_databuf_set_free_def s6_input_databuf_set_filled_def

subsection \<open>The ring contract\<close>

text \<open>The documented behaviour of the hashpipe semaphores: each block is either
  filled or free; a wait returns only in the awaited state and changes
  nothing; setting a block changes that block alone.\<close>

locale databuf_ring =
  fixes ops :: "'q hashpipe_ops" and filled :: "'q \<Rightarrow> nat \<Rightarrow> bool"
  assumes set_filled_law: "hp_set_filled ops q i = (HASHPIPE_OK, q') \<Longrightarrow> filled q' j = (j = i \<or> filled q j)"
    and set_free_law: "hp_set_free ops q i = (HASHPIPE_OK, q') \<Longrightarrow> filled q' j = (j \<noteq> i \<and> filled q j)"
    and wait_free_law: "hp_busywait_free ops q i = (HASHPIPE_OK, q') \<Longrightarrow> \<not> filled q i \<and> q' = q"
    and wait_filled_law: "hp_wait_filled ops q i = (HASHPIPE_OK, q') \<Longrightarrow> filled q i \<and> q' = q"
begin

lemma input_set_filled:
  "s6_input_databuf_set_filled ops q i = (HASHPIPE_OK, q') \<Longrightarrow> filled q' j = (j = i \<or> filled q j)"
  by (simp add: s6_input_databuf_set_filled_def set_filled_law)

lemma input_busywait_free:
  "s6_input_databuf_busywait_free ops q i = (HASHPIPE_OK, q') \<Longrightarrow> \<not> filled q i \<and> q' = q"
  by (simp add: s6_input_databuf_busywait_free_def wait_free_law)

lemma input_wait_filled:
  "s6_input_databuf_wait_filled ops q i = (HASHPIPE_OK, q') \<Longrightarrow> filled q i \<and> q' = q"
  by (simp add: s6_input_databuf_wait_filled_def wait_filled_law)

lemma input_set_free:
  "s6_input_databuf_set_free ops q i = (HASHPIPE_OK, q') \<Longrightarrow> filled q' j = (j \<noteq> i \<and> filled q j)"
  by (simp add: s6_input_databuf_set_free_def set_free_law)

end

text \<open>An executable ring of this kind: the set of filled blocks as a predicate,
  a wait that times out when the state is not the awaited one.\<close>

definition flag_ring :: "(nat \<Rightarrow> bool) hashpipe_ops" where
  "flag_ring = \<lparr>
     hp_wait_free = (\<lambda>q i. (if q i then HASHPIPE_TIMEOUT else HASHPIPE_OK, q)),
     hp_busywait_free = (\<lambda>q i. (if q i then HASHPIPE_TIMEOUT else HASHPIPE_OK, q)),
     hp_wait_filled = (\<lambda>q i. (if q i then HASHPIPE_OK else HASHPIPE_TIMEOUT, q)),
     hp_busywait_filled = (\<lambda>q i. (if q i then HASHPIPE_OK else HASHPIPE_TIMEOUT, q)),
     hp_set_free = (\<lambda>q i. (HASHPIPE_OK, q(i := False))),
     hp_set_filled = (\<lambda>q i. (HASHPIPE_OK, q(i := True)))\<rparr>"

interpretation flag: databuf_ring flag_ring "\<lambda>q. q"
  by unfold_locales (auto simp: flag_ring_def split: if_splits)

text \<open>A ring that records the calls made on it, each of which succeeds.\<close>

datatype ring_call = Wait_free nat | Wait_filled nat | Set_free nat | Set_filled nat

definition recorder :: "ring_call list hashpipe_ops" where
  "recorder = \<lparr>
     hp_wait_free = (\<lambda>q i. (HASHPIPE_OK, q @ [Wait_free i])),
     hp_busywait_free = (\<lambda>q i. (HASHPIPE_OK, q @ [Wait_free i])),
     hp_wait_filled = (\<lambda>q i. (HASHPIPE_OK, q @ [Wait_filled i])),
     hp_busywait_filled = (\<lambda>q i. (HASHPIPE_OK, q @ [Wait_filled i])),
     hp_set_free = (\<lambda>q i. (HASHPIPE_OK, q @ [Set_free i])),
     hp_set_filled = (\<lambda>q i. (HASHPIPE_OK, q @ [Set_filled i]))\<rparr>"

subsection \<open>Alignment of the block data\<close>

lemma cache_padding_aligned: "CACHE_ALIGNMENT dvd n + cache_padding n"
proof -
  define k r where "k = n div 256" and "r = n mod 256"
  have n: "n = 256 * k + r" and r: "r < 256"
    by (simp_all add: k_def r_def)
  have "n + cache_padding n = 256 * (k + 1)"
    unfolding cache_padding_def CACHE_ALIGNMENT_def r_def [symmetric] using n r by simp
  then have "n + cache_padding n = CACHE_ALIGNMENT * (k + 1)"
    by (simp only: CACHE_ALIGNMENT_def)
  then show ?thesis by simp
qed

lemma data_bytes_aligned: "CACHE_ALIGNMENT dvd 8 * (N_DATA_BYTES_PER_BLOCK s div 8)"
  by (cases s) (simp_all add: s6_const)

lemma sizeof_input_block_aligned: "CACHE_ALIGNMENT dvd sizeof_input_block s"
  unfolding sizeof_input_block_def
  by (intro dvd_add cache_padding_aligned data_bytes_aligned)

end
