(* ===== verification/S6_Window.thy ===== *)
theory S6_Window
  imports S6_Databuf
begin

text \<open>
  The arithmetic that the three network threads share: packet counters (mcnts)
  are cut into blocks of \<open>N\<close> mcnts, and block \<open>k\<close> lives in slot
  \<open>k mod B\<close> of the input ring.  The locale \<open>mcnt_window\<close> states what the
  constants of a thread must satisfy; each thread interprets it on its own
  constants.
\<close>

definition mcnt_block :: "nat \<Rightarrow> nat \<Rightarrow> nat \<Rightarrow> nat" where
  "mcnt_block N B m = (m div N) mod B"

definition mcnt_round :: "nat \<Rightarrow> nat \<Rightarrow> nat" where
  "mcnt_round N m = m - m mod N"

definition mcnt_reset :: "nat \<Rightarrow> nat \<Rightarrow> nat \<Rightarrow> nat \<Rightarrow> nat" where
  "mcnt_reset N B b p =
     (if mcnt_block N B p < b then p + N * (b - mcnt_block N B p)
      else if b < mcnt_block N B p then p + N * (b + B - mcnt_block N B p)
      else p)"

lemma mcnt_round_dvd [simp]: "N dvd mcnt_round N m"
  by (simp add: mcnt_round_def minus_mod_eq_mult_div)

lemma mcnt_round_le: "mcnt_round N m \<le> m"
  by (simp add: mcnt_round_def)

locale mcnt_window =
  fixes N B :: nat
  assumes N_pos: "0 < N" and N_even: "even N" and B_ge: "3 \<le> B"
begin

lemma block_less [simp]: "mcnt_block N B m < B"
  using B_ge by (simp add: mcnt_block_def)

lemma block_add: "mcnt_block N B (m + N * k) = (mcnt_block N B m + k) mod B"
  using N_pos by (simp add: mcnt_block_def mod_simps add.commute)

lemma block_next: "mcnt_block N B (m + N) = (mcnt_block N B m + 1) mod B"
  using block_add [of m 1] by simp

lemma next_ne [simp]: "b < B \<Longrightarrow> (b + 1) mod B \<noteq> b"
  using B_ge by (auto simp: mod_if)

lemma next_next_ne [simp]: "b < B \<Longrightarrow> ((b + 1) mod B + 1) mod B \<noteq> b"
  using B_ge by (auto simp: mod_if)

lemma round_in_block: "N dvd m \<Longrightarrow> m \<le> p \<Longrightarrow> p < m + N \<Longrightarrow> mcnt_round N p = m"
proof -
  assume m: "N dvd m" "m \<le> p" "p < m + N"
  then obtain r where p: "p = m + r" and r: "r < N"
    by (metis le_Suc_ex nat_add_left_cancel_less)
  have "p mod N = r"
    using m(1) r by (simp add: p mod_add_left_eq [of m N r, symmetric] dvd_eq_mod_eq_0)
  then show ?thesis by (simp add: mcnt_round_def p)
qed

lemma block_round [simp]: "mcnt_block N B (mcnt_round N p) = mcnt_block N B p"
  using N_pos by (simp add: mcnt_block_def mcnt_round_def minus_mod_eq_mult_div)

lemma block_same: "N dvd m \<Longrightarrow> m \<le> p \<Longrightarrow> p < m + N \<Longrightarrow> mcnt_block N B p = mcnt_block N B m"
  using block_round [of p] round_in_block by simp

lemma block_following:
  "N dvd m \<Longrightarrow> m + N \<le> p \<Longrightarrow> p < m + 2 * N \<Longrightarrow> mcnt_block N B p = (mcnt_block N B m + 1) mod B"
  using block_same [of "m + N" p] block_next [of m] by simp

text \<open>The reset arithmetic keeps the ring position of the current block.\<close>

lemma block_reset:
  assumes "b < B"
  shows "mcnt_block N B (mcnt_reset N B b p) = b"
proof -
  define c where "c = mcnt_block N B p"
  have c: "c < B" by (simp add: c_def)
  consider "c < b" | "b < c" | "b = c" by linarith
  then show ?thesis
  proof cases
    case 1
    then have "mcnt_block N B (p + N * (b - c)) = (c + (b - c)) mod B"
      by (simp add: block_add c_def)
    with 1 assms show ?thesis by (simp add: mcnt_reset_def c_def [symmetric])
  next
    case 2
    then have "mcnt_block N B (p + N * (b + B - c)) = (c + (b + B - c)) mod B"
      by (simp add: block_add c_def)
    with 2 c assms show ?thesis by (simp add: mcnt_reset_def c_def [symmetric])
  next
    case 3
    then show ?thesis by (simp add: mcnt_reset_def c_def)
  qed
qed

lemma reset_bounds: "b < B \<Longrightarrow> p \<le> mcnt_reset N B b p \<and> mcnt_reset N B b p \<le> p + N * B"
  using block_less [of p] by (auto simp: mcnt_reset_def intro!: mult_le_mono2)

end

end
