(* ===== verification/S6_Pktsock.thy ===== *)
theory S6_Pktsock
  imports S6_Window
begin

text \<open>
  The packet-socket network thread, \<open>src/src/s6_pktsock_thread.cpp\<close>.  The
  static \<open>block_info_t binfo\<close> of \<open>process_packet\<close>, the static
  \<open>last_filled\<close> of \<open>set_block_filled\<close>, the input ring's blocks,
  the hashpipe semaphores and status buffer and the warnings printed form one
  state record, which every operation takes and returns.  \<open>pthread_exit\<close> is the
  result \<open>None\<close>.
\<close>

subsection \<open>Constants and types of the file\<close>

definition Nm :: "site \<Rightarrow> nat" where
  "Nm s = N_TIME_SAMPLES s div N_SPECTRA_PER_PACKET s"

definition N_PACKETS_PER_BLOCK :: "site \<Rightarrow> nat" where
  "N_PACKETS_PER_BLOCK s = Nm s * N_BEAMS s"

fun N_BYTES_PER_CHAN :: "site \<Rightarrow> nat" where
  "N_BYTES_PER_CHAN SOURCE_FAST = 1"
| "N_BYTES_PER_CHAN SOURCE_S6 = 4"
| "N_BYTES_PER_CHAN SOURCE_DIBAS = 4"

definition MAX_OUT_OF_SEQ :: "site \<Rightarrow> int" where
  "MAX_OUT_OF_SEQ s = 2 * int (N_BORS s)"

definition LATE_PKT_MCNT_THRESHOLD :: "site \<Rightarrow> nat" where
  "LATE_PKT_MCNT_THRESHOLD s = 2 * Nm s * N_INPUT_BLOCKS s"

abbreviation Nmw :: "site \<Rightarrow> u64" where "Nmw s \<equiv> of_nat (Nm s)"

record packet_header =
  ph_mcnt :: u64
  ph_pchan :: u64
  ph_nchan :: u64
  ph_sid :: u64

record block_info =
  bi_initialized :: bool
  bi_pchan :: u64
  bi_nchan :: u64
  bi_mcnt_start :: u64
  bi_mcnt_log_late :: u64
  bi_out_of_seq_cnt :: int
  bi_block_i :: nat
  bi_block_packet_counter :: "u32 list"

text \<open>A captured frame: the UDP payload (\<open>PKT_UDP_DATA\<close>) and the length field of
  the UDP header (\<open>PKT_UDP_SIZE\<close>).\<close>

record frame =
  udp_data :: store
  udp_size :: nat

datatype net_warning =
    Fill_order nat int
  | Block_mismatch nat nat
  | Bad_sid u64
  | Pchan_changed u64 u64
  | Nchan_changed u64 u64
  | Late_packet u64
  | Out_of_seq u64
  | Resetting u64 nat u64
  | Invalid_pkt_size int
  | Missed_packets u64 nat

record ('q, 's) net_state =
  n_binfo :: block_info
  n_last_filled :: int
  n_blocks :: "in_block list"
  n_sem :: 'q
  n_status :: 's
  n_warnings :: "net_warning list"

definition warn :: "net_warning \<Rightarrow> ('q, 's) net_state \<Rightarrow> ('q, 's) net_state" where
  "warn w st = st\<lparr>n_warnings := n_warnings st @ [w]\<rparr>"

subsection \<open>Block numbers and headers\<close>

definition block_for_mcnt :: "site \<Rightarrow> u64 \<Rightarrow> nat" where
  "block_for_mcnt s mcnt = unat ((mcnt div Nmw s) mod of_nat (N_INPUT_BLOCKS s))"

text \<open>The 256-bit streaming copy: whole 32-byte words only, each as two 16-byte halves.\<close>

fun s6_memcpy_loop :: "store \<Rightarrow> store \<Rightarrow> nat \<Rightarrow> nat \<Rightarrow> store" where
  "s6_memcpy_loop out inp i 0 = out"
| "s6_memcpy_loop out inp i (Suc n) =
     (let lo128 = (\<lambda>k. inp (32 * i + k));
          hi128 = (\<lambda>k. inp (32 * i + 16 + k));
          out256 = (\<lambda>k. if k < 16 then lo128 k else hi128 (k - 16))
      in s6_memcpy_loop (memcpy out (32 * i) out256 32) inp (Suc i) n)"

definition s6_memcpy :: "store \<Rightarrow> store \<Rightarrow> nat \<Rightarrow> store" where
  "s6_memcpy out inp n_bytes = s6_memcpy_loop out inp 0 (n_bytes div 32)"

text \<open>\<open>be64toh\<close> of the first payload word on a little-endian host, and the word itself.\<close>

definition load_be64 :: "store \<Rightarrow> u64" where
  "load_be64 f = foldl (\<lambda>w i. push_bit 8 w OR ucast (f i)) 0 [0, 1, 2, 3, 4, 5, 6, 7]"

definition load_le64 :: "store \<Rightarrow> u64" where
  "load_le64 f = foldl (\<lambda>w i. push_bit 8 w OR ucast (f i)) 0 [7, 6, 5, 4, 3, 2, 1, 0]"

fun header_overhead :: "site \<Rightarrow> nat" where
  "header_overhead SOURCE_S6 = 3 * 8"
| "header_overhead SOURCE_DIBAS = 5 * 8"
| "header_overhead SOURCE_FAST = 3 * 8"

definition header_nchan :: "site \<Rightarrow> nat \<Rightarrow> u64" where
  "header_nchan s udp =
     ucast ((of_nat udp - of_nat (header_overhead s) :: u32)
            div of_nat (N_BYTES_PER_CHAN s) div of_nat (N_SPECTRA_PER_PACKET s))"

fun decode_header :: "site \<Rightarrow> u64 \<Rightarrow> u64 \<Rightarrow> packet_header" where
  "decode_header SOURCE_S6 raw nchan =
     \<lparr>ph_mcnt = drop_bit 16 raw,
      ph_pchan = drop_bit 4 raw AND 0x0000000000000FFF,
      ph_nchan = nchan,
      ph_sid = raw AND 0x000000000000000F\<rparr>"
| "decode_header SOURCE_DIBAS raw nchan =
     \<lparr>ph_mcnt = raw AND 0x00FFFFFFFFFFFFFF,
      ph_pchan = drop_bit 56 raw * of_nat (N_COARSE_CHAN SOURCE_DIBAS),
      ph_nchan = nchan,
      ph_sid = drop_bit 56 raw\<rparr>"
| "decode_header SOURCE_FAST raw nchan =
     (let raw_sid = (ucast (drop_bit 56 raw) :: u8);
          beam = drop_bit 1 (raw_sid AND 0x3e);
          pol = raw_sid AND 0x01
      in \<lparr>ph_mcnt = raw AND 0x00FFFFFFFFFFFFFF,
          ph_pchan = 0,
          ph_nchan = nchan,
          ph_sid = of_int ((uint beam - 1) * 2 + uint pol)\<rparr>)"

definition get_header :: "site \<Rightarrow> frame \<Rightarrow> packet_header" where
  "get_header s f =
     (let raw_header = (if s = SOURCE_FAST then load_le64 (udp_data f) else load_be64 (udp_data f))
      in decode_header s raw_header (header_nchan s (udp_size f)))"

subsection \<open>Marking and initialising blocks\<close>

definition set_block_filled ::
  "site \<Rightarrow> 'q hashpipe_ops \<Rightarrow> 's status_ops \<Rightarrow> ('q, 's) net_state \<Rightarrow> ('q, 's) net_state \<times> u64 option" where
  "set_block_filled s e so st =
     (let binfo = n_binfo st;
          block_i = block_for_mcnt s (bi_mcnt_start binfo);
          last_filled = (n_last_filled st + 1) mod int (N_INPUT_BLOCKS s);
          st = st\<lparr>n_last_filled := last_filled\<rparr>;
          st = (if last_filled \<noteq> int block_i then warn (Fill_order block_i last_filled) st else st);
          st = (if block_i \<noteq> bi_block_i binfo then warn (Block_mismatch block_i (bi_block_i binfo)) st else st);
          (rv, sem) = s6_input_databuf_set_filled e (n_sem st) block_i;
          st = st\<lparr>n_sem := sem\<rparr>
      in if rv \<noteq> HASHPIPE_OK then (st, None)
         else
           (let block_missed_pkt_cnt =
                  of_nat (N_PACKETS_PER_BLOCK s) - bi_block_packet_counter binfo ! block_i;
                block_missed_beams = block_missed_pkt_cnt div of_nat (Nm s);
                block_missed_mod_cnt = block_missed_pkt_cnt mod of_nat (Nm s);
                buf = n_status st;
                buf = hput so buf ''NETBKOUT'' (U4 (of_nat block_i));
                buf = hput so buf ''MISSEDBM'' (U4 block_missed_beams);
                buf = (if block_missed_mod_cnt \<noteq> 0
                       then (let missed_pkt_cnt =
                                   (case hgetu4 so buf ''MISSEDPK'' of Some v \<Rightarrow> v | None \<Rightarrow> 0)
                                   + block_missed_mod_cnt
                             in hput so buf ''MISSEDPK'' (U4 missed_pkt_cnt))
                       else buf);
                buf = hput so buf ''SCHAN'' (I4 (ucast (bi_pchan binfo)));
                buf = hput so buf ''NCHAN'' (I4 (ucast (bi_nchan binfo)))
            in (st\<lparr>n_status := buf\<rparr>, Some (bi_mcnt_start binfo))))"

text \<open>\<open>False\<close> is the result \<open>-1\<close>: the packet's source ID is out of range.\<close>

definition calc_block_indexes ::
  "site \<Rightarrow> packet_header \<Rightarrow> ('q, 's) net_state \<Rightarrow> ('q, 's) net_state \<times> bool" where
  "calc_block_indexes s h st =
     (if of_nat (N_SOURCE_NODES s) \<le> ph_sid h then (warn (Bad_sid (ph_sid h)) st, False)
      else
        (let b = n_binfo st;
             b = (if bi_nchan b = 0 then b\<lparr>bi_nchan := ph_nchan h, bi_pchan := ph_pchan h\<rparr> else b);
             st = st\<lparr>n_binfo := b\<rparr>;
             st = (if ph_pchan h \<noteq> bi_pchan b then warn (Pchan_changed (ph_pchan h) (bi_pchan b)) st else st);
             st = (if ph_nchan h \<noteq> bi_nchan b then warn (Nchan_changed (ph_nchan h) (bi_nchan b)) st else st)
         in (st, True)))"

definition set_header :: "nat \<Rightarrow> (in_hdr \<Rightarrow> in_hdr) \<Rightarrow> in_block list \<Rightarrow> in_block list" where
  "set_header i f bs = bs[i := (bs ! i)\<lparr>ib_header := f (ib_header (bs ! i))\<rparr>]"

definition set_data :: "nat \<Rightarrow> (store \<Rightarrow> store) \<Rightarrow> in_block list \<Rightarrow> in_block list" where
  "set_data i f bs = bs[i := (bs ! i)\<lparr>ib_data := f (ib_data (bs ! i))\<rparr>]"

definition initialize_block ::
  "site \<Rightarrow> u64 \<Rightarrow> u64 \<Rightarrow> u64 \<Rightarrow> u64 \<Rightarrow> in_block list \<Rightarrow> in_block list" where
  "initialize_block s mcnt pchan nchan sid bs =
     (let block_i = block_for_mcnt s mcnt
      in set_header block_i
           (\<lambda>h. h\<lparr>ih_missed_pkts := map (\<lambda>i. if i < N_BORS s then Nmw s else 0) [0..<N_BORS s],
                  ih_mcnt := mcnt - (mcnt mod Nmw s),
                  ih_coarse_chan_id := pchan,
                  ih_num_coarse_chan := nchan,
                  ih_sid := sid\<rparr>) bs)"

definition initialize_block_info :: "site \<Rightarrow> block_info \<Rightarrow> block_info" where
  "initialize_block_info s binfo =
     (if bi_initialized binfo then binfo
      else \<lparr>bi_initialized = True, bi_pchan = 0, bi_nchan = 0, bi_mcnt_start = 0,
            bi_mcnt_log_late = Nmw s, bi_out_of_seq_cnt = 0, bi_block_i = 0,
            bi_block_packet_counter = replicate (N_INPUT_BLOCKS s) 0\<rparr>)"

subsection \<open>Unpacking a packet into its block\<close>

text \<open>\<open>dest_p - data\<close> in 64-bit words, in \<open>uint64_t\<close> arithmetic, as the three sites compute it.\<close>

definition dest_s6 :: "u64 \<Rightarrow> u64 \<Rightarrow> u64" where
  "dest_s6 sid pkt_mcnt =
     (sid * Nmw SOURCE_S6 + pkt_mcnt mod Nmw SOURCE_S6)
     * of_nat (N_COARSE_CHAN SOURCE_S6) * of_nat (N_BYTES_PER_CHAN SOURCE_S6) div 8"

definition dest_dibas :: "u64 \<Rightarrow> nat \<Rightarrow> nat \<Rightarrow> u64" where
  "dest_dibas pkt_mcnt pkt_spectrum_i sub_spectrum_i =
     (let pkt_spectrum_mcnt = pkt_mcnt * of_nat (N_SPECTRA_PER_PACKET SOURCE_DIBAS) + of_nat pkt_spectrum_i
      in (of_nat sub_spectrum_i * of_nat (N_FINE_CHAN SOURCE_DIBAS)
          + pkt_spectrum_mcnt mod of_nat (N_FINE_CHAN SOURCE_DIBAS))
         * of_nat (N_BYTES_PER_SUBSPECTRUM SOURCE_DIBAS) div 8)"

definition dest_fast :: "u64 \<Rightarrow> u64" where
  "dest_fast pkt_mcnt =
     pkt_mcnt mod Nmw SOURCE_FAST * of_nat (N_SPECTRA_PER_PACKET SOURCE_FAST) div 8"

text \<open>The payload follows the 8-byte header.  \<open>memcpy\<close> lengths are \<open>size_t\<close>
  conversions of an \<open>int\<close>.\<close>

definition payload :: "frame \<Rightarrow> store" where
  "payload f = (\<lambda>i. udp_data f (8 + i))"

definition copy_len :: "frame \<Rightarrow> int \<Rightarrow> nat" where
  "copy_len f overhead = unat (of_int (int (udp_size f) - overhead) :: u64)"

text \<open>The two nested loops over the spectra of a packet and their subspectra; the
  running \<open>src_p\<close> is kept as a byte offset into the payload.\<close>

definition dibas_copy_step :: "u64 \<Rightarrow> store \<Rightarrow> nat \<Rightarrow> nat \<Rightarrow> store \<times> nat \<Rightarrow> store \<times> nat" where
  "dibas_copy_step pkt_mcnt pay pkt_spectrum_i sub_spectrum_i = (\<lambda>(d, src).
     (memcpy d (8 * unat (dest_dibas pkt_mcnt pkt_spectrum_i sub_spectrum_i)) (\<lambda>i. pay (src + i))
        (N_BYTES_PER_SUBSPECTRUM SOURCE_DIBAS),
      src + 8 * (N_BYTES_PER_SUBSPECTRUM SOURCE_DIBAS div 8)))"

definition dibas_copy :: "u64 \<Rightarrow> store \<Rightarrow> store \<Rightarrow> store" where
  "dibas_copy pkt_mcnt pay d =
     fst (fold (\<lambda>pkt_spectrum_i.
             fold (\<lambda>sub_spectrum_i. dibas_copy_step pkt_mcnt pay pkt_spectrum_i sub_spectrum_i)
               [0..<N_SUBSPECTRA_PER_SPECTRUM SOURCE_DIBAS])
           [0..<N_SPECTRA_PER_PACKET SOURCE_DIBAS] (d, 0))"

fun copy_payload :: "site \<Rightarrow> packet_header \<Rightarrow> frame \<Rightarrow> store \<Rightarrow> store" where
  "copy_payload SOURCE_S6 h f d =
     memcpy d (8 * unat (dest_s6 (ph_sid h) (ph_mcnt h))) (payload f) (copy_len f (8 + 8 + 8))"
| "copy_payload SOURCE_DIBAS h f d =
     dibas_copy (ph_mcnt h) (payload f) d"
| "copy_payload SOURCE_FAST h f d =
     memcpy d (8 * unat (dest_fast (ph_mcnt h))) (payload f) (copy_len f (8 + 8))"

subsection \<open>Handling one packet\<close>

text \<open>The packet lies in the second half of the next block: the current block is
  time-stamped and marked filled, the window advances, and the block after
  the new current one is acquired and initialised.\<close>

definition finish_block ::
  "site \<Rightarrow> 'q hashpipe_ops \<Rightarrow> 's status_ops \<Rightarrow> u64 \<times> u64 \<Rightarrow> packet_header \<Rightarrow>
   ('q, 's) net_state \<Rightarrow> ('q, 's) net_state \<times> u64 option" where
  "finish_block s e so now h st =
     (let st = st\<lparr>n_blocks := set_header (bi_block_i (n_binfo st))
                    (\<lambda>hd. hd\<lparr>ih_time_sec := fst now, ih_time_nsec := snd now\<rparr>) (n_blocks st)\<rparr>
      in case set_block_filled s e so st of
           (st, None) \<Rightarrow> (st, None)
         | (st, Some netmcnt) \<Rightarrow>
             (let b = n_binfo st;
                  b = b\<lparr>bi_mcnt_start := bi_mcnt_start b + Nmw s,
                        bi_block_i := (bi_block_i b + 1) mod N_INPUT_BLOCKS s,
                        bi_pchan := 0,
                        bi_nchan := 0\<rparr>;
                  st = st\<lparr>n_binfo := b\<rparr>;
                  new_block_i = (bi_block_i b + 1) mod N_INPUT_BLOCKS s;
                  (rv, sem) = s6_input_databuf_busywait_free e (n_sem st) new_block_i;
                  st = st\<lparr>n_sem := sem\<rparr>
              in if rv \<noteq> HASHPIPE_OK then (st, None)
                 else
                   (st\<lparr>n_blocks := initialize_block s (ph_mcnt h + Nmw s) (ph_pchan h) (ph_nchan h) (ph_sid h)
                                    (n_blocks st),
                       n_binfo := b\<lparr>bi_block_packet_counter :=
                                       (bi_block_packet_counter b)[new_block_i := 0]\<rparr>\<rparr>,
                    Some netmcnt)))"

text \<open>Counting, validating and unpacking a packet of the current or the next block.\<close>

definition accept_packet ::
  "site \<Rightarrow> packet_header \<Rightarrow> frame \<Rightarrow> u64 \<Rightarrow> ('q, 's) net_state \<Rightarrow> ('q, 's) net_state \<times> u64" where
  "accept_packet s h f netmcnt st =
     (let pkt_block_i = block_for_mcnt s (ph_mcnt h);
          b = n_binfo st;
          b = b\<lparr>bi_out_of_seq_cnt := 0\<rparr>;
          b = b\<lparr>bi_block_packet_counter :=
                  (bi_block_packet_counter b)[pkt_block_i := bi_block_packet_counter b ! pkt_block_i + 1]\<rparr>;
          st = st\<lparr>n_binfo := b\<rparr>;
          (st, ok) = calc_block_indexes s h st
      in if \<not> ok then (st, - 1)
         else
           (let k = (if s = SOURCE_FAST then 0 else unat (ph_sid h));
                bs = set_header pkt_block_i
                       (\<lambda>hd. hd\<lparr>ih_missed_pkts := (ih_missed_pkts hd)[k := ih_missed_pkts hd ! k - 1]\<rparr>)
                       (n_blocks st);
                bs = set_data pkt_block_i (copy_payload s h f) bs
            in (st\<lparr>n_blocks := bs\<rparr>, netmcnt)))"

definition ignore_late_packet :: "packet_header \<Rightarrow> ('q, 's) net_state \<Rightarrow> ('q, 's) net_state" where
  "ignore_late_packet h st =
     (let cur_mcnt = bi_mcnt_start (n_binfo st)
      in if bi_mcnt_log_late (n_binfo st) \<le> cur_mcnt
         then warn (Late_packet (cur_mcnt - ph_mcnt h)) st
         else st)"

text \<open>Too many packets out of sequence in a row: the window moves to the packet, keeping the
  ring position, and the two blocks already acquired are initialised again.\<close>

definition reset_mcnt :: "site \<Rightarrow> nat \<Rightarrow> nat \<Rightarrow> u64 \<Rightarrow> u64" where
  "reset_mcnt s block_i pkt_block_i pkt_mcnt =
     (if pkt_block_i < block_i then pkt_mcnt + Nmw s * of_nat (block_i - pkt_block_i)
      else if block_i < pkt_block_i then pkt_mcnt + Nmw s * of_nat (block_i + N_INPUT_BLOCKS s - pkt_block_i)
      else pkt_mcnt)"

definition reset_window :: "site \<Rightarrow> packet_header \<Rightarrow> ('q, 's) net_state \<Rightarrow> ('q, 's) net_state" where
  "reset_window s h st =
     (let b = n_binfo st;
          pkt_mcnt = reset_mcnt s (bi_block_i b) (block_for_mcnt s (ph_mcnt h)) (ph_mcnt h);
          mcnt_start = pkt_mcnt - (pkt_mcnt mod Nmw s);
          block_i = block_for_mcnt s mcnt_start;
          b = b\<lparr>bi_mcnt_start := mcnt_start,
                bi_mcnt_log_late := mcnt_start + Nmw s,
                bi_block_i := block_i,
                bi_pchan := 0,
                bi_nchan := 0\<rparr>;
          st = warn (Resetting mcnt_start block_i pkt_mcnt) st;
          bs = initialize_block s mcnt_start (ph_pchan h) (ph_nchan h) (ph_sid h) (n_blocks st);
          bs = initialize_block s (mcnt_start + Nmw s) (ph_pchan h) (ph_nchan h) (ph_sid h) bs;
          cs = bi_block_packet_counter b;
          cs = cs[block_i := 0];
          cs = cs[(block_i + 1) mod N_INPUT_BLOCKS s := 0]
      in st\<lparr>n_blocks := bs, n_binfo := b\<lparr>bi_block_packet_counter := cs\<rparr>\<rparr>)"

definition out_of_seq_packet :: "site \<Rightarrow> packet_header \<Rightarrow> ('q, 's) net_state \<Rightarrow> ('q, 's) net_state" where
  "out_of_seq_packet s h st =
     (let st = (if bi_mcnt_start (n_binfo st) \<noteq> 0 then warn (Out_of_seq (ph_mcnt h)) st else st);
          b = n_binfo st;
          b = b\<lparr>bi_out_of_seq_cnt := bi_out_of_seq_cnt b + 1\<rparr>;
          st = st\<lparr>n_binfo := b\<rparr>
      in if MAX_OUT_OF_SEQ s < bi_out_of_seq_cnt b then reset_window s h st else st)"

definition process_packet ::
  "site \<Rightarrow> 'q hashpipe_ops \<Rightarrow> 's status_ops \<Rightarrow> u64 \<times> u64 \<Rightarrow> frame \<Rightarrow>
   ('q, 's) net_state \<Rightarrow> ('q, 's) net_state \<times> u64 option" where
  "process_packet s e so now f st =
     (let st = st\<lparr>n_binfo := initialize_block_info s (n_binfo st)\<rparr>;
          h = get_header s f;
          pkt_mcnt = ph_mcnt h;
          cur_mcnt = bi_mcnt_start (n_binfo st);
          pkt_mcnt_dist = sint (pkt_mcnt - cur_mcnt)
      in if 0 \<le> pkt_mcnt_dist \<and> pkt_mcnt_dist < 2 * int (Nm s)
         then
           (case (if 3 * (int (Nm s) div 2) \<le> pkt_mcnt_dist
                  then finish_block s e so now h st
                  else (st, Some (- 1))) of
              (st, None) \<Rightarrow> (st, None)
            | (st, Some netmcnt) \<Rightarrow>
                (let (st, rv) = accept_packet s h f netmcnt st in (st, Some rv)))
         else if pkt_mcnt_dist < 0 \<and> - int (LATE_PKT_MCNT_THRESHOLD s) < pkt_mcnt_dist
         then (ignore_late_packet h st, Some (- 1))
         else (out_of_seq_packet s h st, Some (- 1)))"

subsection \<open>The thread: start-up\<close>

text \<open>\<open>init\<close>: the results of the system and hashpipe calls are its inputs.\<close>

record init_env =
  ie_malloc_ok :: bool
  ie_open_ok :: bool
  ie_fastbeam :: "int option"
  ie_fastpol :: "int option"
  ie_socket_ok :: bool
  ie_bind_ok :: bool
  ie_join_ok :: bool

datatype init_result = Init_ok string | Init_failed | Thread_exit | Process_exit

definition show_int :: "int \<Rightarrow> string" where
  "show_int i = (if i < 0 then ''-'' @ digits (nat (- i)) else digits (nat i))"

fun default_bindport :: "site \<Rightarrow> int" where
  "default_bindport SOURCE_S6 = 21302"
| "default_bindport SOURCE_DIBAS = 60000"
| "default_bindport SOURCE_FAST = 12346"

definition multicast_group :: "site \<Rightarrow> int \<Rightarrow> int \<Rightarrow> string" where
  "multicast_group s beam pol =
     (if s = SOURCE_FAST then ''239.1.'' @ show_int beam @ ''.'' @ show_int (3 + pol) else ''239.0.0.1'')"

definition pktsock_init ::
  "site \<Rightarrow> 's status_ops \<Rightarrow> init_env \<Rightarrow> string \<Rightarrow> 's \<Rightarrow> 's \<times> init_result" where
  "pktsock_init s so ie stack_bindhost buf =
     (let bindhost = (case hgets so buf ''BINDHOST'' of Some v \<Rightarrow> v | None \<Rightarrow> stack_bindhost);
          bindport = (case hgeti4 so buf ''BINDPORT'' of Some v \<Rightarrow> v | None \<Rightarrow> default_bindport s);
          buf = hput so buf ''BINDHOST'' (Str bindhost);
          buf = hput so buf ''BINDPORT'' (I4 (of_int bindport))
      in if \<not> ie_malloc_ok ie then (buf, Init_failed)
         else if \<not> ie_open_ok ie then (buf, Thread_exit)
         else
           (let beam = (case ie_fastbeam ie of Some v \<Rightarrow> v | None \<Rightarrow> - 1);
                pol = (case ie_fastpol ie of Some v \<Rightarrow> v | None \<Rightarrow> - 1)
            in if s = SOURCE_FAST \<and> (beam = - 1 \<or> pol = - 1) then (buf, Thread_exit)
               else if \<not> ie_socket_ok ie then (buf, Thread_exit)
               else if \<not> ie_bind_ok ie then (buf, Process_exit)
               else if \<not> ie_join_ok ie then (buf, Thread_exit)
               else (buf, Init_ok (multicast_group s beam pol))))"

text \<open>The first two blocks are acquired and initialised before the loop.\<close>

definition acquire_first_blocks ::
  "site \<Rightarrow> 'q hashpipe_ops \<Rightarrow> ('q, 's) net_state \<Rightarrow> ('q, 's) net_state option" where
  "acquire_first_blocks s e st =
     (let (rv, sem) = s6_input_databuf_busywait_free e (n_sem st) 0
      in if rv \<noteq> HASHPIPE_OK then None
         else
           (let (rv, sem) = s6_input_databuf_busywait_free e sem 1
            in if rv \<noteq> HASHPIPE_OK then None
               else Some (st\<lparr>n_sem := sem,
                             n_blocks := initialize_block s (Nmw s) 0 0 0
                                           (initialize_block s 0 0 0 0 (n_blocks st))\<rparr>)))"

definition max_packet_size :: "site \<Rightarrow> nat" where
  "max_packet_size s = 8 + N_COARSE_CHAN s * N_BYTES_PER_CHAN s * N_SPECTRA_PER_PACKET s + 8 + 16"

definition reset_missed_status :: "'s status_ops \<Rightarrow> string \<Rightarrow> 's \<Rightarrow> 's" where
  "reset_missed_status so status_key buf =
     (let buf = hput so buf ''MISSEDBM'' (U4 0);
          buf = hput so buf ''MISSEDPK'' (U4 0)
      in hput so buf status_key (Str ''running''))"

subsection \<open>The thread: the main loop\<close>

type_synonym timespec = "int \<times> int"

definition ELAPSED_NS :: "timespec \<Rightarrow> timespec \<Rightarrow> u64" where
  "ELAPSED_NS start stop = of_int ((fst stop - fst start) * 1000 * 1000 * 1000 + (snd stop - snd start))"

text \<open>What one iteration obtains from outside: the frame, the clock readings, the
  packet socket's counters, whether the thread was told to stop while it
  polled, and whether the voltage file can be opened.\<close>

record rx_event =
  rx_frame :: frame
  rx_recv_start :: timespec
  rx_start :: timespec
  rx_recv_stop :: timespec
  rx_stop :: timespec
  rx_now :: "u64 \<times> u64"
  rx_pkts :: u32
  rx_drops :: u32
  rx_quit :: bool
  rx_can_open :: bool

record net_stats =
  ns_packet_count :: u64
  ns_elapsed_wait :: u64
  ns_elapsed_recv :: u64
  ns_elapsed_proc :: u64
  ns_min_wait :: u64
  ns_min_recv :: u64
  ns_min_proc :: u64
  ns_max_wait :: u64
  ns_max_recv :: u64
  ns_max_proc :: u64
  ns_pkts_total :: u64
  ns_drops_total :: u64
  ns_dumpbool :: int

definition net_stats_init :: net_stats where
  "net_stats_init =
     \<lparr>ns_packet_count = 0, ns_elapsed_wait = 0, ns_elapsed_recv = 0, ns_elapsed_proc = 0,
      ns_min_wait = 99999, ns_min_recv = 99999, ns_min_proc = 99999,
      ns_max_wait = 0, ns_max_recv = 0, ns_max_proc = 0,
      ns_pkts_total = 0, ns_drops_total = 0, ns_dumpbool = 0\<rparr>"

definition packet_size_ok :: "site \<Rightarrow> frame \<Rightarrow> bool" where
  "packet_size_ok s f =
     (let packet_size = int (udp_size f) - 8
      in \<not> (packet_size < 16 \<or> int (max_packet_size s) < packet_size \<or> packet_size mod 8 \<noteq> 0))"

definition packet_stats :: "rx_event \<Rightarrow> net_stats \<Rightarrow> net_stats" where
  "packet_stats ev ns =
     (let wait_ns = ELAPSED_NS (rx_recv_start ev) (rx_start ev);
          recv_ns = ELAPSED_NS (rx_start ev) (rx_recv_stop ev);
          proc_ns = ELAPSED_NS (rx_recv_stop ev) (rx_stop ev)
      in ns\<lparr>ns_elapsed_wait := ns_elapsed_wait ns + wait_ns,
            ns_elapsed_recv := ns_elapsed_recv ns + recv_ns,
            ns_elapsed_proc := ns_elapsed_proc ns + proc_ns,
            ns_min_wait := min wait_ns (ns_min_wait ns),
            ns_min_recv := min recv_ns (ns_min_recv ns),
            ns_min_proc := min proc_ns (ns_min_proc ns),
            ns_max_wait := max wait_ns (ns_max_wait ns),
            ns_max_recv := max recv_ns (ns_max_recv ns),
            ns_max_proc := max proc_ns (ns_max_proc ns)\<rparr>)"

definition avg_ns :: "u64 \<Rightarrow> u64 \<Rightarrow> real" where
  "avg_ns elapsed packet_count = of_nat (unat elapsed) / of_nat (unat packet_count)"

text \<open>The statistics written when a block was marked filled; the sums restart per block.\<close>

definition block_stats ::
  "site \<Rightarrow> 's status_ops \<Rightarrow> rx_event \<Rightarrow> u64 \<Rightarrow> net_stats \<Rightarrow> 's \<Rightarrow> net_stats \<times> 's" where
  "block_stats s so ev mcnt ns buf =
     (let ns_per_wait = avg_ns (ns_elapsed_wait ns) (ns_packet_count ns);
          ns_per_recv = avg_ns (ns_elapsed_recv ns) (ns_packet_count ns);
          ns_per_proc = avg_ns (ns_elapsed_proc ns) (ns_packet_count ns);
          packet_size = int (udp_size (rx_frame ev)) - 8;
          buf = hput so buf ''NETMCNT'' (U8 mcnt);
          buf = hput so buf ''NETGBPS'' (R4 (of_int (8 * packet_size) / (ns_per_recv + ns_per_proc)));
          buf = hput so buf ''NETWATNS'' (R4 ns_per_wait);
          buf = hput so buf ''NETRECNS'' (R4 ns_per_recv);
          buf = hput so buf ''NETPRCNS'' (R4 ns_per_proc);
          buf = hput so buf ''NETWATMN'' (I8 (ns_min_wait ns));
          buf = hput so buf ''NETRECMN'' (I8 (ns_min_recv ns));
          buf = hput so buf ''NETPRCMN'' (I8 (ns_min_proc ns));
          buf = hput so buf ''NETWATMX'' (I8 (ns_max_wait ns));
          buf = hput so buf ''NETRECMX'' (I8 (ns_max_recv ns));
          buf = hput so buf ''NETPRCMX'' (I8 (ns_max_proc ns));
          buf = hput so buf ''NETPKTS'' (U8 (ucast (rx_pkts ev)));
          buf = hput so buf ''NETDROPS'' (U8 (ucast (rx_drops ev)));
          pkts_total = (case hgetu8 so buf ''NETPKTTL'' of Some v \<Rightarrow> v | None \<Rightarrow> ns_pkts_total ns);
          drops_total = (case hgetu8 so buf ''NETDRPTL'' of Some v \<Rightarrow> v | None \<Rightarrow> ns_drops_total ns);
          drops_percentage = of_nat (unat (rx_drops ev)) / of_nat (Nm s) * 100;
          drops_percentage_total =
            (if pkts_total = 0 then 0
             else of_nat (unat (drops_total + ucast (rx_drops ev)))
                  / of_nat (unat (pkts_total + ucast (rx_pkts ev))) * 100);
          buf = hput so buf ''NETPKTTL'' (U8 (pkts_total + ucast (rx_pkts ev)));
          buf = hput so buf ''NETDRPTL'' (U8 (drops_total + ucast (rx_drops ev)));
          buf = hput so buf ''NETDRPPR'' (R4 drops_percentage);
          buf = hput so buf ''NETDRPPT'' (R4 drops_percentage_total);
          dumpbool = (case hgeti4 so buf ''DUMPVOLT'' of Some v \<Rightarrow> v | None \<Rightarrow> ns_dumpbool ns)
      in (net_stats_init\<lparr>ns_pkts_total := pkts_total, ns_drops_total := drops_total,
                         ns_dumpbool := dumpbool\<rparr>, buf))"

record ('q, 's) run_state =
  rs_net :: "('q, 's) net_state"
  rs_stats :: net_stats
  rs_frames_held :: nat
  rs_dumps :: "bool list"

text \<open>A voltage dump: the request is cleared, then the whole ring is written to a file if it
  opens; \<open>rs_dumps\<close> records each attempt and whether the file opened.\<close>

definition dump_voltages :: "'s status_ops \<Rightarrow> rx_event \<Rightarrow> ('q, 's) run_state \<Rightarrow> ('q, 's) run_state" where
  "dump_voltages so ev rs =
     (if ns_dumpbool (rs_stats rs) \<noteq> 0
      then rs\<lparr>rs_net := (rs_net rs)\<lparr>n_status := hput so (n_status (rs_net rs)) ''DUMPVOLT'' (I4 0)\<rparr>,
              rs_dumps := rs_dumps rs @ [rx_can_open ev]\<rparr>
      else rs)"

datatype 'a step_result = Continue 'a | Break 'a | Exited 'a

definition run_step ::
  "site \<Rightarrow> 'q hashpipe_ops \<Rightarrow> 's status_ops \<Rightarrow> rx_event \<Rightarrow> ('q, 's) run_state \<Rightarrow>
   ('q, 's) run_state step_result" where
  "run_step s e so ev rs =
     (let rs = rs\<lparr>rs_frames_held := rs_frames_held rs + 1\<rparr>
      in if rx_quit ev then Break rs
         else if \<not> packet_size_ok s (rx_frame ev)
         then Continue (rs\<lparr>rs_net := warn (Invalid_pkt_size (int (udp_size (rx_frame ev)) - 8)) (rs_net rs)\<rparr>)
         else
           (let ns = (rs_stats rs)\<lparr>ns_packet_count := ns_packet_count (rs_stats rs) + 1\<rparr>
            in case process_packet s e so (rx_now ev) (rx_frame ev) (rs_net rs) of
                 (net, None) \<Rightarrow> Exited (rs\<lparr>rs_net := net, rs_stats := ns\<rparr>)
               | (net, Some mcnt) \<Rightarrow>
                   (let ns = packet_stats ev ns;
                        rs = rs\<lparr>rs_net := net, rs_stats := ns, rs_frames_held := rs_frames_held rs - 1\<rparr>
                    in if mcnt \<noteq> - 1
                       then
                         (let (ns, buf) = block_stats s so ev mcnt ns (n_status net);
                              rs = rs\<lparr>rs_net := net\<lparr>n_status := buf\<rparr>, rs_stats := ns\<rparr>
                          in Continue (dump_voltages so ev rs))
                       else Continue rs)))"

fun run_loop ::
  "site \<Rightarrow> 'q hashpipe_ops \<Rightarrow> 's status_ops \<Rightarrow> rx_event list \<Rightarrow> ('q, 's) run_state \<Rightarrow>
   ('q, 's) run_state step_result" where
  "run_loop s e so [] rs = Continue rs"
| "run_loop s e so (ev # evs) rs =
     (case run_step s e so ev rs of
        Continue rs \<Rightarrow> run_loop s e so evs rs
      | Break rs \<Rightarrow> Break rs
      | Exited rs \<Rightarrow> Exited rs)"

definition run_init :: "('q, 's) net_state \<Rightarrow> ('q, 's) run_state" where
  "run_init st = \<lparr>rs_net = st, rs_stats = net_stats_init, rs_frames_held = 0, rs_dumps = []\<rparr>"

definition pktsock_run ::
  "site \<Rightarrow> 'q hashpipe_ops \<Rightarrow> 's status_ops \<Rightarrow> string \<Rightarrow> rx_event list \<Rightarrow> ('q, 's) net_state \<Rightarrow>
   ('q, 's) run_state step_result" where
  "pktsock_run s e so status_key evs st =
     (case acquire_first_blocks s e st of
        None \<Rightarrow> Exited (run_init st)
      | Some st \<Rightarrow>
          run_loop s e so evs
            (run_init (st\<lparr>n_status := reset_missed_status so status_key (n_status st)\<rparr>)))"

end
