(* ===== verification/S6_Pktsock_Inv.thy ===== *)
theory S6_Pktsock_Inv
  imports S6_Pktsock
begin

text \<open>
  What the operations of \<open>S6_Pktsock\<close> do to the thread's state, and the
  invariant they keep: the window starts at a multiple of \<open>Nm\<close>, the ring slot of the
  current block is the one its mcnt selects, the fill order follows the ring,
  and the headers of the two blocks the thread owns carry the window's mcnts.
\<close>

subsection \<open>The constants, and mcnts as naturals\<close>

lemma Nm_simps [simp]:
  "Nm SOURCE_S6 = 131072" "Nm SOURCE_DIBAS = 131072" "Nm SOURCE_FAST = 65536"
  by (simp_all add: Nm_def)

lemma Nm_bounds: "0 < Nm s" "even (Nm s)" "Nm s \<le> 131072" "65536 \<le> Nm s"
  by (cases s; simp)+

lemma N_INPUT_BLOCKS_bounds: "3 \<le> N_INPUT_BLOCKS s" "N_INPUT_BLOCKS s \<le> 24"
  by (cases s; simp)+

interpretation pktw: mcnt_window "Nm s" "N_INPUT_BLOCKS s" for s
  by unfold_locales (use Nm_bounds N_INPUT_BLOCKS_bounds in auto)

lemma unat_Nmw [simp]: "unat (Nmw s) = Nm s"
  by (cases s) simp_all

lemma unat_NIB [simp]: "unat (of_nat (N_INPUT_BLOCKS s) :: u64) = N_INPUT_BLOCKS s"
  by (cases s) simp_all

lemma block_for_mcnt_eq: "block_for_mcnt s m = mcnt_block (Nm s) (N_INPUT_BLOCKS s) (unat m)"
  by (simp add: block_for_mcnt_def mcnt_block_def unat_div unat_mod)

lemma block_for_mcnt_less [simp]: "block_for_mcnt s m < N_INPUT_BLOCKS s"
  by (simp add: block_for_mcnt_eq)

lemma unat_round: "unat (m - m mod Nmw s) = mcnt_round (Nm s) (unat m)"
  by (simp add: mcnt_round_def unat_sub_64 unat_mod)

lemma unat_plus_Nm:
  "unat m < 2 ^ 63 \<Longrightarrow> unat (m + Nmw s) = unat m + Nm s"
  using Nm_bounds [of s] by (intro trans [OF unat_add_64]) simp_all

lemma header_mcnt_bound: "unat (ph_mcnt (get_header s f)) < 2 ^ 56"
proof -
  have a: "unat (raw AND 72057594037927935) < 72057594037927936" for raw :: u64
  proof -
    have "raw AND 72057594037927935 = take_bit 56 raw"
      by (simp add: take_bit_eq_mask mask_eq_exp_minus_1)
    then show ?thesis using take_bit_nat_less_exp [of 56 "unat raw"] by (simp add: unsigned_take_bit_eq)
  qed
  have b: "unat (drop_bit 16 raw) < 72057594037927936" for raw :: u64
    using unat_lt_64 [of raw] by (simp add: unat_div unat_drop_bit_eq drop_bit_eq_div div_less_iff_less_mult)
  show ?thesis
    by (cases s) (simp_all add: get_header_def Let_def a b)
qed


subsection \<open>The window invariant\<close>

abbreviation block_header :: "('q, 's) net_state \<Rightarrow> nat \<Rightarrow> in_hdr" where
  "block_header st i \<equiv> ib_header (n_blocks st ! i)"

definition blocks_wf :: "site \<Rightarrow> in_block list \<Rightarrow> bool" where
  "blocks_wf s bs = (length bs = N_INPUT_BLOCKS s \<and>
     (\<forall>i < N_INPUT_BLOCKS s. length (ih_missed_pkts (ib_header (bs ! i))) = N_BORS s))"

definition binfo_inv :: "site \<Rightarrow> block_info \<Rightarrow> bool" where
  "binfo_inv s b =
     (bi_initialized b \<and> length (bi_block_packet_counter b) = N_INPUT_BLOCKS s \<and>
      Nm s dvd unat (bi_mcnt_start b) \<and> unat (bi_mcnt_start b) < 2 ^ 57 \<and>
      bi_block_i b = block_for_mcnt s (bi_mcnt_start b))"

definition owned_inv :: "site \<Rightarrow> ('q, 's) net_state \<Rightarrow> bool" where
  "owned_inv s st =
     (let b = n_binfo st
      in (n_last_filled st + 1) mod int (N_INPUT_BLOCKS s) = int (bi_block_i b) \<and>
         ih_mcnt (block_header st (bi_block_i b)) = bi_mcnt_start b \<and>
         ih_mcnt (block_header st ((bi_block_i b + 1) mod N_INPUT_BLOCKS s)) = bi_mcnt_start b + Nmw s)"

definition window_inv :: "site \<Rightarrow> ('q, 's) net_state \<Rightarrow> bool" where
  "window_inv s st = (blocks_wf s (n_blocks st) \<and> binfo_inv s (n_binfo st) \<and> owned_inv s st)"

lemma warn_simps [simp]:
  "n_binfo (warn w st) = n_binfo st" "n_blocks (warn w st) = n_blocks st" "n_sem (warn w st) = n_sem st"
  "n_last_filled (warn w st) = n_last_filled st" "n_status (warn w st) = n_status st"
  "n_warnings (warn w st) = n_warnings st @ [w]"
  by (simp_all add: warn_def)

lemma blocks_wfD:
  assumes "blocks_wf s bs"
  shows "length bs = N_INPUT_BLOCKS s"
    and "i < N_INPUT_BLOCKS s \<Longrightarrow> length (ih_missed_pkts (ib_header (bs ! i))) = N_BORS s"
  using assms by (auto simp: blocks_wf_def)

lemma length_set_header [simp]: "length (set_header i f bs) = length bs"
  by (simp add: set_header_def)

lemma length_set_data [simp]: "length (set_data i f bs) = length bs"
  by (simp add: set_data_def)

lemma header_set_header:
  "i < length bs \<Longrightarrow>
   ib_header (set_header i f bs ! j) = (if j = i then f (ib_header (bs ! i)) else ib_header (bs ! j))"
  by (simp add: set_header_def nth_list_update_if)

lemma data_set_header [simp]: "ib_data (set_header i f bs ! j) = ib_data (bs ! j)"
  by (cases "i < length bs") (auto simp: set_header_def nth_list_update_if list_update_beyond)

lemma header_set_data [simp]: "ib_header (set_data i f bs ! j) = ib_header (bs ! j)"
  by (cases "i < length bs") (auto simp: set_data_def nth_list_update_if list_update_beyond)

lemma data_set_data:
  "i < length bs \<Longrightarrow> ib_data (set_data i f bs ! j) = (if j = i then f (ib_data (bs ! i)) else ib_data (bs ! j))"
  by (simp add: set_data_def nth_list_update_if)

lemma blocks_wf_set_data [simp]: "blocks_wf s (set_data i f bs) = blocks_wf s bs"
  by (simp add: blocks_wf_def)

lemma blocks_wf_set_header:
  "blocks_wf s bs \<Longrightarrow> i < N_INPUT_BLOCKS s \<Longrightarrow>
   length (ih_missed_pkts (f (ib_header (bs ! i)))) = N_BORS s \<Longrightarrow> blocks_wf s (set_header i f bs)"
  by (auto simp: blocks_wf_def header_set_header)

lemma blocks_wf_initialize [simp]: "blocks_wf s bs \<Longrightarrow> blocks_wf s (initialize_block s m p n d bs)"
  by (simp add: initialize_block_def blocks_wf_set_header)

lemma length_initialize_block [simp]: "length (initialize_block s m p n d bs) = length bs"
  by (simp add: initialize_block_def)

lemma header_initialize_block:
  "length bs = N_INPUT_BLOCKS s \<Longrightarrow>
   ih_mcnt (ib_header (initialize_block s m p n d bs ! j)) =
     (if j = block_for_mcnt s m then m - m mod Nmw s else ih_mcnt (ib_header (bs ! j)))"
  by (simp add: initialize_block_def header_set_header Let_def)

lemma data_initialize_block [simp]: "ib_data (initialize_block s m p n d bs ! j) = ib_data (bs ! j)"
  by (simp add: initialize_block_def Let_def)

lemma round_word_eq: "unat (m - m mod Nmw s) = unat m' \<Longrightarrow> m - m mod Nmw s = m'"
  by (simp add: word_unat_eq_iff)

subsection \<open>Effects of the operations\<close>

lemma set_block_filled_effect:
  assumes "set_block_filled s e so st = (st', r)" and "window_inv s st"
  shows "n_binfo st' = n_binfo st" "n_blocks st' = n_blocks st" "n_warnings st' = n_warnings st"
    "n_last_filled st' = int (bi_block_i (n_binfo st))"
    "n_sem st' = snd (hp_set_filled e (n_sem st) (bi_block_i (n_binfo st)))"
    "(r = None) = (fst (hp_set_filled e (n_sem st) (bi_block_i (n_binfo st))) \<noteq> HASHPIPE_OK)"
    "r \<noteq> None \<Longrightarrow> r = Some (bi_mcnt_start (n_binfo st))"
  using assms
  by (auto simp: set_block_filled_def window_inv_def binfo_inv_def owned_inv_def Let_def
      s6_databuf_wrappers split: prod.splits if_splits)

lemma window_invD:
  assumes "window_inv s st"
  shows "blocks_wf s (n_blocks st)" "length (n_blocks st) = N_INPUT_BLOCKS s"
    "bi_initialized (n_binfo st)" "length (bi_block_packet_counter (n_binfo st)) = N_INPUT_BLOCKS s"
    "Nm s dvd unat (bi_mcnt_start (n_binfo st))" "unat (bi_mcnt_start (n_binfo st)) < 2 ^ 57"
    "bi_block_i (n_binfo st) = block_for_mcnt s (bi_mcnt_start (n_binfo st))"
    "bi_block_i (n_binfo st) < N_INPUT_BLOCKS s"
    "(n_last_filled st + 1) mod int (N_INPUT_BLOCKS s) = int (bi_block_i (n_binfo st))"
  using assms by (auto simp: window_inv_def binfo_inv_def owned_inv_def blocks_wf_def Let_def)

lemma block_for_next:
  "unat m < 2 ^ 63 \<Longrightarrow> block_for_mcnt s (m + Nmw s) = (block_for_mcnt s m + 1) mod N_INPUT_BLOCKS s"
  by (simp add: block_for_mcnt_eq unat_plus_Nm pktw.block_next)

lemma mod_Suc_int: "(int b + 1) mod int B = int ((b + 1) mod B)"
  by (simp add: of_nat_mod add.commute)

lemma next_block_ne [simp]:
  "b < N_INPUT_BLOCKS s \<Longrightarrow> Suc b mod N_INPUT_BLOCKS s \<noteq> b"
  "b < N_INPUT_BLOCKS s \<Longrightarrow> b \<noteq> Suc b mod N_INPUT_BLOCKS s"
  "b < N_INPUT_BLOCKS s \<Longrightarrow> Suc (Suc b mod N_INPUT_BLOCKS s) mod N_INPUT_BLOCKS s \<noteq> b"
  "b < N_INPUT_BLOCKS s \<Longrightarrow> b \<noteq> Suc (Suc b mod N_INPUT_BLOCKS s) mod N_INPUT_BLOCKS s"
  using pktw.next_ne [of b s] pktw.next_next_ne [of b s] by auto

text \<open>A packet in the second half of the next block, seen from the window it closes.\<close>

lemma closing_packet:
  assumes "Nm s dvd unat m" "unat m < 2 ^ 57"
    and "unat m + 3 * (Nm s div 2) \<le> unat p" "unat p < unat m + 2 * Nm s"
  shows "block_for_mcnt s (p + Nmw s) = ((block_for_mcnt s m + 1) mod N_INPUT_BLOCKS s + 1) mod N_INPUT_BLOCKS s"
    and "p + Nmw s - (p + Nmw s) mod Nmw s = m + Nmw s + Nmw s"
proof -
  have p: "unat p < 2 ^ 58" "unat m + Nm s \<le> unat p"
    using assms Nm_bounds [of s] by auto
  have pN: "unat (p + Nmw s) = unat p + Nm s"
    using p by (intro unat_plus_Nm) simp
  have mN: "unat (m + Nmw s) = unat m + Nm s"
    using assms by (intro unat_plus_Nm) simp
  have mNN: "unat (m + Nmw s + Nmw s) = unat m + 2 * Nm s"
    using assms mN Nm_bounds [of s] by (subst unat_plus_Nm) simp_all
  have "mcnt_round (Nm s) (unat p + Nm s) = unat m + 2 * Nm s"
    using assms p by (intro pktw.round_in_block) auto
  then show "p + Nmw s - (p + Nmw s) mod Nmw s = m + Nmw s + Nmw s"
    by (intro round_word_eq) (simp only: unat_round pN mNN)
  have "block_for_mcnt s p = (block_for_mcnt s m + 1) mod N_INPUT_BLOCKS s"
    using assms p by (simp add: block_for_mcnt_eq pktw.block_following)
  then show "block_for_mcnt s (p + Nmw s) = ((block_for_mcnt s m + 1) mod N_INPUT_BLOCKS s + 1) mod N_INPUT_BLOCKS s"
    using p by (simp add: block_for_next)
qed

lemma finish_block_effect:
  assumes f: "finish_block s e so now h st = (st', Some r)" and inv: "window_inv s st"
    and p: "unat (bi_mcnt_start (n_binfo st)) + 3 * (Nm s div 2) \<le> unat (ph_mcnt h)"
      "unat (ph_mcnt h) < unat (bi_mcnt_start (n_binfo st)) + 2 * Nm s"
      "unat (ph_mcnt h) < 2 ^ 56"
  shows "r = bi_mcnt_start (n_binfo st)" "window_inv s st'"
    "bi_mcnt_start (n_binfo st') = bi_mcnt_start (n_binfo st) + Nmw s"
    "bi_block_i (n_binfo st') = (bi_block_i (n_binfo st) + 1) mod N_INPUT_BLOCKS s"
    "n_warnings st' = n_warnings st" "n_last_filled st' = int (bi_block_i (n_binfo st))"
    "\<And>j. ib_data (n_blocks st' ! j) = ib_data (n_blocks st ! j)"
    "bi_out_of_seq_cnt (n_binfo st') = bi_out_of_seq_cnt (n_binfo st)"
proof -
  define b where "b = n_binfo st"
  define st1 where "st1 = st\<lparr>n_blocks := set_header (bi_block_i b)
       (\<lambda>hd. hd\<lparr>ih_time_sec := fst now, ih_time_nsec := snd now\<rparr>) (n_blocks st)\<rparr>"
  note D = window_invD [OF inv, folded b_def]
  have inv1: "window_inv s st1"
    using inv D by (auto simp: window_inv_def binfo_inv_def owned_inv_def st1_def b_def
      header_set_header Let_def blocks_wfD(2) [OF D(1)] intro!: blocks_wf_set_header)
  obtain st2 m where sbf: "set_block_filled s e so st1 = (st2, Some m)"
    using f by (auto simp: finish_block_def st1_def b_def Let_def split: prod.splits option.splits)
  note E = set_block_filled_effect [OF sbf inv1]
  have b1: "n_binfo st1 = b" by (simp add: st1_def b_def)
  have m: "m = bi_mcnt_start b" using E(7) by (simp add: b1)
  obtain st3 sem where st': "st' = st3" "n_sem st' = sem" "r = m"
    "n_blocks st' = initialize_block s (ph_mcnt h + Nmw s) (ph_pchan h) (ph_nchan h) (ph_sid h) (n_blocks st2)"
    "n_warnings st' = n_warnings st2" "n_last_filled st' = n_last_filled st2"
    "n_binfo st' = (n_binfo st2)\<lparr>bi_mcnt_start := bi_mcnt_start (n_binfo st2) + Nmw s,
        bi_block_i := (bi_block_i (n_binfo st2) + 1) mod N_INPUT_BLOCKS s, bi_pchan := 0, bi_nchan := 0,
        bi_block_packet_counter := (bi_block_packet_counter (n_binfo st2))
          [((bi_block_i (n_binfo st2) + 1) mod N_INPUT_BLOCKS s + 1) mod N_INPUT_BLOCKS s := 0]\<rparr>"
    using f sbf by (auto simp: finish_block_def st1_def b_def Let_def split: prod.splits option.splits if_splits)
  note S = st'(4-7) [unfolded E(1-4) b1]
  note C = closing_packet [OF D(5,6) p(1,2) [folded b_def]]
  have nx: "unat (bi_mcnt_start b + Nmw s) = unat (bi_mcnt_start b) + Nm s"
    using D(6) by (intro unat_plus_Nm) simp
  have lt: "unat (bi_mcnt_start b) + Nm s < 2 ^ 57"
    using p Nm_bounds [of s] by (auto simp: b_def)
  show "r = bi_mcnt_start (n_binfo st)" by (simp add: st' m b_def)
  show "bi_mcnt_start (n_binfo st') = bi_mcnt_start (n_binfo st) + Nmw s"
    "bi_block_i (n_binfo st') = (bi_block_i (n_binfo st) + 1) mod N_INPUT_BLOCKS s"
    "n_warnings st' = n_warnings st" "n_last_filled st' = int (bi_block_i (n_binfo st))"
    "\<And>j. ib_data (n_blocks st' ! j) = ib_data (n_blocks st ! j)"
    "bi_out_of_seq_cnt (n_binfo st') = bi_out_of_seq_cnt (n_binfo st)"
    by (simp_all add: S st1_def b_def)
  define i where "i = bi_block_i b"
  have i: "i < N_INPUT_BLOCKS s" "block_for_mcnt s (bi_mcnt_start b) = i"
    using D by (simp_all add: i_def)
  have own: "ih_mcnt (block_header st i) = bi_mcnt_start b"
      "ih_mcnt (block_header st (Suc i mod N_INPUT_BLOCKS s)) = bi_mcnt_start b + Nmw s"
    using inv by (simp_all add: window_inv_def owned_inv_def Let_def b_def [symmetric] i_def)
  have "blocks_wf s (n_blocks st')"
    using inv1 by (simp add: S window_inv_def)
  moreover have "binfo_inv s (n_binfo st')"
    using D nx lt by (simp add: S binfo_inv_def block_for_next)
  moreover have "owned_inv s st'"
    using i own by (simp add: S owned_inv_def Let_def i_def [symmetric] mod_Suc_int C header_initialize_block
        D st1_def header_set_header)
  ultimately show "window_inv s st'" by (simp add: window_inv_def)
qed

lemma calc_block_indexes_effect:
  assumes "calc_block_indexes s h st = (st', ok)"
  shows "ok = (unat (ph_sid h) < N_SOURCE_NODES s)" "n_blocks st' = n_blocks st" "n_sem st' = n_sem st"
    "n_last_filled st' = n_last_filled st" "n_status st' = n_status st"
    "bi_initialized (n_binfo st') = bi_initialized (n_binfo st)"
    "bi_mcnt_start (n_binfo st') = bi_mcnt_start (n_binfo st)"
    "bi_mcnt_log_late (n_binfo st') = bi_mcnt_log_late (n_binfo st)"
    "bi_block_i (n_binfo st') = bi_block_i (n_binfo st)"
    "bi_out_of_seq_cnt (n_binfo st') = bi_out_of_seq_cnt (n_binfo st)"
    "bi_block_packet_counter (n_binfo st') = bi_block_packet_counter (n_binfo st)"
    "\<exists>ws. n_warnings st' = n_warnings st @ ws \<and> set ws \<subseteq> {Bad_sid (ph_sid h)} \<union> range (case_prod Pchan_changed) \<union> range (case_prod Nchan_changed)"
proof -
  have N: "unat (of_nat (N_SOURCE_NODES s) :: u64) = N_SOURCE_NODES s"
    by (cases s) (simp_all add: N_POLS_PER_BEAM_TOTAL_def)
  show "ok = (unat (ph_sid h) < N_SOURCE_NODES s)"
    using assms by (auto simp: calc_block_indexes_def Let_def word_le_nat_alt N split: if_splits)
  show "\<exists>ws. n_warnings st' = n_warnings st @ ws \<and> set ws \<subseteq> {Bad_sid (ph_sid h)} \<union> range (case_prod Pchan_changed) \<union> range (case_prod Nchan_changed)"
    using assms by (auto simp: calc_block_indexes_def Let_def image_iff split: if_splits)
qed (use assms in \<open>auto simp: calc_block_indexes_def Let_def split: if_splits\<close>)

definition missed_index :: "site \<Rightarrow> packet_header \<Rightarrow> nat" where
  "missed_index s h = (if s = SOURCE_FAST then 0 else unat (ph_sid h))"

lemma N_SOURCE_NODES_le: "s \<noteq> SOURCE_FAST \<Longrightarrow> N_SOURCE_NODES s = N_BORS s"
  by (cases s) simp_all

lemma missed_index_less: "unat (ph_sid h) < N_SOURCE_NODES s \<Longrightarrow> missed_index s h < N_BORS s"
  using N_SOURCE_NODES_le [of s] by (auto simp: missed_index_def)

lemma accept_packet_effect:
  assumes a: "accept_packet s h f m st = (st', r)" and inv: "window_inv s st"
  defines "p \<equiv> block_for_mcnt s (ph_mcnt h)"
  shows "r = (if unat (ph_sid h) < N_SOURCE_NODES s then m else - 1)" "n_sem st' = n_sem st"
    "n_last_filled st' = n_last_filled st" "n_status st' = n_status st"
    "bi_mcnt_start (n_binfo st') = bi_mcnt_start (n_binfo st)"
    "bi_mcnt_log_late (n_binfo st') = bi_mcnt_log_late (n_binfo st)"
    "bi_block_i (n_binfo st') = bi_block_i (n_binfo st)"
    "bi_out_of_seq_cnt (n_binfo st') = 0"
    "bi_block_packet_counter (n_binfo st') =
       (bi_block_packet_counter (n_binfo st))[p := bi_block_packet_counter (n_binfo st) ! p + 1]"
    "\<not> unat (ph_sid h) < N_SOURCE_NODES s \<Longrightarrow> n_blocks st' = n_blocks st"
    "unat (ph_sid h) < N_SOURCE_NODES s \<Longrightarrow> ib_data (n_blocks st' ! j) =
       (if j = p then copy_payload s h f (ib_data (n_blocks st ! j)) else ib_data (n_blocks st ! j))"
    "unat (ph_sid h) < N_SOURCE_NODES s \<Longrightarrow> block_header st' j =
       (if j = p then (block_header st j)\<lparr>ih_missed_pkts := (ih_missed_pkts (block_header st j))
            [missed_index s h := ih_missed_pkts (block_header st j) ! missed_index s h - 1]\<rparr>
        else block_header st j)"
    "\<exists>ws. n_warnings st' = n_warnings st @ ws \<and> set ws \<subseteq> {Bad_sid (ph_sid h)} \<union> range (case_prod Pchan_changed) \<union> range (case_prod Nchan_changed)"
    "window_inv s st'"
proof -
  define st1 where "st1 = st\<lparr>n_binfo := (n_binfo st)\<lparr>bi_out_of_seq_cnt := 0,
     bi_block_packet_counter := (bi_block_packet_counter (n_binfo st))
        [p := bi_block_packet_counter (n_binfo st) ! p + 1]\<rparr>\<rparr>"
  obtain st2 ok where c: "calc_block_indexes s h st1 = (st2, ok)" by force
  note E = calc_block_indexes_effect [OF c]
  note D = window_invD [OF inv]
  have s1 [simp]: "n_blocks st1 = n_blocks st" "n_sem st1 = n_sem st" "n_last_filled st1 = n_last_filled st"
    "n_status st1 = n_status st" "n_warnings st1 = n_warnings st"
    "bi_initialized (n_binfo st1) = bi_initialized (n_binfo st)"
    "bi_mcnt_start (n_binfo st1) = bi_mcnt_start (n_binfo st)"
    "bi_mcnt_log_late (n_binfo st1) = bi_mcnt_log_late (n_binfo st)"
    "bi_block_i (n_binfo st1) = bi_block_i (n_binfo st)" "bi_out_of_seq_cnt (n_binfo st1) = 0"
    "bi_block_packet_counter (n_binfo st1) = (bi_block_packet_counter (n_binfo st))
        [p := bi_block_packet_counter (n_binfo st) ! p + 1]"
    by (simp_all add: st1_def)
  have p: "p < length (n_blocks st)" by (simp add: p_def D(2))
  define bs where "bs = (if ok then set_data p (copy_payload s h f)
     (set_header p (\<lambda>hd. hd\<lparr>ih_missed_pkts := (ih_missed_pkts hd)
        [missed_index s h := ih_missed_pkts hd ! missed_index s h - 1]\<rparr>) (n_blocks st)) else n_blocks st)"
  have R: "st' = st2\<lparr>n_blocks := bs\<rparr>" "r = (if ok then m else - 1)"
    using a c E(2) by (auto simp: accept_packet_def st1_def p_def bs_def missed_index_def Let_def split: prod.splits if_splits)
  show "r = (if unat (ph_sid h) < N_SOURCE_NODES s then m else - 1)" "n_sem st' = n_sem st"
    "n_last_filled st' = n_last_filled st" "n_status st' = n_status st"
    "bi_mcnt_start (n_binfo st') = bi_mcnt_start (n_binfo st)"
    "bi_mcnt_log_late (n_binfo st') = bi_mcnt_log_late (n_binfo st)"
    "bi_block_i (n_binfo st') = bi_block_i (n_binfo st)"
    "bi_out_of_seq_cnt (n_binfo st') = 0"
    "bi_block_packet_counter (n_binfo st') =
       (bi_block_packet_counter (n_binfo st))[p := bi_block_packet_counter (n_binfo st) ! p + 1]"
    "\<exists>ws. n_warnings st' = n_warnings st @ ws \<and> set ws \<subseteq> {Bad_sid (ph_sid h)} \<union> range (case_prod Pchan_changed) \<union> range (case_prod Nchan_changed)"
    "\<not> unat (ph_sid h) < N_SOURCE_NODES s \<Longrightarrow> n_blocks st' = n_blocks st"
    using E by (simp_all add: R bs_def)
  show "unat (ph_sid h) < N_SOURCE_NODES s \<Longrightarrow> ib_data (n_blocks st' ! j) =
       (if j = p then copy_payload s h f (ib_data (n_blocks st ! j)) else ib_data (n_blocks st ! j))"
    using E(1) p by (simp add: R bs_def data_set_data)
  have H: "block_header st' j =
       (if ok \<and> j = p then (block_header st j)\<lparr>ih_missed_pkts := (ih_missed_pkts (block_header st j))
            [missed_index s h := ih_missed_pkts (block_header st j) ! missed_index s h - 1]\<rparr>
        else block_header st j)" for j
    using p by (simp add: R bs_def header_set_header)
  show "unat (ph_sid h) < N_SOURCE_NODES s \<Longrightarrow> block_header st' j =
       (if j = p then (block_header st j)\<lparr>ih_missed_pkts := (ih_missed_pkts (block_header st j))
            [missed_index s h := ih_missed_pkts (block_header st j) ! missed_index s h - 1]\<rparr>
        else block_header st j)"
    using E(1) H [of j] by simp
  have "blocks_wf s (n_blocks st')"
    using D(1) H by (simp add: blocks_wf_def R bs_def)
  moreover have "binfo_inv s (n_binfo st')"
    using D E by (simp add: binfo_inv_def R)
  moreover have "owned_inv s st'"
  proof -
    have "n_binfo st' = n_binfo st2" "n_last_filled st' = n_last_filled st2"
      by (simp_all add: R)
    moreover have "ih_mcnt (block_header st' k) = ih_mcnt (block_header st k)" for k
      by (simp add: H)
    ultimately show ?thesis
      using inv E(4,7,9) by (simp add: window_inv_def owned_inv_def Let_def)
  qed
  ultimately show "window_inv s st'" by (simp add: window_inv_def)
qed

lemma reset_mcnt_eq:
  assumes "b < N_INPUT_BLOCKS s" "unat p < 2 ^ 56"
  shows "unat (reset_mcnt s b (block_for_mcnt s p) p) = mcnt_reset (Nm s) (N_INPUT_BLOCKS s) b (unat p)"
proof -
  have k: "unat (p + Nmw s * of_nat k) = unat p + Nm s * k" if "k \<le> 24" for k
  proof -
    have 1: "unat (of_nat k :: u64) = k" using that by (simp add: s6_word)
    have 2: "Nm s * k \<le> 131072 * 24" using that Nm_bounds [of s] by (intro mult_le_mono) auto
    have 3: "unat (Nmw s * of_nat k :: u64) = Nm s * k"
      using 1 2 by (subst unat_mult_64) simp_all
    then show ?thesis using 2 assms by (subst unat_add_64) simp_all
  qed
  define c where "c = mcnt_block (Nm s) (N_INPUT_BLOCKS s) (unat p)"
  have "c < N_INPUT_BLOCKS s" by (simp add: c_def)
  then show ?thesis
    using assms N_INPUT_BLOCKS_bounds [of s]
    by (auto simp: reset_mcnt_def mcnt_reset_def block_for_mcnt_eq c_def [symmetric] k simp del: of_nat_diff of_nat_add)
qed

lemma reset_window_effect:
  assumes inv: "window_inv s st" and p: "unat (ph_mcnt h) < 2 ^ 56"
  defines "st' \<equiv> reset_window s h st"
  shows "window_inv s st'"
    "bi_block_i (n_binfo st') = bi_block_i (n_binfo st)"
    "unat (bi_mcnt_start (n_binfo st')) = mcnt_round (Nm s)
       (mcnt_reset (Nm s) (N_INPUT_BLOCKS s) (bi_block_i (n_binfo st)) (unat (ph_mcnt h)))"
    "n_sem st' = n_sem st" "n_status st' = n_status st"
    "n_last_filled st' = n_last_filled st"
    "\<And>j. ib_data (n_blocks st' ! j) = ib_data (n_blocks st ! j)"
    "bi_out_of_seq_cnt (n_binfo st') = bi_out_of_seq_cnt (n_binfo st)"
    "\<exists>a b c. n_warnings st' = n_warnings st @ [Resetting a b c]"
proof -
  define b where "b = n_binfo st"
  define i where "i = bi_block_i b"
  define q where "q = reset_mcnt s i (block_for_mcnt s (ph_mcnt h)) (ph_mcnt h)"
  define m where "m = q - q mod Nmw s"
  note D = window_invD [OF inv, folded b_def]
  have i: "i < N_INPUT_BLOCKS s" by (simp add: i_def D)
  have q: "unat q = mcnt_reset (Nm s) (N_INPUT_BLOCKS s) i (unat (ph_mcnt h))"
    using reset_mcnt_eq [OF i p] by (simp add: q_def)
  have "Nm s * N_INPUT_BLOCKS s \<le> 131072 * 24"
    using Nm_bounds [of s] N_INPUT_BLOCKS_bounds [of s] by (intro mult_le_mono) auto
  then have q_lt: "unat q < 2 ^ 57"
    using pktw.reset_bounds [OF i, of "unat (ph_mcnt h)"] p by (simp add: q)
  have m: "unat m = mcnt_round (Nm s) (unat q)" by (simp add: m_def unat_round)
  have m_lt: "unat m < 2 ^ 57" using q_lt mcnt_round_le [of "Nm s" "unat q"] m by simp
  have bm: "block_for_mcnt s m = i"
    by (simp add: block_for_mcnt_eq m q pktw.block_reset [OF i])
  have bmN: "block_for_mcnt s (m + Nmw s) = Suc i mod N_INPUT_BLOCKS s"
    using m_lt bm by (subst block_for_next) simp_all
  have mN: "unat (m + Nmw s) = unat m + Nm s" using m_lt by (intro unat_plus_Nm) simp
  have dv: "Nm s dvd unat m" by (simp add: m)
  have r1: "m - m mod Nmw s = m"
    using dv by (intro round_word_eq) (simp add: unat_round mcnt_round_def)
  have r2: "m + Nmw s - (m + Nmw s) mod Nmw s = m + Nmw s"
    using dv by (intro round_word_eq) (simp add: unat_round mN mcnt_round_def)
  have S: "st' = (warn (Resetting m i q) st)\<lparr>
     n_blocks := initialize_block s (m + Nmw s) (ph_pchan h) (ph_nchan h) (ph_sid h)
        (initialize_block s m (ph_pchan h) (ph_nchan h) (ph_sid h) (n_blocks st)),
     n_binfo := b\<lparr>bi_mcnt_start := m, bi_mcnt_log_late := m + Nmw s, bi_block_i := i,
        bi_pchan := 0, bi_nchan := 0,
        bi_block_packet_counter := (bi_block_packet_counter b)[i := 0, (i + 1) mod N_INPUT_BLOCKS s := 0]\<rparr>\<rparr>"
    by (simp add: st'_def reset_window_def Let_def b_def [symmetric] i_def [symmetric] q_def [symmetric]
        m_def [symmetric] bm)
  show "bi_block_i (n_binfo st') = bi_block_i (n_binfo st)"
    "n_sem st' = n_sem st" "n_status st' = n_status st" "n_last_filled st' = n_last_filled st"
    "\<And>j. ib_data (n_blocks st' ! j) = ib_data (n_blocks st ! j)"
    "bi_out_of_seq_cnt (n_binfo st') = bi_out_of_seq_cnt (n_binfo st)"
    "\<exists>a b c. n_warnings st' = n_warnings st @ [Resetting a b c]"
    by (simp_all add: S b_def i_def)
  show "unat (bi_mcnt_start (n_binfo st')) = mcnt_round (Nm s)
       (mcnt_reset (Nm s) (N_INPUT_BLOCKS s) (bi_block_i (n_binfo st)) (unat (ph_mcnt h)))"
    by (simp add: S m q i_def b_def)
  have "blocks_wf s (n_blocks st')" using D(1) by (simp add: S)
  moreover have "binfo_inv s (n_binfo st')"
    using D dv m_lt bm by (simp add: S binfo_inv_def)
  moreover have "owned_inv s st'"
    using i D by (simp add: S owned_inv_def Let_def header_initialize_block bm bmN r1 r2 i_def)
  ultimately show "window_inv s st'" by (simp add: window_inv_def)
qed

lemma out_of_seq_packet_effect:
  assumes inv: "window_inv s st" and p: "unat (ph_mcnt h) < 2 ^ 56"
  defines "st' \<equiv> out_of_seq_packet s h st"
  shows "window_inv s st'" "bi_block_i (n_binfo st') = bi_block_i (n_binfo st)"
    "n_sem st' = n_sem st" "n_status st' = n_status st" "n_last_filled st' = n_last_filled st"
    "\<And>j. ib_data (n_blocks st' ! j) = ib_data (n_blocks st ! j)"
    "bi_out_of_seq_cnt (n_binfo st') = bi_out_of_seq_cnt (n_binfo st) + 1"
    "\<exists>ws. n_warnings st' = n_warnings st @ ws \<and> set ws \<subseteq> {Out_of_seq (ph_mcnt h)} \<union> {Resetting a b c | a b c. True}"
    "bi_out_of_seq_cnt (n_binfo st) < MAX_OUT_OF_SEQ s \<Longrightarrow> bi_mcnt_start (n_binfo st') = bi_mcnt_start (n_binfo st)"
    "bi_out_of_seq_cnt (n_binfo st) < MAX_OUT_OF_SEQ s \<Longrightarrow> n_blocks st' = n_blocks st"
    "MAX_OUT_OF_SEQ s \<le> bi_out_of_seq_cnt (n_binfo st) \<Longrightarrow> unat (bi_mcnt_start (n_binfo st')) = mcnt_round (Nm s)
       (mcnt_reset (Nm s) (N_INPUT_BLOCKS s) (bi_block_i (n_binfo st)) (unat (ph_mcnt h)))"
proof -
  define st1 where "st1 = (let st = (if bi_mcnt_start (n_binfo st) \<noteq> 0 then warn (Out_of_seq (ph_mcnt h)) st else st)
    in st\<lparr>n_binfo := (n_binfo st)\<lparr>bi_out_of_seq_cnt := bi_out_of_seq_cnt (n_binfo st) + 1\<rparr>\<rparr>)"
  have inv1: "window_inv s st1"
    using inv by (auto simp: window_inv_def binfo_inv_def owned_inv_def st1_def Let_def)
  have s1 [simp]: "n_blocks st1 = n_blocks st" "n_sem st1 = n_sem st" "n_last_filled st1 = n_last_filled st"
    "n_status st1 = n_status st" "bi_mcnt_start (n_binfo st1) = bi_mcnt_start (n_binfo st)"
    "bi_block_i (n_binfo st1) = bi_block_i (n_binfo st)"
    "bi_out_of_seq_cnt (n_binfo st1) = bi_out_of_seq_cnt (n_binfo st) + 1"
    by (simp_all add: st1_def Let_def)
  have w1: "n_warnings st1 = n_warnings st @ (if bi_mcnt_start (n_binfo st) \<noteq> 0 then [Out_of_seq (ph_mcnt h)] else [])"
    by (simp add: st1_def Let_def)
  have S: "st' = (if MAX_OUT_OF_SEQ s < bi_out_of_seq_cnt (n_binfo st) + 1 then reset_window s h st1 else st1)"
    by (simp add: st'_def out_of_seq_packet_def st1_def Let_def)
  note R = reset_window_effect [OF inv1 p]
  show "window_inv s st'" using R(1) inv1 by (simp add: S)
  show "bi_block_i (n_binfo st') = bi_block_i (n_binfo st)" "n_sem st' = n_sem st" "n_status st' = n_status st"
    "n_last_filled st' = n_last_filled st" "\<And>j. ib_data (n_blocks st' ! j) = ib_data (n_blocks st ! j)"
    "bi_out_of_seq_cnt (n_binfo st') = bi_out_of_seq_cnt (n_binfo st) + 1"
    "bi_out_of_seq_cnt (n_binfo st) < MAX_OUT_OF_SEQ s \<Longrightarrow> bi_mcnt_start (n_binfo st') = bi_mcnt_start (n_binfo st)"
    "bi_out_of_seq_cnt (n_binfo st) < MAX_OUT_OF_SEQ s \<Longrightarrow> n_blocks st' = n_blocks st"
    "MAX_OUT_OF_SEQ s \<le> bi_out_of_seq_cnt (n_binfo st) \<Longrightarrow> unat (bi_mcnt_start (n_binfo st')) = mcnt_round (Nm s)
       (mcnt_reset (Nm s) (N_INPUT_BLOCKS s) (bi_block_i (n_binfo st)) (unat (ph_mcnt h)))"
    using R by (simp_all add: S)
  show "\<exists>ws. n_warnings st' = n_warnings st @ ws \<and> set ws \<subseteq> {Out_of_seq (ph_mcnt h)} \<union> {Resetting a b c | a b c. True}"
    using R(9) by (auto simp: S w1)
qed

subsection \<open>The four classes of packets\<close>

definition lazy_init :: "site \<Rightarrow> ('q, 's) net_state \<Rightarrow> ('q, 's) net_state" where
  "lazy_init s st = st\<lparr>n_binfo := initialize_block_info s (n_binfo st)\<rparr>"

definition net_inv :: "site \<Rightarrow> ('q, 's) net_state \<Rightarrow> bool" where
  "net_inv s st = window_inv s (lazy_init s st)"

lemma lazy_init_idle: "bi_initialized (n_binfo st) \<Longrightarrow> lazy_init s st = st"
  by (simp add: lazy_init_def initialize_block_info_def)

lemma lazy_init_idle': "window_inv s st \<Longrightarrow> lazy_init s st = st"
  using window_invD(3) lazy_init_idle by blast

lemma window_net_inv: "window_inv s st \<Longrightarrow> net_inv s st"
  by (simp add: net_inv_def lazy_init_idle')

lemma lazy_init_simps [simp]:
  "n_blocks (lazy_init s st) = n_blocks st" "n_sem (lazy_init s st) = n_sem st"
  "n_status (lazy_init s st) = n_status st" "n_warnings (lazy_init s st) = n_warnings st"
  "n_last_filled (lazy_init s st) = n_last_filled st"
  by (simp_all add: lazy_init_def)

definition win_start :: "site \<Rightarrow> ('q, 's) net_state \<Rightarrow> nat" where
  "win_start s st = unat (bi_mcnt_start (n_binfo (lazy_init s st)))"

definition win_block :: "site \<Rightarrow> ('q, 's) net_state \<Rightarrow> nat" where
  "win_block s st = bi_block_i (n_binfo (lazy_init s st))"

definition pkt_mcnt_of :: "site \<Rightarrow> frame \<Rightarrow> nat" where
  "pkt_mcnt_of s f = unat (ph_mcnt (get_header s f))"

definition in_window :: "site \<Rightarrow> ('q, 's) net_state \<Rightarrow> frame \<Rightarrow> bool" where
  "in_window s st f = (win_start s st \<le> pkt_mcnt_of s f \<and> pkt_mcnt_of s f < win_start s st + 2 * Nm s)"

definition closes_block :: "site \<Rightarrow> ('q, 's) net_state \<Rightarrow> frame \<Rightarrow> bool" where
  "closes_block s st f = (win_start s st + 3 * (Nm s div 2) \<le> pkt_mcnt_of s f \<and> pkt_mcnt_of s f < win_start s st + 2 * Nm s)"

definition late_packet :: "site \<Rightarrow> ('q, 's) net_state \<Rightarrow> frame \<Rightarrow> bool" where
  "late_packet s st f = (pkt_mcnt_of s f < win_start s st \<and> win_start s st < pkt_mcnt_of s f + LATE_PKT_MCNT_THRESHOLD s)"

definition valid_sid :: "site \<Rightarrow> frame \<Rightarrow> bool" where
  "valid_sid s f = (unat (ph_sid (get_header s f)) < N_SOURCE_NODES s)"

lemma dist_eq:
  assumes "net_inv s st"
  shows "sint (ph_mcnt (get_header s f) - bi_mcnt_start (initialize_block_info s (n_binfo st)))
    = int (pkt_mcnt_of s f) - int (win_start s st)"
proof -
  have "unat (bi_mcnt_start (initialize_block_info s (n_binfo st))) < 2 ^ 57"
    using window_invD(6) [OF assms [unfolded net_inv_def]] by (simp add: lazy_init_def)
  then show ?thesis
    using header_mcnt_bound [of s f]
    by (subst sint_diff_64) (simp_all add: pkt_mcnt_of_def win_start_def lazy_init_def)
qed

lemma process_packet_class:
  assumes "net_inv s st"
  shows "closes_block s st f \<Longrightarrow> process_packet s e so now f st =
       (case finish_block s e so now (get_header s f) (lazy_init s st) of
          (st, None) \<Rightarrow> (st, None)
        | (st, Some netmcnt) \<Rightarrow> (let (st, rv) = accept_packet s (get_header s f) f netmcnt st in (st, Some rv)))"
    and "in_window s st f \<Longrightarrow> \<not> closes_block s st f \<Longrightarrow> process_packet s e so now f st =
       (let (st, rv) = accept_packet s (get_header s f) f (- 1) (lazy_init s st) in (st, Some rv))"
    and "late_packet s st f \<Longrightarrow> process_packet s e so now f st =
       (ignore_late_packet (get_header s f) (lazy_init s st), Some (- 1))"
    and "\<not> in_window s st f \<Longrightarrow> \<not> late_packet s st f \<Longrightarrow> process_packet s e so now f st =
       (out_of_seq_packet s (get_header s f) (lazy_init s st), Some (- 1))"
proof -
  have h: "3 * (int (Nm s) div 2) = int (3 * (Nm s div 2))" by (simp add: zdiv_int)
  note E = process_packet_def [of s e so now f st, folded lazy_init_def]
  have d: "sint (ph_mcnt (get_header s f) - bi_mcnt_start (n_binfo (lazy_init s st)))
    = int (pkt_mcnt_of s f) - int (win_start s st)"
    using dist_eq [OF assms, of f] by (simp add: lazy_init_def)
  note simps = in_window_def closes_block_def late_packet_def
  show "closes_block s st f \<Longrightarrow> process_packet s e so now f st =
       (case finish_block s e so now (get_header s f) (lazy_init s st) of
          (st, None) \<Rightarrow> (st, None)
        | (st, Some netmcnt) \<Rightarrow> (let (st, rv) = accept_packet s (get_header s f) f netmcnt st in (st, Some rv)))"
    by (simp add: E d simps Let_def h split: prod.splits option.splits)
  show "in_window s st f \<Longrightarrow> \<not> closes_block s st f \<Longrightarrow> process_packet s e so now f st =
       (let (st, rv) = accept_packet s (get_header s f) f (- 1) (lazy_init s st) in (st, Some rv))"
    by (simp add: E d simps Let_def h)
  show "late_packet s st f \<Longrightarrow> process_packet s e so now f st =
       (ignore_late_packet (get_header s f) (lazy_init s st), Some (- 1))"
    by (simp add: E d simps Let_def)
  show "\<not> in_window s st f \<Longrightarrow> \<not> late_packet s st f \<Longrightarrow> process_packet s e so now f st =
       (out_of_seq_packet s (get_header s f) (lazy_init s st), Some (- 1))"
    using Nm_bounds [of s] by (auto simp: E d simps Let_def)
qed

fun ring_warning :: "net_warning \<Rightarrow> bool" where
  "ring_warning (Fill_order _ _) = True"
| "ring_warning (Block_mismatch _ _) = True"
| "ring_warning _ = False"

definition ring_warnings :: "('q, 's) net_state \<Rightarrow> net_warning list" where
  "ring_warnings st = filter ring_warning (n_warnings st)"

definition ring_advance :: "site \<Rightarrow> 'q hashpipe_ops \<Rightarrow> nat \<Rightarrow> 'q \<Rightarrow> 'q" where
  "ring_advance s e i q = snd (hp_busywait_free e (snd (hp_set_filled e q i)) ((i + 2) mod N_INPUT_BLOCKS s))"

lemma finish_block_sem:
  assumes f: "finish_block s e so now h st = (st', Some r)" and inv: "window_inv s st"
  shows "n_sem st' = ring_advance s e (bi_block_i (n_binfo st)) (n_sem st)"
    "fst (hp_set_filled e (n_sem st) (bi_block_i (n_binfo st))) = HASHPIPE_OK"
    "fst (hp_busywait_free e (snd (hp_set_filled e (n_sem st) (bi_block_i (n_binfo st))))
       ((bi_block_i (n_binfo st) + 2) mod N_INPUT_BLOCKS s)) = HASHPIPE_OK"
proof -
  define i where "i = bi_block_i (n_binfo st)"
  define st1 where "st1 = st\<lparr>n_blocks := set_header i
       (\<lambda>hd. hd\<lparr>ih_time_sec := fst now, ih_time_nsec := snd now\<rparr>) (n_blocks st)\<rparr>"
  note D = window_invD [OF inv, folded i_def]
  have inv1: "window_inv s st1"
    using inv D by (auto simp: window_inv_def binfo_inv_def owned_inv_def st1_def i_def
      header_set_header Let_def blocks_wfD(2) [OF D(1)] intro!: blocks_wf_set_header)
  obtain st2 m where sbf: "set_block_filled s e so st1 = (st2, Some m)"
    using f by (auto simp: finish_block_def st1_def i_def Let_def split: prod.splits option.splits)
  note E = set_block_filled_effect [OF sbf inv1]
  have b1: "n_binfo st1 = n_binfo st" "n_sem st1 = n_sem st" by (simp_all add: st1_def)
  have nn: "Suc (Suc i mod N_INPUT_BLOCKS s) mod N_INPUT_BLOCKS s = (i + 2) mod N_INPUT_BLOCKS s"
    by (simp add: mod_Suc_eq)
  show "fst (hp_set_filled e (n_sem st) (bi_block_i (n_binfo st))) = HASHPIPE_OK"
    using E(6) by (simp add: b1)
  have rest: "n_sem st' = snd (hp_busywait_free e (n_sem st2) ((i + 2) mod N_INPUT_BLOCKS s)) \<and>
    fst (hp_busywait_free e (n_sem st2) ((i + 2) mod N_INPUT_BLOCKS s)) = HASHPIPE_OK"
    using f sbf E(1)
    by (auto simp: finish_block_def st1_def [symmetric] i_def [symmetric] Let_def b1 nn s6_databuf_wrappers
        split: prod.splits option.splits if_splits)
  show "n_sem st' = ring_advance s e (bi_block_i (n_binfo st)) (n_sem st)"
    "fst (hp_busywait_free e (snd (hp_set_filled e (n_sem st) (bi_block_i (n_binfo st))))
       ((bi_block_i (n_binfo st) + 2) mod N_INPUT_BLOCKS s)) = HASHPIPE_OK"
    using rest by (simp_all add: ring_advance_def E(5) b1 i_def)
qed

lemma ring_warnings_append:
  "\<exists>ws. n_warnings st' = n_warnings st @ ws \<and> set ws \<subseteq> W \<Longrightarrow> (\<And>w. w \<in> W \<Longrightarrow> \<not> ring_warning w) \<Longrightarrow>
   ring_warnings st' = ring_warnings st"
  by (auto simp: ring_warnings_def filter_empty_conv) blast

lemma accept_ring_warnings:
  "accept_packet s h f m st = (st', r) \<Longrightarrow> window_inv s st \<Longrightarrow> ring_warnings st' = ring_warnings st"
  by (rule ring_warnings_append [OF accept_packet_effect(13)]) auto

lemma in_window_block:
  assumes inv: "net_inv s st" and w: "in_window s st f"
  shows "block_for_mcnt s (ph_mcnt (get_header s f)) =
    (if pkt_mcnt_of s f < win_start s st + Nm s then win_block s st
     else (win_block s st + 1) mod N_INPUT_BLOCKS s)"
proof -
  define m where "m = win_start s st"
  define p where "p = pkt_mcnt_of s f"
  have d: "Nm s dvd m" and b: "win_block s st = mcnt_block (Nm s) (N_INPUT_BLOCKS s) m"
    using window_invD(5,7) [OF inv [unfolded net_inv_def]]
    by (simp_all add: m_def win_start_def win_block_def block_for_mcnt_eq)
  have pb: "block_for_mcnt s (ph_mcnt (get_header s f)) = mcnt_block (Nm s) (N_INPUT_BLOCKS s) p"
    by (simp add: block_for_mcnt_eq p_def pkt_mcnt_of_def)
  have w: "m \<le> p" "p < m + 2 * Nm s"
    using w by (simp_all add: in_window_def m_def p_def)
  show ?thesis
    unfolding pb b m_def [symmetric] p_def [symmetric]
    using pktw.block_same [OF d w(1)] pktw.block_following [OF d _ w(2)] by (cases "p < m + Nm s") simp_all
qed

lemma accept_packet_data:
  "accept_packet s h f m st = (st', r) \<Longrightarrow> window_inv s st \<Longrightarrow>
   ib_data (n_blocks st' ! j) =
     (if unat (ph_sid h) < N_SOURCE_NODES s \<and> j = block_for_mcnt s (ph_mcnt h)
      then copy_payload s h f (ib_data (n_blocks st ! j)) else ib_data (n_blocks st ! j))"
  using accept_packet_effect(10,11) [of s h f m st st' r] by (cases "unat (ph_sid h) < N_SOURCE_NODES s") simp_all

lemma closes_in_window: "closes_block s st f \<Longrightarrow> in_window s st f"
  by (auto simp: closes_block_def in_window_def)

lemma process_packet_effect:
  assumes inv: "net_inv s st" and p: "process_packet s e so now f st = (st', Some r)"
  shows "net_inv s st'" "bi_initialized (n_binfo st')"
    "r = (if closes_block s st f \<and> valid_sid s f then of_nat (win_start s st) else - 1)"
    "win_block s st' = (if closes_block s st f then (win_block s st + 1) mod N_INPUT_BLOCKS s else win_block s st)"
    "n_sem st' = (if closes_block s st f then ring_advance s e (win_block s st) (n_sem st) else n_sem st)"
    "ring_warnings st' = ring_warnings st"
    "ib_data (n_blocks st' ! j) =
       (if in_window s st f \<and> valid_sid s f \<and> j = block_for_mcnt s (ph_mcnt (get_header s f))
        then copy_payload s (get_header s f) f (ib_data (n_blocks st ! j)) else ib_data (n_blocks st ! j))"
    "in_window s st f \<Longrightarrow> win_start s st' = win_start s st + (if closes_block s st f then Nm s else 0)"
proof -
  define h where "h = get_header s f"
  define st0 where "st0 = lazy_init s st"
  have inv0: "window_inv s st0" using inv by (simp add: net_inv_def st0_def)
  have st0: "n_blocks st0 = n_blocks st" "n_sem st0 = n_sem st" "ring_warnings st0 = ring_warnings st"
    "win_start s st0 = win_start s st" "win_block s st0 = win_block s st"
    using lazy_init_idle' [OF inv0]
    by (simp_all add: st0_def ring_warnings_def win_start_def win_block_def)
  have ws: "unat (bi_mcnt_start (n_binfo st0)) = win_start s st" "bi_block_i (n_binfo st0) = win_block s st"
    by (simp_all add: st0_def win_start_def win_block_def)
  have wsw: "bi_mcnt_start (n_binfo st0) = of_nat (win_start s st)"
    by (simp add: st0_def win_start_def)
  have v: "valid_sid s f = (unat (ph_sid h) < N_SOURCE_NODES s)" by (simp add: valid_sid_def h_def)
  have hb: "unat (ph_mcnt h) < 2 ^ 56" unfolding h_def by (rule header_mcnt_bound)
  have W: "net_inv s x" "bi_initialized (n_binfo x)" "win_block s x = bi_block_i (n_binfo x)"
    "win_start s x = unat (bi_mcnt_start (n_binfo x))" if "window_inv s x" for x :: "('q, 's) net_state"
    using that window_invD(3) [OF that] lazy_init_idle' [OF that]
    by (simp_all add: window_net_inv win_block_def win_start_def)
  note C = process_packet_class [OF inv, of f e so now, folded h_def st0_def]
  consider (close) "closes_block s st f" | (acc) "in_window s st f" "\<not> closes_block s st f"
    | (late) "late_packet s st f" | (oos) "\<not> in_window s st f" "\<not> late_packet s st f" by blast
  then have *: "window_inv s st' \<and>
    r = (if closes_block s st f \<and> valid_sid s f then of_nat (win_start s st) else - 1) \<and>
    bi_block_i (n_binfo st') = (if closes_block s st f then (win_block s st + 1) mod N_INPUT_BLOCKS s else win_block s st) \<and>
    n_sem st' = (if closes_block s st f then ring_advance s e (win_block s st) (n_sem st) else n_sem st) \<and>
    ring_warnings st' = ring_warnings st \<and>
    ib_data (n_blocks st' ! j) = (if in_window s st f \<and> valid_sid s f \<and> j = block_for_mcnt s (ph_mcnt h)
        then copy_payload s h f (ib_data (n_blocks st ! j)) else ib_data (n_blocks st ! j)) \<and>
    (in_window s st f \<longrightarrow> unat (bi_mcnt_start (n_binfo st')) = win_start s st + (if closes_block s st f then Nm s else 0))"
  proof cases
    case close
    from p C(1) [OF close] obtain st1 m where f1: "finish_block s e so now h st0 = (st1, Some m)"
      and a: "accept_packet s h f m st1 = (st', r)"
      by (auto split: prod.splits option.splits simp: Let_def)
    have cl: "win_start s st + 3 * (Nm s div 2) \<le> unat (ph_mcnt h)" "unat (ph_mcnt h) < win_start s st + 2 * Nm s"
      using close by (simp_all add: closes_block_def pkt_mcnt_of_def h_def)
    note F = finish_block_effect [OF f1 inv0 cl [folded ws] hb]
    note S = finish_block_sem [OF f1 inv0]
    note A = accept_packet_effect [OF a F(2)]
    have r1: "ring_warnings st' = ring_warnings st"
      using accept_ring_warnings [OF a F(2)] F(5) st0(3) by (simp add: ring_warnings_def)
    have "unat (bi_mcnt_start (n_binfo st0) + Nmw s) = win_start s st + Nm s"
      using window_invD(6) [OF inv0] ws by (subst unat_plus_Nm) simp_all
    then show ?thesis
      using A(1-3,5,7,14) F(1,3,4,7) S(1) r1 accept_packet_data [OF a F(2), of j] close closes_in_window [OF close] st0(1,2) wsw
      by (auto simp: v ws)
  next
    case acc
    from p C(2) [OF acc] have a: "accept_packet s h f (- 1) st0 = (st', r)"
      by (auto split: prod.splits simp: Let_def)
    note A = accept_packet_effect [OF a inv0]
    show ?thesis
      using A(1-3,5,7,14) accept_packet_data [OF a inv0, of j] acc st0 accept_ring_warnings [OF a inv0] ws by (auto simp: v)
  next
    case late
    then have n: "\<not> in_window s st f" "\<not> closes_block s st f"
      by (auto simp: late_packet_def in_window_def closes_block_def)
    from p C(3) [OF late] have "st' = ignore_late_packet h st0" "r = - 1" by auto
    then show ?thesis
      using inv0 n st0 ws
      by (auto simp: ignore_late_packet_def Let_def ring_warnings_def window_inv_def owned_inv_def)
  next
    case oos
    then have n: "\<not> closes_block s st f" by (auto simp: in_window_def closes_block_def)
    from p C(4) [OF oos] have "st' = out_of_seq_packet s h st0" "r = - 1" by auto
    moreover note O = out_of_seq_packet_effect [OF inv0 hb]
    moreover have "ring_warnings (out_of_seq_packet s h st0) = ring_warnings st0"
      by (rule ring_warnings_append [OF O(8)]) auto
    ultimately show ?thesis using n oos O(1-5) O(6) [of j] st0 ws by simp
  qed
  show "net_inv s st'" "bi_initialized (n_binfo st')"
    "r = (if closes_block s st f \<and> valid_sid s f then of_nat (win_start s st) else - 1)"
    "win_block s st' = (if closes_block s st f then (win_block s st + 1) mod N_INPUT_BLOCKS s else win_block s st)"
    "n_sem st' = (if closes_block s st f then ring_advance s e (win_block s st) (n_sem st) else n_sem st)"
    "ring_warnings st' = ring_warnings st"
    "ib_data (n_blocks st' ! j) =
       (if in_window s st f \<and> valid_sid s f \<and> j = block_for_mcnt s (ph_mcnt (get_header s f))
        then copy_payload s (get_header s f) f (ib_data (n_blocks st ! j)) else ib_data (n_blocks st ! j))"
    "in_window s st f \<Longrightarrow> win_start s st' = win_start s st + (if closes_block s st f then Nm s else 0)"
    using * W [of st'] by (auto simp: h_def)
qed

end
