(* ===== verification/S6_Pktsock_Slots.thy ===== *)
theory S6_Pktsock_Slots
  imports S6_Pktsock_Inv
begin

text \<open>
  The corner turn of \<open>process_packet\<close>: which byte of a block a packet's payload
  byte is copied to, at each site, as a function of the packet's source ID and mcnt.
\<close>

subsection \<open>Where the bytes of a packet go\<close>

lemma mod_Nm_word: "m mod Nmw s = of_nat (unat m mod Nm s)"
proof -
  have "m mod Nmw s = of_nat (unat (m mod Nmw s))" by simp
  then show ?thesis by (simp only: unat_mod unat_Nmw)
qed

lemma unat_dest_s6:
  assumes "unat sid < 7"
  shows "8 * unat (dest_s6 sid m) = (unat sid * 131072 + unat m mod 131072) * 1280"
proof -
  define a r where "a = unat sid" and "r = unat m mod 131072"
  have b: "(a * 131072 + r) * 1280 < 2 ^ 64" using assms by (simp add: a_def r_def)
  have "dest_s6 sid m = (of_nat ((a * 131072 + r) * 1280) :: u64) div 8"
    using mod_Nm_word [of m SOURCE_S6] by (simp add: dest_s6_def a_def r_def mult.commute)
  then have "unat (dest_s6 sid m) = (a * 131072 + r) * 1280 div 8"
    using unat_of_nat_64 [OF b] by (simp add: unat_div del: of_nat_mult of_nat_add)
  then show ?thesis by (simp add: a_def r_def)
qed

lemma unat_dest_fast: "8 * unat (dest_fast m) = (unat m mod 65536) * 4096"
proof -
  define r where "r = unat m mod 65536"
  have b: "r * 4096 < 2 ^ 64" by (simp add: r_def)
  have "dest_fast m = (of_nat (r * 4096) :: u64) div 8"
    using mod_Nm_word [of m SOURCE_FAST] by (simp add: dest_fast_def r_def)
  then have "unat (dest_fast m) = r * 4096 div 8"
    using unat_of_nat_64 [OF b] by (simp add: unat_div del: of_nat_mult of_nat_add)
  then show ?thesis by (simp add: r_def)
qed

lemma four_mod: "i < 4 \<Longrightarrow> (4 * m + i) mod 524288 = 4 * (m mod 131072) + (i :: nat)"
proof -
  assume i: "i < 4"
  have "(4 * m + i) mod (4 * 131072) = 4 * ((4 * m + i) div 4 mod 131072) + (4 * m + i) mod 4"
    by (rule mod_mult2_eq)
  then show ?thesis using i by simp
qed

lemma unat_dest_dibas:
  assumes "unat m < 2 ^ 56" "i < 4" "j < 8"
  shows "8 * unat (dest_dibas m i j) = (j * 524288 + 4 * (unat m mod 131072) + i) * 256"
proof -
  define r where "r = 4 * (unat m mod 131072) + i"
  have b: "(j * 524288 + r) * 256 < 2 ^ 64" using assms by (simp add: r_def)
  have u: "unat (m * 4 + of_nat i) = 4 * unat m + i"
    using assms by (subst unat_add_64; subst unat_mult_64; simp add: s6_word)
  have "(m * 4 + of_nat i) mod 524288 = of_nat r"
    using assms unat_of_nat_64 [of r] by (simp add: word_unat_eq_iff unat_mod u four_mod r_def del: of_nat_add of_nat_mult)
  then have "dest_dibas m i j = (of_nat ((j * 524288 + r) * 256) :: u64) div 8"
    by (simp add: dest_dibas_def N_BYTES_PER_SUBSPECTRUM_def)
  then have "unat (dest_dibas m i j) = (j * 524288 + r) * 256 div 8"
    using unat_of_nat_64 [OF b] by (simp add: unat_div del: of_nat_mult of_nat_add)
  then show ?thesis by (simp add: r_def)
qed

text \<open>The position of a byte of the block: which packet it belongs to, and which payload byte it is.\<close>

fun slot_bytes :: "site \<Rightarrow> packet_header \<Rightarrow> nat \<Rightarrow> bool" where
  "slot_bytes SOURCE_S6 h a = (a div 1280 = unat (ph_sid h) * 131072 + unat (ph_mcnt h) mod 131072)"
| "slot_bytes SOURCE_DIBAS h a =
     (a div (256 * 524288) < 8 \<and> a div 256 mod 524288 div 4 = unat (ph_mcnt h) mod 131072)"
| "slot_bytes SOURCE_FAST h a = (a div 4096 = unat (ph_mcnt h) mod 65536)"

fun slot_source :: "site \<Rightarrow> nat \<Rightarrow> nat" where
  "slot_source SOURCE_S6 a = a mod 1280"
| "slot_source SOURCE_DIBAS a = a div 256 mod 4 * 2048 + a div (256 * 524288) * 256 + a mod 256"
| "slot_source SOURCE_FAST a = a mod 4096"

text \<open>The UDP length of a packet that carries exactly its share of the block.\<close>
fun full_size :: "site \<Rightarrow> nat" where
  "full_size SOURCE_S6 = 8 + 8 + 1280 + 8"
| "full_size SOURCE_DIBAS = 8 + 8 + 8192 + 8"
| "full_size SOURCE_FAST = 8 + 8 + 4096"

lemma memcpy_block:
  "memcpy d (q * n) src n = (\<lambda>a. if a div n = q \<and> 0 < n then src (a mod n) else d a)"
proof
  fix a
  show "memcpy d (q * n) src n a = (if a div n = q \<and> 0 < n then src (a mod n) else d a)"
  proof (cases "n = 0")
    case False
    have "(q * n \<le> a \<and> a < q * n + n) = (a div n = q)"
      using False div_times_less_eq_dividend [of a n] dividend_less_div_times [of n a]
      by (auto intro!: div_nat_eqI simp: mult.commute)
    moreover have "a div n = q \<Longrightarrow> a - q * n = a mod n"
      by (simp add: minus_div_mult_eq_mod [symmetric] mult.commute)
    ultimately show ?thesis using False by (auto simp: memcpy_def)
  qed simp
qed

lemma div_eq_pair: "c < n \<Longrightarrow> ((q :: nat) = j * n + c) = (q div n = j \<and> q mod n = c)"
  by auto

lemma dibas_step_slot:
  assumes m: "unat m < 2 ^ 56" and i: "i < 4" and j: "j < 8"
  shows "dibas_copy_step m pay i j (d, src) =
    ((\<lambda>a. if a div (256 * 524288) = j \<and> a div 256 mod 524288 = 4 * (unat m mod 131072) + i
          then pay (src + a mod 256) else d a), src + 256)"
proof -
  define c where "c = 4 * (unat m mod 131072) + i"
  have c: "c < 524288" using i by (simp add: c_def)
  have n: "N_BYTES_PER_SUBSPECTRUM SOURCE_DIBAS = 256" by (simp add: N_BYTES_PER_SUBSPECTRUM_def)
  have dest: "8 * unat (dest_dibas m i j) = (j * 524288 + c) * 256"
    using unat_dest_dibas [OF m i j] by (simp add: c_def)
  have src: "src + 8 * (256 div 8) = src + 256" by simp
  show ?thesis
    unfolding dibas_copy_step_def prod.case n dest memcpy_block c_def [symmetric] src
    by (simp only: div_mult2_eq div_eq_pair [OF c]) simp
qed

lemma dibas_inner:
  assumes m: "unat m < 2 ^ 56" and i: "i < 4" and k: "k \<le> 8"
  shows "fold (dibas_copy_step m pay i) [0..<k] (d, src) =
    ((\<lambda>a. if a div (256 * 524288) < k \<and> a div 256 mod 524288 = 4 * (unat m mod 131072) + i
          then pay (src + a div (256 * 524288) * 256 + a mod 256) else d a), src + k * 256)"
  using k
proof (induction k)
  case (Suc k)
  then have IH: "fold (dibas_copy_step m pay i) [0..<k] (d, src) =
    ((\<lambda>a. if a div (256 * 524288) < k \<and> a div 256 mod 524288 = 4 * (unat m mod 131072) + i
          then pay (src + a div (256 * 524288) * 256 + a mod 256) else d a), src + k * 256)" by simp
  have k: "k < 8" using Suc.prems by simp
  have up: "[0..<Suc k] = [0..<k] @ [k]" by simp
  show ?case
    unfolding up fold_append comp_apply IH fold_simps dibas_step_slot [OF m i k]
    by (auto simp only: fun_eq_iff less_Suc_eq prod.inject split: if_split) simp_all
qed simp

lemma dibas_outer:
  assumes m: "unat m < 2 ^ 56" and l: "l \<le> 4"
  shows "fold (\<lambda>i. fold (dibas_copy_step m pay i) [0..<8]) [0..<l] (d, 0) =
    ((\<lambda>a. if a div (256 * 524288) < 8 \<and> a div 256 mod 524288 div 4 = unat m mod 131072 \<and>
             a div 256 mod 4 < l
          then pay (a div 256 mod 4 * 2048 + a div (256 * 524288) * 256 + a mod 256) else d a), l * 2048)"
  using l
proof (induction l)
  case (Suc l)
  define r where "r = unat m mod 131072"
  from Suc have IH: "fold (\<lambda>i. fold (dibas_copy_step m pay i) [0..<8]) [0..<l] (d, 0) =
    ((\<lambda>a. if a div (256 * 524288) < 8 \<and> a div 256 mod 524288 div 4 = unat m mod 131072 \<and>
             a div 256 mod 4 < l
          then pay (a div 256 mod 4 * 2048 + a div (256 * 524288) * 256 + a mod 256) else d a), l * 2048)"
    by simp
  have l: "l < 4" using Suc.prems by simp
  have mm: "a div 256 mod 524288 mod 4 = a div 256 mod 4" for a :: nat
    by (simp add: mod_mod_cancel)
  have pos: "(a div 256 mod 524288 = 4 * r + l) = (a div 256 mod 524288 div 4 = r \<and> a div 256 mod 4 = l)" for a :: nat
    using div_eq_pair [OF l, of "a div 256 mod 524288" r] by (simp add: mm mult.commute)
  have up: "[0..<Suc l] = [0..<l] @ [l]" by simp
  show ?case
    unfolding up fold_append comp_apply IH fold_simps dibas_inner [OF m l order_refl] r_def [symmetric] pos
    by (auto simp only: fun_eq_iff less_Suc_eq prod.inject split: if_split) simp_all
qed simp

lemma dibas_copy_slot:
  assumes "unat m < 2 ^ 56"
  shows "dibas_copy m pay d =
    (\<lambda>a. if a div (256 * 524288) < 8 \<and> a div 256 mod 524288 div 4 = unat m mod 131072
         then pay (slot_source SOURCE_DIBAS a) else d a)"
proof -
  have "dibas_copy m pay d = fst (fold (\<lambda>i. fold (dibas_copy_step m pay i) [0..<8]) [0..<4] (d, 0))"
    by (simp only: dibas_copy_def N_SUBSPECTRA_PER_SPECTRUM.simps N_SPECTRA_PER_PACKET.simps)
  then show ?thesis
    by (simp add: dibas_outer [OF assms] fun_eq_iff del: upt_rec_numeral)
qed

lemma copy_len_full: "copy_len f oh = udp_size f - nat oh" if "0 \<le> oh" "oh \<le> int (udp_size f)" "udp_size f < 2 ^ 16"
proof -
  have "int (udp_size f) - oh = int (udp_size f - nat oh)" using that by simp
  then have "copy_len f oh = unat (of_nat (udp_size f - nat oh) :: u64)"
    by (simp only: copy_len_def of_int_of_nat_eq)
  moreover have "udp_size f - nat oh < 2 ^ 64" using that by simp
  ultimately show ?thesis by (simp only: unat_of_nat_64)
qed

lemma copy_payload_slot:
  assumes size: "udp_size f = full_size s" and sid: "unat (ph_sid h) < N_SOURCE_NODES s"
    and m: "unat (ph_mcnt h) < 2 ^ 56"
  shows "copy_payload s h f d = (\<lambda>a. if slot_bytes s h a then payload f (slot_source s a) else d a)"
proof (cases s)
  case SOURCE_S6
  have l: "copy_len f (8 + 8 + 8) = 1280" using size SOURCE_S6 by (subst copy_len_full) simp_all
  have d: "8 * unat (dest_s6 (ph_sid h) (ph_mcnt h)) =
      (unat (ph_sid h) * 131072 + unat (ph_mcnt h) mod 131072) * 1280"
    using sid SOURCE_S6 by (intro unat_dest_s6) simp
  show ?thesis
    unfolding SOURCE_S6 copy_payload.simps l d memcpy_block slot_bytes.simps slot_source.simps by simp
next
  case SOURCE_DIBAS
  show ?thesis
    unfolding SOURCE_DIBAS copy_payload.simps dibas_copy_slot [OF m] slot_bytes.simps ..
next
  case SOURCE_FAST
  have l: "copy_len f (8 + 8) = 4096" using size SOURCE_FAST by (subst copy_len_full) simp_all
  show ?thesis
    unfolding SOURCE_FAST copy_payload.simps l unat_dest_fast memcpy_block slot_bytes.simps slot_source.simps
    by simp
qed

lemma slot_bytes_in_block:
  assumes "unat (ph_sid h) < N_SOURCE_NODES s" "slot_bytes s h a"
  shows "a < N_DATA_BYTES_PER_BLOCK s"
proof (cases s)
  case SOURCE_S6
  then have "a div 1280 < 917504" using assms by simp
  then have "a < 917504 * 1280" by (simp add: div_less_iff_less_mult)
  then show ?thesis by (simp add: SOURCE_S6 s6_const)
next
  case SOURCE_DIBAS
  then have "a < 8 * (256 * 524288)" using assms by (simp add: div_less_iff_less_mult)
  then show ?thesis by (simp add: SOURCE_DIBAS s6_const)
next
  case SOURCE_FAST
  then have "a div 4096 < 65536" using assms by simp
  then have "a < 65536 * 4096" by (simp add: div_less_iff_less_mult)
  then show ?thesis by (simp add: SOURCE_FAST s6_const)
qed

end
