(* ===== verification/S6_Pktsock_Run.thy ===== *)
theory S6_Pktsock_Run
  imports S6_Pktsock_Slots
begin

text \<open>
  The main loop of the packet-socket thread keeps the window invariant and drives the ring's
  semaphores in ring order; the properties of the thread.
\<close>

subsection \<open>The main loop\<close>

lemma acquire_first_blocks_inv:
  assumes a: "acquire_first_blocks s e st = Some st'"
    and wf: "blocks_wf s (n_blocks st)" "n_last_filled st = - 1" "\<not> bi_initialized (n_binfo st)"
  shows "net_inv s st'" "win_block s st' = 0" "win_start s st' = 0" "n_warnings st' = n_warnings st"
    "n_sem st' = snd (hp_busywait_free e (snd (hp_busywait_free e (n_sem st) 0)) 1)"
proof -
  define bs where "bs = initialize_block s (Nmw s) 0 0 0 (initialize_block s 0 0 0 0 (n_blocks st))"
  have S: "st' = st\<lparr>n_sem := n_sem st', n_blocks := bs\<rparr>"
    using a by (auto simp: acquire_first_blocks_def bs_def Let_def split: prod.splits if_splits)
  have b: "n_binfo (lazy_init s st') =
      \<lparr>bi_initialized = True, bi_pchan = 0, bi_nchan = 0, bi_mcnt_start = 0, bi_mcnt_log_late = Nmw s,
       bi_out_of_seq_cnt = 0, bi_block_i = 0, bi_block_packet_counter = replicate (N_INPUT_BLOCKS s) 0\<rparr>"
    by (subst S) (simp add: lazy_init_def initialize_block_info_def wf)
  have st: "n_blocks st' = bs" "n_last_filled st' = - 1" "n_warnings st' = n_warnings st"
    by (subst S, simp add: wf)+
  have z: "block_for_mcnt s 0 = 0" by (simp add: block_for_mcnt_eq mcnt_block_def)
  have o: "block_for_mcnt s (Nmw s) = Suc 0"
    using Nm_bounds [of s] N_INPUT_BLOCKS_bounds [of s] by (simp add: block_for_mcnt_eq mcnt_block_def)
  have mm: "Nmw s mod Nmw s = 0" by simp
  have "blocks_wf s bs" using wf by (simp add: bs_def)
  moreover have "owned_inv s (lazy_init s st')"
    using N_INPUT_BLOCKS_bounds [of s] blocks_wfD(1) [OF wf(1)]
    by (simp add: owned_inv_def Let_def b st bs_def header_initialize_block z o)
  ultimately show "net_inv s st'"
    using z by (simp add: net_inv_def window_inv_def b st binfo_inv_def)
  show "win_block s st' = 0" "win_start s st' = 0" by (simp_all add: win_block_def win_start_def b)
  show "n_warnings st' = n_warnings st" by (rule st)
  show "n_sem st' = snd (hp_busywait_free e (snd (hp_busywait_free e (n_sem st) 0)) 1)"
    using a by (auto simp: acquire_first_blocks_def s6_databuf_wrappers Let_def split: prod.splits if_splits)
qed

lemma net_inv_status [simp]:
  "net_inv s (st\<lparr>n_status := x\<rparr>) = net_inv s st" "win_block s (st\<lparr>n_status := x\<rparr>) = win_block s st"
  "win_start s (st\<lparr>n_status := x\<rparr>) = win_start s st"
  "ring_warnings (st\<lparr>n_status := x\<rparr>) = ring_warnings st"
  by (simp_all add: net_inv_def window_inv_def owned_inv_def lazy_init_def win_block_def win_start_def ring_warnings_def)

lemma net_inv_warn [simp]:
  "net_inv s (warn w st) = net_inv s st" "win_block s (warn w st) = win_block s st"
  "win_start s (warn w st) = win_start s st"
  "ring_warnings (warn w st) = ring_warnings st @ (if ring_warning w then [w] else [])"
  by (simp_all add: net_inv_def window_inv_def owned_inv_def lazy_init_def win_block_def win_start_def ring_warnings_def)

text \<open>Block number \<open>n\<close> counted from the start of the thread is the current one: the
  ring state is that after \<open>n\<close> blocks were filled in order.\<close>

fun ring_after :: "site \<Rightarrow> 'q hashpipe_ops \<Rightarrow> nat \<Rightarrow> 'q \<Rightarrow> 'q" where
  "ring_after s e 0 q = snd (hp_busywait_free e (snd (hp_busywait_free e q 0)) 1)"
| "ring_after s e (Suc n) q = ring_advance s e (n mod N_INPUT_BLOCKS s) (ring_after s e n q)"

definition run_inv :: "site \<Rightarrow> 'q hashpipe_ops \<Rightarrow> 'q \<Rightarrow> net_warning list \<Rightarrow> ('q, 's) net_state \<Rightarrow> bool" where
  "run_inv s e q ws net = (net_inv s net \<and> ring_warnings net = ws \<and>
     (\<exists>n. win_block s net = n mod N_INPUT_BLOCKS s \<and> n_sem net = ring_after s e n q))"

fun result_state :: "'a step_result \<Rightarrow> 'a" where
  "result_state (Continue x) = x" | "result_state (Break x) = x" | "result_state (Exited x) = x"

fun exited :: "'a step_result \<Rightarrow> bool" where
  "exited (Exited _) = True" | "exited _ = False"

lemma run_inv_cong:
  "n_binfo st' = n_binfo st \<Longrightarrow> n_blocks st' = n_blocks st \<Longrightarrow> n_last_filled st' = n_last_filled st \<Longrightarrow>
   n_sem st' = n_sem st \<Longrightarrow> ring_warnings st' = ring_warnings st \<Longrightarrow> run_inv s e q ws st' = run_inv s e q ws st"
  by (simp add: run_inv_def net_inv_def window_inv_def owned_inv_def lazy_init_def win_block_def)

lemma process_packet_run_inv:
  assumes "run_inv s e q ws st" "process_packet s e so now f st = (st', Some r)"
  shows "run_inv s e q ws st'"
proof -
  from assms(1) obtain n where inv: "net_inv s st" "ring_warnings st = ws"
      "win_block s st = n mod N_INPUT_BLOCKS s" "n_sem st = ring_after s e n q"
    by (auto simp: run_inv_def)
  note P = process_packet_effect [OF inv(1) assms(2)]
  have "win_block s st' = (if closes_block s st f then Suc n else n) mod N_INPUT_BLOCKS s"
    "n_sem st' = ring_after s e (if closes_block s st f then Suc n else n) q"
    using P(4,5) inv(3,4) by (simp_all add: mod_Suc_eq)
  then show ?thesis
    unfolding run_inv_def using P(1,6) inv(2) by blast
qed

lemma run_step_cases:
  assumes "run_step s e so ev rs = R"
  obtains (quit) "R = Break (rs\<lparr>rs_frames_held := rs_frames_held rs + 1\<rparr>)" "rx_quit ev"
    | (bad) "\<not> rx_quit ev" "\<not> packet_size_ok s (rx_frame ev)"
        "R = Continue (rs\<lparr>rs_frames_held := rs_frames_held rs + 1,
             rs_net := warn (Invalid_pkt_size (int (udp_size (rx_frame ev)) - 8)) (rs_net rs)\<rparr>)"
    | (exit) net where "process_packet s e so (rx_now ev) (rx_frame ev) (rs_net rs) = (net, None)" "exited R"
    | (packet) net m rs' where "packet_size_ok s (rx_frame ev)"
        "process_packet s e so (rx_now ev) (rx_frame ev) (rs_net rs) = (net, Some m)"
        "R = Continue rs'" "rs_net rs' = net\<lparr>n_status := n_status (rs_net rs')\<rparr>" "rs_frames_held rs' = rs_frames_held rs"
proof (cases "rx_quit ev")
  case True
  then show ?thesis using assms quit by (auto simp: run_step_def)
next
  case False
  note nq = this
  show ?thesis
  proof (cases "packet_size_ok s (rx_frame ev)")
    case False
    then show ?thesis using assms nq bad by (simp add: run_step_def Let_def)
  next
    case True
    obtain net r where p: "process_packet s e so (rx_now ev) (rx_frame ev) (rs_net rs) = (net, r)" by force
    show ?thesis
    proof (cases r)
      case None
      then show ?thesis using assms nq True p exit by (auto simp: run_step_def Let_def)
    next
      case (Some m)
      have "\<exists>rs'. R = Continue rs' \<and> rs_net rs' = net\<lparr>n_status := n_status (rs_net rs')\<rparr> \<and> rs_frames_held rs' = rs_frames_held rs"
        using assms nq True p Some
        by (auto simp: run_step_def Let_def dump_voltages_def split: prod.splits if_splits)
      then show ?thesis using packet True p Some by blast
    qed
  qed
qed

lemma run_step_inv:
  assumes "run_inv s e q ws (rs_net rs)" "\<not> exited (run_step s e so ev rs)"
  shows "run_inv s e q ws (rs_net (result_state (run_step s e so ev rs)))"
proof (cases rule: run_step_cases [OF refl, of s e so ev rs, case_names quit bad exit packet])
  case (packet net m rs')
  obtain buf where n: "rs_net rs' = net\<lparr>n_status := buf\<rparr>" using packet(4) ..
  have "run_inv s e q ws net" by (rule process_packet_run_inv [OF assms(1) packet(2)])
  then show ?thesis by (simp add: packet(3) n run_inv_def)
qed (use assms in \<open>auto simp: run_inv_def\<close>)

lemma run_loop_inv:
  "run_inv s e q ws (rs_net rs) \<Longrightarrow> \<not> exited (run_loop s e so evs rs) \<Longrightarrow>
   run_inv s e q ws (rs_net (result_state (run_loop s e so evs rs)))"
proof (induction s e so evs rs rule: run_loop.induct)
  case (2 s e so ev evs rs)
  show ?case
    using "2.IH" "2.prems" run_step_inv [OF "2.prems"(1), of so ev]
    by (cases "run_step s e so ev rs") auto
qed simp

lemma pktsock_run_inv:
  assumes wf: "blocks_wf s (n_blocks st)" "n_last_filled st = - 1" "\<not> bi_initialized (n_binfo st)"
    and r: "\<not> exited (pktsock_run s e so key evs st)"
  shows "run_inv s e (n_sem st) (ring_warnings st) (rs_net (result_state (pktsock_run s e so key evs st)))"
proof -
  from r obtain st1 where a: "acquire_first_blocks s e st = Some st1"
    by (auto simp: pktsock_run_def split: option.splits)
  note A = acquire_first_blocks_inv [OF a wf]
  have "run_inv s e (n_sem st) (ring_warnings st) st1"
    unfolding run_inv_def using A by (auto simp: ring_warnings_def intro!: exI [of _ 0])
  then have "run_inv s e (n_sem st) (ring_warnings st)
     (rs_net (run_init (st1\<lparr>n_status := reset_missed_status so key (n_status st1)\<rparr>)))"
    by (simp add: run_init_def run_inv_def)
  from run_loop_inv [OF this] r show ?thesis by (simp add: pktsock_run_def a)
qed

subsection \<open>Driving a recording ring\<close>

definition net_calls :: "site \<Rightarrow> nat \<Rightarrow> ring_call list" where
  "net_calls s n = [Wait_free 0, Wait_free 1] @
     concat (map (\<lambda>k. [Set_filled (k mod N_INPUT_BLOCKS s), Wait_free ((k + 2) mod N_INPUT_BLOCKS s)]) [0..<n])"

lemma ring_after_recorder: "ring_after s recorder n q = q @ net_calls s n"
proof (induction n)
  case (Suc n)
  have "(n mod N_INPUT_BLOCKS s + 2) mod N_INPUT_BLOCKS s = (n + 2) mod N_INPUT_BLOCKS s"
    by (simp add: mod_simps)
  with Suc show ?case
    by (simp add: ring_advance_def recorder_def net_calls_def)
qed (simp add: recorder_def net_calls_def)

lemma finish_block_recorder: "snd (finish_block s recorder so now h st) \<noteq> None"
  by (auto simp: finish_block_def set_block_filled_def Let_def s6_databuf_wrappers recorder_def
      split: prod.splits option.splits if_splits)

lemma process_packet_recorder: "snd (process_packet s recorder so now f st) \<noteq> None"
  using finish_block_recorder [of s so now "get_header s f" "lazy_init s st"]
  by (auto simp: process_packet_def lazy_init_def Let_def split: prod.splits option.splits if_splits)

lemma run_loop_recorder: "\<not> exited (run_loop s recorder so evs rs)"
proof (induction evs arbitrary: rs)
  case (Cons ev evs)
  show ?case
  proof (cases rule: run_step_cases [OF refl, of s recorder so ev rs, case_names quit bad exit packet])
    case (exit net)
    then show ?thesis
      using process_packet_recorder [of s so "rx_now ev" "rx_frame ev" "rs_net rs"] by simp
  qed (use Cons.IH in simp_all)
qed simp

lemma pktsock_run_recorder: "\<not> exited (pktsock_run s recorder so key evs st)"
  by (auto simp: pktsock_run_def acquire_first_blocks_def recorder_def Let_def s6_databuf_wrappers
      run_loop_recorder [unfolded recorder_def])

definition boot_binfo :: block_info where
  "boot_binfo = \<lparr>bi_initialized = False, bi_pchan = 0, bi_nchan = 0, bi_mcnt_start = 0, bi_mcnt_log_late = 0,
     bi_out_of_seq_cnt = 0, bi_block_i = 0, bi_block_packet_counter = []\<rparr>"

definition zero_block :: "site \<Rightarrow> in_block" where
  "zero_block s = \<lparr>ib_header = \<lparr>ih_mcnt = 0, ih_coarse_chan_id = 0, ih_num_coarse_chan = 0, ih_sid = 0,
      ih_time_sec = 0, ih_time_nsec = 0, ih_missed_pkts = replicate (N_BORS s) 0\<rparr>, ib_data = (\<lambda>a. 0)\<rparr>"

definition boot_state :: "site \<Rightarrow> 'q \<Rightarrow> 's \<Rightarrow> ('q, 's) net_state" where
  "boot_state s q buf = \<lparr>n_binfo = boot_binfo, n_last_filled = - 1,
     n_blocks = replicate (N_INPUT_BLOCKS s) (zero_block s), n_sem = q, n_status = buf, n_warnings = []\<rparr>"

lemma boot_state_simps [simp]:
  "n_last_filled (boot_state s q buf) = - 1" "\<not> bi_initialized (n_binfo (boot_state s q buf))"
  "n_sem (boot_state s q buf) = q" "n_warnings (boot_state s q buf) = []"
  "blocks_wf s (n_blocks (boot_state s q buf))" "n_status (boot_state s q buf) = buf"
  by (simp_all add: boot_state_def boot_binfo_def blocks_wf_def zero_block_def)

lemma boot_net_inv [simp]: "net_inv s st'" if "acquire_first_blocks s e (boot_state s q buf) = Some st'"
  using acquire_first_blocks_inv(1) [OF that] by simp

definition demo_event :: "frame \<Rightarrow> rx_event" where
  "demo_event f = \<lparr>rx_frame = f, rx_recv_start = (0, 0), rx_start = (0, 10), rx_recv_stop = (0, 20), rx_stop = (0, 30),
     rx_now = (1000, 5), rx_pkts = 0, rx_drops = 0, rx_quit = False, rx_can_open = True\<rparr>"

subsection \<open>Header words\<close>

lemma word_of_bytes_step:
  "push_bit 8 (drop_bit (n + 8) (x :: u64)) OR ucast (ucast (drop_bit n x) :: u8) = drop_bit n x"
  by (rule bit_word_eqI) (auto simp: bit_simps)

lemmas word_of_bytes_steps =
  word_of_bytes_step [of 56, simplified] word_of_bytes_step [of 48, simplified]
  word_of_bytes_step [of 40, simplified] word_of_bytes_step [of 32, simplified]
  word_of_bytes_step [of 24, simplified] word_of_bytes_step [of 16, simplified]
  word_of_bytes_step [of 8, simplified] word_of_bytes_step [of 0, simplified]

definition be_bytes :: "u64 \<Rightarrow> store" where
  "be_bytes w = (\<lambda>i. ucast (drop_bit (56 - 8 * i) w))"

definition le_bytes :: "u64 \<Rightarrow> store" where
  "le_bytes w = (\<lambda>i. ucast (drop_bit (8 * i) w))"

lemma drop_bit_64: "(0 :: u64) = drop_bit 64 x"
  by (rule bit_word_eqI) (auto simp: bit_simps dest: bit_imp_le_length)

lemma load_be64_bytes: "load_be64 (be_bytes x) = x"
  unfolding load_be64_def foldl.simps be_bytes_def
  by (subst drop_bit_64 [of x], use word_of_bytes_steps [of x] in simp)

lemma load_le64_bytes: "load_le64 (le_bytes x) = x"
  unfolding load_le64_def foldl.simps le_bytes_def
  by (subst drop_bit_64 [of x], use word_of_bytes_steps [of x] in simp)

lemma bit_below: "unat (w :: u64) < 2 ^ k \<Longrightarrow> bit w n \<Longrightarrow> n < k"
proof -
  assume w: "unat w < 2 ^ k" "bit w n"
  have "take_bit k w = w"
    using w(1) by (simp add: word_unat_eq_iff unsigned_take_bit_eq take_bit_nat_eq_self)
  then show "n < k" using w(2) by (metis bit_take_bit_iff)
qed

text \<open>The header word as the three telescopes' gateware sends it: field by field.\<close>

fun wire_word :: "site \<Rightarrow> u64 \<Rightarrow> u64 \<Rightarrow> u64 \<Rightarrow> u64" where
  "wire_word SOURCE_S6 mcnt pchan sid = push_bit 16 mcnt OR push_bit 4 pchan OR sid"
| "wire_word SOURCE_DIBAS mcnt pchan node = push_bit 56 node OR mcnt"
| "wire_word SOURCE_FAST mcnt beam pol = push_bit 57 beam OR push_bit 56 pol OR mcnt"

definition wire_frame :: "site \<Rightarrow> u64 \<Rightarrow> nat \<Rightarrow> frame" where
  "wire_frame s w n = \<lparr>udp_data = (if s = SOURCE_FAST then le_bytes w else be_bytes w), udp_size = n\<rparr>"

lemma get_header_wire: "get_header s (wire_frame s w n) = decode_header s w (header_nchan s n)"
  by (simp add: get_header_def wire_frame_def load_be64_bytes load_le64_bytes)

lemma and_masks:
  "(w :: u64) AND 0x0000000000000FFF = take_bit 12 w" "w AND 0x000000000000000F = take_bit 4 w"
  "w AND 0x00FFFFFFFFFFFFFF = take_bit 56 w"
  by (simp_all add: take_bit_eq_mask mask_eq_exp_minus_1)

lemma decode_s6:
  assumes "unat m < 2 ^ 48" "unat p < 2 ^ 12" "unat d < 2 ^ 4"
  shows "decode_header SOURCE_S6 (wire_word SOURCE_S6 m p d) n = \<lparr>ph_mcnt = m, ph_pchan = p, ph_nchan = n, ph_sid = d\<rparr>"
proof -
  note b = bit_below [OF assms(1)] bit_below [OF assms(2)] bit_below [OF assms(3)]
  define w where "w = push_bit 16 m OR push_bit 4 p OR d"
  have "drop_bit 16 w = m"
    by (rule bit_word_eqI) (auto simp: w_def bit_simps dest: b)
  moreover have "take_bit 12 (drop_bit 4 w) = p"
    by (rule bit_word_eqI) (auto simp: w_def bit_simps dest: b)
  moreover have "take_bit 4 w = d"
    by (rule bit_word_eqI) (auto simp: w_def bit_simps dest: b)
  ultimately show ?thesis by (simp only: decode_header.simps wire_word.simps and_masks w_def)
qed

lemma decode_dibas:
  assumes "unat m < 2 ^ 56" "unat d < 2 ^ 8"
  shows "decode_header SOURCE_DIBAS (wire_word SOURCE_DIBAS m p d) n =
    \<lparr>ph_mcnt = m, ph_pchan = d * 512, ph_nchan = n, ph_sid = d\<rparr>"
proof -
  note b = bit_below [OF assms(1)] bit_below [OF assms(2)]
  define w where "w = push_bit 56 d OR m"
  have "drop_bit 56 w = d"
    by (rule bit_word_eqI) (auto simp: w_def bit_simps dest: b)
  moreover have "take_bit 56 w = m"
    by (rule bit_word_eqI) (auto simp: w_def bit_simps dest: b)
  ultimately show ?thesis by (simp only: decode_header.simps wire_word.simps and_masks w_def) simp
qed

lemma decode_fast:
  assumes "unat m < 2 ^ 56" "unat beam < 2 ^ 5" "unat pol < 2"
  shows "decode_header SOURCE_FAST (wire_word SOURCE_FAST m beam pol) n =
    \<lparr>ph_mcnt = m, ph_pchan = 0, ph_nchan = n, ph_sid = of_int ((uint beam - 1) * 2 + uint pol)\<rparr>"
proof -
  have "unat pol < 2 ^ 1" using assms by simp
  note b = bit_below [OF assms(1)] bit_below [OF assms(2)] bit_below [OF this]
  define w where "w = push_bit 57 beam OR push_bit 56 pol OR m"
  define r where "r = (ucast (drop_bit 56 w) :: u8)"
  have m1: "drop_bit 1 (0x3e :: u8) = mask 5" "(0x01 :: u8) = mask 1"
    by (simp_all add: mask_eq_exp_minus_1)
  have "take_bit 56 w = m"
    by (rule bit_word_eqI) (auto simp: w_def bit_simps dest: b)
  moreover have "drop_bit 1 (r AND 0x3e) = ucast beam"
    unfolding drop_bit_and m1 take_bit_eq_mask [symmetric]
    by (rule bit_word_eqI) (auto simp: r_def w_def bit_simps dest: b)
  moreover have "r AND 0x01 = ucast pol"
    unfolding m1 by (rule bit_word_eqI) (auto simp: r_def w_def bit_simps dest: b)
  moreover have u: "uint (ucast x :: u8) = uint x" if "unat x < 2 ^ 5" for x :: u64
  proof -
    have "unat x < 256" using that by simp
    then have "int (unat x) < int 256" by (simp only: of_nat_less_iff)
    then have "uint x < 2 ^ 8" by (simp only: uint_nat) simp
    then have "take_bit 8 (uint x) = uint x" by (intro take_bit_int_eq_self) simp_all
    then show ?thesis by (simp add: unsigned_ucast_eq)
  qed
  moreover have "uint (ucast beam :: u8) = uint beam" "uint (ucast pol :: u8) = uint pol"
    using assms by (simp_all add: u)
  ultimately show ?thesis by (simp only: decode_header.simps wire_word.simps and_masks w_def r_def Let_def)
qed

end
