(* ===== verification/S6_Pktsock_Props.thy ===== *)
theory S6_Pktsock_Props
  imports S6_Pktsock_Run
begin

text \<open>
  The properties of the packet-socket thread, with a concrete state and concrete
  packets at which their hypotheses hold.
\<close>

subsection \<open>Ring order\<close>

text \<open>C1: Whatever packets arrive, the packet-socket thread acquires blocks 0 and 1 and then
  alternately marks the current block filled and acquires the block two ahead, in ring order;
  its window invariant holds throughout and neither ring-consistency warning of
  set_block_filled is ever printed.\<close>
theorem pktsock_fills_in_ring_order:
  assumes "blocks_wf s (n_blocks st)" "n_last_filled st = - 1" "\<not> bi_initialized (n_binfo st)"
    and "n_sem st = []" "n_warnings st = []"
  shows "let net = rs_net (result_state (pktsock_run s recorder so key evs st))
     in \<exists>n. n_sem net = net_calls s n \<and> win_block s net = n mod N_INPUT_BLOCKS s \<and>
          net_inv s net \<and> ring_warnings net = []"
proof -
  define net where "net = rs_net (result_state (pktsock_run s recorder so key evs st))"
  have "run_inv s recorder [] [] net"
    using pktsock_run_inv [OF assms(1-3) pktsock_run_recorder, of so key evs] assms(4,5)
    by (simp add: net_def ring_warnings_def)
  then show ?thesis by (auto simp: run_inv_def ring_after_recorder net_def [symmetric])
qed

theorem pktsock_fills_in_ring_order_witness:
  "let net = rs_net (result_state (pktsock_run SOURCE_FAST recorder list_status ''NETSTAT''
               [demo_event (wire_frame SOURCE_FAST (wire_word SOURCE_FAST 98304 1 0) 4112)] (boot_state SOURCE_FAST [] [])))
     in \<exists>n. n_sem net = net_calls SOURCE_FAST n \<and> win_block SOURCE_FAST net = n mod N_INPUT_BLOCKS SOURCE_FAST \<and>
          net_inv SOURCE_FAST net \<and> ring_warnings net = []"
  by (rule pktsock_fills_in_ring_order) simp_all

subsection \<open>Packet headers and payloads\<close>

fun wire_ok :: "site \<Rightarrow> u64 \<Rightarrow> u64 \<Rightarrow> u64 \<Rightarrow> bool" where
  "wire_ok SOURCE_S6 m p d = (unat m < 2 ^ 48 \<and> unat p < 2 ^ 12 \<and> unat d < 2 ^ 4)"
| "wire_ok SOURCE_DIBAS m p d = (unat m < 2 ^ 56 \<and> unat d < 2 ^ 8)"
| "wire_ok SOURCE_FAST m p d = (unat m < 2 ^ 56 \<and> unat p < 2 ^ 5 \<and> unat d < 2)"

fun wire_fields :: "site \<Rightarrow> u64 \<Rightarrow> u64 \<Rightarrow> u64 \<Rightarrow> u64 \<Rightarrow> packet_header" where
  "wire_fields SOURCE_S6 m p d n = \<lparr>ph_mcnt = m, ph_pchan = p, ph_nchan = n, ph_sid = d\<rparr>"
| "wire_fields SOURCE_DIBAS m p d n = \<lparr>ph_mcnt = m, ph_pchan = d * 512, ph_nchan = n, ph_sid = d\<rparr>"
| "wire_fields SOURCE_FAST m p d n =
     \<lparr>ph_mcnt = m, ph_pchan = 0, ph_nchan = n, ph_sid = of_int ((uint p - 1) * 2 + uint d)\<rparr>"

text \<open>C32: get_header recovers from the payload bytes exactly the mcnt, channel and source fields
  that the telescope packed into the header word, at each site.\<close>
theorem get_header_roundtrip:
  assumes "wire_ok s m p d"
  shows "get_header s (wire_frame s (wire_word s m p d) n) = wire_fields s m p d (header_nchan s n)"
  using assms decode_s6 decode_dibas decode_fast
  by (cases s) (simp_all only: get_header_wire wire_ok.simps wire_fields.simps)

theorem get_header_roundtrip_witness:
  "get_header SOURCE_FAST (wire_frame SOURCE_FAST (wire_word SOURCE_FAST 98304 3 1) 4112) =
     wire_fields SOURCE_FAST 98304 3 1 (header_nchan SOURCE_FAST 4112)"
  by (rule get_header_roundtrip) simp

lemma fast_sid_word:
  assumes "1 \<le> unat (p :: u64)" "unat p < 2 ^ 5" "unat (d :: u64) < 2"
  shows "unat (of_int ((uint p - 1) * 2 + uint d) :: u64) = (unat p - 1) * 2 + unat d"
proof -
  have "(uint p - 1) * 2 + uint d = int ((unat p - 1) * 2 + unat d)"
    using assms by (simp only: uint_nat) (simp add: of_nat_diff)
  then have "(of_int ((uint p - 1) * 2 + uint d) :: u64) = of_nat ((unat p - 1) * 2 + unat d)"
    by (simp only: of_int_of_nat_eq)
  moreover have "(unat p - 1) * 2 + unat d < 2 ^ 64" using assms by simp
  ultimately show ?thesis by (simp only: unat_of_nat_64)
qed

theorem fast_sid_range:
  fixes m beam pol :: u64 and n :: nat
  assumes "unat m < 2 ^ 56" "unat beam < 2 ^ 5" "unat pol < 2"
  defines "f \<equiv> wire_frame SOURCE_FAST (wire_word SOURCE_FAST m beam pol) n"
  shows "valid_sid SOURCE_FAST f = (1 \<le> unat beam \<and> unat beam \<le> 19) \<and>
     (valid_sid SOURCE_FAST f \<longrightarrow>
        unat (ph_sid (get_header SOURCE_FAST f)) div 2 + 1 = unat beam \<and>
        unat (ph_sid (get_header SOURCE_FAST f)) mod 2 = unat pol)"
proof -
  define w where "w = (of_int ((uint beam - 1) * 2 + uint pol) :: u64)"
  have f: "ph_sid (get_header SOURCE_FAST f) = w"
    using decode_fast [OF assms(1-3)] by (simp only: f_def get_header_wire) (simp add: w_def)
  have N: "N_SOURCE_NODES SOURCE_FAST = 38" by (simp add: N_POLS_PER_BEAM_TOTAL_def)
  show ?thesis
  proof (cases "unat beam = 0")
    case True
    then have b: "beam = 0" by (simp add: unat_eq_zero)
    have "unat pol = 0 \<or> unat pol = 1" using assms(3) by linarith
    then have "pol = 0 \<or> pol = 1" by (simp add: word_unat_eq_iff)
    then have "unat w \<ge> 38" by (auto simp: w_def b unsigned_minus_1_eq_mask mask_eq_exp_minus_1)
    then show ?thesis using True by (simp add: valid_sid_def f N_POLS_PER_BEAM_TOTAL_def)
  next
    case False
    then have "unat w = (unat beam - 1) * 2 + unat pol"
      unfolding w_def using assms by (intro fast_sid_word) simp_all
    then show ?thesis using False assms(3) by (auto simp: valid_sid_def f N_POLS_PER_BEAM_TOTAL_def)
  qed
qed

theorem fast_sid_range_witness:
  "valid_sid SOURCE_FAST (wire_frame SOURCE_FAST (wire_word SOURCE_FAST 98304 19 1) 4112) \<and>
   \<not> valid_sid SOURCE_FAST (wire_frame SOURCE_FAST (wire_word SOURCE_FAST 98304 20 0) 4112)"
  using fast_sid_range [of 98304 19 1 4112] fast_sid_range [of 98304 20 0 4112] by simp

text \<open>C5: A full-sized packet of the current or next block with a valid source ID is corner-turned
  byte for byte into its own slot of one of the two blocks the thread owns, inside the block,
  and no other byte of any block changes.\<close>
theorem process_packet_places_payload:
  assumes "net_inv s st" "process_packet s e so now f st = (st', Some r)"
    and "in_window s st f" "valid_sid s f" "udp_size f = full_size s"
  defines "h \<equiv> get_header s f" and "i \<equiv> block_for_mcnt s (ph_mcnt (get_header s f))"
  shows "ib_data (n_blocks st' ! j) a =
      (if j = i \<and> slot_bytes s h a then payload f (slot_source s a) else ib_data (n_blocks st ! j) a)
    \<and> (slot_bytes s h a \<longrightarrow> a < N_DATA_BYTES_PER_BLOCK s)
    \<and> (i = win_block s st' \<or> i = (win_block s st' + 1) mod N_INPUT_BLOCKS s)"
proof -
  note P = process_packet_effect [OF assms(1,2)]
  have v: "unat (ph_sid h) < N_SOURCE_NODES s" using assms(4) by (simp add: valid_sid_def h_def)
  have m: "unat (ph_mcnt h) < 2 ^ 56" unfolding h_def by (rule header_mcnt_bound)
  have "i = (if pkt_mcnt_of s f < win_start s st + Nm s then win_block s st
             else (win_block s st + 1) mod N_INPUT_BLOCKS s)"
    unfolding i_def by (rule in_window_block [OF assms(1,3)])
  then have "i = win_block s st' \<or> i = (win_block s st' + 1) mod N_INPUT_BLOCKS s"
    using P(4) Nm_bounds [of s] by (auto simp: closes_block_def split: if_splits)
  moreover have "slot_bytes s h a \<Longrightarrow> a < N_DATA_BYTES_PER_BLOCK s"
    by (rule slot_bytes_in_block [OF v])
  ultimately show ?thesis
    using P(7) [of j] assms(3,4) copy_payload_slot [OF assms(5) v m]
    by (simp add: h_def i_def)
qed

subsection \<open>A concrete thread state\<close>

definition demo_state :: "site \<Rightarrow> (ring_call list, (string \<times> stval) list) net_state" where
  "demo_state s = the (acquire_first_blocks s recorder (boot_state s [] []))"

lemma acquire_demo: "acquire_first_blocks s recorder (boot_state s [] []) = Some (demo_state s)"
  by (simp add: demo_state_def acquire_first_blocks_def recorder_def s6_databuf_wrappers)

lemmas demo_acquired = acquire_first_blocks_inv [OF acquire_demo, simplified]

lemma demo_state_simps [simp]:
  "net_inv s (demo_state s)" "win_block s (demo_state s) = 0" "win_start s (demo_state s) = 0"
  using demo_acquired by simp_all

lemma demo_out_of_seq [simp]: "bi_out_of_seq_cnt (n_binfo (lazy_init s (demo_state s))) = 0"
  by (simp add: demo_state_def acquire_first_blocks_def recorder_def s6_databuf_wrappers lazy_init_def
      boot_state_def boot_binfo_def initialize_block_info_def)

lemma recorder_result:
  obtains st' r where "process_packet s recorder so now f st = (st', Some r)"
  using process_packet_recorder [of s so now f st] by (cases "process_packet s recorder so now f st") auto

text \<open>The first packet after start-up of FAST beam 1, polarisation 0, and one that closes block 0.\<close>

definition fast_packet :: "u64 \<Rightarrow> frame" where
  "fast_packet m = wire_frame SOURCE_FAST (wire_word SOURCE_FAST m 1 0) 4112"

lemma fast_packet_simps:
  assumes "unat m < 2 ^ 56"
  shows "get_header SOURCE_FAST (fast_packet m) = \<lparr>ph_mcnt = m, ph_pchan = 0, ph_nchan = header_nchan SOURCE_FAST 4112, ph_sid = 0\<rparr>"
    "pkt_mcnt_of SOURCE_FAST (fast_packet m) = unat m" "valid_sid SOURCE_FAST (fast_packet m)"
    "udp_size (fast_packet m) = full_size SOURCE_FAST"
proof -
  show h: "get_header SOURCE_FAST (fast_packet m) = \<lparr>ph_mcnt = m, ph_pchan = 0, ph_nchan = header_nchan SOURCE_FAST 4112, ph_sid = 0\<rparr>"
    unfolding fast_packet_def get_header_wire using assms by (subst decode_fast) simp_all
  show "pkt_mcnt_of SOURCE_FAST (fast_packet m) = unat m" "valid_sid SOURCE_FAST (fast_packet m)"
    by (simp_all only: pkt_mcnt_of_def valid_sid_def h packet_header.simps) (simp add: N_POLS_PER_BEAM_TOTAL_def)
  show "udp_size (fast_packet m) = full_size SOURCE_FAST" by (simp add: fast_packet_def wire_frame_def)
qed

theorem process_packet_places_payload_witness:
  "\<exists>st' r. process_packet SOURCE_FAST recorder list_status (0, 0) (fast_packet 3) (demo_state SOURCE_FAST) = (st', Some r) \<and>
     ib_data (n_blocks st' ! 0) 12290 = payload (fast_packet 3) 2"
proof -
  have b: "block_for_mcnt SOURCE_FAST 3 = 0" by (simp add: block_for_mcnt_def)
  obtain st' r where p: "process_packet SOURCE_FAST recorder list_status (0, 0) (fast_packet 3) (demo_state SOURCE_FAST) = (st', Some r)"
    by (rule recorder_result)
  have w: "in_window SOURCE_FAST (demo_state SOURCE_FAST) (fast_packet 3)"
    by (simp add: in_window_def fast_packet_simps)
  show ?thesis
    using process_packet_places_payload [OF demo_state_simps(1) p w, of 0 12290] p
    by (simp add: fast_packet_simps b)
qed

subsection \<open>Packets that leave the data alone\<close>

theorem rejected_packet_keeps_data:
  assumes "net_inv s st" "process_packet s e so now f st = (st', Some r)"
    and "\<not> in_window s st f \<or> \<not> valid_sid s f"
  shows "map ib_data (n_blocks st') = map ib_data (n_blocks st) \<and> r = - 1"
proof -
  note P = process_packet_effect [OF assms(1,2)]
  have l: "length (n_blocks st) = N_INPUT_BLOCKS s" "length (n_blocks st') = N_INPUT_BLOCKS s"
    using window_invD(2) [OF assms(1) [unfolded net_inv_def]] window_invD(2) [OF P(1) [unfolded net_inv_def]]
    by simp_all
  have "ib_data (n_blocks st' ! j) = ib_data (n_blocks st ! j)" for j
    using P(7) [of j] assms(3) by auto
  then show ?thesis
    using P(3) assms(3) closes_in_window [of s st f] l by (auto intro!: nth_equalityI)
qed

theorem rejected_packet_keeps_data_witness:
  "\<exists>st' r. process_packet SOURCE_FAST recorder list_status (0, 0) (fast_packet 131072) (demo_state SOURCE_FAST) = (st', Some r) \<and>
     map ib_data (n_blocks st') = map ib_data (n_blocks (demo_state SOURCE_FAST)) \<and> r = - 1"
proof -
  obtain st' r where p: "process_packet SOURCE_FAST recorder list_status (0, 0) (fast_packet 131072) (demo_state SOURCE_FAST) = (st', Some r)"
    by (rule recorder_result)
  have "\<not> in_window SOURCE_FAST (demo_state SOURCE_FAST) (fast_packet 131072)"
    by (simp add: in_window_def fast_packet_simps)
  then show ?thesis using rejected_packet_keeps_data [OF demo_state_simps(1) p] p by blast
qed

text \<open>Late packets change nothing but the log of warnings.\<close>

theorem late_packet_ignored:
  assumes "net_inv s st" "late_packet s st f"
  shows "\<exists>ws. process_packet s e so now f st = ((lazy_init s st)\<lparr>n_warnings := n_warnings st @ ws\<rparr>, Some (- 1)) \<and>
     (ws = [] \<or> ws = [Late_packet (bi_mcnt_start (n_binfo (lazy_init s st)) - ph_mcnt (get_header s f))])"
  using process_packet_class(3) [OF assms, of e so now]
  by (cases "bi_mcnt_log_late (n_binfo (lazy_init s st)) \<le> bi_mcnt_start (n_binfo (lazy_init s st))")
     (auto simp: ignore_late_packet_def warn_def Let_def intro: exI [of _ "[]"])

subsection \<open>Losing and regaining the packet stream\<close>

text \<open>C31: A packet outside the window and not merely late is counted; after 2*N_BORS such packets
  in a row the next one moves the window to within one ring of itself without changing the
  ring slot of the current block or touching a semaphore, and earlier ones change no block and
  no mcnt.\<close>
theorem out_of_seq_resynchronises:
  assumes "net_inv s st" "\<not> in_window s st f" "\<not> late_packet s st f"
    and "process_packet s e so now f st = (st', Some r)"
  defines "c \<equiv> bi_out_of_seq_cnt (n_binfo (lazy_init s st))" and "p \<equiv> pkt_mcnt_of s f"
  shows "win_block s st' = win_block s st \<and> n_sem st' = n_sem st \<and>
     bi_out_of_seq_cnt (n_binfo st') = c + 1 \<and>
     (if c < 2 * int (N_BORS s) then win_start s st' = win_start s st \<and> n_blocks st' = n_blocks st
      else p < win_start s st' + Nm s \<and> win_start s st' \<le> p + N_INPUT_BLOCKS s * Nm s \<and>
           (block_for_mcnt s (ph_mcnt (get_header s f)) = win_block s st \<longrightarrow> in_window s st' f))"
proof -
  define h where "h = get_header s f"
  define st0 where "st0 = lazy_init s st"
  have inv0: "window_inv s st0" using assms(1) by (simp add: net_inv_def st0_def)
  have hb: "unat (ph_mcnt h) < 2 ^ 56" unfolding h_def by (rule header_mcnt_bound)
  have st': "st' = out_of_seq_packet s h st0"
    using process_packet_class(4) [OF assms(1-3), of e so now] assms(4) by (simp add: h_def st0_def)
  note O = out_of_seq_packet_effect [OF inv0 hb, folded st']
  have W: "win_block s x = bi_block_i (n_binfo x)" "win_start s x = unat (bi_mcnt_start (n_binfo x))"
    if "window_inv s x" for x :: "('q, 's) net_state"
    using lazy_init_idle' [OF that] by (simp_all add: win_block_def win_start_def)
  have s0: "win_block s st = bi_block_i (n_binfo st0)" "win_start s st = unat (bi_mcnt_start (n_binfo st0))"
    "n_blocks st = n_blocks st0" "c = bi_out_of_seq_cnt (n_binfo st0)" "p = unat (ph_mcnt h)"
    "n_sem st = n_sem st0"
    by (simp_all add: win_block_def win_start_def st0_def c_def p_def pkt_mcnt_of_def h_def)
  define b where "b = bi_block_i (n_binfo st0)"
  have b: "b < N_INPUT_BLOCKS s" using window_invD(8) [OF inv0] by (simp add: b_def)
  define q where "q = mcnt_reset (Nm s) (N_INPUT_BLOCKS s) b p"
  have q: "p \<le> q" "q \<le> p + N_INPUT_BLOCKS s * Nm s"
    using pktw.reset_bounds [OF b, of p] by (simp_all add: q_def mult.commute)
  have "q - q mod Nm s \<le> q" "q < q - q mod Nm s + Nm s"
    using mod_less_divisor [OF Nm_bounds(1), of q s] mod_less_eq_dividend [of q "Nm s"] by linarith+
  then have rnd: "p < mcnt_round (Nm s) q + Nm s" "mcnt_round (Nm s) q \<le> p + N_INPUT_BLOCKS s * Nm s"
    using q by (simp_all add: mcnt_round_def)
  have same: "block_for_mcnt s (ph_mcnt h) = b \<Longrightarrow> mcnt_round (Nm s) q \<le> p"
    using mcnt_round_le [of "Nm s" p] by (simp add: q_def mcnt_reset_def block_for_mcnt_eq s0)
  show ?thesis
  proof (cases "c < MAX_OUT_OF_SEQ s")
    case True
    then show ?thesis
      using O(2,3,7) O(9) O(10) W [OF O(1)] by (simp add: s0 MAX_OUT_OF_SEQ_def)
  next
    case False
    then have "win_start s st' = mcnt_round (Nm s) q"
      using O(11) W(2) [OF O(1)] by (simp add: q_def b_def s0)
    then show ?thesis
      using False O(2,3,7) W(1) [OF O(1)] rnd same
      by (auto simp: s0 MAX_OUT_OF_SEQ_def in_window_def b_def h_def pkt_mcnt_of_def)
  qed
qed

theorem late_packet_ignored_witness:
  "\<exists>st. late_packet SOURCE_FAST st (fast_packet 5) \<and>
     (\<exists>ws. process_packet SOURCE_FAST recorder list_status (0, 0) (fast_packet 5) st =
       ((lazy_init SOURCE_FAST st)\<lparr>n_warnings := n_warnings st @ ws\<rparr>, Some (- 1)))"
proof -
  obtain st r where p: "process_packet SOURCE_FAST recorder list_status (0, 0) (fast_packet 98304) (demo_state SOURCE_FAST) = (st, Some r)"
    by (rule recorder_result)
  note P = process_packet_effect [OF demo_state_simps(1) p]
  have "closes_block SOURCE_FAST (demo_state SOURCE_FAST) (fast_packet 98304)"
    by (simp add: closes_block_def fast_packet_simps)
  then have "win_start SOURCE_FAST st = 65536"
    using P(8) [OF closes_in_window] by simp
  then have l: "late_packet SOURCE_FAST st (fast_packet 5)"
    by (simp add: late_packet_def fast_packet_simps LATE_PKT_MCNT_THRESHOLD_def)
  then show ?thesis using late_packet_ignored [OF P(1) l] by blast
qed

theorem out_of_seq_resynchronises_witness:
  "\<exists>st' r. process_packet SOURCE_FAST recorder list_status (0, 0) (fast_packet 131072) (demo_state SOURCE_FAST) = (st', Some r) \<and>
     win_block SOURCE_FAST st' = 0 \<and> bi_out_of_seq_cnt (n_binfo st') = 1 \<and> win_start SOURCE_FAST st' = 0"
proof -
  obtain st' r where p: "process_packet SOURCE_FAST recorder list_status (0, 0) (fast_packet 131072) (demo_state SOURCE_FAST) = (st', Some r)"
    by (rule recorder_result)
  have "\<not> in_window SOURCE_FAST (demo_state SOURCE_FAST) (fast_packet 131072)"
    "\<not> late_packet SOURCE_FAST (demo_state SOURCE_FAST) (fast_packet 131072)"
    by (simp_all add: in_window_def late_packet_def fast_packet_simps)
  from out_of_seq_resynchronises [OF demo_state_simps(1) this p] show ?thesis
    using p by simp
qed

subsection \<open>A block closed by a packet that is itself rejected\<close>

theorem bad_sid_hides_filled_block:
  assumes "net_inv s st" "process_packet s recorder so now f st = (st', Some r)"
    and "closes_block s st f" "\<not> valid_sid s f"
  shows "n_sem st' = n_sem st @ [Set_filled (win_block s st), Wait_free ((win_block s st + 2) mod N_INPUT_BLOCKS s)]
     \<and> r = - 1"
  using process_packet_effect(3,5) [OF assms(1,2)] assms(3,4) by (simp add: ring_advance_def recorder_def)

theorem bad_sid_hides_filled_block_witness:
  "\<exists>st' r. process_packet SOURCE_FAST recorder list_status (0, 0)
       (wire_frame SOURCE_FAST (wire_word SOURCE_FAST 98304 20 0) 4112) (demo_state SOURCE_FAST) = (st', Some r) \<and>
     n_sem st' = n_sem (demo_state SOURCE_FAST) @ [Set_filled 0, Wait_free 2] \<and> r = - 1"
proof -
  define f where "f = wire_frame SOURCE_FAST (wire_word SOURCE_FAST 98304 20 0) 4112"
  obtain st' r where p: "process_packet SOURCE_FAST recorder list_status (0, 0) f (demo_state SOURCE_FAST) = (st', Some r)"
    by (rule recorder_result)
  have h: "get_header SOURCE_FAST f = \<lparr>ph_mcnt = 98304, ph_pchan = 0, ph_nchan = header_nchan SOURCE_FAST 4112, ph_sid = 38\<rparr>"
    unfolding f_def get_header_wire by (subst decode_fast) simp_all
  have "closes_block SOURCE_FAST (demo_state SOURCE_FAST) f" "\<not> valid_sid SOURCE_FAST f"
    by (simp_all add: closes_block_def pkt_mcnt_of_def valid_sid_def h N_POLS_PER_BEAM_TOTAL_def)
  from bad_sid_hides_filled_block [OF demo_state_simps(1) p this] show ?thesis
    using p by (simp add: f_def)
qed

subsection \<open>Frames of the packet ring\<close>

text \<open>Frames obtained from the packet socket and not handed back: one for every wrongly sized packet.\<close>

theorem invalid_packets_keep_their_frames:
  assumes "run_loop s e so evs rs = Continue rs'"
  shows "rs_frames_held rs' = rs_frames_held rs + length (filter (\<lambda>ev. \<not> packet_size_ok s (rx_frame ev)) evs)"
  using assms
proof (induction evs arbitrary: rs)
  case (Cons ev evs)
  show ?case
  proof (cases rule: run_step_cases [OF refl, of s e so ev rs, case_names quit bad exit packet])
    case bad
    then show ?thesis using Cons by fastforce
  next
    case (packet net m rs')
    then show ?thesis using Cons by fastforce
  next
    case (exit net)
    then show ?thesis using Cons.prems by (cases "run_step s e so ev rs") auto
  qed (use Cons in auto)
qed simp

theorem invalid_packets_keep_their_frames_witness:
  "\<exists>rs'. run_loop SOURCE_FAST recorder list_status [demo_event (wire_frame SOURCE_FAST 0 9000)] (run_init (demo_state SOURCE_FAST))
       = Continue rs' \<and> rs_frames_held rs' = 1"
proof -
  have no: "\<not> packet_size_ok SOURCE_FAST (rx_frame (demo_event (wire_frame SOURCE_FAST 0 9000)))"
    by (simp add: packet_size_ok_def demo_event_def wire_frame_def max_packet_size_def)
  then obtain rs' where r: "run_loop SOURCE_FAST recorder list_status [demo_event (wire_frame SOURCE_FAST 0 9000)]
      (run_init (demo_state SOURCE_FAST)) = Continue rs'"
    by (simp add: run_step_def demo_event_def)
  show ?thesis
    using invalid_packets_keep_their_frames [OF r] r no by (simp add: run_init_def)
qed

subsection \<open>Copies and bounds\<close>

lemma s6_memcpy_loop_eq: "s6_memcpy_loop out inp i n = memcpy out (32 * i) (\<lambda>k. inp (32 * i + k)) (32 * n)"
proof (induction n arbitrary: out i)
  case (Suc n)
  define f where "f = (\<lambda>k. inp (32 * i + k))"
  have w: "memcpy out (32 * i) (\<lambda>k. if k < 16 then inp (32 * i + k) else inp (32 * i + 16 + (k - 16))) 32
      = memcpy out (32 * i) f 32"
    by (rule memcpy_cong_src) (simp add: f_def)
  have "s6_memcpy_loop out inp i (Suc n) = memcpy (memcpy out (32 * i) f 32) (32 * i + 32) (\<lambda>k. f (32 + k)) (32 * n)"
  proof -
    have "32 * Suc i = 32 * i + 32" "(\<lambda>k. inp (32 * Suc i + k)) = (\<lambda>k. f (32 + k))"
      by (simp_all add: f_def fun_eq_iff algebra_simps)
    then show ?thesis by (simp only: s6_memcpy_loop.simps Let_def w Suc.IH)
  qed
  also have "\<dots> = memcpy out (32 * i) f (32 + 32 * n)"
    by (rule memcpy_append)
  finally show ?case by (simp add: f_def)
qed simp

theorem s6_memcpy_copies_whole_words:
  "s6_memcpy out inp n = memcpy out 0 inp (32 * (n div 32))"
  by (simp add: s6_memcpy_def s6_memcpy_loop_eq)

theorem block_data_aligned: "CACHE_ALIGNMENT dvd input_data_offset s db i"
proof -
  have "input_data_offset s db i = (db + cache_padding db) + i * sizeof_input_block s
     + (sizeof_input_block_header s + cache_padding (sizeof_input_block_header s))"
    by (simp add: input_data_offset_def s6_input_databuf_create_def)
  then show ?thesis
    using cache_padding_aligned sizeof_input_block_aligned by (simp add: dvd_add)
qed

text \<open>C34: No packet that passes the size check and has a valid source ID is copied beyond the end
  of its block, provided a FAST packet carries at most 4096 data bytes.\<close>
theorem accepted_packets_stay_in_block:
  assumes "packet_size_ok s f" "valid_sid s f"
    and fast: "s = SOURCE_FAST \<Longrightarrow> udp_size f \<le> full_size SOURCE_FAST"
    and a: "N_DATA_BYTES_PER_BLOCK s \<le> a"
  shows "copy_payload s (get_header s f) f d a = d a"
proof (cases s)
  case SOURCE_S6
  define h where "h = get_header SOURCE_S6 f"
  have sz: "24 \<le> udp_size f" "udp_size f \<le> 1320"
    using assms(1) by (auto simp: packet_size_ok_def max_packet_size_def SOURCE_S6 Let_def)
  have l: "copy_len f (8 + 8 + 8) = udp_size f - 24" using sz by (subst copy_len_full) simp_all
  have sid: "unat (ph_sid h) < 7" using assms(2) by (simp add: valid_sid_def SOURCE_S6 h_def)
  have d: "8 * unat (dest_s6 (ph_sid h) (ph_mcnt h)) = (unat (ph_sid h) * 131072 + unat (ph_mcnt h) mod 131072) * 1280"
    by (rule unat_dest_s6 [OF sid])
  have "(unat (ph_sid h) * 131072 + unat (ph_mcnt h) mod 131072) * 1280 \<le> (6 * 131072 + 131071) * 1280"
    using sid by (intro mult_le_mono1 add_mono) auto
  then show ?thesis
    using a sz unfolding SOURCE_S6 copy_payload.simps h_def [symmetric] l d
    by (intro memcpy_outside) (simp add: s6_const)
next
  case SOURCE_DIBAS
  have "unat (ph_mcnt (get_header SOURCE_DIBAS f)) < 2 ^ 56" by (rule header_mcnt_bound)
  moreover have "\<not> a div (256 * 524288) < 8"
    using a by (simp add: SOURCE_DIBAS s6_const div_less_iff_less_mult)
  ultimately show ?thesis
    unfolding SOURCE_DIBAS copy_payload.simps by (simp only: dibas_copy_slot if_False simp_thms)
next
  case SOURCE_FAST
  have sz: "24 \<le> udp_size f" "udp_size f \<le> 4112"
    using assms(1) fast by (auto simp: packet_size_ok_def SOURCE_FAST Let_def)
  have l: "copy_len f (8 + 8) = udp_size f - 16" using sz by (subst copy_len_full) simp_all
  have "(unat (ph_mcnt (get_header SOURCE_FAST f)) mod 65536) * 4096 \<le> 65535 * 4096" by (intro mult_le_mono1) simp
  then show ?thesis
    using a sz unfolding SOURCE_FAST copy_payload.simps l unat_dest_fast
    by (intro memcpy_outside) (simp add: s6_const)
qed

theorem accepted_packets_stay_in_block_witness:
  "copy_payload SOURCE_FAST (get_header SOURCE_FAST (fast_packet 65535)) (fast_packet 65535) (\<lambda>a. 7)
     (N_DATA_BYTES_PER_BLOCK SOURCE_FAST) = 7"
  by (rule accepted_packets_stay_in_block [where d = "\<lambda>a. 7"])
    (simp_all add: fast_packet_simps packet_size_ok_def max_packet_size_def)

text \<open>The size check of the main loop admits FAST packets of up to 24 bytes more than a packet's share.\<close>

theorem fast_oversize_overruns_block:
  assumes "udp_size f = 4136" "unat (ph_mcnt (get_header SOURCE_FAST f)) mod 65536 = 65535" "k < 24"
  shows "packet_size_ok SOURCE_FAST f \<and>
     copy_payload SOURCE_FAST (get_header SOURCE_FAST f) f d (N_DATA_BYTES_PER_BLOCK SOURCE_FAST + k) = payload f (4096 + k)"
proof -
  have l: "copy_len f (8 + 8) = 4120" using assms by (subst copy_len_full) simp_all
  show ?thesis
    using assms unfolding copy_payload.simps l unat_dest_fast
    by (simp add: packet_size_ok_def max_packet_size_def s6_const memcpy_def)
qed

theorem fast_oversize_overruns_block_witness:
  "copy_payload SOURCE_FAST (get_header SOURCE_FAST (wire_frame SOURCE_FAST (wire_word SOURCE_FAST 65535 1 0) 4136))
     (wire_frame SOURCE_FAST (wire_word SOURCE_FAST 65535 1 0) 4136) (\<lambda>a. 7) (N_DATA_BYTES_PER_BLOCK SOURCE_FAST + 3)
   = payload (wire_frame SOURCE_FAST (wire_word SOURCE_FAST 65535 1 0) 4136) 4099"
proof -
  have "ph_mcnt (get_header SOURCE_FAST (wire_frame SOURCE_FAST (wire_word SOURCE_FAST 65535 1 0) 4136)) = 65535"
    unfolding get_header_wire by (subst decode_fast) simp_all
  then show ?thesis
    using fast_oversize_overruns_block [of "wire_frame SOURCE_FAST (wire_word SOURCE_FAST 65535 1 0) 4136" 3 "\<lambda>a. 7"]
    by (simp add: wire_frame_def)
qed

text \<open>Packets of different slots commute: the content of a block does not depend on the order of arrival.\<close>

fun same_slot :: "site \<Rightarrow> packet_header \<Rightarrow> packet_header \<Rightarrow> bool" where
  "same_slot SOURCE_S6 h h' = (ph_sid h = ph_sid h' \<and> unat (ph_mcnt h) mod 131072 = unat (ph_mcnt h') mod 131072)"
| "same_slot SOURCE_DIBAS h h' = (unat (ph_mcnt h) mod 131072 = unat (ph_mcnt h') mod 131072)"
| "same_slot SOURCE_FAST h h' = (unat (ph_mcnt h) mod 65536 = unat (ph_mcnt h') mod 65536)"

lemma slots_disjoint:
  assumes "slot_bytes s h a" "slot_bytes s h' a"
  shows "same_slot s h h'"
proof (cases s)
  case SOURCE_S6
  define q where "q = a div 1280"
  have e: "q = unat (ph_sid h) * 131072 + unat (ph_mcnt h) mod 131072"
    "q = unat (ph_sid h') * 131072 + unat (ph_mcnt h') mod 131072"
    using assms unfolding SOURCE_S6 slot_bytes.simps q_def .
  have "q div 131072 = unat (ph_sid h)" "q mod 131072 = unat (ph_mcnt h) mod 131072"
    by (simp_all add: e(1))
  moreover have "q div 131072 = unat (ph_sid h')" "q mod 131072 = unat (ph_mcnt h') mod 131072"
    by (simp_all add: e(2))
  ultimately show ?thesis unfolding SOURCE_S6 same_slot.simps word_unat_eq_iff by simp
qed (use assms in simp_all)

text \<open>C15: Full-sized packets of different slots commute: the content of a block does not depend
  on the order in which its packets arrive.\<close>
theorem packet_order_irrelevant:
  assumes "udp_size f = full_size s" "udp_size f' = full_size s" "valid_sid s f" "valid_sid s f'"
    and "\<not> same_slot s (get_header s f) (get_header s f')"
  shows "copy_payload s (get_header s f) f (copy_payload s (get_header s f') f' d) =
         copy_payload s (get_header s f') f' (copy_payload s (get_header s f) f d)"
proof -
  have v: "unat (ph_sid (get_header s f)) < N_SOURCE_NODES s" "unat (ph_sid (get_header s f')) < N_SOURCE_NODES s"
    using assms by (simp_all add: valid_sid_def)
  show ?thesis
    using slots_disjoint [of s "get_header s f" _ "get_header s f'"] assms(5)
    by (auto simp: copy_payload_slot [OF assms(1) v(1) header_mcnt_bound]
        copy_payload_slot [OF assms(2) v(2) header_mcnt_bound] fun_eq_iff)
qed

theorem packet_order_irrelevant_witness:
  "copy_payload SOURCE_FAST (get_header SOURCE_FAST (fast_packet 3)) (fast_packet 3)
     (copy_payload SOURCE_FAST (get_header SOURCE_FAST (fast_packet 4)) (fast_packet 4) (\<lambda>a. 0)) =
   copy_payload SOURCE_FAST (get_header SOURCE_FAST (fast_packet 4)) (fast_packet 4)
     (copy_payload SOURCE_FAST (get_header SOURCE_FAST (fast_packet 3)) (fast_packet 3) (\<lambda>a. 0))"
  by (rule packet_order_irrelevant) (simp_all add: fast_packet_simps)

text \<open>The missed-packet counters of the block headers.\<close>

definition missed :: "('q, 's) net_state \<Rightarrow> nat \<Rightarrow> nat \<Rightarrow> u64" where
  "missed st i k = ih_missed_pkts (block_header st i) ! k"

theorem accepted_packet_counted_once:
  assumes "net_inv s st" "process_packet s e so now f st = (st', Some r)"
    and "in_window s st f" "\<not> closes_block s st f" "valid_sid s f" "k < N_BORS s"
  shows "missed st' i k =
    (if i = block_for_mcnt s (ph_mcnt (get_header s f)) \<and> k = missed_index s (get_header s f)
     then missed st i k - 1 else missed st i k)"
proof -
  define h where "h = get_header s f"
  have v: "unat (ph_sid h) < N_SOURCE_NODES s" using assms(5) by (simp add: valid_sid_def h_def)
  have inv0: "window_inv s (lazy_init s st)" using assms(1) by (simp add: net_inv_def)
  have "accept_packet s h f (- 1) (lazy_init s st) = (st', r)"
    using process_packet_class(2) [OF assms(1,3,4), of e so now] assms(2)
    by (auto simp: h_def Let_def split: prod.splits)
  note A = accept_packet_effect(12) [OF this inv0 v, of i]
  have "length (ih_missed_pkts (block_header st i)) = N_BORS s" if "i = block_for_mcnt s (ph_mcnt h)"
    using blocks_wfD(2) [OF window_invD(1) [OF inv0]] that by simp
  then show ?thesis
    using A missed_index_less [OF v] assms(6)
    by (simp add: missed_def h_def [symmetric] nth_list_update_if)
qed

theorem accepted_packet_counted_once_witness:
  "\<exists>st' r. process_packet SOURCE_FAST recorder list_status (0, 0) (fast_packet 3) (demo_state SOURCE_FAST) = (st', Some r) \<and>
     missed st' 0 0 = missed (demo_state SOURCE_FAST) 0 0 - 1"
proof -
  have b: "block_for_mcnt SOURCE_FAST 3 = 0" by (simp add: block_for_mcnt_def)
  obtain st' r where p: "process_packet SOURCE_FAST recorder list_status (0, 0) (fast_packet 3) (demo_state SOURCE_FAST) = (st', Some r)"
    by (rule recorder_result)
  have w: "in_window SOURCE_FAST (demo_state SOURCE_FAST) (fast_packet 3)"
    "\<not> closes_block SOURCE_FAST (demo_state SOURCE_FAST) (fast_packet 3)"
    by (simp_all add: in_window_def closes_block_def fast_packet_simps)
  show ?thesis
    using accepted_packet_counted_once [OF demo_state_simps(1) p w fast_packet_simps(3), of 0 0] p
    by (simp add: fast_packet_simps b missed_index_def)
qed

text \<open>What the status buffer says about missing beams: at FAST a thread receives one beam
  and one polarisation, but the block is measured against 19 beams.\<close>

theorem fast_reports_missing_beams:
  assumes "set_block_filled SOURCE_FAST e list_status st = (st', Some m)"
    and "0 < unat (bi_block_packet_counter (n_binfo st) ! block_for_mcnt SOURCE_FAST (bi_mcnt_start (n_binfo st)))"
    and "unat (bi_block_packet_counter (n_binfo st) ! block_for_mcnt SOURCE_FAST (bi_mcnt_start (n_binfo st))) \<le> Nm SOURCE_FAST"
  shows "hgetu4 list_status (n_status st') ''MISSEDBM'' = Some 18"
proof -
  define c where "c = bi_block_packet_counter (n_binfo st) ! block_for_mcnt SOURCE_FAST (bi_mcnt_start (n_binfo st))"
  have c: "0 < unat c" "unat c \<le> 65536" using assms(2,3) by (simp_all add: c_def)
  have P: "(of_nat (N_PACKETS_PER_BLOCK SOURCE_FAST) :: u32) = 1245184"
    by (simp add: N_PACKETS_PER_BLOCK_def)
  have "unat (1245184 - c) = 1245184 - unat c"
    using c by (simp add: unat_sub word_le_nat_alt)
  moreover have "(1245184 - unat c) div 65536 = 18"
    using c by (intro div_nat_eqI) simp_all
  ultimately have "(1245184 - c) div 65536 = 18"
    by (simp add: word_unat_eq_iff unat_div)
  then show ?thesis
    using assms(1) unfolding c_def by (auto simp: set_block_filled_def P Let_def list_status_def
        split: prod.splits if_splits)
qed

theorem fast_reports_missing_beams_witness:
  "\<exists>st'. set_block_filled SOURCE_FAST flag_ring list_status
       ((boot_state SOURCE_FAST (\<lambda>i. False) [])\<lparr>n_binfo := boot_binfo\<lparr>bi_block_packet_counter := replicate 24 65536\<rparr>\<rparr>)
     = (st', Some 0) \<and> hgetu4 list_status (n_status st') ''MISSEDBM'' = Some 18"
proof -
  define st :: "(nat \<Rightarrow> bool, (string \<times> stval) list) net_state" where "st = (boot_state SOURCE_FAST (\<lambda>i. False) [])\<lparr>n_binfo := boot_binfo\<lparr>bi_block_packet_counter := replicate 24 65536\<rparr>\<rparr>"
  have c: "bi_block_packet_counter (n_binfo st) ! block_for_mcnt SOURCE_FAST (bi_mcnt_start (n_binfo st)) = 65536"
    by (simp add: st_def boot_binfo_def block_for_mcnt_def)
  obtain st' where r: "set_block_filled SOURCE_FAST flag_ring list_status st = (st', Some 0)"
    by (simp add: set_block_filled_def Let_def s6_databuf_wrappers flag_ring_def st_def boot_binfo_def)
  have "hgetu4 list_status (n_status st') ''MISSEDBM'' = Some 18"
    by (rule fast_reports_missing_beams [OF r]) (simp_all add: c)
  with r show ?thesis by (auto simp: st_def)
qed

end
