(* ===== verification/S6_Gpu.thy ===== *)
theory S6_Gpu
  imports S6_Databuf
begin

text \<open>
  The spectroscopy of \<open>src/src/s6GPU.cu\<close>: power spectrum, running-mean baseline,
  normalisation, hit extraction and the numbering of spectra.  Device vectors are lists, the
  thrust algorithms the file calls are the list functions they document, and
  \<open>float\<close> is \<open>real\<close> (rounding is not modelled).  The FFT itself is cuFFT's: its
  output is an input here.
\<close>

subsection \<open>Functors\<close>

definition compute_complex_power :: "real \<times> real \<Rightarrow> real" where
  "compute_complex_power a = fst a * fst a + snd a * snd a"

definition advance_within_region :: "int \<Rightarrow> nat \<Rightarrow> nat \<Rightarrow> int" where
  "advance_within_region delta region_size i =
     (let region = i div region_size;
          idx = int (i mod region_size) + delta;
          idx = max 0 idx;
          idx = min (int region_size - 1) idx
      in idx + int (region_size * region))"

definition running_mean_by_region :: "nat \<Rightarrow> nat \<Rightarrow> real list \<Rightarrow> nat \<Rightarrow> real" where
  "running_mean_by_region radius region_size d_scanned i =
     (let region = i div region_size;
          offset = region * region_size;
          idx = i mod region_size;
          sum = (if idx < radius
                 then d_scanned ! (2 * radius + offset) - d_scanned ! (0 + offset)
                 else if region_size - 1 - radius < idx
                 then d_scanned ! (region_size - 1 + offset) - d_scanned ! (region_size - 1 - 2 * radius + offset)
                 else d_scanned ! (idx + radius + offset) - d_scanned ! (idx - radius + offset))
      in sum / (2 * real radius))"

definition transpose_index :: "nat \<Rightarrow> nat \<Rightarrow> nat \<Rightarrow> nat" where
  "transpose_index m n linear_index =
     (let i = linear_index div n;
          j = linear_index mod n
      in m * j + i)"

definition strided_range :: "nat \<Rightarrow> nat \<Rightarrow> 'a list \<Rightarrow> 'a list" where
  "strided_range first stride xs =
     map (\<lambda>i. xs ! (first + stride * i)) [0..<(length xs - first + (stride - 1)) div stride]"

subsection \<open>The stages of spectroscopy\<close>

text \<open>Unpacking: \<open>char\<close> samples are signed bytes, complex ones a real byte followed by an imaginary one.\<close>

definition convert_complex_8b_to_float :: "u8 \<times> u8 \<Rightarrow> real \<times> real" where
  "convert_complex_8b_to_float a = (of_int (sint (fst a)), of_int (sint (snd a)))"

definition convert_real_8b_to_float :: "u8 \<Rightarrow> real" where
  "convert_real_8b_to_float a = of_int (sint a)"

text \<open>The complex samples are unpacked into a new vector of \<open>n_element\<close> elements.  If there are more of them
  the transform writes past its end: that is the fault \<open>Overrun Fft_data\<close> of \<open>S6_GpuMem\<close>, and the vector
  only has the first ones; if there are fewer the rest stays zero.\<close>

definition unpack_complex :: "nat \<Rightarrow> nat \<Rightarrow> store \<Rightarrow> (real \<times> real) list" where
  "unpack_complex n_element n_input_data_bytes input_data =
     (let raw_timeseries = map (\<lambda>i. (input_data (2 * i), input_data (2 * i + 1))) [0..<n_input_data_bytes div 2];
          samples = map convert_complex_8b_to_float raw_timeseries
      in take n_element samples @ replicate (n_element - length samples) (0, 0))"

definition unpack_real :: "nat \<Rightarrow> store \<Rightarrow> real list" where
  "unpack_real n_input_data_bytes input_data = map (\<lambda>i. convert_real_8b_to_float (input_data i)) [0..<n_input_data_bytes]"

text \<open>\<open>thrust::transform\<close> from \<open>begin()\<close> to \<open>end() - 1\<close> of the FFT output, written to the
  beginning of the power spectrum vector.\<close>

definition compute_power_spectrum :: "(real \<times> real) list \<Rightarrow> real list \<Rightarrow> real list" where
  "compute_power_spectrum fft_data_out powspec =
     map compute_complex_power (butlast fft_data_out) @ drop (length fft_data_out - 1) powspec"

definition reduce_power_spectra :: "nat \<Rightarrow> nat \<Rightarrow> real list \<Rightarrow> real list" where
  "reduce_power_spectra n_subband_pols n_chan powspec =
     map (\<lambda>row. sum_list (take n_chan (drop (row * n_chan) powspec)) / real n_chan) [0..<n_subband_pols]"

text \<open>\<open>thrust::exclusive_scan_by_key\<close> with the keys \<open>i / n_fc\<close>.\<close>

fun exclusive_scan :: "nat \<Rightarrow> nat \<Rightarrow> real \<Rightarrow> real list \<Rightarrow> real list" where
  "exclusive_scan n_fc i acc [] = []"
| "exclusive_scan n_fc i acc (x # xs) =
     (let acc = (if 0 < i \<and> (i - 1) div n_fc \<noteq> i div n_fc then 0 else acc)
      in acc # exclusive_scan n_fc (i + 1) (acc + x) xs)"

definition compute_baseline :: "nat \<Rightarrow> nat \<Rightarrow> nat \<Rightarrow> real list \<Rightarrow> real list" where
  "compute_baseline n_fc n_element smooth_scale powspec =
     (let scanned = exclusive_scan n_fc 0 0 (take n_element powspec)
      in map (running_mean_by_region smooth_scale n_fc scanned) [0..<n_element])"

definition normalize_power_spectrum :: "real list \<Rightarrow> real list \<Rightarrow> real list" where
  "normalize_power_spectrum powspec baseline = map2 (/) powspec baseline"

record hits =
  h_indices :: "nat list"
  h_powers :: "real list"
  h_baselines :: "real list"

definition find_hits :: "nat \<Rightarrow> nat \<Rightarrow> real \<Rightarrow> real list \<Rightarrow> real list \<Rightarrow> real list \<Rightarrow> nat \<times> hits" where
  "find_hits n_element maxhits power_thresh normalised powspec baseline =
     (let hit_indices = filter (\<lambda>i. power_thresh < normalised ! i) [0..<n_element];
          nhits = length hit_indices;
          nhits = (if maxhits < nhits then maxhits else nhits);
          hit_indices = take nhits hit_indices
      in (nhits, \<lparr>h_indices = hit_indices,
                  h_powers = map (\<lambda>i. powspec ! i) hit_indices,
                  h_baselines = map (\<lambda>i. baseline ! i) hit_indices\<rparr>))"

subsection \<open>The order of the spectra\<close>

definition ao_pol :: "nat \<Rightarrow> nat" where
  "ao_pol spectrum_index = (spectrum_index div 2) mod 2"

definition ao_coarse_chan :: "nat \<Rightarrow> nat" where
  "ao_coarse_chan spectrum_index = (spectrum_index div 4) * 2 + spectrum_index mod 2"

definition dibas_pol :: "nat \<Rightarrow> nat" where
  "dibas_pol spectrum_index = spectrum_index mod 2"

definition dibas_coarse_chan :: "nat \<Rightarrow> nat \<Rightarrow> nat" where
  "dibas_coarse_chan spectrum_index sub_spectrum_i =
     spectrum_index div 2 + sub_spectrum_i * N_COARSE_CHAN SOURCE_DIBAS div N_SUBSPECTRA_PER_SPECTRUM SOURCE_DIBAS"

subsection \<open>The output block and the whole of spectroscopy\<close>

record out_hdr =
  oh_mcnt :: u64
  oh_coarse_chan_id :: u64
  oh_num_coarse_chan :: u64
  oh_sid :: u64
  oh_time_sec :: u64
  oh_time_nsec :: u64
  oh_missed_pkts :: "u64 list"
  oh_nhits :: "u64 list"

text \<open>The arrays \<open>[N_BORS][MAXGPUHITS]\<close> and \<open>[N_BORS][N_COARSE_CHAN_PER_BORS]\<close> are functions of their two indices.\<close>

record out_block =
  ob_header :: out_hdr
  ob_power :: "nat \<Rightarrow> nat \<Rightarrow> real"
  ob_baseline :: "nat \<Rightarrow> nat \<Rightarrow> real"
  ob_hit_indices :: "nat \<Rightarrow> nat \<Rightarrow> nat"
  ob_pol :: "nat \<Rightarrow> nat \<Rightarrow> nat"
  ob_coarse_chan :: "nat \<Rightarrow> nat \<Rightarrow> nat"
  ob_fine_chan :: "nat \<Rightarrow> nat \<Rightarrow> nat"
  ob_cc_pwrs_x :: "nat \<Rightarrow> nat \<Rightarrow> real"
  ob_cc_pwrs_y :: "nat \<Rightarrow> nat \<Rightarrow> real"

definition copy_row :: "nat \<Rightarrow> 'a list \<Rightarrow> (nat \<Rightarrow> nat \<Rightarrow> 'a) \<Rightarrow> nat \<Rightarrow> nat \<Rightarrow> 'a" where
  "copy_row bors xs A = (\<lambda>b i. if b = bors \<and> i < length xs then xs ! i else A b i)"

definition reduce_coarse_channels :: "nat \<Rightarrow> nat \<Rightarrow> nat \<Rightarrow> nat \<Rightarrow> real list \<Rightarrow> out_block \<Rightarrow> out_block" where
  "reduce_coarse_channels n_cc n_pol n_fc bors powspec ob =
     (let spectra_sums = reduce_power_spectra (n_cc * n_pol) n_fc powspec;
          polX = strided_range 0 2 spectra_sums;
          polY = strided_range 1 2 spectra_sums
      in ob\<lparr>ob_cc_pwrs_x := copy_row bors polX (ob_cc_pwrs_x ob),
            ob_cc_pwrs_y := copy_row bors polY (ob_cc_pwrs_y ob)\<rparr>)"

text \<open>\<open>n_pol\<close> is the polarisation itself at FAST and the number of polarisations elsewhere.\<close>

fun hit_pol :: "site \<Rightarrow> nat \<Rightarrow> nat \<Rightarrow> nat" where
  "hit_pol SOURCE_S6 n_pol spectrum_index = ao_pol spectrum_index"
| "hit_pol SOURCE_DIBAS n_pol spectrum_index = dibas_pol spectrum_index"
| "hit_pol SOURCE_FAST n_pol spectrum_index = n_pol"

fun hit_coarse_chan :: "site \<Rightarrow> nat \<Rightarrow> nat \<Rightarrow> nat" where
  "hit_coarse_chan SOURCE_S6 bors spectrum_index = ao_coarse_chan spectrum_index"
| "hit_coarse_chan SOURCE_DIBAS bors spectrum_index = dibas_coarse_chan spectrum_index bors"
| "hit_coarse_chan SOURCE_FAST bors spectrum_index = 0"

definition output_hits :: "site \<Rightarrow> nat \<Rightarrow> nat \<Rightarrow> nat \<Rightarrow> nat \<Rightarrow> hits \<Rightarrow> out_block \<Rightarrow> out_block" where
  "output_hits s n_fc n_pol bors nhits hs ob =
     (let spectrum_index = (\<lambda>i. h_indices hs ! i div n_fc);
          hd = ob_header ob
      in ob\<lparr>ob_header := hd\<lparr>oh_nhits := (oh_nhits hd)[bors := of_nat nhits]\<rparr>,
            ob_power := copy_row bors (h_powers hs) (ob_power ob),
            ob_baseline := copy_row bors (h_baselines hs) (ob_baseline ob),
            ob_hit_indices := copy_row bors (h_indices hs) (ob_hit_indices ob),
            ob_pol := copy_row bors (map (\<lambda>i. hit_pol s n_pol (spectrum_index i)) [0..<nhits]) (ob_pol ob),
            ob_coarse_chan :=
              copy_row bors (map (\<lambda>i. hit_coarse_chan s bors (spectrum_index i)) [0..<nhits]) (ob_coarse_chan ob),
            ob_fine_chan := copy_row bors (map (\<lambda>i. h_indices hs ! i mod n_fc) [0..<nhits]) (ob_fine_chan ob)\<rparr>)"

text \<open>From the power spectrum to the hits of the output block: the second half of both versions of
  \<open>spectroscopy\<close>.\<close>

definition detect_hits ::
  "site \<Rightarrow> nat \<Rightarrow> nat \<Rightarrow> nat \<Rightarrow> nat \<Rightarrow> nat \<Rightarrow> real \<Rightarrow> nat \<Rightarrow> real list \<Rightarrow> out_block \<Rightarrow> nat \<times> out_block" where
  "detect_hits s n_element n_fc n_pol bors maxhits power_thresh smooth_scale powspec ob =
     (let baseline = compute_baseline n_fc n_element smooth_scale powspec;
          normalised = normalize_power_spectrum powspec baseline;
          (nhits, hs) = find_hits n_element maxhits power_thresh normalised powspec baseline;
          nhits = (if maxhits < nhits then maxhits else nhits)
      in (nhits, output_hits s n_fc n_pol bors nhits hs ob))"

text \<open>The device vector \<open>fft_data_out\<close> has \<open>n_element\<close> elements; \<open>fft\<close> is cuFFT, from the unpacked time
  series to the complex spectra it writes there.\<close>

datatype fft_input = Complex_input "(real \<times> real) list" | Real_input "real list"

definition fft_data_out :: "nat \<Rightarrow> (real \<times> real) list \<Rightarrow> (real \<times> real) list" where
  "fft_data_out n_element spectra = take n_element (spectra @ replicate n_element (0, 0))"

definition spectroscopy ::
  "site \<Rightarrow> nat \<Rightarrow> nat \<Rightarrow> nat \<Rightarrow> nat \<Rightarrow> nat \<Rightarrow> real \<Rightarrow> nat \<Rightarrow> (fft_input \<Rightarrow> (real \<times> real) list) \<Rightarrow> nat \<Rightarrow> store \<Rightarrow>
   out_block \<Rightarrow> nat \<times> out_block" where
  "spectroscopy s n_cc n_fc n_pol bors maxhits power_thresh smooth_scale fft n_input_data_bytes input_data ob =
     (let n_element = n_cc * n_fc * n_pol;
          fft_data = unpack_complex n_element n_input_data_bytes input_data;
          powspec = compute_power_spectrum (fft_data_out n_element (fft (Complex_input fft_data))) (replicate n_element 0);
          ob = reduce_coarse_channels n_cc n_pol n_fc bors powspec ob
      in detect_hits s n_element n_fc n_pol bors maxhits power_thresh smooth_scale powspec ob)"

text \<open>The FAST version (\<open>REALLOC_NONE\<close>): real samples, one polarisation, no mean coarse channel powers.\<close>

definition spectroscopy_fast ::
  "nat \<Rightarrow> nat \<Rightarrow> nat \<Rightarrow> nat \<Rightarrow> nat \<Rightarrow> real \<Rightarrow> nat \<Rightarrow> (fft_input \<Rightarrow> (real \<times> real) list) \<Rightarrow> nat \<Rightarrow> store \<Rightarrow>
   out_block \<Rightarrow> nat \<times> out_block" where
  "spectroscopy_fast n_cc n_fc n_pol bors maxhits power_thresh smooth_scale fft n_input_data_bytes input_data ob =
     (let n_element = n_cc * n_fc;
          fft_data = unpack_real n_input_data_bytes input_data;
          powspec = compute_power_spectrum (fft_data_out n_element (fft (Real_input fft_data))) (replicate n_element 0)
      in detect_hits SOURCE_FAST n_element n_fc n_pol bors maxhits power_thresh smooth_scale powspec ob)"

subsection \<open>Scans and the baseline\<close>

definition region_sum :: "nat \<Rightarrow> real list \<Rightarrow> nat \<Rightarrow> real" where
  "region_sum n xs i = (\<Sum>j\<in>{i div n * n..<i}. xs ! j)"

lemma region_sum_Suc:
  assumes "0 < n"
  shows "(if (i div n) \<noteq> (Suc i div n) then 0 else region_sum n xs i + xs ! i) = region_sum n xs (Suc i)"
proof (cases "Suc i mod n = 0")
  case True
  then have "Suc i div n = Suc (i div n)" by (simp add: div_Suc)
  moreover have "Suc i div n * n = Suc i" using True by (simp add: dvd_div_mult_self mod_eq_0_iff_dvd)
  ultimately show ?thesis by (simp add: region_sum_def)
next
  case False
  then have "Suc i div n = i div n" by (simp add: div_Suc)
  moreover have "\<not> i < i div n * n" by (simp add: not_less)
  ultimately show ?thesis by (simp add: region_sum_def del: div_times_less_eq_dividend)
qed

lemma exclusive_scan_drop:
  assumes n: "0 < n" and k: "i + k < length xs"
    and acc: "(if 0 < i \<and> (i - 1) div n \<noteq> i div n then 0 else acc) = region_sum n xs i"
  shows "exclusive_scan n i acc (drop i xs) ! k = region_sum n xs (i + k)"
  using k acc
proof (induction k arbitrary: i acc)
  case 0
  then have "drop i xs = xs ! i # drop (Suc i) xs" by (simp add: Cons_nth_drop_Suc)
  with 0 show ?case by (auto simp: Let_def)
next
  case (Suc k)
  then have d: "drop i xs = xs ! i # drop (Suc i) xs" by (simp add: Cons_nth_drop_Suc)
  have "exclusive_scan n i acc (drop i xs) ! Suc k
      = exclusive_scan n (Suc i) (region_sum n xs i + xs ! i) (drop (Suc i) xs) ! k"
    using Suc.prems(2) by (simp add: d Let_def)
  also have "\<dots> = region_sum n xs (Suc i + k)"
    using Suc.prems(1) region_sum_Suc [OF n, of i xs] by (intro Suc.IH) simp_all
  finally show ?case by simp
qed

lemma exclusive_scan_nth:
  "0 < n \<Longrightarrow> k < length xs \<Longrightarrow> exclusive_scan n 0 0 xs ! k = region_sum n xs k"
  using exclusive_scan_drop [of n 0 k xs 0] by (simp add: region_sum_def)

lemma region_sum_diff:
  assumes "a \<le> b" "b < n"
  shows "region_sum n xs (b + q * n) - region_sum n xs (a + q * n) = (\<Sum>j<b - a. xs ! (q * n + a + j))"
proof -
  have d: "(b + q * n) div n * n = q * n" "(a + q * n) div n * n = q * n"
    using assms by simp_all
  have "{q * n..<b + q * n} = {q * n..<a + q * n} \<union> {a + q * n..<b + q * n}"
    using assms by auto
  then have "region_sum n xs (b + q * n) = region_sum n xs (a + q * n) + (\<Sum>j\<in>{a + q * n..<b + q * n}. xs ! j)"
    unfolding region_sum_def d by (simp add: sum.union_disjoint ivl_disj_int)
  moreover have "(\<Sum>j\<in>{a + q * n..<b + q * n}. xs ! j) = (\<Sum>j<b - a. xs ! (q * n + a + j))"
    using assms by (intro sum.reindex_bij_witness [of _ "\<lambda>j. q * n + a + j" "\<lambda>j. j - (q * n + a)"]) auto
  ultimately show ?thesis by simp
qed

text \<open>Where the averaging window of bin \<open>idx\<close> starts within its spectrum.\<close>

definition window_start :: "nat \<Rightarrow> nat \<Rightarrow> nat \<Rightarrow> nat" where
  "window_start r n idx = (if idx < r then 0 else if n - 1 - r < idx then n - 1 - 2 * r else idx - r)"

text \<open>C14: The baseline of a bin is the mean of exactly 2*radius consecutive bins of its own
  spectrum, from a window that contains or borders the bin and never crosses into another
  spectrum.\<close>
theorem baseline_is_local_mean:
  assumes "0 < r" "2 * r < n_fc" "i < n_element" "n_element = n_fc * k" "length powspec = n_element"
  shows "compute_baseline n_fc n_element r powspec ! i =
      (\<Sum>j<2 * r. powspec ! (i div n_fc * n_fc + window_start r n_fc (i mod n_fc) + j)) / (2 * real r)
    \<and> window_start r n_fc (i mod n_fc) + 2 * r \<le> n_fc
    \<and> \<bar>int (i mod n_fc) - int (window_start r n_fc (i mod n_fc)) - int r\<bar> \<le> int r"
proof -
  define q where "q = i div n_fc"
  define idx where "idx = i mod n_fc"
  define w where "w = window_start r n_fc idx"
  have n0: "0 < n_fc" using assms by simp
  have idx: "idx < n_fc" using n0 by (simp add: idx_def)
  have w: "w + 2 * r < n_fc" using assms idx by (auto simp: w_def window_start_def)
  have "q < k" using assms(3,4) by (simp add: q_def mult.commute less_mult_imp_div_less)
  then have "q * n_fc + n_fc \<le> n_element" using assms(4)
    by (metis Suc_leI add.commute mult.commute mult_Suc mult_le_mono2)
  then have in_range: "m + q * n_fc < length powspec" if "m < n_fc" for m
    using that assms(5) by simp
  have scan: "exclusive_scan n_fc 0 0 powspec ! (m + q * n_fc) = region_sum n_fc powspec (m + q * n_fc)" if "m < n_fc" for m
    using exclusive_scan_nth [OF n0 in_range [OF that]] .
  have "compute_baseline n_fc n_element r powspec ! i =
      (region_sum n_fc powspec (w + 2 * r + q * n_fc) - region_sum n_fc powspec (w + q * n_fc)) / (2 * real r)"
  proof -
    have "compute_baseline n_fc n_element r powspec ! i =
        running_mean_by_region r n_fc (exclusive_scan n_fc 0 0 powspec) i"
      using assms by (simp add: compute_baseline_def)
    also have "\<dots> = (exclusive_scan n_fc 0 0 powspec ! (w + 2 * r + q * n_fc)
        - exclusive_scan n_fc 0 0 powspec ! (w + q * n_fc)) / (2 * real r)"
      using assms idx by (auto simp: running_mean_by_region_def Let_def q_def [symmetric] idx_def [symmetric]
          w_def window_start_def intro!: arg_cong2 [where f = "(-)"] arg_cong [where f = "\<lambda>j. exclusive_scan n_fc 0 0 powspec ! j"])
    finally show ?thesis using w by (simp only: scan)
  qed
  also have "\<dots> = (\<Sum>j<2 * r. powspec ! (q * n_fc + w + j)) / (2 * real r)"
    using region_sum_diff [of w "w + 2 * r" n_fc powspec q] w by simp
  finally have "compute_baseline n_fc n_element r powspec ! i = (\<Sum>j<2 * r. powspec ! (q * n_fc + w + j)) / (2 * real r)" .
  moreover have "\<bar>int idx - int w - int r\<bar> \<le> int r"
    using assms idx by (auto simp: w_def window_start_def of_nat_diff)
  ultimately show ?thesis using w by (simp add: q_def idx_def w_def)
qed

theorem baseline_is_local_mean_witness:
  "compute_baseline 4 4 1 [1, 3, 5, 7] ! 2 = (\<Sum>j<2. [1, 3, 5, 7] ! (1 + j)) / 2"
  using baseline_is_local_mean [of 1 4 2 4 1 "[1, 3, 5, 7]"] by (simp add: window_start_def)
subsection \<open>Hits\<close>

definition over_threshold :: "real \<Rightarrow> real list \<Rightarrow> nat \<Rightarrow> nat set" where
  "over_threshold t normalised n = {i. i < n \<and> t < normalised ! i}"

lemma take_filter_upt:
  "i \<in> set (filter P [0..<n]) \<Longrightarrow> i \<notin> set (take m (filter P [0..<n])) \<Longrightarrow>
   length (take m (filter P [0..<n])) = m \<and> (\<forall>j\<in>set (take m (filter P [0..<n])). j < i)"
proof -
  define ys where "ys = filter P [0..<n]"
  assume a: "i \<in> set (filter P [0..<n])" "i \<notin> set (take m (filter P [0..<n]))"
  have sd: "sorted_wrt (<) ys" unfolding ys_def by (rule sorted_wrt_filter) (simp add: sorted_wrt_upt)
  from a obtain k where k: "k < length ys" "ys ! k = i" by (auto simp: ys_def [symmetric] in_set_conv_nth)
  have "m \<le> k"
    using a(2) k by (metis in_set_conv_nth length_take min_less_iff_conj not_le nth_take ys_def)
  then show ?thesis
    using k sd by (auto simp: ys_def [symmetric] in_set_conv_nth sorted_wrt_iff_nth_less)
qed

text \<open>C13: find_hits reports the bins over threshold in ascending order with their powers and
  baselines, all of them unless there are more than maxhits, in which case the lowest maxhits.\<close>
theorem find_hits_exact:
  assumes "find_hits n_element maxhits t normalised powspec baseline = (nhits, hs)"
  defines "over \<equiv> over_threshold t normalised n_element"
  shows "nhits = min maxhits (card over)
    \<and> length (h_indices hs) = nhits \<and> sorted_wrt (<) (h_indices hs) \<and> set (h_indices hs) \<subseteq> over
    \<and> h_powers hs = map (\<lambda>i. powspec ! i) (h_indices hs)
    \<and> h_baselines hs = map (\<lambda>i. baseline ! i) (h_indices hs)
    \<and> (\<forall>i\<in>over - set (h_indices hs). nhits = maxhits \<and> (\<forall>j\<in>set (h_indices hs). j < i))"
proof -
  define ys where "ys = filter (\<lambda>i. t < normalised ! i) [0..<n_element]"
  have set_ys: "set ys = over" by (auto simp: ys_def over_def over_threshold_def)
  have "distinct ys" by (simp add: ys_def)
  then have card: "card over = length ys" using set_ys distinct_card by metis
  have sd: "sorted_wrt (<) ys" unfolding ys_def by (rule sorted_wrt_filter) (simp add: sorted_wrt_upt)
  have E: "nhits = min maxhits (length ys)" "h_indices hs = take nhits ys"
    "h_powers hs = map (\<lambda>i. powspec ! i) (take nhits ys)" "h_baselines hs = map (\<lambda>i. baseline ! i) (take nhits ys)"
    using assms(1) by (auto simp: find_hits_def ys_def [symmetric] Let_def)
  have "nhits = maxhits \<and> (\<forall>j\<in>set (take nhits ys). j < i)" if "i \<in> set ys" "i \<notin> set (take nhits ys)" for i
    using take_filter_upt [of i "\<lambda>i. t < normalised ! i" n_element nhits] that E(1)
    by (cases "maxhits \<le> length ys") (auto simp: ys_def [symmetric])
  moreover have "sorted_wrt (<) (take nhits ys)" by (rule sorted_wrt_take [OF sd])
  moreover have "set (take nhits ys) \<subseteq> over" using set_take_subset [of nhits ys] by (simp add: set_ys)
  moreover have "length (take nhits ys) = nhits" using E(1) by simp
  ultimately show ?thesis using E card set_ys by auto
qed

theorem find_hits_exact_witness:
  "find_hits 4 2 20 [3, 25, 30, 40] [6, 50, 60, 80] [2, 2, 2, 2] = (2, \<lparr>h_indices = [1, 2], h_powers = [50, 60], h_baselines = [2, 2]\<rparr>)
   \<and> (2 :: nat) = min 2 (card (over_threshold 20 [3, 25, 30, 40] 4))"
proof -
  have f: "find_hits 4 2 20 [3, 25, 30, 40] [6, 50, 60, 80] [2, 2, 2, 2]
      = (2, \<lparr>h_indices = [1, 2], h_powers = [50, 60], h_baselines = [2, 2]\<rparr>)"
    by (simp add: find_hits_def upt_rec)
  show ?thesis using find_hits_exact [OF f] f by simp
qed

subsection \<open>The last bin\<close>

theorem last_bin_never_computed:
  assumes "length fft = n" "0 < n"
  shows "compute_power_spectrum fft (replicate n 0) ! (n - 1) = 0 \<and>
     (\<forall>i < n - 1. compute_power_spectrum fft (replicate n 0) ! i = compute_complex_power (fft ! i))"
  using assms by (auto simp: compute_power_spectrum_def nth_append nth_butlast)

theorem last_bin_never_computed_witness:
  "compute_power_spectrum [(1, 2), (30, 40)] (replicate 2 0) ! 1 = 0"
  using last_bin_never_computed [of "[(1, 2), (30, 40)]" 2] by simp

subsection \<open>From hit index to polarisation, coarse and fine channel\<close>

fun spectrum_of :: "site \<Rightarrow> nat \<Rightarrow> nat \<Rightarrow> nat \<Rightarrow> nat" where
  "spectrum_of SOURCE_S6 bors pol cc = 4 * (cc div 2) + 2 * pol + cc mod 2"
| "spectrum_of SOURCE_DIBAS bors pol cc = 2 * (cc - 64 * bors) + pol"
| "spectrum_of SOURCE_FAST bors pol cc = cc"

text \<open>At FAST \<open>k\<close> is the polarisation of the thread and there is one spectrum.\<close>

text \<open>C33: From the polarisation, coarse and fine channel written for a hit its index in the power
  spectrum can be recovered, at each site; the polarisation and channel are in range.\<close>
theorem hit_position_recovered:
  fixes s :: site and hit_index n_fc n_cc k bors :: nat
  assumes "hit_index < n_fc * (if s = SOURCE_FAST then 1 else n_cc * 2)" "even n_cc"
    and "0 < n_fc" "k < 2"
  defines "pol \<equiv> hit_pol s k (hit_index div n_fc)"
    and "cc \<equiv> hit_coarse_chan s bors (hit_index div n_fc)"
  shows "hit_index = n_fc * spectrum_of s bors pol cc + hit_index mod n_fc \<and> pol < 2 \<and>
     cc < (if s = SOURCE_FAST then 1 else n_cc) + (if s = SOURCE_DIBAS then 64 * bors else 0)"
proof -
  define q where "q = hit_index div n_fc"
  have q: "q < (if s = SOURCE_FAST then 1 else n_cc * 2)"
    using assms(1,3) by (simp add: q_def less_mult_imp_div_less mult.commute split: if_splits)
  have "spectrum_of s bors pol cc = q \<and> pol < 2 \<and>
     cc < (if s = SOURCE_FAST then 1 else n_cc) + (if s = SOURCE_DIBAS then 64 * bors else 0)"
  proof (cases s)
    case SOURCE_S6
    obtain m where m: "n_cc = 2 * m" using assms(2) by auto
    have "((q div 4) * 2 + q mod 2) div 2 = q div 4" "((q div 4) * 2 + q mod 2) mod 2 = q mod 2" by simp_all
    moreover have "4 * (q div 4) + 2 * (q div 2 mod 2) + q mod 2 = q" by presburger
    moreover have "(q div 4) * 2 + q mod 2 < 2 * m"
    proof -
      have "q < 4 * m" using q m SOURCE_S6 by simp
      then have "q div 4 < m" by (simp add: div_less_iff_less_mult mult.commute)
      then show ?thesis using mod_less_divisor [of 2 q] by linarith
    qed
    ultimately show ?thesis
      by (simp add: SOURCE_S6 pol_def cc_def q_def [symmetric] ao_pol_def ao_coarse_chan_def m)
  next
    case SOURCE_DIBAS
    then show ?thesis
      using q by (simp add: pol_def cc_def q_def [symmetric] dibas_pol_def dibas_coarse_chan_def)
  next
    case SOURCE_FAST
    then show ?thesis using q assms(4) by (simp add: pol_def cc_def q_def)
  qed
  then show ?thesis using mult_div_mod_eq [of n_fc hit_index] by (simp add: q_def)
qed

theorem hit_position_recovered_witness:
  "hit_pol SOURCE_S6 2 (917510 div 131072) = 1 \<and> hit_coarse_chan SOURCE_S6 0 (917510 div 131072) = 3 \<and>
   917510 = 131072 * spectrum_of SOURCE_S6 0 (hit_pol SOURCE_S6 1 (917510 div 131072))
     (hit_coarse_chan SOURCE_S6 0 (917510 div 131072)) + 917510 mod (131072 :: nat)"
  using hit_position_recovered [of 917510 131072 SOURCE_S6 320 1 0]
  by (simp add: ao_pol_def ao_coarse_chan_def)

end
