(* ===== verification/S6_GpuThread.thy ===== *)
theory S6_GpuThread
  imports S6_Gpu
begin

text \<open>
  The GPU thread, \<open>src/src/s6_gpu_thread.cpp\<close>: it waits for the next filled
  input block and the next free output block, passes the metadata on, runs spectroscopy on
  each group of channels, and hands both blocks over.  What the waits return, the input
  block's content, cuFFT and the clock are inputs; the calls made on the two rings are
  recorded in order.
\<close>

subsection \<open>FFT configuration\<close>

datatype cufft_type = CUFFT_R2C | CUFFT_C2C

record cufft_config =
  cc_nfft :: nat
  cc_fft_type :: cufft_type
  cc_nbatch :: nat
  cc_istride :: nat
  cc_ostride :: nat
  cc_idist :: nat
  cc_odist :: nat

definition init_gpu_memory :: "site \<Rightarrow> nat \<Rightarrow> cufft_config option" where
  "init_gpu_memory s num_coarse_chan =
     (if num_coarse_chan = 0 then None
      else Some \<lparr>cc_nfft = N_TIME_SAMPLES s,
                 cc_fft_type = (if s = SOURCE_FAST then CUFFT_R2C else CUFFT_C2C),
                 cc_nbatch = (if s = SOURCE_FAST then num_coarse_chan else num_coarse_chan * N_POLS_PER_BEAM s),
                 cc_istride = (if s = SOURCE_FAST then N_COARSE_CHAN s div N_SUBSPECTRA_PER_SPECTRUM s
                               else N_COARSE_CHAN s div N_SUBSPECTRA_PER_SPECTRUM s * N_POLS_PER_BEAM s),
                 cc_ostride = 1,
                 cc_idist = 1,
                 cc_odist = N_TIME_SAMPLES s\<rparr>)"

subsection \<open>State and inputs\<close>

text \<open>A wait is repeated while hashpipe reports a timeout: the results it returns, in order.\<close>

datatype wait_result = Acquired nat | Wait_failed nat | Still_waiting nat

fun await :: "hp_rv list \<Rightarrow> nat \<Rightarrow> wait_result" where
  "await [] k = Still_waiting k"
| "await (HASHPIPE_OK # rvs) k = Acquired k"
| "await (HASHPIPE_TIMEOUT # rvs) k = await rvs (k + 1)"
| "await (HASHPIPE_ERR # rvs) k = Wait_failed k"

datatype gpu_call = In_ring ring_call | Out_ring ring_call

record gpu_config =
  gc_dev :: int
  gc_maxhits :: nat
  gc_power_thresh :: real

record 's gpu_state =
  g_curblock_in :: nat
  g_curblock_out :: nat
  g_num_coarse_chan :: u64
  g_last_mcount :: u64
  g_cufft :: cufft_config
  g_out :: "out_block list"
  g_calls :: "gpu_call list"
  g_status :: 's

record gpu_event =
  ge_in_waits :: "hp_rv list"
  ge_out_waits :: "hp_rv list"
  ge_block :: in_block
  ge_padding :: u64
  ge_time :: u64

definition default_cufft :: "site \<Rightarrow> cufft_config" where
  "default_cufft s = the (init_gpu_memory s (N_COARSE_CHAN s div N_SUBSPECTRA_PER_SPECTRUM s))"

definition gpu_init ::
  "site \<Rightarrow> 's status_ops \<Rightarrow> out_block list \<Rightarrow> 's \<Rightarrow> gpu_config \<times> 's gpu_state" where
  "gpu_init s so outs buf =
     (let gpu_dev = (case hgeti4 so buf ''GPUDEV'' of Some v \<Rightarrow> v | None \<Rightarrow> 0);
          maxhits = (case hgeti4 so buf ''MAXHITS'' of Some v \<Rightarrow> v | None \<Rightarrow> int MAXHITS);
          power_thresh = (case hgetr4 so buf ''POWTHRSH'' of Some v \<Rightarrow> v | None \<Rightarrow> 20);
          buf = hput so buf ''POWTHRSH'' (R4 power_thresh)
      in (\<lparr>gc_dev = gpu_dev, gc_maxhits = unat (of_int maxhits :: u64), gc_power_thresh = power_thresh\<rparr>,
          \<lparr>g_curblock_in = 0, g_curblock_out = 0, g_num_coarse_chan = of_nat (N_COARSE_CHAN s),
           g_last_mcount = 0, g_cufft = default_cufft s, g_out = outs, g_calls = [], g_status = buf\<rparr>))"

subsection \<open>One block\<close>

text \<open>The metadata.  The \<open>memcpy\<close> of \<open>N_BEAM_SLOTS\<close> words starts at
  \<open>missed_pkts[N_BORS]\<close>, which \<open>nhits\<close> follows in the output header; in the input header the array is
  followed by the block's alignment padding.\<close>

definition copy_missed_pkts :: "site \<Rightarrow> u64 \<Rightarrow> u64 list \<Rightarrow> u64 list \<times> u64 list \<Rightarrow> u64 list \<times> u64 list" where
  "copy_missed_pkts s padding src dst =
     (let n = N_BORS s;
          words = take (N_BEAM_SLOTS s) (src @ [padding]) @ drop (N_BEAM_SLOTS s) (fst dst @ snd dst)
      in (take n words, drop n words))"

definition pass_metadata :: "site \<Rightarrow> u64 \<Rightarrow> in_hdr \<Rightarrow> out_hdr \<Rightarrow> out_hdr" where
  "pass_metadata s padding ih oh =
     (let (missed, nhits) = copy_missed_pkts s padding (ih_missed_pkts ih) (oh_missed_pkts oh, oh_nhits oh)
      in oh\<lparr>oh_mcnt := ih_mcnt ih,
            oh_coarse_chan_id := ih_coarse_chan_id ih,
            oh_num_coarse_chan := ih_num_coarse_chan ih,
            oh_time_sec := ih_time_sec ih,
            oh_time_nsec := ih_time_nsec ih,
            oh_missed_pkts := missed,
            oh_nhits := nhits,
            oh_sid := (if s = SOURCE_FAST then ih_sid ih else oh_sid oh)\<rparr>)"

fun n_bors :: "site \<Rightarrow> nat" where
  "n_bors SOURCE_S6 = N_BEAMS SOURCE_S6"
| "n_bors SOURCE_DIBAS = N_SUBSPECTRA_PER_SPECTRUM SOURCE_DIBAS"
| "n_bors SOURCE_FAST = N_SUBSPECTRA_PER_SPECTRUM SOURCE_FAST"

definition N_BYTES_PER_BEAM :: "site \<Rightarrow> nat" where
  "N_BYTES_PER_BEAM s = N_BYTES_PER_SAMPLE s * (N_FINE_CHAN s * N_COARSE_CHAN s * N_POLS_PER_BEAM s)"

fun n_bytes_per_bors :: "site \<Rightarrow> nat" where
  "n_bytes_per_bors SOURCE_S6 = N_BYTES_PER_BEAM SOURCE_S6"
| "n_bytes_per_bors SOURCE_DIBAS = N_BYTES_PER_SUBSPECTRUM SOURCE_DIBAS * N_FINE_CHAN SOURCE_DIBAS"
| "n_bytes_per_bors SOURCE_FAST = N_BYTES_PER_SUBSPECTRUM SOURCE_FAST * N_TIME_SAMPLES SOURCE_FAST"

definition RMS_LENGTH :: nat where "RMS_LENGTH = 1000"

definition adc_rms :: "store \<Rightarrow> real" where
  "adc_rms samples =
     sqrt (sum_list (map (\<lambda>i. of_int (sint (samples i) * sint (samples i))) [0..<RMS_LENGTH]) / of_nat RMS_LENGTH)"

text \<open>The loop over beams or subspectra; \<open>cufft\<close> gives the transform of a group's bytes.\<close>

definition process_bors ::
  "site \<Rightarrow> gpu_config \<Rightarrow> (cufft_config \<Rightarrow> fft_input \<Rightarrow> (real \<times> real) list) \<Rightarrow> cufft_config \<Rightarrow> u64 \<Rightarrow> in_block \<Rightarrow> nat \<Rightarrow>
   nat \<times> out_block \<Rightarrow> nat \<times> out_block" where
  "process_bors s gc cufft plan num_coarse_chan ib bors_i acc =
     (let input = (\<lambda>a. ib_data ib (8 * (bors_i * n_bytes_per_bors s div 8) + a));
          n_pol = (if s = SOURCE_FAST then unat (ih_sid (ib_header ib) mod 2) else N_POLS_PER_BEAM s);
          n_cc = unat num_coarse_chan div N_SUBSPECTRA_PER_SPECTRUM s;
          (nhits, ob) =
            (if s = SOURCE_FAST
             then spectroscopy_fast n_cc (N_FINE_CHAN s) n_pol bors_i (gc_maxhits gc) (gc_power_thresh gc)
                    (SMOOTH_SCALE s) (cufft plan) (n_bytes_per_bors s) input (snd acc)
             else spectroscopy s n_cc (N_FINE_CHAN s) n_pol bors_i (gc_maxhits gc) (gc_power_thresh gc)
                    (SMOOTH_SCALE s) (cufft plan) (n_bytes_per_bors s) input (snd acc))
      in (fst acc + nhits, ob))"

definition process_block ::
  "site \<Rightarrow> gpu_config \<Rightarrow> (cufft_config \<Rightarrow> fft_input \<Rightarrow> (real \<times> real) list) \<Rightarrow> cufft_config \<Rightarrow> u64 \<Rightarrow> in_block \<Rightarrow>
   out_block \<Rightarrow> nat \<times> out_block" where
  "process_block s gc cufft plan num_coarse_chan ib ob =
     (if num_coarse_chan \<noteq> 0
      then fold (process_bors s gc cufft plan num_coarse_chan ib) [0..<n_bors s] (0, ob)
      else (0, ob))"

datatype 'a gpu_result = Gpu_done 'a | Gpu_blocked 'a | Gpu_exit 'a

definition put_times :: "'s status_ops \<Rightarrow> string \<Rightarrow> string \<Rightarrow> nat \<Rightarrow> 's \<Rightarrow> 's" where
  "put_times so key val k buf = ((\<lambda>b. hput so b key (Str val)) ^^ k) buf"

text \<open>After both blocks are acquired.\<close>

definition gpu_process ::
  "site \<Rightarrow> 's status_ops \<Rightarrow> gpu_config \<Rightarrow> (cufft_config \<Rightarrow> fft_input \<Rightarrow> (real \<times> real) list) \<Rightarrow> gpu_event \<Rightarrow>
   's gpu_state \<Rightarrow> 's gpu_state" where
  "gpu_process s so gc cufft ev st =
     (let ib = ge_block ev;
          i = g_curblock_in st;
          k = g_curblock_out st;
          buf = hput so (g_status st) ''GPUSTAT'' (Str ''processing gpu'');
          ob = (g_out st ! k)\<lparr>ob_header := pass_metadata s (ge_padding ev) (ib_header ib) (ob_header (g_out st ! k))\<rparr>;
          (total_hits, ob) = process_block s gc cufft (g_cufft st) (g_num_coarse_chan st) ib ob;
          buf = hput so buf ''NUMHITS'' (I4 (of_nat total_hits));
          buf = hput so buf ''GPUMXERR'' (R4 0);
          buf = hput so buf ''GPUERCNT'' (I4 0);
          buf = hput so buf ''GPUMXECT'' (I4 0);
          buf = (if s = SOURCE_FAST
                 then hput so (hput so buf ''ADCRMS'' (R8 (adc_rms (ib_data ib)))) ''ADCRMSTM'' (I8 (ge_time ev))
                 else buf)
      in st\<lparr>g_out := (g_out st)[k := ob],
            g_status := buf,
            g_calls := g_calls st @ [Out_ring (Set_filled k), In_ring (Set_free i)],
            g_curblock_out := (k + 1) mod N_OUTPUT_BLOCKS,
            g_curblock_in := (i + 1) mod N_INPUT_BLOCKS s\<rparr>)"

definition reconfigure :: "site \<Rightarrow> in_hdr \<Rightarrow> 's gpu_state \<Rightarrow> 's gpu_state" where
  "reconfigure s ih st =
     (if s = SOURCE_S6 \<and> ih_num_coarse_chan ih \<noteq> g_num_coarse_chan st
      then (let num = ih_num_coarse_chan ih
            in st\<lparr>g_num_coarse_chan := num,
                  g_cufft := (case init_gpu_memory s (unat num div N_SUBSPECTRA_PER_SPECTRUM s) of
                                Some c \<Rightarrow> c | None \<Rightarrow> g_cufft st)\<rparr>)
      else st)"

definition gpu_step ::
  "site \<Rightarrow> 's status_ops \<Rightarrow> gpu_config \<Rightarrow> (cufft_config \<Rightarrow> fft_input \<Rightarrow> (real \<times> real) list) \<Rightarrow> gpu_event \<Rightarrow>
   's gpu_state \<Rightarrow> 's gpu_state gpu_result" where
  "gpu_step s so gc cufft ev st =
     (let i = g_curblock_in st;
          k = g_curblock_out st;
          buf = hput so (g_status st) ''GPUBLKIN'' (I4 (of_nat i));
          buf = hput so buf ''GPUSTAT'' (Str ''waiting'');
          buf = hput so buf ''GPUBKOUT'' (I4 (of_nat k));
          st = st\<lparr>g_status := buf\<rparr>
      in case await (ge_in_waits ev) 0 of
           Still_waiting n \<Rightarrow> Gpu_blocked (st\<lparr>g_status := put_times so ''GPUSTAT'' ''blocked'' n (g_status st)\<rparr>)
         | Wait_failed n \<Rightarrow> Gpu_exit (st\<lparr>g_status := put_times so ''GPUSTAT'' ''blocked'' n (g_status st)\<rparr>)
         | Acquired n \<Rightarrow>
             (let ih = ib_header (ge_block ev);
                  st = st\<lparr>g_status := put_times so ''GPUSTAT'' ''blocked'' n (g_status st),
                          g_calls := g_calls st @ [In_ring (Wait_filled i)]\<rparr>;
                  st = st\<lparr>g_status := hput so (g_status st) ''GPUMCNT'' (U8 (ih_mcnt ih))\<rparr>;
                  st = reconfigure s ih st
              in if g_last_mcount st \<le> ih_mcnt ih
                 then (case await (ge_out_waits ev) 0 of
                         Still_waiting n \<Rightarrow>
                           Gpu_blocked (st\<lparr>g_status := put_times so ''GPUSTAT'' ''blocked gpu out'' n (g_status st)\<rparr>)
                       | Wait_failed n \<Rightarrow>
                           Gpu_exit (st\<lparr>g_status := put_times so ''GPUSTAT'' ''blocked gpu out'' n (g_status st)\<rparr>)
                       | Acquired n \<Rightarrow>
                           Gpu_done (gpu_process s so gc cufft ev
                             (st\<lparr>g_status := put_times so ''GPUSTAT'' ''blocked gpu out'' n (g_status st),
                                 g_calls := g_calls st @ [Out_ring (Wait_free k)]\<rparr>)))
                 else Gpu_done (gpu_process s so gc cufft ev st)))"

fun gpu_loop ::
  "site \<Rightarrow> 's status_ops \<Rightarrow> gpu_config \<Rightarrow> (cufft_config \<Rightarrow> fft_input \<Rightarrow> (real \<times> real) list) \<Rightarrow> gpu_event list \<Rightarrow>
   's gpu_state \<Rightarrow> 's gpu_state gpu_result" where
  "gpu_loop s so gc cufft [] st = Gpu_done st"
| "gpu_loop s so gc cufft (ev # evs) st =
     (case gpu_step s so gc cufft ev st of
        Gpu_done st \<Rightarrow> gpu_loop s so gc cufft evs st
      | Gpu_blocked st \<Rightarrow> Gpu_blocked st
      | Gpu_exit st \<Rightarrow> Gpu_exit st)"

subsection \<open>The calls on the two rings\<close>

definition gpu_block_calls :: "site \<Rightarrow> nat \<Rightarrow> gpu_call list" where
  "gpu_block_calls s n =
     [In_ring (Wait_filled (n mod N_INPUT_BLOCKS s)), Out_ring (Wait_free (n mod N_OUTPUT_BLOCKS)),
      Out_ring (Set_filled (n mod N_OUTPUT_BLOCKS)), In_ring (Set_free (n mod N_INPUT_BLOCKS s))]"

definition gpu_calls :: "site \<Rightarrow> nat \<Rightarrow> gpu_call list" where
  "gpu_calls s n = concat (map (gpu_block_calls s) [0..<n])"

lemma gpu_calls_Suc: "gpu_calls s (Suc n) = gpu_calls s n @ gpu_block_calls s n"
  by (simp add: gpu_calls_def)

definition gpu_at :: "site \<Rightarrow> nat \<Rightarrow> 's gpu_state \<Rightarrow> bool" where
  "gpu_at s n st = (g_curblock_in st = n mod N_INPUT_BLOCKS s \<and> g_curblock_out st = n mod N_OUTPUT_BLOCKS \<and>
     g_last_mcount st = 0 \<and> length (g_out st) = N_OUTPUT_BLOCKS)"

lemma reconfigure_simps [simp]:
  "g_curblock_in (reconfigure s ih st) = g_curblock_in st" "g_curblock_out (reconfigure s ih st) = g_curblock_out st"
  "g_last_mcount (reconfigure s ih st) = g_last_mcount st" "g_out (reconfigure s ih st) = g_out st"
  "g_calls (reconfigure s ih st) = g_calls st" "g_status (reconfigure s ih st) = g_status st"
  by (simp_all add: reconfigure_def Let_def)

lemma gpu_process_simps [simp]:
  "g_curblock_in (gpu_process s so gc cufft ev st) = (g_curblock_in st + 1) mod N_INPUT_BLOCKS s"
  "g_curblock_out (gpu_process s so gc cufft ev st) = (g_curblock_out st + 1) mod N_OUTPUT_BLOCKS"
  "g_last_mcount (gpu_process s so gc cufft ev st) = g_last_mcount st"
  "g_calls (gpu_process s so gc cufft ev st) =
     g_calls st @ [Out_ring (Set_filled (g_curblock_out st)), In_ring (Set_free (g_curblock_in st))]"
  "length (g_out (gpu_process s so gc cufft ev st)) = length (g_out st)"
  by (simp_all add: gpu_process_def Let_def split: prod.splits)

lemma gpu_step_done:
  assumes "gpu_step s so gc cufft ev st = Gpu_done st'" "g_last_mcount st = 0"
  obtains st1 where "st' = gpu_process s so gc cufft ev st1"
    "g_curblock_in st1 = g_curblock_in st" "g_curblock_out st1 = g_curblock_out st"
    "g_last_mcount st1 = g_last_mcount st" "g_out st1 = g_out st"
    "g_num_coarse_chan st1 = g_num_coarse_chan (reconfigure s (ib_header (ge_block ev)) st)"
    "g_calls st1 = g_calls st @ [In_ring (Wait_filled (g_curblock_in st)), Out_ring (Wait_free (g_curblock_out st))]"
  using assms
  by (auto simp: gpu_step_def Let_def split: wait_result.splits if_splits) (auto simp: reconfigure_def Let_def)

lemma gpu_step_at:
  assumes "gpu_step s so gc cufft ev st = Gpu_done st'" "gpu_at s n st"
  shows "gpu_at s (Suc n) st' \<and> g_calls st' = g_calls st @ gpu_block_calls s n"
proof -
  have "g_last_mcount st = 0" using assms(2) by (simp add: gpu_at_def)
  from gpu_step_done [OF assms(1) this] obtain st1 where
    "st' = gpu_process s so gc cufft ev st1" "g_curblock_in st1 = g_curblock_in st"
    "g_curblock_out st1 = g_curblock_out st" "g_last_mcount st1 = g_last_mcount st" "g_out st1 = g_out st"
    "g_calls st1 = g_calls st @ [In_ring (Wait_filled (g_curblock_in st)), Out_ring (Wait_free (g_curblock_out st))]"
    by metis
  then show ?thesis using assms(2) by (simp add: gpu_at_def gpu_block_calls_def mod_Suc_eq)
qed

text \<open>C24: The GPU thread serves both rings in order: for each block it waits for the input block,
  waits for the output block, fills the output block and frees the input block, and moves one
  slot on in both rings.\<close>
theorem gpu_serves_rings_in_order:
  assumes "gpu_loop s so gc cufft evs st = Gpu_done st'" "gpu_at s n st" "g_calls st = gpu_calls s n"
  shows "gpu_at s (n + length evs) st' \<and> g_calls st' = gpu_calls s (n + length evs)"
  using assms
proof (induction evs arbitrary: st n)
  case (Cons ev evs)
  obtain st1 where st1: "gpu_step s so gc cufft ev st = Gpu_done st1"
    "gpu_loop s so gc cufft evs st1 = Gpu_done st'"
    using Cons.prems(1) by (auto split: gpu_result.splits)
  have "gpu_at s (Suc n) st1" "g_calls st1 = gpu_calls s (Suc n)"
    using gpu_step_at [OF st1(1) Cons.prems(2)] Cons.prems(3) by (simp_all add: gpu_calls_Suc)
  from Cons.IH [OF st1(2) this] show ?case by simp
qed simp

subsection \<open>Contents\<close>

lemma output_hits_header:
  "ob_header (output_hits s n_fc p b nhits hs ob) = (ob_header ob)\<lparr>oh_nhits := (oh_nhits (ob_header ob))[b := of_nat nhits]\<rparr>"
  by (simp add: output_hits_def Let_def)

lemma detect_hits_header:
  assumes "detect_hits s n n_fc n_pol bors maxhits t r powspec ob = (k, ob')"
  shows "ob_header ob' = (ob_header ob)\<lparr>oh_nhits := (oh_nhits (ob_header ob))[bors := of_nat k]\<rparr> \<and> k \<le> maxhits"
  using assms
  by (auto simp: detect_hits_def Let_def output_hits_header find_hits_def split: prod.splits if_splits)

lemma reduce_coarse_channels_header [simp]:
  "ob_header (reduce_coarse_channels n_cc n_pol n_fc bors powspec ob) = ob_header ob"
  by (simp add: reduce_coarse_channels_def Let_def)

lemma process_bors_header:
  "\<exists>n. n \<le> gc_maxhits gc \<and> ob_header (snd (process_bors s gc cufft plan num ib b acc)) =
     (ob_header (snd acc))\<lparr>oh_nhits := (oh_nhits (ob_header (snd acc)))[b := of_nat n]\<rparr>"
proof -
  obtain n powspec ob0 n_pol ne k ob where
    sp: "detect_hits s ne (N_FINE_CHAN s) n_pol b (gc_maxhits gc) (gc_power_thresh gc) (SMOOTH_SCALE s) powspec ob0 = (k, ob)"
    and hd: "ob_header ob0 = ob_header (snd acc)"
    and pb: "snd (process_bors s gc cufft plan num ib b acc) = ob"
    by (cases "s = SOURCE_FAST")
      (simp_all add: process_bors_def spectroscopy_def spectroscopy_fast_def Let_def split_beta,
       metis prod.collapse, metis prod.collapse reduce_coarse_channels_header)
  with detect_hits_header [OF sp] show ?thesis by (auto intro!: exI [of _ k])
qed

lemma process_fold_header:
  "\<exists>ns. length ns = k \<and> (\<forall>n\<in>set ns. n \<le> gc_maxhits gc) \<and>
     ob_header (snd (fold (process_bors s gc cufft plan num ib) [0..<k] acc)) =
     (ob_header (snd acc))\<lparr>oh_nhits := fold (\<lambda>b xs. xs[b := of_nat (ns ! b)]) [0..<k] (oh_nhits (ob_header (snd acc)))\<rparr>"
proof (induction k)
  case (Suc k)
  then obtain ns where ns: "length ns = k" "\<forall>n\<in>set ns. n \<le> gc_maxhits gc"
    "ob_header (snd (fold (process_bors s gc cufft plan num ib) [0..<k] acc)) =
     (ob_header (snd acc))\<lparr>oh_nhits := fold (\<lambda>b xs. xs[b := of_nat (ns ! b)]) [0..<k] (oh_nhits (ob_header (snd acc)))\<rparr>"
    by blast
  define acc' where "acc' = fold (process_bors s gc cufft plan num ib) [0..<k] acc"
  obtain n where n: "n \<le> gc_maxhits gc" "ob_header (snd (process_bors s gc cufft plan num ib k acc')) =
     (ob_header (snd acc'))\<lparr>oh_nhits := (oh_nhits (ob_header (snd acc')))[k := of_nat n]\<rparr>"
    using process_bors_header by metis
  have "fold (\<lambda>b xs. xs[b := of_nat ((ns @ [n]) ! b)]) [0..<k] ys = fold (\<lambda>b xs. xs[b := of_nat (ns ! b)]) [0..<k] ys" for ys :: "u64 list"
    by (rule fold_cong) (simp_all add: nth_append ns(1))
  then show ?case
    using ns n by (intro exI [of _ "ns @ [n]"]) (simp add: acc'_def [symmetric] nth_append)
qed simp

lemma fold_update_length: "length (fold (\<lambda>b xs. xs[b := f b]) bs xs) = length xs"
  by (induction bs arbitrary: xs) simp_all

lemma fold_update_nth:
  "k \<le> length xs \<Longrightarrow> i < length xs \<Longrightarrow> fold (\<lambda>b xs. xs[b := f b]) [0..<k] xs ! i = (if i < k then f i else xs ! i)"
  by (induction k) (auto simp: nth_list_update_if fold_update_length less_Suc_eq)

lemma process_block_header:
  "\<exists>ns. ob_header (snd (process_block s gc cufft plan num ib ob)) = (ob_header ob)\<lparr>oh_nhits := ns\<rparr>
     \<and> length ns = length (oh_nhits (ob_header ob))
     \<and> (num = 0 \<longrightarrow> ns = oh_nhits (ob_header ob))
     \<and> (num \<noteq> 0 \<longrightarrow> gc_maxhits gc < 2 ^ 64 \<longrightarrow> n_bors s \<le> length ns \<longrightarrow> (\<forall>b < n_bors s. unat (ns ! b) \<le> gc_maxhits gc))"
proof (cases "num = 0")
  case False
  obtain ns where ns: "length ns = n_bors s" "\<forall>n\<in>set ns. n \<le> gc_maxhits gc"
    "ob_header (snd (fold (process_bors s gc cufft plan num ib) [0..<n_bors s] (0, ob))) =
     (ob_header ob)\<lparr>oh_nhits := fold (\<lambda>b xs. xs[b := of_nat (ns ! b)]) [0..<n_bors s] (oh_nhits (ob_header ob))\<rparr>"
    using process_fold_header [of "n_bors s" gc s cufft plan num ib "(0, ob)"] by auto
  define xs where "xs = fold (\<lambda>b xs. xs[b := of_nat (ns ! b) :: u64]) [0..<n_bors s] (oh_nhits (ob_header ob))"
  have "unat (xs ! b) \<le> gc_maxhits gc"
    if "gc_maxhits gc < 2 ^ 64" "n_bors s \<le> length xs" "b < n_bors s" for b
  proof -
    have "xs ! b = of_nat (ns ! b)"
      using that by (simp add: xs_def fold_update_nth fold_update_length)
    moreover have "ns ! b \<le> gc_maxhits gc" using ns that by (simp add: nth_mem)
    ultimately show ?thesis using that(1) by (simp add: unat_of_nat_64)
  qed
  then show ?thesis
    using False ns(3) by (intro exI [of _ xs]) (simp add: process_block_def xs_def [symmetric], simp add: xs_def fold_update_length)
qed (simp add: process_block_def)

subsection \<open>The properties of the thread\<close>

definition demo_gpu_event :: gpu_event where
  "demo_gpu_event = \<lparr>ge_in_waits = [HASHPIPE_TIMEOUT, HASHPIPE_OK], ge_out_waits = [HASHPIPE_OK],
     ge_block = \<lparr>ib_header = \<lparr>ih_mcnt = 65536, ih_coarse_chan_id = 0, ih_num_coarse_chan = 1, ih_sid = 3,
         ih_time_sec = 9, ih_time_nsec = 8, ih_missed_pkts = [4]\<rparr>, ib_data = (\<lambda>a. 0)\<rparr>,
     ge_padding = 0, ge_time = 0\<rparr>"

definition blank_out :: "site \<Rightarrow> out_block" where
  "blank_out s = \<lparr>ob_header = \<lparr>oh_mcnt = 0, oh_coarse_chan_id = 0, oh_num_coarse_chan = 0, oh_sid = 0, oh_time_sec = 0,
       oh_time_nsec = 0, oh_missed_pkts = replicate (N_BORS s) 0, oh_nhits = replicate (N_BORS s) 0\<rparr>,
     ob_power = (\<lambda>b i. 0), ob_baseline = (\<lambda>b i. 0), ob_hit_indices = (\<lambda>b i. 0), ob_pol = (\<lambda>b i. 0),
     ob_coarse_chan = (\<lambda>b i. 0), ob_fine_chan = (\<lambda>b i. 0), ob_cc_pwrs_x = (\<lambda>b i. 0), ob_cc_pwrs_y = (\<lambda>b i. 0)\<rparr>"

definition demo_gpu_config :: gpu_config where
  "demo_gpu_config = \<lparr>gc_dev = 0, gc_maxhits = 4096, gc_power_thresh = 20\<rparr>"

definition demo_gpu_state :: "site \<Rightarrow> (string \<times> stval) list gpu_state" where
  "demo_gpu_state s = snd (gpu_init s list_status (replicate N_OUTPUT_BLOCKS (blank_out s)) [])"

lemma demo_gpu_state_at [simp]: "gpu_at s 0 (demo_gpu_state s)" "g_calls (demo_gpu_state s) = []"
  by (simp_all add: demo_gpu_state_def gpu_init_def gpu_at_def Let_def)

lemma demo_gpu_step:
  obtains st' where "gpu_step SOURCE_FAST list_status demo_gpu_config (\<lambda>c d. []) demo_gpu_event st = Gpu_done st'"
proof -
  have a: "await (ge_in_waits demo_gpu_event) 0 = Acquired 1" "await (ge_out_waits demo_gpu_event) 0 = Acquired 0"
    by (simp_all add: demo_gpu_event_def)
  show ?thesis
    using that by (cases "gpu_step SOURCE_FAST list_status demo_gpu_config (\<lambda>c d. []) demo_gpu_event st")
      (auto simp: gpu_step_def Let_def a split: if_splits)
qed

theorem gpu_serves_rings_in_order_witness:
  "\<exists>st'. gpu_loop SOURCE_FAST list_status demo_gpu_config (\<lambda>c d. []) [demo_gpu_event, demo_gpu_event] (demo_gpu_state SOURCE_FAST)
       = Gpu_done st' \<and> gpu_at SOURCE_FAST 2 st' \<and> g_calls st' = gpu_calls SOURCE_FAST 2"
proof -
  obtain st1 where 1: "gpu_step SOURCE_FAST list_status demo_gpu_config (\<lambda>c d. []) demo_gpu_event (demo_gpu_state SOURCE_FAST) = Gpu_done st1"
    by (rule demo_gpu_step)
  obtain st2 where 2: "gpu_step SOURCE_FAST list_status demo_gpu_config (\<lambda>c d. []) demo_gpu_event st1 = Gpu_done st2"
    by (rule demo_gpu_step)
  have l: "gpu_loop SOURCE_FAST list_status demo_gpu_config (\<lambda>c d. []) [demo_gpu_event, demo_gpu_event] (demo_gpu_state SOURCE_FAST) = Gpu_done st2"
    by (simp add: 1 2)
  then show ?thesis
    using gpu_serves_rings_in_order [OF l, of 0] by (simp add: gpu_calls_def numeral_2_eq_2)
qed

theorem gpu_passes_metadata:
  assumes "gpu_step s so gc cufft ev st = Gpu_done st'" "gpu_at s n st"
  defines "k \<equiv> g_curblock_out st" and "ih \<equiv> ib_header (ge_block ev)"
  shows "oh_mcnt (ob_header (g_out st' ! k)) = ih_mcnt ih
    \<and> oh_coarse_chan_id (ob_header (g_out st' ! k)) = ih_coarse_chan_id ih
    \<and> oh_num_coarse_chan (ob_header (g_out st' ! k)) = ih_num_coarse_chan ih
    \<and> oh_time_sec (ob_header (g_out st' ! k)) = ih_time_sec ih
    \<and> oh_time_nsec (ob_header (g_out st' ! k)) = ih_time_nsec ih
    \<and> oh_sid (ob_header (g_out st' ! k)) = (if s = SOURCE_FAST then ih_sid ih else oh_sid (ob_header (g_out st ! k)))
    \<and> (\<forall>j. j \<noteq> k \<longrightarrow> g_out st' ! j = g_out st ! j)"
proof -
  have g0: "g_last_mcount st = 0" and k: "k < length (g_out st)"
    using assms(2) by (simp_all add: gpu_at_def k_def N_OUTPUT_BLOCKS_def)
  obtain st1 where st1: "st' = gpu_process s so gc cufft ev st1" "g_curblock_out st1 = k" "g_out st1 = g_out st"
    using gpu_step_done [OF assms(1) g0] by (metis k_def)
  define ob where "ob = (g_out st ! k)\<lparr>ob_header := pass_metadata s (ge_padding ev) ih (ob_header (g_out st ! k))\<rparr>"
  obtain h ob' where p: "process_block s gc cufft (g_cufft st1) (g_num_coarse_chan st1) (ge_block ev) ob = (h, ob')"
    by (rule prod.exhaust)
  have out: "g_out st' = (g_out st)[k := ob']"
    using p by (simp add: st1 gpu_process_def Let_def ob_def ih_def)
  obtain ns where "ob_header ob' = (ob_header ob)\<lparr>oh_nhits := ns\<rparr>"
    using process_block_header [of s gc cufft "g_cufft st1" "g_num_coarse_chan st1" "ge_block ev" ob] p by auto
  then show ?thesis
    using k by (simp add: out ob_def pass_metadata_def Let_def split: prod.splits)
qed

theorem gpu_passes_metadata_witness:
  "\<exists>st'. gpu_step SOURCE_FAST list_status demo_gpu_config (\<lambda>c d. []) demo_gpu_event (demo_gpu_state SOURCE_FAST) = Gpu_done st' \<and>
     oh_mcnt (ob_header (g_out st' ! 0)) = 65536 \<and> oh_sid (ob_header (g_out st' ! 0)) = 3"
proof -
  obtain st1 where 1: "gpu_step SOURCE_FAST list_status demo_gpu_config (\<lambda>c d. []) demo_gpu_event (demo_gpu_state SOURCE_FAST) = Gpu_done st1"
    by (rule demo_gpu_step)
  have "g_curblock_out (demo_gpu_state SOURCE_FAST) = 0" by (simp add: demo_gpu_state_def gpu_init_def Let_def)
  then show ?thesis
    using gpu_passes_metadata [OF 1 demo_gpu_state_at(1)] 1 by (simp add: demo_gpu_event_def)
qed

theorem missed_packets_copy_is_wrong_sized:
  assumes "length (ih_missed_pkts ih) = N_BORS s" "length (oh_missed_pkts oh) = N_BORS s" "length (oh_nhits oh) = N_BORS s"
  shows "oh_missed_pkts (pass_metadata s pad ih oh) =
      (if s = SOURCE_DIBAS then hd (ih_missed_pkts ih) # tl (oh_missed_pkts oh) else ih_missed_pkts ih)
    \<and> oh_nhits (pass_metadata s pad ih oh) =
      (if s = SOURCE_S6 then pad # tl (oh_nhits oh) else oh_nhits oh)"
proof (cases s)
  case SOURCE_DIBAS
  then show ?thesis using assms
    by (cases "ih_missed_pkts ih"; cases "oh_missed_pkts oh") (simp_all add: pass_metadata_def copy_missed_pkts_def)
next
  case SOURCE_S6
  then show ?thesis using assms
    by (cases "oh_nhits oh") (simp_all add: pass_metadata_def copy_missed_pkts_def)
next
  case SOURCE_FAST
  then show ?thesis using assms
    by (cases "ih_missed_pkts ih"; cases "oh_missed_pkts oh") (simp_all add: pass_metadata_def copy_missed_pkts_def)
qed

theorem missed_packets_copy_is_wrong_sized_witness:
  "oh_missed_pkts (pass_metadata SOURCE_DIBAS 0
      ((ib_header (ge_block demo_gpu_event))\<lparr>ih_missed_pkts := [1, 2, 3, 4, 5, 6, 7, 8]\<rparr>) (ob_header (blank_out SOURCE_DIBAS))) = [1, 0, 0, 0, 0, 0, 0, 0]"
  using missed_packets_copy_is_wrong_sized [of "(ib_header (ge_block demo_gpu_event))\<lparr>ih_missed_pkts := [1, 2, 3, 4, 5, 6, 7, 8]\<rparr>"
      SOURCE_DIBAS "ob_header (blank_out SOURCE_DIBAS)" 0]
  by (simp add: blank_out_def numeral_eq_Suc)

end
