(* ===== verification/S6_Obs.thy ===== *)
theory S6_Obs
  imports S6_Databuf
begin

text \<open>
  The observatory status: the structures \<open>scram_t\<close>, \<open>gbtstatus_t\<close> and
  \<open>faststatus_t\<close> as maps from member names to values, and how they are read from
  redis at Arecibo (\<open>src/src/s6_obs_data.cpp\<close>) and at FAST
  (\<open>src/src/s6_obs_data_fast.cpp\<close>).  Redis is a parameter: the reply to each query,
  and whether a connection is made.  Following a null pointer or reading past the elements of
  a reply is the outcome \<open>Crash\<close>.
\<close>

subsection \<open>Status structures\<close>

record obs =
  o_int :: "string \<Rightarrow> nat \<Rightarrow> int"
  o_dbl :: "string \<Rightarrow> nat \<Rightarrow> real"
  o_str :: "string \<Rightarrow> string"

text \<open>Everything zero, as after \<open>memset\<close>.\<close>

definition zero_obs :: obs where
  "zero_obs = \<lparr>o_int = (\<lambda>f i. 0), o_dbl = (\<lambda>f i. 0), o_str = (\<lambda>f. [])\<rparr>"

definition set_int :: "string \<Rightarrow> nat \<Rightarrow> int \<Rightarrow> obs \<Rightarrow> obs" where
  "set_int f i v os = os\<lparr>o_int := (\<lambda>g j. if g = f \<and> j = i then v else o_int os g j)\<rparr>"

definition set_dbl :: "string \<Rightarrow> nat \<Rightarrow> real \<Rightarrow> obs \<Rightarrow> obs" where
  "set_dbl f i v os = os\<lparr>o_dbl := (\<lambda>g j. if g = f \<and> j = i then v else o_dbl os g j)\<rparr>"

definition set_str :: "string \<Rightarrow> string \<Rightarrow> obs \<Rightarrow> obs" where
  "set_str f v os = os\<lparr>o_str := (o_str os)(f := v)\<rparr>"

lemma obs_set_simps [simp]:
  "o_int (set_int f i v os) g j = (if g = f \<and> j = i then v else o_int os g j)"
  "o_dbl (set_int f i v os) = o_dbl os" "o_str (set_int f i v os) = o_str os"
  "o_dbl (set_dbl f i x os) g j = (if g = f \<and> j = i then x else o_dbl os g j)"
  "o_int (set_dbl f i x os) = o_int os" "o_str (set_dbl f i x os) = o_str os"
  "o_str (set_str f z os) g = (if g = f then z else o_str os g)"
  "o_int (set_str f z os) = o_int os" "o_dbl (set_str f z os) = o_dbl os"
  by (simp_all add: set_int_def set_dbl_def set_str_def)

fun receiver :: "site \<Rightarrow> string list" where
  "receiver SOURCE_S6 = [''AO_NOREC'', ''AO_ALFA'', ''AO_327MHz'']"
| "receiver SOURCE_DIBAS = [''GB_NOREC'', ''GB_ONE'', ''GB_TWO'']"
| "receiver SOURCE_FAST = [''FAST_NOREC'', ''FAST_ONE'', ''FAST_TWO'']"

subsection \<open>Number conversion\<close>

text \<open>\<open>atoi\<close>, \<open>atol\<close> and \<open>atof\<close> of the C library on decimal input (no infinities or hexadecimal
  numbers).  The library converts an integer to a \<open>long\<close>, which is the nearest one if the number does not
  fit; \<open>atoi\<close> cuts it to an \<open>int\<close>.\<close>

definition isspace :: "char \<Rightarrow> bool" where
  "isspace c = (of_char c = (32 :: nat) \<or> (9 \<le> (of_char c :: nat) \<and> of_char c \<le> (13 :: nat)))"

definition isdigit :: "char \<Rightarrow> bool" where
  "isdigit c = (48 \<le> (of_char c :: nat) \<and> of_char c \<le> (57 :: nat))"

definition digits_value :: "string \<Rightarrow> int" where
  "digits_value ds = foldl (\<lambda>n c. 10 * n + (of_char c - 48)) 0 ds"

fun split_sign :: "string \<Rightarrow> int \<times> string" where
  "split_sign (c # cs) = (if c = CHR ''-'' then (-1, cs) else if c = CHR ''+'' then (1, cs) else (1, c # cs))"
| "split_sign [] = (1, [])"

definition decimal_value :: "string \<Rightarrow> int" where
  "decimal_value str = (let (sgn, cs) = split_sign (dropWhile isspace str) in sgn * digits_value (takeWhile isdigit cs))"

definition int32_of :: "int \<Rightarrow> int" where
  "int32_of i = sint (of_int i :: 32 word)"

definition atol :: "string \<Rightarrow> int" where
  "atol str = max (- (2 ^ 63)) (min (2 ^ 63 - 1) (decimal_value str))"

definition atoi :: "string \<Rightarrow> int" where
  "atoi str = int32_of (atol str)"

lemma int32_of_small: "- (2 ^ 31) \<le> n \<Longrightarrow> n < 2 ^ 31 \<Longrightarrow> int32_of n = n"
  by (simp add: int32_of_def sint_sbintrunc' signed_take_bit_int_eq_self)

lemma atoi_small: "decimal_value str = n \<Longrightarrow> - (2 ^ 31) \<le> n \<Longrightarrow> n < 2 ^ 31 \<Longrightarrow> atoi str = n"
  by (simp add: atoi_def atol_def int32_of_small)

fun split_fraction :: "string \<Rightarrow> string \<times> string" where
  "split_fraction (c # cs) = (if c = CHR ''.'' then (takeWhile isdigit cs, dropWhile isdigit cs) else ([], c # cs))"
| "split_fraction [] = ([], [])"

fun exponent :: "string \<Rightarrow> int" where
  "exponent (c # cs) = (if c = CHR ''e'' \<or> c = CHR ''E''
     then (let (sgn, ds) = split_sign cs in sgn * digits_value (takeWhile isdigit ds)) else 0)"
| "exponent [] = 0"

definition scale10 :: "int \<Rightarrow> real \<Rightarrow> real" where
  "scale10 e x = (if 0 \<le> e then x * 10 ^ nat e else x / 10 ^ nat (- e))"

definition atof :: "string \<Rightarrow> real" where
  "atof str =
     (let (sgn, cs) = split_sign (dropWhile isspace str);
          whole = takeWhile isdigit cs;
          (frac, rest) = split_fraction (dropWhile isdigit cs)
      in if whole = [] \<and> frac = [] then 0
         else scale10 (exponent rest - int (length frac)) (of_int (sgn * digits_value (whole @ frac))))"

subsection \<open>Redis\<close>

datatype redis_reply =
    No_reply
  | Reply_error
  | Reply_array "string option list"
  | Reply_string "string option"

type_synonym redis = "string \<Rightarrow> redis_reply"

datatype 'a fetched = Fetched int 'a | Fetch_exit | Crash

text \<open>The assignments to a member: of \<open>atoi\<close> to an \<open>int\<close>, of \<open>atol\<close> to a \<open>long\<close> and to an \<open>int\<close>, of \<open>atof\<close>
  to a \<open>double\<close> and to an \<open>int\<close>, and a copy to an array.\<close>

datatype member = Atoi string nat | Atol string nat | Atol_int string nat | Atof string nat | Atof_int string nat | Strcpy string nat

text \<open>\<open>s6_strcpy\<close>: at most \<open>strsize - 1\<close> characters are kept.\<close>

definition s6_strcpy :: "nat \<Rightarrow> string \<Rightarrow> string" where
  "s6_strcpy strsize src = take (strsize - 1) src"

fun assign :: "member \<Rightarrow> string \<Rightarrow> obs \<Rightarrow> obs" where
  "assign (Atoi f i) str os = set_int f i (atoi str) os"
| "assign (Atol f i) str os = set_int f i (atol str) os"
| "assign (Atol_int f i) str os = set_int f i (int32_of (atol str)) os"
| "assign (Atof f i) str os = set_dbl f i (atof str) os"
| "assign (Atof_int f i) str os = set_int f i (if 0 \<le> atof str then \<lfloor>atof str\<rfloor> else \<lceil>atof str\<rceil>) os"
| "assign (Strcpy f n) str os = set_str f (s6_strcpy n str) os"

text \<open>The assignments from the elements of a reply, in order; \<open>None\<close> when one is missing.\<close>

fun assign_all :: "member list \<Rightarrow> string option list \<Rightarrow> obs \<Rightarrow> obs option" where
  "assign_all [] els os = Some os"
| "assign_all (m # ms) (Some str # els) os = assign_all ms els (assign m str os)"
| "assign_all (m # ms) els os = None"

subsection \<open>Arecibo\<close>

record ao_static =
  prior_agc_time :: int
  no_time_change_count :: int

datatype query_result = Query_ok obs | Query_failed | Query_crash

text \<open>One query of \<open>get_obs_info_from_redis\<close>.\<close>

definition ao_query :: "redis \<Rightarrow> string \<times> member list \<Rightarrow> obs \<Rightarrow> query_result" where
  "ao_query redis q os =
     (case redis (fst q) of
        No_reply \<Rightarrow> Query_crash
      | Reply_error \<Rightarrow> Query_failed
      | Reply_string r \<Rightarrow> Query_failed
      | Reply_array els \<Rightarrow>
          (case els of
             [] \<Rightarrow> Query_crash
           | None # _ \<Rightarrow> Query_failed
           | Some _ # _ \<Rightarrow> (case assign_all (snd q) els os of None \<Rightarrow> Query_crash | Some os \<Rightarrow> Query_ok os)))"

fun ao_queries :: "redis \<Rightarrow> (string \<times> member list) list \<Rightarrow> obs \<Rightarrow> obs fetched" where
  "ao_queries redis [] os = Fetched 0 os"
| "ao_queries redis (q # qs) os =
     (case ao_query redis q os of
        Query_ok os \<Rightarrow> ao_queries redis qs os
      | Query_failed \<Rightarrow> Fetched 1 os
      | Query_crash \<Rightarrow> Crash)"

definition agc_query :: "string \<times> member list" where
  "agc_query = (''HMGET SCRAM:AGC       AGCSTIME AGCTIME AGCAZ AGCZA AGCLST'',
     [Atoi ''AGCSTIME'' 0, Atoi ''AGCTIME'' 0, Atof ''AGCAZ'' 0, Atof ''AGCZA'' 0, Atof ''AGCLST'' 0])"

definition scram_queries :: "(string \<times> member list) list" where
  "scram_queries = [
     (''HMGET SCRAM:PNT        PNTSTIME PNTRA PNTDEC PNTMJD PNTAZCOR PNTZACOR'',
       [Atoi ''PNTSTIME'' 0, Atof ''PNTRA'' 0, Atof ''PNTDEC'' 0, Atof ''PNTMJD'' 0, Atof ''PNTAZCOR'' 0, Atof ''PNTZACOR'' 0]),
     (''HMGET SCRAM:ALFASHM       ALFSTIME ALFBIAS1 ALFBIAS2 ALFMOPOS'',
       [Atoi ''ALFSTIME'' 0, Atoi ''ALFBIAS1'' 0, Atoi ''ALFBIAS2'' 0, Atof ''ALFMOPOS'' 0]),
     (''HMGET SCRAM:IF1      IF1STIME IF1SYNHZ IF1SYNDB IF1RFFRQ IF1IFFRQ IF1ALFFB'',
       [Atoi ''IF1STIME'' 0, Atof ''IF1SYNHZ'' 0, Atoi ''IF1SYNDB'' 0, Atof ''IF1RFFRQ'' 0, Atof ''IF1IFFRQ'' 0, Atoi ''IF1ALFFB'' 0]),
     (''HMGET SCRAM:IF2      IF2STIME IF2ALFON IF2SYNHZ IF2SIGSR'',
       [Atoi ''IF2STIME'' 0, Atoi ''IF2ALFON'' 0, Atof ''IF2SYNHZ'' 0, Atoi ''IF2SIGSR'' 0]),
     (''HMGET SCRAM:TT      TTSTIME TTTURENC TTTURDEG'',
       [Atoi ''TTSTIME'' 0, Atoi ''TTTURENC'' 0, Atof ''TTTURDEG'' 0]),
     (''HMGET SCRAM:DERIVED      DERTIME RA0 DEC0 RA1 DEC1 RA2 DEC2 RA3 DEC3 RA4 DEC4 RA5 DEC5 RA6 DEC6'',
       Atoi ''DERTIME'' 0 # concat (map (\<lambda>beam. [Atof ''ra_by_beam'' beam, Atof ''dec_by_beam'' beam]) [0..<7])),
     (''HMGET CLOCKSYN      CLOCKTIM CLOCKFRQ CLOCKDBM CLOCKLOC'',
       [Atoi ''CLOCKTIM'' 0, Atof ''CLOCKFRQ'' 0, Atof ''CLOCKDBM'' 0, Atoi ''CLOCKLOC'' 0]),
     (''HMGET BIRDISYN      BIRDITIM BIRDIFRQ BIRDIDBM BIRDILOC'',
       [Atoi ''BIRDITIM'' 0, Atof ''BIRDIFRQ'' 0, Atof ''BIRDIDBM'' 0, Atoi ''BIRDILOC'' 0]),
     (''HMGET ADC1RMS      ADCRMSTM ADCRMS1 ADCRMS2 ADCRMS3 ADCRMS4 ADCRMS5 ADCRMS6 ADCRMS7 ADCRMS8'',
       Atof_int ''ADCRMSTM'' 0 # map (Atof ''ADC1RMS'') [0..<8]),
     (''HMGET ADC2RMS      ADCRMS1 ADCRMS2 ADCRMS3 ADCRMS4 ADCRMS5 ADCRMS6 ADCRMS7 ADCRMS8'',
       map (Atof ''ADC2RMS'') [0..<8])]"

definition is_alfa_enabled :: "int \<Rightarrow> obs \<Rightarrow> bool" where
  "is_alfa_enabled now os =
     (if now - o_int os ''AGCSTIME'' 0 > 10 then False
      else if now - o_int os ''ALFSTIME'' 0 > 10 then False
      else if now - o_int os ''IF1STIME'' 0 > 10 then False
      else if now - o_int os ''IF2STIME'' 0 > 10 then False
      else if o_int os ''ALFBIAS1'' 0 = 0 \<and> o_int os ''ALFBIAS2'' 0 = 0 then False
      else if o_int os ''IF2ALFON'' 0 = 0 then False
      else if now - o_int os ''TTSTIME'' 0 > 10 then False
      else if \<bar>o_dbl os ''TTTURDEG'' 0 - 2664 / 100\<bar> > 1 then False
      else True)"

definition is_327_enabled :: "obs \<Rightarrow> bool" where
  "is_327_enabled os =
     (let turDeg = o_dbl os ''TTTURDEG'' 0;
          syn1Mhz = o_dbl os ''IF1SYNHZ'' 0 / 1000000;
          syn2Mhz = o_dbl os ''IF2SYNHZ'' 0 / 1000000;
          epsPosDeg = 1 / 2;
          epsFrqMhz = 1 / 1000000
      in \<bar>turDeg - 3399 / 10\<bar> < epsPosDeg \<and> \<bar>syn1Mhz - 1077\<bar> < epsFrqMhz \<and>
         (\<bar>syn2Mhz - 1010\<bar> < epsFrqMhz \<or> \<bar>syn2Mhz - 1075\<bar> < epsFrqMhz))"

definition is_source_gregorian :: "obs \<Rightarrow> bool" where
  "is_source_gregorian os = (if o_int os ''IF2SIGSR'' 0 = 0 then True else False)"

definition focus_receiver :: "int \<Rightarrow> obs \<Rightarrow> obs" where
  "focus_receiver now os =
     (let os = set_int ''rec_alfa_enabled'' 0 (if is_alfa_enabled now os then 1 else 0) os;
          os = set_int ''rec_327_enabled'' 0 (if is_327_enabled os then 1 else 0) os
      in set_int ''receiver'' 0
           (if o_int os ''rec_alfa_enabled'' 0 \<noteq> 0 \<and> is_source_gregorian os then 1
            else if o_int os ''rec_327_enabled'' 0 \<noteq> 0 \<and> is_source_gregorian os then 2
            else 0) os)"

text \<open>The first query and the check that its time stamp changes.\<close>

definition ao_agc :: "redis \<Rightarrow> obs \<Rightarrow> ao_static \<Rightarrow> (obs \<times> ao_static) fetched" where
  "ao_agc redis os stc =
     (case ao_query redis agc_query os of
        Query_crash \<Rightarrow> Crash
      | qr \<Rightarrow>
          (let (rv, os) = (case qr of Query_ok os \<Rightarrow> (0, os) | _ \<Rightarrow> (1, os))
           in if o_int os ''AGCTIME'' 0 = prior_agc_time stc
              then (let stc = stc\<lparr>no_time_change_count := no_time_change_count stc + 1\<rparr>
                    in Fetched (if 2 \<le> no_time_change_count stc then 1 else rv) (os, stc))
              else Fetched rv (os, stc\<lparr>no_time_change_count := 0, prior_agc_time := o_int os ''AGCTIME'' 0\<rparr>)))"

definition get_obs_info_from_redis ::
  "bool \<Rightarrow> redis \<Rightarrow> int \<Rightarrow> obs \<Rightarrow> ao_static \<Rightarrow> (obs \<times> ao_static) fetched" where
  "get_obs_info_from_redis conn_ok redis now os stc =
     (if \<not> conn_ok then Fetch_exit
      else case ao_agc redis os stc of
             Fetch_exit \<Rightarrow> Fetch_exit
           | Crash \<Rightarrow> Crash
           | Fetched rv (os, stc) \<Rightarrow>
               (if rv \<noteq> 0 then Fetched rv (os, stc)
                else case ao_queries redis scram_queries os of
                       Fetch_exit \<Rightarrow> Fetch_exit
                     | Crash \<Rightarrow> Crash
                     | Fetched rv os \<Rightarrow> Fetched rv (if rv = 0 then focus_receiver now os else os, stc)))"

subsection \<open>FAST\<close>

definition s6_redis_get :: "redis_reply \<Rightarrow> int" where
  "s6_redis_get reply =
     (case reply of
        No_reply \<Rightarrow> 1
      | Reply_error \<Rightarrow> 1
      | Reply_array els \<Rightarrow> (if None \<in> set els then 1 else 0)
      | Reply_string r \<Rightarrow> 0)"

text \<open>\<open>strncpy\<close> into \<open>char receiver[32]\<close> leaves no terminator when the source has 32 characters or
  more; \<open>beyond\<close> is what the stack holds up to the next zero byte.\<close>

definition receiver_chars :: "string \<Rightarrow> string \<Rightarrow> string" where
  "receiver_chars beyond str = (if length str < 32 then str else take 32 str @ beyond)"

fun strip_parens :: "string \<Rightarrow> string" where
  "strip_parens [] = []"
| "strip_parens (c # cs) =
     (if c = CHR ''('' then CHR ''_'' # strip_parens cs
      else if c = CHR '')'' then strip_parens cs
      else c # strip_parens cs)"

definition fast_members :: "member list" where
  "fast_members = [Atof ''PHAPOSX'' 0, Atof ''PHAPOSY'' 0, Atof ''PHAPOSZ'' 0, Atof ''ANGLEM'' 0] @
     concat (map (\<lambda>beam. [Atof ''POINTRA'' beam, Atof ''POINTDEC'' beam]) [0..<19])"

definition fast_query :: string where
  "fast_query = ''hmget KY_ZK_RUN_DATA_RESULT_HASH TimeStamp DUT1 Receiver SDP_PhaPos_X SDP_PhaPos_Y SDP_PhaPos_Z SDP_AngleM SDP_Beam00_RA SDP_Beam00_DEC SDP_Beam01_RA SDP_Beam01_DEC SDP_Beam02_RA SDP_Beam02_DEC SDP_Beam03_RA SDP_Beam03_DEC SDP_Beam04_RA SDP_Beam04_DEC SDP_Beam05_RA SDP_Beam05_DEC SDP_Beam06_RA SDP_Beam06_DEC SDP_Beam07_RA SDP_Beam07_DEC SDP_Beam08_RA SDP_Beam08_DEC SDP_Beam09_RA SDP_Beam09_DEC SDP_Beam10_RA SDP_Beam10_DEC SDP_Beam11_RA SDP_Beam11_DEC SDP_Beam12_RA SDP_Beam12_DEC SDP_Beam13_RA SDP_Beam13_DEC SDP_Beam14_RA SDP_Beam14_DEC SDP_Beam15_RA SDP_Beam15_DEC SDP_Beam16_RA SDP_Beam16_DEC SDP_Beam17_RA SDP_Beam17_DEC SDP_Beam18_RA SDP_Beam18_DEC''"

definition CLOCK_FREQ :: real where "CLOCK_FREQ = 1000"

definition fast_assign :: "string \<Rightarrow> string option list \<Rightarrow> obs \<Rightarrow> obs option" where
  "fast_assign beyond els os =
     (case els of
        Some t # Some dut1 # Some rec # els \<Rightarrow>
          (let os = set_dbl ''TIME'' 0 (atof t / 1000) os;
               os = set_dbl ''DUT1'' 0 (atof dut1) os;
               os = set_str ''RECEIVER'' (strip_parens (receiver_chars beyond rec)) os
           in map_option (set_dbl ''CLOCKFRQ'' 0 CLOCK_FREQ) (assign_all fast_members els os))
      | _ \<Rightarrow> None)"

text \<open>\<open>local_ok\<close> and \<open>obs_ok\<close> tell whether the two connections were made; the second one is
  not checked, and a query on a null context is a crash.\<close>

definition get_obs_fast_info_from_redis :: "bool \<Rightarrow> bool \<Rightarrow> redis \<Rightarrow> string \<Rightarrow> obs \<Rightarrow> obs fetched" where
  "get_obs_fast_info_from_redis local_ok obs_context redis beyond os =
     (if \<not> local_ok then Fetch_exit
      else if \<not> obs_context then Crash
      else if s6_redis_get (redis ''AUTH fast'') \<noteq> 0 then Fetched 1 os
      else if s6_redis_get (redis fast_query) \<noteq> 0 then Fetched 1 os
      else case redis fast_query of
             Reply_array els \<Rightarrow>
               (case fast_assign beyond els os of None \<Rightarrow> Crash | Some os \<Rightarrow> Fetched 0 os)
           | _ \<Rightarrow> Crash)"

text \<open>\<open>strtok\<close>: the maximal non-empty pieces between delimiters.\<close>

fun strtok_all :: "char \<Rightarrow> string \<Rightarrow> string \<Rightarrow> string list" where
  "strtok_all d acc [] = (if acc = [] then [] else [acc])"
| "strtok_all d acc (c # cs) =
     (if c = d then (if acc = [] then strtok_all d [] cs else acc # strtok_all d [] cs)
      else strtok_all d (acc @ [c]) cs)"

definition tokenize_string :: "string \<Rightarrow> int \<times> string list" where
  "tokenize_string str =
     (let toks = strtok_all (CHR '':'') [] str
      in if toks = [] then (1, []) else if 4 \<le> length toks then (-1, take 4 toks) else (int (length toks), toks))"

definition coord_string_to_decimal :: "string \<Rightarrow> real \<Rightarrow> int \<times> real" where
  "coord_string_to_decimal coord_string coord_decimal =
     (let (rv, pTokens) = tokenize_string coord_string
      in if rv = 3 then (0, atof (pTokens ! 0) + atof (pTokens ! 1) / 60 + atof (pTokens ! 2) / 3600)
         else (1, coord_decimal))"

end
