(* ===== verification/S6_Etfits.thy ===== *)
theory S6_Etfits
  imports S6_GpuThread S6_Obs
begin

text \<open>
  The ETFITS writer, \<open>src/src/s6_etfits.cpp\<close>: creation, rolling and closing of
  the output files, the header keywords and the hit tables.  cfitsio and the file system are
  the parameter \<open>sys\<close>: a function from an abstract state and a call to the new
  state and the call's result (the status that cfitsio stores, the value that \<open>rename\<close>
  or \<open>system\<close> returns, the file size that \<open>stat\<close> reports or -1).
  Floating-point values are reals, \<open>int\<close> counters are unbounded, and the name buffers
  are long enough.
\<close>

subsection \<open>Calls outside the repository\<close>

datatype fits_type = TSTRING | TINT | TDOUBLE

text \<open>What a keyword call passes: a string, an \<open>int\<close>, a \<open>double\<close>, or the address
  of a \<open>double\<close> that is read as an \<open>int\<close>.\<close>

datatype kval = Kstr string | Kint int | Kdbl real | Kint_at real

datatype sys_op =
    Create_template string string
  | Close_file
  | Flush_file
  | Get_system_time
  | Movabs_hdu nat
  | Movnam_hdu string
  | Create_tbl string "(string \<times> string) list"
  | Update_key fits_type string kval
  | Write_float nat nat nat "real list"
  | Write_int nat nat nat "int list"
  | Stat string
  | Rename string string
  | Mkdir string

type_synonym 'f sys = "'f \<Rightarrow> sys_op \<Rightarrow> 'f \<times> int"

text \<open>\<open>TINT\<close> reads four bytes, also from a longer member.\<close>

fun member_value :: "obs \<Rightarrow> fits_type \<Rightarrow> string \<Rightarrow> nat \<Rightarrow> kval" where
  "member_value os TSTRING f i = Kstr (o_str os f)"
| "member_value os TINT f i = Kint (int32_of (o_int os f i))"
| "member_value os TDOUBLE f i = Kdbl (o_dbl os f i)"

fun key_ops :: "obs \<Rightarrow> (fits_type \<times> string \<times> string \<times> nat) list \<Rightarrow> sys_op list" where
  "key_ops os [] = []"
| "key_ops os ((t, k, f, i) # rows) = Update_key t k (member_value os t f i) # key_ops os rows"

subsection \<open>State\<close>

record primary_header =
  ph_receiver :: string
  ph_n_subband :: int
  ph_n_chan :: int
  ph_n_inputs :: int
  ph_power_threshold :: real
  ph_smooth_scale :: int
  ph_beam :: int
  ph_pol :: int

record hits_header =
  hh_time :: real
  hh_ra :: real
  hh_dec :: real
  hh_beampol :: int

record 'f etfits =
  ef_hostname :: string
  ef_basefilename :: string
  ef_filename_working :: string
  ef_filename_fits :: string
  ef_s6_dir :: string
  ef_N :: int
  ef_T :: real
  ef_new_run :: bool
  ef_new_file :: bool
  ef_file_num :: int
  ef_file_chan :: int
  ef_file_cnt :: int
  ef_integration_cnt :: int
  ef_beampol_cnt :: int
  ef_tot_rows :: int
  ef_integrations_per_file :: int
  ef_max_file_size :: int
  ef_status :: int
  ef_fptr :: 'f
  ef_multifile :: int
  ef_mode :: char
  ef_file_open :: bool
  ef_primary_hdr :: primary_header
  ef_hits_hdr :: "hits_header list"

text \<open>The clock at a write: local time as (year, month, day, hour, minute, second), and cfitsio's date string.\<close>

record write_env =
  we_localtime :: "int \<times> int \<times> int \<times> int \<times> int \<times> int"
  we_date :: string

datatype 'a outcome = Running 'a | Exit_1 'a | Stack_smashed 'a

definition init_etfits :: "string \<Rightarrow> string option \<Rightarrow> 'f etfits \<Rightarrow> 'f etfits" where
  "init_etfits hostname s6_dir_env etf =
     etf\<lparr>ef_hostname := hostname,
         ef_basefilename := ''serendip6'',
         ef_filename_working := [],
         ef_file_num := 1,
         ef_file_cnt := 0,
         ef_new_run := True,
         ef_new_file := True,
         ef_file_open := False,
         ef_multifile := 1,
         ef_integrations_per_file := 3,
         ef_integration_cnt := 0,
         ef_max_file_size := 1000000000,
         ef_s6_dir := (case s6_dir_env of None \<Rightarrow> ''/usr/local/etc'' | Some d \<Rightarrow> d)\<rparr>"

subsection \<open>Calling cfitsio\<close>

definition sys_call :: "'f sys \<Rightarrow> sys_op \<Rightarrow> 'f etfits \<Rightarrow> int \<times> 'f etfits" where
  "sys_call sys op etf = (let (f, r) = sys (ef_fptr etf) op in (r, etf\<lparr>ef_fptr := f\<rparr>))"

definition fits_call :: "'f sys \<Rightarrow> sys_op \<Rightarrow> 'f etfits \<Rightarrow> 'f etfits" where
  "fits_call sys op etf = (let (r, etf) = sys_call sys op etf in etf\<lparr>ef_status := r\<rparr>)"

text \<open>\<open>if(! *status_p) fits_...(..., status_p)\<close>\<close>

definition fits_guarded :: "'f sys \<Rightarrow> sys_op \<Rightarrow> 'f etfits \<Rightarrow> 'f etfits" where
  "fits_guarded sys op etf = (if ef_status etf = 0 then fits_call sys op etf else etf)"

definition fits_ops :: "'f sys \<Rightarrow> sys_op list \<Rightarrow> 'f etfits \<Rightarrow> 'f etfits" where
  "fits_ops sys ops etf = fold (fits_guarded sys) ops etf"

subsection \<open>File names\<close>

definition zero_padded :: "nat \<Rightarrow> string \<Rightarrow> string" where
  "zero_padded w ds = replicate (w - length ds) (CHR ''0'') @ ds"

text \<open>\<open>%0wd\<close>\<close>

definition dec :: "nat \<Rightarrow> int \<Rightarrow> string" where
  "dec w i = (if i < 0 then CHR ''-'' # zero_padded (w - 1) (digits (nat (- i))) else zero_padded w (digits (nat i)))"

definition file_name_str :: "site \<Rightarrow> write_env \<Rightarrow> 'f etfits \<Rightarrow> string" where
  "file_name_str s env etf =
     (let (year, mon, day, hour, minute, sec) = we_localtime env;
          stamp = dec 4 year @ dec 2 mon @ dec 2 day @ ''_'' @ dec 2 hour @ dec 2 minute @ dec 2 sec;
          ph = ef_primary_hdr etf
      in ph_receiver ph @ ''_''
         @ (if s = SOURCE_FAST then dec 1 (ph_beam ph + 1) @ ''_'' @ dec 1 (ph_pol ph) else dec 4 (ef_file_chan etf))
         @ ''_'' @ stamp)"

fun ETFITS_TEMPLATE :: "site \<Rightarrow> string" where
  "ETFITS_TEMPLATE SOURCE_S6 = ''s6_ETFITS_template.txt''"
| "ETFITS_TEMPLATE SOURCE_DIBAS = ''s6_ETFITS_gbt_template.txt''"
| "ETFITS_TEMPLATE SOURCE_FAST = ''s6_ETFITS_fast_template.txt''"

text \<open>The directory part of the base file name, when it has one.\<close>

definition data_dir :: "string \<Rightarrow> string option" where
  "data_dir basefilename =
     (let r = dropWhile (\<lambda>c. c \<noteq> CHR ''/'') (rev (take 1023 basefilename))
      in if length r \<le> 1 then None else Some (rev (tl r)))"

subsection \<open>Creating and closing files\<close>

definition start_run :: "'f sys \<Rightarrow> 'f etfits \<Rightarrow> 'f etfits" where
  "start_run sys etf =
     (let etf = etf\<lparr>ef_new_run := False, ef_status := 0, ef_N := 0, ef_T := 0, ef_mode := CHR ''w''\<rparr>
      in case data_dir (ef_basefilename etf) of
           None \<Rightarrow> etf
         | Some d \<Rightarrow> snd (sys_call sys (Mkdir d) etf))"

definition etfits_create :: "site \<Rightarrow> 'f sys \<Rightarrow> write_env \<Rightarrow> 'f etfits \<Rightarrow> 'f etfits" where
  "etfits_create s sys env etf =
     (let etf = etf\<lparr>ef_status := 0\<rparr>;
          etf = (if ef_new_run etf then start_run sys etf else etf);
          etf = etf\<lparr>ef_tot_rows := 0\<rparr>;
          stem = ef_basefilename etf @ ''_'' @ ef_hostname etf @ ''_'' @ file_name_str s env etf;
          etf = etf\<lparr>ef_filename_working := stem @ ''.working'', ef_filename_fits := stem @ ''.fits''\<rparr>;
          template_file = ef_s6_dir etf @ ''/'' @ ETFITS_TEMPLATE s;
          etf = fits_guarded sys (Create_template (ef_filename_working etf) template_file) etf
      in if ef_status etf \<noteq> 0 then etf else etf\<lparr>ef_file_open := True\<rparr>)"

definition etfits_close :: "'f sys \<Rightarrow> 'f etfits \<Rightarrow> 'f etfits" where
  "etfits_close sys etf =
     (let etf = etf\<lparr>ef_status := 0\<rparr>;
          etf = fits_call sys Close_file etf;
          etf = etf\<lparr>ef_file_open := False\<rparr>
      in snd (sys_call sys (Rename (ef_filename_working etf) (ef_filename_fits etf)) etf))"

definition check_for_file_roll :: "'f sys \<Rightarrow> 'f etfits \<Rightarrow> 'f etfits" where
  "check_for_file_roll sys etf =
     (let etf = fits_call sys Flush_file etf;
          (size, etf) = sys_call sys (Stat (ef_filename_working etf)) etf
      in if size = -1 then etf
         else if ef_max_file_size etf \<le> size
              then etf\<lparr>ef_file_num := ef_file_num etf + 1, ef_new_file := True\<rparr>
              else etf)"

subsection \<open>Headers\<close>

definition primary_header_ops :: "string \<Rightarrow> primary_header \<Rightarrow> sys_op list" where
  "primary_header_ops date ph =
     [Get_system_time, Movabs_hdu 1,
      Update_key TSTRING ''DATE'' (Kstr date),
      Update_key TSTRING ''TELESCOP'' (Kstr (ph_receiver ph)),
      Update_key TINT ''NSUBBAND'' (Kint (ph_n_subband ph)),
      Update_key TINT ''NCHAN'' (Kint (ph_n_chan ph)),
      Update_key TINT ''NINPUTS'' (Kint (ph_n_inputs ph)),
      Update_key TDOUBLE ''THRSHOLD'' (Kdbl (ph_power_threshold ph)),
      Update_key TINT ''SMOOTHSC'' (Kint (ph_smooth_scale ph))]"

definition write_primary_header :: "'f sys \<Rightarrow> write_env \<Rightarrow> 'f etfits \<Rightarrow> 'f etfits" where
  "write_primary_header sys env etf =
     fits_ops sys (primary_header_ops (we_date env) (ef_primary_hdr etf)) (etf\<lparr>ef_status := 0\<rparr>)"

text \<open>At the start of a file the template's HDU is used, later a new one.\<close>

definition hdu_op :: "bool \<Rightarrow> string \<Rightarrow> (string \<times> string) list \<Rightarrow> sys_op" where
  "hdu_op first extname columns = (if first then Movnam_hdu extname else Create_tbl extname columns)"

definition gbt_keys :: "(fits_type \<times> string \<times> string \<times> nat) list" where
  "gbt_keys = [
     (TINT, ''COARCHID'', ''coarse_chan_id'', 0), (TSTRING, ''LASTUPDT'', ''LASTUPDT'', 0),
     (TSTRING, ''LST'', ''LST'', 0), (TSTRING, ''UTC'', ''UTC'', 0), (TDOUBLE, ''MJD'', ''MJD'', 0),
     (TSTRING, ''EPOCH'', ''EPOCH'', 0), (TSTRING, ''MAJTYPE'', ''MAJTYPE'', 0),
     (TSTRING, ''MINTYPE'', ''MINTYPE'', 0), (TSTRING, ''MAJOR'', ''MAJOR'', 0), (TSTRING, ''MINOR'', ''MINOR'', 0),
     (TDOUBLE, ''AZCOMM'', ''AZCOMM'', 0), (TDOUBLE, ''ELCOMM'', ''ELCOMM'', 0),
     (TDOUBLE, ''AZACTUAL'', ''AZACTUAL'', 0), (TDOUBLE, ''ELACTUAL'', ''ELACTUAL'', 0),
     (TDOUBLE, ''AZERROR'', ''AZERROR'', 0), (TDOUBLE, ''ELERROR'', ''ELERROR'', 0), (TSTRING, ''LPCS'', ''LPCS'', 0),
     (TSTRING, ''FOCUSOFF'', ''FOCUSOFF'', 0), (TSTRING, ''ANTMOT'', ''ANTMOT'', 0),
     (TSTRING, ''RECEIVER'', ''RECEIVER'', 0), (TDOUBLE, ''IFFRQ1ST'', ''IFFRQ1ST'', 0),
     (TDOUBLE, ''IFFRQRST'', ''IFFRQRST'', 0), (TDOUBLE, ''DCRSCFRQ'', ''DCRSCFRQ'', 0),
     (TDOUBLE, ''SPRCSFRQ'', ''SPRCSFRQ'', 0), (TDOUBLE, ''FREQ'', ''FREQ'', 0),
     (TSTRING, ''VELFRAME'', ''VELFRAME'', 0), (TSTRING, ''VELDEF'', ''VELDEF'', 0),
     (TDOUBLE, ''J2000MAJ'', ''J2000MAJ'', 0), (TDOUBLE, ''J2000MIN'', ''J2000MIN'', 0),
     (TDOUBLE, ''LSTH_DRV'', ''LSTH_DRV'', 0), (TDOUBLE, ''RA_DRV'', ''RA_DRV'', 0),
     (TDOUBLE, ''RADG_DRV'', ''RADG_DRV'', 0), (TDOUBLE, ''DEC_DRV'', ''DEC_DRV'', 0),
     (TINT, ''CLOCKTIM'', ''CLOCKTIM'', 0), (TDOUBLE, ''CLOCKFRQ'', ''CLOCKFRQ'', 0),
     (TDOUBLE, ''CLOCKDBM'', ''CLOCKDBM'', 0), (TINT, ''CLOCKLOC'', ''CLOCKLOC'', 0),
     (TINT, ''BIRDITIM'', ''BIRDITIM'', 0), (TDOUBLE, ''BIRDIFRQ'', ''BIRDIFRQ'', 0),
     (TDOUBLE, ''BIRDIDBM'', ''BIRDIDBM'', 0), (TINT, ''BIRDILOC'', ''BIRDILOC'', 0),
     (TSTRING, ''CLEOREV'', ''CLEOREV'', 0), (TSTRING, ''ATMCRAJ2'', ''ATMCRAJ2'', 0),
     (TSTRING, ''ATMCDCJ2'', ''ATMCDCJ2'', 0), (TSTRING, ''IFV1CSFQ'', ''IFV1CSFQ'', 0),
     (TSTRING, ''IFV1BW'', ''IFV1BW'', 0), (TSTRING, ''IFV1LVL'', ''IFV1LVL'', 0),
     (TSTRING, ''IFV1IFFQ'', ''IFV1IFFQ'', 0), (TSTRING, ''IFV1SSB'', ''IFV1SSB'', 0),
     (TSTRING, ''IFV1SKFQ'', ''IFV1SKFQ'', 0), (TSTRING, ''IFV2CSFQ'', ''IFV2CSFQ'', 0),
     (TSTRING, ''IFV2BW'', ''IFV2BW'', 0), (TSTRING, ''IFV2LVL'', ''IFV2LVL'', 0),
     (TSTRING, ''IFV2IFFQ'', ''IFV2IFFQ'', 0), (TSTRING, ''IFV2SSB'', ''IFV2SSB'', 0),
     (TSTRING, ''IFV2SKFQ'', ''IFV2SKFQ'', 0), (TSTRING, ''LO1APSFQ'', ''LO1APSFQ'', 0),
     (TSTRING, ''LO1BPSFQ'', ''LO1BPSFQ'', 0), (TSTRING, ''VEGSFBW1'', ''VEGSFBW1'', 0),
     (TSTRING, ''VEGSFBW2'', ''VEGSFBW2'', 0), (TSTRING, ''VEGSFBW3'', ''VEGSFBW3'', 0),
     (TSTRING, ''VEGSFBW4'', ''VEGSFBW4'', 0), (TSTRING, ''VEGSFBW5'', ''VEGSFBW5'', 0),
     (TSTRING, ''VEGSFBW6'', ''VEGSFBW6'', 0), (TSTRING, ''VEGSFBW7'', ''VEGSFBW7'', 0),
     (TSTRING, ''VEGSFBW8'', ''VEGSFBW8'', 0), (TSTRING, ''VEGSSBAM'', ''VEGSSBAM'', 0),
     (TSTRING, ''VEGSSBBM'', ''VEGSSBBM'', 0), (TSTRING, ''VEGSSBCM'', ''VEGSSBCM'', 0),
     (TSTRING, ''VEGSSBDM'', ''VEGSSBDM'', 0), (TSTRING, ''VEGSSBEM'', ''VEGSSBEM'', 0),
     (TSTRING, ''VEGSSBFM'', ''VEGSSBFM'', 0), (TSTRING, ''VEGSSBGM'', ''VEGSSBGM'', 0),
     (TSTRING, ''VEGSSBHM'', ''VEGSSBHM'', 0), (TSTRING, ''BAMMPWR1'', ''BAMMPWR1'', 0),
     (TSTRING, ''BAMMPWR2'', ''BAMMPWR2'', 0), (TINT, ''LCUDSECS'', ''LCUDSECS'', 0)]"

definition fast_keys :: "(fits_type \<times> string \<times> string \<times> nat) list" where
  "fast_keys = [
     (TDOUBLE, ''TIME'', ''TIME'', 0), (TDOUBLE, ''DUT1'', ''DUT1'', 0), (TINT, ''COARCHID'', ''coarse_chan_id'', 0),
     (TDOUBLE, ''CLOCKFRQ'', ''CLOCKFRQ'', 0), (TSTRING, ''RECEIVER'', ''RECEIVER'', 0),
     (TDOUBLE, ''PHAPOSX'', ''PHAPOSX'', 0), (TDOUBLE, ''PHAPOSY'', ''PHAPOSY'', 0),
     (TDOUBLE, ''PHAPOSZ'', ''PHAPOSZ'', 0), (TDOUBLE, ''ANGLEM'', ''ANGLEM'', 0),
     (TDOUBLE, ''ADCRMS'', ''ADCRMS'', 0), (TINT, ''ADCRMSTM'', ''ADCRMSTM'', 0)]"

definition ao_keys :: "(fits_type \<times> string \<times> string \<times> nat) list" where
  "ao_keys = [
     (TINT, ''COARCHID'', ''coarse_chan_id'', 0), (TINT, ''PNTSTIME'', ''PNTSTIME'', 0),
     (TDOUBLE, ''PNTRA'', ''PNTRA'', 0), (TDOUBLE, ''PNTDEC'', ''PNTDEC'', 0), (TDOUBLE, ''PNTMJD'', ''PNTMJD'', 0),
     (TDOUBLE, ''PNTAZCOR'', ''PNTAZCOR'', 0), (TDOUBLE, ''PNTZACOR'', ''PNTZACOR'', 0),
     (TINT, ''AGCSTIME'', ''AGCSTIME'', 0), (TDOUBLE, ''AGCAZ'', ''AGCAZ'', 0), (TDOUBLE, ''AGCZA'', ''AGCZA'', 0),
     (TINT, ''AGCTIME'', ''AGCTIME'', 0), (TDOUBLE, ''AGCLST'', ''AGCLST'', 0), (TINT, ''ALFSTIME'', ''ALFSTIME'', 0),
     (TINT, ''ALFBIAS1'', ''ALFBIAS1'', 0), (TINT, ''ALFBIAS2'', ''ALFBIAS2'', 0),
     (TDOUBLE, ''ALFMOPOS'', ''ALFMOPOS'', 0), (TINT, ''IF1STIME'', ''IF1STIME'', 0),
     (TDOUBLE, ''IF1SYNHZ'', ''IF1SYNHZ'', 0), (TINT, ''IF1SYNDB'', ''IF1SYNDB'', 0),
     (TDOUBLE, ''IF1RFFRQ'', ''IF1RFFRQ'', 0), (TDOUBLE, ''IF1IFFRQ'', ''IF1IFFRQ'', 0),
     (TINT, ''IF1ALFFB'', ''IF1ALFFB'', 0), (TINT, ''IF2STIME'', ''IF2STIME'', 0),
     (TINT, ''IF2ALFON'', ''IF2ALFON'', 0), (TDOUBLE, ''IF2SYNHZ'', ''IF2SYNHZ'', 0),
     (TINT, ''IF2SIGSR'', ''IF2SIGSR'', 0), (TINT, ''TTSTIME'', ''TTSTIME'', 0),
     (TINT, ''TTTURENC'', ''TTTURENC'', 0), (TDOUBLE, ''TTTURDEG'', ''TTTURDEG'', 0),
     (TINT, ''CLOCKTIM'', ''CLOCKTIM'', 0), (TDOUBLE, ''CLOCKFRQ'', ''CLOCKFRQ'', 0),
     (TDOUBLE, ''CLOCKDBM'', ''CLOCKDBM'', 0), (TINT, ''CLOCKLOC'', ''CLOCKLOC'', 0),
     (TINT, ''BIRDITIM'', ''BIRDITIM'', 0), (TDOUBLE, ''BIRDIFRQ'', ''BIRDIFRQ'', 0),
     (TDOUBLE, ''BIRDIDBM'', ''BIRDIDBM'', 0), (TINT, ''BIRDILOC'', ''BIRDILOC'', 0),
     (TINT, ''ADCRMSTM'', ''ADCRMSTM'', 0), (TDOUBLE, ''ADCRMS01'', ''ADC1RMS'', 0),
     (TDOUBLE, ''ADCRMS02'', ''ADC1RMS'', 1), (TDOUBLE, ''ADCRMS03'', ''ADC1RMS'', 2),
     (TDOUBLE, ''ADCRMS04'', ''ADC1RMS'', 3), (TDOUBLE, ''ADCRMS05'', ''ADC1RMS'', 4),
     (TDOUBLE, ''ADCRMS06'', ''ADC1RMS'', 5), (TDOUBLE, ''ADCRMS07'', ''ADC1RMS'', 6),
     (TDOUBLE, ''ADCRMS08'', ''ADC1RMS'', 7), (TDOUBLE, ''ADCRMS09'', ''ADC2RMS'', 0),
     (TDOUBLE, ''ADCRMS10'', ''ADC2RMS'', 1), (TDOUBLE, ''ADCRMS11'', ''ADC2RMS'', 2),
     (TDOUBLE, ''ADCRMS12'', ''ADC2RMS'', 3), (TDOUBLE, ''ADCRMS13'', ''ADC2RMS'', 4),
     (TDOUBLE, ''ADCRMS14'', ''ADC2RMS'', 5), (TDOUBLE, ''ADCRMS15'', ''ADC2RMS'', 6),
     (TDOUBLE, ''ADCRMS16'', ''ADC2RMS'', 7)]"

definition integration_header_ops ::
  "string \<Rightarrow> (fits_type \<times> string \<times> string \<times> nat) list \<Rightarrow> bool \<Rightarrow> obs \<Rightarrow> sys_op list" where
  "integration_header_ops extname keys first os =
     hdu_op first extname [] # Update_key TSTRING ''EXTNAME'' (Kstr extname) # key_ops os keys"

definition write_integration_header_gbt :: "'f sys \<Rightarrow> obs \<Rightarrow> 'f etfits \<Rightarrow> 'f etfits" where
  "write_integration_header_gbt sys os etf =
     fits_ops sys (integration_header_ops ''GBTSTATUS'' gbt_keys (ef_integration_cnt etf = 0) os) (etf\<lparr>ef_status := 0\<rparr>)"

definition write_integration_header_fast :: "'f sys \<Rightarrow> obs \<Rightarrow> 'f etfits \<Rightarrow> 'f etfits" where
  "write_integration_header_fast sys os etf =
     fits_ops sys (integration_header_ops ''FASTSTATUS'' fast_keys (ef_integration_cnt etf = 0) os) (etf\<lparr>ef_status := 0\<rparr>)"

definition write_integration_header :: "'f sys \<Rightarrow> obs \<Rightarrow> 'f etfits \<Rightarrow> 'f etfits" where
  "write_integration_header sys os etf =
     fits_ops sys (integration_header_ops ''AOSCRAM'' ao_keys (ef_integration_cnt etf = 0) os) (etf\<lparr>ef_status := 0\<rparr>)"

subsection \<open>Coarse channel powers\<close>

definition ccpwrs_header_ops :: "bool \<Rightarrow> hits_header \<Rightarrow> sys_op list" where
  "ccpwrs_header_ops first hh =
     [hdu_op first ''CCPWRS'' [(''POLX  '', ''1E''), (''POLY '', ''1E'')],
      Update_key TINT ''TIME'' (Kint_at (hh_time hh)),
      Update_key TDOUBLE ''RA'' (Kdbl (hh_ra hh)),
      Update_key TDOUBLE ''DEC'' (Kdbl (hh_dec hh))]"

definition write_ccpwrs_header :: "'f sys \<Rightarrow> 'f etfits \<Rightarrow> 'f etfits" where
  "write_ccpwrs_header sys etf =
     fits_ops sys (ccpwrs_header_ops (ef_integration_cnt etf = 0) (ef_hits_hdr etf ! 0)) (etf\<lparr>ef_status := 0\<rparr>)"

definition ccpwrs_ops :: "site \<Rightarrow> out_block \<Rightarrow> nat \<Rightarrow> sys_op list" where
  "ccpwrs_ops s ob bors =
     (let n = N_COARSE_CHAN_PER_BORS s
      in [Write_float 1 (1 + bors * n) 1 (map (ob_cc_pwrs_x ob bors) [0..<n]),
          Write_float 2 (1 + bors * n) 1 (map (ob_cc_pwrs_y ob bors) [0..<n])])"

definition write_ccpwrs :: "site \<Rightarrow> 'f sys \<Rightarrow> out_block \<Rightarrow> 'f etfits \<Rightarrow> int \<times> 'f etfits" where
  "write_ccpwrs s sys ob etf =
     (let etf = etf\<lparr>ef_status := 0\<rparr>;
          etf = write_ccpwrs_header sys etf;
          etf = fold (\<lambda>bors. fits_ops sys (ccpwrs_ops s ob bors)) [0..<N_BORS s] etf
      in (ef_status etf, etf))"

subsection \<open>Hits\<close>

definition hits_header_ops :: "site \<Rightarrow> bool \<Rightarrow> hits_header \<Rightarrow> nat \<Rightarrow> u64 \<Rightarrow> sys_op list" where
  "hits_header_ops s first hh nhits missed_pkts =
     [hdu_op first ''ETHITS'' [(''DETPOW  '', ''1E''), (''MEANPOW '', ''1E''), (''COARCHAN'', ''1U''), (''FINECHAN'', ''1V'')],
      (if s = SOURCE_FAST then Update_key TDOUBLE ''TIME'' (Kdbl (hh_time hh)) else Update_key TINT ''TIME'' (Kint_at (hh_time hh))),
      Update_key TDOUBLE ''RA'' (Kdbl (hh_ra hh)),
      Update_key TDOUBLE ''DEC'' (Kdbl (hh_dec hh)),
      Update_key TINT ''BORSPOL'' (Kint (hh_beampol hh)),
      Update_key TINT ''NHITS'' (Kint (int32_of (int nhits))),
      Update_key TINT ''MISSEDPK'' (Kint (int32_of (uint missed_pkts)))]"

definition write_hits_header :: "site \<Rightarrow> 'f sys \<Rightarrow> nat \<Rightarrow> nat \<Rightarrow> u64 \<Rightarrow> 'f etfits \<Rightarrow> 'f etfits" where
  "write_hits_header s sys borspol nhits missed_pkts etf =
     fits_ops sys (hits_header_ops s (ef_integration_cnt etf = 0 \<and> ef_beampol_cnt etf = 0) (ef_hits_hdr etf ! borspol) nhits missed_pkts)
       (etf\<lparr>ef_status := 0\<rparr>)"

record hit_columns =
  hc_det_pow :: "real list"
  hc_mean_pow :: "real list"
  hc_coarse_chan :: "int list"
  hc_fine_chan :: "int list"

definition no_hits :: hit_columns where
  "no_hits = \<lparr>hc_det_pow = [], hc_mean_pow = [], hc_coarse_chan = [], hc_fine_chan = []\<rparr>"

text \<open>The inner loop, \<open>hit_i\<close> running over the hits of the beam or subspectrum and \<open>n\<close> over the
  elements written.  The four arrays are on the stack and have \<open>MAXHITS\<close> elements; \<open>None\<close> is a write
  past their end.\<close>

fun collect_hits :: "site \<Rightarrow> out_block \<Rightarrow> nat \<Rightarrow> nat \<Rightarrow> nat list \<Rightarrow> nat \<times> hit_columns \<Rightarrow> (nat \<times> hit_columns) option" where
  "collect_hits s ob bors input [] acc = Some acc"
| "collect_hits s ob bors input (hit_i # is) (n, hc) =
     (if (if s = SOURCE_FAST then input = 0 else ob_pol ob bors hit_i = input)
      then let this_fine_chan = ob_fine_chan ob bors hit_i
           in if this_fine_chan \<noteq> 0
              then if n < MAXHITS
                   then collect_hits s ob bors input is
                     (n + 1,
                      \<lparr>hc_det_pow = hc_det_pow hc @ [ob_power ob bors hit_i],
                       hc_mean_pow = hc_mean_pow hc @ [ob_baseline ob bors hit_i],
                       hc_coarse_chan = hc_coarse_chan hc @ [int (ob_coarse_chan ob bors hit_i)],
                       hc_fine_chan = hc_fine_chan hc @ [int this_fine_chan]\<rparr>)
                   else None
              else collect_hits s ob bors input is (n, hc)
      else collect_hits s ob bors input is (n, hc))"

definition hit_column_ops :: "hit_columns \<Rightarrow> sys_op list" where
  "hit_column_ops hc =
     [Write_float 1 1 1 (hc_det_pow hc), Write_float 2 1 1 (hc_mean_pow hc),
      Write_int 3 1 1 (hc_coarse_chan hc), Write_int 4 1 1 (hc_fine_chan hc)]"

text \<open>One beam or subspectrum and input; \<open>Inl\<close> is the state in which the stack is overwritten.\<close>

definition write_hits_input ::
  "site \<Rightarrow> 'f sys \<Rightarrow> out_block \<Rightarrow> nat \<times> nat \<Rightarrow> nat \<times> 'f etfits \<Rightarrow> 'f etfits + nat \<times> 'f etfits" where
  "write_hits_input s sys ob grp acc =
     (let (bors, input) = grp;
          (nhits, etf) = acc;
          borspol = bors * N_POLS_PER_BEAM s + input
      in case collect_hits s ob bors input [0..<unat (oh_nhits (ob_header ob) ! bors)] (0, no_hits) of
           None \<Rightarrow> Inl etf
         | Some (nhits_this_input, hc) \<Rightarrow>
             (let etf = write_hits_header s sys borspol nhits_this_input (oh_missed_pkts (ob_header ob) ! bors) etf;
                  nhits = nhits + nhits_this_input;
                  etf = fits_ops sys (hit_column_ops hc) etf
              in Inr (nhits, etf\<lparr>ef_beampol_cnt := ef_beampol_cnt etf + 1\<rparr>)))"

definition borspols :: "site \<Rightarrow> (nat \<times> nat) list" where
  "borspols s = concat (map (\<lambda>bors. map (\<lambda>input. (bors, input)) [0..<N_POLS_PER_BEAM s]) [0..<N_BORS s])"

fun write_hits_inputs ::
  "site \<Rightarrow> 'f sys \<Rightarrow> out_block \<Rightarrow> (nat \<times> nat) list \<Rightarrow> nat \<times> 'f etfits \<Rightarrow> 'f etfits + nat \<times> 'f etfits" where
  "write_hits_inputs s sys ob [] acc = Inr acc"
| "write_hits_inputs s sys ob (grp # grps) acc =
     (case write_hits_input s sys ob grp acc of
        Inl etf \<Rightarrow> Inl etf
      | Inr acc \<Rightarrow> write_hits_inputs s sys ob grps acc)"

definition write_hits :: "site \<Rightarrow> 'f sys \<Rightarrow> out_block \<Rightarrow> 'f etfits \<Rightarrow> 'f etfits + int \<times> 'f etfits" where
  "write_hits s sys ob etf =
     (let etf = etf\<lparr>ef_status := 0\<rparr>;
          etf = etf\<lparr>ef_beampol_cnt := 0\<rparr>
      in case write_hits_inputs s sys ob (borspols s) (0, etf) of
           Inl etf \<Rightarrow> Inl etf
         | Inr (nhits, etf) \<Rightarrow> Inr (if ef_status etf \<noteq> 0 then (-1, etf) else (int nhits, etf)))"

subsection \<open>Writing one block\<close>

text \<open>The first part of the three \<open>write_etfits\<close> functions: open the first file or change to
  a new one.\<close>

definition change_file :: "site \<Rightarrow> 'f sys \<Rightarrow> write_env \<Rightarrow> string \<Rightarrow> out_hdr \<Rightarrow> 'f etfits \<Rightarrow> 'f etfits outcome" where
  "change_file s sys env rcvr oh etf =
     (if ef_new_run etf \<or> ef_new_file etf
      then let etf = etf\<lparr>ef_new_file := False\<rparr>;
               etf = (if \<not> ef_new_run etf
                      then (if ef_file_open etf then etfits_close sys etf else etf)\<lparr>ef_integration_cnt := 0\<rparr>
                      else etf);
               etf = etf\<lparr>ef_primary_hdr := (ef_primary_hdr etf)\<lparr>
                       ph_n_subband := int32_of (uint (oh_num_coarse_chan oh)),
                       ph_n_chan := int (N_FINE_CHAN s),
                       ph_n_inputs := int (N_BORS s * N_POLS_PER_BEAM s),
                       ph_receiver := take 200 rcvr,
                       ph_power_threshold := 20,
                       ph_smooth_scale := int (SMOOTH_SCALE s)\<rparr>\<rparr>;
               etf = etfits_create s sys env etf
           in if ef_status etf \<noteq> 0 then Exit_1 etf
              else let etf = write_primary_header sys env etf
                   in Running (etf\<lparr>ef_file_cnt := ef_file_cnt etf + 1\<rparr>)
      else Running etf)"

text \<open>The last part: count the integration and the rows, look at the file size, give up on any error.\<close>

definition finish_write :: "'f sys \<Rightarrow> int \<Rightarrow> 'f etfits \<Rightarrow> 'f etfits outcome" where
  "finish_write sys nhits etf =
     (let etf = etf\<lparr>ef_integration_cnt := ef_integration_cnt etf + 1\<rparr>;
          etf = (if ef_status etf = 0
                 then check_for_file_roll sys (etf\<lparr>ef_tot_rows := ef_tot_rows etf + nhits, ef_N := ef_N etf + 1\<rparr>)
                 else etf)
      in if ef_status etf \<noteq> 0 then Exit_1 etf else Running etf)"

text \<open>\<open>s6_seti_ao_timeMS2unixtime\<close>: milliseconds past AST midnight to unix time.\<close>

definition s6_seti_ao_timeMS2unixtime :: "int \<Rightarrow> int \<Rightarrow> real" where
  "s6_seti_ao_timeMS2unixtime timeMs now =
     (let fnow = now - 4 * 3600;
          secs_past_midnight = fnow mod 86400
      in of_int (fnow - secs_past_midnight) + of_int timeMs / 1000 + 4 * 3600)"

definition trunc :: "real \<Rightarrow> int" where
  "trunc x = (if 0 \<le> x then \<lfloor>x\<rfloor> else \<lceil>x\<rceil>)"

definition ao_hits_hdr :: "obs \<Rightarrow> nat \<Rightarrow> hits_header" where
  "ao_hits_hdr os i =
     \<lparr>hh_time = of_int (trunc (s6_seti_ao_timeMS2unixtime (o_int os ''AGCTIME'' 0) (o_int os ''AGCSTIME'' 0))),
      hh_ra = o_dbl os ''ra_by_beam'' (i div N_POLS_PER_BEAM SOURCE_S6),
      hh_dec = o_dbl os ''dec_by_beam'' (i div N_POLS_PER_BEAM SOURCE_S6),
      hh_beampol = int i\<rparr>"

definition gbt_hits_hdr :: "obs \<Rightarrow> nat \<Rightarrow> hits_header" where
  "gbt_hits_hdr os i =
     \<lparr>hh_time = of_int (trunc ((o_dbl os ''MJD'' 0 - 40587) * 86400)),
      hh_ra = o_dbl os ''RADG_DRV'' 0,
      hh_dec = o_dbl os ''DEC_DRV'' 0,
      hh_beampol = int i\<rparr>"

definition fast_hits_hdr :: "out_hdr \<Rightarrow> primary_header \<Rightarrow> obs \<Rightarrow> nat \<Rightarrow> hits_header" where
  "fast_hits_hdr oh ph os i =
     \<lparr>hh_time = of_nat (unat (oh_time_sec oh)) + of_nat (unat (oh_time_nsec oh)) / 1000000000,
      hh_ra = o_dbl os ''POINTRA'' (nat (ph_beam ph)),
      hh_dec = o_dbl os ''POINTDEC'' (nat (ph_beam ph)),
      hh_beampol = ph_beam ph * 2 + ph_pol ph\<rparr>"

definition if_ok :: "('f etfits \<Rightarrow> int \<times> 'f etfits) \<Rightarrow> int \<times> 'f etfits \<Rightarrow> int \<times> 'f etfits" where
  "if_ok f acc = (if ef_status (snd acc) = 0 then f (snd acc) else acc)"

text \<open>The last steps of the three \<open>write_etfits\<close> functions: the hits, if nothing failed so far, and the
  end of the call.\<close>

definition hits_and_finish :: "site \<Rightarrow> 'f sys \<Rightarrow> out_block \<Rightarrow> int \<times> 'f etfits \<Rightarrow> 'f etfits outcome" where
  "hits_and_finish s sys ob acc =
     (if ef_status (snd acc) = 0
      then case write_hits s sys ob (snd acc) of
             Inl etf \<Rightarrow> Stack_smashed etf
           | Inr (nhits, etf) \<Rightarrow> finish_write sys nhits etf
      else finish_write sys (fst acc) (snd acc))"

definition write_etfits ::
  "'f sys \<Rightarrow> write_env \<Rightarrow> out_block \<Rightarrow> obs \<Rightarrow> 'f etfits \<Rightarrow> 'f etfits outcome" where
  "write_etfits sys env ob os etf =
     (case change_file SOURCE_S6 sys env (receiver SOURCE_S6 ! nat (o_int os ''receiver'' 0)) (ob_header ob) (etf\<lparr>ef_status := 0\<rparr>) of
        Running etf \<Rightarrow>
          (let etf = etf\<lparr>ef_hits_hdr := map (ao_hits_hdr os) [0..<N_BORS SOURCE_S6 * N_POLS_PER_BEAM SOURCE_S6]\<rparr>;
               acc = if_ok (\<lambda>etf. (0, write_integration_header sys os etf)) (0, etf);
               acc = if_ok (write_ccpwrs SOURCE_S6 sys ob) acc
           in hits_and_finish SOURCE_S6 sys ob acc)
      | r \<Rightarrow> r)"

definition write_etfits_gbt ::
  "'f sys \<Rightarrow> write_env \<Rightarrow> out_block \<Rightarrow> obs \<Rightarrow> 'f etfits \<Rightarrow> 'f etfits outcome" where
  "write_etfits_gbt sys env ob os etf =
     (case change_file SOURCE_DIBAS sys env (o_str os ''RECEIVER'') (ob_header ob) (etf\<lparr>ef_status := 0\<rparr>) of
        Running etf \<Rightarrow>
          (let etf = etf\<lparr>ef_hits_hdr := map (gbt_hits_hdr os) [0..<N_BORS SOURCE_DIBAS * N_POLS_PER_BEAM SOURCE_DIBAS]\<rparr>;
               acc = if_ok (\<lambda>etf. (0, write_integration_header_gbt sys os etf)) (0, etf);
               acc = if_ok (write_ccpwrs SOURCE_DIBAS sys ob) acc
           in hits_and_finish SOURCE_DIBAS sys ob acc)
      | r \<Rightarrow> r)"

definition write_etfits_fast ::
  "'f sys \<Rightarrow> write_env \<Rightarrow> out_block \<Rightarrow> obs \<Rightarrow> 'f etfits \<Rightarrow> 'f etfits outcome" where
  "write_etfits_fast sys env ob os etf =
     (case change_file SOURCE_FAST sys env (o_str os ''RECEIVER'') (ob_header ob) (etf\<lparr>ef_status := 0\<rparr>) of
        Running etf \<Rightarrow>
          (let etf = etf\<lparr>ef_hits_hdr := map (fast_hits_hdr (ob_header ob) (ef_primary_hdr etf) os)
                           [0..<N_BORS SOURCE_FAST * N_POLS_PER_BEAM SOURCE_FAST]\<rparr>;
               acc = if_ok (\<lambda>etf. (0, write_integration_header_fast sys os etf)) (0, etf)
           in hits_and_finish SOURCE_FAST sys ob acc)
      | r \<Rightarrow> r)"

end
