(* ===== verification/S6_Etfits_Props.thy ===== *)
theory S6_Etfits_Props
  imports S6_Etfits
begin

text \<open>
  Properties of the ETFITS writer: which calls a call of \<open>write_hits\<close> makes, what
  becomes of an error, and the life cycle of the files (\<open>file_phase\<close>), over any
  behaviour of cfitsio and of the file system.
\<close>

subsection \<open>Traces of calls\<close>

text \<open>The same environment, with the calls and their results recorded.\<close>

definition traced :: "'f sys \<Rightarrow> ('f \<times> (sys_op \<times> int) list) sys" where
  "traced sys fl op = (let (f, r) = sys (fst fl) op in ((f, snd fl @ [(op, r)]), r))"

definition trace :: "('f \<times> (sys_op \<times> int) list) etfits \<Rightarrow> (sys_op \<times> int) list" where
  "trace etf = snd (ef_fptr etf)"

definition no_errors :: "'f sys \<Rightarrow> bool" where
  "no_errors sys = (\<forall>f op. snd (sys f op) = 0)"

named_theorems etf_frame

lemma trace_update [simp]:
  "trace (etf\<lparr>ef_status := st\<rparr>) = trace etf" "trace (etf\<lparr>ef_beampol_cnt := b\<rparr>) = trace etf"
  "trace (etf\<lparr>ef_integration_cnt := b\<rparr>) = trace etf" "trace (etf\<lparr>ef_file_open := op\<rparr>) = trace etf"
  "trace (etf\<lparr>ef_new_file := op\<rparr>) = trace etf" "trace (etf\<lparr>ef_primary_hdr := ph\<rparr>) = trace etf"
  "trace (etf\<lparr>ef_tot_rows := b\<rparr>) = trace etf" "trace (etf\<lparr>ef_N := b\<rparr>) = trace etf"
  "trace (etf\<lparr>ef_file_num := b\<rparr>) = trace etf" "trace (etf\<lparr>ef_file_cnt := b\<rparr>) = trace etf"
  "trace (etf\<lparr>ef_hits_hdr := hh\<rparr>) = trace etf" "trace (etf\<lparr>ef_filename_working := w\<rparr>) = trace etf"
  "trace (etf\<lparr>ef_filename_fits := w\<rparr>) = trace etf" "trace (etf\<lparr>ef_new_run := op\<rparr>) = trace etf"
  "trace (etf\<lparr>ef_T := x\<rparr>) = trace etf" "trace (etf\<lparr>ef_mode := c\<rparr>) = trace etf"
  "trace (etf\<lparr>ef_file_chan := b\<rparr>) = trace etf"
  by (simp_all add: trace_def)

lemma fits_call_frame [etf_frame]:
  "\<exists>f st. fits_call sys op etf = etf\<lparr>ef_fptr := f, ef_status := st\<rparr>"
  by (auto simp: fits_call_def sys_call_def split: prod.splits)

lemma sys_call_frame [etf_frame]: "\<exists>f. snd (sys_call sys op etf) = etf\<lparr>ef_fptr := f\<rparr>"
  by (auto simp: sys_call_def split: prod.splits)

lemma fits_guarded_frame [etf_frame]:
  "\<exists>f st. fits_guarded sys op etf = etf\<lparr>ef_fptr := f, ef_status := st\<rparr>"
proof (cases "ef_status etf = 0")
  case True
  then show ?thesis using fits_call_frame by (simp add: fits_guarded_def)
next
  case False
  have "etf = etf\<lparr>ef_fptr := ef_fptr etf, ef_status := ef_status etf\<rparr>" by simp
  with False show ?thesis unfolding fits_guarded_def by metis
qed

lemma fits_ops_frame [etf_frame]:
  "\<exists>f st. fits_ops sys ops etf = etf\<lparr>ef_fptr := f, ef_status := st\<rparr>"
proof (induction ops arbitrary: etf)
  case (Cons op ops)
  obtain f1 st1 where 1: "fits_guarded sys op etf = etf\<lparr>ef_fptr := f1, ef_status := st1\<rparr>"
    using fits_guarded_frame [of sys op etf] by metis
  then show ?case
    using Cons.IH [of "etf\<lparr>ef_fptr := f1, ef_status := st1\<rparr>"] by (auto simp: fits_ops_def)
next
  case Nil
  have "etf = etf\<lparr>ef_fptr := ef_fptr etf, ef_status := ef_status etf\<rparr>" by simp
  then show ?case unfolding fits_ops_def fold_simps id_apply by metis
qed

lemma fits_ops_simps [simp]:
  "ef_filename_working (fits_ops sys ops etf) = ef_filename_working etf"
  "ef_filename_fits (fits_ops sys ops etf) = ef_filename_fits etf"
  "ef_file_open (fits_ops sys ops etf) = ef_file_open etf"
  "ef_new_run (fits_ops sys ops etf) = ef_new_run etf"
  "ef_new_file (fits_ops sys ops etf) = ef_new_file etf"
  "ef_integration_cnt (fits_ops sys ops etf) = ef_integration_cnt etf"
  "ef_beampol_cnt (fits_ops sys ops etf) = ef_beampol_cnt etf"
  "ef_hits_hdr (fits_ops sys ops etf) = ef_hits_hdr etf"
  "ef_primary_hdr (fits_ops sys ops etf) = ef_primary_hdr etf"
  "ef_tot_rows (fits_ops sys ops etf) = ef_tot_rows etf"
  "ef_file_cnt (fits_ops sys ops etf) = ef_file_cnt etf"
  "ef_basefilename (fits_ops sys ops etf) = ef_basefilename etf"
  "ef_hostname (fits_ops sys ops etf) = ef_hostname etf"
  "ef_s6_dir (fits_ops sys ops etf) = ef_s6_dir etf"
  using fits_ops_frame [of sys ops etf] by auto

lemma fits_ops_append: "fits_ops sys (ops @ ops') etf = fits_ops sys ops' (fits_ops sys ops etf)"
  by (simp add: fits_ops_def)

lemma fits_ops_Cons: "fits_ops sys (op # ops) etf = fits_ops sys ops (fits_guarded sys op etf)"
  by (simp add: fits_ops_def)

lemma fits_ops_Nil [simp]: "fits_ops sys [] etf = etf"
  by (simp add: fits_ops_def)

text \<open>Calls that succeed leave the status at zero, and all of them are made.\<close>

lemma fits_ops_succeed:
  assumes "\<And>f op. op \<in> set ops \<Longrightarrow> snd (sys f op) = 0" "ef_status etf = 0"
  shows "ef_status (fits_ops sys ops etf) = 0"
  using assms
proof (induction ops arbitrary: etf)
  case (Cons op ops)
  have "ef_status (fits_guarded sys op etf) = 0"
    using Cons.prems by (simp add: fits_guarded_def fits_call_def sys_call_def Let_def split: prod.splits)
      (metis list.set_intros(1) snd_conv)
  then show ?case using Cons by (simp add: fits_ops_Cons)
qed simp

lemma traced_guarded:
  "trace (fits_guarded (traced sys) op etf) =
     trace etf @ (if ef_status etf = 0 then [(op, snd (sys (fst (ef_fptr etf)) op))] else [])"
  by (simp add: fits_guarded_def fits_call_def sys_call_def traced_def trace_def Let_def split: prod.splits)

lemma fits_ops_trace:
  assumes "no_errors sys" "ef_status etf = 0"
  shows "trace (fits_ops (traced sys) ops etf) = trace etf @ map (\<lambda>op. (op, 0)) ops \<and>
    ef_status (fits_ops (traced sys) ops etf) = 0"
  using assms(2)
proof (induction ops arbitrary: etf)
  case (Cons op ops)
  have z: "snd (sys f op') = 0" for f op' using assms(1) by (simp add: no_errors_def)
  have "ef_status (fits_guarded (traced sys) op etf) = 0"
    using Cons.prems z by (simp add: fits_guarded_def fits_call_def sys_call_def traced_def Let_def split: prod.splits)
      (metis snd_conv)
  then show ?case using Cons by (simp add: fits_ops_Cons traced_guarded z)
qed simp

subsection \<open>The hits that are written\<close>

definition selected :: "site \<Rightarrow> out_block \<Rightarrow> nat \<Rightarrow> nat \<Rightarrow> nat list" where
  "selected s ob bors input =
     filter (\<lambda>i. (if s = SOURCE_FAST then input = 0 else ob_pol ob bors i = input) \<and> ob_fine_chan ob bors i \<noteq> 0)
       [0..<unat (oh_nhits (ob_header ob) ! bors)]"

definition columns_of :: "out_block \<Rightarrow> nat \<Rightarrow> nat list \<Rightarrow> hit_columns" where
  "columns_of ob bors is =
     \<lparr>hc_det_pow = map (ob_power ob bors) is, hc_mean_pow = map (ob_baseline ob bors) is,
      hc_coarse_chan = map (\<lambda>i. int (ob_coarse_chan ob bors i)) is,
      hc_fine_chan = map (\<lambda>i. int (ob_fine_chan ob bors i)) is\<rparr>"

lemma collect_hits_eq:
  "length js \<le> MAXHITS \<Longrightarrow> collect_hits s ob bors input is (length js, columns_of ob bors js) =
     (let ks = js @ filter (\<lambda>i. (if s = SOURCE_FAST then input = 0 else ob_pol ob bors i = input) \<and> ob_fine_chan ob bors i \<noteq> 0) is
      in if length ks \<le> MAXHITS then Some (length ks, columns_of ob bors ks) else None)"
proof (induction "is" arbitrary: js)
  case (Cons i "is")
  have snoc: "columns_of ob bors (js @ [i]) =
     \<lparr>hc_det_pow = hc_det_pow (columns_of ob bors js) @ [ob_power ob bors i],
      hc_mean_pow = hc_mean_pow (columns_of ob bors js) @ [ob_baseline ob bors i],
      hc_coarse_chan = hc_coarse_chan (columns_of ob bors js) @ [int (ob_coarse_chan ob bors i)],
      hc_fine_chan = hc_fine_chan (columns_of ob bors js) @ [int (ob_fine_chan ob bors i)]\<rparr>"
    by (simp add: columns_of_def)
  show ?case
  proof (cases "(if s = SOURCE_FAST then input = 0 else ob_pol ob bors i = input) \<and> ob_fine_chan ob bors i \<noteq> 0")
    case True
    then show ?thesis
      using Cons.IH [of "js @ [i]"] Cons.prems unfolding snoc by (cases "length js < MAXHITS") (auto simp: Let_def)
  next
    case False
    then show ?thesis using Cons.IH [of js] Cons.prems by (auto simp: Let_def)
  qed
qed (simp add: Let_def)

lemma collect_hits_selected:
  "collect_hits s ob bors input [0..<unat (oh_nhits (ob_header ob) ! bors)] (0, no_hits) =
     (if length (selected s ob bors input) \<le> MAXHITS
      then Some (length (selected s ob bors input), columns_of ob bors (selected s ob bors input)) else None)"
  using collect_hits_eq [of "[]" s ob bors input]
  by (simp add: selected_def Let_def columns_of_def no_hits_def)

definition hits_fit :: "site \<Rightarrow> out_block \<Rightarrow> nat \<times> nat \<Rightarrow> bool" where
  "hits_fit s ob grp \<longleftrightarrow> length (selected s ob (fst grp) (snd grp)) \<le> MAXHITS"

definition group_ops :: "site \<Rightarrow> out_block \<Rightarrow> hits_header list \<Rightarrow> bool \<Rightarrow> nat \<times> nat \<Rightarrow> sys_op list" where
  "group_ops s ob hhs first grp =
     (case grp of (bors, input) \<Rightarrow>
        hits_header_ops s first (hhs ! (bors * N_POLS_PER_BEAM s + input)) (length (selected s ob bors input))
          (oh_missed_pkts (ob_header ob) ! bors)
        @ hit_column_ops (columns_of ob bors (selected s ob bors input)))"

text \<open>The step for a table whose hits fit into the arrays, and the whole of \<open>write_hits\<close> in terms of it.\<close>

definition write_group :: "site \<Rightarrow> 'f sys \<Rightarrow> out_block \<Rightarrow> nat \<times> nat \<Rightarrow> nat \<times> 'f etfits \<Rightarrow> nat \<times> 'f etfits" where
  "write_group s sys ob grp acc =
     (fst acc + length (selected s ob (fst grp) (snd grp)),
      (fits_ops sys (group_ops s ob (ef_hits_hdr (snd acc)) (ef_integration_cnt (snd acc) = 0 \<and> ef_beampol_cnt (snd acc) = 0) grp)
        ((snd acc)\<lparr>ef_status := 0\<rparr>))\<lparr>ef_beampol_cnt := ef_beampol_cnt (snd acc) + 1\<rparr>)"

lemma write_group_pair:
  "write_group s sys ob grp (n, etf) =
     (n + length (selected s ob (fst grp) (snd grp)),
      (fits_ops sys (group_ops s ob (ef_hits_hdr etf) (ef_integration_cnt etf = 0 \<and> ef_beampol_cnt etf = 0) grp)
        (etf\<lparr>ef_status := 0\<rparr>))\<lparr>ef_beampol_cnt := ef_beampol_cnt etf + 1\<rparr>)"
  by (simp add: write_group_def)

lemma write_hits_input_eq:
  "write_hits_input s sys ob grp acc = (if hits_fit s ob grp then Inr (write_group s sys ob grp acc) else Inl (snd acc))"
  by (cases grp; cases acc)
    (simp add: write_hits_input_def write_group_def hits_fit_def collect_hits_selected write_hits_header_def group_ops_def Let_def fits_ops_append)

lemma write_hits_inputs_eq:
  "write_hits_inputs s sys ob gs acc =
     (let r = fold (write_group s sys ob) (takeWhile (hits_fit s ob) gs) acc in if list_all (hits_fit s ob) gs then Inr r else Inl (snd r))"
  by (induction gs arbitrary: acc) (simp_all add: write_hits_input_eq Let_def)

lemma write_hits_eq:
  fixes s sys ob etf
  defines "r \<equiv> fold (write_group s sys ob) (takeWhile (hits_fit s ob) (borspols s)) (0, etf\<lparr>ef_status := 0, ef_beampol_cnt := 0\<rparr>)"
  shows "write_hits s sys ob etf =
     (if list_all (hits_fit s ob) (borspols s)
      then Inr (if ef_status (snd r) \<noteq> 0 then (-1, snd r) else (int (fst r), snd r)) else Inl (snd r))"
  by (simp add: write_hits_def write_hits_inputs_eq Let_def r_def split_def)

lemma takeWhile_fit: "list_all (hits_fit s ob) gs \<Longrightarrow> takeWhile (hits_fit s ob) gs = gs"
  by (simp add: takeWhile_eq_all_conv list_all_iff)

lemma write_hits_fold_count:
  "fst (fold (write_group s sys ob) gs (n, etf)) = n + sum_list (map (\<lambda>g. length (selected s ob (fst g) (snd g))) gs)"
  by (induction gs arbitrary: n etf) (simp_all add: write_group_pair)

lemma write_hits_fold_frame:
  "let r = snd (fold (write_group s sys ob) gs (n, etf)) in
     ef_hits_hdr r = ef_hits_hdr etf \<and> ef_integration_cnt r = ef_integration_cnt etf
     \<and> ef_beampol_cnt r = ef_beampol_cnt etf + int (length gs)"
  unfolding Let_def by (induction gs arbitrary: n etf) (simp_all add: write_group_pair)

lemma write_hits_fold_trace:
  assumes "no_errors sys" "0 \<le> ef_beampol_cnt etf" "ef_status etf = 0"
  shows "trace (snd (fold (write_group s (traced sys) ob) gs (n, etf))) = trace etf @ map (\<lambda>op. (op, 0))
     (concat (map (\<lambda>(k, g). group_ops s ob (ef_hits_hdr etf) (ef_integration_cnt etf = 0 \<and> ef_beampol_cnt etf + int k = 0) g)
       (enumerate 0 gs))) \<and> ef_status (snd (fold (write_group s (traced sys) ob) gs (n, etf))) = 0"
  using assms(2,3)
proof (induction gs arbitrary: n etf rule: rev_induct)
  case (snoc g gs)
  obtain m b where acc: "fold (write_group s (traced sys) ob) gs (n, etf) = (m, b)" by (rule prod.exhaust)
  have f: "ef_hits_hdr b = ef_hits_hdr etf" "ef_integration_cnt b = ef_integration_cnt etf"
    "ef_beampol_cnt b = ef_beampol_cnt etf + int (length gs)"
    using write_hits_fold_frame [of s "traced sys" ob gs n etf] by (simp_all add: acc Let_def)
  have IH: "trace b = trace etf @ map (\<lambda>op. (op, 0))
     (concat (map (\<lambda>(k, g). group_ops s ob (ef_hits_hdr etf) (ef_integration_cnt etf = 0 \<and> ef_beampol_cnt etf + int k = 0) g)
       (enumerate 0 gs)))"
    using snoc.IH [OF snoc.prems, of n] by (simp only: acc snd_conv)
  show ?case
    using fits_ops_trace [OF assms(1), of "b\<lparr>ef_status := 0\<rparr>"]
    by (simp add: acc write_group_pair f IH enumerate_append_eq)
qed simp

subsection \<open>What \<open>write_hits\<close> writes\<close>

lemma borspols_start: "borspols s = (0, 0) # tl (borspols s) \<and> (0, 0) \<notin> set (tl (borspols s))"
  by (cases s; simp add: borspols_def upt_rec)

lemma borspols_mem: "(b, p) \<in> set (borspols s) \<longleftrightarrow> b < N_BORS s \<and> p < N_POLS_PER_BEAM s"
  by (force simp: borspols_def)

text \<open>Counts of at most \<open>MAXHITS\<close> never overwrite the stack.\<close>

lemma bounded_hits_fit:
  assumes "list_all (\<lambda>bors. unat (oh_nhits (ob_header ob) ! bors) \<le> MAXHITS) [0..<N_BORS s]"
  shows "list_all (hits_fit s ob) (borspols s)"
proof -
  have "length (selected s ob b p) \<le> unat (oh_nhits (ob_header ob) ! b)" for b p
    unfolding selected_def by (rule order_trans [OF length_filter_le]) simp
  then have "length (selected s ob b p) \<le> MAXHITS" if "b < N_BORS s" for b p
    using assms that by (force simp: list_all_iff intro: order_trans)
  then show ?thesis by (auto simp: list_all_iff hits_fit_def borspols_mem)
qed

lemma enumerate_first:
  "x \<notin> set xs \<Longrightarrow> map (\<lambda>(k, g). f (k = (0::nat)) g) (enumerate 0 (x # xs)) = map (\<lambda>g. f (g = x) g) (x # xs)"
proof -
  assume x: "x \<notin> set xs"
  have "map (\<lambda>(k, g). f (k = 0) g) (enumerate (Suc m) ys) = map (\<lambda>g. f False g) ys" for m ys
    by (induction ys arbitrary: m) simp_all
  moreover have "map (\<lambda>g. f (g = x) g) xs = map (\<lambda>g. f False g) xs" 
  proof (rule map_cong [OF refl])
    fix g assume "g \<in> set xs"
    then have "(g = x) = False" using x by auto
    then show "f (g = x) g = f False g" by simp
  qed
  ultimately show ?thesis by simp
qed

lemma groups_by_position:
  "concat (map (\<lambda>(k, g). group_ops s ob hhs (c \<and> int k = 0) g) (enumerate 0 (borspols s))) =
   concat (map (\<lambda>g. group_ops s ob hhs (c \<and> g = (0, 0)) g) (borspols s))"
proof -
  obtain xs where xs: "borspols s = (0, 0) # xs" "(0, 0) \<notin> set xs" using borspols_start by metis
  have "map (\<lambda>(k, g). group_ops s ob hhs (c \<and> k = 0) g) (enumerate 0 ((0, 0) # xs)) =
      map (\<lambda>g. group_ops s ob hhs (c \<and> g = (0, 0)) g) ((0, 0) # xs)"
    using enumerate_first [OF xs(2), of "\<lambda>first. group_ops s ob hhs (c \<and> first)"] .
  then show ?thesis by (simp only: xs(1) of_nat_eq_0_iff)
qed

text \<open>C8: If no call fails, write_hits makes exactly these calls on a block whose hit counts are
  within its arrays (MAXGPUHITS), when no table has more than MAXHITS hits: for each beam or
  subspectrum and input, in order, one ETHITS table whose four columns are the hits of that
  polarisation outside the DC bin, with their count in NHITS; it returns the total. If a table
  has more, it writes past its arrays on the stack.\<close>
theorem write_hits_exact:
  assumes "no_errors sys" "list_all (\<lambda>n. unat n \<le> MAXGPUHITS s) (oh_nhits (ob_header ob))"
  shows "case write_hits s (traced sys) ob etf of
      Inl etf' \<Rightarrow> list_ex (\<lambda>(bors, input). MAXHITS < length (selected s ob bors input)) (borspols s)
    | Inr (n, etf') \<Rightarrow>
        list_all (\<lambda>(bors, input). length (selected s ob bors input) \<le> MAXHITS) (borspols s)
        \<and> trace etf' = trace etf @ map (\<lambda>op. (op, 0))
            (concat (map (\<lambda>g. group_ops s ob (ef_hits_hdr etf) (ef_integration_cnt etf = 0 \<and> g = (0, 0)) g) (borspols s)))
        \<and> n = int (sum_list (map (\<lambda>(bors, input). length (selected s ob bors input)) (borspols s)))
        \<and> ef_status etf' = 0"
proof (cases "list_all (hits_fit s ob) (borspols s)")
  case True
  define e0 where "e0 = etf\<lparr>ef_status := 0, ef_beampol_cnt := 0\<rparr>"
  obtain m e1 where f: "fold (write_group s (traced sys) ob) (borspols s) (0, e0) = (m, e1)" by (rule prod.exhaust)
  have 1: "trace e1 = trace etf @ map (\<lambda>op. (op, 0))
      (concat (map (\<lambda>(k, g). group_ops s ob (ef_hits_hdr etf) (ef_integration_cnt etf = 0 \<and> int k = 0) g) (enumerate 0 (borspols s))))"
    and 2: "ef_status e1 = 0"
    using write_hits_fold_trace [OF assms(1), of e0 s ob "borspols s" 0] f by (simp_all add: e0_def)
  have "m = sum_list (map (\<lambda>(bors, input). length (selected s ob bors input)) (borspols s))"
    using write_hits_fold_count [of s "traced sys" ob "borspols s" 0 e0] f by (simp add: split_def)
  moreover have "write_hits s (traced sys) ob etf = Inr (int m, e1)"
    using True 2 by (simp add: write_hits_eq takeWhile_fit f [unfolded e0_def])
  ultimately show ?thesis
    using 1 2 True unfolding groups_by_position by (simp add: hits_fit_def [abs_def] split_def)
next
  case False
  then show ?thesis by (simp add: write_hits_eq list_ex_iff list_all_iff hits_fit_def not_le) (force simp: split_def)
qed

text \<open>A block with two hits in each beam or subspectrum, the first of them in the DC bin.\<close>

definition demo_hits_block :: "site \<Rightarrow> out_block" where
  "demo_hits_block s = (blank_out s)\<lparr>ob_header := (ob_header (blank_out s))\<lparr>oh_nhits := replicate (N_BORS s) 2\<rparr>,
     ob_fine_chan := (\<lambda>b i. i), ob_power := (\<lambda>b i. 90), ob_baseline := (\<lambda>b i. 3)\<rparr>"

definition demo_etf :: "'f \<Rightarrow> 'f etfits" where
  "demo_etf f = init_etfits ''host'' None \<lparr>ef_hostname = [], ef_basefilename = [], ef_filename_working = [],
     ef_filename_fits = [], ef_s6_dir = [], ef_N = 0, ef_T = 0, ef_new_run = False, ef_new_file = False, ef_file_num = 0,
     ef_file_chan = 0, ef_file_cnt = 0, ef_integration_cnt = 0, ef_beampol_cnt = 0, ef_tot_rows = 0,
     ef_integrations_per_file = 0, ef_max_file_size = 0, ef_status = 0, ef_fptr = f, ef_multifile = 0, ef_mode = CHR ''w'',
     ef_file_open = False,
     ef_primary_hdr = \<lparr>ph_receiver = [], ph_n_subband = 0, ph_n_chan = 0, ph_n_inputs = 0, ph_power_threshold = 0,
       ph_smooth_scale = 0, ph_beam = 0, ph_pol = 0\<rparr>, ef_hits_hdr = []\<rparr>"

definition quiet_sys :: "unit sys" where
  "quiet_sys f op = ((), 0)"

lemma quiet_no_errors: "no_errors quiet_sys"
  by (simp add: no_errors_def quiet_sys_def)

lemma upt_two: "[0..<2] = [0, Suc 0]"
  by (simp add: upt_rec)

theorem write_hits_exact_witness:
  "\<exists>etf'. write_hits SOURCE_FAST (traced quiet_sys) (demo_hits_block SOURCE_FAST) (demo_etf ((), [])) = Inr (1, etf') \<and>
     (Write_float 1 1 1 [90], 0) \<in> set (trace etf')"
proof -
  have s: "borspols SOURCE_FAST = [(0, 0)]" "selected SOURCE_FAST (demo_hits_block SOURCE_FAST) 0 0 = [1]"
    by (simp_all add: borspols_def selected_def demo_hits_block_def blank_out_def upt_two)
  have n: "list_all (\<lambda>n. unat n \<le> MAXGPUHITS SOURCE_FAST) (oh_nhits (ob_header (demo_hits_block SOURCE_FAST)))"
    by (simp add: demo_hits_block_def MAXGPUHITS_def)
  note W = write_hits_exact [OF quiet_no_errors n, of "demo_etf ((), [])", unfolded s]
  obtain etf' where w: "write_hits SOURCE_FAST (traced quiet_sys) (demo_hits_block SOURCE_FAST) (demo_etf ((), [])) = Inr (1, etf')"
    using W by (simp add: s MAXHITS_def split: sum.splits prod.splits)
  show ?thesis
    using W by (intro exI [of _ etf'] conjI w) (simp add: w s group_ops_def hit_column_ops_def columns_of_def, simp add: demo_hits_block_def)
qed

subsection \<open>An error before the last group is lost\<close>

lemma borspols_last:
  "s \<noteq> SOURCE_FAST \<Longrightarrow> butlast (borspols s) \<noteq> [] \<and>
     borspols s = butlast (borspols s) @ [(N_BORS s - 1, N_POLS_PER_BEAM s - 1)]"
  by (cases s; simp add: borspols_def upt_rec)

theorem earlier_hit_write_error_lost:
  assumes "s \<noteq> SOURCE_FAST" "list_all (hits_fit s ob) (borspols s)"
    and "\<And>f op. op \<in> set (group_ops s ob (ef_hits_hdr etf) False (N_BORS s - 1, N_POLS_PER_BEAM s - 1)) \<Longrightarrow> snd (sys f op) = 0"
  shows "\<exists>etf'. write_hits s sys ob etf = Inr (int (sum_list (map (\<lambda>g. length (selected s ob (fst g) (snd g))) (borspols s))), etf')
    \<and> ef_status etf' = 0"
proof -
  define last_g where "last_g = (N_BORS s - 1, N_POLS_PER_BEAM s - 1)"
  define gs where "gs = butlast (borspols s)"
  define e0 where "e0 = etf\<lparr>ef_status := 0, ef_beampol_cnt := 0\<rparr>"
  have gs: "gs \<noteq> []" "borspols s = gs @ [last_g]" using borspols_last [OF assms(1)] by (simp_all add: gs_def last_g_def)
  obtain m e1 where f: "fold (write_group s sys ob) gs (0, e0) = (m, e1)" by (rule prod.exhaust)
  have e1: "ef_hits_hdr e1 = ef_hits_hdr etf" "ef_beampol_cnt e1 = int (length gs)"
    using write_hits_fold_frame [of s sys ob gs 0 e0] unfolding f Let_def snd_conv by (simp_all add: e0_def)
  define e2 where "e2 = snd (write_group s sys ob last_g (m, e1))"
  have st: "ef_status e2 = 0"
    using fits_ops_succeed [of "group_ops s ob (ef_hits_hdr etf) False last_g" sys "e1\<lparr>ef_status := 0\<rparr>"] assms(3) gs(1)
    by (simp add: e2_def write_group_pair e1 last_g_def)
  have fold: "fst (fold (write_group s sys ob) (borspols s) (0, e0)) = sum_list (map (\<lambda>g. length (selected s ob (fst g) (snd g))) (borspols s))"
    "snd (fold (write_group s sys ob) (borspols s) (0, e0)) = e2"
    using write_hits_fold_count [of s sys ob "borspols s" 0 e0] by (simp_all add: gs(2) f e2_def)
  show ?thesis using st assms(2) by (simp add: write_hits_eq takeWhile_fit fold [unfolded e0_def])
qed

text \<open>Every write of a non-empty real column fails, and yet the eight hits are reported as written.\<close>

definition full_disk :: "unit sys" where
  "full_disk f op = ((), case op of Write_float c i j xs \<Rightarrow> if xs = [] then 0 else 106 | _ \<Rightarrow> 0)"

theorem earlier_hit_write_error_lost_witness:
  "\<exists>etf'. write_hits SOURCE_DIBAS full_disk (demo_hits_block SOURCE_DIBAS) (demo_etf ()) = Inr (8, etf')"
proof -
  have sel: "selected SOURCE_DIBAS (demo_hits_block SOURCE_DIBAS) b p = (if p = 0 then [1] else [])" if "b < 8" for b p
    using that by (simp add: selected_def demo_hits_block_def blank_out_def upt_two)
  have ok: "snd (full_disk f op) = 0"
    if "op \<in> set (group_ops SOURCE_DIBAS (demo_hits_block SOURCE_DIBAS) (ef_hits_hdr (demo_etf ())) False
      (N_BORS SOURCE_DIBAS - 1, N_POLS_PER_BEAM SOURCE_DIBAS - 1))" for f op
    using that by (auto simp: full_disk_def group_ops_def sel hits_header_ops_def hit_column_ops_def columns_of_def hdu_op_def)
  have b: "borspols SOURCE_DIBAS = [(0, 0), (0, 1), (1, 0), (1, 1), (2, 0), (2, 1), (3, 0), (3, 1), (4, 0), (4, 1), (5, 0), (5, 1),
      (6, 0), (6, 1), (7, 0), (7, 1)]"
    by (simp add: borspols_def upt_rec)
  have fit: "list_all (hits_fit SOURCE_DIBAS (demo_hits_block SOURCE_DIBAS)) (borspols SOURCE_DIBAS)"
    unfolding b by (simp add: hits_fit_def sel MAXHITS_def)
  show ?thesis
    using earlier_hit_write_error_lost [of SOURCE_DIBAS "demo_hits_block SOURCE_DIBAS" "demo_etf ()" full_disk, OF _ fit ok]
    by (auto simp: b sel)
qed

subsection \<open>Keywords\<close>

theorem fits_keywords_valid:
  "list_all (\<lambda>keys. distinct (map (\<lambda>(t, k, f, i). k) keys) \<and>
      list_all (\<lambda>(t, k, f, i). 0 < length k \<and> length k \<le> 8 \<and> k \<noteq> ''EXTNAME'') keys) [gbt_keys, fast_keys, ao_keys]"
  by code_simp

end
