(* ===== verification/S6_Etfits_Files.thy ===== *)
theory S6_Etfits_Files
  imports S6_Etfits_Props
begin

text \<open>
  The life cycle of the output files.  \<open>file_step\<close> is the protocol, as an automaton
  over the calls made: a file is created under its \<open>.working\<close> name, header data units
  are taken from the template the first time and created afterwards, nothing is written
  without an open file, and a closed file is renamed to its \<open>.fits\<close> name before
  the next one is created.
\<close>

datatype file_phase = No_file | Open_file string "string set" | Unnamed string | Violated

fun file_step :: "file_phase \<Rightarrow> sys_op \<times> int \<Rightarrow> file_phase" where
  "file_step No_file (Mkdir d, r) = No_file"
| "file_step No_file (Create_template w t, r) = (if r = 0 then Open_file w {} else No_file)"
| "file_step (Open_file w U) (Movnam_hdu x, r) = (if x \<notin> U then Open_file w (insert x U) else Violated)"
| "file_step (Open_file w U) (Create_tbl x cs, r) = (if x \<in> U then Open_file w U else Violated)"
| "file_step (Open_file w U) (Stat n, r) = (if n = w then Open_file w U else Violated)"
| "file_step (Open_file w U) (Get_system_time, r) = Open_file w U"
| "file_step (Open_file w U) (Movabs_hdu k, r) = Open_file w U"
| "file_step (Open_file w U) (Update_key t k v, r) = Open_file w U"
| "file_step (Open_file w U) (Write_float c i j xs, r) = Open_file w U"
| "file_step (Open_file w U) (Write_int c i j is, r) = Open_file w U"
| "file_step (Open_file w U) (Flush_file, r) = Open_file w U"
| "file_step (Open_file w U) (Close_file, r) = Unnamed w"
| "file_step (Unnamed w) (Rename a b, r) =
     (if a = w \<and> take (length a - 8) a @ ''.fits'' = b then No_file else Violated)"
| "file_step ph opr = Violated"

definition phase :: "(sys_op \<times> int) list \<Rightarrow> file_phase" where
  "phase calls = foldl file_step No_file calls"

lemma phase_Nil [simp]: "phase [] = No_file"
  by (simp add: phase_def)

lemma phase_append [simp]: "phase (calls @ cs) = foldl file_step (phase calls) cs"
  by (simp add: phase_def)

fun neutral :: "sys_op \<Rightarrow> bool" where
  "neutral Get_system_time = True"
| "neutral (Movabs_hdu k) = True"
| "neutral (Update_key t k v) = True"
| "neutral (Write_float c i j xs) = True"
| "neutral (Write_int c i j is) = True"
| "neutral op = False"

lemma neutral_step: "neutral op \<Longrightarrow> file_step (Open_file w U) (op, r) = Open_file w U"
  by (cases op) simp_all

lemma neutral_ops:
  "phase (trace etf) = Open_file w U \<Longrightarrow> list_all neutral ops \<Longrightarrow>
   phase (trace (fits_ops (traced sys) ops etf)) = Open_file w U"
proof (induction ops arbitrary: etf)
  case (Cons op ops)
  have "phase (trace (fits_guarded (traced sys) op etf)) = Open_file w U"
    using Cons.prems by (simp add: traced_guarded neutral_step)
  then show ?case using Cons by (simp add: fits_ops_Cons)
qed simp

lemma hdu_ops:
  assumes "phase (trace etf) = Open_file w U" "ef_status etf = 0" "list_all neutral ops"
    and "if first then x \<notin> U else x \<in> U"
  shows "phase (trace (fits_ops (traced sys) (hdu_op first x cs # ops) etf)) = Open_file w (insert x U)"
proof -
  have "phase (trace (fits_guarded (traced sys) (hdu_op first x cs) etf)) = Open_file w (insert x U)"
    using assms by (auto simp: traced_guarded hdu_op_def insert_absorb split: if_splits)
  then show ?thesis using assms(3) by (simp add: fits_ops_Cons neutral_ops)
qed

lemma neutral_key_ops: "list_all neutral (key_ops os rows)"
  by (induction os rows rule: key_ops.induct) simp_all

lemma neutral_lists:
  "list_all neutral (primary_header_ops date ph)" "list_all neutral (ccpwrs_ops s ob bors)"
  "list_all neutral (hit_column_ops hc)"
  by (simp_all add: primary_header_ops_def ccpwrs_ops_def hit_column_ops_def Let_def)

subsection \<open>Within one block\<close>

fun status_hdu :: "site \<Rightarrow> string" where
  "status_hdu SOURCE_S6 = ''AOSCRAM''"
| "status_hdu SOURCE_DIBAS = ''GBTSTATUS''"
| "status_hdu SOURCE_FAST = ''FASTSTATUS''"

definition all_hdus :: "site \<Rightarrow> string set" where
  "all_hdus s = {status_hdu s, ''ETHITS''} \<union> (if s = SOURCE_FAST then {} else {''CCPWRS''})"

text \<open>The file is open and the data units \<open>D\<close> of this integration have been begun.\<close>

definition at_stage :: "site \<Rightarrow> string set \<Rightarrow> ('f \<times> (sys_op \<times> int) list) etfits \<Rightarrow> bool" where
  "at_stage s D etf = (ef_file_open etf \<and> \<not> ef_new_run etf \<and> 0 \<le> ef_integration_cnt etf \<and>
     (\<exists>stem. ef_filename_working etf = stem @ ''.working'' \<and> ef_filename_fits etf = stem @ ''.fits'') \<and>
     phase (trace etf) = Open_file (ef_filename_working etf) (if ef_integration_cnt etf = 0 then D else all_hdus s))"

lemma at_stage_frame:
  assumes "at_stage s D etf" "phase (trace (fits_ops (traced sys) ops etf')) =
       Open_file (ef_filename_working etf) (if ef_integration_cnt etf = 0 then D' else all_hdus s)"
    and "ef_filename_working etf' = ef_filename_working etf" "ef_filename_fits etf' = ef_filename_fits etf"
    "ef_file_open etf' = ef_file_open etf" "ef_new_run etf' = ef_new_run etf" "ef_integration_cnt etf' = ef_integration_cnt etf"
  shows "at_stage s D' (fits_ops (traced sys) ops etf')"
  using assms by (simp add: at_stage_def)

lemma stage_neutral:
  assumes "at_stage s D etf" "list_all neutral ops"
  shows "at_stage s D (fits_ops (traced sys) ops etf)"
  using assms by (intro at_stage_frame [OF assms(1)] neutral_ops) (simp_all add: at_stage_def)

lemma stage_hdu:
  assumes "at_stage s D etf" "list_all neutral ops" "x \<in> all_hdus s"
    and "ef_integration_cnt etf = 0 \<Longrightarrow> if first then x \<notin> D else x \<in> D"
    and "ef_integration_cnt etf \<noteq> 0 \<Longrightarrow> \<not> first"
  shows "at_stage s (insert x D) (fits_ops (traced sys) (hdu_op first x cs # ops) (etf\<lparr>ef_status := 0\<rparr>))"
proof (rule at_stage_frame [OF assms(1)])
  have "insert x (if ef_integration_cnt etf = 0 then D else all_hdus s) =
      (if ef_integration_cnt etf = 0 then insert x D else all_hdus s)"
    using assms(3) by auto
  moreover have "phase (trace (fits_ops (traced sys) (hdu_op first x cs # ops) (etf\<lparr>ef_status := 0\<rparr>))) =
      Open_file (ef_filename_working etf) (insert x (if ef_integration_cnt etf = 0 then D else all_hdus s))"
    using assms by (intro hdu_ops) (auto simp: at_stage_def split: if_splits)
  ultimately show "phase (trace (fits_ops (traced sys) (hdu_op first x cs # ops) (etf\<lparr>ef_status := 0\<rparr>))) =
      Open_file (ef_filename_working etf) (if ef_integration_cnt etf = 0 then insert x D else all_hdus s)"
    by simp
qed simp_all

lemma integration_header_stage:
  assumes "at_stage s {} etf"
  shows "at_stage s {status_hdu s}
    (fits_ops (traced sys) (integration_header_ops (status_hdu s) keys (ef_integration_cnt etf = 0) os) (etf\<lparr>ef_status := 0\<rparr>))"
  using assms unfolding integration_header_ops_def
  by (intro stage_hdu) (simp_all add: neutral_key_ops all_hdus_def)

lemma ccpwrs_stage:
  assumes "at_stage s {status_hdu s} etf" "s \<noteq> SOURCE_FAST"
  shows "at_stage s {status_hdu s, ''CCPWRS''} (snd (write_ccpwrs s (traced sys) ob etf))"
proof -
  define e0 where "e0 = write_ccpwrs_header (traced sys) (etf\<lparr>ef_status := 0\<rparr>)"
  have 0: "at_stage s {''CCPWRS'', status_hdu s} e0"
    unfolding e0_def write_ccpwrs_header_def ccpwrs_header_ops_def
    using assms stage_hdu [OF assms(1), of "[Update_key TINT ''TIME'' (Kint_at (hh_time (ef_hits_hdr etf ! 0))),
      Update_key TDOUBLE ''RA'' (Kdbl (hh_ra (ef_hits_hdr etf ! 0))), Update_key TDOUBLE ''DEC'' (Kdbl (hh_dec (ef_hits_hdr etf ! 0)))]"
      "''CCPWRS''" "ef_integration_cnt etf = 0" sys]
    by (cases s) (simp_all add: all_hdus_def)
  have "at_stage s {''CCPWRS'', status_hdu s} (fold (\<lambda>bors. fits_ops (traced sys) (ccpwrs_ops s ob bors)) bs e0)" for bs
    using 0 by (induction bs arbitrary: e0) (simp_all add: stage_neutral neutral_lists)
  then show ?thesis by (simp add: write_ccpwrs_def Let_def e0_def [symmetric] insert_commute)
qed

lemma group_stage:
  fixes etf :: "('f \<times> (sys_op \<times> int) list) etfits" and sys :: "'f sys" and ob :: out_block and g :: "nat \<times> nat" and n :: nat
  assumes "at_stage s (if ef_beampol_cnt etf = 0 then D else insert ''ETHITS'' D) etf" "''ETHITS'' \<notin> D" "0 \<le> ef_beampol_cnt etf"
  defines "e' \<equiv> snd (write_group s (traced sys) ob g (n, etf))"
  shows "at_stage s (if ef_beampol_cnt e' = 0 then D else insert ''ETHITS'' D) e' \<and> 0 < ef_beampol_cnt e'"
proof -
  define first where "first \<longleftrightarrow> ef_integration_cnt etf = 0 \<and> ef_beampol_cnt etf = 0"
  define D0 where "D0 = (if ef_beampol_cnt etf = 0 then D else insert ''ETHITS'' D)"
  obtain cs ops where ops: "group_ops s ob (ef_hits_hdr etf) first g = hdu_op first ''ETHITS'' cs # ops" "list_all neutral ops"
    by (cases g) (simp add: group_ops_def hits_header_ops_def neutral_lists)
  have "at_stage s (insert ''ETHITS'' D0) (fits_ops (traced sys) (hdu_op first ''ETHITS'' cs # ops) (etf\<lparr>ef_status := 0\<rparr>))"
    using assms(1,2) ops(2) by (intro stage_hdu) (auto simp: D0_def first_def all_hdus_def)
  moreover have "insert ''ETHITS'' D0 = insert ''ETHITS'' D" by (simp add: D0_def)
  moreover have "e' = (fits_ops (traced sys) (hdu_op first ''ETHITS'' cs # ops) (etf\<lparr>ef_status := 0\<rparr>))\<lparr>ef_beampol_cnt := ef_beampol_cnt etf + 1\<rparr>"
    by (simp add: e'_def write_group_pair first_def [symmetric] ops(1))
  ultimately show ?thesis using assms(3) by (simp add: at_stage_def)
qed

lemma groups_stage:
  assumes "at_stage s (if ef_beampol_cnt etf = 0 then D else insert ''ETHITS'' D) etf" "''ETHITS'' \<notin> D" "0 \<le> ef_beampol_cnt etf"
  shows "let e' = snd (fold (write_group s (traced sys) ob) gs (n, etf)) in
    at_stage s (if ef_beampol_cnt e' = 0 then D else insert ''ETHITS'' D) e' \<and> (gs \<noteq> [] \<longrightarrow> 0 < ef_beampol_cnt e')"
  using assms(1,3)
proof (induction gs arbitrary: n etf)
  case (Cons g gs)
  obtain m e1 where g: "write_group s (traced sys) ob g (n, etf) = (m, e1)" by (rule prod.exhaust)
  have "at_stage s (if ef_beampol_cnt e1 = 0 then D else insert ''ETHITS'' D) e1 \<and> 0 < ef_beampol_cnt e1"
    using group_stage [OF Cons.prems(1) assms(2) Cons.prems(2), of sys ob g n] unfolding g snd_conv .
  then have e1: "at_stage s (if ef_beampol_cnt e1 = 0 then D else insert ''ETHITS'' D) e1" "0 < ef_beampol_cnt e1"
    by (rule conjunct1, elim conjE)
  have "ef_beampol_cnt e1 \<le> ef_beampol_cnt (snd (fold (write_group s (traced sys) ob) gs (m, e1)))"
    using write_hits_fold_frame [of s "traced sys" ob gs m e1] by (simp add: Let_def)
  then show ?case using Cons.IH [OF e1(1), of m] e1(2) by (simp add: g Let_def)
qed simp

lemma hits_stage:
  assumes "at_stage s D etf" "''ETHITS'' \<notin> D"
  shows "case write_hits s (traced sys) ob etf of
      Inl e \<Rightarrow> phase (trace e) \<noteq> Violated
    | Inr (n, e) \<Rightarrow> at_stage s (insert ''ETHITS'' D) e"
proof -
  define e0 where "e0 = etf\<lparr>ef_status := 0, ef_beampol_cnt := 0\<rparr>"
  define gs where "gs = takeWhile (hits_fit s ob) (borspols s)"
  obtain m e1 where f: "fold (write_group s (traced sys) ob) gs (0, e0) = (m, e1)" by (rule prod.exhaust)
  have "borspols s \<noteq> []" using borspols_start [of s] by auto
  moreover have "at_stage s (if ef_beampol_cnt e0 = 0 then D else insert ''ETHITS'' D) e0"
    using assms(1) by (simp add: at_stage_def e0_def)
  ultimately have "at_stage s (if ef_beampol_cnt e1 = 0 then D else insert ''ETHITS'' D) e1" "gs \<noteq> [] \<Longrightarrow> 0 < ef_beampol_cnt e1"
    using groups_stage [of s e0 D sys ob gs 0] assms(2) unfolding f Let_def snd_conv by (simp_all add: e0_def)
  moreover have "list_all (hits_fit s ob) (borspols s) \<Longrightarrow> gs \<noteq> []"
    using borspols_start [of s] by (auto simp: gs_def takeWhile_fit)
  ultimately show ?thesis
    unfolding write_hits_eq gs_def [symmetric] e0_def [symmetric] f by (auto simp: at_stage_def split: if_splits)
qed

subsection \<open>From block to block\<close>

definition file_inv :: "site \<Rightarrow> ('f \<times> (sys_op \<times> int) list) etfits \<Rightarrow> bool" where
  "file_inv s etf =
     (if ef_file_open etf then at_stage s (all_hdus s) etf \<and> 0 < ef_integration_cnt etf
      else phase (trace etf) = No_file \<and> ef_new_file etf \<and> (ef_new_run etf \<longrightarrow> ef_integration_cnt etf = 0))"

definition write_ok :: "site \<Rightarrow> ('f \<times> (sys_op \<times> int) list) etfits outcome \<Rightarrow> bool" where
  "write_ok s r =
     (case r of
        Running etf \<Rightarrow> file_inv s etf \<and> ef_file_open etf \<and> ef_status etf = 0
      | Exit_1 etf \<Rightarrow> phase (trace etf) \<noteq> Violated
      | Stack_smashed etf \<Rightarrow> phase (trace etf) \<noteq> Violated)"

lemma init_file_inv: "trace etf = [] \<Longrightarrow> file_inv s (init_etfits h d etf)"
  by (simp add: file_inv_def init_etfits_def trace_def)

lemma traced_sys_call:
  "trace (snd (sys_call (traced sys) op etf)) = trace etf @ [(op, fst (sys_call (traced sys) op etf))]"
  "trace (fits_call (traced sys) op etf) = trace etf @ [(op, ef_status (fits_call (traced sys) op etf))]"
  by (simp_all add: sys_call_def fits_call_def traced_def trace_def Let_def split: prod.splits)

lemma sys_call_simps [simp]:
  "ef_filename_working (snd (sys_call sys op etf)) = ef_filename_working etf"
  "ef_filename_fits (snd (sys_call sys op etf)) = ef_filename_fits etf"
  "ef_file_open (snd (sys_call sys op etf)) = ef_file_open etf"
  "ef_new_run (snd (sys_call sys op etf)) = ef_new_run etf"
  "ef_new_file (snd (sys_call sys op etf)) = ef_new_file etf"
  "ef_integration_cnt (snd (sys_call sys op etf)) = ef_integration_cnt etf"
  "ef_status (snd (sys_call sys op etf)) = ef_status etf"
  "ef_primary_hdr (snd (sys_call sys op etf)) = ef_primary_hdr etf"
  using sys_call_frame [of sys op etf] by auto

lemma fits_call_simps [simp]:
  "ef_filename_working (fits_call sys op etf) = ef_filename_working etf"
  "ef_filename_fits (fits_call sys op etf) = ef_filename_fits etf"
  "ef_file_open (fits_call sys op etf) = ef_file_open etf"
  "ef_new_run (fits_call sys op etf) = ef_new_run etf"
  "ef_new_file (fits_call sys op etf) = ef_new_file etf"
  "ef_integration_cnt (fits_call sys op etf) = ef_integration_cnt etf"
  "ef_primary_hdr (fits_call sys op etf) = ef_primary_hdr etf"
  using fits_call_frame [of sys op etf] by auto

lemma close_phase:
  assumes "at_stage s D etf"
  shows "phase (trace (etfits_close (traced sys) etf)) = No_file \<and> \<not> ef_file_open (etfits_close (traced sys) etf)
    \<and> ef_new_run (etfits_close (traced sys) etf) = ef_new_run etf \<and> ef_new_file (etfits_close (traced sys) etf) = ef_new_file etf
    \<and> ef_integration_cnt (etfits_close (traced sys) etf) = ef_integration_cnt etf"
  using assms by (auto simp: etfits_close_def Let_def traced_sys_call at_stage_def)

lemma create_phase:
  fixes etf :: "('f \<times> (sys_op \<times> int) list) etfits" and sys :: "'f sys" and s :: site and env :: write_env
  assumes "phase (trace etf) = No_file" "ef_integration_cnt etf = 0"
  defines "e' \<equiv> etfits_create s (traced sys) env etf"
  shows "(if ef_status e' = 0 then at_stage s {} e' else phase (trace e') = No_file) \<and>
    ef_new_file e' = ef_new_file etf \<and> ef_integration_cnt e' = 0"
proof -
  define e1 where "e1 = (if ef_new_run etf then start_run (traced sys) (etf\<lparr>ef_status := 0\<rparr>) else etf\<lparr>ef_status := 0\<rparr>)"
  have e1: "phase (trace e1) = No_file" "ef_integration_cnt e1 = 0" "ef_status e1 = 0" "\<not> ef_new_run e1" "ef_new_file e1 = ef_new_file etf"
    using assms(1,2) by (auto simp: e1_def start_run_def Let_def traced_sys_call split: option.splits)
  define stem where "stem = ef_basefilename e1 @ ''_'' @ ef_hostname e1 @ ''_'' @ file_name_str s env (e1\<lparr>ef_tot_rows := 0\<rparr>)"
  define e2 where "e2 = e1\<lparr>ef_tot_rows := 0, ef_filename_working := stem @ ''.working'', ef_filename_fits := stem @ ''.fits''\<rparr>"
  define e3 where "e3 = fits_guarded (traced sys) (Create_template (ef_filename_working e2) (ef_s6_dir e2 @ ''/'' @ ETFITS_TEMPLATE s)) e2"
  have e': "e' = (if ef_status e3 \<noteq> 0 then e3 else e3\<lparr>ef_file_open := True\<rparr>)"
    by (simp add: e'_def etfits_create_def Let_def e1_def e2_def e3_def stem_def)
  have e3: "trace e3 = trace e2 @ [(Create_template (stem @ ''.working'') (ef_s6_dir e2 @ ''/'' @ ETFITS_TEMPLATE s), ef_status e3)]"
    "ef_filename_working e3 = stem @ ''.working''" "ef_filename_fits e3 = stem @ ''.fits''" "\<not> ef_new_run e3"
    "ef_integration_cnt e3 = 0" "ef_new_file e3 = ef_new_file etf"
    using e1 by (simp_all add: e3_def fits_guarded_def traced_sys_call e2_def)
  then show ?thesis
    using e1 by (auto simp: e' at_stage_def e2_def)
qed

lemma change_file_stage:
  assumes "file_inv s etf"
  shows "case change_file s (traced sys) env rcvr oh etf of
      Running e \<Rightarrow> at_stage s {} e
    | Exit_1 e \<Rightarrow> phase (trace e) = No_file
    | Stack_smashed e \<Rightarrow> False"
proof (cases "ef_new_run etf \<or> ef_new_file etf")
  case False
  then show ?thesis using assms by (auto simp: change_file_def file_inv_def at_stage_def split: if_splits)
next
  case True
  define e0 where "e0 = etf\<lparr>ef_new_file := False\<rparr>"
  define e1 where "e1 = (if \<not> ef_new_run e0 then (if ef_file_open e0 then etfits_close (traced sys) e0 else e0)\<lparr>ef_integration_cnt := 0\<rparr> else e0)"
  have inv0: "ef_file_open e0 \<Longrightarrow> at_stage s (all_hdus s) e0" "\<not> ef_file_open e0 \<Longrightarrow> phase (trace e0) = No_file"
    "\<not> ef_file_open e0 \<Longrightarrow> ef_new_run e0 \<Longrightarrow> ef_integration_cnt e0 = 0"
    using assms by (auto simp: e0_def file_inv_def at_stage_def split: if_splits)
  have "phase (trace e1) = No_file \<and> ef_integration_cnt e1 = 0"
    using inv0 close_phase [of s "all_hdus s" e0 sys] by (auto simp: e1_def at_stage_def)
  moreover define e2 where "e2 = e1\<lparr>ef_primary_hdr := (ef_primary_hdr e1)\<lparr>
                       ph_n_subband := int32_of (uint (oh_num_coarse_chan oh)),
                       ph_n_chan := int (N_FINE_CHAN s),
                       ph_n_inputs := int (N_BORS s * N_POLS_PER_BEAM s),
                       ph_receiver := take 200 rcvr,
                       ph_power_threshold := 20,
                       ph_smooth_scale := int (SMOOTH_SCALE s)\<rparr>\<rparr>"
  moreover define e3 where "e3 = etfits_create s (traced sys) env e2"
  ultimately have "phase (trace e2) = No_file" "ef_integration_cnt e2 = 0" by simp_all
  from create_phase [OF this, of s sys env]
  have e3: "if ef_status e3 = 0 then at_stage s {} e3 else phase (trace e3) = No_file"
    unfolding e3_def by (rule conjunct1)
  have c: "change_file s (traced sys) env rcvr oh etf =
      (if ef_status e3 \<noteq> 0 then Exit_1 e3
       else Running ((write_primary_header (traced sys) env e3)\<lparr>ef_file_cnt := ef_file_cnt (write_primary_header (traced sys) env e3) + 1\<rparr>))"
    using True by (simp add: change_file_def Let_def e0_def e1_def e2_def e3_def)
  have "at_stage s {} (write_primary_header (traced sys) env e3)" if "ef_status e3 = 0"
  proof -
    have "at_stage s {} (e3\<lparr>ef_status := 0\<rparr>)" using e3 that by (simp add: at_stage_def)
    then show ?thesis unfolding write_primary_header_def by (rule stage_neutral) (simp add: neutral_lists)
  qed
  then show ?thesis using e3 by (auto simp: c at_stage_def)
qed

lemma finish_write_ok:
  assumes "at_stage s D etf" "ef_status etf = 0 \<Longrightarrow> D = all_hdus s"
  shows "write_ok s (finish_write (traced sys) n etf)"
proof -
  define e0 where "e0 = etf\<lparr>ef_integration_cnt := ef_integration_cnt etf + 1\<rparr>"
  have open0: "\<exists>U. phase (trace e0) = Open_file (ef_filename_working e0) U"
    using assms(1) by (simp add: e0_def at_stage_def)
  show ?thesis
  proof (cases "ef_status etf = 0")
    case False
    then show ?thesis using open0 by (auto simp: finish_write_def Let_def write_ok_def e0_def)
  next
    case True
    define e1 where "e1 = e0\<lparr>ef_tot_rows := ef_tot_rows e0 + n, ef_N := ef_N e0 + 1\<rparr>"
    have 1: "at_stage s (all_hdus s) e1" "0 < ef_integration_cnt e1"
      using assms True by (auto simp: e1_def e0_def at_stage_def)
    define e2 where "e2 = fits_call (traced sys) Flush_file e1"
    obtain size e3 where st: "sys_call (traced sys) (Stat (ef_filename_working e2)) e2 = (size, e3)" by (rule prod.exhaust)
    have e3: "e3 = snd (sys_call (traced sys) (Stat (ef_filename_working e2)) e2)" by (simp add: st)
    have 3: "at_stage s (all_hdus s) e3" "0 < ef_integration_cnt e3"
      using 1 unfolding e3 e2_def by (auto simp: at_stage_def traced_sys_call)
    define e4 where "e4 = check_for_file_roll (traced sys) e1"
    have "e4 = e3 \<or> e4 = e3\<lparr>ef_file_num := ef_file_num e3 + 1, ef_new_file := True\<rparr>"
      by (simp add: e4_def check_for_file_roll_def Let_def e2_def [symmetric] st)
    then have 4: "at_stage s (all_hdus s) e4" "0 < ef_integration_cnt e4"
      using 3 by (auto simp: at_stage_def)
    have "finish_write (traced sys) n etf = (if ef_status e4 \<noteq> 0 then Exit_1 e4 else Running e4)"
      using True by (simp add: finish_write_def Let_def e4_def e1_def e0_def)
    then show ?thesis using 4 by (auto simp: write_ok_def file_inv_def at_stage_def)
  qed
qed

text \<open>Where the chain of \<open>if(! *status_p)\<close> steps of a block has got to.\<close>

definition chain_at :: "site \<Rightarrow> string set \<Rightarrow> int \<times> ('f \<times> (sys_op \<times> int) list) etfits \<Rightarrow> bool" where
  "chain_at s D acc = (\<exists>D'. at_stage s D' (snd acc) \<and> (ef_status (snd acc) = 0 \<longrightarrow> D' = D))"

lemma chain_step:
  "chain_at s D acc \<Longrightarrow> (\<And>e. at_stage s D e \<Longrightarrow> at_stage s D2 (snd (f e))) \<Longrightarrow> chain_at s D2 (if_ok f acc)"
  by (auto simp: chain_at_def if_ok_def)

lemma chain_finish:
  assumes "chain_at s D acc" "''ETHITS'' \<notin> D" "insert ''ETHITS'' D = all_hdus s"
  shows "write_ok s (hits_and_finish s (traced sys) ob acc)"
proof (cases "ef_status (snd acc) = 0")
  case True
  then have "at_stage s D (snd acc)" using assms(1) by (auto simp: chain_at_def)
  from hits_stage [OF this assms(2), of sys ob] show ?thesis
    using True assms(3) by (auto simp: hits_and_finish_def write_ok_def [of _ "Stack_smashed _"] intro: finish_write_ok split: sum.splits)
next
  case False
  then show ?thesis using assms(1) by (auto simp: chain_at_def hits_and_finish_def intro: finish_write_ok)
qed

lemma chain_start: "at_stage s D etf \<Longrightarrow> chain_at s D (n, etf\<lparr>ef_hits_hdr := hhs\<rparr>)"
  by (auto simp: chain_at_def at_stage_def)

lemma after_change:
  assumes "file_inv s etf" "\<And>e. at_stage s {} e \<Longrightarrow> write_ok s (rest e)"
  shows "write_ok s (case change_file s (traced sys) env rcvr oh (etf\<lparr>ef_status := 0\<rparr>) of Running e \<Rightarrow> rest e | r \<Rightarrow> r)"
proof -
  have "file_inv s (etf\<lparr>ef_status := 0\<rparr>)" using assms(1) by (auto simp: file_inv_def at_stage_def split: if_splits)
  note c = change_file_stage [OF this, of sys env rcvr oh]
  show ?thesis
    using c assms(2) by (cases "change_file s (traced sys) env rcvr oh (etf\<lparr>ef_status := 0\<rparr>)") (simp_all add: write_ok_def)
qed

lemma header_stage_gbt: "at_stage SOURCE_DIBAS {} e \<Longrightarrow> at_stage SOURCE_DIBAS {''GBTSTATUS''} (write_integration_header_gbt (traced sys) os e)"
  using integration_header_stage [of SOURCE_DIBAS e sys gbt_keys os] by (simp add: write_integration_header_gbt_def)

lemma header_stage_fast: "at_stage SOURCE_FAST {} e \<Longrightarrow> at_stage SOURCE_FAST {''FASTSTATUS''} (write_integration_header_fast (traced sys) os e)"
  using integration_header_stage [of SOURCE_FAST e sys fast_keys os] by (simp add: write_integration_header_fast_def)

lemma header_stage_ao: "at_stage SOURCE_S6 {} e \<Longrightarrow> at_stage SOURCE_S6 {''AOSCRAM''} (write_integration_header (traced sys) os e)"
  using integration_header_stage [of SOURCE_S6 e sys ao_keys os] by (simp add: write_integration_header_def)

lemma all_hdus_simps:
  "all_hdus SOURCE_FAST = {''ETHITS'', ''FASTSTATUS''}"
  "all_hdus SOURCE_DIBAS = {''ETHITS'', ''GBTSTATUS'', ''CCPWRS''}"
  "all_hdus SOURCE_S6 = {''ETHITS'', ''AOSCRAM'', ''CCPWRS''}"
  by (auto simp: all_hdus_def)

lemma write_etfits_fast_ok:
  assumes "file_inv SOURCE_FAST etf"
  shows "write_ok SOURCE_FAST (write_etfits_fast (traced sys) env ob os etf)"
  unfolding write_etfits_fast_def Let_def
proof (intro after_change [OF assms] chain_finish [where D = "{''FASTSTATUS''}"])
  fix e :: "('a \<times> (sys_op \<times> int) list) etfits"
  assume e: "at_stage SOURCE_FAST {} e"
  show "chain_at SOURCE_FAST {''FASTSTATUS''}
      (if_ok (\<lambda>etf. (0, write_integration_header_fast (traced sys) os etf))
         (0, e\<lparr>ef_hits_hdr := map (fast_hits_hdr (ob_header ob) (ef_primary_hdr e) os) [0..<N_BORS SOURCE_FAST * N_POLS_PER_BEAM SOURCE_FAST]\<rparr>))"
    by (rule chain_step [where D = "{}"], rule chain_start [OF e]; simp add: header_stage_fast)
qed (simp_all add: all_hdus_simps)

lemma write_etfits_gbt_ok:
  assumes "file_inv SOURCE_DIBAS etf"
  shows "write_ok SOURCE_DIBAS (write_etfits_gbt (traced sys) env ob os etf)"
  unfolding write_etfits_gbt_def Let_def
proof (intro after_change [OF assms] chain_finish [where D = "{''GBTSTATUS'', ''CCPWRS''}"])
  fix e :: "('a \<times> (sys_op \<times> int) list) etfits"
  assume e: "at_stage SOURCE_DIBAS {} e"
  show "chain_at SOURCE_DIBAS {''GBTSTATUS'', ''CCPWRS''}
      (if_ok (write_ccpwrs SOURCE_DIBAS (traced sys) ob) (if_ok (\<lambda>etf. (0, write_integration_header_gbt (traced sys) os etf))
         (0, e\<lparr>ef_hits_hdr := map (gbt_hits_hdr os) [0..<N_BORS SOURCE_DIBAS * N_POLS_PER_BEAM SOURCE_DIBAS]\<rparr>)))"
    by (rule chain_step [where D = "{''GBTSTATUS''}"], rule chain_step [where D = "{}"], rule chain_start [OF e];
        simp add: header_stage_gbt ccpwrs_stage [where s = SOURCE_DIBAS, simplified])
qed (simp_all add: all_hdus_simps)

lemma write_etfits_ok:
  assumes "file_inv SOURCE_S6 etf"
  shows "write_ok SOURCE_S6 (write_etfits (traced sys) env ob os etf)"
  unfolding write_etfits_def Let_def
proof (intro after_change [OF assms] chain_finish [where D = "{''AOSCRAM'', ''CCPWRS''}"])
  fix e :: "('a \<times> (sys_op \<times> int) list) etfits"
  assume e: "at_stage SOURCE_S6 {} e"
  show "chain_at SOURCE_S6 {''AOSCRAM'', ''CCPWRS''}
      (if_ok (write_ccpwrs SOURCE_S6 (traced sys) ob) (if_ok (\<lambda>etf. (0, write_integration_header (traced sys) os etf))
         (0, e\<lparr>ef_hits_hdr := map (ao_hits_hdr os) [0..<N_BORS SOURCE_S6 * N_POLS_PER_BEAM SOURCE_S6]\<rparr>)))"
    by (rule chain_step [where D = "{''AOSCRAM''}"], rule chain_step [where D = "{}"], rule chain_start [OF e];
        simp add: header_stage_ao ccpwrs_stage [where s = SOURCE_S6, simplified])
qed (simp_all add: all_hdus_simps)

end
