(* ===== verification/S6_Obs_Gbt.thy ===== *)
theory S6_Obs_Gbt
  imports S6_Obs
begin

text \<open>
  The Green Bank status, \<open>src/src/s6_obs_data_gbt.cpp\<close>: the queries made on redis,
  one for each member of \<open>gbtstatus_t\<close>, and the detection of data that has stopped
  changing.  The queries are tables of (hash, field, assignment).
\<close>

record lag_state =
  lag_count :: int
  lag_issued :: bool

record gbt_static =
  gs_mysql :: lag_state
  gs_cleo :: lag_state

text \<open>The two copies of the test for a static database: \<open>tol\<close> and \<open>lag\<close> in seconds.\<close>

definition lag_check :: "real \<Rightarrow> real \<Rightarrow> int \<Rightarrow> lag_state \<Rightarrow> int \<times> lag_state" where
  "lag_check tol lag rv ls =
     (if rv = 0 \<and> tol < lag
      then (let ls = ls\<lparr>lag_count := lag_count ls + 1\<rparr>
            in if lag_count ls \<le> 2 then (rv, ls) else (1, ls\<lparr>lag_issued := True\<rparr>))
      else (rv, \<lparr>lag_count = 0, lag_issued = False\<rparr>))"

text \<open>\<open>if(!rv && !(rv = s6_redis_get(...)))\<close> and the assignments from the reply.\<close>

definition gbt_query :: "redis \<Rightarrow> string \<Rightarrow> member list \<Rightarrow> int \<times> obs \<Rightarrow> (int \<times> obs) option" where
  "gbt_query redis query ms acc =
     (let (rv, os) = acc
      in if rv \<noteq> 0 then Some (rv, os)
         else if s6_redis_get (redis query) \<noteq> 0 then Some (1, os)
         else case redis query of
                Reply_array els \<Rightarrow> map_option (Pair 0) (assign_all ms els os)
              | _ \<Rightarrow> None)"

text \<open>A \<open>GET\<close>: the reply is a string.\<close>

definition gbt_get :: "redis \<Rightarrow> string \<Rightarrow> member \<Rightarrow> int \<times> obs \<Rightarrow> (int \<times> obs) option" where
  "gbt_get redis query m acc =
     (let (rv, os) = acc
      in if rv \<noteq> 0 then Some (rv, os)
         else if s6_redis_get (redis query) \<noteq> 0 then Some (1, os)
         else case redis query of
                Reply_string (Some str) \<Rightarrow> Some (0, assign m str os)
              | _ \<Rightarrow> None)"

fun gbt_queries :: "redis \<Rightarrow> (string \<times> string \<times> member) list \<Rightarrow> int \<times> obs \<Rightarrow> (int \<times> obs) option" where
  "gbt_queries redis [] acc = Some acc"
| "gbt_queries redis ((name, field, m) # rows) acc =
     (case gbt_query redis (''HMGET '' @ name @ '' '' @ field) [m] acc of
        None \<Rightarrow> None
      | Some acc \<Rightarrow> gbt_queries redis rows acc)"

definition mysql_rows :: "(string \<times> string \<times> member) list" where
  "mysql_rows = [
     (''LASTUPDT'', ''VALUE'', Strcpy ''LASTUPDT'' 32), (''LASTUPDT'', ''STIME'', Atol ''LASTUPDTSTIME'' 0),
     (''LST'', ''VALUE'', Strcpy ''LST'' 32), (''LST'', ''STIME'', Atol ''LSTSTIME'' 0),
     (''UTC'', ''VALUE'', Strcpy ''UTC'' 32), (''UTC'', ''STIME'', Atol ''UTCSTIME'' 0),
     (''EPOCH'', ''VALUE'', Strcpy ''EPOCH'' 32), (''EPOCH'', ''STIME'', Atol ''EPOCHSTIME'' 0),
     (''MAJTYPE'', ''VALUE'', Strcpy ''MAJTYPE'' 32), (''MAJTYPE'', ''STIME'', Atol ''MAJTYPESTIME'' 0),
     (''MINTYPE'', ''VALUE'', Strcpy ''MINTYPE'' 32), (''MINTYPE'', ''STIME'', Atol ''MINTYPESTIME'' 0),
     (''MAJOR'', ''VALUE'', Strcpy ''MAJOR'' 32), (''MAJOR'', ''STIME'', Atol ''MAJORSTIME'' 0),
     (''MINOR'', ''VALUE'', Strcpy ''MINOR'' 32), (''MINOR'', ''STIME'', Atol ''MINORSTIME'' 0),
     (''AZCOMM'', ''VALUE'', Atof ''AZCOMM'' 0), (''AZCOMM'', ''STIME'', Atol ''AZCOMMSTIME'' 0),
     (''ELCOMM'', ''VALUE'', Atof ''ELCOMM'' 0), (''ELCOMM'', ''STIME'', Atol ''ELCOMMSTIME'' 0),
     (''AZACTUAL'', ''VALUE'', Atof ''AZACTUAL'' 0), (''AZACTUAL'', ''STIME'', Atol ''AZACTUALSTIME'' 0),
     (''ELACTUAL'', ''VALUE'', Atof ''ELACTUAL'' 0), (''ELACTUAL'', ''STIME'', Atol ''ELACTUALSTIME'' 0),
     (''AZERROR'', ''VALUE'', Atof ''AZERROR'' 0), (''AZERROR'', ''STIME'', Atol ''AZERRORSTIME'' 0),
     (''ELERROR'', ''VALUE'', Atof ''ELERROR'' 0), (''ELERROR'', ''STIME'', Atol ''ELERRORSTIME'' 0),
     (''LPCS'', ''VALUE'', Strcpy ''LPCS'' 32), (''LPCS'', ''STIME'', Atol ''LPCSSTIME'' 0),
     (''FOCUSOFF'', ''VALUE'', Strcpy ''FOCUSOFF'' 32), (''FOCUSOFF'', ''STIME'', Atol ''FOCUSOFFSTIME'' 0),
     (''ANTMOT'', ''VALUE'', Strcpy ''ANTMOT'' 32), (''ANTMOT'', ''STIME'', Atol ''ANTMOTSTIME'' 0),
     (''RECEIVER'', ''VALUE'', Strcpy ''RECEIVER'' 32), (''RECEIVER'', ''STIME'', Atol ''RECEIVERSTIME'' 0),
     (''IFFRQ1ST'', ''VALUE'', Atof ''IFFRQ1ST'' 0), (''IFFRQ1ST'', ''STIME'', Atol ''IFFRQ1STSTIME'' 0),
     (''IFFRQRST'', ''VALUE'', Atof ''IFFRQRST'' 0), (''IFFRQRST'', ''STIME'', Atol ''IFFRQRSTSTIME'' 0),
     (''DCRSCFRQ'', ''VALUE'', Atof ''DCRSCFRQ'' 0), (''DCRSCFRQ'', ''STIME'', Atol ''DCRSCFRQSTIME'' 0),
     (''SPRCSFRQ'', ''VALUE'', Atof ''SPRCSFRQ'' 0), (''SPRCSFRQ'', ''STIME'', Atol ''SPRCSFRQSTIME'' 0),
     (''FREQ'', ''VALUE'', Atof ''FREQ'' 0), (''FREQ'', ''STIME'', Atol ''FREQSTIME'' 0),
     (''VELFRAME'', ''VALUE'', Strcpy ''VELFRAME'' 32), (''VELFRAME'', ''STIME'', Atol ''VELFRAMESTIME'' 0),
     (''VELDEF'', ''VALUE'', Strcpy ''VELDEF'' 32), (''VELDEF'', ''STIME'', Atol ''VELDEFSTIME'' 0),
     (''J2000MAJ'', ''VALUE'', Atof ''J2000MAJ'' 0), (''J2000MAJ'', ''STIME'', Atol ''J2000MAJSTIME'' 0),
     (''J2000MIN'', ''VALUE'', Atof ''J2000MIN'' 0), (''J2000MIN'', ''STIME'', Atol ''J2000MINSTIME'' 0),
     (''LSTH_DRV'', ''VALUE'', Atof ''LSTH_DRV'' 0), (''LSTH_DRV'', ''STIME'', Atol ''LSTH_DRVSTIME'' 0),
     (''RA_DRV'', ''VALUE'', Atof ''RA_DRV'' 0), (''RA_DRV'', ''STIME'', Atol ''RA_DRVSTIME'' 0),
     (''RADG_DRV'', ''VALUE'', Atof ''RADG_DRV'' 0), (''RADG_DRV'', ''STIME'', Atol ''RADG_DRVSTIME'' 0),
     (''DEC_DRV'', ''VALUE'', Atof ''DEC_DRV'' 0), (''DEC_DRV'', ''STIME'', Atol ''DEC_DRVSTIME'' 0)]"

definition cleo_rows_1 :: "(string \<times> string \<times> member) list" where
  "cleo_rows_1 = [
     (''ATATCOTM'', ''VALUE'', Strcpy ''ATATCOTM'' 32), (''ATATCOTM'', ''STIME'', Atol ''ATATCOTMSTIME'' 0),
     (''ATATCOTM'', ''MJD'', Atof ''ATATCOTMMJD'' 0), (''ATBEELOF'', ''VALUE'', Strcpy ''ATBEELOF'' 32),
     (''ATBEELOF'', ''STIME'', Atol ''ATBEELOFSTIME'' 0), (''ATBEELOF'', ''MJD'', Atof ''ATBEELOFMJD'' 0),
     (''ATBEXLOF'', ''VALUE'', Strcpy ''ATBEXLOF'' 32), (''ATBEXLOF'', ''STIME'', Atol ''ATBEXLOFSTIME'' 0),
     (''ATBEXLOF'', ''MJD'', Atof ''ATBEXLOFMJD'' 0), (''ATFCTRMD'', ''VALUE'', Strcpy ''ATFCTRMD'' 32),
     (''ATFCTRMD'', ''STIME'', Atol ''ATFCTRMDSTIME'' 0), (''ATFCTRMD'', ''MJD'', Atof ''ATFCTRMDMJD'' 0),
     (''ATGREGRC'', ''VALUE'', Strcpy ''ATGREGRC'' 32), (''ATGREGRC'', ''STIME'', Atol ''ATGREGRCSTIME'' 0),
     (''ATGREGRC'', ''MJD'', Atof ''ATGREGRCMJD'' 0), (''ATLFCX'', ''VALUE'', Strcpy ''ATLFCX'' 32),
     (''ATLFCX'', ''STIME'', Atol ''ATLFCXSTIME'' 0), (''ATLFCX'', ''MJD'', Atof ''ATLFCXMJD'' 0),
     (''ATLFCXT'', ''VALUE'', Strcpy ''ATLFCXT'' 32), (''ATLFCXT'', ''STIME'', Atol ''ATLFCXTSTIME'' 0),
     (''ATLFCXT'', ''MJD'', Atof ''ATLFCXTMJD'' 0), (''ATLFCY'', ''VALUE'', Strcpy ''ATLFCY'' 32),
     (''ATLFCY'', ''STIME'', Atol ''ATLFCYSTIME'' 0), (''ATLFCY'', ''MJD'', Atof ''ATLFCYMJD'' 0),
     (''ATLFCYT'', ''VALUE'', Strcpy ''ATLFCYT'' 32), (''ATLFCYT'', ''STIME'', Atol ''ATLFCYTSTIME'' 0),
     (''ATLFCYT'', ''MJD'', Atof ''ATLFCYTMJD'' 0), (''ATLFCZ'', ''VALUE'', Strcpy ''ATLFCZ'' 32),
     (''ATLFCZ'', ''STIME'', Atol ''ATLFCZSTIME'' 0), (''ATLFCZ'', ''MJD'', Atof ''ATLFCZMJD'' 0),
     (''ATLFCZT'', ''VALUE'', Strcpy ''ATLFCZT'' 32), (''ATLFCZT'', ''STIME'', Atol ''ATLFCZTSTIME'' 0),
     (''ATLFCZT'', ''MJD'', Atof ''ATLFCZTMJD'' 0), (''ATLPOAZ1'', ''VALUE'', Strcpy ''ATLPOAZ1'' 32),
     (''ATLPOAZ1'', ''STIME'', Atol ''ATLPOAZ1STIME'' 0), (''ATLPOAZ1'', ''MJD'', Atof ''ATLPOAZ1MJD'' 0),
     (''ATLPOAZ2'', ''VALUE'', Strcpy ''ATLPOAZ2'' 32), (''ATLPOAZ2'', ''STIME'', Atol ''ATLPOAZ2STIME'' 0),
     (''ATLPOAZ2'', ''MJD'', Atof ''ATLPOAZ2MJD'' 0), (''ATLPOEL'', ''VALUE'', Strcpy ''ATLPOEL'' 32),
     (''ATLPOEL'', ''STIME'', Atol ''ATLPOELSTIME'' 0), (''ATLPOEL'', ''MJD'', Atof ''ATLPOELMJD'' 0),
     (''ATMATMCA'', ''VALUE'', Strcpy ''ATMATMCA'' 32), (''ATMATMCA'', ''STIME'', Atol ''ATMATMCASTIME'' 0),
     (''ATMATMCA'', ''MJD'', Atof ''ATMATMCAMJD'' 0), (''ATMATMCM'', ''VALUE'', Strcpy ''ATMATMCM'' 32),
     (''ATMATMCM'', ''STIME'', Atol ''ATMATMCMSTIME'' 0), (''ATMATMCM'', ''MJD'', Atof ''ATMATMCMMJD'' 0),
     (''ATMATMCT'', ''VALUE'', Strcpy ''ATMATMCT'' 32), (''ATMATMCT'', ''STIME'', Atol ''ATMATMCTSTIME'' 0),
     (''ATMATMCT'', ''MJD'', Atof ''ATMATMCTMJD'' 0), (''ATMCDCJ2'', ''VALUE'', Strcpy ''ATMCDCJ2'' 32),
     (''ATMCDCJ2'', ''STIME'', Atol ''ATMCDCJ2STIME'' 0), (''ATMCDCJ2'', ''MJD'', Atof ''ATMCDCJ2MJD'' 0),
     (''ATMCRAJ2'', ''VALUE'', Strcpy ''ATMCRAJ2'' 32), (''ATMCRAJ2'', ''STIME'', Atol ''ATMCRAJ2STIME'' 0),
     (''ATMCRAJ2'', ''MJD'', Atof ''ATMCRAJ2MJD'' 0), (''ATMFBS'', ''VALUE'', Strcpy ''ATMFBS'' 32),
     (''ATMFBS'', ''STIME'', Atol ''ATMFBSSTIME'' 0), (''ATMFBS'', ''MJD'', Atof ''ATMFBSMJD'' 0),
     (''ATMTLS'', ''VALUE'', Strcpy ''ATMTLS'' 32), (''ATMTLS'', ''STIME'', Atol ''ATMTLSSTIME'' 0),
     (''ATMTLS'', ''MJD'', Atof ''ATMTLSMJD'' 0), (''ATOPTMOD'', ''VALUE'', Strcpy ''ATOPTMOD'' 32),
     (''ATOPTMOD'', ''STIME'', Atol ''ATOPTMODSTIME'' 0), (''ATOPTMOD'', ''MJD'', Atof ''ATOPTMODMJD'' 0),
     (''ATRECVR'', ''VALUE'', Strcpy ''ATRECVR'' 32), (''ATRECVR'', ''STIME'', Atol ''ATRECVRSTIME'' 0),
     (''ATRECVR'', ''MJD'', Atof ''ATRECVRMJD'' 0), (''ATRXOCTA'', ''VALUE'', Strcpy ''ATRXOCTA'' 32),
     (''ATRXOCTA'', ''STIME'', Atol ''ATRXOCTASTIME'' 0), (''ATRXOCTA'', ''MJD'', Atof ''ATRXOCTAMJD'' 0),
     (''ATTRBEAM'', ''VALUE'', Strcpy ''ATTRBEAM'' 32), (''ATTRBEAM'', ''STIME'', Atol ''ATTRBEAMSTIME'' 0),
     (''ATTRBEAM'', ''MJD'', Atof ''ATTRBEAMMJD'' 0), (''ATTURLOC'', ''VALUE'', Strcpy ''ATTURLOC'' 256),
     (''ATTURLOC'', ''STIME'', Atol ''ATTURLOCSTIME'' 0), (''ATTURLOC'', ''MJD'', Atof ''ATTURLOCMJD'' 0),
     (''BAMBAMCA'', ''VALUE'', Strcpy ''BAMBAMCA'' 32), (''BAMBAMCA'', ''STIME'', Atol ''BAMBAMCASTIME'' 0),
     (''BAMBAMCA'', ''MJD'', Atof ''BAMBAMCAMJD'' 0), (''BAMBAMCM'', ''VALUE'', Strcpy ''BAMBAMCM'' 32),
     (''BAMBAMCM'', ''STIME'', Atol ''BAMBAMCMSTIME'' 0), (''BAMBAMCM'', ''MJD'', Atof ''BAMBAMCMMJD'' 0),
     (''BAMBAMCT'', ''VALUE'', Strcpy ''BAMBAMCT'' 32), (''BAMBAMCT'', ''STIME'', Atol ''BAMBAMCTSTIME'' 0),
     (''BAMBAMCT'', ''MJD'', Atof ''BAMBAMCTMJD'' 0), (''BAMMPWR1'', ''VALUE'', Strcpy ''BAMMPWR1'' 32),
     (''BAMMPWR1'', ''STIME'', Atol ''BAMMPWR1STIME'' 0), (''BAMMPWR1'', ''MJD'', Atof ''BAMMPWR1MJD'' 0),
     (''BAMMPWR2'', ''VALUE'', Strcpy ''BAMMPWR2'' 32), (''BAMMPWR2'', ''STIME'', Atol ''BAMMPWR2STIME'' 0),
     (''BAMMPWR2'', ''MJD'', Atof ''BAMMPWR2MJD'' 0), (''CLEOPID'', ''VALUE'', Strcpy ''CLEOPID'' 32),
     (''CLEOPID'', ''STIME'', Atol ''CLEOPIDSTIME'' 0), (''CLEOPID'', ''MJD'', Atof ''CLEOPIDMJD'' 0),
     (''CLEOREV'', ''VALUE'', Strcpy ''CLEOREV'' 32), (''CLEOREV'', ''STIME'', Atol ''CLEOREVSTIME'' 0),
     (''CLEOREV'', ''MJD'', Atof ''CLEOREVMJD'' 0), (''IFMIFMCM'', ''VALUE'', Strcpy ''IFMIFMCM'' 32),
     (''IFMIFMCM'', ''STIME'', Atol ''IFMIFMCMSTIME'' 0), (''IFMIFMCM'', ''MJD'', Atof ''IFMIFMCMMJD'' 0),
     (''IFV1BW'', ''VALUE'', Strcpy ''IFV1BW'' 32), (''IFV1BW'', ''STIME'', Atol ''IFV1BWSTIME'' 0),
     (''IFV1BW'', ''MJD'', Atof ''IFV1BWMJD'' 0), (''IFV1CSFQ'', ''VALUE'', Strcpy ''IFV1CSFQ'' 32),
     (''IFV1CSFQ'', ''STIME'', Atol ''IFV1CSFQSTIME'' 0), (''IFV1CSFQ'', ''MJD'', Atof ''IFV1CSFQMJD'' 0),
     (''IFV1LVL'', ''VALUE'', Strcpy ''IFV1LVL'' 32), (''IFV1LVL'', ''STIME'', Atol ''IFV1LVLSTIME'' 0)]"

definition cleo_rows_2 :: "(string \<times> string \<times> member) list" where
  "cleo_rows_2 = [
     (''IFV1LVL'', ''MJD'', Atof ''IFV1LVLMJD'' 0), (''IFV1IFFQ'', ''VALUE'', Strcpy ''IFV1IFFQ'' 32),
     (''IFV1IFFQ'', ''STIME'', Atol ''IFV1IFFQSTIME'' 0), (''IFV1IFFQ'', ''MJD'', Atof ''IFV1IFFQMJD'' 0),
     (''IFV1SSB'', ''VALUE'', Strcpy ''IFV1SSB'' 32), (''IFV1SSB'', ''STIME'', Atol ''IFV1SSBSTIME'' 0),
     (''IFV1SSB'', ''MJD'', Atof ''IFV1SSBMJD'' 0), (''IFV1SKFQ'', ''VALUE'', Strcpy ''IFV1SKFQ'' 32),
     (''IFV1SKFQ'', ''STIME'', Atol ''IFV1SKFQSTIME'' 0), (''IFV1SKFQ'', ''MJD'', Atof ''IFV1SKFQMJD'' 0),
     (''IFV1TH'', ''VALUE'', Strcpy ''IFV1TH'' 32), (''IFV1TH'', ''STIME'', Atol ''IFV1THSTIME'' 0),
     (''IFV1TH'', ''MJD'', Atof ''IFV1THMJD'' 0), (''IFV1TNCI'', ''VALUE'', Strcpy ''IFV1TNCI'' 32),
     (''IFV1TNCI'', ''STIME'', Atol ''IFV1TNCISTIME'' 0), (''IFV1TNCI'', ''MJD'', Atof ''IFV1TNCIMJD'' 0),
     (''IFV1TNCO'', ''VALUE'', Strcpy ''IFV1TNCO'' 32), (''IFV1TNCO'', ''STIME'', Atol ''IFV1TNCOSTIME'' 0),
     (''IFV1TNCO'', ''MJD'', Atof ''IFV1TNCOMJD'' 0), (''IFV1TT'', ''VALUE'', Strcpy ''IFV1TT'' 32),
     (''IFV1TT'', ''STIME'', Atol ''IFV1TTSTIME'' 0), (''IFV1TT'', ''MJD'', Atof ''IFV1TTMJD'' 0),
     (''IFV2BW'', ''VALUE'', Strcpy ''IFV2BW'' 32), (''IFV2BW'', ''STIME'', Atol ''IFV2BWSTIME'' 0),
     (''IFV2BW'', ''MJD'', Atof ''IFV2BWMJD'' 0), (''IFV2CSFQ'', ''VALUE'', Strcpy ''IFV2CSFQ'' 32),
     (''IFV2CSFQ'', ''STIME'', Atol ''IFV2CSFQSTIME'' 0), (''IFV2CSFQ'', ''MJD'', Atof ''IFV2CSFQMJD'' 0),
     (''IFV2LVL'', ''VALUE'', Strcpy ''IFV2LVL'' 32), (''IFV2LVL'', ''STIME'', Atol ''IFV2LVLSTIME'' 0),
     (''IFV2LVL'', ''MJD'', Atof ''IFV2LVLMJD'' 0), (''IFV2IFFQ'', ''VALUE'', Strcpy ''IFV2IFFQ'' 32),
     (''IFV2IFFQ'', ''STIME'', Atol ''IFV2IFFQSTIME'' 0), (''IFV2IFFQ'', ''MJD'', Atof ''IFV2IFFQMJD'' 0),
     (''IFV2SSB'', ''VALUE'', Strcpy ''IFV2SSB'' 32), (''IFV2SSB'', ''STIME'', Atol ''IFV2SSBSTIME'' 0),
     (''IFV2SSB'', ''MJD'', Atof ''IFV2SSBMJD'' 0), (''IFV2SKFQ'', ''VALUE'', Strcpy ''IFV2SKFQ'' 32),
     (''IFV2SKFQ'', ''STIME'', Atol ''IFV2SKFQSTIME'' 0), (''IFV2SKFQ'', ''MJD'', Atof ''IFV2SKFQMJD'' 0),
     (''IFV2TH'', ''VALUE'', Strcpy ''IFV2TH'' 32), (''IFV2TH'', ''STIME'', Atol ''IFV2THSTIME'' 0),
     (''IFV2TH'', ''MJD'', Atof ''IFV2THMJD'' 0), (''IFV2TNCI'', ''VALUE'', Strcpy ''IFV2TNCI'' 32),
     (''IFV2TNCI'', ''STIME'', Atol ''IFV2TNCISTIME'' 0), (''IFV2TNCI'', ''MJD'', Atof ''IFV2TNCIMJD'' 0),
     (''IFV2TNCO'', ''VALUE'', Strcpy ''IFV2TNCO'' 32), (''IFV2TNCO'', ''STIME'', Atol ''IFV2TNCOSTIME'' 0),
     (''IFV2TNCO'', ''MJD'', Atof ''IFV2TNCOMJD'' 0), (''IFV2TT'', ''VALUE'', Strcpy ''IFV2TT'' 32),
     (''IFV2TT'', ''STIME'', Atol ''IFV2TTSTIME'' 0), (''IFV2TT'', ''MJD'', Atof ''IFV2TTMJD'' 0),
     (''LO1ACA'', ''VALUE'', Strcpy ''LO1ACA'' 32), (''LO1ACA'', ''STIME'', Atol ''LO1ACASTIME'' 0),
     (''LO1ACA'', ''MJD'', Atof ''LO1ACAMJD'' 0), (''LO1ACM'', ''VALUE'', Strcpy ''LO1ACM'' 32),
     (''LO1ACM'', ''STIME'', Atol ''LO1ACMSTIME'' 0), (''LO1ACM'', ''MJD'', Atof ''LO1ACMMJD'' 0),
     (''LO1ACT'', ''VALUE'', Strcpy ''LO1ACT'' 32), (''LO1ACT'', ''STIME'', Atol ''LO1ACTSTIME'' 0),
     (''LO1ACT'', ''MJD'', Atof ''LO1ACTMJD'' 0), (''LO1APSFQ'', ''VALUE'', Strcpy ''LO1APSFQ'' 32),
     (''LO1APSFQ'', ''STIME'', Atol ''LO1APSFQSTIME'' 0), (''LO1APSFQ'', ''MJD'', Atof ''LO1APSFQMJD'' 0),
     (''LO1BPSFQ'', ''VALUE'', Strcpy ''LO1BPSFQ'' 32), (''LO1BPSFQ'', ''STIME'', Atol ''LO1BPSFQSTIME'' 0),
     (''LO1BPSFQ'', ''MJD'', Atof ''LO1BPSFQMJD'' 0), (''LO1FQSW'', ''VALUE'', Strcpy ''LO1FQSW'' 32),
     (''LO1FQSW'', ''STIME'', Atol ''LO1FQSWSTIME'' 0), (''LO1FQSW'', ''MJD'', Atof ''LO1FQSWMJD'' 0),
     (''LO1CM'', ''VALUE'', Strcpy ''LO1CM'' 32), (''LO1CM'', ''STIME'', Atol ''LO1CMSTIME'' 0),
     (''LO1CM'', ''MJD'', Atof ''LO1CMMJD'' 0), (''LO1CFG'', ''VALUE'', Strcpy ''LO1CFG'' 32),
     (''LO1CFG'', ''STIME'', Atol ''LO1CFGSTIME'' 0), (''LO1CFG'', ''MJD'', Atof ''LO1CFGMJD'' 0),
     (''LO1PHCAL'', ''VALUE'', Strcpy ''LO1PHCAL'' 32), (''LO1PHCAL'', ''STIME'', Atol ''LO1PHCALSTIME'' 0),
     (''LO1PHCAL'', ''MJD'', Atof ''LO1PHCALMJD'' 0), (''OPTGREG'', ''VALUE'', Strcpy ''OPTGREG'' 32),
     (''OPTGREG'', ''STIME'', Atol ''OPTGREGSTIME'' 0), (''OPTGREG'', ''MJD'', Atof ''OPTGREGMJD'' 0),
     (''OPTPRIME'', ''VALUE'', Strcpy ''OPTPRIME'' 32), (''OPTPRIME'', ''STIME'', Atol ''OPTPRIMESTIME'' 0),
     (''OPTPRIME'', ''MJD'', Atof ''OPTPRIMEMJD'' 0), (''SCPROJID'', ''VALUE'', Strcpy ''SCPROJID'' 32),
     (''SCPROJID'', ''STIME'', Atol ''SCPROJIDSTIME'' 0), (''SCPROJID'', ''MJD'', Atof ''SCPROJIDMJD'' 0),
     (''SCSCCM'', ''VALUE'', Strcpy ''SCSCCM'' 32), (''SCSCCM'', ''STIME'', Atol ''SCSCCMSTIME'' 0),
     (''SCSCCM'', ''MJD'', Atof ''SCSCCMMJD'' 0), (''SCSNUMBR'', ''VALUE'', Strcpy ''SCSNUMBR'' 32),
     (''SCSNUMBR'', ''STIME'', Atol ''SCSNUMBRSTIME'' 0), (''SCSNUMBR'', ''MJD'', Atof ''SCSNUMBRMJD'' 0),
     (''SCSOURCE'', ''VALUE'', Strcpy ''SCSOURCE'' 32), (''SCSOURCE'', ''STIME'', Atol ''SCSOURCESTIME'' 0),
     (''SCSOURCE'', ''MJD'', Atof ''SCSOURCEMJD'' 0), (''SCSTATE'', ''VALUE'', Strcpy ''SCSTATE'' 32),
     (''SCSTATE'', ''STIME'', Atol ''SCSTATESTIME'' 0), (''SCSTATE'', ''MJD'', Atof ''SCSTATEMJD'' 0),
     (''VEGSFBW1'', ''VALUE'', Strcpy ''VEGSFBW1'' 32), (''VEGSFBW1'', ''STIME'', Atol ''VEGSFBW1STIME'' 0),
     (''VEGSFBW1'', ''MJD'', Atof ''VEGSFBW1MJD'' 0), (''VEGSSBAM'', ''VALUE'', Strcpy ''VEGSSBAM'' 32),
     (''VEGSSBAM'', ''STIME'', Atol ''VEGSSBAMSTIME'' 0), (''VEGSSBAM'', ''MJD'', Atof ''VEGSSBAMMJD'' 0),
     (''VEGASCM'', ''VALUE'', Strcpy ''VEGASCM'' 32), (''VEGASCM'', ''STIME'', Atol ''VEGASCMSTIME'' 0),
     (''VEGASCM'', ''MJD'', Atof ''VEGASCMMJD'' 0), (''LCUDSECS'', ''VALUE'', Atol ''LCUDSECS'' 0),
     (''LCUDSECS'', ''STIME'', Atol ''LCUDSECSSTIME'' 0)]"

definition adc_rows :: "(string \<times> string \<times> member) list" where
  "adc_rows = [
     (''ADC0SDEV'', ''VALUE'', Atof ''ADC0SDEV'' 0), (''ADC1SDEV'', ''VALUE'', Atof ''ADC1SDEV'' 0),
     (''ADC0MEAN'', ''VALUE'', Atof ''ADC0MEAN'' 0), (''ADC1MEAN'', ''VALUE'', Atof ''ADC1MEAN'' 0),
     (''ADC0SDEV'', ''ADCRMSTM'', Atol_int ''ADC0SDEVSTIME'' 0), (''ADC1SDEV'', ''ADCRMSTM'', Atol_int ''ADC1SDEVSTIME'' 0),
     (''ADC0MEAN'', ''ADCRMSTM'', Atol_int ''ADC0MEANSTIME'' 0), (''ADC1MEAN'', ''ADCRMSTM'', Atol_int ''ADC1MEANSTIME'' 0)]"

definition clocksyn_members :: "member list" where
  "clocksyn_members = [Atoi ''CLOCKTIM'' 0, Atof ''CLOCKFRQ'' 0, Atof ''CLOCKDBM'' 0, Atoi ''CLOCKLOC'' 0]"

definition birdisyn_members :: "member list" where
  "birdisyn_members = [Atoi ''BIRDITIM'' 0, Atof ''BIRDIFRQ'' 0, Atof ''BIRDIDBM'' 0, Atoi ''BIRDILOC'' 0]"

text \<open>The two MJD queries and the lag tests; \<open>mjd1\<close> and \<open>mjd2\<close> are the clock at each.\<close>

definition gbt_heartbeats :: "redis \<Rightarrow> real \<Rightarrow> real \<Rightarrow> int \<times> obs \<Rightarrow> gbt_static \<Rightarrow> ((int \<times> obs) \<times> gbt_static) option" where
  "gbt_heartbeats redis mjd1 mjd2 acc stc =
     (case gbt_query redis ''HMGET MJD VALUE'' [Atof ''MJD'' 0] acc of
        None \<Rightarrow> None
      | Some (rv, os) \<Rightarrow>
          (let (rv, ls) = lag_check 40 ((mjd1 - o_dbl os ''MJD'' 0) * 86400) rv (gs_mysql stc);
               stc = stc\<lparr>gs_mysql := ls\<rparr>
           in case gbt_query redis ''HMGET Thump MJD'' [Atof ''CLEOMJD'' 0] (rv, os) of
                None \<Rightarrow> None
              | Some (rv, os) \<Rightarrow>
                  (let (rv, ls) = lag_check 100 ((mjd2 - o_dbl os ''CLEOMJD'' 0) * 86400) rv (gs_cleo stc)
                   in Some ((rv, os), stc\<lparr>gs_cleo := ls\<rparr>))))"

text \<open>All the queries that follow, in order.\<close>

definition gbt_fetch_all :: "redis \<Rightarrow> int \<times> obs \<Rightarrow> (int \<times> obs) option" where
  "gbt_fetch_all redis acc =
     Option.bind (gbt_queries redis (mysql_rows @ cleo_rows_1 @ cleo_rows_2) acc) (\<lambda>(rv, os).
     Option.bind (gbt_get redis ''GET WEBCNTRL'' (Atoi ''WEBCNTRL'' 0) (rv, set_int ''WEBCNTRL'' 0 1 os)) (\<lambda>acc.
     Option.bind (gbt_queries redis adc_rows acc) (\<lambda>acc.
     Option.bind (gbt_query redis ''HMGET CLOCKSYN      CLOCKTIM CLOCKFRQ CLOCKDBM CLOCKLOC'' clocksyn_members acc) (\<lambda>acc.
       gbt_query redis ''HMGET BIRDISYN      BIRDITIM BIRDIFRQ BIRDIDBM BIRDILOC'' birdisyn_members acc))))"

definition get_obs_gbt_info_from_redis ::
  "bool \<Rightarrow> redis \<Rightarrow> real \<Rightarrow> real \<Rightarrow> obs \<Rightarrow> gbt_static \<Rightarrow> (obs \<times> gbt_static) fetched" where
  "get_obs_gbt_info_from_redis conn_ok redis mjd1 mjd2 os stc =
     (case gbt_heartbeats redis mjd1 mjd2 (if conn_ok then 0 else 1, os) stc of
        None \<Rightarrow> Crash
      | Some (acc, stc) \<Rightarrow>
          (case gbt_fetch_all redis acc of
             None \<Rightarrow> Crash
           | Some (rv, os) \<Rightarrow> Fetched rv (os, stc)))"

text \<open>\<open>put_obs_gbt_info_to_redis\<close>: the current file name is set under a key made of the host name and
  the instance; the result is 1 without a connection and that of \<open>gethostname\<close> otherwise.\<close>

definition put_obs_gbt_info_to_redis :: "bool \<Rightarrow> int \<Rightarrow> int" where
  "put_obs_gbt_info_to_redis conn_ok gethostname_rv = (if \<not> conn_ok then 1 else gethostname_rv)"

text \<open>After a failure nothing more is asked.\<close>

lemma gbt_query_skip: "rv \<noteq> 0 \<Longrightarrow> gbt_query redis q ms (rv, os) = Some (rv, os)"
  by (simp add: gbt_query_def)

lemma gbt_queries_skip: "rv \<noteq> 0 \<Longrightarrow> gbt_queries redis rows (rv, os) = Some (rv, os)"
  by (induction rows) (auto simp: gbt_query_skip)

subsection \<open>A database that stops changing\<close>

text \<open>The third fetch in a row whose heartbeat is late is an error, and so is every later one until
  the heartbeat is back.\<close>

fun lag_checks :: "real \<Rightarrow> real list \<Rightarrow> lag_state \<Rightarrow> int list \<times> lag_state" where
  "lag_checks tol [] ls = ([], ls)"
| "lag_checks tol (lag # lags) ls =
     (let (rv, ls) = lag_check tol lag 0 ls; (rvs, ls) = lag_checks tol lags ls in (rv # rvs, ls))"

lemma lag_checks_Cons:
  "fst (lag_checks tol (lag # lags) ls) =
   fst (lag_check tol lag 0 ls) # fst (lag_checks tol lags (snd (lag_check tol lag 0 ls)))"
  by (simp add: split_def Let_def)

lemma lag_checks_late:
  "\<forall>l\<in>set lags. tol < l \<Longrightarrow>
   fst (lag_checks tol lags ls) = map (\<lambda>k. if lag_count ls + int k \<le> 1 then 0 else 1) [0..<length lags]"
proof (induction lags arbitrary: ls)
  case (Cons l lags)
  define ls' where "ls' = snd (lag_check tol l 0 ls)"
  have c: "lag_count ls' = lag_count ls + 1" "fst (lag_check tol l 0 ls) = (if lag_count ls \<le> 1 then 0 else 1)"
    using Cons.prems(1) by (simp_all add: ls'_def lag_check_def Let_def)
  have "fst (lag_checks tol lags ls') = map (\<lambda>k. if lag_count ls' + int k \<le> 1 then 0 else 1) [0..<length lags]"
    using Cons by simp
  also have "\<dots> = map (\<lambda>k. if lag_count ls + int k \<le> 1 then 0 else 1) (map Suc [0..<length lags])"
    by (simp add: c algebra_simps comp_def)
  finally show ?case
    unfolding lag_checks_Cons ls'_def [symmetric] c
    by (simp add: map_Suc_upt upt_conv_Cons del: upt_Suc map_map)
qed simp

theorem static_database_detected:
  assumes "\<forall>l\<in>set late. tol < l" "l0 \<le> tol"
  shows "fst (lag_checks tol (l0 # late) ls) = 0 # map (\<lambda>k. if k < 2 then 0 else 1) [0..<length late]"
proof -
  have "fst (lag_checks tol late \<lparr>lag_count = 0, lag_issued = False\<rparr>) =
      map (\<lambda>k. if k < 2 then 0 else 1) [0..<length late]"
    using lag_checks_late [OF assms(1), of "\<lparr>lag_count = 0, lag_issued = False\<rparr>"] by (simp add: numeral_2_eq_2 less_Suc_eq_le)
  then show ?thesis using assms(2) by (simp add: lag_checks_Cons lag_check_def Let_def del: lag_checks.simps)
qed

theorem static_database_detected_witness:
  "fst (lag_checks 40 [1, 50, 60, 70] \<lparr>lag_count = 7, lag_issued = True\<rparr>) = [0, 0, 0, 1]"
  using static_database_detected [of "[50, 60, 70]" 40 1 "\<lparr>lag_count = 7, lag_issued = True\<rparr>"] by (simp add: upt_rec)

end
