(* ===== verification/S6_Output.thy ===== *)
theory S6_Output
  imports S6_Etfits_Files S6_Obs_Gbt
begin

text \<open>
  The output thread, \<open>src/src/s6_output_thread.cpp\<close>: for each filled output block it
  fetches the observatory status, decides whether the instrument is idle, changes the output
  file when the receiver or the configuration changes, writes the block, clears it and
  frees it.  What redis, the clock, the waits and the GPU deliver are inputs.
\<close>

unbundle bit_operations_syntax

definition SET_BIT :: "u32 \<Rightarrow> nat \<Rightarrow> u32" where
  "SET_BIT val bitIndex = val OR push_bit bitIndex 1"

definition CLEAR_BIT :: "u32 \<Rightarrow> nat \<Rightarrow> u32" where
  "CLEAR_BIT val bitIndex = val AND NOT (push_bit bitIndex 1)"

definition BIT_IS_SET :: "u32 \<Rightarrow> nat \<Rightarrow> bool" where
  "BIT_IS_SET val bitIndex = (val AND push_bit bitIndex 1 \<noteq> 0)"

definition idle_redis_error :: nat where "idle_redis_error = 0"
definition idle_bad_rms :: nat where "idle_bad_rms = 1"
definition idle_zero_IFV1BW :: nat where "idle_zero_IFV1BW = 2"
definition RMS_THRESH :: real where "RMS_THRESH = 3"

subsection \<open>State and inputs\<close>

datatype receiver_id = Rec_num int | Rec_name string

record ('f, 's) output_state =
  os_block_idx :: nat
  os_etf :: "'f etfits"
  os_prior_receiver :: receiver_id
  os_run_always :: int
  os_prior_run_always :: int
  os_idle :: int
  os_idle_flag :: u32
  os_testmode :: int
  os_num_coarse_chan :: u64
  os_obs :: obs
  os_ao_static :: ao_static
  os_gbt_static :: gbt_static
  os_current_filename :: string
  os_db :: "out_block list"
  os_calls :: "ring_call list"
  os_status :: 's

record redis_env =
  re_connected :: bool
  re_obs_context :: bool
  re_redis :: redis
  re_now :: int
  re_mjd1 :: real
  re_mjd2 :: real
  re_beyond :: string
  re_put_connected :: bool
  re_gethostname :: int

record output_event =
  oe_runsecs :: int
  oe_waits :: "hp_rv list"
  oe_block :: out_block
  oe_redis :: redis_env
  oe_env :: write_env
  oe_error_count :: u32

datatype 'a output_result = Out_done 'a | Out_blocked 'a | Out_exit 'a

definition zero_out_block :: "site \<Rightarrow> out_block" where
  "zero_out_block s =
     \<lparr>ob_header = \<lparr>oh_mcnt = 0, oh_coarse_chan_id = 0, oh_num_coarse_chan = 0, oh_sid = 0, oh_time_sec = 0,
        oh_time_nsec = 0, oh_missed_pkts = replicate (N_BORS s) 0, oh_nhits = replicate (N_BORS s) 0\<rparr>,
      ob_power = (\<lambda>b i. 0), ob_baseline = (\<lambda>b i. 0), ob_hit_indices = (\<lambda>b i. 0), ob_pol = (\<lambda>b i. 0),
      ob_coarse_chan = (\<lambda>b i. 0), ob_fine_chan = (\<lambda>b i. 0), ob_cc_pwrs_x = (\<lambda>b i. 0), ob_cc_pwrs_y = (\<lambda>b i. 0)\<rparr>"

text \<open>The locals at the head of \<open>run\<close>; \<open>etf\<close>, \<open>run_always\<close> and the status structure
  are not initialised there.\<close>

definition output_init ::
  "site \<Rightarrow> string \<Rightarrow> string option \<Rightarrow> 'f etfits \<Rightarrow> obs \<Rightarrow> int \<Rightarrow> out_block list \<Rightarrow> 's \<Rightarrow> ('f, 's) output_state" where
  "output_init s hostname s6_dir etf os run_always db buf =
     \<lparr>os_block_idx = 0, os_etf = init_etfits hostname s6_dir etf,
      os_prior_receiver = (if s = SOURCE_S6 then Rec_num 0 else Rec_name []),
      os_run_always = run_always, os_prior_run_always = 0, os_idle = 0, os_idle_flag = 0, os_testmode = 0,
      os_num_coarse_chan = 0, os_obs = os,
      os_ao_static = \<lparr>prior_agc_time = 0, no_time_change_count = 0\<rparr>,
      os_gbt_static = \<lparr>gs_mysql = \<lparr>lag_count = 0, lag_issued = False\<rparr>, gs_cleo = \<lparr>lag_count = 0, lag_issued = False\<rparr>\<rparr>,
      os_current_filename = [], os_db = db, os_calls = [], os_status = buf\<rparr>"

subsection \<open>Observatory status\<close>

fun fetch_obs :: "site \<Rightarrow> redis_env \<Rightarrow> obs \<Rightarrow> ao_static \<times> gbt_static \<Rightarrow> (obs \<times> ao_static \<times> gbt_static) fetched" where
  "fetch_obs SOURCE_S6 re os (ao, gbt) =
     (case get_obs_info_from_redis (re_connected re) (re_redis re) (re_now re) os ao of
        Fetched rv (os, ao) \<Rightarrow> Fetched rv (os, ao, gbt) | Fetch_exit \<Rightarrow> Fetch_exit | Crash \<Rightarrow> Crash)"
| "fetch_obs SOURCE_DIBAS re os (ao, gbt) =
     (case get_obs_gbt_info_from_redis (re_connected re) (re_redis re) (re_mjd1 re) (re_mjd2 re) os gbt of
        Fetched rv (os, gbt) \<Rightarrow> Fetched rv (os, ao, gbt) | Fetch_exit \<Rightarrow> Fetch_exit | Crash \<Rightarrow> Crash)"
| "fetch_obs SOURCE_FAST re os (ao, gbt) =
     (case get_obs_fast_info_from_redis (re_connected re) (re_obs_context re) (re_redis re) (re_beyond re) os of
        Fetched rv os \<Rightarrow> Fetched rv (os, ao, gbt) | Fetch_exit \<Rightarrow> Fetch_exit | Crash \<Rightarrow> Crash)"

text \<open>Test mode: everything zero, apart from the members that mark it.\<close>

fun testmode_obs :: "site \<Rightarrow> obs" where
  "testmode_obs SOURCE_S6 = zero_obs"
| "testmode_obs SOURCE_DIBAS = set_str ''RECEIVER'' ''S6TEST'' (set_int ''WEBCNTRL'' 0 1 zero_obs)"
| "testmode_obs SOURCE_FAST = set_str ''RECEIVER'' ''S6TEST'' zero_obs"

text \<open>The metadata that the thread sets itself before the fetch, at FAST.\<close>

definition get_metadata :: "site \<Rightarrow> 's status_ops \<Rightarrow> 's \<Rightarrow> out_hdr \<Rightarrow> 'f etfits \<times> obs \<Rightarrow> 'f etfits \<times> obs" where
  "get_metadata s so buf oh acc =
     (let (etf, os) = acc
      in if s = SOURCE_FAST
         then (let etf = etf\<lparr>ef_primary_hdr := (ef_primary_hdr etf)\<lparr>
                     ph_beam := int32_of (uint (oh_sid oh div 2)), ph_pol := int32_of (uint (oh_sid oh mod 2))\<rparr>\<rparr>;
                   os = (case hgetr8 so buf ''ADCRMS'' of Some x \<Rightarrow> set_dbl ''ADCRMS'' 0 x os | None \<Rightarrow> os);
                   os = (case hgeti8 so buf ''ADCRMSTM'' of Some x \<Rightarrow> set_int ''ADCRMSTM'' 0 x os | None \<Rightarrow> os);
                   os = set_dbl ''TIME'' 0 (of_nat (unat (oh_time_sec oh)) + of_nat (unat (oh_time_nsec oh)) / 1000000000) os
               in (etf, os))
         else (etf, os))"

subsection \<open>Idle conditions\<close>

definition check_idle_bit :: "nat \<Rightarrow> bool \<Rightarrow> u32 \<Rightarrow> u32" where
  "check_idle_bit k bad flag =
     (if bad then (if \<not> BIT_IS_SET flag k then SET_BIT flag k else flag)
      else (if BIT_IS_SET flag k then CLEAR_BIT flag k else flag))"

definition check_idle :: "site \<Rightarrow> int \<Rightarrow> obs \<Rightarrow> u32 \<Rightarrow> u32" where
  "check_idle s rv os flag =
     (let flag = check_idle_bit idle_redis_error (rv \<noteq> 0) flag;
          flag = (if s = SOURCE_FAST then check_idle_bit idle_bad_rms (o_dbl os ''ADCRMS'' 0 < RMS_THRESH) flag else flag);
          flag = (if s = SOURCE_DIBAS then check_idle_bit idle_zero_IFV1BW (atoi (o_str os ''IFV1BW'') = 0) flag else flag)
      in flag)"

definition idle_after :: "u32 \<Rightarrow> int \<Rightarrow> int" where
  "idle_after flag idle =
     (if flag \<noteq> 0 then (if idle = 0 then 1 else idle) else (if idle \<noteq> 0 then 0 else idle))"

subsection \<open>Status puts\<close>

definition puts :: "'s status_ops \<Rightarrow> (string \<times> stval) list \<Rightarrow> 's \<Rightarrow> 's" where
  "puts so kvs buf = fold (\<lambda>(k, v) b. hput so b k v) kvs buf"

definition i4 :: "int \<Rightarrow> stval" where "i4 v = I4 (of_int v)"

fun obs_puts :: "site \<Rightarrow> obs \<Rightarrow> (string \<times> stval) list" where
  "obs_puts SOURCE_S6 os =
     [(''TELESCOP'', Str (receiver SOURCE_S6 ! nat (o_int os ''receiver'' 0))),
      (''COARCHID'', i4 (o_int os ''coarse_chan_id'' 0)),
      (''CLOCKFRQ'', i4 (trunc (o_dbl os ''CLOCKFRQ'' 0))),
      (''SCRALFON'', i4 (o_int os ''IF2ALFON'' 0)),
      (''SCRAGCAZ'', R4 (o_dbl os ''AGCAZ'' 0)),
      (''SCRAGCZA'', R4 (o_dbl os ''AGCZA'' 0)),
      (''SCRB0RA'', R4 (o_dbl os ''ra_by_beam'' 0)),
      (''SCRB0DEC'', R4 (o_dbl os ''dec_by_beam'' 0)),
      (''SCRALFMO'', R4 (o_dbl os ''ALFMOPOS'' 0)),
      (''SCRIF1LO'', R4 (o_dbl os ''IF1SYNHZ'' 0)),
      (''SCRIF2LO'', R4 (o_dbl os ''IF2SYNHZ'' 0)),
      (''SCRIF1RF'', R4 (o_dbl os ''IF1RFFRQ'' 0)),
      (''SCRTTDEG'', R4 (o_dbl os ''TTTURDEG'' 0)),
      (''SCRBIAS1'', i4 (o_int os ''ALFBIAS1'' 0)),
      (''SCRBIAS2'', i4 (o_int os ''ALFBIAS2'' 0)),
      (''SCRALFFB'', i4 (o_int os ''IF1ALFFB'' 0)),
      (''SCRALFON'', i4 (o_int os ''IF2ALFON'' 0)),
      (''SCRIF2SR'', i4 (o_int os ''IF2SIGSR'' 0))]"
| "obs_puts SOURCE_DIBAS os =
     [(''TELESCOP'', Str (o_str os ''IFV1TNCI'')),
      (''COARCHID'', i4 (o_int os ''coarse_chan_id'' 0)),
      (''BANDWDTH'', Str (o_str os ''IFV1BW'')),
      (''GBTCLKFQ'', i4 (trunc (o_dbl os ''CLOCKFRQ'' 0))),
      (''GBTAZACT'', R4 (o_dbl os ''AZACTUAL'' 0)),
      (''GBTELACT'', R4 (o_dbl os ''ELACTUAL'' 0)),
      (''GBTRADG'', R4 (o_dbl os ''RADG_DRV'' 0)),
      (''GBTDECDG'', R4 (o_dbl os ''DEC_DRV'' 0)),
      (''GBTIFFQ1'', R4 (o_dbl os ''IFFRQ1ST'' 0)),
      (''GBTFREQ'', R4 (o_dbl os ''FREQ'' 0)),
      (''WEBCNTRL'', i4 (o_int os ''WEBCNTRL'' 0))]"
| "obs_puts SOURCE_FAST os = []"

text \<open>First, one third, two thirds and last coarse channel, a new group for each.\<close>

definition power_puts :: "site \<Rightarrow> out_block \<Rightarrow> (string \<times> stval) list" where
  "power_puts s ob =
     (let n = N_COARSE_CHAN_PER_BORS s; x = ob_cc_pwrs_x ob; y = ob_cc_pwrs_y ob
      in if s = SOURCE_FAST then []
         else [(''CCS0FSTX'', R4 (x 0 0)), (''CCS0FSTY'', R4 (y 0 0)),
               (''CCS2.33X'', R4 (x 2 (n * 33 div 100))), (''CCS2.33Y'', R4 (y 2 (n * 33 div 100))),
               (''CCS4.67X'', R4 (x 4 (n * 67 div 100))), (''CCS4.67Y'', R4 (y 4 (n * 67 div 100)))]
              @ (if s = SOURCE_S6
                 then [(''CCS6LSTX'', R4 (x 6 (n - 1))), (''CCS6LSTY'', R4 (y 6 (n - 1)))]
                 else [(''CCS7LSTX'', R4 (x 7 (n - 1))), (''CCS7LSTY'', R4 (y 7 (n - 1)))]))"

subsection \<open>File changes and writing\<close>

definition current_receiver :: "site \<Rightarrow> obs \<Rightarrow> receiver_id" where
  "current_receiver s os =
     (case s of
        SOURCE_S6 \<Rightarrow> Rec_num (o_int os ''receiver'' 0)
      | SOURCE_DIBAS \<Rightarrow> Rec_name (o_str os ''IFV1TNCI'')
      | SOURCE_FAST \<Rightarrow> Rec_name (o_str os ''RECEIVER''))"

definition file_change_due :: "site \<Rightarrow> out_hdr \<Rightarrow> ('f, 's) output_state \<Rightarrow> bool" where
  "file_change_due s oh st =
     (os_testmode st = 0 \<and>
      (current_receiver s (os_obs st) \<noteq> os_prior_receiver st \<or>
       (s = SOURCE_DIBAS \<and> o_int (os_obs st) ''WEBCNTRL'' 0 = 0) \<or>
       os_run_always st \<noteq> os_prior_run_always st \<or>
       os_num_coarse_chan st \<noteq> oh_num_coarse_chan oh))"

definition handle_file_change :: "site \<Rightarrow> 'f sys \<Rightarrow> out_hdr \<Rightarrow> ('f, 's) output_state \<Rightarrow> ('f, 's) output_state" where
  "handle_file_change s sys oh st =
     (if file_change_due s oh st
      then let etf = os_etf st;
               etf = (if ef_file_open etf then etfits_close sys etf else etf)
           in st\<lparr>os_etf := etf\<lparr>ef_new_file := True\<rparr>,
                 os_prior_receiver := current_receiver s (os_obs st),
                 os_num_coarse_chan := oh_num_coarse_chan oh,
                 os_prior_run_always := os_run_always st\<rparr>
      else st)"

fun write_enabled :: "site \<Rightarrow> ('f, 's) output_state \<Rightarrow> bool" where
  "write_enabled SOURCE_S6 st = (os_testmode st \<noteq> 0 \<or> o_int (os_obs st) ''receiver'' 0 \<noteq> 0 \<or> os_run_always st \<noteq> 0)"
| "write_enabled SOURCE_DIBAS st = (os_testmode st \<noteq> 0 \<or> os_run_always st \<noteq> 0 \<and> o_int (os_obs st) ''WEBCNTRL'' 0 \<noteq> 0)"
| "write_enabled SOURCE_FAST st = (os_testmode st \<noteq> 0 \<or> os_run_always st \<noteq> 0)"

fun write_block :: "site \<Rightarrow> 'f sys \<Rightarrow> write_env \<Rightarrow> out_block \<Rightarrow> obs \<Rightarrow> 'f etfits \<Rightarrow> 'f etfits outcome" where
  "write_block SOURCE_S6 sys env ob os etf =
     write_etfits sys env ob os (etf\<lparr>ef_file_chan := o_int os ''coarse_chan_id'' 0\<rparr>)"
| "write_block SOURCE_DIBAS sys env ob os etf =
     write_etfits_gbt sys env ob os (etf\<lparr>ef_file_chan := o_int os ''coarse_chan_id'' 0\<rparr>)"
| "write_block SOURCE_FAST sys env ob os etf =
     write_etfits_fast sys env ob os (etf\<lparr>ef_file_chan := 0\<rparr>)"

subsection \<open>One block\<close>

text \<open>From the acquired block to the decision about idling.\<close>

definition observe :: "site \<Rightarrow> 's status_ops \<Rightarrow> output_event \<Rightarrow> ('f, 's) output_state \<Rightarrow> ('f, 's) output_state output_result" where
  "observe s so ev st =
     (let ob = oe_block ev;
          oh = ob_header ob;
          buf = hput so (os_status st) ''OUTSTAT'' (Str ''processing'');
          (etf, os) = get_metadata s so buf oh (os_etf st, os_obs st);
          testmode = (case hgeti4 so buf ''TESTMODE'' of Some v \<Rightarrow> v | None \<Rightarrow> os_testmode st);
          st = st\<lparr>os_etf := etf, os_testmode := testmode, os_status := buf\<rparr>;
          fetched = (if testmode = 0 then fetch_obs s (oe_redis ev) os (os_ao_static st, os_gbt_static st)
                     else Fetched 0 (testmode_obs s, os_ao_static st, os_gbt_static st))
      in case fetched of
           Fetch_exit \<Rightarrow> Out_exit st
         | Crash \<Rightarrow> Out_exit st
         | Fetched rv (os, ao, gbt) \<Rightarrow>
             (let buf = (if s = SOURCE_FAST \<and> testmode = 0 then hput so buf ''DUMPVOLT'' (i4 (o_int os ''DUMPVOLT'' 0)) else buf);
                  flag = check_idle s rv os (os_idle_flag st);
                  idle = idle_after flag (os_idle st);
                  buf = hput so buf ''IDLE'' (i4 idle);
                  os = set_int ''coarse_chan_id'' 0 (if s = SOURCE_FAST then 0 else int32_of (uint (oh_coarse_chan_id oh))) os
              in Out_done (st\<lparr>os_obs := os, os_ao_static := ao, os_gbt_static := gbt, os_idle_flag := flag, os_idle := idle,
                              os_status := puts so (obs_puts s os) buf\<rparr>)))"

text \<open>After the write: status, the file name for redis at Green Bank, and the hand-over of the block.\<close>

definition release :: "site \<Rightarrow> 's status_ops \<Rightarrow> output_event \<Rightarrow> ('f, 's) output_state \<Rightarrow> ('f, 's) output_state output_result" where
  "release s so ev st =
     (let i = os_block_idx st;
          buf = puts so ([(''FILENUM'', i4 (ef_file_num (os_etf st))), (''OUTMXERR'', R4 0),
                          (''OUTERCNT'', I4 (oe_error_count ev)), (''OUTMXECT'', i4 0)] @ power_puts s (oe_block ev)) (os_status st);
          st = st\<lparr>os_status := buf\<rparr>;
          name_changed = (s = SOURCE_DIBAS \<and> ef_filename_working (os_etf st) \<noteq> os_current_filename st);
          st = (if name_changed then st\<lparr>os_current_filename := ef_filename_working (os_etf st)\<rparr> else st)
      in if name_changed \<and> put_obs_gbt_info_to_redis (re_put_connected (oe_redis ev)) (re_gethostname (oe_redis ev)) \<noteq> 0
         then Out_exit st
         else Out_done (st\<lparr>os_db := (os_db st)[i := zero_out_block s],
                           os_calls := os_calls st @ [Set_free i],
                           os_block_idx := (i + 1) mod N_OUTPUT_BLOCKS\<rparr>))"

definition process_output ::
  "site \<Rightarrow> 'f sys \<Rightarrow> 's status_ops \<Rightarrow> output_event \<Rightarrow> ('f, 's) output_state \<Rightarrow> ('f, 's) output_state output_result" where
  "process_output s sys so ev st =
     (case observe s so ev st of
        Out_done st \<Rightarrow>
          (let st = handle_file_change s sys (ob_header (oe_block ev)) st
           in if write_enabled s st
              then (case write_block s sys (oe_env ev) (oe_block ev) (os_obs st) (os_etf st) of
                      Exit_1 etf \<Rightarrow> Out_exit (st\<lparr>os_etf := etf\<rparr>)
                    | Stack_smashed etf \<Rightarrow> Out_exit (st\<lparr>os_etf := etf\<rparr>)
                    | Running etf \<Rightarrow>
                        (if ef_status etf \<noteq> 0 then Out_exit (st\<lparr>os_etf := etf\<rparr>)
                         else release s so ev (st\<lparr>os_etf := etf\<rparr>)))
              else release s so ev st)
      | r \<Rightarrow> r)"

definition output_step ::
  "site \<Rightarrow> 'f sys \<Rightarrow> 's status_ops \<Rightarrow> output_event \<Rightarrow> ('f, 's) output_state \<Rightarrow> ('f, 's) output_state output_result" where
  "output_step s sys so ev st =
     (let i = os_block_idx st;
          buf = hput so (os_status st) ''OUTBLKIN'' (i4 (int i));
          buf = hput so buf ''OUTSTAT'' (Str ''waiting'');
          run_always = (case hgeti4 so buf ''RUNALWYS'' of Some v \<Rightarrow> v | None \<Rightarrow> os_run_always st);
          buf = hput so buf ''RUNSECS'' (i4 (oe_runsecs ev));
          st = st\<lparr>os_run_always := run_always, os_status := buf\<rparr>
      in case await (oe_waits ev) 0 of
           Still_waiting n \<Rightarrow> Out_blocked (st\<lparr>os_status := put_times so ''OUTSTAT'' ''blocked'' n buf\<rparr>)
         | Wait_failed n \<Rightarrow> Out_exit (st\<lparr>os_status := put_times so ''OUTSTAT'' ''blocked'' n buf\<rparr>)
         | Acquired n \<Rightarrow>
             process_output s sys so ev
               (st\<lparr>os_status := put_times so ''OUTSTAT'' ''blocked'' n buf,
                   os_calls := os_calls st @ [Wait_filled i],
                   os_db := (os_db st)[i := oe_block ev]\<rparr>))"

text \<open>The main loop, and the final close when the threads are told to stop.\<close>

fun output_loop ::
  "site \<Rightarrow> 'f sys \<Rightarrow> 's status_ops \<Rightarrow> output_event list \<Rightarrow> ('f, 's) output_state \<Rightarrow> ('f, 's) output_state output_result" where
  "output_loop s sys so [] st =
     Out_done (if ef_file_open (os_etf st) then st\<lparr>os_etf := etfits_close sys (os_etf st)\<rparr> else st)"
| "output_loop s sys so (ev # evs) st =
     (case output_step s sys so ev st of
        Out_done st \<Rightarrow> output_loop s sys so evs st
      | Out_blocked st \<Rightarrow> Out_blocked st
      | Out_exit st \<Rightarrow> Out_exit st)"

end
