(* ===== verification/S6_Output_Props.thy ===== *)
theory S6_Output_Props
  imports S6_Output
begin

text \<open>
  Properties of the output thread and of the observatory status: idling, file changes, the
  file protocol over a whole run, the hand-over of blocks, and what is fetched from redis.
\<close>

subsection \<open>Idling\<close>

lemma idle_bits_eq:
  "SET_BIT flag k = set_bit k flag" "CLEAR_BIT flag k = unset_bit k flag" "BIT_IS_SET flag k = bit flag k"
  by (simp_all add: SET_BIT_def CLEAR_BIT_def BIT_IS_SET_def set_bit_def unset_bit_def bit_iff_and_push_bit_not_eq_0)

lemma check_idle_bit_bit:
  "k < 32 \<Longrightarrow> bit (check_idle_bit k bad flag) j = (if j = k then bad else bit flag j)"
  by (auto simp: check_idle_bit_def idle_bits_eq bit_set_bit_iff bit_unset_bit_iff bit_imp_le_length)

text \<open>The bits that the site uses.\<close>

definition flag_bits :: "site \<Rightarrow> u32 \<Rightarrow> bool" where
  "flag_bits s flag = (\<forall>j. bit flag j \<longrightarrow> j = 0 \<or> (j = 1 \<and> s = SOURCE_FAST) \<or> (j = 2 \<and> s = SOURCE_DIBAS))"

definition idle_condition :: "site \<Rightarrow> int \<Rightarrow> obs \<Rightarrow> bool" where
  "idle_condition s rv os =
     (rv \<noteq> 0 \<or> (s = SOURCE_FAST \<and> o_dbl os ''ADCRMS'' 0 < RMS_THRESH) \<or> (s = SOURCE_DIBAS \<and> atoi (o_str os ''IFV1BW'') = 0))"

lemma check_idle_bits:
  "bit (check_idle s rv os flag) j =
     (if j = 0 then rv \<noteq> 0
      else if j = 1 \<and> s = SOURCE_FAST then o_dbl os ''ADCRMS'' 0 < RMS_THRESH
      else if j = 2 \<and> s = SOURCE_DIBAS then atoi (o_str os ''IFV1BW'') = 0
      else bit flag j)"
  by (simp add: check_idle_def Let_def check_idle_bit_bit idle_redis_error_def idle_bad_rms_def idle_zero_IFV1BW_def)

theorem idle_tracks_current_block:
  assumes "flag_bits s flag" "idle \<in> {0, 1}"
  shows "flag_bits s (check_idle s rv os flag)
    \<and> idle_after (check_idle s rv os flag) idle = (if idle_condition s rv os then 1 else 0)"
proof -
  define flag' where "flag' = check_idle s rv os flag"
  have b: "flag_bits s flag'"
    using assms(1) unfolding flag_bits_def flag'_def check_idle_bits by (auto split: if_splits)
  have "flag' \<noteq> 0 \<longleftrightarrow> (\<exists>j. bit flag' j)"
    by (force simp: bit_eq_iff dest: bit_imp_le_length)
  also have "\<dots> \<longleftrightarrow> idle_condition s rv os"
  proof
    assume "\<exists>j. bit flag' j"
    then obtain j where j: "bit flag' j" ..
    with b have "j = 0 \<or> (j = 1 \<and> s = SOURCE_FAST) \<or> (j = 2 \<and> s = SOURCE_DIBAS)" by (auto simp: flag_bits_def)
    with j show "idle_condition s rv os" unfolding flag'_def check_idle_bits idle_condition_def by (auto split: if_splits)
  next
    assume "idle_condition s rv os"
    then consider "rv \<noteq> 0" | "s = SOURCE_FAST" "o_dbl os ''ADCRMS'' 0 < RMS_THRESH" | "s = SOURCE_DIBAS" "atoi (o_str os ''IFV1BW'') = 0"
      unfolding idle_condition_def by auto
    then show "\<exists>j. bit flag' j"
    proof cases
      case 1
      then have "bit flag' 0" by (simp add: flag'_def check_idle_bits)
      then show ?thesis ..
    next
      case 2
      then have "bit flag' 1" by (simp add: flag'_def check_idle_bits)
      then show ?thesis ..
    next
      case 3
      then have "bit flag' 2" by (simp add: flag'_def check_idle_bits)
      then show ?thesis ..
    qed
  qed
  finally show ?thesis
    using b assms(2) by (auto simp: flag'_def idle_after_def)
qed

theorem idle_tracks_current_block_witness:
  defines "flag \<equiv> check_idle SOURCE_DIBAS 0 zero_obs 0"
  shows "idle_after flag 0 = 1 \<and> idle_after (check_idle SOURCE_DIBAS 0 (set_str ''IFV1BW'' ''1500'' zero_obs) flag) 1 = 0"
proof -
  have a: "atoi [] = 0" "atoi ''1500'' = 1500"
    by (rule atoi_small, simp_all add: decimal_value_def isspace_def isdigit_def digits_value_def Let_def of_char_Char)+
  have "flag_bits SOURCE_DIBAS 0" by (simp add: flag_bits_def)
  note 1 = idle_tracks_current_block [OF this, of 0 0 zero_obs, folded flag_def]
  then have f: "flag_bits SOURCE_DIBAS flag" by simp
  show ?thesis
    using 1 idle_tracks_current_block [OF f, of 1 0 "set_str ''IFV1BW'' ''1500'' zero_obs"]
    by (simp add: idle_condition_def a) (simp add: zero_obs_def a)
qed

subsection \<open>The observation of a block\<close>

lemma observe_done:
  assumes "observe s so ev st = Out_done st'"
  obtains rv os where
    "(if os_testmode st' = 0
      then \<exists>os0. (s \<noteq> SOURCE_FAST \<longrightarrow> os0 = os_obs st) \<and>
        fetch_obs s (oe_redis ev) os0 (os_ao_static st, os_gbt_static st) = Fetched rv (os, os_ao_static st', os_gbt_static st')
      else rv = 0 \<and> os = testmode_obs s)"
    "os_idle_flag st' = check_idle s rv os (os_idle_flag st)"
    "os_idle st' = idle_after (os_idle_flag st') (os_idle st)"
    "os_obs st' = set_int ''coarse_chan_id'' 0
        (if s = SOURCE_FAST then 0 else int32_of (uint (oh_coarse_chan_id (ob_header (oe_block ev))))) os"
    "\<exists>ph. os_etf st' = (os_etf st)\<lparr>ef_primary_hdr := ph\<rparr>"
    "os_block_idx st' = os_block_idx st" "os_calls st' = os_calls st" "os_db st' = os_db st"
    "os_run_always st' = os_run_always st" "os_prior_run_always st' = os_prior_run_always st"
    "os_prior_receiver st' = os_prior_receiver st" "os_num_coarse_chan st' = os_num_coarse_chan st"
proof -
  obtain etf os0 where gm: "get_metadata s so (hput so (os_status st) ''OUTSTAT'' (Str ''processing'')) (ob_header (oe_block ev)) (os_etf st, os_obs st) = (etf, os0)"
    by (rule prod.exhaust)
  have etf: "\<exists>ph. etf = (os_etf st)\<lparr>ef_primary_hdr := ph\<rparr>"
  proof (cases "s = SOURCE_FAST")
    case True
    then show ?thesis using gm by (auto simp: get_metadata_def Let_def)
  next
    case False
    then have "etf = (os_etf st)\<lparr>ef_primary_hdr := ef_primary_hdr (os_etf st)\<rparr>" using gm by (simp add: get_metadata_def Let_def)
    then show ?thesis ..
  qed
  have os0: "s \<noteq> SOURCE_FAST \<Longrightarrow> os0 = os_obs st" using gm by (simp add: get_metadata_def Let_def)
  define tm where "tm = (case hgeti4 so (hput so (os_status st) ''OUTSTAT'' (Str ''processing'')) ''TESTMODE'' of
      Some v \<Rightarrow> v | None \<Rightarrow> os_testmode st)"
  define F where "F = (if tm = 0 then fetch_obs s (oe_redis ev) os0 (os_ao_static st, os_gbt_static st)
      else Fetched 0 (testmode_obs s, os_ao_static st, os_gbt_static st))"
  define buf0 where "buf0 = hput so (os_status st) ''OUTSTAT'' (Str ''processing'')"
  define st1 where "st1 = st\<lparr>os_etf := etf, os_testmode := tm, os_status := buf0\<rparr>"
  define G where "G = (\<lambda>F. case F of Fetch_exit \<Rightarrow> Out_exit st1 | Crash \<Rightarrow> Out_exit st1
      | Fetched rv (os, ao, gbt) \<Rightarrow>
             (let buf = (if s = SOURCE_FAST \<and> tm = 0 then hput so buf0 ''DUMPVOLT'' (i4 (o_int os ''DUMPVOLT'' 0)) else buf0);
                  flag = check_idle s rv os (os_idle_flag st1);
                  idle = idle_after flag (os_idle st1);
                  buf = hput so buf ''IDLE'' (i4 idle);
                  os = set_int ''coarse_chan_id'' 0
                    (if s = SOURCE_FAST then 0 else int32_of (uint (oh_coarse_chan_id (ob_header (oe_block ev))))) os
              in Out_done (st1\<lparr>os_obs := os, os_ao_static := ao, os_gbt_static := gbt, os_idle_flag := flag, os_idle := idle,
                              os_status := puts so (obs_puts s os) buf\<rparr>)))"
  have F': "F = (if tm = 0 then fetch_obs s (oe_redis ev) os0 (os_ao_static st1, os_gbt_static st1)
      else Fetched 0 (testmode_obs s, os_ao_static st1, os_gbt_static st1))"
    by (simp add: F_def st1_def)
  have "observe s so ev st = G F"
    unfolding observe_def Let_def G_def F'
      by (simp only: prod.case buf0_def [symmetric] gm [folded buf0_def] tm_def [folded buf0_def, symmetric] st1_def [symmetric])
  then have G: "G F = Out_done st'" using assms by simp
  obtain rv os ao gbt where F: "F = Fetched rv (os, ao, gbt)"
    using G by (cases F) (auto simp: G_def split: prod.splits)
  define os' where "os' = set_int ''coarse_chan_id'' 0
        (if s = SOURCE_FAST then 0 else int32_of (uint (oh_coarse_chan_id (ob_header (oe_block ev))))) os"
  define flag where "flag = check_idle s rv os (os_idle_flag st)"
  have "\<exists>buf. st' = st\<lparr>os_etf := etf, os_testmode := tm, os_obs := os', os_ao_static := ao, os_gbt_static := gbt,
      os_idle_flag := flag, os_idle := idle_after flag (os_idle st), os_status := buf\<rparr>"
    using G by (simp add: G_def F Let_def os'_def [symmetric] flag_def st1_def) (intro exI, erule sym)
  then obtain buf where st': "st' = st\<lparr>os_etf := etf, os_testmode := tm, os_obs := os', os_ao_static := ao, os_gbt_static := gbt,
      os_idle_flag := flag, os_idle := idle_after flag (os_idle st), os_status := buf\<rparr>" ..
  show thesis
  proof (rule that [of rv os])
    show "if os_testmode st' = 0
      then \<exists>os0. (s \<noteq> SOURCE_FAST \<longrightarrow> os0 = os_obs st) \<and>
        fetch_obs s (oe_redis ev) os0 (os_ao_static st, os_gbt_static st) = Fetched rv (os, os_ao_static st', os_gbt_static st')
      else rv = 0 \<and> os = testmode_obs s"
      using F os0 by (auto simp: st' F_def split: if_splits)
  qed (use etf in \<open>simp_all add: st' flag_def os'_def\<close>)
qed

subsection \<open>The life of the files over a run\<close>

lemma handle_file_change_inv:
  fixes st :: "('f \<times> (sys_op \<times> int) list, 's) output_state"
  assumes "file_inv s (os_etf st)"
  shows "file_inv s (os_etf (handle_file_change s (traced sys) oh st))"
proof (cases "file_change_due s oh st")
  case True
  show ?thesis
  proof (cases "ef_file_open (os_etf st)")
    case open_file: True
    then have "at_stage s (all_hdus s) (os_etf st)" using assms by (simp add: file_inv_def)
    then show ?thesis
      using True open_file close_phase [of s "all_hdus s" "os_etf st" sys]
      by (auto simp: handle_file_change_def file_inv_def at_stage_def)
  next
    case False
    then show ?thesis using True assms by (auto simp: handle_file_change_def file_inv_def)
  qed
qed (use assms in \<open>simp add: handle_file_change_def\<close>)

lemma primary_hdr_inv: "file_inv s (etf\<lparr>ef_primary_hdr := ph\<rparr>) = file_inv s etf"
  by (simp add: file_inv_def at_stage_def)

lemma file_chan_inv: "file_inv s (etf\<lparr>ef_file_chan := c\<rparr>) = file_inv s etf"
  by (simp add: file_inv_def at_stage_def)

lemma write_block_ok:
  "file_inv s etf \<Longrightarrow> write_ok s (write_block s (traced sys) env ob os etf)"
  by (cases s) (simp_all add: write_etfits_ok write_etfits_gbt_ok write_etfits_fast_ok file_chan_inv)

definition files_ok :: "site \<Rightarrow> ('f \<times> (sys_op \<times> int) list, 's) output_state output_result \<Rightarrow> bool" where
  "files_ok s r =
     (case r of
        Out_done st \<Rightarrow> file_inv s (os_etf st)
      | Out_blocked st \<Rightarrow> phase (trace (os_etf st)) \<noteq> Violated
      | Out_exit st \<Rightarrow> phase (trace (os_etf st)) \<noteq> Violated)"

lemma file_inv_phase: "file_inv s etf \<Longrightarrow> phase (trace etf) \<noteq> Violated"
  by (auto simp: file_inv_def at_stage_def split: if_splits)

lemma release_files: "file_inv s (os_etf st) \<Longrightarrow> files_ok s (release s so ev st)"
  by (auto simp: release_def Let_def files_ok_def file_inv_phase)

lemma observe_files:
  assumes "file_inv s (os_etf st)"
  shows "files_ok s (observe s so ev st)"
proof -
  obtain etf os where gm: "get_metadata s so (hput so (os_status st) ''OUTSTAT'' (Str ''processing'')) (ob_header (oe_block ev)) (os_etf st, os_obs st) = (etf, os)"
    by (rule prod.exhaust)
  have "file_inv s etf"
    using gm assms by (auto simp: get_metadata_def Let_def primary_hdr_inv split: if_splits)
  then show ?thesis
    using gm by (auto simp: observe_def Let_def files_ok_def file_inv_phase split: fetched.splits prod.splits)
qed

lemma output_step_files:
  assumes "file_inv s (os_etf st)"
  shows "files_ok s (output_step s (traced sys) so ev st)"
proof -
  have p: "files_ok s (process_output s (traced sys) so ev st1)" if "file_inv s (os_etf st1)" for st1
  proof (cases "observe s so ev st1")
    case (Out_done st2)
    define st3 where "st3 = handle_file_change s (traced sys) (ob_header (oe_block ev)) st2"
    have 3: "file_inv s (os_etf st3)"
      using observe_files [OF that, of so ev] Out_done unfolding st3_def by (intro handle_file_change_inv) (simp add: files_ok_def)
    then show ?thesis
      using write_block_ok [OF 3, of sys "oe_env ev" "oe_block ev" "os_obs st3"] Out_done
      by (auto simp: process_output_def st3_def [symmetric] files_ok_def [of _ "Out_exit _"] write_ok_def release_files split: outcome.splits)
  qed (use observe_files [OF that, of so ev] in \<open>simp_all add: process_output_def\<close>)
  show ?thesis
    using assms by (auto simp: output_step_def Let_def files_ok_def [of _ "Out_exit _"] files_ok_def [of _ "Out_blocked _"]
        file_inv_phase intro!: p split: wait_result.splits)
qed

text \<open>C9: Whatever cfitsio and the file system answer, the calls of the output thread follow the
  file protocol: a file is created only when none is open, headers and tables are written only
  into an open file, a closed file is renamed, and at the end of the loop no file is left
  open.\<close>
theorem files_follow_protocol:
  fixes f :: 'f
  shows "case output_loop s (traced sys) so evs (output_init s hostname dir (etf\<lparr>ef_fptr := (f, [])\<rparr>) os run_always db buf) of
      Out_done st \<Rightarrow> phase (trace (os_etf st)) = No_file \<and> \<not> ef_file_open (os_etf st)
    | Out_blocked st \<Rightarrow> phase (trace (os_etf st)) \<noteq> Violated
    | Out_exit st \<Rightarrow> phase (trace (os_etf st)) \<noteq> Violated"
proof -
  have "case output_loop s (traced sys) so evs st of
      Out_done st \<Rightarrow> phase (trace (os_etf st)) = No_file \<and> \<not> ef_file_open (os_etf st)
    | Out_blocked st \<Rightarrow> phase (trace (os_etf st)) \<noteq> Violated
    | Out_exit st \<Rightarrow> phase (trace (os_etf st)) \<noteq> Violated" if "file_inv s (os_etf st)" for st
    using that
  proof (induction evs arbitrary: st)
    case Nil
    then show ?case
      using close_phase [of s "all_hdus s" "os_etf st" sys] by (auto simp: file_inv_def split: if_splits)
  next
    case (Cons ev evs)
    have "files_ok s (output_step s (traced sys) so ev st)" by (rule output_step_files [OF Cons.prems])
    then show ?case
      by (cases "output_step s (traced sys) so ev st") (use Cons.IH in \<open>simp_all add: files_ok_def\<close>)
  qed
  moreover have "file_inv s (init_etfits hostname dir (etf\<lparr>ef_fptr := (f, [])\<rparr>))"
    by (rule init_file_inv) (simp add: trace_def)
  ultimately show ?thesis by (simp add: output_init_def)
qed

subsection \<open>The hand-over of blocks\<close>

definition output_calls :: "nat \<Rightarrow> nat \<Rightarrow> ring_call list" where
  "output_calls k n = concat (map (\<lambda>j. [Wait_filled (j mod N_OUTPUT_BLOCKS), Set_free (j mod N_OUTPUT_BLOCKS)]) [k..<k + n])"

lemma handle_file_change_simps [simp]:
  "os_block_idx (handle_file_change s sys oh st) = os_block_idx st" "os_calls (handle_file_change s sys oh st) = os_calls st"
  "os_db (handle_file_change s sys oh st) = os_db st" "os_obs (handle_file_change s sys oh st) = os_obs st"
  "os_testmode (handle_file_change s sys oh st) = os_testmode st" "os_idle (handle_file_change s sys oh st) = os_idle st"
  "os_idle_flag (handle_file_change s sys oh st) = os_idle_flag st"
  "os_run_always (handle_file_change s sys oh st) = os_run_always st"
  by (simp_all add: handle_file_change_def Let_def)

lemma release_done:
  "release s so ev st = Out_done st' \<Longrightarrow>
   os_block_idx st' = (os_block_idx st + 1) mod N_OUTPUT_BLOCKS \<and> os_calls st' = os_calls st @ [Set_free (os_block_idx st)] \<and>
   os_db st' = (os_db st)[os_block_idx st := zero_out_block s] \<and> os_etf st' = os_etf st \<and> os_obs st' = os_obs st \<and>
   os_testmode st' = os_testmode st \<and> os_idle st' = os_idle st \<and> os_idle_flag st' = os_idle_flag st \<and>
   os_prior_receiver st' = os_prior_receiver st \<and> os_run_always st' = os_run_always st"
  by (auto simp: release_def Let_def split: if_splits)

lemma output_step_done:
  assumes "output_step s sys so ev st = Out_done st'"
  obtains st1 st2 st3 etf where "observe s so ev st1 = Out_done st2"
    "os_block_idx st1 = os_block_idx st" "os_etf st1 = os_etf st" "os_calls st1 = os_calls st @ [Wait_filled (os_block_idx st)]"
    "os_db st1 = (os_db st)[os_block_idx st := oe_block ev]" "os_idle st1 = os_idle st" "os_idle_flag st1 = os_idle_flag st"
    "os_prior_receiver st1 = os_prior_receiver st" "os_ao_static st1 = os_ao_static st" "os_gbt_static st1 = os_gbt_static st"
    "os_obs st1 = os_obs st" "st3 = handle_file_change s sys (ob_header (oe_block ev)) st2"
    "release s so ev (st3\<lparr>os_etf := etf\<rparr>) = Out_done st'"
    "write_enabled s st3 \<Longrightarrow> write_block s sys (oe_env ev) (oe_block ev) (os_obs st3) (os_etf st3) = Running etf \<and> ef_status etf = 0"
proof -
  obtain n st1 where st1: "await (oe_waits ev) 0 = Acquired n" "process_output s sys so ev st1 = Out_done st'"
    "os_block_idx st1 = os_block_idx st" "os_etf st1 = os_etf st" "os_calls st1 = os_calls st @ [Wait_filled (os_block_idx st)]"
    "os_db st1 = (os_db st)[os_block_idx st := oe_block ev]" "os_idle st1 = os_idle st" "os_idle_flag st1 = os_idle_flag st"
    "os_prior_receiver st1 = os_prior_receiver st" "os_ao_static st1 = os_ao_static st" "os_gbt_static st1 = os_gbt_static st"
    "os_obs st1 = os_obs st"
    using assms by (auto simp: output_step_def Let_def split: wait_result.splits)
  then obtain st2 where st2: "observe s so ev st1 = Out_done st2"
    by (auto simp: process_output_def split: output_result.splits)
  define st3 where "st3 = handle_file_change s sys (ob_header (oe_block ev)) st2"
  show thesis
  proof (cases "write_enabled s st3")
    case True
    then obtain etf where "write_block s sys (oe_env ev) (oe_block ev) (os_obs st3) (os_etf st3) = Running etf" "ef_status etf = 0"
      "release s so ev (st3\<lparr>os_etf := etf\<rparr>) = Out_done st'"
      using st1(2) by (auto simp: process_output_def st2 st3_def [symmetric] Let_def split: outcome.splits if_splits)
    then show thesis using st1(3-12) by (intro that [OF st2 _ _ _ _ _ _ _ _ _ _ st3_def]) simp_all
  next
    case False
    then have "release s so ev (st3\<lparr>os_etf := os_etf st3\<rparr>) = Out_done st'"
      using st1(2) by (simp add: process_output_def st2 st3_def [symmetric] Let_def)
    then show thesis using st1(3-12) False by (intro that [where etf = "os_etf st3", OF st2 _ _ _ _ _ _ _ _ _ _ st3_def]) simp_all
  qed
qed

text \<open>C30: For each block the output thread waits for the next slot of the ring, zeroes that
  block, frees it, leaves the others alone and moves one slot on.\<close>
theorem output_frees_cleared_blocks:
  assumes "output_step s sys so ev st = Out_done st'" "os_block_idx st = n mod N_OUTPUT_BLOCKS" "length (os_db st) = N_OUTPUT_BLOCKS"
  shows "os_calls st' = os_calls st @ [Wait_filled (n mod N_OUTPUT_BLOCKS), Set_free (n mod N_OUTPUT_BLOCKS)]
    \<and> os_block_idx st' = Suc n mod N_OUTPUT_BLOCKS
    \<and> os_db st' ! (n mod N_OUTPUT_BLOCKS) = zero_out_block s
    \<and> (\<forall>j. j \<noteq> n mod N_OUTPUT_BLOCKS \<longrightarrow> os_db st' ! j = os_db st ! j) \<and> length (os_db st') = N_OUTPUT_BLOCKS"
proof -
  obtain st1 st2 st3 etf where S: "observe s so ev st1 = Out_done st2"
    "os_block_idx st1 = os_block_idx st" "os_etf st1 = os_etf st" "os_calls st1 = os_calls st @ [Wait_filled (os_block_idx st)]"
    "os_db st1 = (os_db st)[os_block_idx st := oe_block ev]"
    "st3 = handle_file_change s sys (ob_header (oe_block ev)) st2" "release s so ev (st3\<lparr>os_etf := etf\<rparr>) = Out_done st'"
    using output_step_done [OF assms(1)] by metis
  have 2: "os_block_idx st2 = os_block_idx st" "os_calls st2 = os_calls st @ [Wait_filled (os_block_idx st)]"
    "os_db st2 = (os_db st)[os_block_idx st := oe_block ev]"
    using observe_done [OF S(1)] S(2,4,5) by metis+
  have i: "n mod N_OUTPUT_BLOCKS < length (os_db st)" using assms(3) by (simp add: N_OUTPUT_BLOCKS_def)
  show ?thesis
    using release_done [OF S(7)] assms(2,3) i by (simp add: S(6) 2 mod_Suc_eq)
qed

subsection \<open>A change of receiver\<close>

lemma fold_fits_ops_cnt: "ef_integration_cnt (fold (\<lambda>b. fits_ops sys (g b)) bs etf) = ef_integration_cnt etf"
  by (induction bs arbitrary: etf) simp_all

lemma write_ccpwrs_cnt: "ef_integration_cnt (snd (write_ccpwrs s sys ob etf)) = ef_integration_cnt etf"
  by (simp add: write_ccpwrs_def write_ccpwrs_header_def Let_def fold_fits_ops_cnt)

lemma write_hits_cnt:
  "write_hits s sys ob etf = Inr (n, e) \<Longrightarrow> ef_integration_cnt e = ef_integration_cnt etf"
  using write_hits_fold_frame [of s sys ob "borspols s" 0 "etf\<lparr>ef_status := 0, ef_beampol_cnt := 0\<rparr>"]
  by (auto simp: write_hits_eq Let_def takeWhile_fit split: if_splits)

lemma header_cnt:
  "ef_integration_cnt (write_integration_header sys os etf) = ef_integration_cnt etf"
  "ef_integration_cnt (write_integration_header_gbt sys os etf) = ef_integration_cnt etf"
  "ef_integration_cnt (write_integration_header_fast sys os etf) = ef_integration_cnt etf"
  by (simp_all add: write_integration_header_def write_integration_header_gbt_def write_integration_header_fast_def)

lemma if_ok_cnt:
  "(\<And>e. ef_integration_cnt (snd (f e)) = ef_integration_cnt e) \<Longrightarrow>
   ef_integration_cnt (snd (if_ok f acc)) = ef_integration_cnt (snd acc)"
  by (simp add: if_ok_def)

lemma check_for_file_roll_cnt: "ef_integration_cnt (check_for_file_roll sys etf) = ef_integration_cnt etf"
proof -
  define e2 where "e2 = fits_call sys Flush_file etf"
  obtain r e3 where sc: "sys_call sys (Stat (ef_filename_working e2)) e2 = (r, e3)" by (rule prod.exhaust)
  have "ef_integration_cnt e3 = ef_integration_cnt etf"
    using sys_call_simps(6) [of sys "Stat (ef_filename_working e2)" e2] unfolding sc snd_conv by (simp add: e2_def)
  then show ?thesis by (simp add: check_for_file_roll_def Let_def e2_def [symmetric] sc)
qed

lemma finish_write_cnt:
  "finish_write sys n etf = Running etf' \<Longrightarrow> ef_integration_cnt etf' = ef_integration_cnt etf + 1"
  by (auto simp: finish_write_def Let_def check_for_file_roll_cnt split: if_splits)

lemma hits_and_finish_cnt:
  "hits_and_finish s sys ob acc = Running e \<Longrightarrow> ef_integration_cnt e = ef_integration_cnt (snd acc) + 1"
  by (auto simp: hits_and_finish_def write_hits_cnt dest!: finish_write_cnt split: if_splits sum.splits)

lemma create_cnt: "ef_integration_cnt (etfits_create s sys env etf) = ef_integration_cnt etf"
proof -
  have "ef_integration_cnt (fits_guarded sys op e) = ef_integration_cnt e" for op e
    using fits_ops_simps(6) [of sys "[op]" e] by (simp add: fits_ops_Cons)
  moreover have "ef_integration_cnt (start_run sys e) = ef_integration_cnt e" for e
    by (simp add: start_run_def Let_def split: option.splits)
  ultimately show ?thesis by (simp add: etfits_create_def Let_def)
qed

lemma change_file_cnt:
  assumes "change_file s sys env rcvr oh etf = Running e" "ef_new_run etf \<Longrightarrow> ef_integration_cnt etf = 0"
  shows "ef_integration_cnt e = (if ef_new_run etf \<or> ef_new_file etf then 0 else ef_integration_cnt etf)"
  using assms by (auto simp: change_file_def Let_def create_cnt write_primary_header_def split: if_splits)

lemma write_block_cnt:
  assumes "write_block s sys env ob os etf = Running e" "ef_new_run etf \<Longrightarrow> ef_integration_cnt etf = 0"
  shows "ef_integration_cnt e = (if ef_new_run etf \<or> ef_new_file etf then 0 else ef_integration_cnt etf) + 1"
proof -
  obtain rcvr e0 etf0 where c: "change_file s sys env rcvr (ob_header ob) etf0 = Running e0"
    "etf0 = etf\<lparr>ef_file_chan := ef_file_chan etf0, ef_status := 0\<rparr>" "ef_integration_cnt e = ef_integration_cnt e0 + 1"
  proof (cases s)
    case SOURCE_S6
    then show thesis using assms(1)
      by (auto simp: write_etfits_def Let_def if_ok_cnt write_ccpwrs_cnt header_cnt
          split: outcome.splits dest!: hits_and_finish_cnt intro: that)
  next
    case SOURCE_DIBAS
    then show thesis using assms(1)
      by (auto simp: write_etfits_gbt_def Let_def if_ok_cnt write_ccpwrs_cnt header_cnt
          split: outcome.splits dest!: hits_and_finish_cnt intro: that)
  next
    case SOURCE_FAST
    then show thesis using assms(1)
      by (auto simp: write_etfits_fast_def Let_def if_ok_cnt header_cnt
          split: outcome.splits dest!: hits_and_finish_cnt intro: that)
  qed
  have e0: "ef_new_run etf0 = ef_new_run etf" "ef_new_file etf0 = ef_new_file etf" "ef_integration_cnt etf0 = ef_integration_cnt etf"
    by (subst c(2), simp)+
  then show ?thesis using change_file_cnt [OF c(1)] assms(2) c(3) by simp
qed

theorem receiver_change_starts_file:
  assumes "output_step s sys so ev st = Out_done st'"
    and "os_testmode st' = 0" "current_receiver s (os_obs st') \<noteq> os_prior_receiver st" "write_enabled s st'"
    and "ef_new_run (os_etf st) \<Longrightarrow> ef_integration_cnt (os_etf st) = 0"
  shows "ef_integration_cnt (os_etf st') = 1 \<and> os_prior_receiver st' = current_receiver s (os_obs st')"
proof -
  obtain st1 st2 st3 e where S: "observe s so ev st1 = Out_done st2"
    "os_block_idx st1 = os_block_idx st" "os_etf st1 = os_etf st" "os_prior_receiver st1 = os_prior_receiver st"
    "st3 = handle_file_change s sys (ob_header (oe_block ev)) st2" "release s so ev (st3\<lparr>os_etf := e\<rparr>) = Out_done st'"
    "write_enabled s st3 \<Longrightarrow> write_block s sys (oe_env ev) (oe_block ev) (os_obs st3) (os_etf st3) = Running e \<and> ef_status e = 0"
    using output_step_done [OF assms(1)] by metis
  obtain ph where 2: "os_etf st2 = (os_etf st)\<lparr>ef_primary_hdr := ph\<rparr>" "os_prior_receiver st2 = os_prior_receiver st"
    using observe_done [OF S(1)] S(3,4) by metis
  note R = release_done [OF S(6)]
  have same: "os_obs st' = os_obs st2" "os_testmode st' = os_testmode st2" "os_run_always st' = os_run_always st3"
    using R by (simp_all add: S(5))
  have due: "file_change_due s (ob_header (oe_block ev)) st2"
    using assms(2,3) same 2(2) by (simp add: file_change_due_def)
  have "write_enabled s st3"
    using assms(4) R by (cases s) (simp_all add: S(5))
  then have w: "write_block s sys (oe_env ev) (oe_block ev) (os_obs st3) (os_etf st3) = Running e" using S(7) by blast
  have "ef_new_file (os_etf st3)" "ef_new_run (os_etf st3) \<Longrightarrow> ef_integration_cnt (os_etf st3) = 0"
    using due assms(5) 2(1) by (auto simp: S(5) handle_file_change_def Let_def etfits_close_def split: if_splits)
  then have "ef_integration_cnt e = 1" using write_block_cnt [OF w] by simp
  moreover have "os_prior_receiver st3 = current_receiver s (os_obs st2)"
    using due by (simp add: S(5) handle_file_change_def Let_def)
  ultimately show ?thesis using R same by simp
qed

subsection \<open>Without errors every write succeeds\<close>

lemma fits_ops_no_errors: "no_errors sys \<Longrightarrow> ef_status etf = 0 \<Longrightarrow> ef_status (fits_ops sys ops etf) = 0"
  by (rule fits_ops_succeed) (simp_all add: no_errors_def)

lemma fits_call_no_errors: "no_errors sys \<Longrightarrow> ef_status (fits_call sys op etf) = 0"
  by (simp add: fits_call_def sys_call_def no_errors_def Let_def split: prod.splits) (metis snd_conv)

lemma create_no_errors: "no_errors sys \<Longrightarrow> ef_status (etfits_create s sys env etf) = 0"
  by (auto simp: etfits_create_def Let_def fits_guarded_def fits_call_no_errors start_run_def split: option.splits)

lemma change_file_no_errors:
  assumes "no_errors sys" "ef_status etf = 0"
  shows "\<exists>e. change_file s sys env rcvr oh etf = Running e \<and> ef_status e = 0"
  using assms by (simp add: change_file_def Let_def create_no_errors write_primary_header_def fits_ops_no_errors)

lemma write_ccpwrs_no_errors: "no_errors sys \<Longrightarrow> ef_status (snd (write_ccpwrs s sys ob etf)) = 0"
proof -
  assume ne: "no_errors sys"
  have "ef_status (fold (\<lambda>b. fits_ops sys (g b)) bs e) = 0" if "ef_status e = 0" for g :: "nat \<Rightarrow> sys_op list" and bs e
    using that by (induction bs arbitrary: e) (simp_all add: fits_ops_no_errors [OF ne])
  then show ?thesis by (simp add: write_ccpwrs_def write_ccpwrs_header_def Let_def fits_ops_no_errors [OF ne])
qed

lemma write_hits_no_errors:
  assumes "no_errors sys" "list_all (hits_fit s ob) (borspols s)"
  shows "\<exists>n e. write_hits s sys ob etf = Inr (n, e) \<and> ef_status e = 0"
proof -
  have "ef_status (snd (fold (write_group s sys ob) gs (n, e))) = 0" if "ef_status e = 0" for gs n e
    using that by (induction gs arbitrary: n e) (simp_all add: write_group_pair fits_ops_no_errors [OF assms(1)])
  from this [of "etf\<lparr>ef_status := 0, ef_beampol_cnt := 0\<rparr>" "borspols s" 0] show ?thesis
    using assms(2) by (simp add: write_hits_eq takeWhile_fit)
qed

lemma finish_no_errors:
  assumes "no_errors sys" "ef_status etf = 0"
  shows "\<exists>e. finish_write sys n etf = Running e \<and> ef_status e = 0"
proof -
  have "ef_status (check_for_file_roll sys e) = 0" for e
  proof -
    obtain r e3 where sc: "sys_call sys (Stat (ef_filename_working (fits_call sys Flush_file e))) (fits_call sys Flush_file e) = (r, e3)"
      by (rule prod.exhaust)
    have "ef_status e3 = 0"
      using sys_call_simps(7) [of sys "Stat (ef_filename_working (fits_call sys Flush_file e))" "fits_call sys Flush_file e"]
      unfolding sc snd_conv by (simp add: fits_call_no_errors [OF assms(1)])
    then show ?thesis unfolding check_for_file_roll_def Let_def sc by simp
  qed
  then show ?thesis using assms(2) by (simp add: finish_write_def Let_def)
qed

lemma if_ok_no_errors:
  "ef_status (snd acc) = 0 \<Longrightarrow> (\<And>e. ef_status (snd (f e)) = 0) \<Longrightarrow> ef_status (snd (if_ok f acc)) = 0"
  by (simp add: if_ok_def)

lemma header_no_errors:
  assumes "no_errors sys"
  shows "ef_status (write_integration_header sys os etf) = 0" "ef_status (write_integration_header_gbt sys os etf) = 0"
    "ef_status (write_integration_header_fast sys os etf) = 0"
  by (simp_all add: write_integration_header_def write_integration_header_gbt_def write_integration_header_fast_def
      fits_ops_no_errors [OF assms])

lemma hits_and_finish_no_errors:
  assumes "no_errors sys" "list_all (hits_fit s ob) (borspols s)" "ef_status (snd acc) = 0"
  shows "\<exists>e. hits_and_finish s sys ob acc = Running e \<and> ef_status e = 0"
proof -
  obtain n e where "write_hits s sys ob (snd acc) = Inr (n, e)" "ef_status e = 0"
    using write_hits_no_errors [OF assms(1,2)] by blast
  then show ?thesis using finish_no_errors [OF assms(1)] assms(3) by (simp add: hits_and_finish_def)
qed

lemma write_succeeds:
  assumes "no_errors sys" "list_all (hits_fit s ob) (borspols s)"
  shows "\<exists>e. write_block s sys env ob os etf = Running e \<and> ef_status e = 0"
proof (cases s)
  case SOURCE_S6
  obtain e where "change_file SOURCE_S6 sys env (receiver SOURCE_S6 ! nat (o_int os ''receiver'' 0)) (ob_header ob)
      (etf\<lparr>ef_file_chan := o_int os ''coarse_chan_id'' 0, ef_status := 0\<rparr>) = Running e" "ef_status e = 0"
    using change_file_no_errors [OF assms(1), of "etf\<lparr>ef_file_chan := o_int os ''coarse_chan_id'' 0, ef_status := 0\<rparr>" SOURCE_S6 env "receiver SOURCE_S6 ! nat (o_int os ''receiver'' 0)" "ob_header ob"] by auto
  then show ?thesis unfolding SOURCE_S6 write_block.simps write_etfits_def Let_def
    by (simp add: hits_and_finish_no_errors [OF assms(1) assms(2) [unfolded SOURCE_S6]] if_ok_no_errors header_no_errors [OF assms(1)]
        write_ccpwrs_no_errors [OF assms(1)])
next
  case SOURCE_DIBAS
  obtain e where "change_file SOURCE_DIBAS sys env (o_str os ''RECEIVER'') (ob_header ob)
      (etf\<lparr>ef_file_chan := o_int os ''coarse_chan_id'' 0, ef_status := 0\<rparr>) = Running e" "ef_status e = 0"
    using change_file_no_errors [OF assms(1), of "etf\<lparr>ef_file_chan := o_int os ''coarse_chan_id'' 0, ef_status := 0\<rparr>" SOURCE_DIBAS env "o_str os ''RECEIVER''" "ob_header ob"] by auto
  then show ?thesis unfolding SOURCE_DIBAS write_block.simps write_etfits_gbt_def Let_def
    by (simp add: hits_and_finish_no_errors [OF assms(1) assms(2) [unfolded SOURCE_DIBAS]] if_ok_no_errors header_no_errors [OF assms(1)]
        write_ccpwrs_no_errors [OF assms(1)])
next
  case SOURCE_FAST
  obtain e where "change_file SOURCE_FAST sys env (o_str os ''RECEIVER'') (ob_header ob)
      (etf\<lparr>ef_file_chan := 0, ef_status := 0\<rparr>) = Running e" "ef_status e = 0"
    using change_file_no_errors [OF assms(1), of "etf\<lparr>ef_file_chan := 0, ef_status := 0\<rparr>" SOURCE_FAST env "o_str os ''RECEIVER''" "ob_header ob"] by auto
  then show ?thesis unfolding SOURCE_FAST write_block.simps write_etfits_fast_def Let_def
    by (simp add: hits_and_finish_no_errors [OF assms(1) assms(2) [unfolded SOURCE_FAST]] if_ok_no_errors header_no_errors [OF assms(1)])
qed

text \<open>A block without hits.\<close>

lemma blank_fits: "list_all (hits_fit s (blank_out s)) (borspols s)"
  by (rule bounded_hits_fit) (simp add: blank_out_def list_all_iff MAXHITS_def)

definition demo_env :: write_env where
  "demo_env = \<lparr>we_localtime = (2016, 5, 1, 12, 0, 0), we_date = ''2016-05-01''\<rparr>"

text \<open>A redis that answers every query with an error, and a block of hits.\<close>

definition demo_output_event :: "site \<Rightarrow> output_event" where
  "demo_output_event s = \<lparr>oe_runsecs = 1, oe_waits = [HASHPIPE_TIMEOUT, HASHPIPE_OK], oe_block = blank_out s,
     oe_redis = \<lparr>re_connected = True, re_obs_context = True, re_redis = (\<lambda>q. Reply_error), re_now = 0, re_mjd1 = 0, re_mjd2 = 0,
       re_beyond = [], re_put_connected = True, re_gethostname = 0\<rparr>,
     oe_env = demo_env, oe_error_count = 0\<rparr>"

definition demo_output_state :: "int \<Rightarrow> u32 \<Rightarrow> (unit, (string \<times> stval) list) output_state" where
  "demo_output_state run_always testmode = output_init SOURCE_FAST ''host'' None (demo_etf ()) (set_str ''RECEIVER'' ''FAST_19'' zero_obs) run_always
     (replicate N_OUTPUT_BLOCKS (blank_out SOURCE_FAST)) [(''TESTMODE'', I4 testmode)]"

lemma demo_output_step:
  "\<exists>st'. output_step SOURCE_FAST quiet_sys list_status (demo_output_event SOURCE_FAST) (demo_output_state ra tm) = Out_done st' \<and>
     os_testmode st' = sint tm \<and> (sint tm = 0 \<longrightarrow> o_str (os_obs st') ''RECEIVER'' = ''FAST_19'') \<and> os_run_always st' = ra"
proof -
  define st0 where "st0 = (demo_output_state ra tm)\<lparr>os_status := put_times list_status ''OUTSTAT'' ''blocked'' 1
      (puts list_status [(''OUTBLKIN'', i4 0), (''OUTSTAT'', Str ''waiting''), (''RUNSECS'', i4 1)] [(''TESTMODE'', I4 tm)]),
      os_calls := [Wait_filled 0], os_db := (os_db (demo_output_state ra tm))[0 := blank_out SOURCE_FAST]\<rparr>"
  have step: "output_step SOURCE_FAST quiet_sys list_status (demo_output_event SOURCE_FAST) (demo_output_state ra tm) =
      process_output SOURCE_FAST quiet_sys list_status (demo_output_event SOURCE_FAST) st0"
    by (simp add: output_step_def Let_def demo_output_event_def demo_output_state_def output_init_def st0_def puts_def
        list_status_def)
  obtain st1 where 1: "observe SOURCE_FAST list_status (demo_output_event SOURCE_FAST) st0 = Out_done st1"
    "os_testmode st1 = sint tm" "sint tm = 0 \<Longrightarrow> o_str (os_obs st1) ''RECEIVER'' = ''FAST_19''" "os_run_always st1 = ra"
    by (cases "sint tm = 0") (simp_all add: observe_def get_metadata_def Let_def st0_def demo_output_state_def output_init_def demo_output_event_def
        get_obs_fast_info_from_redis_def s6_redis_get_def list_status_def puts_def put_times_def)
  define st2 where "st2 = handle_file_change SOURCE_FAST quiet_sys (ob_header (blank_out SOURCE_FAST)) st1"
  have rel: "\<exists>st'. release SOURCE_FAST list_status (demo_output_event SOURCE_FAST) st = Out_done st' \<and>
      os_testmode st' = os_testmode st \<and> os_obs st' = os_obs st \<and> os_run_always st' = os_run_always st"
    for st :: "(unit, (string \<times> stval) list) output_state"
    by (simp add: release_def Let_def)
  have "\<exists>st'. process_output SOURCE_FAST quiet_sys list_status (demo_output_event SOURCE_FAST) st0 = Out_done st' \<and>
      os_testmode st' = os_testmode st2 \<and> os_obs st' = os_obs st2 \<and> os_run_always st' = os_run_always st2"
  proof (cases "write_enabled SOURCE_FAST st2")
    case False
    then show ?thesis using rel [of st2] 1(1) by (simp add: process_output_def st2_def [symmetric] demo_output_event_def)
  next
    case True
    obtain e where "write_block SOURCE_FAST quiet_sys demo_env (blank_out SOURCE_FAST) (os_obs st2) (os_etf st2) = Running e" "ef_status e = 0"
      using write_succeeds [OF quiet_no_errors blank_fits] by blast
    then show ?thesis using rel [of "st2\<lparr>os_etf := e\<rparr>"] 1(1) True
      by (simp add: process_output_def st2_def [symmetric] demo_output_event_def)
  qed
  then show ?thesis using 1 by (auto simp: step st2_def)
qed

theorem output_frees_cleared_blocks_witness:
  "\<exists>st'. output_step SOURCE_FAST quiet_sys list_status (demo_output_event SOURCE_FAST) (demo_output_state 0 0) = Out_done st' \<and>
     os_calls st' = [Wait_filled 0, Set_free 0] \<and> os_db st' ! 0 = zero_out_block SOURCE_FAST"
proof -
  obtain st' where st': "output_step SOURCE_FAST quiet_sys list_status (demo_output_event SOURCE_FAST) (demo_output_state 0 0) = Out_done st'"
    using demo_output_step by blast
  show ?thesis
    using output_frees_cleared_blocks [OF st', of 0] st' by (simp add: demo_output_state_def output_init_def)
qed

theorem receiver_change_starts_file_witness:
  "\<exists>st'. output_step SOURCE_FAST quiet_sys list_status (demo_output_event SOURCE_FAST) (demo_output_state 1 0) = Out_done st' \<and>
     ef_integration_cnt (os_etf st') = 1 \<and> os_prior_receiver st' = Rec_name ''FAST_19''"
proof -
  obtain st' where st': "output_step SOURCE_FAST quiet_sys list_status (demo_output_event SOURCE_FAST) (demo_output_state 1 0) = Out_done st'"
    "os_testmode st' = 0" "o_str (os_obs st') ''RECEIVER'' = ''FAST_19''" "os_run_always st' = 1"
    using demo_output_step [of 1 0] by auto
  show ?thesis
    using receiver_change_starts_file [OF st'(1)] st'
    by (simp add: demo_output_state_def output_init_def current_receiver_def demo_etf_def init_etfits_def)
qed

subsection \<open>The time stamp of a FAST block\<close>

lemma assign_all_str:
  assumes "assign_all ms els os = Some os'" "\<forall>n. Strcpy f n \<notin> set ms"
  shows "o_str os' f = o_str os f"
  using assms
proof (induction ms els os rule: assign_all.induct)
  case (2 m ms str els os)
  have "o_str (assign m str os) f = o_str os f"
    using 2(3) by (cases m) auto
  then show ?case using 2 by simp
qed simp_all

lemma fast_members_no_str: "\<forall>n. Strcpy f n \<notin> set fast_members"
  by (auto simp: fast_members_def)

lemma observe_testmode:
  assumes "observe s so ev st = Out_done st'" "os_testmode st' \<noteq> 0"
  shows "os_idle_flag st' = check_idle s 0 (testmode_obs s) (os_idle_flag st) \<and>
    os_idle st' = idle_after (os_idle_flag st') (os_idle st) \<and>
    os_obs st' = set_int ''coarse_chan_id'' 0
      (if s = SOURCE_FAST then 0 else int32_of (uint (oh_coarse_chan_id (ob_header (oe_block ev))))) (testmode_obs s)"
  by (rule observe_done [OF assms(1)]) (use assms(2) in simp)

text \<open>\<open>TIME\<close> of the status header is the observatory's time stamp or zero, never the block's time.\<close>

theorem fast_status_time_is_not_the_blocks:
  assumes "output_step SOURCE_FAST sys so ev st = Out_done st'" "os_testmode st' \<noteq> 0"
  shows "o_dbl (os_obs st') ''TIME'' 0 = 0 \<and> os_idle st' \<noteq> 0"
proof -
  obtain st1 st2 st3 etf where S: "observe SOURCE_FAST so ev st1 = Out_done st2"
    "st3 = handle_file_change SOURCE_FAST sys (ob_header (oe_block ev)) st2" "release SOURCE_FAST so ev (st3\<lparr>os_etf := etf\<rparr>) = Out_done st'"
    using output_step_done [OF assms(1)] by metis
  have same: "os_obs st' = os_obs st2" "os_testmode st' = os_testmode st2" "os_idle st' = os_idle st2"
    using release_done [OF S(3)] by (simp_all add: S(2))
  have O: "os_idle_flag st2 = check_idle SOURCE_FAST 0 (testmode_obs SOURCE_FAST) (os_idle_flag st1)"
    "os_idle st2 = idle_after (os_idle_flag st2) (os_idle st1)" "os_obs st2 = set_int ''coarse_chan_id'' 0 0 (testmode_obs SOURCE_FAST)"
    using observe_testmode [OF S(1)] assms(2) same(2) by simp_all
  have "bit (os_idle_flag st2) 1"
    by (simp add: O(1) check_idle_bits zero_obs_def RMS_THRESH_def)
  then have "os_idle_flag st2 \<noteq> 0" by auto
  then show ?thesis using O(2,3) same by (simp add: idle_after_def zero_obs_def)
qed

theorem fast_status_time_is_not_the_blocks_witness:
  "\<exists>st'. output_step SOURCE_FAST quiet_sys list_status (demo_output_event SOURCE_FAST) (demo_output_state 1 1) = Out_done st' \<and>
     os_idle st' \<noteq> 0"
proof -
  obtain st' where st': "output_step SOURCE_FAST quiet_sys list_status (demo_output_event SOURCE_FAST) (demo_output_state 1 1) = Out_done st'"
    "os_testmode st' = 1"
    using demo_output_step [of 1 1] by auto
  show ?thesis using fast_status_time_is_not_the_blocks [OF st'(1)] st' by simp
qed

subsection \<open>Green Bank members that are never fetched\<close>

definition row_members :: "(string \<times> string \<times> member) list \<Rightarrow> member list" where
  "row_members rows = map (\<lambda>(n, f, m). m) rows"

definition gbt_members :: "member list" where
  "gbt_members = row_members (mysql_rows @ cleo_rows_1 @ cleo_rows_2) @ [Atoi ''WEBCNTRL'' 0] @ row_members adc_rows
     @ clocksyn_members @ birdisyn_members"

fun string_member :: "member \<Rightarrow> string option" where
  "string_member (Strcpy f n) = Some f"
| "string_member m = None"

definition unfetched_strings :: "string list" where
  "unfetched_strings = [''VEGSFBW2'', ''VEGSFBW3'', ''VEGSFBW4'', ''VEGSFBW5'', ''VEGSFBW6'', ''VEGSFBW7'', ''VEGSFBW8'',
    ''VEGSSBBM'', ''VEGSSBCM'', ''VEGSSBDM'', ''VEGSSBEM'', ''VEGSSBFM'', ''VEGSSBGM'', ''VEGSSBHM'']"

fun vegas_string :: "member \<Rightarrow> bool" where
  "vegas_string (Strcpy (c1 # c2 # c3 # c4 # cs) n) = (c4 = CHR ''S'' \<and> c1 = CHR ''V'' \<and> c3 = CHR ''G'')"
| "vegas_string m = False"

lemma vegas_members: "filter vegas_string gbt_members = [Strcpy ''VEGSFBW1'' 32, Strcpy ''VEGSSBAM'' 32]"
  by (simp add: gbt_members_def row_members_def mysql_rows_def cleo_rows_1_def cleo_rows_2_def adc_rows_def clocksyn_members_def birdisyn_members_def)

lemma unfetched_not_members:
  assumes "f \<in> set unfetched_strings"
  shows "Some f \<notin> set (map string_member gbt_members)"
proof
  assume "Some f \<in> set (map string_member gbt_members)"
  then obtain m where m: "m \<in> set gbt_members" "string_member m = Some f" by auto
  from m(2) obtain n where "m = Strcpy f n" by (cases m) simp_all
  moreover have "vegas_string (Strcpy f n)" using assms by (auto simp: unfetched_strings_def)
  ultimately have "Strcpy f n \<in> set (filter vegas_string gbt_members)" using m(1) by simp
  then show False using assms by (auto simp: vegas_members unfetched_strings_def)
qed

lemma unfetched_keys: "list_all (\<lambda>f. list_ex (\<lambda>(t, k, g, i). t = TSTRING \<and> g = f) gbt_keys) unfetched_strings"
  by (simp add: unfetched_strings_def gbt_keys_def)

lemma gbt_query_str:
  "gbt_query redis q ms (rv, os) = Some (rv', os') \<Longrightarrow> \<forall>n. Strcpy f n \<notin> set ms \<Longrightarrow> o_str os' f = o_str os f"
  by (auto simp: gbt_query_def assign_all_str split: if_splits redis_reply.splits)

lemma gbt_queries_str:
  "gbt_queries redis rows (rv, os) = Some (rv', os') \<Longrightarrow> \<forall>n. Strcpy f n \<notin> set (row_members rows) \<Longrightarrow> o_str os' f = o_str os f"
proof (induction rows arbitrary: rv os)
  case (Cons row rows)
  obtain n fl m where row: "row = (n, fl, m)" by (cases row)
  obtain rv1 os1 where 1: "gbt_query redis (''HMGET '' @ n @ '' '' @ fl) [m] (rv, os) = Some (rv1, os1)"
    "gbt_queries redis rows (rv1, os1) = Some (rv', os')"
    using Cons.prems(1) by (auto simp: row split: option.splits)
  have "\<forall>k. Strcpy f k \<notin> set [m]" "\<forall>k. Strcpy f k \<notin> set (row_members rows)"
    using Cons.prems(2) by (auto simp: row row_members_def)
  then show ?case using gbt_query_str [OF 1(1)] Cons.IH [OF 1(2)] by simp
qed simp

lemma not_string_member: "Some f \<notin> set (map string_member ms) \<Longrightarrow> Strcpy f n \<notin> set ms"
  by (metis imageI set_map string_member.simps(1))

lemma gbt_get_str: "gbt_get redis q (Atoi g i) (rv, os) = Some (rv', os') \<Longrightarrow> o_str os' f = o_str os f"
  by (auto simp: gbt_get_def split: if_splits redis_reply.splits option.splits)

lemma gbt_fetch_all_str:
  assumes "gbt_fetch_all redis (rv, os) = Some (rv', os')" "Some f \<notin> set (map string_member gbt_members)"
  shows "o_str os' f = o_str os f"
proof -
  note n = not_string_member [OF assms(2)]
  have n1: "\<forall>n. Strcpy f n \<notin> set (row_members (mysql_rows @ cleo_rows_1 @ cleo_rows_2))"
    "\<forall>n. Strcpy f n \<notin> set (row_members adc_rows)" "\<forall>n. Strcpy f n \<notin> set clocksyn_members"
    "\<forall>n. Strcpy f n \<notin> set birdisyn_members"
    using n unfolding gbt_members_def set_append Un_iff by blast+
  obtain rv2 os2 rv3 os3 rv4 os4 rv5 os5 where
    2: "gbt_queries redis (mysql_rows @ cleo_rows_1 @ cleo_rows_2) (rv, os) = Some (rv2, os2)"
    and 3: "gbt_get redis ''GET WEBCNTRL'' (Atoi ''WEBCNTRL'' 0) (rv2, set_int ''WEBCNTRL'' 0 1 os2) = Some (rv3, os3)"
    and 4: "gbt_queries redis adc_rows (rv3, os3) = Some (rv4, os4)"
    and 5: "gbt_query redis ''HMGET CLOCKSYN      CLOCKTIM CLOCKFRQ CLOCKDBM CLOCKLOC'' clocksyn_members (rv4, os4) = Some (rv5, os5)"
    and 6: "gbt_query redis ''HMGET BIRDISYN      BIRDITIM BIRDIFRQ BIRDIDBM BIRDILOC'' birdisyn_members (rv5, os5) = Some (rv', os')"
    using assms(1) by (auto simp: gbt_fetch_all_def bind_eq_Some_conv split: prod.splits)
  show ?thesis
    using gbt_query_str [OF 6 n1(4)] gbt_query_str [OF 5 n1(3)] gbt_queries_str [OF 4 n1(2)] gbt_get_str [OF 3]
      gbt_queries_str [OF 2 n1(1)] by simp
qed

lemma gbt_heartbeats_str:
  "gbt_heartbeats redis mjd1 mjd2 (rv, os) stc = Some ((rv', os'), stc') \<Longrightarrow> o_str os' f = o_str os f"
  by (auto simp: gbt_heartbeats_def Let_def split: option.splits prod.splits dest!: gbt_query_str [where f = f])

theorem gbt_unfetched_members:
  assumes "get_obs_gbt_info_from_redis c redis mjd1 mjd2 os stc = Fetched rv (os', stc')" "f \<in> set unfetched_strings"
  shows "o_str os' f = o_str os f \<and> (\<exists>k i. (TSTRING, k, f, i) \<in> set gbt_keys)"
proof -
  have k: "\<exists>k i. (TSTRING, k, f, i) \<in> set gbt_keys"
    using assms(2) unfetched_keys by (fastforce simp: list_all_iff list_ex_iff)
  have n: "Some f \<notin> set (map string_member gbt_members)"
    using assms(2) by (rule unfetched_not_members)
  obtain rv1 os1 stc1 where 1: "gbt_heartbeats redis mjd1 mjd2 (if c then 0 else 1, os) stc = Some ((rv1, os1), stc1)"
    "gbt_fetch_all redis (rv1, os1) = Some (rv, os')"
    using assms(1) unfolding get_obs_gbt_info_from_redis_def by (auto split: option.splits prod.splits)
  show ?thesis using gbt_heartbeats_str [OF 1(1)] gbt_fetch_all_str [OF 1(2) n] k by simp
qed

theorem gbt_unfetched_members_witness:
  "\<exists>rv os' stc'. get_obs_gbt_info_from_redis False (\<lambda>q. Reply_error) 0 0 (set_str ''VEGSFBW2'' ''garbage'' zero_obs)
       \<lparr>gs_mysql = \<lparr>lag_count = 0, lag_issued = False\<rparr>, gs_cleo = \<lparr>lag_count = 0, lag_issued = False\<rparr>\<rparr> = Fetched rv (os', stc') \<and>
     o_str os' ''VEGSFBW2'' = ''garbage''"
proof -
  have skip: "gbt_query r q ms (1, os) = Some (1, os)" "gbt_get r q m (1, os) = Some (1, os)" for r q ms m os
    by (simp_all add: gbt_query_def gbt_get_def)
  have skips: "gbt_queries r rows (1, os) = Some (1, os)" for r rows os
    by (induction rows) (auto simp: skip split: prod.splits)
  obtain os' stc' where f: "get_obs_gbt_info_from_redis False (\<lambda>q. Reply_error) 0 0 (set_str ''VEGSFBW2'' ''garbage'' zero_obs)
       \<lparr>gs_mysql = \<lparr>lag_count = 0, lag_issued = False\<rparr>, gs_cleo = \<lparr>lag_count = 0, lag_issued = False\<rparr>\<rparr> = Fetched 1 (os', stc')"
    by (simp add: get_obs_gbt_info_from_redis_def gbt_fetch_all_def gbt_heartbeats_def skip skips lag_check_def Let_def)
  have "''VEGSFBW2'' \<in> set unfetched_strings" by (simp add: unfetched_strings_def)
  from gbt_unfetched_members [OF f this] show ?thesis using f by simp
qed

end
