(* ===== verification/S6_Obs_Props.thy ===== *)
theory S6_Obs_Props
  imports S6_Obs_Gbt
begin

text \<open>
  Properties of the observatory status at Arecibo and FAST: which receiver is reported, when
  the database counts as static, what is done to the FAST receiver name.
\<close>

subsection \<open>Arecibo\<close>

lemma focus_receiver_value:
  "o_int (focus_receiver now os) ''receiver'' 0 =
     (if is_alfa_enabled now os \<and> o_int os ''IF2SIGSR'' 0 = 0 then 1
      else if is_327_enabled os \<and> o_int os ''IF2SIGSR'' 0 = 0 then 2 else 0)"
  by (simp add: focus_receiver_def Let_def is_source_gregorian_def is_327_enabled_def)

lemma focus_receiver_keeps:
  "is_alfa_enabled now (focus_receiver now os) = is_alfa_enabled now os"
  "is_327_enabled (focus_receiver now os) = is_327_enabled os"
  "o_int (focus_receiver now os) ''IF2SIGSR'' 0 = o_int os ''IF2SIGSR'' 0"
  by (simp_all add: focus_receiver_def Let_def is_alfa_enabled_def is_327_enabled_def)

theorem ao_receiver_decided:
  assumes "get_obs_info_from_redis c redis now os stc = Fetched 0 (os', stc')"
  shows "o_int os' ''receiver'' 0 =
     (if o_int os' ''IF2SIGSR'' 0 \<noteq> 0 then 0
      else if is_alfa_enabled now os' then 1
      else if is_327_enabled os' then 2 else 0)
    \<and> nat (o_int os' ''receiver'' 0) < length (receiver SOURCE_S6)"
proof -
  obtain os1 where "os' = focus_receiver now os1"
    using assms by (auto simp: get_obs_info_from_redis_def split: if_splits fetched.splits prod.splits)
  then show ?thesis by (simp add: focus_receiver_value focus_receiver_keeps)
qed

text \<open>A redis that answers each query of Arecibo with zeros.\<close>

definition zero_redis :: redis where
  "zero_redis q = Reply_array (replicate 50 (Some ''0''))"

lemma assign_all_zeros:
  "length ms \<le> n \<Longrightarrow> \<exists>os'. assign_all ms (replicate n (Some z)) os = Some os'"
proof (induction ms arbitrary: n os)
  case (Cons m ms)
  then obtain k where "n = Suc k" by (cases n) auto
  then show ?case using Cons by simp
qed simp

lemma ao_query_zeros: "length (snd q) \<le> 50 \<Longrightarrow> \<exists>os'. ao_query zero_redis q os = Query_ok os'"
proof -
  assume "length (snd q) \<le> 50"
  then obtain os' where a: "assign_all (snd q) (replicate 50 (Some ''0'')) os = Some os'" using assign_all_zeros by blast
  have r: "replicate 50 (Some ''0'') = Some ''0'' # replicate 49 (Some ''0'')"
    using replicate_Suc [of 49 "Some ''0''"] by simp
  show ?thesis using a unfolding ao_query_def zero_redis_def redis_reply.case r list.case option.case by simp
qed

lemma ao_queries_zeros: "\<forall>q\<in>set qs. length (snd q) \<le> 50 \<Longrightarrow> \<exists>os'. ao_queries zero_redis qs os = Fetched 0 os'"
proof (induction qs arbitrary: os)
  case (Cons q qs)
  have "length (snd q) \<le> 50" using Cons.prems by simp
  from ao_query_zeros [OF this, of os] obtain os1 where "ao_query zero_redis q os = Query_ok os1" by blast
  then show ?case using Cons by simp
qed simp

lemma zero_redis_fetch:
  "\<exists>os' stc'. get_obs_info_from_redis True zero_redis 0 zero_obs \<lparr>prior_agc_time = 5, no_time_change_count = 0\<rparr> = Fetched 0 (os', stc')"
proof -
  have l: "length (snd agc_query) \<le> 50" "\<forall>q\<in>set scram_queries. length (snd q) \<le> 50"
    by (simp_all add: agc_query_def scram_queries_def length_concat comp_def sum_list_triv)
  obtain os1 where 1: "ao_query zero_redis agc_query zero_obs = Query_ok os1"
    using ao_query_zeros [OF l(1)] by blast
  obtain os2 where 2: "ao_queries zero_redis scram_queries os1 = Fetched 0 os2"
    using ao_queries_zeros [OF l(2)] by blast
  show ?thesis using 2 by (simp add: get_obs_info_from_redis_def ao_agc_def 1 Let_def)
qed

theorem ao_receiver_decided_witness:
  "\<exists>os' stc'. get_obs_info_from_redis True zero_redis 0 zero_obs \<lparr>prior_agc_time = 5, no_time_change_count = 0\<rparr> = Fetched 0 (os', stc')
     \<and> nat (o_int os' ''receiver'' 0) < 3"
  using zero_redis_fetch ao_receiver_decided by fastforce

text \<open>The second reply in a row with the same time stamp is an error.\<close>

theorem ao_static_time_is_error:
  assumes "ao_agc redis os stc = Fetched rv (os', stc')" "o_int os' ''AGCTIME'' 0 = prior_agc_time stc" "1 \<le> no_time_change_count stc"
  shows "rv = 1 \<and> 1 \<le> no_time_change_count stc' \<and> prior_agc_time stc' = prior_agc_time stc"
  using assms by (auto simp: ao_agc_def Let_def split: query_result.splits if_splits)

theorem ao_static_time_is_error_witness:
  "\<exists>os' stc'. ao_agc (\<lambda>q. Reply_error) zero_obs \<lparr>prior_agc_time = 0, no_time_change_count = 1\<rparr> = Fetched 1 (os', stc')
     \<and> 1 \<le> no_time_change_count stc'"
proof -
  obtain stc' where f: "ao_agc (\<lambda>q. Reply_error) zero_obs \<lparr>prior_agc_time = 0, no_time_change_count = 1\<rparr> = Fetched 1 (zero_obs, stc')"
    by (simp add: ao_agc_def ao_query_def Let_def zero_obs_def)
  show ?thesis using ao_static_time_is_error [OF f] f by (simp add: zero_obs_def)
qed

subsection \<open>FAST\<close>

lemma strip_parens_props:
  "set (strip_parens cs) \<inter> {CHR ''('', CHR '')''} = {} \<and> length (strip_parens cs) \<le> length cs \<and>
   (set cs \<inter> {CHR ''('', CHR '')''} = {} \<longrightarrow> strip_parens cs = cs)"
  by (induction cs) auto

lemma assign_all_str_other:
  assumes "assign_all ms els os = Some os'" "\<forall>n. Strcpy f n \<notin> set ms"
  shows "o_str os' f = o_str os f"
  using assms
proof (induction ms els os rule: assign_all.induct)
  case (2 m ms str els os)
  have "o_str (assign m str os) f = o_str os f"
    using 2(3) by (cases m) auto
  then show ?case using 2 by simp
qed simp_all

lemma assign_all_dbl_other:
  assumes "assign_all ms els os = Some os'" "\<forall>i. Atof f i \<notin> set ms"
  shows "o_dbl os' f i = o_dbl os f i"
  using assms
proof (induction ms els os rule: assign_all.induct)
  case (2 m ms str els os)
  have "o_dbl (assign m str os) f i = o_dbl os f i"
    using 2(3) by (cases m) auto
  then show ?case using 2 by simp
qed simp_all

theorem fast_status_fetched:
  assumes "get_obs_fast_info_from_redis l k redis beyond os = Fetched 0 os'"
    and "redis fast_query = Reply_array (Some t # Some dut1 # Some name # els)" "length name < 32"
  shows "o_dbl os' ''TIME'' 0 = atof t / 1000 \<and> o_str os' ''RECEIVER'' = strip_parens name
    \<and> length (o_str os' ''RECEIVER'') < 32 \<and> set (o_str os' ''RECEIVER'') \<inter> {CHR ''('', CHR '')''} = {}"
proof -
  have "\<exists>os1. assign_all fast_members els os1 = Some os' \<and> False \<or> fast_assign beyond (Some t # Some dut1 # Some name # els) os = Some os'"
    using assms(1,2) by (auto simp: get_obs_fast_info_from_redis_def split: if_splits option.splits)
  then obtain os2 os1 where o: "assign_all fast_members els os1 = Some os2" "os' = set_dbl ''CLOCKFRQ'' 0 CLOCK_FREQ os2"
    "o_dbl os1 ''TIME'' 0 = atof t / 1000" "o_str os1 ''RECEIVER'' = strip_parens name"
    using assms(3) by (auto simp: fast_assign_def Let_def receiver_chars_def)
  have "\<forall>n. Strcpy ''RECEIVER'' n \<notin> set fast_members" "\<forall>i. Atof ''TIME'' i \<notin> set fast_members"
    by (auto simp: fast_members_def)
  then have "o_str os2 ''RECEIVER'' = strip_parens name" "o_dbl os2 ''TIME'' 0 = atof t / 1000"
    using assign_all_str_other [OF o(1)] assign_all_dbl_other [OF o(1)] o(3,4) by simp_all
  then show ?thesis using strip_parens_props [of name] assms(3) by (auto simp: o(2))
qed

definition fast_demo_reply :: "string option list" where
  "fast_demo_reply = Some ''1000'' # Some ''0'' # Some ''19(5)'' # replicate 42 (Some ''1'')"

theorem fast_status_fetched_witness:
  "\<exists>os'. get_obs_fast_info_from_redis True True (\<lambda>q. Reply_array fast_demo_reply) [] zero_obs = Fetched 0 os' \<and>
     o_str os' ''RECEIVER'' = ''19_5''"
proof -
  have "length fast_members \<le> 42" by (simp add: fast_members_def length_concat comp_def sum_list_triv)
  then obtain os' where "fast_assign [] fast_demo_reply zero_obs = Some os'"
    using assign_all_zeros [of fast_members 42] by (fastforce simp: fast_assign_def fast_demo_reply_def Let_def)
  moreover have "s6_redis_get (Reply_array fast_demo_reply) = 0" by (simp add: s6_redis_get_def fast_demo_reply_def)
  ultimately have f: "get_obs_fast_info_from_redis True True (\<lambda>q. Reply_array fast_demo_reply) [] zero_obs = Fetched 0 os'"
    by (simp add: get_obs_fast_info_from_redis_def)
  show ?thesis using fast_status_fetched [OF f fast_demo_reply_def [THEN arg_cong]] f by simp
qed

subsection \<open>Coordinates\<close>

theorem negative_coordinate_wrong:
  "coord_string_to_decimal ''-12:30:00'' v = (0, - 23 / 2) \<and> coord_string_to_decimal ''12:30:00'' v = (0, 25 / 2)"
  by (simp add: coord_string_to_decimal_def tokenize_string_def atof_def isspace_def isdigit_def digits_value_def
      scale10_def Let_def of_char_Char)

end
