(* ===== verification/S6_Pipeline.thy ===== *)
theory S6_Pipeline
  imports S6_Output_Props S6_Pktsock_Run
begin

text \<open>
  The three threads of the pipeline together.  Each thread is its sequence of calls on the
  two rings, as the models of \<open>s6_pktsock_thread.cpp\<close>, \<open>s6_gpu_thread.cpp\<close> and
  \<open>s6_output_thread.cpp\<close> make them; a step of the system is one call of one thread, or a write of
  the network thread into a block it holds.  A wait that does not succeed is repeated, so that
  the call is possible only in the awaited state.
\<close>

subsection \<open>Ring calls\<close>

definition succeeded :: "hp_rv \<times> 'q \<Rightarrow> 'q option" where
  "succeeded r = (if fst r = HASHPIPE_OK then Some (snd r) else None)"

fun do_call :: "ring_call \<Rightarrow> (nat \<Rightarrow> bool) \<Rightarrow> (nat \<Rightarrow> bool) option" where
  "do_call (Wait_free i) q = succeeded (s6_input_databuf_busywait_free flag_ring q i)"
| "do_call (Wait_filled i) q = succeeded (s6_input_databuf_wait_filled flag_ring q i)"
| "do_call (Set_free i) q = succeeded (s6_input_databuf_set_free flag_ring q i)"
| "do_call (Set_filled i) q = succeeded (s6_input_databuf_set_filled flag_ring q i)"

lemma do_call_simps:
  "do_call (Wait_free i) q = (if q i then None else Some q)"
  "do_call (Wait_filled i) q = (if q i then Some q else None)"
  "do_call (Set_free i) q = Some (q(i := False))"
  "do_call (Set_filled i) q = Some (q(i := True))"
  by (simp_all add: succeeded_def s6_databuf_wrappers flag_ring_def)

declare do_call.simps [simp del] do_call_simps [simp]

subsection \<open>A ring between a producer and a consumer\<close>

text \<open>Blocks are numbered from 0 in the order in which they are filled, block \<open>k\<close> in slot
  \<open>k mod N\<close>: \<open>r\<close> have been freed, \<open>f\<close> filled and \<open>a\<close> acquired by the producer.\<close>

definition ring_at :: "nat \<Rightarrow> (nat \<Rightarrow> bool) \<Rightarrow> nat \<Rightarrow> nat \<Rightarrow> nat \<Rightarrow> bool" where
  "ring_at N q r f a = (r \<le> f \<and> f \<le> a \<and> a \<le> r + N \<and> (\<forall>j < N. q j = (\<exists>k. r \<le> k \<and> k < f \<and> k mod N = j)))"

lemma mod_eq_close:
  fixes k l :: nat
  assumes "k mod N = l mod N" "k < l + N" "l < k + N"
  shows "k = l"
proof -
  have "\<bar>int k - int l\<bar> < int N" using assms(2,3) by linarith
  moreover have "int N dvd int k - int l"
    using assms(1) by (metis mod_eq_dvd_iff of_nat_mod)
  ultimately show ?thesis
    using zdvd_imp_le [of "int N" "\<bar>int k - int l\<bar>"] by fastforce
qed

locale slot_ring =
  fixes N :: nat
  assumes N_pos: "0 < N"
begin

lemma flag_of:
  assumes "ring_at N q r f a" "k < r + N" "r \<le> k"
  shows "q (k mod N) = (k < f)"
proof -
  have "k mod N < N" using N_pos by simp
  then have "q (k mod N) = (\<exists>l. r \<le> l \<and> l < f \<and> l mod N = k mod N)"
    using assms(1) by (simp add: ring_at_def)
  moreover have "l = k" if "r \<le> l" "l < f" "l mod N = k mod N" for l
    using mod_eq_close [of l N k] that assms by (simp add: ring_at_def)
  ultimately show ?thesis using assms(3) by auto
qed

lemma wait_free_at:
  assumes "ring_at N q r f a" "do_call (Wait_free (a mod N)) q = Some q'" "a < f + N"
  shows "q' = q \<and> ring_at N q r f (Suc a)"
proof -
  have nq: "\<not> q (a mod N)" "q' = q" using assms(2) by (simp_all split: if_splits)
  have "a \<noteq> r + N"
  proof
    assume a: "a = r + N"
    then have "a mod N = r mod N" by simp
    moreover have "q (r mod N)" using flag_of [OF assms(1), of r] N_pos assms(3) a by simp
    ultimately show False using nq(1) by simp
  qed
  then show ?thesis using assms(1) nq(2) by (auto simp: ring_at_def)
qed

lemma wait_free_possible:
  assumes "ring_at N q r f a" "a < r + N"
  shows "do_call (Wait_free (a mod N)) q = Some q"
  using flag_of [OF assms(1), of a] assms by (simp add: ring_at_def)

lemma set_filled_at:
  assumes "ring_at N q r f a" "do_call (Set_filled (f mod N)) q = Some q'" "f < a"
  shows "ring_at N q' r (Suc f) a"
proof -
  have q': "q' = q(f mod N := True)" using assms(2) by simp
  have "q' j = (\<exists>k. r \<le> k \<and> k < Suc f \<and> k mod N = j)" if "j < N" for j
    using assms(1) that unfolding q' ring_at_def by (auto simp: less_Suc_eq)
  then show ?thesis using assms(1,3) by (simp add: ring_at_def)
qed

lemma wait_filled_at:
  assumes "ring_at N q r f a" "do_call (Wait_filled (r mod N)) q = Some q'"
  shows "q' = q \<and> r < f"
  using assms flag_of [OF assms(1), of r] N_pos by (auto split: if_splits)

lemma wait_filled_possible:
  assumes "ring_at N q r f a" "r < f"
  shows "do_call (Wait_filled (r mod N)) q = Some q"
  using flag_of [OF assms(1), of r] assms(2) N_pos by simp

lemma set_free_at:
  assumes "ring_at N q r f a" "do_call (Set_free (r mod N)) q = Some q'" "r < f"
  shows "ring_at N q' (Suc r) f a"
proof -
  have q': "q' = q(r mod N := False)" using assms(2) by simp
  have "q' j = (\<exists>k. Suc r \<le> k \<and> k < f \<and> k mod N = j)" if "j < N" for j
  proof (cases "j = r mod N")
    case True
    have "k mod N \<noteq> r mod N" if "Suc r \<le> k" "k < f" for k
      using mod_eq_close [of k N r] that assms(1) by (auto simp: ring_at_def)
    then show ?thesis by (auto simp: q' True)
  next
    case False
    then have "q' j = (\<exists>k. r \<le> k \<and> k < f \<and> k mod N = j)" using assms(1) that by (simp add: q' ring_at_def)
    also have "\<dots> = (\<exists>k. Suc r \<le> k \<and> k < f \<and> k mod N = j)" using False by (metis Suc_leD le_antisym not_less_eq_eq)
    finally show ?thesis .
  qed
  then show ?thesis using assms by (auto simp: ring_at_def)
qed

lemma slots_apart:
  assumes "ring_at N q r f a" "r \<le> k" "k < a" "r \<le> l" "l < a" "k \<noteq> l"
  shows "k mod N \<noteq> l mod N"
  using mod_eq_close [of k N l] assms by (auto simp: ring_at_def)

end

interpretation in_ring: slot_ring "N_INPUT_BLOCKS s" for s
  by unfold_locales (cases s; simp)

interpretation out_ring: slot_ring N_OUTPUT_BLOCKS
  by unfold_locales (simp add: N_OUTPUT_BLOCKS_def)

subsection \<open>The programs of the three threads\<close>

fun net_call :: "site \<Rightarrow> nat \<Rightarrow> ring_call" where
  "net_call s 0 = Wait_free 0"
| "net_call s (Suc 0) = Wait_free 1"
| "net_call s (Suc (Suc pc)) =
     (if even pc then Set_filled (pc div 2 mod N_INPUT_BLOCKS s) else Wait_free ((pc div 2 + 2) mod N_INPUT_BLOCKS s))"

definition gpu_call_at :: "site \<Rightarrow> nat \<Rightarrow> gpu_call" where
  "gpu_call_at s pc = gpu_block_calls s (pc div 4) ! (pc mod 4)"

definition sink_call :: "nat \<Rightarrow> ring_call" where
  "sink_call pc = [Wait_filled (pc div 2 mod N_OUTPUT_BLOCKS), Set_free (pc div 2 mod N_OUTPUT_BLOCKS)] ! (pc mod 2)"

text \<open>They are the call sequences that the models of the threads make.\<close>

lemma net_calls_program: "net_calls s n = map (net_call s) [0..<2 + 2 * n]"
proof (induction n)
  case (Suc n)
  have "map (net_call s) [0..<2 + 2 * Suc n] = map (net_call s) [0..<2 + 2 * n] @
      [net_call s (Suc (Suc (2 * n))), net_call s (Suc (Suc (Suc (2 * n))))]"
    by simp
  moreover have "net_calls s (Suc n) = net_calls s n @ [Set_filled (n mod N_INPUT_BLOCKS s), Wait_free ((n + 2) mod N_INPUT_BLOCKS s)]"
    by (simp add: net_calls_def)
  ultimately show ?case using Suc by (simp del: upt_Suc)
qed (simp add: net_calls_def numeral_2_eq_2)

lemma quad:
  "Suc (4 * n) div 4 = n" "Suc (4 * n) mod 4 = 1" "Suc (Suc (4 * n)) div 4 = n" "Suc (Suc (4 * n)) mod 4 = 2"
  "Suc (Suc (Suc (4 * n))) div 4 = n" "Suc (Suc (Suc (4 * n))) mod 4 = 3" "Suc (Suc (Suc (Suc (4 * n)))) div 4 = Suc n"
  "Suc (Suc (Suc (Suc (Suc (4 * n))))) div 4 = Suc n" "Suc (Suc (Suc (Suc (Suc (Suc (4 * n)))))) div 4 = Suc n"
  "(4 * n + 4) div 4 = Suc n" "(4 * n + 5) div 4 = Suc n" "(4 * n + 6) div 4 = Suc n" "(4 * n + 3) div 4 = n" "(4 * n + 2) div 4 = n"
  by presburger+

lemma gpu_calls_program: "gpu_calls s n = map (gpu_call_at s) [0..<4 * n]"
proof (induction n)
  case (Suc n)
  have 4: "4 * Suc n = Suc (Suc (Suc (Suc (4 * n))))" by simp
  show ?case
    unfolding 4 using Suc quad [of n] by (simp add: gpu_calls_Suc gpu_call_at_def gpu_block_calls_def)
qed (simp add: gpu_calls_def)

lemma sink_calls_program: "output_calls 0 n = map sink_call [0..<2 * n]"
proof (induction n)
  case (Suc n)
  have "Suc (2 * n) div 2 = n" "Suc (2 * n) mod 2 = 1" by presburger+
  with Suc show ?case by (simp add: output_calls_def sink_call_def)
qed (simp add: output_calls_def)

text \<open>How many blocks each thread has acquired, filled and freed after \<open>pc\<close> calls.\<close>

definition net_acquired :: "nat \<Rightarrow> nat" where "net_acquired pc = (if pc < 2 then pc else Suc (pc div 2))"
definition net_filled :: "nat \<Rightarrow> nat" where "net_filled pc = (pc - 1) div 2"
definition gpu_taken :: "nat \<Rightarrow> nat" where "gpu_taken pc = (pc + 3) div 4"
definition gpu_acquired :: "nat \<Rightarrow> nat" where "gpu_acquired pc = (pc + 2) div 4"
definition gpu_filled :: "nat \<Rightarrow> nat" where "gpu_filled pc = (pc + 1) div 4"
definition gpu_freed :: "nat \<Rightarrow> nat" where "gpu_freed pc = pc div 4"
definition sink_taken :: "nat \<Rightarrow> nat" where "sink_taken pc = (pc + 1) div 2"
definition sink_freed :: "nat \<Rightarrow> nat" where "sink_freed pc = pc div 2"

lemma net_call_cases:
  obtains (acquire) "net_call s pc = Wait_free (net_acquired pc mod N_INPUT_BLOCKS s)" "net_acquired (Suc pc) = Suc (net_acquired pc)"
      "net_filled (Suc pc) = net_filled pc" "net_acquired pc < net_filled pc + 2"
  | (fill) "net_call s pc = Set_filled (net_filled pc mod N_INPUT_BLOCKS s)" "net_acquired (Suc pc) = net_acquired pc"
      "net_filled (Suc pc) = Suc (net_filled pc)" "net_filled pc < net_acquired pc"
proof (cases "(s, pc)" rule: net_call.cases)
  case (1 s')
  then show ?thesis using acquire by (simp add: net_acquired_def net_filled_def)
next
  case (2 s')
  have "1 mod N_INPUT_BLOCKS s = 1" by (cases s) simp_all
  then show ?thesis using acquire 2 by (simp add: net_acquired_def net_filled_def)
next
  case (3 s' k)
  then show ?thesis using acquire fill
    by (cases "even k") (auto simp: net_acquired_def net_filled_def elim!: evenE oddE)
qed

lemma gpu_pc:
  assumes "m < 4"
  shows "gpu_freed (4 * n + m) = n"
    "gpu_taken (4 * n + m) = (if m < 1 then n else Suc n)" "gpu_acquired (4 * n + m) = (if m < 2 then n else Suc n)"
    "gpu_filled (4 * n + m) = (if m < 3 then n else Suc n)"
  using assms unfolding gpu_taken_def gpu_acquired_def gpu_filled_def gpu_freed_def
  by (simp, presburger+)

lemma gpu_pc_next:
  "gpu_freed (Suc (4 * n + 3)) = Suc n" "gpu_taken (Suc (4 * n + 3)) = Suc n" "gpu_acquired (Suc (4 * n + 3)) = Suc n"
  "gpu_filled (Suc (4 * n + 3)) = Suc n"
  unfolding gpu_taken_def gpu_acquired_def gpu_filled_def gpu_freed_def by presburger+

lemma gpu_call_pc: "m < 4 \<Longrightarrow> gpu_call_at s (4 * n + m) = gpu_block_calls s n ! m"
  by (simp add: gpu_call_at_def)

lemma gpu_call_cases:
  obtains (take) "gpu_call_at s pc = In_ring (Wait_filled (gpu_freed pc mod N_INPUT_BLOCKS s))" "gpu_taken pc = gpu_freed pc"
      "gpu_acquired pc = gpu_freed pc" "gpu_filled pc = gpu_freed pc" "gpu_taken (Suc pc) = Suc (gpu_freed pc)"
      "gpu_acquired (Suc pc) = gpu_freed pc" "gpu_filled (Suc pc) = gpu_freed pc" "gpu_freed (Suc pc) = gpu_freed pc"
  | (acquire) "gpu_call_at s pc = Out_ring (Wait_free (gpu_freed pc mod N_OUTPUT_BLOCKS))" "gpu_taken pc = Suc (gpu_freed pc)"
      "gpu_acquired pc = gpu_freed pc" "gpu_filled pc = gpu_freed pc" "gpu_taken (Suc pc) = Suc (gpu_freed pc)"
      "gpu_acquired (Suc pc) = Suc (gpu_freed pc)" "gpu_filled (Suc pc) = gpu_freed pc" "gpu_freed (Suc pc) = gpu_freed pc"
  | (fill) "gpu_call_at s pc = Out_ring (Set_filled (gpu_freed pc mod N_OUTPUT_BLOCKS))" "gpu_taken pc = Suc (gpu_freed pc)"
      "gpu_acquired pc = Suc (gpu_freed pc)" "gpu_filled pc = gpu_freed pc" "gpu_taken (Suc pc) = Suc (gpu_freed pc)"
      "gpu_acquired (Suc pc) = Suc (gpu_freed pc)" "gpu_filled (Suc pc) = Suc (gpu_freed pc)" "gpu_freed (Suc pc) = gpu_freed pc"
  | (free) "gpu_call_at s pc = In_ring (Set_free (gpu_freed pc mod N_INPUT_BLOCKS s))" "gpu_taken pc = Suc (gpu_freed pc)"
      "gpu_acquired pc = Suc (gpu_freed pc)" "gpu_filled pc = Suc (gpu_freed pc)" "gpu_taken (Suc pc) = Suc (gpu_freed pc)"
      "gpu_acquired (Suc pc) = Suc (gpu_freed pc)" "gpu_filled (Suc pc) = Suc (gpu_freed pc)" "gpu_freed (Suc pc) = Suc (gpu_freed pc)"
proof -
  define n m where "n = pc div 4" and "m = pc mod 4"
  have pc: "pc = 4 * n + m" "m < 4" by (simp_all add: n_def m_def)
  from pc(2) consider "m = 0" | "m = 1" | "m = 2" | "m = 3" by linarith
  then show ?thesis
  proof cases
    case 1 then show ?thesis using take pc(1) gpu_call_pc [of 0 s n] gpu_pc [of 0 n] gpu_pc [of 1 n] by (simp add: gpu_block_calls_def)
  next
    case 2 then show ?thesis using acquire pc(1) gpu_call_pc [of 1 s n] gpu_pc [of 1 n] gpu_pc [of 2 n] by (simp add: gpu_block_calls_def)
  next
    case 3 then show ?thesis using fill pc(1) gpu_call_pc [of 2 s n] gpu_pc [of 2 n] gpu_pc [of 3 n] by (simp add: gpu_block_calls_def numeral_3_eq_3)
  next
    case 4 then show ?thesis using free pc(1) gpu_call_pc [of 3 s n] gpu_pc [of 3 n] gpu_pc_next [of n] by (simp add: gpu_block_calls_def)
  qed
qed

lemma sink_call_cases:
  obtains (take) "sink_call pc = Wait_filled (sink_freed pc mod N_OUTPUT_BLOCKS)" "sink_taken pc = sink_freed pc"
      "sink_taken (Suc pc) = Suc (sink_freed pc)" "sink_freed (Suc pc) = sink_freed pc"
  | (free) "sink_call pc = Set_free (sink_freed pc mod N_OUTPUT_BLOCKS)" "sink_taken pc = Suc (sink_freed pc)"
      "sink_taken (Suc pc) = Suc (sink_freed pc)" "sink_freed (Suc pc) = Suc (sink_freed pc)"
  by (cases "even pc") (auto simp: sink_call_def sink_taken_def sink_freed_def elim!: evenE oddE)

lemma net_counts: "net_filled pc \<le> net_acquired pc" "net_acquired pc \<le> net_filled pc + 2"
  unfolding net_acquired_def net_filled_def by presburger+

lemma gpu_counts: "gpu_freed pc \<le> gpu_filled pc" "gpu_filled pc \<le> gpu_acquired pc" "gpu_acquired pc \<le> gpu_taken pc"
  "gpu_taken pc \<le> Suc (gpu_freed pc)"
  unfolding gpu_taken_def gpu_acquired_def gpu_filled_def gpu_freed_def by presburger+

lemma sink_counts: "sink_freed pc \<le> sink_taken pc" "sink_taken pc \<le> Suc (sink_freed pc)"
  unfolding sink_taken_def sink_freed_def by presburger+

subsection \<open>The system\<close>

text \<open>\<open>f\<close> is what the GPU thread makes of an input block and the old content of an output block,
  \<open>z\<close> the cleared output block.  The last two members record what has been handed over at
  each end.\<close>

record ('a, 'b) pipe =
  p_net :: nat
  p_gpu :: nat
  p_sink :: nat
  p_inq :: "nat \<Rightarrow> bool"
  p_outq :: "nat \<Rightarrow> bool"
  p_in :: "nat \<Rightarrow> 'a"
  p_out :: "nat \<Rightarrow> 'b"
  p_produced :: "'a list"
  p_consumed :: "'b list"

datatype 'a pipe_label = Net_write nat 'a | Net_call | Gpu_call | Sink_call

fun produced_by :: "ring_call \<Rightarrow> (nat \<Rightarrow> 'a) \<Rightarrow> 'a list" where
  "produced_by (Set_filled i) blocks = [blocks i]"
| "produced_by c blocks = []"

fun consumed_by :: "ring_call \<Rightarrow> (nat \<Rightarrow> 'b) \<Rightarrow> 'b list" where
  "consumed_by (Wait_filled i) blocks = [blocks i]"
| "consumed_by c blocks = []"

fun gpu_effect :: "('b \<Rightarrow> 'b) \<Rightarrow> ring_call \<Rightarrow> (nat \<Rightarrow> 'b) \<Rightarrow> nat \<Rightarrow> 'b" where
  "gpu_effect g (Set_filled k) blocks = blocks(k := g (blocks k))"
| "gpu_effect g c blocks = blocks"

fun sink_effect :: "'b \<Rightarrow> ring_call \<Rightarrow> (nat \<Rightarrow> 'b) \<Rightarrow> nat \<Rightarrow> 'b" where
  "sink_effect z (Set_free k) blocks = blocks(k := z)"
| "sink_effect z c blocks = blocks"

inductive pipe_step ::
  "site \<Rightarrow> ('a \<Rightarrow> 'b \<Rightarrow> 'b) \<Rightarrow> 'b \<Rightarrow> 'a pipe_label \<Rightarrow> ('a, 'b) pipe \<Rightarrow> ('a, 'b) pipe \<Rightarrow> bool" for s f z where
  net_write: "net_filled (p_net p) \<le> k \<Longrightarrow> k < net_acquired (p_net p) \<Longrightarrow>
    pipe_step s f z (Net_write (k mod N_INPUT_BLOCKS s) v) p (p\<lparr>p_in := (p_in p)(k mod N_INPUT_BLOCKS s := v)\<rparr>)"
| net_call: "do_call (net_call s (p_net p)) (p_inq p) = Some q \<Longrightarrow>
    pipe_step s f z Net_call p
      (p\<lparr>p_net := Suc (p_net p), p_inq := q, p_produced := p_produced p @ produced_by (net_call s (p_net p)) (p_in p)\<rparr>)"
| gpu_in: "gpu_call_at s (p_gpu p) = In_ring c \<Longrightarrow> do_call c (p_inq p) = Some q \<Longrightarrow>
    pipe_step s f z Gpu_call p (p\<lparr>p_gpu := Suc (p_gpu p), p_inq := q\<rparr>)"
| gpu_out: "gpu_call_at s (p_gpu p) = Out_ring c \<Longrightarrow> do_call c (p_outq p) = Some q \<Longrightarrow>
    pipe_step s f z Gpu_call p
      (p\<lparr>p_gpu := Suc (p_gpu p), p_outq := q,
         p_out := gpu_effect (f (p_in p (gpu_freed (p_gpu p) mod N_INPUT_BLOCKS s))) c (p_out p)\<rparr>)"
| sink: "do_call (sink_call (p_sink p)) (p_outq p) = Some q \<Longrightarrow>
    pipe_step s f z Sink_call p
      (p\<lparr>p_sink := Suc (p_sink p), p_outq := q,
         p_consumed := p_consumed p @ consumed_by (sink_call (p_sink p)) (p_out p),
         p_out := sink_effect z (sink_call (p_sink p)) (p_out p)\<rparr>)"

inductive_cases pipe_write_cases: "pipe_step s f z (Net_write i v) p p'"
inductive_cases pipe_net_cases: "pipe_step s f z Net_call p p'"
inductive_cases pipe_gpu_cases: "pipe_step s f z Gpu_call p p'"
inductive_cases pipe_sink_cases: "pipe_step s f z Sink_call p p'"

definition pipe_start :: "(nat \<Rightarrow> 'a) \<Rightarrow> 'b \<Rightarrow> ('a, 'b) pipe" where
  "pipe_start ins z = \<lparr>p_net = 0, p_gpu = 0, p_sink = 0, p_inq = (\<lambda>i. False), p_outq = (\<lambda>i. False),
     p_in = ins, p_out = (\<lambda>i. z), p_produced = [], p_consumed = []\<rparr>"

text \<open>Runs: the labels of the steps made, latest last.\<close>

inductive pipe_run ::
  "site \<Rightarrow> ('a \<Rightarrow> 'b \<Rightarrow> 'b) \<Rightarrow> 'b \<Rightarrow> ('a, 'b) pipe \<Rightarrow> 'a pipe_label list \<Rightarrow> ('a, 'b) pipe \<Rightarrow> bool" for s f z p where
  pipe_run_Nil: "pipe_run s f z p [] p"
| pipe_run_snoc: "pipe_run s f z p ls p' \<Longrightarrow> pipe_step s f z l p' p'' \<Longrightarrow> pipe_run s f z p (ls @ [l]) p''"

subsection \<open>The invariant\<close>

definition in_data :: "site \<Rightarrow> ('a, 'b) pipe \<Rightarrow> bool" where
  "in_data s p = (length (p_produced p) = net_filled (p_net p) \<and>
     (\<forall>k. gpu_freed (p_gpu p) \<le> k \<and> k < net_filled (p_net p) \<longrightarrow> p_in p (k mod N_INPUT_BLOCKS s) = p_produced p ! k))"

definition out_data :: "('a \<Rightarrow> 'b \<Rightarrow> 'b) \<Rightarrow> 'b \<Rightarrow> ('a, 'b) pipe \<Rightarrow> bool" where
  "out_data f z p =
     ((\<forall>k. sink_freed (p_sink p) \<le> k \<and> k < sink_freed (p_sink p) + N_OUTPUT_BLOCKS \<longrightarrow>
         p_out p (k mod N_OUTPUT_BLOCKS) = (if k < gpu_filled (p_gpu p) then f (p_produced p ! k) z else z)) \<and>
      p_consumed p = map (\<lambda>v. f v z) (take (sink_taken (p_sink p)) (p_produced p)))"

definition rings_ok :: "site \<Rightarrow> ('a, 'b) pipe \<Rightarrow> bool" where
  "rings_ok s p =
     (ring_at (N_INPUT_BLOCKS s) (p_inq p) (gpu_freed (p_gpu p)) (net_filled (p_net p)) (net_acquired (p_net p)) \<and>
      ring_at N_OUTPUT_BLOCKS (p_outq p) (sink_freed (p_sink p)) (gpu_filled (p_gpu p)) (gpu_acquired (p_gpu p)) \<and>
      gpu_taken (p_gpu p) \<le> net_filled (p_net p) \<and> sink_taken (p_sink p) \<le> gpu_filled (p_gpu p))"

definition pipe_inv :: "site \<Rightarrow> ('a \<Rightarrow> 'b \<Rightarrow> 'b) \<Rightarrow> 'b \<Rightarrow> ('a, 'b) pipe \<Rightarrow> bool" where
  "pipe_inv s f z p = (rings_ok s p \<and> in_data s p \<and> out_data f z p)"

lemma N_INPUT_BLOCKS_ge: "2 < N_INPUT_BLOCKS s" by (cases s) simp_all

lemma pipe_start_inv: "pipe_inv s f z (pipe_start ins z)"
  by (simp add: pipe_inv_def rings_ok_def in_data_def out_data_def pipe_start_def ring_at_def
      net_filled_def net_acquired_def gpu_taken_def gpu_acquired_def gpu_filled_def gpu_freed_def sink_taken_def sink_freed_def)

lemma net_write_inv:
  assumes "pipe_inv s f z p" "net_filled (p_net p) \<le> k" "k < net_acquired (p_net p)"
  shows "pipe_inv s f z (p\<lparr>p_in := (p_in p)(k mod N_INPUT_BLOCKS s := v)\<rparr>)"
proof -
  have r: "ring_at (N_INPUT_BLOCKS s) (p_inq p) (gpu_freed (p_gpu p)) (net_filled (p_net p)) (net_acquired (p_net p))"
    using assms(1) by (simp add: pipe_inv_def rings_ok_def)
  have le: "gpu_freed (p_gpu p) \<le> net_filled (p_net p)" using r by (simp add: ring_at_def)
  have "l mod N_INPUT_BLOCKS s \<noteq> k mod N_INPUT_BLOCKS s" if "gpu_freed (p_gpu p) \<le> l" "l < net_filled (p_net p)" for l
    using in_ring.slots_apart [OF r, of l k] that assms(2,3) le by simp
  then show ?thesis
    using assms(1) by (simp add: pipe_inv_def rings_ok_def in_data_def out_data_def)
qed

lemma net_call_inv:
  assumes "pipe_inv s f z p" "do_call (net_call s (p_net p)) (p_inq p) = Some q"
  shows "pipe_inv s f z
    (p\<lparr>p_net := Suc (p_net p), p_inq := q, p_produced := p_produced p @ produced_by (net_call s (p_net p)) (p_in p)\<rparr>)"
proof -
  have r: "ring_at (N_INPUT_BLOCKS s) (p_inq p) (gpu_freed (p_gpu p)) (net_filled (p_net p)) (net_acquired (p_net p))"
    and le: "sink_taken (p_sink p) \<le> gpu_filled (p_gpu p)" "gpu_filled (p_gpu p) \<le> net_filled (p_net p)"
    and len: "length (p_produced p) = net_filled (p_net p)"
    using assms(1) gpu_counts [of "p_gpu p"] by (auto simp: pipe_inv_def rings_ok_def in_data_def)
  show ?thesis
  proof (cases s "p_net p" rule: net_call_cases)
    case acquire
    have "ring_at (N_INPUT_BLOCKS s) (p_inq p) (gpu_freed (p_gpu p)) (net_filled (p_net p)) (Suc (net_acquired (p_net p))) \<and> q = p_inq p"
      using in_ring.wait_free_at [OF r, of q] assms(2) acquire N_INPUT_BLOCKS_ge [of s] by simp
    then show ?thesis using assms(1) acquire by (simp add: pipe_inv_def rings_ok_def in_data_def out_data_def)
  next
    case fill
    have "ring_at (N_INPUT_BLOCKS s) q (gpu_freed (p_gpu p)) (Suc (net_filled (p_net p))) (net_acquired (p_net p))"
      using in_ring.set_filled_at [OF r, of q] assms(2) fill by simp
    moreover have "take (sink_taken (p_sink p)) (p_produced p @ [v]) = take (sink_taken (p_sink p)) (p_produced p)" for v
      using le len by simp
    ultimately show ?thesis using assms(1) fill le len
      by (auto simp: pipe_inv_def rings_ok_def in_data_def out_data_def nth_append less_Suc_eq)
  qed
qed

lemma gpu_in_inv:
  assumes "pipe_inv s f z p" "gpu_call_at s (p_gpu p) = In_ring c" "do_call c (p_inq p) = Some q"
  shows "pipe_inv s f z (p\<lparr>p_gpu := Suc (p_gpu p), p_inq := q\<rparr>)"
proof -
  have r: "ring_at (N_INPUT_BLOCKS s) (p_inq p) (gpu_freed (p_gpu p)) (net_filled (p_net p)) (net_acquired (p_net p))"
    and t: "gpu_taken (p_gpu p) \<le> net_filled (p_net p)"
    using assms(1) by (auto simp: pipe_inv_def rings_ok_def)
  show ?thesis
  proof (cases s "p_gpu p" rule: gpu_call_cases)
    case take
    then have "q = p_inq p \<and> gpu_freed (p_gpu p) < net_filled (p_net p)"
      using in_ring.wait_filled_at [OF r, of q] assms(2,3) by simp
    then show ?thesis using assms(1) take by (simp add: pipe_inv_def rings_ok_def in_data_def out_data_def)
  next
    case free
    then have "ring_at (N_INPUT_BLOCKS s) q (Suc (gpu_freed (p_gpu p))) (net_filled (p_net p)) (net_acquired (p_net p))"
      using in_ring.set_free_at [OF r, of q] assms(2,3) t by simp
    then show ?thesis using assms(1) free by (simp add: pipe_inv_def rings_ok_def in_data_def out_data_def)
  qed (use assms(2) in simp_all)
qed

lemma gpu_fill_data:
  assumes "pipe_inv s f z p" "gpu_filled (p_gpu p) < gpu_acquired (p_gpu p)" "gpu_filled (p_gpu p) = gpu_freed (p_gpu p)"
    and "gpu_filled (Suc (p_gpu p)) = Suc (gpu_filled (p_gpu p))"
  shows "out_data f z (p\<lparr>p_gpu := Suc (p_gpu p), p_outq := q,
    p_out := gpu_effect (f (p_in p (gpu_freed (p_gpu p) mod N_INPUT_BLOCKS s))) (Set_filled (gpu_freed (p_gpu p) mod N_OUTPUT_BLOCKS)) (p_out p)\<rparr>)"
proof -
  let ?n = "gpu_freed (p_gpu p)" and ?w = "sink_freed (p_sink p)"
  have o: "ring_at N_OUTPUT_BLOCKS (p_outq p) ?w ?n (gpu_acquired (p_gpu p))"
    and t: "gpu_taken (p_gpu p) \<le> net_filled (p_net p)"
    using assms(1,3) by (auto simp: pipe_inv_def rings_ok_def)
  have n: "?w \<le> ?n" "?n < ?w + N_OUTPUT_BLOCKS" "?n < net_filled (p_net p)"
    using o assms(2,3) t gpu_counts(3) [of "p_gpu p"] by (simp_all add: ring_at_def)
  have d: "p_in p (?n mod N_INPUT_BLOCKS s) = p_produced p ! ?n" "p_out p (?n mod N_OUTPUT_BLOCKS) = z"
    using assms(1,3) n by (simp_all add: pipe_inv_def in_data_def out_data_def)
  have "k mod N_OUTPUT_BLOCKS \<noteq> ?n mod N_OUTPUT_BLOCKS" if "?w \<le> k" "k < ?w + N_OUTPUT_BLOCKS" "k \<noteq> ?n" for k
    using mod_eq_close [of k N_OUTPUT_BLOCKS ?n] that n by linarith
  then show ?thesis using assms(1,3,4) d by (auto simp: pipe_inv_def out_data_def less_Suc_eq)
qed

lemma gpu_out_inv:
  assumes "pipe_inv s f z p" "gpu_call_at s (p_gpu p) = Out_ring c" "do_call c (p_outq p) = Some q"
  shows "pipe_inv s f z (p\<lparr>p_gpu := Suc (p_gpu p), p_outq := q,
    p_out := gpu_effect (f (p_in p (gpu_freed (p_gpu p) mod N_INPUT_BLOCKS s))) c (p_out p)\<rparr>)"
proof -
  have o: "ring_at N_OUTPUT_BLOCKS (p_outq p) (sink_freed (p_sink p)) (gpu_filled (p_gpu p)) (gpu_acquired (p_gpu p))"
    using assms(1) by (auto simp: pipe_inv_def rings_ok_def)
  show ?thesis
  proof (cases s "p_gpu p" rule: gpu_call_cases)
    case acquire
    then have c: "c = Wait_free (gpu_freed (p_gpu p) mod N_OUTPUT_BLOCKS)" using assms(2) by simp
    have "q = p_outq p \<and> ring_at N_OUTPUT_BLOCKS (p_outq p) (sink_freed (p_sink p)) (gpu_freed (p_gpu p)) (Suc (gpu_freed (p_gpu p)))"
      using out_ring.wait_free_at [OF o, of q] assms(3) acquire c by (simp add: N_OUTPUT_BLOCKS_def)
    then show ?thesis using assms(1) acquire by (simp add: pipe_inv_def rings_ok_def in_data_def out_data_def c)
  next
    case fill
    then have c: "c = Set_filled (gpu_freed (p_gpu p) mod N_OUTPUT_BLOCKS)" using assms(2) by simp
    have "ring_at N_OUTPUT_BLOCKS q (sink_freed (p_sink p)) (Suc (gpu_freed (p_gpu p))) (Suc (gpu_freed (p_gpu p)))"
      using out_ring.set_filled_at [OF o, of q] assms(3) fill c by simp
    moreover have "sink_taken (p_sink p) \<le> Suc (gpu_freed (p_gpu p))"
      using assms(1) fill by (simp add: pipe_inv_def rings_ok_def)
    ultimately show ?thesis using assms(1) fill gpu_fill_data [OF assms(1)]
      by (simp add: pipe_inv_def rings_ok_def in_data_def c)
  qed (use assms(2) in simp_all)
qed

lemma sink_inv:
  assumes "pipe_inv s f z p" "do_call (sink_call (p_sink p)) (p_outq p) = Some q"
  shows "pipe_inv s f z (p\<lparr>p_sink := Suc (p_sink p), p_outq := q,
    p_consumed := p_consumed p @ consumed_by (sink_call (p_sink p)) (p_out p),
    p_out := sink_effect z (sink_call (p_sink p)) (p_out p)\<rparr>)"
proof -
  let ?w = "sink_freed (p_sink p)"
  have o: "ring_at N_OUTPUT_BLOCKS (p_outq p) ?w (gpu_filled (p_gpu p)) (gpu_acquired (p_gpu p))"
    and t: "sink_taken (p_sink p) \<le> gpu_filled (p_gpu p)" "gpu_filled (p_gpu p) \<le> length (p_produced p)"
    using assms(1) gpu_counts(2,3) [of "p_gpu p"] by (auto simp: pipe_inv_def rings_ok_def in_data_def)
  show ?thesis
  proof (cases "p_sink p" rule: sink_call_cases)
    case take
    then have q: "q = p_outq p" "?w < gpu_filled (p_gpu p)" using out_ring.wait_filled_at [OF o, of q] assms(2) by simp_all
    have "p_out p (?w mod N_OUTPUT_BLOCKS) = f (p_produced p ! ?w) z"
      using assms(1) q by (simp add: pipe_inv_def out_data_def N_OUTPUT_BLOCKS_def)
    then show ?thesis using assms(1) take q t
      by (simp add: pipe_inv_def rings_ok_def in_data_def out_data_def take_Suc_conv_app_nth)
  next
    case free
    then have r: "ring_at N_OUTPUT_BLOCKS q (Suc ?w) (gpu_filled (p_gpu p)) (gpu_acquired (p_gpu p))"
      using out_ring.set_free_at [OF o, of q] assms(2) t by simp
    have "(sink_effect z (Set_free (?w mod N_OUTPUT_BLOCKS)) (p_out p)) (k mod N_OUTPUT_BLOCKS) =
        (if k < gpu_filled (p_gpu p) then f (p_produced p ! k) z else z)"
      if k: "Suc ?w \<le> k" "k < Suc ?w + N_OUTPUT_BLOCKS" for k
    proof (cases "k < ?w + N_OUTPUT_BLOCKS")
      case True
      then have "k mod N_OUTPUT_BLOCKS \<noteq> ?w mod N_OUTPUT_BLOCKS"
        using mod_eq_close [of k N_OUTPUT_BLOCKS ?w] k by linarith
      then show ?thesis using assms(1) k True by (simp add: pipe_inv_def out_data_def)
    next
      case False
      then have "k = ?w + N_OUTPUT_BLOCKS" using k by simp
      then show ?thesis using o by (auto simp: ring_at_def)
    qed
    then show ?thesis using assms(1) free t r
      by (simp add: pipe_inv_def rings_ok_def in_data_def out_data_def)
  qed
qed

lemma pipe_step_inv: "pipe_step s f z l p p' \<Longrightarrow> pipe_inv s f z p \<Longrightarrow> pipe_inv s f z p'"
  by (induction rule: pipe_step.induct) (auto intro: net_write_inv net_call_inv gpu_in_inv gpu_out_inv sink_inv)

lemma pipe_run_inv: "pipe_run s f z p ls p' \<Longrightarrow> pipe_inv s f z p \<Longrightarrow> pipe_inv s f z p'"
  by (induction rule: pipe_run.induct) (auto intro: pipe_step_inv)

end
