(* ===== verification/S6_Pipeline_Props.thy ===== *)
theory S6_Pipeline_Props
  imports S6_Pipeline
begin

text \<open>
  What holds of the three threads together: they never hold the same block, the blocks reach
  the output thread complete and in order (a refinement of a queue), some thread can always go
  on, and no schedule keeps blocks from reaching the output.
\<close>

subsection \<open>Executing a schedule\<close>

fun pipe_do :: "site \<Rightarrow> ('a \<Rightarrow> 'b \<Rightarrow> 'b) \<Rightarrow> 'b \<Rightarrow> 'a pipe_label \<Rightarrow> ('a, 'b) pipe \<Rightarrow> ('a, 'b) pipe option" where
  "pipe_do s f z (Net_write i v) p =
     (if i \<in> set (map (\<lambda>k. k mod N_INPUT_BLOCKS s) [net_filled (p_net p)..<net_acquired (p_net p)])
      then Some (p\<lparr>p_in := (p_in p)(i := v)\<rparr>) else None)"
| "pipe_do s f z Net_call p =
     (case do_call (net_call s (p_net p)) (p_inq p) of None \<Rightarrow> None
      | Some q \<Rightarrow> Some (p\<lparr>p_net := Suc (p_net p), p_inq := q,
                         p_produced := p_produced p @ produced_by (net_call s (p_net p)) (p_in p)\<rparr>))"
| "pipe_do s f z Gpu_call p =
     (case gpu_call_at s (p_gpu p) of
        In_ring c \<Rightarrow> (case do_call c (p_inq p) of None \<Rightarrow> None | Some q \<Rightarrow> Some (p\<lparr>p_gpu := Suc (p_gpu p), p_inq := q\<rparr>))
      | Out_ring c \<Rightarrow> (case do_call c (p_outq p) of None \<Rightarrow> None | Some q \<Rightarrow>
          Some (p\<lparr>p_gpu := Suc (p_gpu p), p_outq := q,
                  p_out := gpu_effect (f (p_in p (gpu_freed (p_gpu p) mod N_INPUT_BLOCKS s))) c (p_out p)\<rparr>)))"
| "pipe_do s f z Sink_call p =
     (case do_call (sink_call (p_sink p)) (p_outq p) of None \<Rightarrow> None
      | Some q \<Rightarrow> Some (p\<lparr>p_sink := Suc (p_sink p), p_outq := q,
                         p_consumed := p_consumed p @ consumed_by (sink_call (p_sink p)) (p_out p),
                         p_out := sink_effect z (sink_call (p_sink p)) (p_out p)\<rparr>))"

lemma pipe_do_step: "pipe_do s f z l p = Some p' \<Longrightarrow> pipe_step s f z l p p'"
  by (cases "(s, f, z, l, p)" rule: pipe_do.cases)
    (auto split: if_splits option.splits gpu_call.splits intro: pipe_step.intros)

lemma pipe_step_do: "pipe_step s f z l p p' \<Longrightarrow> pipe_do s f z l p = Some p'"
  by (induction rule: pipe_step.induct) auto

fun pipe_exec :: "site \<Rightarrow> ('a \<Rightarrow> 'b \<Rightarrow> 'b) \<Rightarrow> 'b \<Rightarrow> 'a pipe_label list \<Rightarrow> ('a, 'b) pipe \<Rightarrow> ('a, 'b) pipe option" where
  "pipe_exec s f z [] p = Some p"
| "pipe_exec s f z (l # ls) p = Option.bind (pipe_do s f z l p) (pipe_exec s f z ls)"

lemma pipe_run_Cons: "pipe_run s f z p' ls p'' \<Longrightarrow> pipe_step s f z l p p' \<Longrightarrow> pipe_run s f z p (l # ls) p''"
proof (induction rule: pipe_run.induct)
  case pipe_run_Nil
  then show ?case using pipe_run.pipe_run_snoc [OF pipe_run.pipe_run_Nil] by fastforce
next
  case (pipe_run_snoc ls p1 l' p2)
  then have "pipe_run s f z p (l # ls) p1" by simp
  from pipe_run.pipe_run_snoc [OF this pipe_run_snoc.hyps(2)] show ?case by simp
qed

lemma pipe_exec_run: "pipe_exec s f z ls p = Some p' \<Longrightarrow> pipe_run s f z p ls p'"
  by (induction ls arbitrary: p)
    (auto intro: pipe_run_Nil pipe_run_Cons pipe_do_step split: bind_splits)

text \<open>A schedule that takes one block through the pipeline.\<close>

definition demo_schedule :: "nat pipe_label list" where
  "demo_schedule = [Net_call, Net_call, Net_write 0 7, Net_write 1 8, Net_call, Gpu_call, Net_call, Gpu_call, Net_write 1 9,
     Gpu_call, Net_call, Sink_call]"

definition demo_pipe :: "(nat, nat) pipe" where
  "demo_pipe = the (pipe_exec SOURCE_S6 (\<lambda>v b. v + b) 0 demo_schedule (pipe_start (\<lambda>i. 0) 0))"

lemma demo_exec:
  "pipe_exec SOURCE_S6 (\<lambda>v b. v + b) 0 demo_schedule (pipe_start (\<lambda>i. 0) 0) = Some demo_pipe"
  "p_net demo_pipe = 5" "p_gpu demo_pipe = 3" "p_sink demo_pipe = 1" "p_produced demo_pipe = [7, 9]" "p_consumed demo_pipe = [7]"
proof -
  have "map_option (\<lambda>p. (p_net p, p_gpu p, p_sink p, p_produced p, p_consumed p))
      (pipe_exec SOURCE_S6 (\<lambda>v b. v + b) 0 demo_schedule (pipe_start (\<lambda>i. 0) 0)) = Some (5, 3, 1, [7, 9], [7])"
    by code_simp
  then obtain p where p: "pipe_exec SOURCE_S6 (\<lambda>v b. v + b) 0 demo_schedule (pipe_start (\<lambda>i. 0) 0) = Some p"
    "(p_net p, p_gpu p, p_sink p, p_produced p, p_consumed p) = (5, 3, 1, [7, 9], [7])" by blast
  then show "pipe_exec SOURCE_S6 (\<lambda>v b. v + b) 0 demo_schedule (pipe_start (\<lambda>i. 0) 0) = Some demo_pipe"
    "p_net demo_pipe = 5" "p_gpu demo_pipe = 3" "p_sink demo_pipe = 1" "p_produced demo_pipe = [7, 9]" "p_consumed demo_pipe = [7]"
    by (simp_all add: demo_pipe_def)
qed

lemma demo_run: "pipe_run SOURCE_S6 (\<lambda>v b. v + b) 0 (pipe_start (\<lambda>i. 0) 0) demo_schedule demo_pipe"
  by (rule pipe_exec_run [OF demo_exec(1)])

subsection \<open>No block is held twice\<close>

definition net_slots :: "site \<Rightarrow> nat \<Rightarrow> nat set" where
  "net_slots s pc = (\<lambda>k. k mod N_INPUT_BLOCKS s) ` {net_filled pc..<net_acquired pc}"

definition gpu_in_slots :: "site \<Rightarrow> nat \<Rightarrow> nat set" where
  "gpu_in_slots s pc = (\<lambda>k. k mod N_INPUT_BLOCKS s) ` {gpu_freed pc..<gpu_taken pc}"

definition gpu_out_slots :: "nat \<Rightarrow> nat set" where
  "gpu_out_slots pc = (\<lambda>k. k mod N_OUTPUT_BLOCKS) ` {gpu_filled pc..<gpu_acquired pc}"

definition sink_slots :: "nat \<Rightarrow> nat set" where
  "sink_slots pc = (\<lambda>k. k mod N_OUTPUT_BLOCKS) ` {sink_freed pc..<sink_taken pc}"

text \<open>C6: In every interleaving the blocks that the network thread may write and the one that the
  GPU thread reads are different, as are the one the GPU thread writes and the one the output
  thread reads, and the network thread holds as many distinct blocks as it has acquired.\<close>
theorem no_block_shared:
  assumes "pipe_run s f z (pipe_start ins z) ls p"
  shows "net_slots s (p_net p) \<inter> gpu_in_slots s (p_gpu p) = {} \<and> gpu_out_slots (p_gpu p) \<inter> sink_slots (p_sink p) = {}
    \<and> card (net_slots s (p_net p)) = net_acquired (p_net p) - net_filled (p_net p)"
proof -
  have i: "rings_ok s p" using pipe_run_inv [OF assms pipe_start_inv] by (simp add: pipe_inv_def)
  have a: "ring_at (N_INPUT_BLOCKS s) (p_inq p) (gpu_freed (p_gpu p)) (net_filled (p_net p)) (net_acquired (p_net p))"
    "ring_at N_OUTPUT_BLOCKS (p_outq p) (sink_freed (p_sink p)) (gpu_filled (p_gpu p)) (gpu_acquired (p_gpu p))"
    "gpu_taken (p_gpu p) \<le> net_filled (p_net p)" "sink_taken (p_sink p) \<le> gpu_filled (p_gpu p)"
    using i by (simp_all add: rings_ok_def)
  have le: "gpu_freed (p_gpu p) \<le> net_filled (p_net p)" "sink_freed (p_sink p) \<le> gpu_filled (p_gpu p)"
    using a by (simp_all add: ring_at_def)
  have "inj_on (\<lambda>k. k mod N_INPUT_BLOCKS s) {net_filled (p_net p)..<net_acquired (p_net p)}"
  proof (rule inj_onI)
    fix k l assume "k \<in> {net_filled (p_net p)..<net_acquired (p_net p)}" "l \<in> {net_filled (p_net p)..<net_acquired (p_net p)}"
      "k mod N_INPUT_BLOCKS s = l mod N_INPUT_BLOCKS s"
    then show "k = l" using in_ring.slots_apart [OF a(1), of k l] le by auto
  qed
  then have "card (net_slots s (p_net p)) = net_acquired (p_net p) - net_filled (p_net p)"
    unfolding net_slots_def by (simp add: card_image)
  moreover have "net_slots s (p_net p) \<inter> gpu_in_slots s (p_gpu p) = {}"
    using in_ring.slots_apart [OF a(1)] le a(3) net_counts(1) [of "p_net p"] by (fastforce simp: net_slots_def gpu_in_slots_def)
  moreover have "gpu_out_slots (p_gpu p) \<inter> sink_slots (p_sink p) = {}"
    using out_ring.slots_apart [OF a(2)] le a(4) gpu_counts(2) [of "p_gpu p"] by (fastforce simp: gpu_out_slots_def sink_slots_def)
  ultimately show ?thesis by blast
qed

theorem no_block_shared_witness:
  "net_slots SOURCE_S6 (p_net demo_pipe) \<inter> gpu_in_slots SOURCE_S6 (p_gpu demo_pipe) = {} \<and> card (net_slots SOURCE_S6 (p_net demo_pipe)) = 1"
  using no_block_shared [OF demo_run] by (simp add: demo_exec net_acquired_def net_filled_def)

subsection \<open>The pipeline is a queue\<close>

text \<open>The specification: a list of blocks on their way and the list of those delivered.\<close>

datatype 'b fifo_op = Enq 'b | Deq | Idle

fun fifo_step :: "'b fifo_op \<Rightarrow> 'b list \<times> 'b list \<Rightarrow> ('b list \<times> 'b list) option" where
  "fifo_step (Enq x) (waiting, delivered) = Some (waiting @ [x], delivered)"
| "fifo_step Deq (x # waiting, delivered) = Some (waiting, delivered @ [x])"
| "fifo_step Deq ([], delivered) = None"
| "fifo_step Idle st = Some st"

definition fifo_of :: "('a \<Rightarrow> 'b \<Rightarrow> 'b) \<Rightarrow> 'b \<Rightarrow> ('a, 'b) pipe \<Rightarrow> 'b list \<times> 'b list" where
  "fifo_of f z p = (drop (sink_taken (p_sink p)) (map (\<lambda>v. f v z) (p_produced p)), p_consumed p)"

fun fifo_op_of :: "site \<Rightarrow> ('a \<Rightarrow> 'b \<Rightarrow> 'b) \<Rightarrow> 'b \<Rightarrow> 'a pipe_label \<Rightarrow> ('a, 'b) pipe \<Rightarrow> 'b fifo_op" where
  "fifo_op_of s f z Net_call p = (case net_call s (p_net p) of Set_filled i \<Rightarrow> Enq (f (p_in p i) z) | _ \<Rightarrow> Idle)"
| "fifo_op_of s f z Sink_call p = (case sink_call (p_sink p) of Wait_filled i \<Rightarrow> Deq | _ \<Rightarrow> Idle)"
| "fifo_op_of s f z _ p = Idle"

lemma pipe_bounds:
  assumes "pipe_inv s f z p"
  shows "length (p_produced p) = net_filled (p_net p)" "net_acquired (p_net p) \<le> gpu_freed (p_gpu p) + N_INPUT_BLOCKS s"
    "gpu_acquired (p_gpu p) \<le> sink_freed (p_sink p) + N_OUTPUT_BLOCKS" "sink_taken (p_sink p) \<le> gpu_filled (p_gpu p)"
    "gpu_taken (p_gpu p) \<le> net_filled (p_net p)" "sink_taken (p_sink p) \<le> length (p_produced p)"
  using assms gpu_counts(2,3) [of "p_gpu p"] by (auto simp: pipe_inv_def rings_ok_def in_data_def ring_at_def)

lemma net_call_fifo:
  assumes "pipe_inv s f z p" "pipe_step s f z Net_call p p'"
  shows "fifo_step (fifo_op_of s f z Net_call p) (fifo_of f z p) = Some (fifo_of f z p')"
proof -
  have p': "p_sink p' = p_sink p" "p_consumed p' = p_consumed p"
    "p_produced p' = p_produced p @ produced_by (net_call s (p_net p)) (p_in p)"
    using assms(2) by (auto elim!: pipe_net_cases)
  show ?thesis using pipe_bounds(6) [OF assms(1)]
    by (cases s "p_net p" rule: net_call_cases) (simp_all add: fifo_of_def p')
qed

lemma sink_call_fifo:
  assumes "pipe_inv s f z p" "pipe_step s f z Sink_call p p'"
  shows "fifo_step (fifo_op_of s f z Sink_call p) (fifo_of f z p) = Some (fifo_of f z p')"
proof -
  have p': "p_sink p' = Suc (p_sink p)" "p_produced p' = p_produced p"
    "p_consumed p' = p_consumed p @ consumed_by (sink_call (p_sink p)) (p_out p)"
    using assms(2) by (auto elim!: pipe_sink_cases)
  have inv: "pipe_inv s f z p'" using pipe_step_inv [OF assms(2,1)] .
  have c: "p_consumed q = take (sink_taken (p_sink q)) (map (\<lambda>v. f v z) (p_produced q))" if "pipe_inv s f z q" for q
    using that by (simp add: pipe_inv_def out_data_def take_map)
  have len: "sink_taken (Suc (p_sink p)) \<le> length (p_produced p)"
    using pipe_bounds(6) [OF inv] p' by simp
  show ?thesis
  proof (cases "p_sink p" rule: sink_call_cases)
    case take
    have "drop (sink_freed (p_sink p)) (map (\<lambda>v. f v z) (p_produced p)) =
        f (p_produced p ! sink_freed (p_sink p)) z # drop (Suc (sink_freed (p_sink p))) (map (\<lambda>v. f v z) (p_produced p))"
      using len take by (simp add: Cons_nth_drop_Suc [symmetric])
    then show ?thesis using take len c [OF inv] c [OF assms(1)]
      by (simp add: fifo_of_def p' take_Suc_conv_app_nth)
  next
    case free
    then show ?thesis by (simp add: fifo_of_def p')
  qed
qed

text \<open>C2: The three threads with their two rings implement a queue: every step of every
  interleaving is an enqueue, a dequeue or no change of the abstract queue of blocks on their
  way, in first-in first-out order, and the queue never holds more than the slots of both
  rings.\<close>
theorem pipeline_refines_queue:
  assumes "pipe_run s f z (pipe_start ins z) ls p" "pipe_step s f z l p p'"
  shows "fifo_step (fifo_op_of s f z l p) (fifo_of f z p) = Some (fifo_of f z p')
    \<and> length (fst (fifo_of f z p)) \<le> N_INPUT_BLOCKS s + N_OUTPUT_BLOCKS"
proof -
  have inv: "pipe_inv s f z p" by (rule pipe_run_inv [OF assms(1) pipe_start_inv])
  have "fifo_step (fifo_op_of s f z l p) (fifo_of f z p) = Some (fifo_of f z p')"
  proof (cases l)
    case (Net_write i v)
    with assms(2) show ?thesis by (auto simp: fifo_of_def elim!: pipe_write_cases)
  next
    case Gpu_call
    with assms(2) show ?thesis by (auto simp: fifo_of_def elim!: pipe_gpu_cases)
  qed (use assms(2) net_call_fifo [OF inv] sink_call_fifo [OF inv] in simp_all)
  moreover have "length (p_produced p) - sink_taken (p_sink p) \<le> N_INPUT_BLOCKS s + N_OUTPUT_BLOCKS"
    using pipe_bounds [OF inv] net_counts [of "p_net p"] gpu_counts [of "p_gpu p"] sink_counts [of "p_sink p"] by linarith
  ultimately show ?thesis by (simp add: fifo_of_def)
qed

theorem pipeline_refines_queue_witness:
  "\<exists>p p'. pipe_step SOURCE_S6 (\<lambda>v b. v + b) 0 Sink_call p p' \<and> fifo_of (\<lambda>v b. v + b) 0 p = ([7, 9 :: nat], []) \<and>
    fifo_step Deq ([7, 9], []) = Some (fifo_of (\<lambda>v b. v + b) 0 p')"
proof -
  have "map_option (\<lambda>p. (fifo_of (\<lambda>v b. v + b) 0 p, fifo_op_of SOURCE_S6 (\<lambda>v b. v + b) 0 Sink_call p,
        pipe_do SOURCE_S6 (\<lambda>v b. v + b) 0 Sink_call p = None))
      (pipe_exec SOURCE_S6 (\<lambda>v b. v + b) 0 (butlast demo_schedule) (pipe_start (\<lambda>i. 0) 0)) = Some (([7, 9], []), Deq, False)"
    by code_simp
  then obtain p where p: "pipe_exec SOURCE_S6 (\<lambda>v b. v + b) 0 (butlast demo_schedule) (pipe_start (\<lambda>i. 0) 0) = Some p"
    "fifo_of (\<lambda>v b. v + b) 0 p = ([7, 9], [])" "fifo_op_of SOURCE_S6 (\<lambda>v b. v + b) 0 Sink_call p = Deq"
    "pipe_do SOURCE_S6 (\<lambda>v b. v + b) 0 Sink_call p \<noteq> None" by auto
  from p(4) obtain p' where "pipe_do SOURCE_S6 (\<lambda>v b. v + b) 0 Sink_call p = Some p'" by blast
  note p' = pipe_do_step [OF this]
  show ?thesis using pipeline_refines_queue [OF pipe_exec_run [OF p(1)] p'] p' p(2,3) by auto
qed

subsection \<open>Progress\<close>

fun is_write :: "'a pipe_label \<Rightarrow> bool" where
  "is_write (Net_write i v) = True"
| "is_write l = False"

lemma some_thread_goes_on:
  assumes "pipe_inv s f z p"
  shows "\<exists>l p'. \<not> is_write l \<and> pipe_step s f z l p p'"
proof -
  have a: "ring_at (N_INPUT_BLOCKS s) (p_inq p) (gpu_freed (p_gpu p)) (net_filled (p_net p)) (net_acquired (p_net p))"
    "ring_at N_OUTPUT_BLOCKS (p_outq p) (sink_freed (p_sink p)) (gpu_filled (p_gpu p)) (gpu_acquired (p_gpu p))"
    using assms by (simp_all add: pipe_inv_def rings_ok_def)
  show ?thesis
  proof (cases "sink_taken (p_sink p) = sink_freed (p_sink p) \<and> sink_freed (p_sink p) = gpu_filled (p_gpu p)")
    case False
    have "\<exists>q. do_call (sink_call (p_sink p)) (p_outq p) = Some q"
    proof (cases "p_sink p" rule: sink_call_cases)
      case take
      then have "sink_freed (p_sink p) < gpu_filled (p_gpu p)" using a(2) False by (simp add: ring_at_def)
      then show ?thesis using out_ring.wait_filled_possible [OF a(2)] take by auto
    qed simp
    then obtain q where "do_call (sink_call (p_sink p)) (p_outq p) = Some q" ..
    from pipe_step.sink [OF this, of s f z] show ?thesis by (metis is_write.simps(4))
  next
    case sink: True
    show ?thesis
    proof (cases "\<exists>p'. pipe_step s f z Gpu_call p p'")
      case True
      then show ?thesis by (metis is_write.simps(3))
    next
      case gpu: False
      have "gpu_freed (p_gpu p) = net_filled (p_net p)"
      proof (cases s "p_gpu p" rule: gpu_call_cases)
        case take
        then show ?thesis
          using gpu pipe_step.gpu_in [of s p] in_ring.wait_filled_possible [OF a(1)] a(1) by (metis le_neq_implies_less ring_at_def)
      next
        case acquire
        then have "do_call (Wait_free (gpu_freed (p_gpu p) mod N_OUTPUT_BLOCKS)) (p_outq p) = Some (p_outq p)"
          using out_ring.wait_free_possible [OF a(2)] sink by (simp add: N_OUTPUT_BLOCKS_def)
        then show ?thesis using gpu pipe_step.gpu_out [OF acquire(1)] by metis
      next
        case fill
        then show ?thesis using gpu pipe_step.gpu_out [OF fill(1), of _ f z] by (metis do_call_simps(4))
      next
        case free
        then show ?thesis using gpu pipe_step.gpu_in [OF free(1), of _ f z] by (metis do_call_simps(3))
      qed
      then have nf: "net_acquired (p_net p) < gpu_freed (p_gpu p) + N_INPUT_BLOCKS s"
        using net_counts(2) [of "p_net p"] N_INPUT_BLOCKS_ge [of s] by linarith
      have "\<exists>q. do_call (net_call s (p_net p)) (p_inq p) = Some q"
        using in_ring.wait_free_possible [OF a(1) nf] by (cases s "p_net p" rule: net_call_cases) auto
      then obtain q where "do_call (net_call s (p_net p)) (p_inq p) = Some q" ..
      from pipe_step.net_call [OF this, of f z] show ?thesis by (metis is_write.simps(2))
    qed
  qed
qed

lemma calls_counted:
  "pipe_run s f z p ls p' \<Longrightarrow>
   length (filter (\<lambda>l. \<not> is_write l) ls) + (p_net p + p_gpu p + p_sink p) = p_net p' + p_gpu p' + p_sink p'"
proof (induction rule: pipe_run.induct)
  case (pipe_run_snoc ls p' l p'')
  have "p_net p'' + p_gpu p'' + p_sink p'' = (if is_write l then 0 else 1) + (p_net p' + p_gpu p' + p_sink p')"
    using pipe_run_snoc.hyps(2) by (cases rule: pipe_step.cases) simp_all
  with pipe_run_snoc.IH show ?case by simp
qed simp

lemma positions_bounded:
  assumes "pipe_inv s f z p"
  shows "p_net p + p_gpu p + p_sink p \<le> 8 * sink_freed (p_sink p) + 2 * N_INPUT_BLOCKS s + 22"
proof -
  have "p_net p \<le> 2 * net_acquired (p_net p)" "p_gpu p \<le> 4 * gpu_acquired (p_gpu p) + 1" "p_sink p \<le> 2 * sink_freed (p_sink p) + 1"
    unfolding net_acquired_def gpu_acquired_def sink_freed_def by presburger+
  moreover have "gpu_freed (p_gpu p) \<le> gpu_acquired (p_gpu p)" using gpu_counts [of "p_gpu p"] by linarith
  ultimately show ?thesis using pipe_bounds(2,3) [OF assms] by (simp add: N_OUTPUT_BLOCKS_def)
qed

text \<open>Without any assumption on the scheduler: a call is always possible, and after enough calls,
  whatever the order, as many blocks as one likes have been written and freed.\<close>

text \<open>C7: In every reachable state some thread can make its next call, and whatever the schedule,
  after 8*m + 2*N_INPUT_BLOCKS + 22 calls more than m blocks have left the pipeline.\<close>
theorem pipeline_never_stops:
  assumes "pipe_run s f z (pipe_start ins z) ls p"
  shows "(\<exists>l p'. \<not> is_write l \<and> pipe_step s f z l p p')
    \<and> (8 * m + 2 * N_INPUT_BLOCKS s + 22 < length (filter (\<lambda>l. \<not> is_write l) ls) \<longrightarrow> m < sink_freed (p_sink p))"
proof -
  have inv: "pipe_inv s f z p" by (rule pipe_run_inv [OF assms pipe_start_inv])
  have "length (filter (\<lambda>l. \<not> is_write l) ls) = p_net p + p_gpu p + p_sink p"
    using calls_counted [OF assms] by (simp add: pipe_start_def)
  then show ?thesis using some_thread_goes_on [OF inv] positions_bounded [OF inv] by auto
qed

theorem pipeline_never_stops_witness:
  "\<exists>l p'. \<not> is_write l \<and> pipe_step SOURCE_S6 (\<lambda>v b. v + b) 0 l demo_pipe p'"
  using pipeline_never_stops [OF demo_run, of 0] by blast

subsection \<open>The blocks themselves\<close>

text \<open>What the GPU thread makes of an input block and the old content of an output block.\<close>

definition gpu_block ::
  "site \<Rightarrow> gpu_config \<Rightarrow> (cufft_config \<Rightarrow> fft_input \<Rightarrow> (real \<times> real) list) \<Rightarrow> cufft_config \<Rightarrow> u64 \<Rightarrow> u64 \<Rightarrow>
   in_block \<Rightarrow> out_block \<Rightarrow> out_block" where
  "gpu_block s gc cufft plan num padding ib ob =
     snd (process_block s gc cufft plan num ib (ob\<lparr>ob_header := pass_metadata s padding (ib_header ib) (ob_header ob)\<rparr>))"

lemma gpu_process_block:
  "g_out (gpu_process s so gc cufft ev st) =
   (g_out st)[g_curblock_out st := gpu_block s gc cufft (g_cufft st) (g_num_coarse_chan st) (ge_padding ev) (ge_block ev)
                                     (g_out st ! g_curblock_out st)]"
  by (simp add: gpu_process_def gpu_block_def Let_def split: prod.splits)

lemma gpu_block_header:
  fixes ib :: in_block and gc :: gpu_config and cufft plan num padding
  assumes "length (oh_nhits (ob_header ob)) = N_BORS s" "length (oh_missed_pkts (ob_header ob)) = N_BORS s"
    and "length (ih_missed_pkts (ib_header ib)) = N_BORS s"
  defines "h \<equiv> ob_header (gpu_block s gc cufft plan num padding ib ob)"
  shows "oh_mcnt h = ih_mcnt (ib_header ib)" "oh_time_sec h = ih_time_sec (ib_header ib)"
    "num \<noteq> 0 \<Longrightarrow> gc_maxhits gc < 2 ^ 64 \<Longrightarrow> b < N_BORS s \<Longrightarrow> unat (oh_nhits h ! b) \<le> gc_maxhits gc"
proof -
  define h0 where "h0 = pass_metadata s padding (ib_header ib) (ob_header ob)"
  obtain ns where ns: "h = h0\<lparr>oh_nhits := ns\<rparr>" "length ns = length (oh_nhits h0)"
    "num \<noteq> 0 \<longrightarrow> gc_maxhits gc < 2 ^ 64 \<longrightarrow> n_bors s \<le> length ns \<longrightarrow> (\<forall>b < n_bors s. unat (ns ! b) \<le> gc_maxhits gc)"
    using process_block_header [of s gc cufft plan num ib "ob\<lparr>ob_header := h0\<rparr>"]
    by (auto simp: h_def h0_def gpu_block_def)
  have l: "length (oh_nhits h0) = N_BORS s"
    using assms(1-3) by (cases s) (simp_all add: h0_def pass_metadata_def copy_missed_pkts_def)
  have n: "n_bors s = N_BORS s" by (cases s) simp_all
  show "oh_mcnt h = ih_mcnt (ib_header ib)" "oh_time_sec h = ih_time_sec (ib_header ib)"
    using ns(1) by (simp_all add: h0_def pass_metadata_def split: prod.splits)
  show "num \<noteq> 0 \<Longrightarrow> gc_maxhits gc < 2 ^ 64 \<Longrightarrow> b < N_BORS s \<Longrightarrow> unat (oh_nhits h ! b) \<le> gc_maxhits gc"
    using ns l n by simp
qed

text \<open>An item of the input ring: the block, and the FFT plan, the number of channels and the padding
  word that the GPU thread finds with it.\<close>

type_synonym in_item = "in_block \<times> cufft_config \<times> u64 \<times> u64"

definition gpu_item :: "site \<Rightarrow> gpu_config \<Rightarrow> (cufft_config \<Rightarrow> fft_input \<Rightarrow> (real \<times> real) list) \<Rightarrow> in_item \<Rightarrow> out_block \<Rightarrow> out_block" where
  "gpu_item s gc cufft item ob = (let (ib, plan, num, padding) = item in gpu_block s gc cufft plan num padding ib ob)"

definition well_sized :: "site \<Rightarrow> in_item \<Rightarrow> bool" where
  "well_sized s item = (length (ih_missed_pkts (ib_header (fst item))) = N_BORS s)"

lemma gpu_item_header:
  assumes "well_sized s item"
  shows "oh_mcnt (ob_header (gpu_item s gc cufft item (zero_out_block s))) = ih_mcnt (ib_header (fst item))"
    "oh_time_sec (ob_header (gpu_item s gc cufft item (zero_out_block s))) = ih_time_sec (ib_header (fst item))"
    "fst (snd (snd item)) \<noteq> 0 \<Longrightarrow> gc_maxhits gc < 2 ^ 64 \<Longrightarrow> b < N_BORS s \<Longrightarrow>
       unat (oh_nhits (ob_header (gpu_item s gc cufft item (zero_out_block s))) ! b) \<le> gc_maxhits gc"
proof -
  obtain ib plan num pad where i: "item = (ib, plan, num, pad)" by (metis surj_pair)
  have z: "length (oh_nhits (ob_header (zero_out_block s))) = N_BORS s" "length (oh_missed_pkts (ob_header (zero_out_block s))) = N_BORS s"
    by (simp_all add: zero_out_block_def)
  have m: "length (ih_missed_pkts (ib_header ib)) = N_BORS s" using assms by (simp add: well_sized_def i)
  note h = gpu_block_header [OF z m, where gc = gc and cufft = cufft and plan = plan and num = num and padding = pad]
  show "oh_mcnt (ob_header (gpu_item s gc cufft item (zero_out_block s))) = ih_mcnt (ib_header (fst item))"
    "oh_time_sec (ob_header (gpu_item s gc cufft item (zero_out_block s))) = ih_time_sec (ib_header (fst item))"
    "fst (snd (snd item)) \<noteq> 0 \<Longrightarrow> gc_maxhits gc < 2 ^ 64 \<Longrightarrow> b < N_BORS s \<Longrightarrow>
       unat (oh_nhits (ob_header (gpu_item s gc cufft item (zero_out_block s))) ! b) \<le> gc_maxhits gc"
    using h by (simp_all add: gpu_item_def i)
qed

lemma consumed_are_items:
  assumes "pipe_run s (gpu_item s gc cufft) (zero_out_block s) (pipe_start ins (zero_out_block s)) ls p"
  shows "p_consumed p = map (\<lambda>item. gpu_item s gc cufft item (zero_out_block s)) (take (length (p_consumed p)) (p_produced p))"
proof -
  have inv: "pipe_inv s (gpu_item s gc cufft) (zero_out_block s) p" by (rule pipe_run_inv [OF assms pipe_start_inv])
  have "p_consumed p = map (\<lambda>item. gpu_item s gc cufft item (zero_out_block s)) (take (sink_taken (p_sink p)) (p_produced p))"
    using inv by (simp add: pipe_inv_def out_data_def)
  with pipe_bounds(6) [OF inv] show ?thesis by simp
qed

text \<open>C10: The output thread sees the blocks of the network thread in order, none lost or
  repeated: the mcnt and the time of the k-th block it takes are those of the k-th block that
  was filled.\<close>
theorem blocks_delivered_in_order:
  assumes "pipe_run s (gpu_item s gc cufft) (zero_out_block s) (pipe_start ins (zero_out_block s)) ls p"
    and "list_all (well_sized s) (p_produced p)"
  shows "map (\<lambda>ob. (oh_mcnt (ob_header ob), oh_time_sec (ob_header ob))) (p_consumed p) =
    map (\<lambda>item. (ih_mcnt (ib_header (fst item)), ih_time_sec (ib_header (fst item)))) (take (length (p_consumed p)) (p_produced p))"
proof -
  define n where "n = length (p_consumed p)"
  have c: "p_consumed p = map (\<lambda>item. gpu_item s gc cufft item (zero_out_block s)) (take n (p_produced p))"
    using consumed_are_items [OF assms(1)] by (simp add: n_def)
  have "well_sized s item" if "item \<in> set (take n (p_produced p))" for item
    using assms(2) that by (auto simp: list_all_iff dest: in_set_takeD)
  then have "map (\<lambda>ob. (oh_mcnt (ob_header ob), oh_time_sec (ob_header ob))) (p_consumed p) =
      map (\<lambda>item. (ih_mcnt (ib_header (fst item)), ih_time_sec (ib_header (fst item)))) (take n (p_produced p))"
    unfolding c by (simp add: gpu_item_header)
  then show ?thesis by (simp add: n_def)
qed

text \<open>C22: With a hit limit of at most MAXHITS and all coarse channels in use, write_hits never
  writes past the arrays on its stack, whatever cfitsio answers, on a block that reaches the
  output thread in some interleaving of the three threads.\<close>
theorem hits_fit_arrays:
  assumes "pipe_run s (gpu_item s gc cufft) (zero_out_block s) (pipe_start ins (zero_out_block s)) ls p"
    and "list_all (\<lambda>item. well_sized s item \<and>
        unat (fst (snd (snd item))) div N_SUBSPECTRA_PER_SPECTRUM s = N_COARSE_CHAN s div N_SUBSPECTRA_PER_SPECTRUM s) (p_produced p)"
    and "gc_maxhits gc \<le> MAXHITS" "ob \<in> set (p_consumed p)"
  shows "\<exists>r. write_hits s sys ob etf = Inr r"
proof -
  obtain item where i: "item \<in> set (p_produced p)" "ob = gpu_item s gc cufft item (zero_out_block s)"
  proof -
    define n where "n = length (p_consumed p)"
    have c: "p_consumed p = map (\<lambda>item. gpu_item s gc cufft item (zero_out_block s)) (take n (p_produced p))"
      using consumed_are_items [OF assms(1)] by (simp add: n_def)
    show ?thesis using assms(4) that unfolding c by (auto dest: in_set_takeD)
  qed
  have sized: "well_sized s item" "fst (snd (snd item)) \<noteq> 0"
    using assms(2) i(1) by (auto simp: list_all_iff) (cases s; auto)
  have "gc_maxhits gc < 2 ^ 64" using assms(3) by (simp add: MAXHITS_def)
  then have "unat (oh_nhits (ob_header ob) ! bors) \<le> gc_maxhits gc" if "bors < N_BORS s" for bors
    using gpu_item_header(3) [of s item gc bors cufft] sized that by (auto simp: i(2))
  then have "list_all (\<lambda>bors. unat (oh_nhits (ob_header ob) ! bors) \<le> MAXHITS) [0..<N_BORS s]"
    using assms(3) by (force simp: list_all_iff intro: order_trans)
  from bounded_hits_fit [OF this] show ?thesis by (simp add: write_hits_eq)
qed

definition demo_item :: "u64 \<Rightarrow> in_item" where
  "demo_item mcnt = (\<lparr>ib_header = (ib_header (ge_block demo_gpu_event))\<lparr>ih_mcnt := mcnt\<rparr>, ib_data = (\<lambda>a. 0)\<rparr>,
     default_cufft SOURCE_FAST, 1, 0)"

definition item_schedule :: "in_item pipe_label list" where
  "item_schedule = [Net_call, Net_call, Net_write 0 (demo_item 5), Net_call, Gpu_call, Gpu_call, Gpu_call, Sink_call]"

lemma item_run:
  obtains p where
    "pipe_run SOURCE_FAST (gpu_item SOURCE_FAST demo_gpu_config (\<lambda>c d. [])) (zero_out_block SOURCE_FAST)
      (pipe_start (\<lambda>i. demo_item 0) (zero_out_block SOURCE_FAST)) item_schedule p"
    "p_produced p = [demo_item 5]"
    "p_consumed p = [gpu_item SOURCE_FAST demo_gpu_config (\<lambda>c d. []) (demo_item 5) (zero_out_block SOURCE_FAST)]"
proof -
  define f where "f = gpu_item SOURCE_FAST demo_gpu_config (\<lambda>c d. [])"
  define z where "z = zero_out_block SOURCE_FAST"
  have "\<exists>p. pipe_exec SOURCE_FAST f z item_schedule (pipe_start (\<lambda>i. demo_item 0) z) = Some p \<and>
      p_produced p = [demo_item 5] \<and> p_consumed p = [f (demo_item 5) z]"
    by (simp add: item_schedule_def pipe_start_def net_filled_def net_acquired_def gpu_call_at_def gpu_block_calls_def
        gpu_freed_def sink_call_def N_OUTPUT_BLOCKS_def)
  then obtain p where "pipe_exec SOURCE_FAST f z item_schedule (pipe_start (\<lambda>i. demo_item 0) z) = Some p"
    "p_produced p = [demo_item 5]" "p_consumed p = [f (demo_item 5) z]" by blast
  note p = this
  show ?thesis by (rule that [OF pipe_exec_run [OF p(1) [unfolded f_def z_def]] p(2) p(3) [unfolded f_def z_def]])
qed

lemma demo_item_ok: "well_sized SOURCE_FAST (demo_item m)" "fst (snd (snd (demo_item m))) = 1"
  by (simp_all add: well_sized_def demo_item_def demo_gpu_event_def)

theorem blocks_delivered_in_order_witness:
  "\<exists>p :: (in_item, out_block) pipe. p_consumed p = [gpu_item SOURCE_FAST demo_gpu_config (\<lambda>c d. []) (demo_item 5) (zero_out_block SOURCE_FAST)] \<and>
    map (\<lambda>ob. (oh_mcnt (ob_header ob), oh_time_sec (ob_header ob))) (p_consumed p) = [(5, 9)] \<and> p_produced p = [demo_item 5]"
proof -
  obtain p where p:
    "pipe_run SOURCE_FAST (gpu_item SOURCE_FAST demo_gpu_config (\<lambda>c d. [])) (zero_out_block SOURCE_FAST)
      (pipe_start (\<lambda>i. demo_item 0) (zero_out_block SOURCE_FAST)) item_schedule p"
    "p_produced p = [demo_item 5]"
    "p_consumed p = [gpu_item SOURCE_FAST demo_gpu_config (\<lambda>c d. []) (demo_item 5) (zero_out_block SOURCE_FAST)]"
    by (rule item_run)
  have "ih_mcnt (ib_header (fst (demo_item 5))) = 5" "ih_time_sec (ib_header (fst (demo_item 5))) = 9"
    by (simp_all add: demo_item_def demo_gpu_event_def)
  then have "map (\<lambda>ob. (oh_mcnt (ob_header ob), oh_time_sec (ob_header ob))) (p_consumed p) = [(5, 9)]"
    using blocks_delivered_in_order [OF p(1)] p(2,3) demo_item_ok(1) by simp
  with p(2,3) show ?thesis by (intro exI [of _ p] conjI)
qed

theorem hits_fit_arrays_witness:
  "\<exists>r. write_hits SOURCE_FAST quiet_sys (gpu_item SOURCE_FAST demo_gpu_config (\<lambda>c d. []) (demo_item 5) (zero_out_block SOURCE_FAST))
    (demo_etf ()) = Inr r"
proof -
  obtain p where p:
    "pipe_run SOURCE_FAST (gpu_item SOURCE_FAST demo_gpu_config (\<lambda>c d. [])) (zero_out_block SOURCE_FAST)
      (pipe_start (\<lambda>i. demo_item 0) (zero_out_block SOURCE_FAST)) item_schedule p"
    "p_produced p = [demo_item 5]"
    "p_consumed p = [gpu_item SOURCE_FAST demo_gpu_config (\<lambda>c d. []) (demo_item 5) (zero_out_block SOURCE_FAST)]"
    by (rule item_run)
  have i: "list_all (\<lambda>item. well_sized SOURCE_FAST item \<and> unat (fst (snd (snd item))) div N_SUBSPECTRA_PER_SPECTRUM SOURCE_FAST =
      N_COARSE_CHAN SOURCE_FAST div N_SUBSPECTRA_PER_SPECTRUM SOURCE_FAST) (p_produced p)"
    using p(2) demo_item_ok by (simp add: demo_item_def)
  have g: "gc_maxhits demo_gpu_config \<le> MAXHITS" by (simp add: demo_gpu_config_def MAXHITS_def)
  have "gpu_item SOURCE_FAST demo_gpu_config (\<lambda>c d. []) (demo_item 5) (zero_out_block SOURCE_FAST) \<in> set (p_consumed p)"
    by (simp add: p(3))
  from hits_fit_arrays [OF p(1) i g this] show ?thesis .
qed

end
