(* ===== verification/S6_GpuMem.thy ===== *)
theory S6_GpuMem
  imports S6_GpuThread
begin

text \<open>
  The device memory of \<open>spectroscopy\<close> in \<open>s6GPU.cu\<close>: the \<open>device_vectors_t\<close> structure, and each
  version of the function as its sequence of allocations, deletions, kernels and semaphore calls.
  \<open>S6_Gpu\<close> says what the stages compute; here they run on vectors that have to be
  allocated, have a size, and outlive the call in the \<open>REALLOC_NONE\<close> version.
\<close>

subsection \<open>Device vectors\<close>

text \<open>A pointer member is null, points to a vector, or still holds the address of a deleted one.\<close>

datatype 'a vptr = Null | Freed | Live 'a

fun live :: "'a list vptr \<Rightarrow> 'a list" where
  "live (Live xs) = xs"
| "live _ = []"

fun is_live :: "'a vptr \<Rightarrow> bool" where
  "is_live (Live x) = True"
| "is_live _ = False"

record ('r, 'i) device_vectors =
  dv_fft_data :: "'i list vptr"
  dv_raw_timeseries :: "'r list vptr"
  dv_fft_data_out :: "(real \<times> real) list vptr"
  dv_powspec :: "real list vptr"
  dv_scanned :: "real list vptr"
  dv_baseline :: "real list vptr"
  dv_normalised :: "real list vptr"
  dv_hit_indices :: "nat list vptr"
  dv_hit_powers :: "real list vptr"
  dv_hit_baselines :: "real list vptr"
  dv_spectra_sums :: "real list vptr"
  dv_spectra_indices :: "nat list vptr"

datatype vec = Fft_data | Raw_timeseries | Fft_data_out | Powspec | Scanned | Baseline | Normalised
  | Hit_indices | Hit_powers | Hit_baselines | Spectra_sums | Spectra_indices

definition vecs :: "vec list" where
  "vecs = [Fft_data, Raw_timeseries, Fft_data_out, Powspec, Scanned, Baseline, Normalised,
           Hit_indices, Hit_powers, Hit_baselines, Spectra_sums, Spectra_indices]"

datatype elem_type = T_char | T_char2 | T_float | T_float2 | T_int

fun elem_size :: "elem_type \<Rightarrow> nat" where
  "elem_size T_char = 1"
| "elem_size T_char2 = 2"
| "elem_size T_float = 4"
| "elem_size T_float2 = 8"
| "elem_size T_int = 4"

text \<open>The element types of the members in \<open>s6GPU.h\<close>, the same in all versions.\<close>

fun declared_type :: "vec \<Rightarrow> elem_type" where
  "declared_type Raw_timeseries = T_char"
| "declared_type Fft_data_out = T_float2"
| "declared_type Hit_indices = T_int"
| "declared_type Spectra_indices = T_int"
| "declared_type v = T_float"

fun vec_state :: "vec \<Rightarrow> ('r, 'i) device_vectors \<Rightarrow> nat vptr" where
  "vec_state Fft_data dv = map_vptr length (dv_fft_data dv)"
| "vec_state Raw_timeseries dv = map_vptr length (dv_raw_timeseries dv)"
| "vec_state Fft_data_out dv = map_vptr length (dv_fft_data_out dv)"
| "vec_state Powspec dv = map_vptr length (dv_powspec dv)"
| "vec_state Scanned dv = map_vptr length (dv_scanned dv)"
| "vec_state Baseline dv = map_vptr length (dv_baseline dv)"
| "vec_state Normalised dv = map_vptr length (dv_normalised dv)"
| "vec_state Hit_indices dv = map_vptr length (dv_hit_indices dv)"
| "vec_state Hit_powers dv = map_vptr length (dv_hit_powers dv)"
| "vec_state Hit_baselines dv = map_vptr length (dv_hit_baselines dv)"
| "vec_state Spectra_sums dv = map_vptr length (dv_spectra_sums dv)"
| "vec_state Spectra_indices dv = map_vptr length (dv_spectra_indices dv)"

text \<open>\<open>new thrust::device_vector<T>(n)\<close> is filled with zeros; \<open>z\<close> holds those of the sample types.\<close>

fun new_vec :: "'r \<times> 'i \<Rightarrow> vec \<Rightarrow> nat \<Rightarrow> ('r, 'i) device_vectors \<Rightarrow> ('r, 'i) device_vectors" where
  "new_vec z Fft_data n dv = dv\<lparr>dv_fft_data := Live (replicate n (snd z))\<rparr>"
| "new_vec z Raw_timeseries n dv = dv\<lparr>dv_raw_timeseries := Live (replicate n (fst z))\<rparr>"
| "new_vec z Fft_data_out n dv = dv\<lparr>dv_fft_data_out := Live (replicate n (0, 0))\<rparr>"
| "new_vec z Powspec n dv = dv\<lparr>dv_powspec := Live (replicate n 0)\<rparr>"
| "new_vec z Scanned n dv = dv\<lparr>dv_scanned := Live (replicate n 0)\<rparr>"
| "new_vec z Baseline n dv = dv\<lparr>dv_baseline := Live (replicate n 0)\<rparr>"
| "new_vec z Normalised n dv = dv\<lparr>dv_normalised := Live (replicate n 0)\<rparr>"
| "new_vec z Hit_indices n dv = dv\<lparr>dv_hit_indices := Live (replicate n 0)\<rparr>"
| "new_vec z Hit_powers n dv = dv\<lparr>dv_hit_powers := Live (replicate n 0)\<rparr>"
| "new_vec z Hit_baselines n dv = dv\<lparr>dv_hit_baselines := Live (replicate n 0)\<rparr>"
| "new_vec z Spectra_sums n dv = dv\<lparr>dv_spectra_sums := Live (replicate n 0)\<rparr>"
| "new_vec z Spectra_indices n dv = dv\<lparr>dv_spectra_indices := Live (replicate n 0)\<rparr>"

fun drop_vec :: "bool \<Rightarrow> vec \<Rightarrow> ('r, 'i) device_vectors \<Rightarrow> ('r, 'i) device_vectors" where
  "drop_vec null Fft_data dv = dv\<lparr>dv_fft_data := if null then Null else Freed\<rparr>"
| "drop_vec null Raw_timeseries dv = dv\<lparr>dv_raw_timeseries := if null then Null else Freed\<rparr>"
| "drop_vec null Fft_data_out dv = dv\<lparr>dv_fft_data_out := if null then Null else Freed\<rparr>"
| "drop_vec null Powspec dv = dv\<lparr>dv_powspec := if null then Null else Freed\<rparr>"
| "drop_vec null Scanned dv = dv\<lparr>dv_scanned := if null then Null else Freed\<rparr>"
| "drop_vec null Baseline dv = dv\<lparr>dv_baseline := if null then Null else Freed\<rparr>"
| "drop_vec null Normalised dv = dv\<lparr>dv_normalised := if null then Null else Freed\<rparr>"
| "drop_vec null Hit_indices dv = dv\<lparr>dv_hit_indices := if null then Null else Freed\<rparr>"
| "drop_vec null Hit_powers dv = dv\<lparr>dv_hit_powers := if null then Null else Freed\<rparr>"
| "drop_vec null Hit_baselines dv = dv\<lparr>dv_hit_baselines := if null then Null else Freed\<rparr>"
| "drop_vec null Spectra_sums dv = dv\<lparr>dv_spectra_sums := if null then Null else Freed\<rparr>"
| "drop_vec null Spectra_indices dv = dv\<lparr>dv_spectra_indices := if null then Null else Freed\<rparr>"

text \<open>\<open>init_device_vectors\<close>: all null, except that outside FAST the hit vectors exist from the start.\<close>

definition init_device_vectors :: "site \<Rightarrow> ('r, 'i) device_vectors" where
  "init_device_vectors s =
     (let h = (if s = SOURCE_FAST then Null else Live []);
          hi = (if s = SOURCE_FAST then Null else Live [])
      in \<lparr>dv_fft_data = Null, dv_raw_timeseries = Null, dv_fft_data_out = Null, dv_powspec = Null, dv_scanned = Null,
          dv_baseline = Null, dv_normalised = Null, dv_hit_indices = hi, dv_hit_powers = h, dv_hit_baselines = h,
          dv_spectra_sums = Null, dv_spectra_indices = Null\<rparr>)"

fun bytes :: "elem_type \<Rightarrow> nat vptr \<Rightarrow> nat" where
  "bytes t (Live n) = n * elem_size t"
| "bytes t _ = 0"

definition live_bytes :: "('r, 'i) device_vectors \<Rightarrow> nat" where
  "live_bytes dv = sum_list (map (\<lambda>v. bytes (declared_type v) (vec_state v dv)) vecs)"

subsection \<open>Operations\<close>

datatype gpu_op = New vec elem_type nat | New_if_null vec elem_type nat | Delete vec | Delete_null vec | Free_all_cached
  | Copy_in | Sem_wait | Sem_post | Unpack | Execute_fft | Compute_power_spectrum | Reduce_coarse_channels
  | Compute_baseline | Normalize_power_spectrum | Resize_hit_indices | Find_hits | Copy_out

datatype gpu_fault = Bad_pointer vec | Double_free vec | Leaked vec | Overrun vec | Not_serialised

record ('r, 'i) device =
  d_vecs :: "('r, 'i) device_vectors"
  d_sem_held :: bool
  d_faults :: "gpu_fault list"
  d_nhits :: nat
  d_out :: out_block

text \<open>The arguments of a call.  \<open>cl_raw\<close> are the samples of the input, \<open>cl_fft\<close> is cuFFT with the
  plan of the call.\<close>

record ('r, 'i) spectroscopy_call =
  cl_site :: site
  cl_n_cc :: nat
  cl_n_fc :: nat
  cl_n_ts :: nat
  cl_n_pol :: nat
  cl_bors :: nat
  cl_maxhits :: nat
  cl_power_thresh :: real
  cl_smooth_scale :: nat
  cl_raw :: "'r list"
  cl_convert :: "'r \<Rightarrow> 'i"
  cl_fft :: "'i list \<Rightarrow> (real \<times> real) list"
  cl_zero :: "'r \<times> 'i"

definition n_element :: "('r, 'i) spectroscopy_call \<Rightarrow> nat" where
  "n_element cl =
     (if cl_site cl = SOURCE_FAST then cl_n_cc cl * cl_n_fc cl else cl_n_cc cl * cl_n_fc cl * cl_n_pol cl)"

definition fault :: "gpu_fault \<Rightarrow> ('r, 'i) device \<Rightarrow> ('r, 'i) device" where
  "fault f d = d\<lparr>d_faults := d_faults d @ [f]\<rparr>"

definition touch :: "vec list \<Rightarrow> ('r, 'i) device \<Rightarrow> ('r, 'i) device" where
  "touch vs d = fold (\<lambda>v d. if is_live (vec_state v (d_vecs d)) then d else fault (Bad_pointer v) d) vs d"

definition kernel :: "vec list \<Rightarrow> ('r, 'i) device \<Rightarrow> ('r, 'i) device" where
  "kernel vs d = touch vs (if d_sem_held d then d else fault Not_serialised d)"

text \<open>Writing \<open>xs\<close> from the beginning of a vector: what does not fit is an overrun, and is not kept.\<close>

definition write_front :: "'a list \<Rightarrow> 'a list \<Rightarrow> 'a list" where
  "write_front xs ys = take (length ys) xs @ drop (length xs) ys"

definition fits :: "vec \<Rightarrow> nat \<Rightarrow> ('r, 'i) device \<Rightarrow> ('r, 'i) device" where
  "fits v n d =
     (case vec_state v (d_vecs d) of Live m \<Rightarrow> if n \<le> m then d else fault (Overrun v) d | _ \<Rightarrow> d)"

definition new_op :: "'r \<times> 'i \<Rightarrow> vec \<Rightarrow> nat \<Rightarrow> ('r, 'i) device \<Rightarrow> ('r, 'i) device" where
  "new_op z v n d =
     (let d = (if is_live (vec_state v (d_vecs d)) then fault (Leaked v) d else d)
      in d\<lparr>d_vecs := new_vec z v n (d_vecs d)\<rparr>)"

definition delete_op :: "bool \<Rightarrow> vec \<Rightarrow> ('r, 'i) device \<Rightarrow> ('r, 'i) device" where
  "delete_op null v d =
     (case vec_state v (d_vecs d) of
        Null \<Rightarrow> d
      | Freed \<Rightarrow> fault (Double_free v) d
      | Live n \<Rightarrow> d\<lparr>d_vecs := drop_vec null v (d_vecs d)\<rparr>)"

fun exec_op :: "('r, 'i) spectroscopy_call \<Rightarrow> gpu_op \<Rightarrow> ('r, 'i) device \<Rightarrow> ('r, 'i) device" where
  "exec_op cl (New v t n) d = new_op (cl_zero cl) v n d"
| "exec_op cl (New_if_null v t n) d = (if vec_state v (d_vecs d) = Null then new_op (cl_zero cl) v n d else d)"
| "exec_op cl (Delete v) d = delete_op False v d"
| "exec_op cl (Delete_null v) d = delete_op True v d"
| "exec_op cl Free_all_cached d = d"
| "exec_op cl Copy_in d =
     (let d = fits Raw_timeseries (length (cl_raw cl)) (touch [Raw_timeseries] d); dv = d_vecs d
      in d\<lparr>d_vecs := dv\<lparr>dv_raw_timeseries := map_vptr (write_front (cl_raw cl)) (dv_raw_timeseries dv)\<rparr>\<rparr>)"
| "exec_op cl Sem_wait d = d\<lparr>d_sem_held := True\<rparr>"
| "exec_op cl Sem_post d = d\<lparr>d_sem_held := False\<rparr>"
| "exec_op cl Unpack d =
     (let d = kernel [Raw_timeseries, Fft_data] d; dv = d_vecs d;
          xs = map (cl_convert cl) (live (dv_raw_timeseries dv));
          d = fits Fft_data (length xs) d
      in d\<lparr>d_vecs := dv\<lparr>dv_fft_data := map_vptr (write_front xs) (dv_fft_data dv)\<rparr>\<rparr>)"
| "exec_op cl Execute_fft d =
     (let d = kernel [Fft_data, Fft_data_out] d; dv = d_vecs d;
          xs = cl_fft cl (live (dv_fft_data dv));
          d = fits Fft_data_out (length xs) d
      in d\<lparr>d_vecs := dv\<lparr>dv_fft_data_out := map_vptr (write_front xs) (dv_fft_data_out dv)\<rparr>\<rparr>)"
| "exec_op cl Compute_power_spectrum d =
     (let d = kernel [Fft_data_out, Powspec] d; dv = d_vecs d;
          xs = map compute_complex_power (butlast (live (dv_fft_data_out dv)));
          d = fits Powspec (length xs) d
      in d\<lparr>d_vecs := dv\<lparr>dv_powspec := map_vptr (write_front xs) (dv_powspec dv)\<rparr>\<rparr>)"
| "exec_op cl Reduce_coarse_channels d =
     (let d = kernel [Powspec, Spectra_sums, Spectra_indices] d; dv = d_vecs d;
          rows = cl_n_cc cl * cl_n_pol cl;
          d = fits Powspec (rows * cl_n_fc cl) (fits Spectra_sums rows (fits Spectra_indices rows d));
          means = reduce_power_spectra rows (cl_n_fc cl) (live (dv_powspec dv))
      in d\<lparr>d_vecs := dv\<lparr>dv_spectra_sums := map_vptr (write_front means) (dv_spectra_sums dv),
                        dv_spectra_indices := map_vptr (write_front [0..<rows]) (dv_spectra_indices dv)\<rparr>,
            d_out := reduce_coarse_channels (cl_n_cc cl) (cl_n_pol cl) (cl_n_fc cl) (cl_bors cl)
                       (live (dv_powspec dv)) (d_out d)\<rparr>)"
| "exec_op cl Compute_baseline d =
     (let d = kernel [Powspec, Scanned, Baseline] d; dv = d_vecs d;
          n = n_element cl;
          d = fits Powspec n (fits Scanned n (fits Baseline n d));
          scanned = write_front (exclusive_scan (cl_n_fc cl) 0 0 (take n (live (dv_powspec dv)))) (live (dv_scanned dv));
          mean = map (running_mean_by_region (cl_smooth_scale cl) (cl_n_fc cl) scanned) [0..<n]
      in d\<lparr>d_vecs := dv\<lparr>dv_scanned := map_vptr (\<lambda>_. scanned) (dv_scanned dv),
                        dv_baseline := map_vptr (write_front mean) (dv_baseline dv)\<rparr>\<rparr>)"
| "exec_op cl Normalize_power_spectrum d =
     (let d = kernel [Powspec, Baseline, Normalised] d; dv = d_vecs d;
          p = live (dv_powspec dv);
          d = fits Baseline (length p) (fits Normalised (length p) d);
          xs = normalize_power_spectrum p (live (dv_baseline dv))
      in d\<lparr>d_vecs := dv\<lparr>dv_normalised := map_vptr (write_front xs) (dv_normalised dv)\<rparr>\<rparr>)"
| "exec_op cl Resize_hit_indices d =
     (let d = kernel [Hit_indices] d; dv = d_vecs d; n = n_element cl
      in d\<lparr>d_vecs := dv\<lparr>dv_hit_indices := map_vptr (\<lambda>xs. take n xs @ replicate (n - length xs) 0) (dv_hit_indices dv)\<rparr>\<rparr>)"
| "exec_op cl Find_hits d =
     (let d = kernel [Normalised, Powspec, Baseline, Hit_indices, Hit_powers, Hit_baselines] d; dv = d_vecs d;
          d = fits Normalised (n_element cl) d;
          (nhits, hs) = find_hits (n_element cl) (cl_maxhits cl) (cl_power_thresh cl)
                          (live (dv_normalised dv)) (live (dv_powspec dv)) (live (dv_baseline dv))
      in d\<lparr>d_vecs := dv\<lparr>dv_hit_indices := map_vptr (\<lambda>_. h_indices hs) (dv_hit_indices dv),
                        dv_hit_powers := map_vptr (\<lambda>_. h_powers hs) (dv_hit_powers dv),
                        dv_hit_baselines := map_vptr (\<lambda>_. h_baselines hs) (dv_hit_baselines dv)\<rparr>,
            d_nhits := nhits\<rparr>)"
| "exec_op cl Copy_out d =
     (let d = kernel [Hit_powers, Hit_baselines, Hit_indices] d; dv = d_vecs d;
          nhits = (if cl_maxhits cl < d_nhits d then cl_maxhits cl else d_nhits d)
      in d\<lparr>d_nhits := nhits,
            d_out := output_hits (cl_site cl) (cl_n_fc cl) (cl_n_pol cl) (cl_bors cl) nhits
                       \<lparr>h_indices = live (dv_hit_indices dv), h_powers = live (dv_hit_powers dv),
                        h_baselines = live (dv_hit_baselines dv)\<rparr> (d_out d)\<rparr>)"

definition exec :: "('r, 'i) spectroscopy_call \<Rightarrow> gpu_op list \<Rightarrow> ('r, 'i) device \<Rightarrow> ('r, 'i) device" where
  "exec cl ops d = fold (exec_op cl) ops d"

fun peak :: "('r, 'i) spectroscopy_call \<Rightarrow> gpu_op list \<Rightarrow> ('r, 'i) device \<Rightarrow> nat" where
  "peak cl [] d = live_bytes (d_vecs d)"
| "peak cl (op # ops) d = max (live_bytes (d_vecs d)) (peak cl ops (exec_op cl op d))"

subsection \<open>The versions of spectroscopy\<close>

text \<open>\<open>REALLOC_CUB\<close>.\<close>

definition cub_alloc :: "('r, 'i) spectroscopy_call \<Rightarrow> gpu_op list" where
  "cub_alloc cl =
     [New Raw_timeseries T_char (length (cl_raw cl)), Copy_in, Sem_wait,
      New Hit_indices T_int 0, New Hit_powers T_float 0, New Hit_baselines T_float 0,
      New Fft_data T_float (cl_n_ts cl), New Fft_data_out T_float2 (n_element cl + 1),
      New Powspec T_float (n_element cl)]"

definition cub_fft :: "('r, 'i) spectroscopy_call \<Rightarrow> gpu_op list" where
  "cub_fft cl =
     [Unpack, Delete Raw_timeseries, Execute_fft, Compute_power_spectrum, Delete Fft_data, Delete Fft_data_out,
      Free_all_cached]"

definition cub_hits :: "('r, 'i) spectroscopy_call \<Rightarrow> gpu_op list" where
  "cub_hits cl =
     [New Baseline T_float (n_element cl), New Normalised T_float (n_element cl), New Scanned T_float (n_element cl),
      Compute_baseline, Delete Scanned, Normalize_power_spectrum, Resize_hit_indices, Find_hits, Copy_out]"

definition cub_release :: "gpu_op list" where
  "cub_release =
     [Delete Powspec, Delete Baseline, Delete Normalised, Delete Hit_baselines, Delete Hit_indices, Delete Hit_powers,
      Free_all_cached, Sem_post]"

definition realloc_cub :: "('r, 'i) spectroscopy_call \<Rightarrow> gpu_op list" where
  "realloc_cub cl = cub_alloc cl @ cub_fft cl @ cub_hits cl @ cub_release"

text \<open>\<open>REALLOC_STD\<close>.\<close>

definition std_alloc :: "('r, 'i) spectroscopy_call \<Rightarrow> gpu_op list" where
  "std_alloc cl =
     [New Raw_timeseries T_char (length (cl_raw cl)), Copy_in, Sem_wait,
      New Hit_indices T_int 0, New Hit_powers T_float 0, New Hit_baselines T_float 0,
      New Fft_data T_float (cl_n_ts cl), New Fft_data_out T_float2 (n_element cl),
      New Powspec T_float (n_element cl)]"

definition std_fft :: "('r, 'i) spectroscopy_call \<Rightarrow> gpu_op list" where
  "std_fft cl =
     [Unpack, Delete Raw_timeseries, Execute_fft, Compute_power_spectrum, Delete Fft_data, Delete Fft_data_out]"

definition std_hits :: "('r, 'i) spectroscopy_call \<Rightarrow> gpu_op list" where
  "std_hits cl =
     [New Baseline T_float (n_element cl), New Normalised T_float (n_element cl), New Scanned T_float (n_element cl),
      Compute_baseline, Delete Scanned, Normalize_power_spectrum, Resize_hit_indices, Find_hits, Copy_out]"

definition std_release :: "gpu_op list" where
  "std_release =
     [Delete Powspec, Delete Baseline, Delete Normalised, Delete Hit_baselines, Delete Hit_indices, Delete Hit_powers,
      Sem_post]"

definition realloc_std :: "('r, 'i) spectroscopy_call \<Rightarrow> gpu_op list" where
  "realloc_std cl = std_alloc cl @ std_fft cl @ std_hits cl @ std_release"

text \<open>\<open>REALLOC_NONE\<close>, the version that \<open>s6GPU.h\<close> selects: only the raw samples are deleted.\<close>

definition none_alloc :: "('r, 'i) spectroscopy_call \<Rightarrow> gpu_op list" where
  "none_alloc cl =
     [New_if_null Raw_timeseries T_char (length (cl_raw cl)), Copy_in, Sem_wait,
      New_if_null Hit_indices T_int 0, New_if_null Hit_powers T_float 0, New_if_null Hit_baselines T_float 0,
      New_if_null Fft_data T_float (cl_n_ts cl), New_if_null Fft_data_out T_float2 (n_element cl),
      New_if_null Powspec T_float (n_element cl)]"

definition none_fft :: "gpu_op list" where
  "none_fft = [Unpack, Delete_null Raw_timeseries, Execute_fft, Compute_power_spectrum]"

definition none_hits :: "('r, 'i) spectroscopy_call \<Rightarrow> gpu_op list" where
  "none_hits cl =
     [New_if_null Baseline T_float (n_element cl), New_if_null Normalised T_float (n_element cl),
      New_if_null Scanned T_float (n_element cl),
      Compute_baseline, Normalize_power_spectrum, Resize_hit_indices, Find_hits, Copy_out]"

definition realloc_none :: "('r, 'i) spectroscopy_call \<Rightarrow> gpu_op list" where
  "realloc_none cl = none_alloc cl @ none_fft @ none_hits cl @ [Sem_post]"

text \<open>Outside FAST.  The raw samples of all coarse channels are copied and unpacked, whatever
  the number in use.\<close>

definition max_samples :: "site \<Rightarrow> nat" where
  "max_samples s = N_COARSE_CHAN s div N_SUBSPECTRA_PER_SPECTRUM s * N_FINE_CHAN s * N_POLS_PER_BEAM s"

definition channelized_fft :: "('r, 'i) spectroscopy_call \<Rightarrow> gpu_op list" where
  "channelized_fft cl =
     [New Fft_data T_float2 (n_element cl), New Fft_data_out T_float2 (n_element cl), New Powspec T_float (n_element cl),
      New Raw_timeseries T_char2 (max_samples (cl_site cl)), Copy_in, Sem_wait,
      Unpack, Execute_fft, Compute_power_spectrum, Delete Raw_timeseries, Delete Fft_data, Delete Fft_data_out]"

definition channelized_reduce :: "('r, 'i) spectroscopy_call \<Rightarrow> gpu_op list" where
  "channelized_reduce cl =
     [New Spectra_sums T_float (cl_n_cc cl * cl_n_pol cl), New Spectra_indices T_int (cl_n_cc cl * cl_n_pol cl),
      Reduce_coarse_channels, Delete Spectra_sums, Delete Spectra_indices]"

definition channelized_hits :: "('r, 'i) spectroscopy_call \<Rightarrow> gpu_op list" where
  "channelized_hits cl =
     [New Baseline T_float (n_element cl), New Normalised T_float (n_element cl), New Scanned T_float (n_element cl),
      Compute_baseline, Delete Scanned, Normalize_power_spectrum, Resize_hit_indices, Find_hits, Copy_out,
      Delete Powspec, Delete Baseline, Delete Normalised, Sem_post]"

definition channelized :: "('r, 'i) spectroscopy_call \<Rightarrow> gpu_op list" where
  "channelized cl = channelized_fft cl @ channelized_reduce cl @ channelized_hits cl"

subsection \<open>Element types\<close>

fun well_typed_op :: "gpu_op \<Rightarrow> bool" where
  "well_typed_op (New v t n) = (t = declared_type v)"
| "well_typed_op (New_if_null v t n) = (t = declared_type v)"
| "well_typed_op op = True"

lemma fast_well_typed:
  "list_all well_typed_op (realloc_cub cl)" "list_all well_typed_op (realloc_std cl)"
  "list_all well_typed_op (realloc_none cl)"
  by (simp_all add: realloc_cub_def cub_alloc_def cub_fft_def cub_hits_def cub_release_def
      realloc_std_def std_alloc_def std_fft_def std_hits_def std_release_def
      realloc_none_def none_alloc_def none_fft_def none_hits_def)

lemma channelized_ill_typed:
  "filter (Not \<circ> well_typed_op) (channelized cl) =
     [New Fft_data T_float2 (n_element cl), New Raw_timeseries T_char2 (max_samples (cl_site cl))]"
  by (simp add: channelized_def channelized_fft_def channelized_reduce_def channelized_hits_def)

end
