(* ===== verification/S6_GpuMem_Props.thy ===== *)
theory S6_GpuMem_Props
  imports S6_GpuMem
begin

text \<open>
  The operations of \<open>S6_GpuMem\<close> on vectors that exist, and the state that each stage of each
  version of \<open>spectroscopy\<close> leaves.
\<close>

lemma length_write_front [simp]: "length (write_front xs ys) = length ys"
  by (simp add: write_front_def)

lemma write_front_full [simp]: "length xs = length ys \<Longrightarrow> write_front xs ys = xs"
  by (simp add: write_front_def)

lemma is_live_map [simp]: "is_live (map_vptr f p) = is_live p"
  by (cases p) simp_all

lemma is_live_iff: "is_live p = (\<exists>x. p = Live x)"
  by (cases p) simp_all

lemma map_vptr_Null [simp]: "(map_vptr f p = Null) = (p = Null)"
  by (cases p) simp_all

lemma exec_Nil [simp]: "exec cl [] d = d"
  and exec_Cons [simp]: "exec cl (op # ops) d = exec cl ops (exec_op cl op d)"
  and exec_append [simp]: "exec cl (ops @ ops') d = exec cl ops' (exec cl ops d)"
  by (simp_all add: exec_def)

text \<open>Nothing allocated: what every call of the reallocating versions finds and leaves.\<close>

definition idle_vecs :: "('r, 'i) device_vectors \<Rightarrow> bool" where
  "idle_vecs dv = (\<not> is_live (dv_fft_data dv) \<and> \<not> is_live (dv_raw_timeseries dv) \<and> \<not> is_live (dv_fft_data_out dv) \<and>
     \<not> is_live (dv_powspec dv) \<and> \<not> is_live (dv_scanned dv) \<and> \<not> is_live (dv_baseline dv) \<and> \<not> is_live (dv_normalised dv) \<and>
     \<not> is_live (dv_hit_indices dv) \<and> \<not> is_live (dv_hit_powers dv) \<and> \<not> is_live (dv_hit_baselines dv) \<and>
     \<not> is_live (dv_spectra_sums dv) \<and> \<not> is_live (dv_spectra_indices dv))"

lemma find_hits_count:
  assumes "find_hits n m t x p b = (nhits, hs)"
  shows "nhits \<le> m" "length (h_indices hs) = nhits" "length (h_powers hs) = nhits" "length (h_baselines hs) = nhits"
proof -
  define hi where "hi = filter (\<lambda>i. t < x ! i) [0..<n]"
  define k where "k = (if m < length hi then m else length hi)"
  have "(nhits, hs) = (k, \<lparr>h_indices = take k hi, h_powers = map (\<lambda>i. p ! i) (take k hi), h_baselines = map (\<lambda>i. b ! i) (take k hi)\<rparr>)"
    unfolding assms [symmetric] find_hits_def Let_def k_def hi_def ..
  moreover have "k \<le> m" "k \<le> length hi" by (simp_all add: k_def)
  ultimately show "nhits \<le> m" "length (h_indices hs) = nhits" "length (h_powers hs) = nhits" "length (h_baselines hs) = nhits"
    by simp_all
qed

lemma length_exclusive_scan [simp]: "length (exclusive_scan n i acc xs) = length xs"
  by (induction xs arbitrary: i acc) (simp_all add: Let_def)

lemma write_front_zeros: "write_front xs (replicate m (0, 0)) = fft_data_out m xs"
  by (simp add: write_front_def fft_data_out_def take_replicate)

lemma write_front_powers:
  "write_front (map compute_complex_power (butlast out)) p = compute_power_spectrum out p" if "length out \<le> Suc (length p)"
  using that by (simp add: write_front_def compute_power_spectrum_def)

lemma length_fft_data_out [simp]: "length (fft_data_out m xs) = m"
  by (simp add: fft_data_out_def)

lemma length_power_spectrum: "length (compute_power_spectrum out p) = length p" if "length out \<le> Suc (length p)"
  using that by (simp add: compute_power_spectrum_def)

definition spectra :: "('r, 'i) spectroscopy_call \<Rightarrow> (real \<times> real) list" where
  "spectra cl = cl_fft cl (map (cl_convert cl) (cl_raw cl))"

definition overruns :: "nat \<Rightarrow> ('r, 'i) spectroscopy_call \<Rightarrow> gpu_fault list" where
  "overruns m cl = (if m < length (spectra cl) then [Overrun Fft_data_out] else [])"

definition power_of :: "nat \<Rightarrow> ('r, 'i) spectroscopy_call \<Rightarrow> real list" where
  "power_of m cl = compute_power_spectrum (fft_data_out m (spectra cl)) (replicate (n_element cl) 0)"

text \<open>The operations on vectors that exist and are large enough.\<close>

lemma kernel_ok:
  assumes "d_sem_held d" "list_all (\<lambda>v. is_live (vec_state v (d_vecs d))) vs"
  shows "kernel vs d = d"
proof -
  have "touch vs d = d" using assms(2) by (induction vs) (simp_all add: touch_def)
  then show ?thesis using assms(1) by (simp add: kernel_def)
qed

lemma fits_ok: "vec_state v (d_vecs d) = Live m \<Longrightarrow> n \<le> m \<Longrightarrow> fits v n d = d"
  by (simp add: fits_def)

lemma exec_unpack:
  assumes "d_sem_held d" "dv_raw_timeseries (d_vecs d) = Live r" "dv_fft_data (d_vecs d) = Live xs" "length xs = length r"
  shows "exec_op cl Unpack d = d\<lparr>d_vecs := (d_vecs d)\<lparr>dv_fft_data := Live (map (cl_convert cl) r)\<rparr>\<rparr>"
  using assms by (simp add: kernel_ok fits_ok Let_def)

lemma exec_fft:
  assumes "d_sem_held d" "dv_fft_data (d_vecs d) = Live xs" "dv_fft_data_out (d_vecs d) = Live ys"
  shows "exec_op cl Execute_fft d =
    d\<lparr>d_faults := d_faults d @ (if length ys < length (cl_fft cl xs) then [Overrun Fft_data_out] else []),
      d_vecs := (d_vecs d)\<lparr>dv_fft_data_out := Live (write_front (cl_fft cl xs) ys)\<rparr>\<rparr>"
  using assms by (simp add: kernel_ok fits_def fault_def Let_def)

lemma exec_power:
  assumes "d_sem_held d" "dv_fft_data_out (d_vecs d) = Live ys" "dv_powspec (d_vecs d) = Live p" "length ys \<le> Suc (length p)"
  shows "exec_op cl Compute_power_spectrum d =
    d\<lparr>d_vecs := (d_vecs d)\<lparr>dv_powspec := Live (compute_power_spectrum ys p)\<rparr>\<rparr>"
  using assms by (simp add: kernel_ok fits_ok write_front_powers Let_def)

lemma exec_baseline:
  assumes "d_sem_held d" "dv_powspec (d_vecs d) = Live p" "dv_scanned (d_vecs d) = Live xs" "dv_baseline (d_vecs d) = Live ys"
    and "length p = n_element cl" "length xs = n_element cl" "length ys = n_element cl"
  shows "exec_op cl Compute_baseline d = d\<lparr>d_vecs := (d_vecs d)\<lparr>
     dv_scanned := Live (exclusive_scan (cl_n_fc cl) 0 0 p),
     dv_baseline := Live (compute_baseline (cl_n_fc cl) (n_element cl) (cl_smooth_scale cl) p)\<rparr>\<rparr>"
  using assms by (simp add: kernel_ok fits_ok compute_baseline_def Let_def)

lemma exec_normalize:
  assumes "d_sem_held d" "dv_powspec (d_vecs d) = Live p" "dv_baseline (d_vecs d) = Live b" "dv_normalised (d_vecs d) = Live xs"
    and "length b = length p" "length xs = length p"
  shows "exec_op cl Normalize_power_spectrum d =
    d\<lparr>d_vecs := (d_vecs d)\<lparr>dv_normalised := Live (normalize_power_spectrum p b)\<rparr>\<rparr>"
  using assms by (simp add: kernel_ok fits_ok normalize_power_spectrum_def Let_def)

lemma exec_find_hits:
  assumes "d_sem_held d" "dv_powspec (d_vecs d) = Live p" "dv_baseline (d_vecs d) = Live b" "dv_normalised (d_vecs d) = Live x"
    and "dv_hit_indices (d_vecs d) = Live hi" "dv_hit_powers (d_vecs d) = Live hp" "dv_hit_baselines (d_vecs d) = Live hb"
    and "length x = n_element cl" "find_hits (n_element cl) (cl_maxhits cl) (cl_power_thresh cl) x p b = (k, hs)"
  shows "exec_op cl Find_hits d = d\<lparr>d_nhits := k, d_vecs := (d_vecs d)\<lparr>
     dv_hit_indices := Live (h_indices hs), dv_hit_powers := Live (h_powers hs), dv_hit_baselines := Live (h_baselines hs)\<rparr>\<rparr>"
  using assms by (simp add: kernel_ok fits_ok Let_def)

lemma exec_resize:
  assumes "d_sem_held d" "dv_hit_indices (d_vecs d) = Live hi"
  shows "exec_op cl Resize_hit_indices d = d\<lparr>d_vecs := (d_vecs d)\<lparr>
     dv_hit_indices := Live (take (n_element cl) hi @ replicate (n_element cl - length hi) 0)\<rparr>\<rparr>"
  using assms by (simp add: kernel_ok Let_def)

lemma exec_copy_out:
  assumes "d_sem_held d" "dv_hit_indices (d_vecs d) = Live (h_indices hs)" "dv_hit_powers (d_vecs d) = Live (h_powers hs)"
    and "dv_hit_baselines (d_vecs d) = Live (h_baselines hs)" "d_nhits d \<le> cl_maxhits cl"
  shows "exec_op cl Copy_out d =
    d\<lparr>d_out := output_hits (cl_site cl) (cl_n_fc cl) (cl_n_pol cl) (cl_bors cl) (d_nhits d) hs (d_out d)\<rparr>"
  using assms by (cases hs) (simp add: kernel_ok Let_def)

lemma delete_live: "vec_state v (d_vecs d) = Live n \<Longrightarrow> delete_op null v d = d\<lparr>d_vecs := drop_vec null v (d_vecs d)\<rparr>"
  by (simp add: delete_op_def)

lemma exec_delete: "vec_state v (d_vecs d) = Live n \<Longrightarrow> exec_op cl (Delete v) d = d\<lparr>d_vecs := drop_vec False v (d_vecs d)\<rparr>"
  by (simp add: delete_live)

lemma exec_new: "\<not> is_live (vec_state v (d_vecs d)) \<Longrightarrow>
    exec_op cl (New v t n) d = d\<lparr>d_vecs := new_vec (cl_zero cl) v n (d_vecs d)\<rparr>"
  by (simp add: new_op_def)

lemma exec_copy_in:
  assumes "dv_raw_timeseries (d_vecs d) = Live xs" "length xs = length (cl_raw cl)"
  shows "exec_op cl Copy_in d = d\<lparr>d_vecs := (d_vecs d)\<lparr>dv_raw_timeseries := Live (cl_raw cl)\<rparr>\<rparr>"
  using assms by (simp add: touch_def fits_ok Let_def)

lemma exec_delete_null:
  "vec_state v (d_vecs d) = Live n \<Longrightarrow> exec_op cl (Delete_null v) d = d\<lparr>d_vecs := drop_vec True v (d_vecs d)\<rparr>"
  by (simp add: delete_live)

lemma exec_sem:
  "exec_op cl Sem_wait d = d\<lparr>d_sem_held := True\<rparr>" "exec_op cl Sem_post d = d\<lparr>d_sem_held := False\<rparr>"
  "exec_op cl Free_all_cached d = d"
  by simp_all

fun or_new :: "'a vptr \<Rightarrow> 'a \<Rightarrow> 'a vptr" where
  "or_new Null x = Live x"
| "or_new p x = p"

lemma exec_new_if_null:
  "exec_op cl (New_if_null Raw_timeseries t n) d = d\<lparr>d_vecs := (d_vecs d)\<lparr>dv_raw_timeseries := or_new (dv_raw_timeseries (d_vecs d)) (replicate n (fst (cl_zero cl)))\<rparr>\<rparr>"
  "exec_op cl (New_if_null Fft_data t n) d = d\<lparr>d_vecs := (d_vecs d)\<lparr>dv_fft_data := or_new (dv_fft_data (d_vecs d)) (replicate n (snd (cl_zero cl)))\<rparr>\<rparr>"
  "exec_op cl (New_if_null Fft_data_out t n) d = d\<lparr>d_vecs := (d_vecs d)\<lparr>dv_fft_data_out := or_new (dv_fft_data_out (d_vecs d)) (replicate n (0, 0))\<rparr>\<rparr>"
  "exec_op cl (New_if_null Powspec t n) d = d\<lparr>d_vecs := (d_vecs d)\<lparr>dv_powspec := or_new (dv_powspec (d_vecs d)) (replicate n 0)\<rparr>\<rparr>"
  "exec_op cl (New_if_null Scanned t n) d = d\<lparr>d_vecs := (d_vecs d)\<lparr>dv_scanned := or_new (dv_scanned (d_vecs d)) (replicate n 0)\<rparr>\<rparr>"
  "exec_op cl (New_if_null Baseline t n) d = d\<lparr>d_vecs := (d_vecs d)\<lparr>dv_baseline := or_new (dv_baseline (d_vecs d)) (replicate n 0)\<rparr>\<rparr>"
  "exec_op cl (New_if_null Normalised t n) d = d\<lparr>d_vecs := (d_vecs d)\<lparr>dv_normalised := or_new (dv_normalised (d_vecs d)) (replicate n 0)\<rparr>\<rparr>"
  "exec_op cl (New_if_null Hit_indices t n) d = d\<lparr>d_vecs := (d_vecs d)\<lparr>dv_hit_indices := or_new (dv_hit_indices (d_vecs d)) (replicate n 0)\<rparr>\<rparr>"
  "exec_op cl (New_if_null Hit_powers t n) d = d\<lparr>d_vecs := (d_vecs d)\<lparr>dv_hit_powers := or_new (dv_hit_powers (d_vecs d)) (replicate n 0)\<rparr>\<rparr>"
  "exec_op cl (New_if_null Hit_baselines t n) d = d\<lparr>d_vecs := (d_vecs d)\<lparr>dv_hit_baselines := or_new (dv_hit_baselines (d_vecs d)) (replicate n 0)\<rparr>\<rparr>"
  by (cases "dv_raw_timeseries (d_vecs d)", simp_all add: new_op_def)
     (cases "dv_fft_data (d_vecs d)", simp_all add: new_op_def,
      cases "dv_fft_data_out (d_vecs d)", simp_all add: new_op_def,
      cases "dv_powspec (d_vecs d)", simp_all add: new_op_def,
      cases "dv_scanned (d_vecs d)", simp_all add: new_op_def,
      cases "dv_baseline (d_vecs d)", simp_all add: new_op_def,
      cases "dv_normalised (d_vecs d)", simp_all add: new_op_def,
      cases "dv_hit_indices (d_vecs d)", simp_all add: new_op_def,
      cases "dv_hit_powers (d_vecs d)", simp_all add: new_op_def,
      cases "dv_hit_baselines (d_vecs d)", simp_all add: new_op_def)

declare exec_op.simps [simp del]

lemmas exec_ops = exec_copy_in exec_delete_null exec_sem exec_unpack exec_fft exec_power exec_baseline exec_normalize exec_find_hits exec_resize exec_copy_out
  exec_delete exec_new

lemma length_baseline [simp]: "length (compute_baseline n_fc n r p) = n"
  by (simp add: compute_baseline_def Let_def)

lemma length_normalize [simp]: "length (normalize_power_spectrum p b) = min (length p) (length b)"
  by (simp add: normalize_power_spectrum_def)

lemma cub_alloc_exec:
  assumes "idle_vecs (d_vecs d)"
  shows "exec cl (cub_alloc cl) d = d\<lparr>d_sem_held := True, d_vecs := (d_vecs d)\<lparr>
     dv_raw_timeseries := Live (cl_raw cl), dv_hit_indices := Live [], dv_hit_powers := Live [], dv_hit_baselines := Live [],
     dv_fft_data := Live (replicate (cl_n_ts cl) (snd (cl_zero cl))),
     dv_fft_data_out := Live (replicate (n_element cl + 1) (0, 0)), dv_powspec := Live (replicate (n_element cl) 0)\<rparr>\<rparr>"
  using assms unfolding idle_vecs_def cub_alloc_def
  by (simp add: exec_ops del: replicate_Suc)

lemma std_alloc_exec:
  assumes "idle_vecs (d_vecs d)"
  shows "exec cl (std_alloc cl) d = d\<lparr>d_sem_held := True, d_vecs := (d_vecs d)\<lparr>
     dv_raw_timeseries := Live (cl_raw cl), dv_hit_indices := Live [], dv_hit_powers := Live [], dv_hit_baselines := Live [],
     dv_fft_data := Live (replicate (cl_n_ts cl) (snd (cl_zero cl))),
     dv_fft_data_out := Live (replicate (n_element cl) (0, 0)), dv_powspec := Live (replicate (n_element cl) 0)\<rparr>\<rparr>"
  using assms unfolding idle_vecs_def std_alloc_def by (simp add: exec_ops)

lemma std_fft_exec:
  assumes "dv_raw_timeseries (d_vecs d) = Live (cl_raw cl)" "dv_fft_data (d_vecs d) = Live xs" "length xs = length (cl_raw cl)"
    and "dv_fft_data_out (d_vecs d) = Live (replicate m (0, 0))" "dv_powspec (d_vecs d) = Live (replicate (n_element cl) 0)"
    and "d_sem_held d" "m \<le> Suc (n_element cl)"
  shows "exec cl (std_fft cl) d = d\<lparr>d_faults := d_faults d @ overruns m cl, d_vecs := (d_vecs d)\<lparr>
     dv_raw_timeseries := Freed, dv_fft_data := Freed, dv_fft_data_out := Freed, dv_powspec := Live (power_of m cl)\<rparr>\<rparr>"
  using assms
  by (simp add: std_fft_def exec_ops overruns_def power_of_def spectra_def write_front_zeros)

definition detection :: "('r, 'i) spectroscopy_call \<Rightarrow> real list \<Rightarrow> out_block \<Rightarrow> nat \<times> out_block" where
  "detection cl p ob =
     detect_hits (cl_site cl) (n_element cl) (cl_n_fc cl) (cl_n_pol cl) (cl_bors cl) (cl_maxhits cl) (cl_power_thresh cl)
       (cl_smooth_scale cl) p ob"

lemma hits_found:
  fixes cl :: "('r, 'i) spectroscopy_call" and p :: "real list"
  defines "b \<equiv> compute_baseline (cl_n_fc cl) (n_element cl) (cl_smooth_scale cl) p"
  defines "nm \<equiv> normalize_power_spectrum p b"
  assumes "d_sem_held d" "dv_powspec (d_vecs d) = Live p" "dv_baseline (d_vecs d) = Live b" "dv_normalised (d_vecs d) = Live nm"
    and "is_live (dv_hit_indices (d_vecs d))" "is_live (dv_hit_powers (d_vecs d))" "is_live (dv_hit_baselines (d_vecs d))"
    and "length p = n_element cl" "detection cl p (d_out d) = (nhits, ob)"
  obtains hi hp hb where "exec cl [Resize_hit_indices, Find_hits, Copy_out] d = d\<lparr>d_nhits := nhits, d_out := ob,
     d_vecs := (d_vecs d)\<lparr>dv_hit_indices := Live hi, dv_hit_powers := Live hp, dv_hit_baselines := Live hb\<rparr>\<rparr>"
    "length hi = nhits" "length hp = nhits" "length hb = nhits" "nhits \<le> cl_maxhits cl"
proof -
  obtain k hs where F: "find_hits (n_element cl) (cl_maxhits cl) (cl_power_thresh cl) nm p b = (k, hs)" by (rule prod.exhaust)
  note km = find_hits_count [OF F]
  have out: "nhits = k" "ob = output_hits (cl_site cl) (cl_n_fc cl) (cl_n_pol cl) (cl_bors cl) k hs (d_out d)"
    using assms(11) F km(1) by (auto simp: detection_def detect_hits_def b_def nm_def Let_def)
  obtain hi hp hb where H: "dv_hit_indices (d_vecs d) = Live hi" "dv_hit_powers (d_vecs d) = Live hp" "dv_hit_baselines (d_vecs d) = Live hb"
    using assms(7-9) by (auto simp: is_live_iff)
  have len: "length nm = n_element cl" using assms(10) by (simp add: nm_def b_def)
  have "exec cl [Resize_hit_indices, Find_hits, Copy_out] d = d\<lparr>d_nhits := nhits, d_out := ob, d_vecs := (d_vecs d)\<lparr>
     dv_hit_indices := Live (h_indices hs), dv_hit_powers := Live (h_powers hs), dv_hit_baselines := Live (h_baselines hs)\<rparr>\<rparr>"
    using assms(3-6) len F km(1) H by (simp add: exec_ops out)
  from that [OF this] show thesis using km out(1) by simp
qed

lemma hits_exec:
  assumes "dv_powspec (d_vecs d) = Live p" "length p = n_element cl" "d_sem_held d"
    and "\<not> is_live (dv_baseline (d_vecs d))" "\<not> is_live (dv_normalised (d_vecs d))" "\<not> is_live (dv_scanned (d_vecs d))"
    and "is_live (dv_hit_indices (d_vecs d))" "is_live (dv_hit_powers (d_vecs d))" "is_live (dv_hit_baselines (d_vecs d))"
    and "detection cl p (d_out d) = (nhits, ob)"
  obtains b nm hi hp hb where "exec cl (std_hits cl) d = d\<lparr>d_nhits := nhits, d_out := ob, d_vecs := (d_vecs d)\<lparr>
     dv_scanned := Freed, dv_baseline := Live b, dv_normalised := Live nm,
     dv_hit_indices := Live hi, dv_hit_powers := Live hp, dv_hit_baselines := Live hb\<rparr>\<rparr>"
    "length b = n_element cl" "length nm = n_element cl" "length hi = nhits" "length hp = nhits" "length hb = nhits"
proof -
  define b where "b = compute_baseline (cl_n_fc cl) (n_element cl) (cl_smooth_scale cl) p"
  define nm where "nm = normalize_power_spectrum p b"
  define d1 where "d1 = d\<lparr>d_vecs := (d_vecs d)\<lparr>dv_scanned := Freed, dv_baseline := Live b, dv_normalised := Live nm\<rparr>\<rparr>"
  have len: "length b = n_element cl" "length nm = n_element cl" using assms(2) by (simp_all add: b_def nm_def)
  have "exec cl (take 6 (std_hits cl)) d = d1"
    using assms(1-6) by (simp add: std_hits_def exec_ops b_def nm_def d1_def)
  then have 1: "exec cl (std_hits cl) d = exec cl [Resize_hit_indices, Find_hits, Copy_out] d1"
    by (simp add: std_hits_def)
  obtain hi hp hb where 2: "exec cl [Resize_hit_indices, Find_hits, Copy_out] d1 = d1\<lparr>d_nhits := nhits, d_out := ob,
     d_vecs := (d_vecs d1)\<lparr>dv_hit_indices := Live hi, dv_hit_powers := Live hp, dv_hit_baselines := Live hb\<rparr>\<rparr>"
    and 3: "length hi = nhits" "length hp = nhits" "length hb = nhits"
    by (rule hits_found [of d1 p cl nhits ob])
       (use assms in \<open>simp_all add: d1_def b_def [symmetric] nm_def [symmetric]\<close>)
  have "exec cl (std_hits cl) d = d\<lparr>d_nhits := nhits, d_out := ob, d_vecs := (d_vecs d)\<lparr>
     dv_scanned := Freed, dv_baseline := Live b, dv_normalised := Live nm,
     dv_hit_indices := Live hi, dv_hit_powers := Live hp, dv_hit_baselines := Live hb\<rparr>\<rparr>"
    unfolding 1 2 by (simp add: d1_def)
  from that [OF this len 3] show thesis .
qed

lemma release_exec:
  assumes "is_live (dv_powspec (d_vecs d))" "is_live (dv_baseline (d_vecs d))" "is_live (dv_normalised (d_vecs d))"
    and "is_live (dv_hit_indices (d_vecs d))" "is_live (dv_hit_powers (d_vecs d))" "is_live (dv_hit_baselines (d_vecs d))"
  shows "exec cl std_release d = d\<lparr>d_sem_held := False, d_vecs := (d_vecs d)\<lparr>dv_powspec := Freed, dv_baseline := Freed,
     dv_normalised := Freed, dv_hit_indices := Freed, dv_hit_powers := Freed, dv_hit_baselines := Freed\<rparr>\<rparr>"
proof -
  obtain p b nm hi hp hb where "dv_powspec (d_vecs d) = Live p" "dv_baseline (d_vecs d) = Live b" "dv_normalised (d_vecs d) = Live nm"
    "dv_hit_indices (d_vecs d) = Live hi" "dv_hit_powers (d_vecs d) = Live hp" "dv_hit_baselines (d_vecs d) = Live hb"
    using assms by (auto simp: is_live_iff)
  then show ?thesis by (simp add: std_release_def exec_ops)
qed

lemma cub_is_std:
  "exec cl (cub_fft cl) d = exec cl (std_fft cl) d" "exec cl (cub_hits cl) d = exec cl (std_hits cl) d"
  "exec cl cub_release d = exec cl std_release d"
  by (simp_all only: cub_fft_def std_fft_def cub_hits_def std_hits_def cub_release_def std_release_def exec_Cons exec_Nil
      exec_op.simps(5))

lemma bytes_not_live: "\<not> is_live p \<Longrightarrow> bytes t (map_vptr f p) = 0"
  by (cases p) simp_all

lemma idle_no_memory: "idle_vecs dv \<Longrightarrow> live_bytes dv = 0"
  by (simp add: idle_vecs_def live_bytes_def vecs_def bytes_not_live)

text \<open>What a call of \<open>spectroscopy\<close> at FAST computes when the output of the FFT has room for \<open>m\<close> elements.\<close>

definition fast_result :: "nat \<Rightarrow> ('r, 'i) spectroscopy_call \<Rightarrow> out_block \<Rightarrow> nat \<times> out_block" where
  "fast_result m cl ob = detection cl (power_of m cl) ob"

lemma realloc_from_alloc:
  assumes "idle_vecs (d_vecs d)" "length (cl_raw cl) = cl_n_ts cl" "m \<le> Suc (n_element cl)"
    and "d1 = d\<lparr>d_sem_held := True, d_vecs := (d_vecs d)\<lparr>
     dv_raw_timeseries := Live (cl_raw cl), dv_hit_indices := Live [], dv_hit_powers := Live [], dv_hit_baselines := Live [],
     dv_fft_data := Live (replicate (cl_n_ts cl) (snd (cl_zero cl))),
     dv_fft_data_out := Live (replicate m (0, 0)), dv_powspec := Live (replicate (n_element cl) 0)\<rparr>\<rparr>"
    and "d' = exec cl std_release (exec cl (std_hits cl) (exec cl (std_fft cl) d1))"
  shows "(d_nhits d', d_out d') = fast_result m cl (d_out d) \<and> d_faults d' = d_faults d @ overruns m cl
    \<and> \<not> d_sem_held d' \<and> idle_vecs (d_vecs d')"
proof -
  define d2 where "d2 = exec cl (std_fft cl) d1"
  have d2: "d2 = d1\<lparr>d_faults := d_faults d1 @ overruns m cl, d_vecs := (d_vecs d1)\<lparr>
     dv_raw_timeseries := Freed, dv_fft_data := Freed, dv_fft_data_out := Freed, dv_powspec := Live (power_of m cl)\<rparr>\<rparr>"
    unfolding d2_def
    by (rule std_fft_exec [where xs = "replicate (cl_n_ts cl) (snd (cl_zero cl))"]) (use assms(2,3) in \<open>simp_all add: assms(4)\<close>)
  have p: "length (power_of m cl) = n_element cl" using assms(3) by (simp add: power_of_def length_power_spectrum)
  obtain nhits ob where r: "fast_result m cl (d_out d) = (nhits, ob)" by (rule prod.exhaust)
  obtain b nm hi hp hb where d3: "exec cl (std_hits cl) d2 = d2\<lparr>d_nhits := nhits, d_out := ob, d_vecs := (d_vecs d2)\<lparr>
     dv_scanned := Freed, dv_baseline := Live b, dv_normalised := Live nm,
     dv_hit_indices := Live hi, dv_hit_powers := Live hp, dv_hit_baselines := Live hb\<rparr>\<rparr>"
    by (rule hits_exec [of d2 "power_of m cl" cl nhits ob])
       (use assms(1) p r in \<open>simp_all add: d2 assms(4) idle_vecs_def fast_result_def\<close>)
  have "d' = exec cl std_release (exec cl (std_hits cl) d2)" by (simp add: assms(5) d2_def)
  also have "\<dots> = (exec cl (std_hits cl) d2)\<lparr>d_sem_held := False, d_vecs := (d_vecs (exec cl (std_hits cl) d2))\<lparr>dv_powspec := Freed,
     dv_baseline := Freed, dv_normalised := Freed, dv_hit_indices := Freed, dv_hit_powers := Freed, dv_hit_baselines := Freed\<rparr>\<rparr>"
    by (rule release_exec; unfold d3; simp add: d2)
  finally have "d' = d2\<lparr>d_sem_held := False, d_nhits := nhits, d_out := ob, d_vecs := (d_vecs d2)\<lparr>dv_powspec := Freed,
     dv_scanned := Freed, dv_baseline := Freed, dv_normalised := Freed, dv_hit_indices := Freed, dv_hit_powers := Freed,
     dv_hit_baselines := Freed\<rparr>\<rparr>"
    unfolding d3 by simp
  then show ?thesis using assms(1) r by (simp add: d2 assms(4) idle_vecs_def)
qed

lemma realloc_cub_exec: "exec cl (realloc_cub cl) d = exec cl std_release (exec cl (std_hits cl) (exec cl (std_fft cl) (exec cl (cub_alloc cl) d)))"
  and realloc_std_exec: "exec cl (realloc_std cl) d = exec cl std_release (exec cl (std_hits cl) (exec cl (std_fft cl) (exec cl (std_alloc cl) d)))"
  by (simp_all add: realloc_cub_def realloc_std_def cub_is_std)

lemma reallocating_versions_clean:
  assumes "idle_vecs (d_vecs d)" "length (cl_raw cl) = cl_n_ts cl" "length (spectra cl) = n_element cl + 1"
  shows "let d' = exec cl (realloc_cub cl) d
     in (d_nhits d', d_out d') = fast_result (n_element cl + 1) cl (d_out d) \<and> d_faults d' = d_faults d
        \<and> live_bytes (d_vecs d') = 0 \<and> \<not> d_sem_held d'"
    and "let d' = exec cl (realloc_std cl) d
     in (d_nhits d', d_out d') = fast_result (n_element cl) cl (d_out d) \<and> d_faults d' = d_faults d @ [Overrun Fft_data_out]
        \<and> live_bytes (d_vecs d') = 0 \<and> \<not> d_sem_held d'"
  using realloc_from_alloc [OF assms(1,2) _ cub_alloc_exec [OF assms(1)] realloc_cub_exec]
    realloc_from_alloc [OF assms(1,2) _ std_alloc_exec [OF assms(1)] realloc_std_exec] assms(3)
  by (simp_all add: Let_def overruns_def idle_no_memory)

subsection \<open>Vectors that are kept from call to call\<close>

text \<open>Null before the first call, of the right size after it; the last power is 0, never written.\<close>

fun sized :: "nat \<Rightarrow> 'a list vptr \<Rightarrow> bool" where
  "sized n Null = True"
| "sized n Freed = False"
| "sized n (Live xs) = (length xs = n)"

fun usable :: "'a list vptr \<Rightarrow> bool" where
  "usable Freed = False"
| "usable _ = True"

definition kept :: "nat \<Rightarrow> nat \<Rightarrow> ('r, 'i) device_vectors \<Rightarrow> bool" where
  "kept n n_ts dv =
     (dv_raw_timeseries dv = Null \<and> sized n_ts (dv_fft_data dv) \<and> sized n (dv_fft_data_out dv) \<and>
      sized n (dv_powspec dv) \<and> (is_live (dv_powspec dv) \<longrightarrow> last (live (dv_powspec dv)) = 0) \<and>
      sized n (dv_scanned dv) \<and> sized n (dv_baseline dv) \<and> sized n (dv_normalised dv) \<and>
      usable (dv_hit_indices dv) \<and> usable (dv_hit_powers dv) \<and> usable (dv_hit_baselines dv))"

lemma keptD:
  assumes "kept n n_ts dv"
  shows "dv_raw_timeseries dv = Null" "sized n_ts (dv_fft_data dv)" "sized n (dv_fft_data_out dv)" "sized n (dv_powspec dv)"
    "is_live (dv_powspec dv) \<longrightarrow> last (live (dv_powspec dv)) = 0" "sized n (dv_scanned dv)" "sized n (dv_baseline dv)"
    "sized n (dv_normalised dv)" "usable (dv_hit_indices dv)" "usable (dv_hit_powers dv)" "usable (dv_hit_baselines dv)"
  using assms by (simp_all add: kept_def)

lemma or_new_sized: "sized n p \<Longrightarrow> \<exists>xs. or_new p (replicate n z) = Live xs \<and> length xs = n"
  by (cases p) simp_all

lemma or_new_usable: "usable p \<Longrightarrow> \<exists>xs. or_new p x = Live xs"
  by (cases p) simp_all

lemma or_new_last:
  "is_live p \<longrightarrow> last (live p) = 0 \<Longrightarrow> or_new p (replicate n (0 :: real)) = Live xs \<Longrightarrow> 0 < n \<Longrightarrow> last xs = 0"
  by (cases p) auto

lemma kept_powspec:
  assumes "length p = n" "last p = 0" "0 < n" "n \<le> length sp" "length ys = n"
  shows "compute_power_spectrum (write_front sp ys) p = compute_power_spectrum (fft_data_out n sp) (replicate n 0)"
proof -
  have "p \<noteq> []" using assms(1,3) by auto
  then have p: "p = butlast p @ [0]" using assms(2) by (metis append_butlast_last_id)
  have "drop (n - 1) p = [0]" by (subst p) (simp add: assms(1))
  moreover have "drop (n - 1) (replicate n 0) = [0 :: real]" using assms(3) by (simp add: drop_replicate)
  moreover have "write_front sp ys = fft_data_out n sp" using assms(4,5) by (simp add: write_front_def fft_data_out_def)
  ultimately show ?thesis by (simp add: compute_power_spectrum_def)
qed

lemma last_power_of: "0 < n_element cl \<Longrightarrow> last (power_of (n_element cl) cl) = 0 \<and> length (power_of (n_element cl) cl) = n_element cl"
  by (simp add: power_of_def compute_power_spectrum_def last_append drop_replicate)

lemma none_alloc_exec:
  assumes "kept (n_element cl) (cl_n_ts cl) (d_vecs d)" "0 < n_element cl"
  obtains xs ys p hi hp hb where "exec cl (none_alloc cl) d = d\<lparr>d_sem_held := True, d_vecs := (d_vecs d)\<lparr>
     dv_raw_timeseries := Live (cl_raw cl), dv_hit_indices := Live hi, dv_hit_powers := Live hp, dv_hit_baselines := Live hb,
     dv_fft_data := Live xs, dv_fft_data_out := Live ys, dv_powspec := Live p\<rparr>\<rparr>"
    "length xs = cl_n_ts cl" "length ys = n_element cl" "length p = n_element cl" "last p = 0"
proof -
  note k = keptD [OF assms(1)]
  obtain xs where xs: "or_new (dv_fft_data (d_vecs d)) (replicate (cl_n_ts cl) (snd (cl_zero cl))) = Live xs" "length xs = cl_n_ts cl"
    using or_new_sized [OF k(2)] by blast
  obtain ys where ys: "or_new (dv_fft_data_out (d_vecs d)) (replicate (n_element cl) (0, 0)) = Live ys" "length ys = n_element cl"
    using or_new_sized [OF k(3)] by blast
  obtain p where p: "or_new (dv_powspec (d_vecs d)) (replicate (n_element cl) 0) = Live p" "length p = n_element cl"
    using or_new_sized [OF k(4)] by blast
  obtain hi where hi: "or_new (dv_hit_indices (d_vecs d)) [] = Live hi" using or_new_usable [OF k(9)] by blast
  obtain hp where hp: "or_new (dv_hit_powers (d_vecs d)) [] = Live hp" using or_new_usable [OF k(10)] by blast
  obtain hb where hb: "or_new (dv_hit_baselines (d_vecs d)) [] = Live hb" using or_new_usable [OF k(11)] by blast
  have 3: "last p = 0" by (rule or_new_last [OF k(5) p(1) assms(2)])
  have "dv_raw_timeseries (d_vecs d) = Null" by (rule k(1))
  then have "exec cl (none_alloc cl) d = d\<lparr>d_sem_held := True, d_vecs := (d_vecs d)\<lparr>
     dv_raw_timeseries := Live (cl_raw cl), dv_hit_indices := Live hi, dv_hit_powers := Live hp, dv_hit_baselines := Live hb,
     dv_fft_data := Live xs, dv_fft_data_out := Live ys, dv_powspec := Live p\<rparr>\<rparr>"
    using xs(1) ys(1) p(1) hi hp hb by (simp add: none_alloc_def exec_new_if_null exec_ops)
  from that [OF this xs(2) ys(2) p(2) 3] show thesis .
qed


lemma none_fft_exec:
  assumes "dv_raw_timeseries (d_vecs d) = Live (cl_raw cl)" "dv_fft_data (d_vecs d) = Live xs" "length xs = length (cl_raw cl)"
    and "dv_fft_data_out (d_vecs d) = Live ys" "length ys = n_element cl" "dv_powspec (d_vecs d) = Live p" "length p = n_element cl"
    and "d_sem_held d" "last p = 0" "0 < n_element cl" "length (spectra cl) = n_element cl + 1"
  obtains ys' where "exec cl none_fft d = d\<lparr>d_faults := d_faults d @ [Overrun Fft_data_out], d_vecs := (d_vecs d)\<lparr>
     dv_raw_timeseries := Null, dv_fft_data := Live (map (cl_convert cl) (cl_raw cl)),
     dv_fft_data_out := Live ys', dv_powspec := Live (power_of (n_element cl) cl)\<rparr>\<rparr>" "length ys' = n_element cl"
proof
  have "compute_power_spectrum (write_front (spectra cl) ys) p = power_of (n_element cl) cl"
    unfolding power_of_def using assms by (intro kept_powspec) simp_all
  then show "exec cl none_fft d = d\<lparr>d_faults := d_faults d @ [Overrun Fft_data_out], d_vecs := (d_vecs d)\<lparr>
     dv_raw_timeseries := Null, dv_fft_data := Live (map (cl_convert cl) (cl_raw cl)),
     dv_fft_data_out := Live (write_front (spectra cl) ys), dv_powspec := Live (power_of (n_element cl) cl)\<rparr>\<rparr>"
    using assms unfolding spectra_def
    by (simp add: none_fft_def exec_ops)
qed (use assms in simp)

lemma none_hits_exec:
  assumes "dv_powspec (d_vecs d) = Live p" "length p = n_element cl" "d_sem_held d"
    and "sized (n_element cl) (dv_baseline (d_vecs d))" "sized (n_element cl) (dv_normalised (d_vecs d))" "sized (n_element cl) (dv_scanned (d_vecs d))"
    and "is_live (dv_hit_indices (d_vecs d))" "is_live (dv_hit_powers (d_vecs d))" "is_live (dv_hit_baselines (d_vecs d))"
    and "detection cl p (d_out d) = (nhits, ob)"
  obtains zs b nm hi hp hb where "exec cl (none_hits cl) d = d\<lparr>d_nhits := nhits, d_out := ob, d_vecs := (d_vecs d)\<lparr>
     dv_scanned := Live zs, dv_baseline := Live b, dv_normalised := Live nm,
     dv_hit_indices := Live hi, dv_hit_powers := Live hp, dv_hit_baselines := Live hb\<rparr>\<rparr>"
    "length zs = n_element cl" "length b = n_element cl" "length nm = n_element cl" "length hi = nhits" "length hp = nhits" "length hb = nhits"
proof -
  define b where "b = compute_baseline (cl_n_fc cl) (n_element cl) (cl_smooth_scale cl) p"
  define nm where "nm = normalize_power_spectrum p b"
  define zs where "zs = exclusive_scan (cl_n_fc cl) 0 0 p"
  define d1 where "d1 = d\<lparr>d_vecs := (d_vecs d)\<lparr>dv_scanned := Live zs, dv_baseline := Live b, dv_normalised := Live nm\<rparr>\<rparr>"
  have len: "length zs = n_element cl" "length b = n_element cl" "length nm = n_element cl" using assms(2) by (simp_all add: b_def nm_def zs_def)
  obtain b0 where b0: "or_new (dv_baseline (d_vecs d)) (replicate (n_element cl) 0) = Live b0" "length b0 = n_element cl"
    using or_new_sized [OF assms(4)] by blast
  obtain n0 where n0: "or_new (dv_normalised (d_vecs d)) (replicate (n_element cl) 0) = Live n0" "length n0 = n_element cl"
    using or_new_sized [OF assms(5)] by blast
  obtain z0 where z0: "or_new (dv_scanned (d_vecs d)) (replicate (n_element cl) 0) = Live z0" "length z0 = n_element cl"
    using or_new_sized [OF assms(6)] by blast
  have "exec cl (take 5 (none_hits cl)) d = d1"
    using assms(1-3) b0 n0 z0 by (simp add: none_hits_def exec_ops exec_new_if_null b_def nm_def zs_def d1_def)
  then have 1: "exec cl (none_hits cl) d = exec cl [Resize_hit_indices, Find_hits, Copy_out] d1"
    by (simp add: none_hits_def)
  obtain hi hp hb where 2: "exec cl [Resize_hit_indices, Find_hits, Copy_out] d1 = d1\<lparr>d_nhits := nhits, d_out := ob,
     d_vecs := (d_vecs d1)\<lparr>dv_hit_indices := Live hi, dv_hit_powers := Live hp, dv_hit_baselines := Live hb\<rparr>\<rparr>"
    and 3: "length hi = nhits" "length hp = nhits" "length hb = nhits"
    by (rule hits_found [of d1 p cl nhits ob])
       (use assms in \<open>simp_all add: d1_def b_def [symmetric] nm_def [symmetric]\<close>)
  have "exec cl (none_hits cl) d = d\<lparr>d_nhits := nhits, d_out := ob, d_vecs := (d_vecs d)\<lparr>
     dv_scanned := Live zs, dv_baseline := Live b, dv_normalised := Live nm,
     dv_hit_indices := Live hi, dv_hit_powers := Live hp, dv_hit_baselines := Live hb\<rparr>\<rparr>"
    unfolding 1 2 by (simp add: d1_def)
  from that [OF this len 3] show thesis .
qed

lemma realloc_none_exec:
  assumes "kept (n_element cl) (cl_n_ts cl) (d_vecs d)" "0 < n_element cl" "length (cl_raw cl) = cl_n_ts cl"
    and "length (spectra cl) = n_element cl + 1"
  defines "d' \<equiv> exec cl (realloc_none cl) d"
  shows "(d_nhits d', d_out d') = fast_result (n_element cl) cl (d_out d)" "d_faults d' = d_faults d @ [Overrun Fft_data_out]"
    "\<not> d_sem_held d'" "kept (n_element cl) (cl_n_ts cl) (d_vecs d')"
proof -
  obtain xs ys p hi hp hb where d1: "exec cl (none_alloc cl) d = d\<lparr>d_sem_held := True, d_vecs := (d_vecs d)\<lparr>
     dv_raw_timeseries := Live (cl_raw cl), dv_hit_indices := Live hi, dv_hit_powers := Live hp, dv_hit_baselines := Live hb,
     dv_fft_data := Live xs, dv_fft_data_out := Live ys, dv_powspec := Live p\<rparr>\<rparr>" (is "_ = ?d1")
    and l1: "length xs = cl_n_ts cl" "length ys = n_element cl" "length p = n_element cl" "last p = 0"
    by (rule none_alloc_exec [OF assms(1,2)])
  obtain ys' where d2: "exec cl none_fft ?d1 = ?d1\<lparr>d_faults := d_faults ?d1 @ [Overrun Fft_data_out], d_vecs := (d_vecs ?d1)\<lparr>
     dv_raw_timeseries := Null, dv_fft_data := Live (map (cl_convert cl) (cl_raw cl)),
     dv_fft_data_out := Live ys', dv_powspec := Live (power_of (n_element cl) cl)\<rparr>\<rparr>" (is "_ = ?d2")
    and l2: "length ys' = n_element cl"
    by (rule none_fft_exec [of ?d1 cl xs ys p]) (use assms(2-4) l1 in simp_all)
  obtain nhits ob where r: "fast_result (n_element cl) cl (d_out d) = (nhits, ob)" by (rule prod.exhaust)
  note pw = last_power_of [OF assms(2)]
  obtain zs b nm hi' hp' hb' where d3: "exec cl (none_hits cl) ?d2 = ?d2\<lparr>d_nhits := nhits, d_out := ob, d_vecs := (d_vecs ?d2)\<lparr>
     dv_scanned := Live zs, dv_baseline := Live b, dv_normalised := Live nm,
     dv_hit_indices := Live hi', dv_hit_powers := Live hp', dv_hit_baselines := Live hb'\<rparr>\<rparr>"
    and l3: "length zs = n_element cl" "length b = n_element cl" "length nm = n_element cl"
    by (rule none_hits_exec [of ?d2 "power_of (n_element cl) cl" cl nhits ob])
       (use keptD [OF assms(1)] pw r in \<open>simp_all add: fast_result_def\<close>)
  have "d' = (exec cl (none_hits cl) ?d2)\<lparr>d_sem_held := False\<rparr>"
    unfolding d'_def by (simp add: realloc_none_def d1 d2 exec_sem)
  then have d': "d' = ?d2\<lparr>d_sem_held := False, d_nhits := nhits, d_out := ob, d_vecs := (d_vecs ?d2)\<lparr>
     dv_scanned := Live zs, dv_baseline := Live b, dv_normalised := Live nm,
     dv_hit_indices := Live hi', dv_hit_powers := Live hp', dv_hit_baselines := Live hb'\<rparr>\<rparr>"
    unfolding d3 by simp
  show "(d_nhits d', d_out d') = fast_result (n_element cl) cl (d_out d)" "d_faults d' = d_faults d @ [Overrun Fft_data_out]"
    "\<not> d_sem_held d'" by (simp_all add: d' r)
  show "kept (n_element cl) (cl_n_ts cl) (d_vecs d')"
    using l2 l3 pw assms(3) by (simp add: d' kept_def)
qed

fun none_calls :: "(('r, 'i) spectroscopy_call \<times> out_block) list \<Rightarrow> ('r, 'i) device \<Rightarrow> (nat \<times> out_block) list \<times> ('r, 'i) device" where
  "none_calls [] d = ([], d)"
| "none_calls ((cl, ob) # cs) d =
     (let d1 = exec cl (realloc_none cl) (d\<lparr>d_out := ob\<rparr>);
          (rs, d') = none_calls cs d1
      in ((d_nhits d1, d_out d1) # rs, d'))"

lemma init_kept: "kept n n_ts (init_device_vectors SOURCE_FAST)"
  by (simp add: kept_def init_device_vectors_def)

lemma none_calls_results:
  assumes "kept n n_ts (d_vecs d)" "0 < n"
    and "list_all (\<lambda>(cl, ob). n_element cl = n \<and> cl_n_ts cl = n_ts \<and> length (cl_raw cl) = n_ts \<and> length (spectra cl) = n + 1) cs"
  shows "fst (none_calls cs d) = map (\<lambda>(cl, ob). fast_result n cl ob) cs
    \<and> d_faults (snd (none_calls cs d)) = d_faults d @ replicate (length cs) (Overrun Fft_data_out)
    \<and> kept n n_ts (d_vecs (snd (none_calls cs d)))"
  using assms(1,3)
proof (induction cs arbitrary: d)
  case (Cons c cs)
  obtain cl ob where c: "c = (cl, ob)" by (rule prod.exhaust)
  define d1 where "d1 = exec cl (realloc_none cl) (d\<lparr>d_out := ob\<rparr>)"
  have n: "n_element cl = n" "cl_n_ts cl = n_ts" "length (cl_raw cl) = n_ts" "length (spectra cl) = n + 1"
    using Cons.prems(2) by (simp_all add: c)
  have 1: "(d_nhits d1, d_out d1) = fast_result n cl ob" "d_faults d1 = d_faults d @ [Overrun Fft_data_out]" "kept n n_ts (d_vecs d1)"
    using realloc_none_exec [of cl "d\<lparr>d_out := ob\<rparr>"] Cons.prems(1) assms(2) n by (simp_all add: d1_def)
  have "fst (none_calls cs d1) = map (\<lambda>(cl, ob). fast_result n cl ob) cs
    \<and> d_faults (snd (none_calls cs d1)) = d_faults d1 @ replicate (length cs) (Overrun Fft_data_out)
    \<and> kept n n_ts (d_vecs (snd (none_calls cs d1)))"
    by (rule Cons.IH) (use 1(3) Cons.prems(2) in simp_all)
  then show ?case
    using 1(1,2) by (simp add: c d1_def [symmetric] split_beta replicate_app_Cons_same)
qed simp

lemma fast_result_is_spectroscopy:
  assumes "cl_site cl = SOURCE_FAST" "cl_raw cl = map input [0..<n]" "cl_convert cl = convert_real_8b_to_float"
    and "cl_fft cl = (\<lambda>xs. fft (Real_input xs))"
  shows "fast_result (n_element cl) cl ob = spectroscopy_fast (cl_n_cc cl) (cl_n_fc cl) (cl_n_pol cl) (cl_bors cl) (cl_maxhits cl)
    (cl_power_thresh cl) (cl_smooth_scale cl) fft n input ob"
  using assms by (simp add: fast_result_def detection_def spectroscopy_fast_def power_of_def spectra_def unpack_real_def
      n_element_def Let_def comp_def)

subsection \<open>The channelized sites\<close>

definition hits_only :: "('r, 'i) device_vectors \<Rightarrow> bool" where
  "hits_only dv =
     (\<not> is_live (dv_fft_data dv) \<and> \<not> is_live (dv_raw_timeseries dv) \<and> \<not> is_live (dv_fft_data_out dv) \<and>
      \<not> is_live (dv_powspec dv) \<and> \<not> is_live (dv_scanned dv) \<and> \<not> is_live (dv_baseline dv) \<and> \<not> is_live (dv_normalised dv) \<and>
      \<not> is_live (dv_spectra_sums dv) \<and> \<not> is_live (dv_spectra_indices dv) \<and>
      is_live (dv_hit_indices dv) \<and> is_live (dv_hit_powers dv) \<and> is_live (dv_hit_baselines dv))"

lemma init_hits_only: "s \<noteq> SOURCE_FAST \<Longrightarrow> hits_only (init_device_vectors s)"
  by (simp add: hits_only_def init_device_vectors_def Let_def)

lemma exec_reduce:
  assumes "d_sem_held d" "dv_powspec (d_vecs d) = Live p" "dv_spectra_sums (d_vecs d) = Live xs" "dv_spectra_indices (d_vecs d) = Live is"
    and "length xs = cl_n_cc cl * cl_n_pol cl" "length is = cl_n_cc cl * cl_n_pol cl" "cl_n_cc cl * cl_n_pol cl * cl_n_fc cl \<le> length p"
  shows "exec_op cl Reduce_coarse_channels d = d\<lparr>d_vecs := (d_vecs d)\<lparr>
      dv_spectra_sums := Live (reduce_power_spectra (cl_n_cc cl * cl_n_pol cl) (cl_n_fc cl) p),
      dv_spectra_indices := Live [0..<cl_n_cc cl * cl_n_pol cl]\<rparr>,
    d_out := reduce_coarse_channels (cl_n_cc cl) (cl_n_pol cl) (cl_n_fc cl) (cl_bors cl) p (d_out d)\<rparr>"
  using assms by (simp add: exec_op.simps kernel_ok fits_ok reduce_power_spectra_def Let_def)

lemma channelized_fft_exec:
  assumes "hits_only (d_vecs d)" "length (cl_raw cl) = max_samples (cl_site cl)" "n_element cl = max_samples (cl_site cl)"
    and "length (spectra cl) \<le> n_element cl"
  shows "exec cl (channelized_fft cl) d = d\<lparr>d_sem_held := True, d_vecs := (d_vecs d)\<lparr>
     dv_raw_timeseries := Freed, dv_fft_data := Freed, dv_fft_data_out := Freed, dv_powspec := Live (power_of (n_element cl) cl)\<rparr>\<rparr>"
  using assms
  by (simp add: channelized_fft_def exec_ops hits_only_def power_of_def spectra_def write_front_zeros)

lemma channelized_reduce_exec:
  assumes "\<not> is_live (dv_spectra_sums (d_vecs d))" "\<not> is_live (dv_spectra_indices (d_vecs d))" "d_sem_held d"
    and "dv_powspec (d_vecs d) = Live p" "length p = cl_n_cc cl * cl_n_fc cl * cl_n_pol cl"
  shows "exec cl (channelized_reduce cl) d = d\<lparr>
     d_vecs := (d_vecs d)\<lparr>dv_spectra_sums := Freed, dv_spectra_indices := Freed\<rparr>,
     d_out := reduce_coarse_channels (cl_n_cc cl) (cl_n_pol cl) (cl_n_fc cl) (cl_bors cl) p (d_out d)\<rparr>"
proof -
  have "length (reduce_power_spectra (cl_n_cc cl * cl_n_pol cl) (cl_n_fc cl) p) = cl_n_cc cl * cl_n_pol cl"
    by (simp add: reduce_power_spectra_def)
  moreover have "cl_n_cc cl * cl_n_pol cl * cl_n_fc cl \<le> length p" using assms(5) by (simp add: mult.assoc mult.left_commute)
  ultimately show ?thesis using assms(1-4) by (simp add: channelized_reduce_def exec_ops exec_reduce)
qed

lemma channelized_hits_exec:
  "exec cl (channelized_hits cl) d =
     exec cl [Delete Powspec, Delete Baseline, Delete Normalised, Sem_post] (exec cl (std_hits cl) d)"
  by (simp add: channelized_hits_def std_hits_def)

lemma channelized_is_spectroscopy:
  assumes "hits_only (d_vecs d)" "cl_site cl \<noteq> SOURCE_FAST" "n_element cl = max_samples (cl_site cl)"
    and "cl_raw cl = map (\<lambda>i. (input (2 * i), input (2 * i + 1))) [0..<n_bytes div 2]" "n_bytes div 2 = max_samples (cl_site cl)"
    and "cl_convert cl = convert_complex_8b_to_float" "cl_fft cl = (\<lambda>xs. fft (Complex_input xs))"
    and "length (spectra cl) \<le> n_element cl"
  defines "d' \<equiv> exec cl (channelized cl) d"
  shows "(d_nhits d', d_out d') = spectroscopy (cl_site cl) (cl_n_cc cl) (cl_n_fc cl) (cl_n_pol cl) (cl_bors cl) (cl_maxhits cl)
      (cl_power_thresh cl) (cl_smooth_scale cl) fft n_bytes input (d_out d)
    \<and> d_faults d' = d_faults d \<and> \<not> d_sem_held d' \<and> hits_only (d_vecs d')"
proof -
  define p where "p = power_of (n_element cl) cl"
  define ob1 where "ob1 = reduce_coarse_channels (cl_n_cc cl) (cl_n_pol cl) (cl_n_fc cl) (cl_bors cl) p (d_out d)"
  have lp: "length p = n_element cl" by (simp add: p_def power_of_def length_power_spectrum)
  have n: "n_element cl = cl_n_cc cl * cl_n_fc cl * cl_n_pol cl" using assms(2) by (simp add: n_element_def)
  have len: "length (cl_raw cl) = max_samples (cl_site cl)" using assms(4,5) by simp
  define d2 where "d2 = d\<lparr>d_sem_held := True, d_vecs := (d_vecs d)\<lparr>
     dv_raw_timeseries := Freed, dv_fft_data := Freed, dv_fft_data_out := Freed, dv_powspec := Live p,
     dv_spectra_sums := Freed, dv_spectra_indices := Freed\<rparr>, d_out := ob1\<rparr>"
  have d2: "exec cl (channelized_reduce cl) (exec cl (channelized_fft cl) d) = d2"
    unfolding channelized_fft_exec [OF assms(1) len assms(3,8)] p_def [symmetric]
    by (subst channelized_reduce_exec) (use assms(1) lp n in \<open>simp_all add: d2_def ob1_def hits_only_def\<close>)
  obtain nhits ob where r: "detection cl p ob1 = (nhits, ob)" by (rule prod.exhaust)
  obtain b nm hi hp hb where 3: "exec cl (std_hits cl) d2 = d2\<lparr>d_nhits := nhits, d_out := ob, d_vecs := (d_vecs d2)\<lparr>
     dv_scanned := Freed, dv_baseline := Live b, dv_normalised := Live nm,
     dv_hit_indices := Live hi, dv_hit_powers := Live hp, dv_hit_baselines := Live hb\<rparr>\<rparr>"
    by (rule hits_exec [of d2 p cl nhits ob]) (use assms(1) lp r in \<open>simp_all add: d2_def hits_only_def\<close>)
  have "d' = exec cl [Delete Powspec, Delete Baseline, Delete Normalised, Sem_post] (exec cl (std_hits cl) d2)"
    by (simp only: d'_def channelized_def exec_append d2 channelized_hits_exec)
  also have "\<dots> = d2\<lparr>d_sem_held := False, d_nhits := nhits, d_out := ob, d_vecs := (d_vecs d2)\<lparr>
     dv_powspec := Freed, dv_scanned := Freed, dv_baseline := Freed, dv_normalised := Freed,
     dv_hit_indices := Live hi, dv_hit_powers := Live hp, dv_hit_baselines := Live hb\<rparr>\<rparr>"
    unfolding 3 by (simp add: exec_ops d2_def)
  finally have d': "d' = \<dots>" .
  have "spectroscopy (cl_site cl) (cl_n_cc cl) (cl_n_fc cl) (cl_n_pol cl) (cl_bors cl) (cl_maxhits cl)
      (cl_power_thresh cl) (cl_smooth_scale cl) fft n_bytes input (d_out d) = detection cl p ob1"
    using assms(3-7) n by (simp add: spectroscopy_def detection_def p_def ob1_def power_of_def spectra_def unpack_complex_def Let_def comp_def)
  then show ?thesis using assms(1) r by (simp add: d' d2_def hits_only_def)
qed

end
