(* ===== verification/S6_GpuMem_Results.thy ===== *)
theory S6_GpuMem_Results
  imports S6_GpuMem_Props
begin

text \<open>
  What the versions of \<open>spectroscopy\<close> compute, what they leave allocated, how much device memory
  they need, and where they write past a vector.
\<close>

subsection \<open>Memory in use\<close>

lemma bytes_live [simp]: "bytes t (map_vptr length (Live xs)) = length xs * elem_size t"
  by simp

lemma live_bytes_sum:
  "live_bytes dv = bytes T_float (vec_state Fft_data dv) + bytes T_char (vec_state Raw_timeseries dv)
     + bytes T_float2 (vec_state Fft_data_out dv) + bytes T_float (vec_state Powspec dv) + bytes T_float (vec_state Scanned dv)
     + bytes T_float (vec_state Baseline dv) + bytes T_float (vec_state Normalised dv) + bytes T_int (vec_state Hit_indices dv)
     + bytes T_float (vec_state Hit_powers dv) + bytes T_float (vec_state Hit_baselines dv)
     + bytes T_float (vec_state Spectra_sums dv) + bytes T_int (vec_state Spectra_indices dv)"
  by (simp add: live_bytes_def vecs_def)

lemma peak_append: "peak cl (ops @ ops') d = max (peak cl ops d) (peak cl ops' (exec cl ops d))"
  by (induction ops arbitrary: d) (simp_all add: max.assoc, cases ops', auto)

lemma peak_cub_alloc:
  assumes "idle_vecs (d_vecs d)"
  shows "peak cl (cub_alloc cl) d \<le> length (cl_raw cl) + 4 * cl_n_ts cl + 8 * (n_element cl + 1) + 4 * n_element cl"
  using assms unfolding idle_vecs_def
  by (simp add: cub_alloc_def exec_ops live_bytes_sum bytes_not_live)

lemma peak_cub_fft:
  assumes "dv_raw_timeseries (d_vecs d) = Live (cl_raw cl)" "dv_fft_data (d_vecs d) = Live xs" "length xs = length (cl_raw cl)"
    and "dv_fft_data_out (d_vecs d) = Live ys" "dv_powspec (d_vecs d) = Live p" "length p = n_element cl"
    and "d_sem_held d" "length ys \<le> Suc (n_element cl)"
    and "\<not> is_live (dv_scanned (d_vecs d))" "\<not> is_live (dv_baseline (d_vecs d))" "\<not> is_live (dv_normalised (d_vecs d))"
    and "dv_hit_indices (d_vecs d) = Live []" "dv_hit_powers (d_vecs d) = Live []" "dv_hit_baselines (d_vecs d) = Live []"
    and "\<not> is_live (dv_spectra_sums (d_vecs d))" "\<not> is_live (dv_spectra_indices (d_vecs d))"
  shows "peak cl (cub_fft cl) d \<le> length (cl_raw cl) + 4 * length xs + 8 * length ys + 4 * n_element cl"
  using assms
  by (simp add: cub_fft_def exec_ops live_bytes_sum bytes_not_live length_power_spectrum)

lemma peak_hits:
  assumes "d_sem_held d" "dv_powspec (d_vecs d) = Live p" "length p = n_element cl"
    and "dv_hit_indices (d_vecs d) = Live []" "dv_hit_powers (d_vecs d) = Live []" "dv_hit_baselines (d_vecs d) = Live []"
    and "\<not> is_live (dv_raw_timeseries (d_vecs d))" "\<not> is_live (dv_fft_data (d_vecs d))" "\<not> is_live (dv_fft_data_out (d_vecs d))"
    and "\<not> is_live (dv_scanned (d_vecs d))" "\<not> is_live (dv_baseline (d_vecs d))" "\<not> is_live (dv_normalised (d_vecs d))"
    and "\<not> is_live (dv_spectra_sums (d_vecs d))" "\<not> is_live (dv_spectra_indices (d_vecs d))"
  shows "peak cl (cub_hits cl) d \<le> 12 * n_element cl + max (4 * n_element cl) (12 * cl_maxhits cl)"
proof -
  define b where "b = compute_baseline (cl_n_fc cl) (n_element cl) (cl_smooth_scale cl) p"
  define nm where "nm = normalize_power_spectrum p b"
  have len: "length b = n_element cl" "length nm = n_element cl" using assms(3) by (simp_all add: b_def nm_def)
  obtain k hs where F: "find_hits (n_element cl) (cl_maxhits cl) (cl_power_thresh cl) nm p b = (k, hs)" by (rule prod.exhaust)
  note km = find_hits_count [OF F]
  define d1 where "d1 = d\<lparr>d_vecs := (d_vecs d)\<lparr>dv_scanned := Freed, dv_baseline := Live b, dv_normalised := Live nm\<rparr>\<rparr>"
  have split: "cub_hits cl = take 6 (cub_hits cl) @ [Resize_hit_indices, Find_hits, Copy_out]" by (simp add: cub_hits_def)
  have 1: "exec cl (take 6 (cub_hits cl)) d = d1"
    using assms by (simp add: cub_hits_def exec_ops b_def nm_def d1_def)
  have 2: "peak cl (take 6 (cub_hits cl)) d \<le> 16 * n_element cl"
    using assms by (simp add: cub_hits_def exec_ops live_bytes_sum bytes_not_live)
  have "peak cl [Resize_hit_indices, Find_hits, Copy_out] d1 \<le> 12 * n_element cl + max (4 * n_element cl) (12 * cl_maxhits cl)"
    using assms len F km by (simp add: d1_def exec_ops live_bytes_sum bytes_not_live)
  with 2 show ?thesis by (subst split) (simp add: peak_append 1)
qed

lemma peak_release:
  assumes "dv_powspec (d_vecs d) = Live p" "length p = n_element cl" "dv_baseline (d_vecs d) = Live b" "length b = n_element cl"
    and "dv_normalised (d_vecs d) = Live nm" "length nm = n_element cl"
    and "dv_hit_indices (d_vecs d) = Live hi" "dv_hit_powers (d_vecs d) = Live hp" "dv_hit_baselines (d_vecs d) = Live hb"
    and "length hi \<le> cl_maxhits cl" "length hp \<le> cl_maxhits cl" "length hb \<le> cl_maxhits cl"
    and "\<not> is_live (dv_raw_timeseries (d_vecs d))" "\<not> is_live (dv_fft_data (d_vecs d))" "\<not> is_live (dv_fft_data_out (d_vecs d))"
    and "\<not> is_live (dv_scanned (d_vecs d))" "\<not> is_live (dv_spectra_sums (d_vecs d))" "\<not> is_live (dv_spectra_indices (d_vecs d))"
  shows "peak cl cub_release d \<le> 12 * n_element cl + 12 * cl_maxhits cl"
  using assms by (simp add: cub_release_def exec_ops live_bytes_sum bytes_not_live)

lemma detection_count: "detection cl p ob = (nhits, ob') \<Longrightarrow> nhits \<le> cl_maxhits cl"
  by (auto simp: detection_def detect_hits_def Let_def split_beta split: if_splits)

lemma peak_cub:
  assumes "idle_vecs (d_vecs d)" "length (cl_raw cl) = cl_n_ts cl"
  shows "peak cl (realloc_cub cl) d
    \<le> max (5 * cl_n_ts cl + 12 * n_element cl + 8) (12 * n_element cl + max (4 * n_element cl) (12 * cl_maxhits cl))"
proof -
  define n where "n = n_element cl"
  define p where "p = power_of (n + 1) cl"
  have lp: "length p = n_element cl" by (simp add: p_def n_def power_of_def length_power_spectrum)
  note d1 = cub_alloc_exec [OF assms(1), of cl]
  define d1 where "d1 = exec cl (cub_alloc cl) d"
  define d2 where "d2 = exec cl (cub_fft cl) d1"
  have d2: "d2 = d1\<lparr>d_faults := d_faults d1 @ overruns (n + 1) cl, d_vecs := (d_vecs d1)\<lparr>
     dv_raw_timeseries := Freed, dv_fft_data := Freed, dv_fft_data_out := Freed, dv_powspec := Live p\<rparr>\<rparr>"
    unfolding d2_def cub_is_std p_def
    by (rule std_fft_exec [where xs = "replicate (cl_n_ts cl) (snd (cl_zero cl))"])
       (use assms(2) in \<open>simp_all add: d1_def d1 n_def\<close>)
  obtain nhits ob where r: "detection cl p (d_out d) = (nhits, ob)" by (rule prod.exhaust)
  obtain b nm hi hp hb where d3: "exec cl (std_hits cl) d2 = d2\<lparr>d_nhits := nhits, d_out := ob, d_vecs := (d_vecs d2)\<lparr>
     dv_scanned := Freed, dv_baseline := Live b, dv_normalised := Live nm,
     dv_hit_indices := Live hi, dv_hit_powers := Live hp, dv_hit_baselines := Live hb\<rparr>\<rparr>"
    and len: "length b = n_element cl" "length nm = n_element cl" "length hi = nhits" "length hp = nhits" "length hb = nhits"
    by (rule hits_exec [of d2 p cl nhits ob]) (use assms(1) lp r in \<open>simp_all add: d2 d1_def d1 idle_vecs_def\<close>)
  note idle = assms(1) [unfolded idle_vecs_def]
  have "peak cl (cub_alloc cl) d \<le> 5 * cl_n_ts cl + 12 * n_element cl + 8"
    using peak_cub_alloc [OF assms(1), of cl] assms(2) by simp
  moreover have "peak cl (cub_fft cl) d1 \<le> 5 * cl_n_ts cl + 12 * n_element cl + 8"
    using peak_cub_fft [of d1 cl "replicate (cl_n_ts cl) (snd (cl_zero cl))" "replicate (n_element cl + 1) (0, 0)"
        "replicate (n_element cl) 0"] idle assms(2)
    by (simp add: d1_def d1)
  moreover have "peak cl (cub_hits cl) d2 \<le> 12 * n_element cl + max (4 * n_element cl) (12 * cl_maxhits cl)"
    by (rule peak_hits [where p = p]) (use idle lp in \<open>simp_all add: d2 d1_def d1\<close>)
  moreover have "peak cl cub_release (exec cl (std_hits cl) d2) \<le> 12 * n_element cl + 12 * cl_maxhits cl"
    unfolding d3 by (rule peak_release [of _ p cl b nm hi hp hb])
      (use idle lp len detection_count [OF r] in \<open>simp_all add: d2 d1_def d1\<close>)
  moreover have "exec cl (cub_hits cl) d2 = exec cl (std_hits cl) d2" "exec cl (cub_fft cl) d1 = d2"
    by (simp_all add: cub_is_std d2_def)
  then have "peak cl (realloc_cub cl) d = max (peak cl (cub_alloc cl) d) (max (peak cl (cub_fft cl) d1)
      (max (peak cl (cub_hits cl) d2) (peak cl cub_release (exec cl (std_hits cl) d2))))"
    by (simp add: realloc_cub_def peak_append d1_def [symmetric])
  ultimately show ?thesis by (auto simp: max_def)
qed

text \<open>The kept vectors after a call, and during the search for hits.\<close>

lemma peak_prefix: "live_bytes (d_vecs (exec cl ops d)) \<le> peak cl (ops @ ops') d"
proof -
  have "live_bytes (d_vecs d) \<le> peak cl ops d" for ops and d :: "('a, 'b) device" by (cases ops) auto
  then show ?thesis by (simp add: peak_append max.coboundedI2)
qed

lemma peak_none:
  assumes "kept (n_element cl) (cl_n_ts cl) (d_vecs d)" "0 < n_element cl" "length (cl_raw cl) = cl_n_ts cl"
    and "length (spectra cl) = n_element cl + 1"
  shows "4 * cl_n_ts cl + 28 * n_element cl \<le> peak cl (realloc_none cl) d"
proof -
  obtain xs ys p hi hp hb where d1: "exec cl (none_alloc cl) d = d\<lparr>d_sem_held := True, d_vecs := (d_vecs d)\<lparr>
     dv_raw_timeseries := Live (cl_raw cl), dv_hit_indices := Live hi, dv_hit_powers := Live hp, dv_hit_baselines := Live hb,
     dv_fft_data := Live xs, dv_fft_data_out := Live ys, dv_powspec := Live p\<rparr>\<rparr>" (is "_ = ?d1")
    and l1: "length xs = cl_n_ts cl" "length ys = n_element cl" "length p = n_element cl" "last p = 0"
    by (rule none_alloc_exec [OF assms(1,2)])
  obtain ys' where d2: "exec cl none_fft ?d1 = ?d1\<lparr>d_faults := d_faults ?d1 @ [Overrun Fft_data_out], d_vecs := (d_vecs ?d1)\<lparr>
     dv_raw_timeseries := Null, dv_fft_data := Live (map (cl_convert cl) (cl_raw cl)),
     dv_fft_data_out := Live ys', dv_powspec := Live (power_of (n_element cl) cl)\<rparr>\<rparr>" (is "_ = ?d2")
    and l2: "length ys' = n_element cl"
    by (rule none_fft_exec [of ?d1 cl xs ys p]) (use assms(2-4) l1 in simp_all)
  note k = keptD [OF assms(1)] and pw = last_power_of [OF assms(2)]
  obtain b0 where b0: "or_new (dv_baseline (d_vecs d)) (replicate (n_element cl) 0) = Live b0" "length b0 = n_element cl"
    using or_new_sized [OF k(7)] by blast
  obtain n0 where n0: "or_new (dv_normalised (d_vecs d)) (replicate (n_element cl) 0) = Live n0" "length n0 = n_element cl"
    using or_new_sized [OF k(8)] by blast
  obtain z0 where z0: "or_new (dv_scanned (d_vecs d)) (replicate (n_element cl) 0) = Live z0" "length z0 = n_element cl"
    using or_new_sized [OF k(6)] by blast
  define front where "front = none_alloc cl @ none_fft @ take 6 (none_hits cl)"
  have "exec cl front d = exec cl (take 6 (none_hits cl)) ?d2"
    by (simp only: front_def exec_append d1 d2)
  also have "4 * cl_n_ts cl + 28 * n_element cl \<le> live_bytes (d_vecs (exec cl (take 6 (none_hits cl)) ?d2))"
    using pw l2 assms(3) b0 n0 z0
    by (simp add: none_hits_def exec_ops exec_new_if_null live_bytes_sum)
  finally show ?thesis
    using peak_prefix [of cl front d "[Find_hits, Copy_out, Sem_post]"]
    by (simp add: front_def realloc_none_def none_hits_def)
qed

subsection \<open>The calls of the program\<close>

definition fresh_device :: "site \<Rightarrow> out_block \<Rightarrow> ('r, 'i) device" where
  "fresh_device s ob =
     \<lparr>d_vecs = init_device_vectors s, d_sem_held = False, d_faults = [], d_nhits = 0, d_out = ob\<rparr>"

text \<open>The arguments that vary from call to call: polarisation, group, limits, and the input.\<close>

record call_args =
  ca_pol :: nat
  ca_bors :: nat
  ca_maxhits :: nat
  ca_power_thresh :: real
  ca_smooth_scale :: nat
  ca_input :: store

definition fast_call ::
  "nat \<Rightarrow> nat \<Rightarrow> nat \<Rightarrow> (fft_input \<Rightarrow> (real \<times> real) list) \<Rightarrow> call_args \<Rightarrow> (u8, real) spectroscopy_call" where
  "fast_call n_cc n_fc n_ts fft a =
     \<lparr>cl_site = SOURCE_FAST, cl_n_cc = n_cc, cl_n_fc = n_fc, cl_n_ts = n_ts, cl_n_pol = ca_pol a, cl_bors = ca_bors a,
      cl_maxhits = ca_maxhits a, cl_power_thresh = ca_power_thresh a, cl_smooth_scale = ca_smooth_scale a,
      cl_raw = map (ca_input a) [0..<n_ts], cl_convert = convert_real_8b_to_float,
      cl_fft = (\<lambda>xs. fft (Real_input xs)), cl_zero = (0, 0)\<rparr>"

definition channelized_call ::
  "site \<Rightarrow> nat \<Rightarrow> (fft_input \<Rightarrow> (real \<times> real) list) \<Rightarrow> call_args \<Rightarrow> (u8 \<times> u8, real \<times> real) spectroscopy_call" where
  "channelized_call s n_cc fft a =
     \<lparr>cl_site = s, cl_n_cc = n_cc, cl_n_fc = N_FINE_CHAN s, cl_n_ts = N_TIME_SAMPLES s, cl_n_pol = N_POLS_PER_BEAM s,
      cl_bors = ca_bors a, cl_maxhits = ca_maxhits a, cl_power_thresh = ca_power_thresh a, cl_smooth_scale = ca_smooth_scale a,
      cl_raw = map (\<lambda>i. (ca_input a (2 * i), ca_input a (2 * i + 1))) [0..<max_samples s],
      cl_convert = convert_complex_8b_to_float,
      cl_fft = (\<lambda>xs. fft (Complex_input xs)), cl_zero = ((0, 0), (0, 0))\<rparr>"

definition r2c :: "nat \<Rightarrow> nat \<Rightarrow> (fft_input \<Rightarrow> (real \<times> real) list) \<Rightarrow> bool" where
  "r2c n_ts n fft = (\<forall>xs. length xs = n_ts \<longrightarrow> length (fft (Real_input xs)) = n + 1)"

lemma fast_call_sizes:
  assumes "r2c n_ts (n_cc * n_fc) fft"
  shows "n_element (fast_call n_cc n_fc n_ts fft a) = n_cc * n_fc" "cl_n_ts (fast_call n_cc n_fc n_ts fft a) = n_ts"
    "length (cl_raw (fast_call n_cc n_fc n_ts fft a)) = n_ts"
    "length (spectra (fast_call n_cc n_fc n_ts fft a)) = n_cc * n_fc + 1"
  using assms by (simp_all add: fast_call_def n_element_def spectra_def r2c_def)

lemma fast_call_result:
  "fast_result (n_element (fast_call n_cc n_fc n_ts fft a)) (fast_call n_cc n_fc n_ts fft a) ob =
   spectroscopy_fast n_cc n_fc (ca_pol a) (ca_bors a) (ca_maxhits a) (ca_power_thresh a) (ca_smooth_scale a) fft n_ts (ca_input a) ob"
  by (subst fast_result_is_spectroscopy [of _ "ca_input a" n_ts fft]) (simp_all add: fast_call_def)

text \<open>C11: The REALLOC_NONE version keeps its device vectors from call to call; any sequence of
  calls still returns exactly what each call computes from its own input, and every call
  writes one element past the FFT output vector.\<close>
theorem kept_vectors_harmless:
  fixes cs :: "(call_args \<times> out_block) list" and ob0 :: out_block
  assumes "r2c n_ts (n_cc * n_fc) fft" "0 < n_cc * n_fc"
  defines "run \<equiv> none_calls (map (\<lambda>(a, ob). (fast_call n_cc n_fc n_ts fft a, ob)) cs) (fresh_device SOURCE_FAST ob0)"
  shows "fst run = map (\<lambda>(a, ob). spectroscopy_fast n_cc n_fc (ca_pol a) (ca_bors a) (ca_maxhits a) (ca_power_thresh a)
      (ca_smooth_scale a) fft n_ts (ca_input a) ob) cs
    \<and> d_faults (snd run) = replicate (length cs) (Overrun Fft_data_out)"
proof -
  have 1: "list_all (\<lambda>(cl, ob). n_element cl = n_cc * n_fc \<and> cl_n_ts cl = n_ts \<and> length (cl_raw cl) = n_ts
      \<and> length (spectra cl) = n_cc * n_fc + 1) (map (\<lambda>(a, ob). (fast_call n_cc n_fc n_ts fft a, ob)) cs)"
    by (induction cs) (auto simp: fast_call_sizes [OF assms(1)])
  have "kept (n_cc * n_fc) n_ts (d_vecs (fresh_device SOURCE_FAST ob0 :: (u8, real) device))"
    by (simp add: fresh_device_def init_kept)
  note R = none_calls_results [OF this assms(2) 1]
  have "fast_result (n_cc * n_fc) (fast_call n_cc n_fc n_ts fft a) ob =
      spectroscopy_fast n_cc n_fc (ca_pol a) (ca_bors a) (ca_maxhits a) (ca_power_thresh a) (ca_smooth_scale a) fft n_ts (ca_input a) ob" for a ob
    using fast_call_result [of n_cc n_fc n_ts fft a ob] by (simp add: fast_call_sizes(1) [OF assms(1)])
  then show ?thesis using R by (simp add: run_def split_beta comp_def fresh_device_def)
qed

lemma idle_fresh: "idle_vecs (d_vecs (fresh_device SOURCE_FAST ob))"
  by (simp add: idle_vecs_def fresh_device_def init_device_vectors_def)

lemma hits_only_fresh: "s \<noteq> SOURCE_FAST \<Longrightarrow> hits_only (d_vecs (fresh_device s ob))"
  by (simp add: fresh_device_def init_hits_only)

lemma full_power: "length (spectra cl) = n_element cl + 1 \<Longrightarrow>
    power_of (n_element cl + 1) cl = map compute_complex_power (take (n_element cl) (spectra cl))"
  by (simp add: power_of_def compute_power_spectrum_def fft_data_out_def butlast_conv_take)

text \<open>C23: The REALLOC_CUB version has no memory fault, computes every bin of the power spectrum,
  and leaves nothing allocated and the semaphore posted; REALLOC_STD leaves nothing either,
  but its FFT output vector is one element short.\<close>
theorem only_cub_has_room_for_fft:
  fixes a :: call_args
  assumes "r2c n_ts (n_cc * n_fc) fft" "idle_vecs (d_vecs d)"
  defines "cl \<equiv> fast_call n_cc n_fc n_ts fft a"
  shows "d_faults (exec cl (realloc_cub cl) d) = d_faults d
    \<and> (d_nhits (exec cl (realloc_cub cl) d), d_out (exec cl (realloc_cub cl) d)) =
        detect_hits SOURCE_FAST (n_cc * n_fc) n_fc (ca_pol a) (ca_bors a) (ca_maxhits a) (ca_power_thresh a) (ca_smooth_scale a)
          (map compute_complex_power (take (n_cc * n_fc) (spectra cl))) (d_out d)
    \<and> d_faults (exec cl (realloc_std cl) d) = d_faults d @ [Overrun Fft_data_out]
    \<and> live_bytes (d_vecs (exec cl (realloc_cub cl) d)) = 0 \<and> live_bytes (d_vecs (exec cl (realloc_std cl) d)) = 0
    \<and> \<not> d_sem_held (exec cl (realloc_cub cl) d) \<and> \<not> d_sem_held (exec cl (realloc_std cl) d)"
proof -
  note S = fast_call_sizes [OF assms(1), of a, folded cl_def]
  have "power_of (n_cc * n_fc + 1) cl = map compute_complex_power (take (n_cc * n_fc) (spectra cl))"
    using full_power [of cl] S by simp
  then have "fast_result (n_cc * n_fc + 1) cl (d_out d) = detect_hits SOURCE_FAST (n_cc * n_fc) n_fc (ca_pol a) (ca_bors a) (ca_maxhits a)
      (ca_power_thresh a) (ca_smooth_scale a) (map compute_complex_power (take (n_cc * n_fc) (spectra cl))) (d_out d)"
    using S(1) by (simp add: fast_result_def detection_def cl_def fast_call_def)
  then show ?thesis
    using reallocating_versions_clean [OF assms(2), of cl] S by (simp add: Let_def)
qed










text \<open>C12: Outside FAST, with all coarse channels in use, the sequence of allocations, kernels and
  deletions computes spectroscopy without a fault, and afterwards only the hit vectors are
  allocated.\<close>
theorem channelized_sites_compute_spectroscopy:
  fixes a :: call_args
  assumes "s \<noteq> SOURCE_FAST" "n_cc = N_COARSE_CHAN s div N_SUBSPECTRA_PER_SPECTRUM s" "hits_only (d_vecs d)"
    and "\<And>xs. length xs = max_samples s \<Longrightarrow> length (fft (Complex_input xs)) \<le> max_samples s"
  defines "cl \<equiv> channelized_call s n_cc fft a"
  defines "d' \<equiv> exec cl (channelized cl) d"
  shows "(d_nhits d', d_out d') = spectroscopy s n_cc (N_FINE_CHAN s) (N_POLS_PER_BEAM s) (ca_bors a) (ca_maxhits a)
      (ca_power_thresh a) (ca_smooth_scale a) fft (n_bytes_per_bors s) (ca_input a) (d_out d)
    \<and> d_faults d' = d_faults d \<and> \<not> d_sem_held d' \<and> hits_only (d_vecs d')"
proof -
  have "n_bytes_per_bors s div 2 = max_samples s"
    using assms(1) by (cases s) (simp_all add: max_samples_def N_BYTES_PER_BEAM_def N_BYTES_PER_SUBSPECTRUM_def)
  moreover have "n_element cl = max_samples s"
    using assms(1,2) by (simp add: n_element_def max_samples_def cl_def channelized_call_def)
  moreover have "length (spectra cl) \<le> max_samples s"
    using assms(4) by (simp add: spectra_def cl_def channelized_call_def)
  ultimately show ?thesis
    using channelized_is_spectroscopy [of d cl "ca_input a" "n_bytes_per_bors s" fft] assms(1,3)
    by (simp add: cl_def channelized_call_def d'_def)
qed

theorem vector_types:
  "list_all well_typed_op (realloc_cub cl) \<and> list_all well_typed_op (realloc_std cl) \<and> list_all well_typed_op (realloc_none cl)
   \<and> filter (Not \<circ> well_typed_op) (channelized cl) =
       [New Fft_data T_float2 (n_element cl), New Raw_timeseries T_char2 (max_samples (cl_site cl))]"
  by (simp add: fast_well_typed channelized_ill_typed)

theorem gpu_memory_need:
  fixes a :: call_args
  assumes "r2c (N_TIME_SAMPLES SOURCE_FAST) (N_FINE_CHAN SOURCE_FAST) fft" "ca_maxhits a \<le> MAXGPUHITS SOURCE_FAST"
  defines "cl \<equiv> fast_call 1 (N_FINE_CHAN SOURCE_FAST) (N_TIME_SAMPLES SOURCE_FAST) fft a"
  shows "peak cl (realloc_cub cl) (fresh_device SOURCE_FAST ob) < 3071 * 1024 * 1024
    \<and> 3071 * 1024 * 1024 < peak cl (realloc_none cl) (fresh_device SOURCE_FAST ob)"
proof -
  have "r2c (N_TIME_SAMPLES SOURCE_FAST) (1 * N_FINE_CHAN SOURCE_FAST) fft" using assms(1) by simp
  note S = fast_call_sizes [OF this, of a, folded cl_def]
  have m: "cl_maxhits cl = ca_maxhits a" by (simp add: cl_def fast_call_def)
  have "kept (n_element cl) (cl_n_ts cl) (d_vecs (fresh_device SOURCE_FAST ob :: (u8, real) device))"
    by (simp add: fresh_device_def init_kept)
  from peak_none [OF this] have "3071 * 1024 * 1024 < peak cl (realloc_none cl) (fresh_device SOURCE_FAST ob)"
    using S by simp
  moreover have "peak cl (realloc_cub cl) (fresh_device SOURCE_FAST ob) < 3071 * 1024 * 1024"
    using peak_cub [OF idle_fresh, of cl ob] S m assms(2) by (simp add: MAXGPUHITS_def max_def split: if_splits)
  ultimately show ?thesis by simp
qed

subsection \<open>Witnesses\<close>

definition demo_block :: out_block where
  "demo_block = \<lparr>ob_header = \<lparr>oh_mcnt = 0, oh_coarse_chan_id = 0, oh_num_coarse_chan = 0, oh_sid = 0, oh_time_sec = 0,
     oh_time_nsec = 0, oh_missed_pkts = [0], oh_nhits = [0]\<rparr>,
     ob_power = \<lambda>b i. 0, ob_baseline = \<lambda>b i. 0, ob_hit_indices = \<lambda>b i. 0, ob_pol = \<lambda>b i. 0, ob_coarse_chan = \<lambda>b i. 0,
     ob_fine_chan = \<lambda>b i. 0, ob_cc_pwrs_x = \<lambda>b i. 0, ob_cc_pwrs_y = \<lambda>b i. 0\<rparr>"

definition demo_args :: "nat \<Rightarrow> call_args" where
  "demo_args pol = \<lparr>ca_pol = pol, ca_bors = 0, ca_maxhits = 2, ca_power_thresh = 1, ca_smooth_scale = 1, ca_input = (\<lambda>i. of_nat i)\<rparr>"

definition demo_fft :: "nat \<Rightarrow> fft_input \<Rightarrow> (real \<times> real) list" where
  "demo_fft n x = replicate n (3, 4)"

lemma demo_r2c: "r2c m n (demo_fft (n + 1))"
  by (simp add: r2c_def demo_fft_def)

theorem kept_vectors_harmless_witness:
  "d_faults (snd (none_calls [(fast_call 1 4 8 (demo_fft 5) (demo_args 0), demo_block), (fast_call 1 4 8 (demo_fft 5) (demo_args 1), demo_block)]
     (fresh_device SOURCE_FAST demo_block))) = [Overrun Fft_data_out, Overrun Fft_data_out]"
  using kept_vectors_harmless [of 8 1 4 "demo_fft 5" "[(demo_args 0, demo_block), (demo_args 1, demo_block)]" demo_block]
    demo_r2c [of 8 4]
  by (simp add: numeral_2_eq_2)

theorem only_cub_has_room_for_fft_witness:
  "d_faults (exec (fast_call 1 4 8 (demo_fft 5) (demo_args 0)) (realloc_std (fast_call 1 4 8 (demo_fft 5) (demo_args 0)))
     (fresh_device SOURCE_FAST demo_block)) = [Overrun Fft_data_out] \<and>
   d_faults (exec (fast_call 1 4 8 (demo_fft 5) (demo_args 0)) (realloc_cub (fast_call 1 4 8 (demo_fft 5) (demo_args 0)))
     (fresh_device SOURCE_FAST demo_block)) = []"
  using only_cub_has_room_for_fft [of 8 1 4 "demo_fft 5" "fresh_device SOURCE_FAST demo_block" "demo_args 0", OF _ idle_fresh]
    demo_r2c [of 8 4]
  by (simp add: fresh_device_def)


theorem channelized_sites_compute_spectroscopy_witness:
  "d_faults (exec (channelized_call SOURCE_DIBAS 64 (demo_fft 1) (demo_args 0))
     (channelized (channelized_call SOURCE_DIBAS 64 (demo_fft 1) (demo_args 0))) (fresh_device SOURCE_DIBAS demo_block)) = []"
  using channelized_sites_compute_spectroscopy [of SOURCE_DIBAS 64 "fresh_device SOURCE_DIBAS demo_block" "demo_fft 1" "demo_args 0",
      OF _ _ hits_only_fresh]
  by (simp add: fresh_device_def demo_fft_def max_samples_def)

theorem gpu_memory_need_witness:
  "3071 * 1024 * 1024 < peak (fast_call 1 (N_FINE_CHAN SOURCE_FAST) (N_TIME_SAMPLES SOURCE_FAST) (demo_fft (N_FINE_CHAN SOURCE_FAST + 1)) (demo_args 0))
     (realloc_none (fast_call 1 (N_FINE_CHAN SOURCE_FAST) (N_TIME_SAMPLES SOURCE_FAST) (demo_fft (N_FINE_CHAN SOURCE_FAST + 1)) (demo_args 0)))
     (fresh_device SOURCE_FAST demo_block)"
proof -
  have "ca_maxhits (demo_args 0) \<le> MAXGPUHITS SOURCE_FAST" by (simp add: demo_args_def MAXGPUHITS_def)
  from gpu_memory_need [OF demo_r2c this] show ?thesis by blast
qed

end
