(* ===== verification/S6_Net.thy ===== *)
theory S6_Net
  imports S6_Pktsock_Props "HOL-Library.Signed_Division"
begin

text \<open>
  The UDP-socket network thread \<open>s6_net_thread.cpp\<close>, for the Arecibo packets (\<open>SOURCE_S6\<close>), and
  \<open>s6_net_null_thread.cpp\<close>, its version that only counts.  The state of \<open>process_packet\<close> is that of
  the packet-socket thread with the two statics this file adds.
\<close>

subsection \<open>State\<close>

record ('q, 's) net_thread = "('q, 's) net_state" +
  nt_missed_pkt_cnt :: u32
  nt_total_missed_pkts :: "u32 list"

text \<open>\<open>struct hashpipe_udp_packet\<close>: the packet is received 8 bytes into \<open>data\<close>.\<close>

record udp_packet =
  up_data :: store
  up_size :: int

definition nt_warn :: "net_warning \<Rightarrow> ('q, 's) net_thread \<Rightarrow> ('q, 's) net_thread" where
  "nt_warn w st = st\<lparr>n_warnings := n_warnings st @ [w]\<rparr>"

definition nt_Nm :: nat where "nt_Nm = N_FINE_CHAN SOURCE_S6"
definition nt_packets_per_block :: nat where "nt_packets_per_block = nt_Nm * N_BEAMS SOURCE_S6"
definition nt_max_out_of_seq :: int where "nt_max_out_of_seq = 2 * int (N_BEAMS SOURCE_S6)"
definition nt_late_threshold :: nat where "nt_late_threshold = 2 * nt_Nm * N_INPUT_BLOCKS SOURCE_S6"

abbreviation Nmt :: u64 where "Nmt \<equiv> of_nat nt_Nm"

definition nt_block_for_mcnt :: "u64 \<Rightarrow> nat" where
  "nt_block_for_mcnt mcnt = unat ((mcnt div Nmt) mod of_nat (N_INPUT_BLOCKS SOURCE_S6))"

text \<open>\<open>nchan\<close> is computed in \<open>ssize_t\<close>.\<close>

definition nt_get_header :: "udp_packet \<Rightarrow> packet_header" where
  "nt_get_header p =
     (let raw_header = load_be64 (\<lambda>i. up_data p (8 + i))
      in \<lparr>ph_mcnt = drop_bit 16 raw_header,
          ph_pchan = drop_bit 4 raw_header AND 0x0000000000000FFF,
          ph_nchan = of_int ((up_size p - 2 * 8) sdiv 4),
          ph_sid = raw_header AND 0x000000000000000F\<rparr>)"

subsection \<open>Blocks\<close>

definition missed_key :: "nat \<Rightarrow> string" where
  "missed_key i = ''MISSPER'' @ [''0123456'' ! i]"

definition nt_set_block_filled ::
  "'q hashpipe_ops \<Rightarrow> 's status_ops \<Rightarrow> ('q, 's) net_thread \<Rightarrow> ('q, 's) net_thread \<times> u64 option" where
  "nt_set_block_filled e so st =
     (let binfo = n_binfo st;
          block_i = nt_block_for_mcnt (bi_mcnt_start binfo);
          last_filled = (n_last_filled st + 1) mod int (N_INPUT_BLOCKS SOURCE_S6);
          st = st\<lparr>n_last_filled := last_filled\<rparr>;
          st = (if last_filled \<noteq> int block_i then nt_warn (Fill_order block_i last_filled) st else st);
          st = (if block_i \<noteq> bi_block_i binfo then nt_warn (Block_mismatch block_i (bi_block_i binfo)) st else st);
          (rv, sem) = s6_input_databuf_set_filled e (n_sem st) block_i;
          st = st\<lparr>n_sem := sem\<rparr>
      in if rv \<noteq> HASHPIPE_OK then (st, None)
         else
           (let block_missed_pkt_cnt = of_nat nt_packets_per_block - bi_block_packet_counter binfo ! block_i;
                missed_pkt_cnt = nt_missed_pkt_cnt st + block_missed_pkt_cnt;
                beam_missed_percent = map (\<lambda>i. real (unat (nt_total_missed_pkts st ! i)) / real (nt_packets_per_block div 7) * 100)
                  [0..<N_BEAMS SOURCE_S6];
                block_missed_percent = sum_list (map (\<lambda>p. p / 7) beam_missed_percent);
                buf = n_status st;
                buf = hput so buf ''NETBKOUT'' (U4 (of_nat block_i));
                buf = hput so buf ''MISSPKTL'' (U4 missed_pkt_cnt);
                buf = hput so buf ''MISSPER '' (R4 block_missed_percent);
                buf = fold (\<lambda>i buf. hput so buf (missed_key i) (R4 (beam_missed_percent ! i))) [0..<N_BEAMS SOURCE_S6] buf;
                buf = hput so buf ''SCHAN'' (I4 (ucast (bi_pchan binfo)));
                buf = hput so buf ''NCHAN'' (I4 (ucast (bi_nchan binfo)))
            in (st\<lparr>n_status := buf, nt_missed_pkt_cnt := missed_pkt_cnt\<rparr>, Some (bi_mcnt_start binfo))))"

definition nt_calc_block_indexes ::
  "packet_header \<Rightarrow> ('q, 's) net_thread \<Rightarrow> ('q, 's) net_thread \<times> bool" where
  "nt_calc_block_indexes h st =
     (if of_nat (N_BEAMS SOURCE_S6) \<le> ph_sid h then (nt_warn (Bad_sid (ph_sid h)) st, False)
      else
        (let b = n_binfo st;
             b = (if bi_nchan b = 0 then b\<lparr>bi_nchan := ph_nchan h, bi_pchan := ph_pchan h\<rparr> else b);
             st = st\<lparr>n_binfo := b\<rparr>;
             st = (if ph_pchan h \<noteq> bi_pchan b then nt_warn (Pchan_changed (ph_pchan h) (bi_pchan b)) st else st);
             st = (if ph_nchan h \<noteq> bi_nchan b then nt_warn (Nchan_changed (ph_nchan h) (bi_nchan b)) st else st)
         in (st, True)))"

text \<open>The loop runs to \<open>N_BEAM_SLOTS\<close>, one more than the array \<open>missed_pkts\<close> has elements; the write
  beyond it falls into the padding of the header.\<close>

definition nt_initialize_block :: "u64 \<Rightarrow> u64 \<Rightarrow> u64 \<Rightarrow> in_block list \<Rightarrow> in_block list" where
  "nt_initialize_block mcnt pchan nchan bs =
     (let block_i = nt_block_for_mcnt mcnt
      in set_header block_i
           (\<lambda>h. h\<lparr>ih_missed_pkts := take (N_BORS SOURCE_S6)
                    (map (\<lambda>i. if i < N_BEAMS SOURCE_S6 then Nmt else 0) [0..<N_BEAM_SLOTS SOURCE_S6]),
                  ih_mcnt := mcnt - (mcnt mod Nmt),
                  ih_coarse_chan_id := pchan,
                  ih_num_coarse_chan := nchan\<rparr>) bs)"

definition nt_initialize_block_info :: "block_info \<Rightarrow> block_info" where
  "nt_initialize_block_info binfo =
     (if bi_initialized binfo then binfo
      else \<lparr>bi_initialized = True, bi_pchan = 0, bi_nchan = 0, bi_mcnt_start = 0, bi_mcnt_log_late = Nmt,
            bi_out_of_seq_cnt = 0, bi_block_i = 0, bi_block_packet_counter = replicate (N_INPUT_BLOCKS SOURCE_S6) 0\<rparr>)"

subsection \<open>Packets\<close>

text \<open>\<open>s6_memcpy\<close> to byte \<open>off\<close> of the block's data.\<close>

definition s6_memcpy_at :: "store \<Rightarrow> nat \<Rightarrow> store \<Rightarrow> nat \<Rightarrow> store" where
  "s6_memcpy_at d off inp n_bytes =
     (\<lambda>a. if a < off then d a else s6_memcpy (\<lambda>k. d (off + k)) inp n_bytes (a - off))"

definition nt_dest :: "u64 \<Rightarrow> u64 \<Rightarrow> u64" where
  "nt_dest sid pkt_mcnt = (sid * Nmt + pkt_mcnt mod Nmt) * of_nat (N_COARSE_CHAN SOURCE_S6) * 4 div 8"

definition nt_copy_len :: "int \<Rightarrow> nat" where
  "nt_copy_len packet_size = unat (of_int (packet_size - 8 - 8) :: u64)"

definition nt_finish_block ::
  "'q hashpipe_ops \<Rightarrow> 's status_ops \<Rightarrow> packet_header \<Rightarrow> ('q, 's) net_thread \<Rightarrow> ('q, 's) net_thread \<times> u64 option" where
  "nt_finish_block e so h st =
     (let missed = ih_missed_pkts (ib_header (n_blocks st ! bi_block_i (n_binfo st)));
          total = map (\<lambda>i. if i < N_BEAMS SOURCE_S6 then ucast (missed ! i) else nt_total_missed_pkts st ! i)
                    [0..<length (nt_total_missed_pkts st)];
          st = st\<lparr>nt_total_missed_pkts := total\<rparr>
      in case nt_set_block_filled e so st of
           (st, None) \<Rightarrow> (st, None)
         | (st, Some netmcnt) \<Rightarrow>
             (let b = n_binfo st;
                  b = b\<lparr>bi_mcnt_start := bi_mcnt_start b + Nmt,
                        bi_block_i := (bi_block_i b + 1) mod N_INPUT_BLOCKS SOURCE_S6,
                        bi_pchan := 0,
                        bi_nchan := 0\<rparr>;
                  st = st\<lparr>n_binfo := b\<rparr>;
                  new_block_i = (bi_block_i b + 1) mod N_INPUT_BLOCKS SOURCE_S6;
                  (rv, sem) = s6_input_databuf_busywait_free e (n_sem st) new_block_i;
                  st = st\<lparr>n_sem := sem\<rparr>
              in if rv \<noteq> HASHPIPE_OK then (st, None)
                 else
                   (st\<lparr>n_blocks := nt_initialize_block (ph_mcnt h + Nmt) (ph_pchan h) (ph_nchan h) (n_blocks st),
                       n_binfo := b\<lparr>bi_block_packet_counter := (bi_block_packet_counter b)[new_block_i := 0]\<rparr>\<rparr>,
                    Some netmcnt)))"

definition nt_accept_packet ::
  "packet_header \<Rightarrow> udp_packet \<Rightarrow> u64 \<Rightarrow> ('q, 's) net_thread \<Rightarrow> ('q, 's) net_thread \<times> u64" where
  "nt_accept_packet h p netmcnt st =
     (let pkt_block_i = nt_block_for_mcnt (ph_mcnt h);
          b = n_binfo st;
          b = b\<lparr>bi_out_of_seq_cnt := 0\<rparr>;
          b = b\<lparr>bi_block_packet_counter :=
                  (bi_block_packet_counter b)[pkt_block_i := bi_block_packet_counter b ! pkt_block_i + 1]\<rparr>;
          st = st\<lparr>n_binfo := b\<rparr>;
          (st, ok) = nt_calc_block_indexes h st
      in if \<not> ok then (st, - 1)
         else
           (let k = unat (ph_sid h);
                bs = set_header pkt_block_i
                       (\<lambda>hd. hd\<lparr>ih_missed_pkts := (ih_missed_pkts hd)[k := ih_missed_pkts hd ! k - 1]\<rparr>)
                       (n_blocks st);
                bs = set_data pkt_block_i
                       (\<lambda>d. s6_memcpy_at d (8 * unat (nt_dest (ph_sid h) (ph_mcnt h))) (\<lambda>i. up_data p (8 + 8 + i))
                              (nt_copy_len (up_size p))) bs
            in (st\<lparr>n_blocks := bs\<rparr>, netmcnt)))"

definition nt_ignore_late :: "packet_header \<Rightarrow> ('q, 's) net_thread \<Rightarrow> ('q, 's) net_thread" where
  "nt_ignore_late h st =
     (let cur_mcnt = bi_mcnt_start (n_binfo st)
      in if bi_mcnt_log_late (n_binfo st) \<le> cur_mcnt then nt_warn (Late_packet (cur_mcnt - ph_mcnt h)) st else st)"

definition nt_reset_window :: "packet_header \<Rightarrow> ('q, 's) net_thread \<Rightarrow> ('q, 's) net_thread" where
  "nt_reset_window h st =
     (let b = n_binfo st;
          pkt_block_i = nt_block_for_mcnt (ph_mcnt h);
          pkt_mcnt =
            (if pkt_block_i < bi_block_i b then ph_mcnt h + Nmt * of_nat (bi_block_i b - pkt_block_i)
             else if bi_block_i b < pkt_block_i
             then ph_mcnt h + Nmt * of_nat (bi_block_i b + N_INPUT_BLOCKS SOURCE_S6 - pkt_block_i)
             else ph_mcnt h);
          mcnt_start = pkt_mcnt - (pkt_mcnt mod Nmt);
          block_i = nt_block_for_mcnt mcnt_start;
          b = b\<lparr>bi_mcnt_start := mcnt_start, bi_mcnt_log_late := mcnt_start + Nmt, bi_block_i := block_i,
                bi_pchan := 0, bi_nchan := 0\<rparr>;
          st = nt_warn (Resetting mcnt_start block_i pkt_mcnt) st;
          bs = nt_initialize_block mcnt_start (ph_pchan h) (ph_nchan h) (n_blocks st);
          bs = nt_initialize_block (mcnt_start + Nmt) (ph_pchan h) (ph_nchan h) bs;
          cs = bi_block_packet_counter b;
          cs = cs[block_i := 0];
          cs = cs[(block_i + 1) mod N_INPUT_BLOCKS SOURCE_S6 := 0]
      in st\<lparr>n_blocks := bs, n_binfo := b\<lparr>bi_block_packet_counter := cs\<rparr>\<rparr>)"

definition nt_out_of_seq :: "packet_header \<Rightarrow> ('q, 's) net_thread \<Rightarrow> ('q, 's) net_thread" where
  "nt_out_of_seq h st =
     (let st = (if bi_mcnt_start (n_binfo st) \<noteq> 0 then nt_warn (Out_of_seq (ph_mcnt h)) st else st);
          b = n_binfo st;
          b = b\<lparr>bi_out_of_seq_cnt := bi_out_of_seq_cnt b + 1\<rparr>;
          st = st\<lparr>n_binfo := b\<rparr>
      in if nt_max_out_of_seq < bi_out_of_seq_cnt b then nt_reset_window h st else st)"

definition nt_process_packet ::
  "'q hashpipe_ops \<Rightarrow> 's status_ops \<Rightarrow> udp_packet \<Rightarrow> ('q, 's) net_thread \<Rightarrow> ('q, 's) net_thread \<times> u64 option" where
  "nt_process_packet e so p st =
     (let st = st\<lparr>n_binfo := nt_initialize_block_info (n_binfo st)\<rparr>;
          h = nt_get_header p;
          pkt_mcnt = ph_mcnt h;
          cur_mcnt = bi_mcnt_start (n_binfo st);
          pkt_mcnt_dist = sint (pkt_mcnt - cur_mcnt)
      in if 0 \<le> pkt_mcnt_dist \<and> pkt_mcnt_dist < 2 * int nt_Nm
         then
           (case (if 3 * (int nt_Nm div 2) \<le> pkt_mcnt_dist then nt_finish_block e so h st else (st, Some (- 1))) of
              (st, None) \<Rightarrow> (st, None)
            | (st, Some netmcnt) \<Rightarrow> (let (st, rv) = nt_accept_packet h p netmcnt st in (st, Some rv)))
         else if pkt_mcnt_dist < 0 \<and> - int nt_late_threshold < pkt_mcnt_dist
         then (nt_ignore_late h st, Some (- 1))
         else (nt_out_of_seq h st, Some (- 1)))"

end
