(* ===== verification/S6_Net_Equiv.thy ===== *)
theory S6_Net_Equiv
  imports S6_Net
begin

text \<open>
  On packets of whole 32-byte words the UDP-socket thread handles the packets like the
  packet-socket thread does at Arecibo, time stamp and source ID of the block header apart.
\<close>

definition strip_hdr :: "in_hdr \<Rightarrow> in_hdr" where
  "strip_hdr h = h\<lparr>ih_sid := 0, ih_time_sec := 0, ih_time_nsec := 0\<rparr>"

definition strip :: "in_block \<Rightarrow> in_block" where
  "strip b = b\<lparr>ib_header := strip_hdr (ib_header b)\<rparr>"

definition related :: "('q, 's) net_state \<Rightarrow> ('q, 's) net_thread \<Rightarrow> bool" where
  "related st nt =
     (n_binfo nt = n_binfo st \<and> n_last_filled nt = n_last_filled st \<and> n_sem nt = n_sem st \<and>
      n_warnings nt = n_warnings st \<and> map strip (n_blocks nt) = map strip (n_blocks st))"

text \<open>The same packet as both sockets deliver it.\<close>

definition same_packet :: "frame \<Rightarrow> udp_packet \<Rightarrow> bool" where
  "same_packet f p = (udp_data f = (\<lambda>i. up_data p (8 + i)) \<and> int (udp_size f) = up_size p + 8)"

definition whole_words :: "udp_packet \<Rightarrow> bool" where
  "whole_words p = (16 \<le> up_size p \<and> up_size p < 2 ^ 31 \<and> 32 dvd up_size p - 16)"

lemma strip_eqD: "strip b = strip b' \<Longrightarrow> strip_hdr (ib_header b) = strip_hdr (ib_header b') \<and> ib_data b = ib_data b'"
  by (cases b; cases b') (simp add: strip_def)

lemma strip_hdr_eqD: "strip_hdr h = strip_hdr h' \<Longrightarrow> ih_missed_pkts h = ih_missed_pkts h' \<and> ih_mcnt h = ih_mcnt h'
    \<and> ih_coarse_chan_id h = ih_coarse_chan_id h' \<and> ih_num_coarse_chan h = ih_num_coarse_chan h'"
  by (cases h; cases h') (simp add: strip_hdr_def)

lemma strip_hdrI: "ih_missed_pkts h = ih_missed_pkts h' \<Longrightarrow> ih_mcnt h = ih_mcnt h' \<Longrightarrow> ih_coarse_chan_id h = ih_coarse_chan_id h'
    \<Longrightarrow> ih_num_coarse_chan h = ih_num_coarse_chan h' \<Longrightarrow> strip_hdr h = strip_hdr h'"
  by (cases h; cases h') (simp add: strip_hdr_def)

lemma strip_nth: "map strip bs = map strip bs' \<Longrightarrow> i < length bs \<Longrightarrow> strip (bs ! i) = strip (bs' ! i)"
  by (metis length_map nth_map)

lemma strip_update:
  assumes "map strip bs = map strip bs'" "i < length bs \<Longrightarrow> strip x = strip y"
  shows "map strip (bs[i := x]) = map strip (bs'[i := y])"
  using assms by (cases "i < length bs") (auto simp: map_update list_update_beyond dest: map_eq_imp_length_eq)

lemma strip_set_header:
  assumes "map strip bs = map strip bs'" "\<And>h h'. strip_hdr h = strip_hdr h' \<Longrightarrow> strip_hdr (f h) = strip_hdr (g h')"
  shows "map strip (set_header i f bs) = map strip (set_header i g bs')"
  unfolding set_header_def
proof (rule strip_update [OF assms(1)])
  assume "i < length bs"
  from strip_eqD [OF strip_nth [OF assms(1) this]] assms(2)
  show "strip ((bs ! i)\<lparr>ib_header := f (ib_header (bs ! i))\<rparr>) = strip ((bs' ! i)\<lparr>ib_header := g (ib_header (bs' ! i))\<rparr>)"
    by (simp add: strip_def)
qed

lemma strip_set_data:
  assumes "map strip bs = map strip bs'" "\<And>d. f d = g d"
  shows "map strip (set_data i f bs) = map strip (set_data i g bs')"
  unfolding set_data_def
proof (rule strip_update [OF assms(1)])
  assume "i < length bs"
  from strip_eqD [OF strip_nth [OF assms(1) this]] assms(2)
  show "strip ((bs ! i)\<lparr>ib_data := f (ib_data (bs ! i))\<rparr>) = strip ((bs' ! i)\<lparr>ib_data := g (ib_data (bs' ! i))\<rparr>)"
    by (simp add: strip_def)
qed

lemma strip_set_headerI:
  assumes "\<And>h. strip_hdr (f h) = strip_hdr h"
  shows "map strip (set_header i f bs) = map strip bs"
proof -
  have "strip ((bs ! i)\<lparr>ib_header := f (ib_header (bs ! i))\<rparr>) = strip (bs ! i)"
    by (simp add: strip_def assms)
  then show ?thesis by (simp add: set_header_def map_update) (simp add: list_update_id flip: map_update)
qed

lemma strip_time:
  "map strip (set_header i (\<lambda>hd. hd\<lparr>ih_time_sec := a, ih_time_nsec := b\<rparr>) bs) = map strip bs"
  by (rule strip_set_headerI) (simp add: strip_hdr_def)

lemma nt_consts:
  "nt_Nm = Nm SOURCE_S6" "nt_packets_per_block = N_PACKETS_PER_BLOCK SOURCE_S6" "nt_max_out_of_seq = MAX_OUT_OF_SEQ SOURCE_S6"
  "nt_late_threshold = LATE_PKT_MCNT_THRESHOLD SOURCE_S6" "nt_block_for_mcnt m = block_for_mcnt SOURCE_S6 m"
  "nt_dest i m = dest_s6 i m" "nt_initialize_block_info b = initialize_block_info SOURCE_S6 b"
  by (simp_all add: nt_Nm_def Nm_def nt_packets_per_block_def N_PACKETS_PER_BLOCK_def nt_max_out_of_seq_def MAX_OUT_OF_SEQ_def
      nt_late_threshold_def LATE_PKT_MCNT_THRESHOLD_def nt_block_for_mcnt_def block_for_mcnt_def nt_dest_def dest_s6_def
      nt_initialize_block_info_def initialize_block_info_def)

lemma relatedD:
  assumes "related st nt"
  shows "n_binfo nt = n_binfo st" "n_last_filled nt = n_last_filled st" "n_sem nt = n_sem st" "n_warnings nt = n_warnings st"
    "map strip (n_blocks nt) = map strip (n_blocks st)"
  using assms by (simp_all add: related_def)

lemma set_block_filled_related:
  assumes "related st nt"
  shows "related (fst (set_block_filled SOURCE_S6 e so st)) (fst (nt_set_block_filled e so' nt)) \<and>
    snd (set_block_filled SOURCE_S6 e so st) = snd (nt_set_block_filled e so' nt)"
  using relatedD [OF assms]
  by (simp add: set_block_filled_def nt_set_block_filled_def nt_consts Let_def split_beta related_def warn_def nt_warn_def)

lemma calc_block_indexes_related:
  assumes "related st nt"
  shows "related (fst (calc_block_indexes SOURCE_S6 h st)) (fst (nt_calc_block_indexes h nt)) \<and>
    snd (calc_block_indexes SOURCE_S6 h st) = snd (nt_calc_block_indexes h nt)"
  using relatedD [OF assms]
  by (simp add: calc_block_indexes_def nt_calc_block_indexes_def Let_def related_def warn_def nt_warn_def)

lemma initialize_block_related:
  assumes "map strip bs' = map strip bs"
  shows "map strip (nt_initialize_block mcnt pchan nchan bs') = map strip (initialize_block SOURCE_S6 mcnt pchan nchan sid bs)"
  unfolding nt_initialize_block_def initialize_block_def Let_def nt_consts
  by (rule strip_set_header [OF assms]) (rule strip_hdrI; simp add: upt_rec)

lemma s6_memcpy_at_eq: "s6_memcpy_at d off inp n = memcpy d off inp (32 * (n div 32))"
  by (auto simp: s6_memcpy_at_def s6_memcpy_def s6_memcpy_loop_eq memcpy_def fun_eq_iff)

lemma small_u64: "0 \<le> n \<Longrightarrow> n < 2 ^ 64 \<Longrightarrow> unat (of_int n :: u64) = nat n"
  by (simp add: unat_eq_nat_uint uint_word_of_int take_bit_int_eq_self)

lemma whole_wordsE:
  assumes "same_packet f p" "whole_words p"
  obtains n where "up_size p = int n + 16" "udp_size f = n + 24" "n < 2 ^ 31 - 16" "32 dvd n"
proof
  have "0 \<le> up_size p - 16" using assms(2) by (simp add: whole_words_def)
  then have n: "up_size p = int (nat (up_size p - 16)) + 16" by simp
  then show "up_size p = int (nat (up_size p - 16)) + 16" .
  show "udp_size f = nat (up_size p - 16) + 24" using n assms(1) unfolding same_packet_def by linarith
  show "nat (up_size p - 16) < 2 ^ 31 - 16" using assms(2) unfolding whole_words_def by (simp add: nat_less_iff)
  show "32 dvd nat (up_size p - 16)" using assms(2) n unfolding whole_words_def by (auto simp: nat_mult_distrib elim!: dvdE)
qed

lemma copy_lengths:
  assumes "same_packet f p" "whole_words p"
  shows "32 * (nt_copy_len (up_size p) div 32) = copy_len f (8 + 8 + 8)"
proof -
  obtain n where n: "up_size p = int n + 16" "udp_size f = n + 24" "n < 2 ^ 31 - 16" "32 dvd n"
    by (rule whole_wordsE [OF assms])
  then have "nt_copy_len (up_size p) = n" "copy_len f (8 + 8 + 8) = n"
    using small_u64 [of "int n"] by (simp_all add: nt_copy_len_def copy_len_def)
  then show ?thesis using n(4) by simp
qed

lemma headers_agree:
  assumes "same_packet f p" "whole_words p"
  shows "nt_get_header p = get_header SOURCE_S6 f"
proof -
  obtain n where n: "up_size p = int n + 16" "udp_size f = n + 24" "n < 2 ^ 31 - 16"
    by (rule whole_wordsE [OF assms])
  have us: "unat (of_nat n :: u32) = n" using n(3) by (simp add: unat_of_nat take_bit_nat_eq_self)
  then have "unat ((of_nat n :: u32) div 4) = n div 4" by (simp add: unat_div)
  then have "(ucast ((of_nat n :: u32) div 4) :: u64) = of_nat (n div 4)" by (metis of_nat_unat)
  then have 1: "header_nchan SOURCE_S6 (udp_size f) = of_nat (n div 4)"
    unfolding n(2) header_nchan_def by simp
  have "(up_size p - 2 * 8) sdiv 4 = int (n div 4)"
    by (cases "n = 0") (simp_all add: n(1) signed_divide_int_def zdiv_int)
  then have 2: "(of_int ((up_size p - 2 * 8) sdiv 4) :: u64) = of_nat (n div 4)" by simp
  show ?thesis using 1 2 assms(1) by (simp add: nt_get_header_def get_header_def same_packet_def)
qed

definition fb_rest where
  "fb_rest e h st netmcnt = (let b = n_binfo st;
                  b = b\<lparr>bi_mcnt_start := bi_mcnt_start b + Nmw SOURCE_S6,
                        bi_block_i := (bi_block_i b + 1) mod N_INPUT_BLOCKS SOURCE_S6,
                        bi_pchan := 0,
                        bi_nchan := 0\<rparr>;
                  st = st\<lparr>n_binfo := b\<rparr>;
                  new_block_i = (bi_block_i b + 1) mod N_INPUT_BLOCKS SOURCE_S6;
                  (rv, sem) = s6_input_databuf_busywait_free e (n_sem st) new_block_i;
                  st = st\<lparr>n_sem := sem\<rparr>
              in if rv \<noteq> HASHPIPE_OK then (st, None)
                 else
                   (st\<lparr>n_blocks := initialize_block SOURCE_S6 (ph_mcnt h + Nmw SOURCE_S6) (ph_pchan h) (ph_nchan h) (ph_sid h)
                                    (n_blocks st),
                       n_binfo := b\<lparr>bi_block_packet_counter :=
                                       (bi_block_packet_counter b)[new_block_i := 0]\<rparr>\<rparr>,
                    Some netmcnt))"

definition nfb_rest where
  "nfb_rest e h st netmcnt = (let b = n_binfo st;
                  b = b\<lparr>bi_mcnt_start := bi_mcnt_start b + Nmt,
                        bi_block_i := (bi_block_i b + 1) mod N_INPUT_BLOCKS SOURCE_S6,
                        bi_pchan := 0,
                        bi_nchan := 0\<rparr>;
                  st = st\<lparr>n_binfo := b\<rparr>;
                  new_block_i = (bi_block_i b + 1) mod N_INPUT_BLOCKS SOURCE_S6;
                  (rv, sem) = s6_input_databuf_busywait_free e (n_sem st) new_block_i;
                  st = st\<lparr>n_sem := sem\<rparr>
              in if rv \<noteq> HASHPIPE_OK then (st, None)
                 else
                   (st\<lparr>n_blocks := nt_initialize_block (ph_mcnt h + Nmt) (ph_pchan h) (ph_nchan h) (n_blocks st),
                       n_binfo := b\<lparr>bi_block_packet_counter := (bi_block_packet_counter b)[new_block_i := 0]\<rparr>\<rparr>,
                    Some netmcnt))"

lemma finish_block_related:
  assumes "related st nt"
  shows "related (fst (finish_block SOURCE_S6 e so now h st)) (fst (nt_finish_block e so' h nt)) \<and>
    snd (finish_block SOURCE_S6 e so now h st) = snd (nt_finish_block e so' h nt)"
proof -
  define st1 where "st1 = st\<lparr>n_blocks := set_header (bi_block_i (n_binfo st))
                    (\<lambda>hd. hd\<lparr>ih_time_sec := fst now, ih_time_nsec := snd now\<rparr>) (n_blocks st)\<rparr>"
  define nt1 where "nt1 = nt\<lparr>nt_total_missed_pkts := map (\<lambda>i. if i < N_BEAMS SOURCE_S6
       then ucast (ih_missed_pkts (ib_header (n_blocks nt ! bi_block_i (n_binfo nt))) ! i) else nt_total_missed_pkts nt ! i)
     [0..<length (nt_total_missed_pkts nt)]\<rparr>"
  have "map strip (n_blocks nt) = map strip (n_blocks st1)"
    unfolding st1_def by (simp add: strip_time relatedD(5) [OF assms])
  then have 1: "related st1 nt1"
    using assms by (simp add: related_def st1_def nt1_def)
  obtain st2 r where s: "set_block_filled SOURCE_S6 e so st1 = (st2, r)" by (rule prod.exhaust)
  obtain nt2 r' where n: "nt_set_block_filled e so' nt1 = (nt2, r')" by (rule prod.exhaust)
  have r: "r' = r" and 2: "related st2 nt2" using set_block_filled_related [OF 1, of e so so'] by (simp_all add: s n)
  note D = relatedD [OF 2]
  have F: "finish_block SOURCE_S6 e so now h st = (case (st2, r) of (st, None) \<Rightarrow> (st, None)
      | (st, Some m) \<Rightarrow> fb_rest e h st m)"
    unfolding finish_block_def fb_rest_def Let_def s [unfolded st1_def] ..
  have G: "nt_finish_block e so' h nt = (case (nt2, r') of (st, None) \<Rightarrow> (st, None)
      | (st, Some m) \<Rightarrow> nfb_rest e h st m)"
    unfolding nt_finish_block_def nfb_rest_def Let_def n [unfolded nt1_def] ..
  show ?thesis
  proof (cases r)
    case None
    with 2 r show ?thesis unfolding F G by simp
  next
    case (Some m)
    have "map strip (nt_initialize_block (ph_mcnt h + Nmw SOURCE_S6) (ph_pchan h) (ph_nchan h) (n_blocks nt2)) =
        map strip (initialize_block SOURCE_S6 (ph_mcnt h + Nmw SOURCE_S6) (ph_pchan h) (ph_nchan h) (ph_sid h) (n_blocks st2))"
      by (rule initialize_block_related [OF D(5)])
    then show ?thesis using Some r D unfolding F G by (simp add: fb_rest_def nfb_rest_def nt_consts split_beta related_def Let_def)
  qed
qed

lemma accept_packet_related:
  assumes "related st nt" "same_packet f p" "whole_words p"
  shows "related (fst (accept_packet SOURCE_S6 h f m st)) (fst (nt_accept_packet h p m nt)) \<and>
    snd (accept_packet SOURCE_S6 h f m st) = snd (nt_accept_packet h p m nt)"
proof -
  define upd where "upd b = b\<lparr>bi_out_of_seq_cnt := 0, bi_block_packet_counter :=
      (bi_block_packet_counter b)[block_for_mcnt SOURCE_S6 (ph_mcnt h) := bi_block_packet_counter b ! block_for_mcnt SOURCE_S6 (ph_mcnt h) + 1]\<rparr>"
    for b :: block_info
  have 1: "related (st\<lparr>n_binfo := upd (n_binfo st)\<rparr>) (nt\<lparr>n_binfo := upd (n_binfo nt)\<rparr>)"
    using assms(1) by (simp add: related_def)
  obtain st2 r where s: "calc_block_indexes SOURCE_S6 h (st\<lparr>n_binfo := upd (n_binfo st)\<rparr>) = (st2, r)" by (rule prod.exhaust)
  obtain nt2 r' where n: "nt_calc_block_indexes h (nt\<lparr>n_binfo := upd (n_binfo nt)\<rparr>) = (nt2, r')" by (rule prod.exhaust)
  have r: "r' = r" and 2: "related st2 nt2" using calc_block_indexes_related [OF 1, of h] by (simp_all add: s n)
  define hu where "hu = (\<lambda>hd :: in_hdr. hd\<lparr>ih_missed_pkts := (ih_missed_pkts hd)[unat (ph_sid h) := ih_missed_pkts hd ! unat (ph_sid h) - 1]\<rparr>)"
  have hu: "strip_hdr (hu a) = strip_hdr (hu b)" if "strip_hdr a = strip_hdr b" for a b
    using strip_hdr_eqD [OF that] by (intro strip_hdrI) (simp_all add: hu_def)
  have dest: "unat (dest_s6 (ph_sid h) (ph_mcnt h)) * 8 = 8 * unat (dest_s6 (ph_sid h) (ph_mcnt h))" by simp
  have copy: "s6_memcpy_at d (8 * unat (nt_dest (ph_sid h) (ph_mcnt h))) (\<lambda>i. up_data p (8 + 8 + i)) (nt_copy_len (up_size p)) =
      copy_payload SOURCE_S6 h f d" for d
    using assms(2) copy_lengths [OF assms(2,3)]
    by (simp add: s6_memcpy_at_eq nt_consts same_packet_def payload_def)
  have 3: "map strip (set_data i (\<lambda>d. s6_memcpy_at d (8 * unat (nt_dest (ph_sid h) (ph_mcnt h))) (\<lambda>i. up_data p (8 + 8 + i))
        (nt_copy_len (up_size p))) (set_header i hu (n_blocks nt2))) =
      map strip (set_data i (copy_payload SOURCE_S6 h f) (set_header i hu (n_blocks st2)))" for i
    by (intro strip_set_data strip_set_header relatedD(5) [OF 2] hu copy)
  have F: "accept_packet SOURCE_S6 h f m st = (if \<not> r then (st2, - 1) else
      (st2\<lparr>n_blocks := set_data (block_for_mcnt SOURCE_S6 (ph_mcnt h)) (copy_payload SOURCE_S6 h f)
         (set_header (block_for_mcnt SOURCE_S6 (ph_mcnt h)) hu (n_blocks st2))\<rparr>, m))"
    using s by (simp add: accept_packet_def Let_def upd_def hu_def)
  have G: "nt_accept_packet h p m nt = (if \<not> r' then (nt2, - 1) else
      (nt2\<lparr>n_blocks := set_data (block_for_mcnt SOURCE_S6 (ph_mcnt h)) (\<lambda>d. s6_memcpy_at d (8 * unat (nt_dest (ph_sid h) (ph_mcnt h))) (\<lambda>i. up_data p (8 + 8 + i))
        (nt_copy_len (up_size p)))
         (set_header (block_for_mcnt SOURCE_S6 (ph_mcnt h)) hu (n_blocks nt2))\<rparr>, m))"
    using n by (simp add: nt_accept_packet_def Let_def upd_def hu_def nt_consts(5))
  show ?thesis using relatedD [OF 2] 3 r 2 unfolding F G by (auto simp: related_def)
qed

lemma ignore_late_related:
  "related st nt \<Longrightarrow> related (ignore_late_packet h st) (nt_ignore_late h nt)"
  by (simp add: related_def ignore_late_packet_def nt_ignore_late_def warn_def nt_warn_def Let_def)

lemma reset_window_related:
  assumes "related st nt"
  shows "related (reset_window SOURCE_S6 h st) (nt_reset_window h nt)"
proof -
  note D = relatedD [OF assms]
  have B: "n_binfo (nt_warn w nt) = n_binfo st" "n_binfo (warn w st) = n_binfo st"
    "n_blocks (nt_warn w nt) = n_blocks nt" "n_blocks (warn w st) = n_blocks st" for w
    by (simp_all add: nt_warn_def warn_def D)
  show ?thesis unfolding related_def reset_window_def nt_reset_window_def Let_def reset_mcnt_def nt_consts D
    by (simp add: B D initialize_block_related warn_def nt_warn_def)
qed

lemma out_of_seq_related:
  assumes "related st nt"
  shows "related (out_of_seq_packet SOURCE_S6 h st) (nt_out_of_seq h nt)"
proof -
  define upd where "upd b = b\<lparr>bi_out_of_seq_cnt := bi_out_of_seq_cnt b + 1\<rparr>" for b :: block_info
  define st1 where "st1 = (if bi_mcnt_start (n_binfo st) \<noteq> 0 then warn (Out_of_seq (ph_mcnt h)) st else st)"
  define nt1 where "nt1 = (if bi_mcnt_start (n_binfo nt) \<noteq> 0 then nt_warn (Out_of_seq (ph_mcnt h)) nt else nt)"
  have "related (st1\<lparr>n_binfo := upd (n_binfo st1)\<rparr>) (nt1\<lparr>n_binfo := upd (n_binfo nt1)\<rparr>)"
    using assms by (simp add: related_def st1_def nt1_def warn_def nt_warn_def)
  from reset_window_related [OF this, of h] this
  have "related (if MAX_OUT_OF_SEQ SOURCE_S6 < bi_out_of_seq_cnt (upd (n_binfo st1))
        then reset_window SOURCE_S6 h (st1\<lparr>n_binfo := upd (n_binfo st1)\<rparr>) else st1\<lparr>n_binfo := upd (n_binfo st1)\<rparr>)
      (if MAX_OUT_OF_SEQ SOURCE_S6 < bi_out_of_seq_cnt (upd (n_binfo nt1))
        then nt_reset_window h (nt1\<lparr>n_binfo := upd (n_binfo nt1)\<rparr>) else nt1\<lparr>n_binfo := upd (n_binfo nt1)\<rparr>)"
    by (simp add: related_def)
  then show ?thesis
    unfolding out_of_seq_packet_def nt_out_of_seq_def Let_def st1_def nt1_def upd_def nt_consts(3) .
qed

lemma process_packet_related:
  assumes "related st nt" "same_packet f p" "whole_words p"
  shows "related (fst (process_packet SOURCE_S6 e so now f st)) (fst (nt_process_packet e so' p nt)) \<and>
    snd (process_packet SOURCE_S6 e so now f st) = snd (nt_process_packet e so' p nt)"
proof -
  define h where "h = get_header SOURCE_S6 f"
  have h: "nt_get_header p = h" using headers_agree [OF assms(2,3)] by (simp add: h_def)
  define st0 where "st0 = st\<lparr>n_binfo := initialize_block_info SOURCE_S6 (n_binfo st)\<rparr>"
  define nt0 where "nt0 = nt\<lparr>n_binfo := nt_initialize_block_info (n_binfo nt)\<rparr>"
  have 0: "related st0 nt0" using assms(1) by (simp add: related_def st0_def nt0_def nt_consts)
  define fin where "fin = (3 * (int (Nm SOURCE_S6) div 2) \<le> sint (ph_mcnt h - bi_mcnt_start (n_binfo st0)))"
  define x where "x = (if fin then finish_block SOURCE_S6 e so now h st0 else (st0, Some (- 1)))"
  define y where "y = (if fin then nt_finish_block e so' h nt0 else (nt0, Some (- 1)))"
  have xy: "related (fst x) (fst y)" "snd y = snd x"
    using finish_block_related [OF 0, of e so now h so'] 0 by (simp_all add: x_def y_def)
  have b: "n_binfo nt0 = n_binfo st0" by (rule relatedD(1) [OF 0])
  have F: "process_packet SOURCE_S6 e so now f st =
      (if 0 \<le> sint (ph_mcnt h - bi_mcnt_start (n_binfo st0)) \<and> sint (ph_mcnt h - bi_mcnt_start (n_binfo st0)) < 2 * int (Nm SOURCE_S6)
       then (case x of (st, None) \<Rightarrow> (st, None) | (st, Some m) \<Rightarrow> (let (st, rv) = accept_packet SOURCE_S6 h f m st in (st, Some rv)))
       else if sint (ph_mcnt h - bi_mcnt_start (n_binfo st0)) < 0 \<and> - int (LATE_PKT_MCNT_THRESHOLD SOURCE_S6) < sint (ph_mcnt h - bi_mcnt_start (n_binfo st0))
       then (ignore_late_packet h st0, Some (- 1)) else (out_of_seq_packet SOURCE_S6 h st0, Some (- 1)))"
    unfolding process_packet_def Let_def st0_def [symmetric] h_def [symmetric] fin_def [symmetric] x_def [symmetric] ..
  have G: "nt_process_packet e so' p nt =
      (if 0 \<le> sint (ph_mcnt h - bi_mcnt_start (n_binfo st0)) \<and> sint (ph_mcnt h - bi_mcnt_start (n_binfo st0)) < 2 * int (Nm SOURCE_S6)
       then (case y of (nt, None) \<Rightarrow> (nt, None) | (nt, Some m) \<Rightarrow> (let (nt, rv) = nt_accept_packet h p m nt in (nt, Some rv)))
       else if sint (ph_mcnt h - bi_mcnt_start (n_binfo st0)) < 0 \<and> - int (LATE_PKT_MCNT_THRESHOLD SOURCE_S6) < sint (ph_mcnt h - bi_mcnt_start (n_binfo st0))
       then (nt_ignore_late h nt0, Some (- 1)) else (nt_out_of_seq h nt0, Some (- 1)))"
    unfolding nt_process_packet_def Let_def nt0_def [symmetric] h b nt_consts(1,4) fin_def [symmetric] y_def [symmetric] ..
  obtain st1 r where x: "x = (st1, r)" by (rule prod.exhaust)
  obtain nt1 where y: "y = (nt1, r)" using xy(2) x by (cases y) simp
  have 1: "related st1 nt1" using xy(1) by (simp add: x y)
  have acc: "related (fst (accept_packet SOURCE_S6 h f m st1)) (fst (nt_accept_packet h p m nt1))"
    "snd (accept_packet SOURCE_S6 h f m st1) = snd (nt_accept_packet h p m nt1)" for m
    using accept_packet_related [OF 1 assms(2,3)] by simp_all
  show ?thesis unfolding F G x y
    using 1 acc ignore_late_related [OF 0, of h] out_of_seq_related [OF 0, of h]
    by (simp add: split_beta split: option.splits)
qed

end
