(* ===== verification/S6_Net_Run.thy ===== *)
theory S6_Net_Run
  imports S6_Net
begin

text \<open>
  \<open>run\<close> of \<open>s6_net_thread.cpp\<close>: hold-off, start-up, the write benchmark and the main loop over
  vectors of packets received with \<open>recvmmsg\<close>, with its in-memory log.  Sockets, clocks and
  \<open>hdel\<close> of the status buffer are inputs.  The timing of status updates is not modelled: its
  only reader is compiled out.
\<close>

subsection \<open>The in-memory log\<close>

record log_state =
  lg_text :: string
  lg_lines :: nat
  lg_written :: "string list"

definition log_capacity :: nat where "log_capacity = 1024 * 1024 * 1024"
definition log_limit :: nat where "log_limit = log_capacity * 9 div 10"

text \<open>\<open>%05d\<close> and \<open>%5lu\<close>.\<close>

definition pad5 :: "char \<Rightarrow> nat \<Rightarrow> string" where
  "pad5 c n = replicate (5 - length (digits n)) c @ digits n"

definition logger :: "string \<Rightarrow> int \<Rightarrow> log_state \<Rightarrow> log_state \<times> int" where
  "logger log_message line_limit lg =
     (let num_lines = lg_lines lg + 1;
          txt = lg_text lg @ pad5 (CHR ''0'') num_lines @ ''  '' @ log_message @ ''\<newline>''
      in if line_limit \<le> int num_lines \<or> log_limit \<le> length txt
         then (\<lparr>lg_text = [], lg_lines = 0, lg_written = lg_written lg @ [txt]\<rparr>, line_limit)
         else (lg\<lparr>lg_text := txt, lg_lines := num_lines\<rparr>, int num_lines))"

subsection \<open>Start-up\<close>

text \<open>The hold-off loop: \<open>bufs k\<close> is the status buffer as the \<open>k\<close>-th look at it finds it, which
  another process changes.  The result is the number of looks and the buffer left behind.\<close>

partial_function (option) nt_holdoff ::
  "'s status_ops \<Rightarrow> ('s \<Rightarrow> string \<Rightarrow> 's) \<Rightarrow> (nat \<Rightarrow> 's) \<Rightarrow> nat \<Rightarrow> int \<Rightarrow> (nat \<times> 's) option" where
  "nt_holdoff so hdel bufs k holdoff =
     (let holdoff = (case hgeti4 so (bufs k) ''NETHOLD'' of Some v \<Rightarrow> v | None \<Rightarrow> holdoff)
      in if holdoff = 0 then Some (k, hdel (bufs k) ''NETHOLD'')
         else nt_holdoff so hdel bufs (k + 1) holdoff)"

definition nt_force_holdoff :: "'s status_ops \<Rightarrow> ('s \<Rightarrow> string \<Rightarrow> 's) \<Rightarrow> 's \<Rightarrow> 's" where
  "nt_force_holdoff so hdel buf = hdel (hdel (hput so buf ''NETHOLD'' (I4 1)) ''NETPKTS'') ''NETDROPS''"

definition up_packet_size :: int where
  "up_packet_size = int (8 + N_COARSE_CHAN SOURCE_S6 * 4 + 8)"

definition nt_put_params :: "'s status_ops \<Rightarrow> string \<Rightarrow> 's \<Rightarrow> 's" where
  "nt_put_params so status_key buf =
     (let bindhost = (case hgets so buf ''BINDHOST'' of Some v \<Rightarrow> v | None \<Rightarrow> ''0.0.0.0'');
          bindport = (case hgeti4 so buf ''BINDPORT'' of Some v \<Rightarrow> v | None \<Rightarrow> 21302);
          buf = fold (\<lambda>i buf. hput so buf (missed_key i) (R4 0)) [0..<N_BEAMS SOURCE_S6] buf;
          buf = hput so buf ''BINDHOST'' (Str bindhost);
          buf = hput so buf ''BINDPORT'' (I4 (of_int bindport));
          buf = hput so buf status_key (Str ''running'')
      in hput so buf ''NETLOGLN'' (I4 0))"

text \<open>The benchmark writes the packet to every slot of every block, held or not.\<close>

definition nt_bench_block :: "udp_packet \<Rightarrow> store \<Rightarrow> store" where
  "nt_bench_block p d =
     fold (\<lambda>(sid, mcnt) d. s6_memcpy_at d (8 * unat (nt_dest sid mcnt)) (\<lambda>i. up_data p (8 + 8 + i)) (nt_copy_len (up_size p)))
       (List.product (map of_nat [0..<N_BEAMS SOURCE_S6]) (map of_nat [0..<N_FINE_CHAN SOURCE_S6])) d"

definition s6_memcpy_benchmark :: "in_block list \<Rightarrow> udp_packet \<Rightarrow> in_block list \<times> udp_packet" where
  "s6_memcpy_benchmark bs p =
     (let p = p\<lparr>up_size := int (N_COARSE_CHAN SOURCE_S6 * 2 * 2 + 16)\<rparr>
      in (fold (\<lambda>_ bs. fold (\<lambda>i bs. set_data i (nt_bench_block p) bs) [0..<N_INPUT_BLOCKS SOURCE_S6] bs) [0..<10] bs, p))"

record nt_stats =
  nst_packet_count :: u64
  nst_elapsed :: "u64 \<times> u64 \<times> u64"
  nst_min :: "u64 \<times> u64 \<times> u64"
  nst_max :: "u64 \<times> u64 \<times> u64"

definition nt_stats_init :: nt_stats where
  "nt_stats_init = \<lparr>nst_packet_count = 0, nst_elapsed = (0, 0, 0), nst_min = (99999, 99999, 99999), nst_max = (0, 0, 0)\<rparr>"

record ('q, 's) nt_run =
  nr_net :: "('q, 's) net_thread"
  nr_stats :: nt_stats
  nr_p :: udp_packet
  nr_bufs :: "udp_packet list"
  nr_log_lines :: int
  nr_first_log_line :: bool
  nr_runtime_start :: timespec
  nr_log :: log_state

text \<open>From the socket to the main loop; \<open>init_ok\<close> is the outcome of \<open>hashpipe_udp_init\<close>.\<close>

definition nt_begin ::
  "'q hashpipe_ops \<Rightarrow> 's status_ops \<Rightarrow> string \<Rightarrow> bool \<Rightarrow> ('q, 's) nt_run \<Rightarrow> ('q, 's) nt_run step_result" where
  "nt_begin e so status_key init_ok rs =
     (let st = nr_net rs;
          st = st\<lparr>n_status := nt_put_params so status_key (n_status st)\<rparr>;
          rs = rs\<lparr>nr_net := st\<rparr>
      in if \<not> init_ok then Exited rs
         else
           (let (rv, sem) = s6_input_databuf_busywait_free e (n_sem st) 0;
                st = st\<lparr>n_sem := sem\<rparr>
            in if rv \<noteq> HASHPIPE_OK then Exited (rs\<lparr>nr_net := st\<rparr>)
               else
                 (let (rv, sem) = s6_input_databuf_busywait_free e (n_sem st) 1;
                      st = st\<lparr>n_sem := sem\<rparr>
                  in if rv \<noteq> HASHPIPE_OK then Exited (rs\<lparr>nr_net := st\<rparr>)
                     else
                       (let bs = nt_initialize_block Nmt 0 0 (nt_initialize_block 0 0 0 (n_blocks st));
                            (bs, p) = s6_memcpy_benchmark bs (nr_p rs)
                        in Continue (rs\<lparr>nr_net := st\<lparr>n_blocks := bs\<rparr>, nr_p := p\<rparr>)))))"

subsection \<open>The main loop\<close>

datatype recv_result = Received "u8 list list" | Would_block | Recv_error

text \<open>What one iteration obtains: the attempts to receive, each with the clock before and after
  it and whether the threads were still to run, whether they are after the last one, and the
  later readings of the clock.\<close>

record nv_event =
  nv_recv_start :: timespec
  nv_attempts :: "(recv_result \<times> timespec \<times> timespec \<times> bool) list"
  nv_running :: bool
  nv_stop :: timespec
  nv_runtime_now :: timespec
  nv_log_now :: timespec

fun nt_receive ::
  "(recv_result \<times> timespec \<times> timespec \<times> bool) list \<Rightarrow> int \<Rightarrow> (int \<times> recv_result \<times> timespec \<times> timespec) option" where
  "nt_receive [] wait_loop_cnt = None"
| "nt_receive ((r, start, stop, running) # as) wait_loop_cnt =
     (if r = Would_block \<and> running then nt_receive as (wait_loop_cnt + 1)
      else Some (wait_loop_cnt, r, start, stop))"

text \<open>A message lands 8 bytes into its buffer; its length is the packet size.\<close>

definition nt_fill_buf :: "u8 list \<Rightarrow> udp_packet \<Rightarrow> udp_packet" where
  "nt_fill_buf msg p =
     \<lparr>up_data = (\<lambda>a. if 8 \<le> a \<and> a < 8 + length msg then msg ! (a - 8) else up_data p a), up_size = int (length msg)\<rparr>"

definition nt_fill_bufs :: "u8 list list \<Rightarrow> udp_packet list \<Rightarrow> udp_packet list" where
  "nt_fill_bufs msgs bufs = map2 nt_fill_buf msgs bufs @ drop (length msgs) bufs"

fun nt_process_vector ::
  "'q hashpipe_ops \<Rightarrow> 's status_ops \<Rightarrow> udp_packet list \<Rightarrow> u64 \<Rightarrow> ('q, 's) net_thread \<Rightarrow> ('q, 's) net_thread \<times> u64 option" where
  "nt_process_vector e so [] mcnt st = (st, Some mcnt)"
| "nt_process_vector e so (p # ps) mcnt st =
     (case nt_process_packet e so p st of
        (st, None) \<Rightarrow> (st, None)
      | (st, Some this_mcnt) \<Rightarrow> nt_process_vector e so ps (if this_mcnt \<noteq> - 1 then this_mcnt else mcnt) st)"

definition nt_vector_stats :: "u64 \<Rightarrow> u64 \<Rightarrow> u64 \<Rightarrow> nt_stats \<Rightarrow> nt_stats" where
  "nt_vector_stats wait_ns recv_ns proc_ns ns =
     (case (nst_elapsed ns, nst_min ns, nst_max ns) of
        ((ew, er, ep), (iw, ir, ip), (aw, ar, ap)) \<Rightarrow>
          ns\<lparr>nst_elapsed := (ew + wait_ns, er + recv_ns, ep + proc_ns),
             nst_min := (min wait_ns iw, min recv_ns ir, min proc_ns ip),
             nst_max := (max wait_ns aw, max recv_ns ar, max proc_ns ap)\<rparr>)"

definition nt_log_message :: "int \<Rightarrow> int \<Rightarrow> u64 \<Rightarrow> u64 \<Rightarrow> u64 \<Rightarrow> u64 \<Rightarrow> packet_header \<Rightarrow> string" where
  "nt_log_message wait_loop_cnt recv_cnt wait_ns recv_ns proc_ns runtime_ns h =
     (let lu5 = (\<lambda>n :: u64. pad5 (CHR '' '') (unat n));
          d = (\<lambda>n. show_int (sint (of_int n :: u32)));
          c = of_int recv_cnt
      in ''# waits '' @ d wait_loop_cnt @ '' recv_cnt '' @ d recv_cnt @ '' wait ns '' @ lu5 wait_ns @
         '' recv ns '' @ lu5 (recv_ns div c) @ '' proc ns '' @ lu5 (proc_ns div c) @
         '' sum ns '' @ lu5 (wait_ns + recv_ns div c + proc_ns div c) @ '' runtime ns '' @ lu5 (runtime_ns div c) @
         '' mcnt '' @ digits (unat (ph_mcnt h)) @ '' sid '' @ digits (unat (ph_sid h)))"

definition nt_log_step ::
  "'s status_ops \<Rightarrow> nv_event \<Rightarrow> int \<Rightarrow> int \<Rightarrow> u64 \<Rightarrow> u64 \<Rightarrow> u64 \<Rightarrow> ('q, 's) nt_run \<Rightarrow> ('q, 's) nt_run" where
  "nt_log_step so ev wait_loop_cnt recv_cnt wait_ns recv_ns proc_ns rs =
     (if nr_log_lines rs = 0 then rs
      else
        (let runtime_ns = (if nr_first_log_line rs then 0 else ELAPSED_NS (nr_runtime_start rs) (nv_runtime_now ev));
             rs = rs\<lparr>nr_first_log_line := False\<rparr>;
             msg = nt_log_message wait_loop_cnt recv_cnt wait_ns recv_ns proc_ns runtime_ns (nt_get_header (nr_bufs rs ! 0));
             (lg, n) = logger msg (nr_log_lines rs) (nr_log rs);
             rs = rs\<lparr>nr_log := lg\<rparr>;
             rs = (if n = nr_log_lines rs
                   then rs\<lparr>nr_log_lines := 0, nr_first_log_line := True,
                           nr_net := (nr_net rs)\<lparr>n_status := hput so (n_status (nr_net rs)) ''NETLOGLN'' (I4 0)\<rparr>\<rparr>
                   else rs)
         in rs\<lparr>nr_runtime_start := nv_log_now ev\<rparr>))"

definition nt_block_stats :: "'s status_ops \<Rightarrow> u64 \<Rightarrow> int \<Rightarrow> nt_stats \<Rightarrow> 's \<Rightarrow> 's" where
  "nt_block_stats so mcnt packet_size ns buf =
     (case (nst_elapsed ns, nst_min ns, nst_max ns) of
        ((ew, er, ep), (iw, ir, ip), (aw, ar, ap)) \<Rightarrow>
          (let ns_per_wait = avg_ns ew (nst_packet_count ns);
               ns_per_recv = avg_ns er (nst_packet_count ns);
               ns_per_proc = avg_ns ep (nst_packet_count ns);
               buf = hput so buf ''NETMCNT'' (U8 mcnt);
               buf = hput so buf ''NETGBPS'' (R4 (of_int (8 * packet_size) / (ns_per_recv + ns_per_proc)));
               buf = hput so buf ''NETWATNS'' (R4 ns_per_wait);
               buf = hput so buf ''NETRECNS'' (R4 ns_per_recv);
               buf = hput so buf ''NETPRCNS'' (R4 ns_per_proc);
               buf = hput so buf ''NETWATMN'' (I8 iw);
               buf = hput so buf ''NETRECMN'' (I8 ir);
               buf = hput so buf ''NETPRCMN'' (I8 ip);
               buf = hput so buf ''NETWATMX'' (I8 aw);
               buf = hput so buf ''NETRECMX'' (I8 ar)
           in hput so buf ''NETPRCMX'' (I8 ap)))"

text \<open>The size that is checked is that of \<open>p\<close>, into which nothing is received.\<close>

definition nt_size_ok :: "udp_packet \<Rightarrow> bool" where
  "nt_size_ok p = (\<not> (up_size p < 16 \<or> up_packet_size < up_size p \<or> up_size p mod 8 \<noteq> 0))"

definition nt_step ::
  "'q hashpipe_ops \<Rightarrow> 's status_ops \<Rightarrow> nv_event \<Rightarrow> ('q, 's) nt_run \<Rightarrow> ('q, 's) nt_run step_result" where
  "nt_step e so ev rs =
     (case nt_receive (nv_attempts ev) 0 of
        None \<Rightarrow> Continue rs
      | Some (wait_loop_cnt, r, start, recv_stop) \<Rightarrow>
          if \<not> nv_running ev then Break rs
          else if \<not> nt_size_ok (nr_p rs) then (if up_size (nr_p rs) = - 1 then Exited rs else Continue rs)
          else
            (let ns = (nr_stats rs)\<lparr>nst_packet_count := nst_packet_count (nr_stats rs) + 1\<rparr>;
                 msgs = (case r of Received msgs \<Rightarrow> msgs | _ \<Rightarrow> []);
                 recv_cnt = (case r of Received msgs \<Rightarrow> int (length msgs) | _ \<Rightarrow> - 1);
                 bufs = nt_fill_bufs msgs (nr_bufs rs);
                 rs = rs\<lparr>nr_stats := ns, nr_bufs := bufs\<rparr>
             in case nt_process_vector e so (take (length msgs) bufs) (- 1) (nr_net rs) of
                  (st, None) \<Rightarrow> Exited (rs\<lparr>nr_net := st\<rparr>)
                | (st, Some mcnt) \<Rightarrow>
                    (let wait_ns = ELAPSED_NS (nv_recv_start ev) start;
                         recv_ns = ELAPSED_NS start recv_stop;
                         proc_ns = ELAPSED_NS recv_stop (nv_stop ev);
                         rs = rs\<lparr>nr_net := st, nr_stats := nt_vector_stats wait_ns recv_ns proc_ns ns\<rparr>;
                         rs = nt_log_step so ev wait_loop_cnt recv_cnt wait_ns recv_ns proc_ns rs
                     in if mcnt \<noteq> - 1
                        then
                          (let st = nr_net rs;
                               buf = nt_block_stats so mcnt (up_size (nr_p rs)) (nr_stats rs) (n_status st);
                               lines = (case hgeti4 so buf ''NETLOGLN'' of Some v \<Rightarrow> v | None \<Rightarrow> nr_log_lines rs)
                           in Continue (rs\<lparr>nr_net := st\<lparr>n_status := buf\<rparr>, nr_log_lines := lines, nr_stats := nt_stats_init\<rparr>))
                        else Continue rs)))"

fun nt_loop ::
  "'q hashpipe_ops \<Rightarrow> 's status_ops \<Rightarrow> nv_event list \<Rightarrow> ('q, 's) nt_run \<Rightarrow> ('q, 's) nt_run step_result" where
  "nt_loop e so [] rs = Continue rs"
| "nt_loop e so (ev # evs) rs =
     (case nt_step e so ev rs of
        Continue rs \<Rightarrow> nt_loop e so evs rs
      | Break rs \<Rightarrow> Break rs
      | Exited rs \<Rightarrow> Exited rs)"

definition nt_main ::
  "'q hashpipe_ops \<Rightarrow> 's status_ops \<Rightarrow> string \<Rightarrow> bool \<Rightarrow> nv_event list \<Rightarrow> ('q, 's) nt_run \<Rightarrow> ('q, 's) nt_run step_result" where
  "nt_main e so status_key init_ok evs rs =
     (case nt_begin e so status_key init_ok rs of
        Continue rs \<Rightarrow> nt_loop e so evs rs
      | Break rs \<Rightarrow> Break rs
      | Exited rs \<Rightarrow> Exited rs)"

text \<open>\<open>env\<close>: what other processes make of the status buffer while the thread is held off.\<close>

definition net_thread_run ::
  "'q hashpipe_ops \<Rightarrow> 's status_ops \<Rightarrow> ('s \<Rightarrow> string \<Rightarrow> 's) \<Rightarrow> ('s \<Rightarrow> nat \<Rightarrow> 's) \<Rightarrow> string \<Rightarrow> bool \<Rightarrow> nv_event list \<Rightarrow>
   ('q, 's) nt_run \<Rightarrow> ('q, 's) nt_run step_result option" where
  "net_thread_run e so hdel env status_key init_ok evs rs =
     (case nt_holdoff so hdel (env (nt_force_holdoff so hdel (n_status (nr_net rs)))) 0 1 of
        None \<Rightarrow> None
      | Some (_, buf) \<Rightarrow> Some (nt_main e so status_key init_ok evs (rs\<lparr>nr_net := (nr_net rs)\<lparr>n_status := buf\<rparr>\<rparr>)))"

end
