(* ===== verification/S6_Net_Props.thy ===== *)
theory S6_Net_Props
  imports S6_Net_Equiv S6_Net_Run
begin

text \<open>
  Properties of the UDP-socket network thread: it handles packets as the packet-socket thread does,
  its hold-off, its log, and the sizes it does not check.
\<close>

subsection \<open>Vectors of packets\<close>

fun process_each ::
  "'q hashpipe_ops \<Rightarrow> 's status_ops \<Rightarrow> ((u64 \<times> u64) \<times> frame) list \<Rightarrow> u64 \<Rightarrow> ('q, 's) net_state \<Rightarrow> ('q, 's) net_state \<times> u64 option" where
  "process_each e so [] mcnt st = (st, Some mcnt)"
| "process_each e so ((now, f) # fs) mcnt st =
     (case process_packet SOURCE_S6 e so now f st of
        (st, None) \<Rightarrow> (st, None)
      | (st, Some m) \<Rightarrow> process_each e so fs (if m \<noteq> - 1 then m else mcnt) st)"

lemma process_vector_related:
  assumes "list_all2 (\<lambda>(now, f) p. same_packet f p \<and> whole_words p) fs ps" "related st nt"
  shows "related (fst (process_each e so fs m st)) (fst (nt_process_vector e so' ps m nt)) \<and>
    snd (process_each e so fs m st) = snd (nt_process_vector e so' ps m nt)"
  using assms
proof (induction fs ps arbitrary: st nt m rule: list_all2_induct)
  case Nil
  then show ?case by simp
next
  case (Cons x fs p ps)
  obtain now f where x: "x = (now, f)" by (rule prod.exhaust)
  have 1: "related (fst (process_packet SOURCE_S6 e so now f st)) (fst (nt_process_packet e so' p nt))"
    "snd (process_packet SOURCE_S6 e so now f st) = snd (nt_process_packet e so' p nt)"
    using process_packet_related [OF Cons.prems] Cons.hyps(1) by (simp_all add: x)
  show ?case using 1 Cons.IH [OF 1(1)]
    by (auto simp: x split_beta split: option.splits)
qed

text \<open>C16: On packets of whole 32-byte words, the UDP-socket thread takes the same decisions, the
  same semaphore calls and warnings, and leaves the same data and headers (time stamp and
  source ID of the block apart) as the packet-socket thread does at Arecibo, for any vector of
  packets.\<close>
theorem udp_thread_handles_packets_alike:
  assumes "related st nt" "list_all2 (\<lambda>(now, f) p. same_packet f p \<and> whole_words p) fs ps"
    and "process_each e so fs m st = (st', r)" "nt_process_vector e so' ps m nt = (nt', r')"
  shows "r' = r \<and> related st' nt'"
  using process_vector_related [OF assms(2,1), of e so m so'] assms(3,4) by simp

definition demo_packet :: "u8 \<Rightarrow> udp_packet" where
  "demo_packet b = \<lparr>up_data = (\<lambda>_. b), up_size = 16 + 32\<rparr>"

definition demo_frame :: "u8 \<Rightarrow> frame" where
  "demo_frame b = \<lparr>udp_data = (\<lambda>_. b), udp_size = 24 + 32\<rparr>"

definition demo_thread :: "(ring_call list, (string \<times> stval) list) net_thread" where
  "demo_thread = net_state.extend (demo_state SOURCE_S6) \<lparr>nt_missed_pkt_cnt = 0, nt_total_missed_pkts = replicate 8 0\<rparr>"

lemma related_demo: "related (demo_state SOURCE_S6) demo_thread"
  by (simp add: related_def demo_thread_def net_state.defs)

lemma demo_same_packet: "same_packet (demo_frame b) (demo_packet b) \<and> whole_words (demo_packet b)"
  by (simp add: same_packet_def whole_words_def demo_frame_def demo_packet_def)

theorem udp_thread_handles_packets_alike_witness:
  "snd (nt_process_vector recorder list_status [demo_packet 0, demo_packet 1] (- 1) demo_thread) =
   snd (process_each recorder list_status [((0, 0), demo_frame 0), ((1, 0), demo_frame 1)] (- 1) (demo_state SOURCE_S6))"
proof -
  obtain st' r where 1: "process_each recorder list_status [((0, 0), demo_frame 0), ((1, 0), demo_frame 1)] (- 1)
      (demo_state SOURCE_S6) = (st', r)" by (rule prod.exhaust)
  obtain nt' r' where 2: "nt_process_vector recorder list_status [demo_packet 0, demo_packet 1] (- 1) demo_thread = (nt', r')"
    by (rule prod.exhaust)
  have "r' = r" using udp_thread_handles_packets_alike [OF related_demo _ 1 2] by (simp add: demo_same_packet)
  then show ?thesis unfolding 1 2 by simp
qed

subsection \<open>Hold-off\<close>

lemma holdoff_first:
  assumes "\<And>i. i < j \<Longrightarrow> hgeti4 so (bufs (k + i)) ''NETHOLD'' \<noteq> Some 0" "hgeti4 so (bufs (k + j)) ''NETHOLD'' = Some 0" "h \<noteq> 0"
  shows "nt_holdoff so hdel bufs k h = Some (k + j, hdel (bufs (k + j)) ''NETHOLD'')"
  using assms
proof (induction j arbitrary: k h)
  case 0
  then show ?case by (subst nt_holdoff.simps) simp
next
  case (Suc j)
  define h' where "h' = (case hgeti4 so (bufs k) ''NETHOLD'' of Some v \<Rightarrow> v | None \<Rightarrow> h)"
  have "h' \<noteq> 0" using Suc.prems(1) [of 0] Suc.prems(3) by (auto simp: h'_def split: option.splits)
  moreover have "nt_holdoff so hdel bufs (k + 1) h' = Some (k + 1 + j, hdel (bufs (k + 1 + j)) ''NETHOLD'')"
    using Suc.prems(1) [of "Suc _"] Suc.prems(2) calculation by (intro Suc.IH) simp_all
  ultimately show ?case by (subst nt_holdoff.simps) (simp flip: h'_def)
qed

lemma holdoff_ends:
  fixes bufs :: "nat \<Rightarrow> 's"
  assumes "nt_holdoff so hdel bufs k h = Some r"
  shows "h \<noteq> 0 \<longrightarrow> (\<exists>i. hgeti4 so (bufs i) ''NETHOLD'' = Some 0)"
  using assms
proof (rule nt_holdoff.raw_induct
    [where P = "\<lambda>so hdel bufs k h r. h \<noteq> 0 \<longrightarrow> (\<exists>i. hgeti4 so (bufs i) ''NETHOLD'' = Some 0)", rotated])
  fix loop so hdel k h r and bufs :: "nat \<Rightarrow> 's"
  assume IH: "\<And>so hdel bufs k h r. loop so hdel bufs k h = Some r \<Longrightarrow> h \<noteq> 0 \<longrightarrow> (\<exists>i. hgeti4 so (bufs i) ''NETHOLD'' = Some 0)"
    and eq: "(let holdoff = case hgeti4 so (bufs k) ''NETHOLD'' of None \<Rightarrow> h | Some v \<Rightarrow> v
      in if holdoff = 0 then Some (k, hdel (bufs k) ''NETHOLD'') else loop so hdel bufs (k + 1) holdoff) = Some r"
  show "h \<noteq> 0 \<longrightarrow> (\<exists>i. hgeti4 so (bufs i) ''NETHOLD'' = Some 0)"
  proof
    assume h: "h \<noteq> 0"
    show "\<exists>i. hgeti4 so (bufs i) ''NETHOLD'' = Some 0"
    proof (cases "hgeti4 so (bufs k) ''NETHOLD''")
      case None
      with eq h have "loop so hdel bufs (k + 1) h = Some r" by simp
      from IH [OF this] h show ?thesis by blast
    next
      case (Some v)
      show ?thesis
      proof (cases "v = 0")
        case True
        with Some show ?thesis by blast
      next
        case False
        with eq Some have "loop so hdel bufs (k + 1) v = Some r" by simp
        from IH [OF this] False show ?thesis by blast
      qed
    qed
  qed
qed

text \<open>C18: The hold-off loop of the network thread ends exactly if NETHOLD is found to be 0 at
  some look, and then at the first such look, leaving the buffer of that look with the key
  deleted; deleting the key instead of setting it to 0 never releases the thread.\<close>
theorem holdoff_ends_when_released:
  "nt_holdoff so hdel bufs 0 1 =
     (if \<exists>k. hgeti4 so (bufs k) ''NETHOLD'' = Some 0
      then Some (LEAST k. hgeti4 so (bufs k) ''NETHOLD'' = Some 0,
                 hdel (bufs (LEAST k. hgeti4 so (bufs k) ''NETHOLD'' = Some 0)) ''NETHOLD'')
      else None)"
proof (cases "\<exists>k. hgeti4 so (bufs k) ''NETHOLD'' = Some 0")
  case True
  define j where "j = (LEAST k. hgeti4 so (bufs k) ''NETHOLD'' = Some 0)"
  have "hgeti4 so (bufs j) ''NETHOLD'' = Some 0" using True unfolding j_def by (rule LeastI_ex)
  moreover have "i < j \<Longrightarrow> hgeti4 so (bufs i) ''NETHOLD'' \<noteq> Some 0" for i unfolding j_def by (rule not_less_Least)
  ultimately have "nt_holdoff so hdel bufs 0 1 = Some (0 + j, hdel (bufs (0 + j)) ''NETHOLD'')"
    by (intro holdoff_first) simp_all
  then show ?thesis using True by (simp flip: j_def)
next
  case False
  then have "nt_holdoff so hdel bufs 0 1 = None" using holdoff_ends [of so hdel bufs 0 1]
    by (cases "nt_holdoff so hdel bufs 0 1") auto
  then show ?thesis using False by simp
qed

subsection \<open>The log\<close>

text \<open>The largest line that fits: 10 digits of the line number, the message and three separators.\<close>

definition log_ok :: "log_state \<Rightarrow> bool" where
  "log_ok lg = (length (lg_text lg) < log_limit \<and> lg_lines lg \<le> length (lg_text lg) \<and>
     list_all (\<lambda>t. length t < log_capacity) (lg_written lg))"

lemma log_consts: "log_limit = 966367641" "log_capacity = 1073741824"
  by (simp_all add: log_limit_def log_capacity_def)

lemma logger_ok:
  assumes "log_ok lg" "length msg < 10 ^ 8"
  shows "log_ok (fst (logger msg limit lg))"
proof -
  have n: "lg_lines lg + 1 < 10 ^ 10" using assms(1) by (simp add: log_ok_def log_consts)
  have "length (pad5 c (lg_lines lg + 1)) \<le> 10" for c using digits_short [OF n] by (simp add: pad5_def)
  then have "length (pad5 (CHR ''0'') (Suc (lg_lines lg))) \<le> 10" by simp
  moreover have "5 \<le> length (pad5 c n)" for c n by (simp add: pad5_def)
  then have "5 \<le> length (pad5 (CHR ''0'') (Suc (lg_lines lg)))" .
  ultimately show ?thesis using assms unfolding log_ok_def logger_def Let_def log_consts by auto
qed

lemma digits_u64: "length (digits (unat (w :: u64))) \<le> 20"
  by (rule digits_short) (use unsigned_less [of w] in \<open>auto intro: less_trans\<close>)

lemma pad5_u64: "length (pad5 c (unat (w :: u64))) \<le> 25"
  using digits_u64 [of w] by (simp add: pad5_def)

lemma show_int_u32: "length (show_int (sint (w :: u32))) \<le> 12"
proof -
  have "nat (- sint w) < 10 ^ 11" "nat (sint w) < 10 ^ 11"
    using sint_greater_eq [of w] sint_less [of w] by (simp_all add: nat_less_iff)
  then have "length (digits (nat (- sint w))) \<le> 11" "length (digits (nat (sint w))) \<le> 11"
    by (simp_all add: digits_short)
  then show ?thesis by (simp add: show_int_def)
qed

lemma message_short: "length (nt_log_message a b c d e f h) < 10 ^ 8"
proof -
  note bounds = show_int_u32 [of "of_int a"] show_int_u32 [of "of_int b"]
    pad5_u64 [of "CHR '' ''" c] pad5_u64 [of "CHR '' ''" "d div of_int b"] pad5_u64 [of "CHR '' ''" "e div of_int b"]
    pad5_u64 [of "CHR '' ''" "c + d div of_int b + e div of_int b"] pad5_u64 [of "CHR '' ''" "f div of_int b"]
    digits_u64 [of "ph_mcnt h"] digits_u64 [of "ph_sid h"]
  show ?thesis unfolding nt_log_message_def Let_def using bounds by simp
qed

text \<open>What every iteration keeps: the log within its bounds, and the packet whose size is checked.\<close>

lemma log_step_keeps:
  assumes "log_ok (nr_log rs)"
  shows "log_ok (nr_log (nt_log_step so ev n c w r p rs))" "nr_p (nt_log_step so ev n c w r p rs) = nr_p rs"
  using logger_ok [OF assms message_short] assms
  by (simp_all add: nt_log_step_def Let_def split_beta)

lemma log_step_p: "nr_p (nt_log_step so ev n c w r p rs) = nr_p rs"
  by (simp add: nt_log_step_def Let_def split_beta)

lemma log_step_net:
  "n_blocks (nr_net (nt_log_step so ev n c w r p rs)) = n_blocks (nr_net rs)"
  "n_binfo (nr_net (nt_log_step so ev n c w r p rs)) = n_binfo (nr_net rs)"
  "n_sem (nr_net (nt_log_step so ev n c w r p rs)) = n_sem (nr_net rs)"
  by (simp_all add: nt_log_step_def Let_def split_beta)

lemma step_keeps:
  assumes "log_ok (nr_log rs)"
  shows "log_ok (nr_log (result_state (nt_step e so ev rs)))"
  using assms
  by (auto simp: nt_step_def Let_def split_beta split: option.split recv_result.split intro!: log_step_keeps(1))

lemma step_p: "nr_p (result_state (nt_step e so ev rs)) = nr_p rs"
  by (auto simp: nt_step_def Let_def split_beta log_step_p split: option.split recv_result.split)

lemma loop_p: "nr_p (result_state (nt_loop e so evs rs)) = nr_p rs"
proof (induction evs arbitrary: rs)
  case (Cons ev evs)
  then show ?case using step_p [of e so ev rs] by (auto split: step_result.split)
qed simp

theorem log_stays_in_memory:
  "log_ok (nr_log rs) \<Longrightarrow> log_ok (nr_log (result_state (nt_loop e so evs rs)))"
proof (induction evs arbitrary: rs)
  case (Cons ev evs)
  then show ?case using step_keeps [OF Cons.prems, of e so ev] by (auto split: step_result.split)
qed simp

definition demo_run :: "(ring_call list, (string \<times> stval) list) nt_run" where
  "demo_run = \<lparr>nr_net = demo_thread, nr_stats = nt_stats_init, nr_p = demo_packet 0,
     nr_bufs = replicate 70 (demo_packet 0), nr_log_lines = 5000, nr_first_log_line = True, nr_runtime_start = (0, 0),
     nr_log = \<lparr>lg_text = [], lg_lines = 0, lg_written = []\<rparr>\<rparr>"

definition demo_net_event :: "recv_result \<Rightarrow> nv_event" where
  "demo_net_event r = \<lparr>nv_recv_start = (0, 0), nv_attempts = [(Would_block, (0, 1), (0, 2), True), (r, (0, 3), (0, 4), True)],
     nv_running = True, nv_stop = (0, 5), nv_runtime_now = (0, 6), nv_log_now = (0, 7)\<rparr>"

theorem log_stays_in_memory_witness:
  "log_ok (nr_log (result_state (nt_loop recorder list_status [demo_net_event (Received [replicate 48 0])] demo_run)))"
  by (rule log_stays_in_memory) (simp add: log_ok_def log_consts demo_run_def)

subsection \<open>Sizes and errors\<close>

lemma begin_p:
  assumes "nt_begin e so key ok rs = Continue rs'"
  shows "up_size (nr_p rs') = up_packet_size"
  using assms by (auto simp: nt_begin_def Let_def split_beta s6_memcpy_benchmark_def up_packet_size_def split: if_splits)

lemma checked_size_ok: "up_size p = up_packet_size \<Longrightarrow> nt_size_ok p"
  by (simp add: nt_size_ok_def up_packet_size_def)

theorem receive_errors_unnoticed:
  assumes "nt_begin e so key ok rs = Continue rs1" "nt_loop e so evs rs1 = Continue rs2"
    and "nt_receive (nv_attempts ev) 0 = Some (n, Recv_error, t, u)" "nv_running ev"
  shows "\<exists>rs3. nt_step e so ev rs2 = Continue rs3 \<and> n_blocks (nr_net rs3) = n_blocks (nr_net rs2) \<and>
    n_binfo (nr_net rs3) = n_binfo (nr_net rs2) \<and> n_sem (nr_net rs3) = n_sem (nr_net rs2)"
proof -
  have "nr_p rs2 = nr_p rs1" using loop_p [of e so evs rs1] assms(2) by simp
  then have "nt_size_ok (nr_p rs2)" using begin_p [OF assms(1)] by (simp add: checked_size_ok)
  then show ?thesis using assms(3,4) by (simp add: nt_step_def Let_def nt_fill_bufs_def log_step_net)
qed

lemma demo_begins: "\<exists>rs. nt_begin recorder list_status ''NETSTAT'' True demo_run = Continue rs"
  by (simp add: nt_begin_def Let_def split_beta recorder_def s6_databuf_wrappers)

theorem receive_errors_unnoticed_witness:
  "\<exists>rs2 rs3. nt_step recorder list_status (demo_net_event Recv_error) rs2 = Continue rs3 \<and>
     n_blocks (nr_net rs3) = n_blocks (nr_net rs2)"
proof -
  obtain rs1 where 1: "nt_begin recorder list_status ''NETSTAT'' True demo_run = Continue rs1" using demo_begins by blast
  have 2: "nt_loop recorder list_status [] rs1 = Continue rs1" by simp
  show ?thesis using receive_errors_unnoticed [OF 1 2, of "demo_net_event Recv_error" 1] by (auto simp: demo_net_event_def)
qed

lemma copy_len_short: "0 \<le> sz \<Longrightarrow> sz < 16 \<Longrightarrow> 2 ^ 64 - 16 \<le> nt_copy_len sz"
proof -
  assume "0 \<le> sz" "sz < 16"
  then have "(sz - 16 + 2 ^ 64) mod 2 ^ 64 = sz - 16 + 2 ^ 64" by (intro mod_pos_pos_trivial) simp_all
  then have "(sz - 8 - 8) mod 2 ^ 64 = sz - 16 + 2 ^ 64" unfolding mod_add_self2 by simp
  then have "uint (of_int (sz - 8 - 8) :: u64) = sz - 16 + 2 ^ 64"
    unfolding uint_word_of_int by simp
  then show ?thesis using \<open>0 \<le> sz\<close> by (simp add: nt_copy_len_def unat_eq_nat_uint)
qed

lemma nt_calc_block_indexes_keeps: "n_blocks (fst (nt_calc_block_indexes h st)) = n_blocks st"
  by (simp add: nt_calc_block_indexes_def Let_def nt_warn_def)

lemma nt_calc_block_indexes_ok: "ph_sid h < 7 \<Longrightarrow> snd (nt_calc_block_indexes h st) = True"
  by (simp add: nt_calc_block_indexes_def Let_def linorder_not_le)

text \<open>C35: A packet of fewer than 16 bytes with a valid source ID makes the length of the copy
  wrap around: everything behind its slot, the rest of the shared memory included, is
  overwritten.\<close>
theorem short_packet_overruns:
  assumes "0 \<le> up_size p" "up_size p < 16" "ph_sid h < of_nat (N_BEAMS SOURCE_S6)"
    and "nt_block_for_mcnt (ph_mcnt h) < length (n_blocks st)" "j < 2 ^ 63"
  shows "ib_data (n_blocks (fst (nt_accept_packet h p m st)) ! nt_block_for_mcnt (ph_mcnt h))
      (8 * unat (nt_dest (ph_sid h) (ph_mcnt h)) + j) = up_data p (16 + j)"
proof -
  have sid: "ph_sid h < 7" using assms(3) by simp
  have "j < 32 * (nt_copy_len (up_size p) div 32)" 
    using copy_len_short [OF assms(1,2)] assms(5) mult_div_mod_eq [of 32 "nt_copy_len (up_size p)"]
      mod_less_divisor [of 32 "nt_copy_len (up_size p)"] by simp
  then show ?thesis using assms(4)
    by (simp add: nt_calc_block_indexes_ok [OF sid] nt_accept_packet_def Let_def split_beta set_data_def set_header_def nt_calc_block_indexes_keeps
        s6_memcpy_at_eq memcpy_def add.commute)
qed

theorem short_packet_overruns_witness:
  "ib_data (n_blocks (fst (nt_accept_packet \<lparr>ph_mcnt = 0, ph_pchan = 0, ph_nchan = 0, ph_sid = 0\<rparr> ((demo_packet 7)\<lparr>up_size := 8\<rparr>) 0 demo_thread)) ! 0)
     (8 * unat (nt_dest 0 0) + N_DATA_BYTES_PER_BLOCK SOURCE_S6) = 7"
proof -
  have b: "nt_block_for_mcnt 0 = 0" by (simp add: nt_block_for_mcnt_def)
  have n: "0 < length (n_blocks demo_thread)"
    by (simp add: demo_thread_def net_state.defs demo_state_def acquire_first_blocks_def recorder_def s6_databuf_wrappers boot_state_def)
  show ?thesis
    using short_packet_overruns [of "(demo_packet 7)\<lparr>up_size := 8\<rparr>" "\<lparr>ph_mcnt = 0, ph_pchan = 0, ph_nchan = 0, ph_sid = 0\<rparr>" demo_thread
        "N_DATA_BYTES_PER_BLOCK SOURCE_S6" 0] n
    by (simp add: b demo_packet_def s6_const)
qed

end
