(* ===== verification/S6_Null.thy ===== *)
theory S6_Null
  imports S6_Net_Run
begin

text \<open>
  \<open>run\<close> of \<open>s6_net_null_thread.cpp\<close>: it acquires two blocks, receives packets and counts them; the call
  of its \<open>process_packet\<close>, modelled in \<open>S6_NullPkt\<close>, is compiled out.
\<close>

datatype recv1 = Got "u8 list" | Again | Failed

record null_event =
  ne_recv_start :: timespec
  ne_attempts :: "(recv1 \<times> timespec \<times> timespec \<times> bool) list"
  ne_running :: bool
  ne_stop :: timespec

record ('q, 's) null_state =
  nu_sem :: 'q
  nu_blocks :: "in_block list"
  nu_status :: 's
  nu_stats :: nt_stats
  nu_p :: udp_packet
  nu_status_ns :: u64

definition null_put_params :: "'s status_ops \<Rightarrow> string \<Rightarrow> 's \<Rightarrow> 's" where
  "null_put_params so status_key buf =
     (let bindhost = (case hgets so buf ''BINDHOST'' of Some v \<Rightarrow> v | None \<Rightarrow> ''0.0.0.0'');
          bindport = (case hgeti4 so buf ''BINDPORT'' of Some v \<Rightarrow> v | None \<Rightarrow> 21302);
          buf = hput so buf ''BINDHOST'' (Str bindhost);
          buf = hput so buf ''BINDPORT'' (I4 (of_int bindport));
          buf = hput so buf ''MISSEDBM'' (U4 0);
          buf = hput so buf ''MISSEDPK'' (U4 0)
      in hput so buf status_key (Str ''running''))"

definition null_begin ::
  "'q hashpipe_ops \<Rightarrow> 's status_ops \<Rightarrow> string \<Rightarrow> bool \<Rightarrow> ('q, 's) null_state \<Rightarrow> ('q, 's) null_state step_result" where
  "null_begin e so status_key init_ok st =
     (let st = st\<lparr>nu_status := null_put_params so status_key (nu_status st)\<rparr>
      in if \<not> init_ok then Exited st
         else
           (let (rv, sem) = s6_input_databuf_busywait_free e (nu_sem st) 0;
                st = st\<lparr>nu_sem := sem\<rparr>
            in if rv \<noteq> HASHPIPE_OK then Exited st
               else
                 (let (rv, sem) = s6_input_databuf_busywait_free e (nu_sem st) 1;
                      st = st\<lparr>nu_sem := sem\<rparr>
                  in if rv \<noteq> HASHPIPE_OK then Exited st
                     else Continue (st\<lparr>nu_blocks := nt_initialize_block Nmt 0 0 (nt_initialize_block 0 0 0 (nu_blocks st)),
                                       nu_stats := nt_stats_init, nu_status_ns := 0\<rparr>))))"

fun null_receive ::
  "(recv1 \<times> timespec \<times> timespec \<times> bool) list \<Rightarrow> udp_packet \<Rightarrow> (udp_packet \<times> timespec \<times> timespec) option" where
  "null_receive [] p = None"
| "null_receive ((r, start, stop, running) # as) p =
     (let p = (case r of Got msg \<Rightarrow> nt_fill_buf msg p | _ \<Rightarrow> p\<lparr>up_size := - 1\<rparr>)
      in if up_size p = - 1 \<and> r = Again \<and> running then null_receive as p else Some (p, start, stop))"

text \<open>A minimum or maximum is read back first, so that the user can reset it; \<open>status_ns\<close> keeps
  its value when the key is absent.\<close>

definition null_get_put ::
  "'s status_ops \<Rightarrow> string \<Rightarrow> (u64 \<Rightarrow> u64 \<Rightarrow> u64) \<Rightarrow> u64 \<Rightarrow> 's \<times> u64 \<Rightarrow> 's \<times> u64" where
  "null_get_put so key f v bs =
     (case bs of (buf, status_ns) \<Rightarrow>
        (let status_ns = (case hgeti8 so buf key of Some x \<Rightarrow> of_int x | None \<Rightarrow> status_ns);
             status_ns = f v status_ns
         in (hput so buf key (I8 status_ns), status_ns)))"

definition null_stats :: "'s status_ops \<Rightarrow> int \<Rightarrow> nt_stats \<Rightarrow> 's \<times> u64 \<Rightarrow> 's \<times> u64" where
  "null_stats so packet_size ns bs =
     (case (nst_elapsed ns, nst_min ns, nst_max ns, bs) of
        ((ew, er, ep), (iw, ir, ip), (aw, ar, ap), (buf, status_ns)) \<Rightarrow>
          (let ns_per_wait = avg_ns ew (nst_packet_count ns);
               ns_per_recv = avg_ns er (nst_packet_count ns);
               ns_per_proc = avg_ns ep (nst_packet_count ns);
               buf = hput so buf ''NETMCNT'' (U8 (nst_packet_count ns));
               buf = hput so buf ''NETGBPS'' (R4 (of_int (8 * packet_size) / (ns_per_recv + ns_per_proc)));
               buf = hput so buf ''NETWATNS'' (R4 ns_per_wait);
               buf = hput so buf ''NETRECNS'' (R4 ns_per_recv);
               buf = hput so buf ''NETPRCNS'' (R4 ns_per_proc)
           in null_get_put so ''NETPRCMX'' max ap
                (null_get_put so ''NETRECMX'' max ar
                  (null_get_put so ''NETWATMX'' max aw
                    (null_get_put so ''NETPRCMN'' min ip
                      (null_get_put so ''NETRECMN'' min ir
                        (null_get_put so ''NETWATMN'' min iw (buf, status_ns))))))))"

definition null_step :: "'s status_ops \<Rightarrow> null_event \<Rightarrow> ('q, 's) null_state \<Rightarrow> ('q, 's) null_state step_result" where
  "null_step so ev st =
     (case null_receive (ne_attempts ev) (nu_p st) of
        None \<Rightarrow> Continue st
      | Some (p, start, recv_stop) \<Rightarrow>
          (let st = st\<lparr>nu_p := p\<rparr>
           in if \<not> ne_running ev then Break st
              else if \<not> nt_size_ok p then (if up_size p = - 1 then Exited st else Continue st)
              else
                (let ns = (nu_stats st)\<lparr>nst_packet_count := nst_packet_count (nu_stats st) + 1\<rparr>;
                     ns = nt_vector_stats (ELAPSED_NS (ne_recv_start ev) start) (ELAPSED_NS start recv_stop)
                            (ELAPSED_NS recv_stop (ne_stop ev)) ns
                 in if nst_packet_count ns mod 0x100000 = 0
                    then
                      (let (buf, status_ns) = null_stats so (up_size p) ns (nu_status st, nu_status_ns st)
                       in Continue (st\<lparr>nu_status := buf, nu_status_ns := status_ns,
                                       nu_stats := ns\<lparr>nst_elapsed := (0, 0, 0), nst_packet_count := 0\<rparr>\<rparr>))
                    else Continue (st\<lparr>nu_stats := ns\<rparr>))))"

fun null_loop :: "'s status_ops \<Rightarrow> null_event list \<Rightarrow> ('q, 's) null_state \<Rightarrow> ('q, 's) null_state step_result" where
  "null_loop so [] st = Continue st"
| "null_loop so (ev # evs) st =
     (case null_step so ev st of
        Continue st \<Rightarrow> null_loop so evs st
      | Break st \<Rightarrow> Break st
      | Exited st \<Rightarrow> Exited st)"

definition null_main ::
  "'q hashpipe_ops \<Rightarrow> 's status_ops \<Rightarrow> string \<Rightarrow> bool \<Rightarrow> null_event list \<Rightarrow> ('q, 's) null_state \<Rightarrow> ('q, 's) null_state step_result" where
  "null_main e so status_key init_ok evs st =
     (case null_begin e so status_key init_ok st of
        Continue st \<Rightarrow> null_loop so evs st
      | Break st \<Rightarrow> Break st
      | Exited st \<Rightarrow> Exited st)"

definition null_thread_run ::
  "'q hashpipe_ops \<Rightarrow> 's status_ops \<Rightarrow> ('s \<Rightarrow> string \<Rightarrow> 's) \<Rightarrow> ('s \<Rightarrow> nat \<Rightarrow> 's) \<Rightarrow> string \<Rightarrow> bool \<Rightarrow> null_event list \<Rightarrow>
   ('q, 's) null_state \<Rightarrow> ('q, 's) null_state step_result option" where
  "null_thread_run e so hdel env status_key init_ok evs st =
     (case nt_holdoff so hdel (env (nt_force_holdoff so hdel (nu_status st))) 0 1 of
        None \<Rightarrow> None
      | Some (_, buf) \<Rightarrow> Some (null_main e so status_key init_ok evs (st\<lparr>nu_status := buf\<rparr>)))"

subsection \<open>The minima it reports\<close>

definition min_keys :: "string list" where "min_keys = [''NETWATMN'', ''NETRECMN'', ''NETPRCMN'']"

text \<open>What a status buffer promises for 8-byte values.\<close>

locale status_buffer_i8 = status_buffer so for so :: "'s status_ops" +
  assumes hgeti8_same: "hgeti8 so (hput so b k (I8 w)) k = Some (sint w)"
    and hgeti8_other: "k' \<noteq> k \<Longrightarrow> hgeti8 so (hput so b k v) k' = hgeti8 so b k'"
begin

definition min_inv :: "'s \<times> u64 \<Rightarrow> bool" where
  "min_inv bs = (if hgeti8 so (fst bs) ''NETWATMN'' = None
     then list_all (\<lambda>k. hgeti8 so (fst bs) k = None) min_keys \<and> snd bs = 0
     else list_all (\<lambda>k. hgeti8 so (fst bs) k = Some 0) min_keys)"

lemma hgeti8_get_put: "hgeti8 so (fst (null_get_put so key f v bs)) k =
    (if k = key then Some (sint (f v (case hgeti8 so (fst bs) key of Some x \<Rightarrow> of_int x | None \<Rightarrow> snd bs))) else hgeti8 so (fst bs) k)"
  by (simp add: null_get_put_def Let_def split_beta hgeti8_same hgeti8_other)

lemma snd_get_put: "snd (null_get_put so key f v bs) = f v (case hgeti8 so (fst bs) key of Some x \<Rightarrow> of_int x | None \<Rightarrow> snd bs)"
  by (simp add: null_get_put_def Let_def split_beta)

lemma min_inv_null_stats:
  assumes "min_inv (buf, ns0)"
  shows "list_all (\<lambda>k. hgeti8 so (fst (null_stats so sz ns (buf, ns0))) k = Some 0) min_keys"
  using assms
  by (simp add: null_stats_def Let_def split_beta hgeti8_get_put snd_get_put hgeti8_other min_inv_def min_keys_def split: if_splits)

lemma min_inv_null_loop:
  assumes "min_inv (nu_status st, nu_status_ns st)"
  shows "min_inv (nu_status (result_state (null_loop so evs st)), nu_status_ns (result_state (null_loop so evs st)))"
  using assms
proof (induction evs arbitrary: st)
  case (Cons ev evs)
  have "min_inv bs'" if "list_all (\<lambda>k. hgeti8 so (fst bs') k = Some 0) min_keys" for bs'
    using that by (simp add: min_inv_def min_keys_def)
  from this [OF min_inv_null_stats [OF Cons.prems]]
  have "min_inv (nu_status (result_state (null_step so ev st)), nu_status_ns (result_state (null_step so ev st)))"
    using Cons.prems by (auto simp: null_step_def Let_def split_beta split: option.split)
  then show ?case using Cons.IH by (auto split: step_result.split)
qed simp

end

interpretation list_status_i8: status_buffer_i8 list_status
  by unfold_locales (auto simp: list_status_def)

lemma null_loop_keeps:
  "nu_blocks (result_state (null_loop so evs st)) = nu_blocks st \<and> nu_sem (result_state (null_loop so evs st)) = nu_sem st"
proof (induction evs arbitrary: st)
  case (Cons ev evs)
  have "nu_blocks (result_state (null_step so ev st)) = nu_blocks st \<and> nu_sem (result_state (null_step so ev st)) = nu_sem st"
    by (auto simp: null_step_def Let_def split_beta split: option.split)
  then show ?case using Cons.IH by (auto split: step_result.split)
qed simp

lemma null_begin_minima:
  assumes "list_all (\<lambda>k. hgeti8 list_status (nu_status st) k = None) min_keys"
  shows "list_all (\<lambda>k. hgeti8 list_status (nu_status (result_state (null_begin e list_status ''NETSTAT'' ok st))) k = None) min_keys"
    and "null_begin e list_status ''NETSTAT'' ok st = Continue st' \<Longrightarrow> nu_status_ns st' = 0"
  using assms
  by (auto simp: null_begin_def null_put_params_def Let_def split_beta min_keys_def list_status_i8.hgeti8_other split: if_splits)

theorem null_thread_minima_zero:
  assumes "list_all (\<lambda>k. hgeti8 list_status (nu_status st) k = None) min_keys"
    and "null_main e list_status ''NETSTAT'' ok evs st = r"
  shows "list_all (\<lambda>k. hgeti8 list_status (nu_status (result_state r)) k \<in> {None, Some 0}) min_keys"
proof (cases "null_begin e list_status ''NETSTAT'' ok st")
  case (Continue st1)
  have "list_status_i8.min_inv (nu_status st1, nu_status_ns st1)"
    using null_begin_minima [OF assms(1), of e ok] Continue by (simp add: list_status_i8.min_inv_def min_keys_def)
  from list_status_i8.min_inv_null_loop [OF this, of evs] assms(2) Continue
  show ?thesis by (auto simp: null_main_def list_status_i8.min_inv_def min_keys_def split: if_splits)
qed (use assms null_begin_minima(1) [OF assms(1), of e ok] in \<open>auto simp: null_main_def min_keys_def\<close>)

theorem null_thread_minima_zero_witness:
  "list_all (\<lambda>k. hgeti8 list_status (nu_status (result_state (null_main recorder list_status ''NETSTAT'' True
       [\<lparr>ne_recv_start = (0, 0), ne_attempts = [(Got (replicate 16 0), (0, 1), (0, 2), True)], ne_running = True, ne_stop = (0, 3)\<rparr>]
       \<lparr>nu_sem = [], nu_blocks = [], nu_status = [], nu_stats = nt_stats_init, nu_p = \<lparr>up_data = (\<lambda>_. 0), up_size = 0\<rparr>, nu_status_ns = 0\<rparr>))) k
     \<in> {None, Some 0}) min_keys"
  by (rule null_thread_minima_zero [OF _ refl]) (simp add: min_keys_def list_status_def)

end
