(* ===== verification/S6_Fake.thy ===== *)
theory S6_Fake
  imports S6_Pktsock_Props S6_Obs
begin

text \<open>
  Test data and tools: \<open>s6_gen_fake_data.cpp\<close> and \<open>s6_fake_net_thread.cpp\<close>, which fill the input ring
  without a network, and \<open>s6_extract_coarse_chan.cpp\<close>, which reads one coarse channel back from a dump.
\<close>

subsection \<open>Samples\<close>

text \<open>A complex sample is two bytes; at FAST a sample is real and the second component unused.\<close>

type_synonym sample = "u8 \<times> u8"

text \<open>The conversion of a \<open>double\<close> to \<open>char\<close> truncates; out of the range of \<open>char\<close>, where C leaves the result
  open, it wraps around here.\<close>

definition char_of_real :: "real \<Rightarrow> u8" where
  "char_of_real x = of_int (if 0 \<le> x then \<lfloor>x\<rfloor> else \<lceil>x\<rceil>)"

definition add_char :: "real \<Rightarrow> u8 \<Rightarrow> u8" where
  "add_char v c = char_of_real (real_of_int (sint c) + v)"

definition n_gpu_input_elements :: "site \<Rightarrow> nat" where
  "n_gpu_input_elements s = N_TIME_SAMPLES s * N_COARSE_CHAN_PER_BORS s"

text \<open>The coarse channels that carry signals: \<open>cc += ceil(N_COARSE_CHAN_PER_BORS/4.0)\<close>.\<close>

function signal_chans :: "nat \<Rightarrow> nat \<Rightarrow> nat list" where
  "signal_chans n cc = (if cc < n then cc # signal_chans n (cc + (n + 3) div 4) else [])"
  by pat_completeness auto

termination by (relation "measure (\<lambda>(n, cc). n - cc)") auto

declare signal_chans.simps [simp del]

text \<open>The five sine waves.  In the last one of the complex case, \<open>N_TIME_SAMPLES-1 * f\<close> has the product
  bind tighter.\<close>

definition real_signal :: "nat \<Rightarrow> nat \<Rightarrow> u8 \<Rightarrow> u8" where
  "real_signal n t x =
     (let f = 2 * pi * real t / real n; h = real (n div 2)
      in fold add_char [10 * sin f, 10 * sin (h * 0.25 * f), 10 * sin (h * 0.50 * f), 10 * sin (h * 0.75 * f),
           10 * sin ((h - 1) * f)] x)"

definition signal_phases :: "nat \<Rightarrow> nat \<Rightarrow> real list" where
  "signal_phases n t =
     (let f = 2 * pi * real t / real n
      in [0.111 + 1 * f, 10.111 + real_of_int \<lfloor>real n * 0.25\<rfloor> * f, 100.111 + real_of_int \<lfloor>real n * 0.5\<rfloor> * f,
          100.111 + real_of_int \<lfloor>real n * 0.75\<rfloor> * f, 100.111 + real n - 1 * f])"

definition complex_signal :: "nat \<Rightarrow> nat \<Rightarrow> sample \<Rightarrow> sample" where
  "complex_signal n t xy =
     fold (\<lambda>p (x, y). (add_char (10 * cos p) x, add_char (10 * sin p) y)) (signal_phases n t) xy"

definition gen_time_series :: "site \<Rightarrow> (nat \<Rightarrow> sample) \<Rightarrow> nat \<Rightarrow> sample" where
  "gen_time_series s noise =
     fold (\<lambda>cc h.
       fold (\<lambda>t h.
         let locator = t * N_COARSE_CHAN_PER_BORS s + cc
         in h(locator := (if s = SOURCE_FAST then (real_signal (N_TIME_SAMPLES s) t (fst (h locator)), snd (h locator))
                          else complex_signal (N_TIME_SAMPLES s) t (h locator)))) [0..<N_TIME_SAMPLES s] h)
       (signal_chans (N_COARSE_CHAN_PER_BORS s) 0) noise"

text \<open>\<open>noise k\<close>: what the \<open>k\<close>-th call of \<open>std::generate\<close> draws.\<close>

definition put_sample :: "site \<Rightarrow> nat \<Rightarrow> sample \<Rightarrow> store \<Rightarrow> store" where
  "put_sample s i xy d =
     (if s = SOURCE_FAST then d(i := fst xy) else d(2 * i := fst xy, 2 * i + 1 := snd xy))"

definition dst_locator :: "site \<Rightarrow> nat \<Rightarrow> nat \<Rightarrow> nat \<Rightarrow> nat" where
  "dst_locator s bors_i pol j =
     bors_i * N_COARSE_CHAN_PER_BORS s * N_TIME_SAMPLES s * N_POLS_PER_BEAM s + (j * N_POLS_PER_BEAM s + pol)"

definition gen_fake_data :: "site \<Rightarrow> (nat \<Rightarrow> nat \<Rightarrow> sample) \<Rightarrow> store \<Rightarrow> store" where
  "gen_fake_data s noise data =
     fold (\<lambda>bors_i data.
       fold (\<lambda>pol data.
         let h_raw_timeseries_gen = gen_time_series s (noise (bors_i * N_POLS_PER_BEAM s + pol))
         in fold (\<lambda>j data. put_sample s (dst_locator s bors_i pol j) (h_raw_timeseries_gen j) data)
              [0..<n_gpu_input_elements s] data)
         [0..<N_POLS_PER_BEAM s] data)
       [0..<N_BORS s] data"

subsection \<open>The fake network thread\<close>

record ('q, 's) fake_state =
  fk_block_idx :: nat
  fk_mcnt :: u64
  fk_gen_fake :: int
  fk_blocks :: "in_block list"
  fk_sem :: 'q
  fk_status :: 's

definition fake_begin :: "site \<Rightarrow> 's status_ops \<Rightarrow> ('q, 's) fake_state \<Rightarrow> ('q, 's) fake_state" where
  "fake_begin s so st =
     (let buf = fk_status st;
          buf = hput so buf ''NUMCCHAN'' (I4 (of_nat (N_COARSE_CHAN s)));
          buf = hput so buf ''NUMFCHAN'' (I4 (of_nat (N_FINE_CHAN s)));
          buf = hput so buf ''NUMBBEAM'' (I4 (of_nat (N_BYTES_PER_SAMPLE s * (N_FINE_CHAN s * N_COARSE_CHAN s * N_POLS_PER_BEAM s))));
          buf = hput so buf ''NUMBBLOC'' (I4 (of_nat (sizeof_input_block s)));
          buf = hput so buf ''THRESHLD'' (I4 20)
      in st\<lparr>fk_block_idx := 0, fk_mcnt := 0, fk_status := buf,
            fk_gen_fake := (case hgeti4 so buf ''GENFAKE'' of Some v \<Rightarrow> v | None \<Rightarrow> 0)\<rparr>)"

text \<open>Waiting for a free block, which may take any number of timeouts.\<close>

partial_function (option) fake_wait_free ::
  "'q hashpipe_ops \<Rightarrow> 's status_ops \<Rightarrow> string \<Rightarrow> ('q, 's) fake_state \<Rightarrow> (('q, 's) fake_state \<times> bool) option" where
  "fake_wait_free e so status_key st =
     (let (rv, sem) = s6_input_databuf_wait_free e (fk_sem st) (fk_block_idx st);
          st = st\<lparr>fk_sem := sem\<rparr>
      in if rv = HASHPIPE_OK then Some (st, True)
         else if rv = HASHPIPE_TIMEOUT
         then fake_wait_free e so status_key (st\<lparr>fk_status := hput so (fk_status st) status_key (Str ''blocked'')\<rparr>)
         else Some (st, False))"

text \<open>\<open>memset\<close> clears \<open>N_BEAM_SLOTS\<close> words of \<open>missed_pkts\<close>, whatever its length.\<close>

definition fake_header :: "site \<Rightarrow> u64 \<Rightarrow> in_hdr \<Rightarrow> in_hdr" where
  "fake_header s mcnt h =
     h\<lparr>ih_mcnt := mcnt, ih_coarse_chan_id := 321, ih_num_coarse_chan := of_nat (N_COARSE_CHAN s),
       ih_missed_pkts := map (\<lambda>i. if i < N_BEAM_SLOTS s then 0 else ih_missed_pkts h ! i) [0..<length (ih_missed_pkts h)]\<rparr>"

definition fake_generate :: "site \<Rightarrow> (nat \<Rightarrow> nat \<Rightarrow> sample) \<Rightarrow> in_block list \<Rightarrow> in_block list" where
  "fake_generate s noise bs =
     (let bs = set_data 0 (gen_fake_data s noise) bs
      in fold (\<lambda>block_i bs. set_data block_i (\<lambda>d. memcpy d 0 (ib_data (bs ! 0)) (N_DATA_BYTES_PER_BLOCK s)) bs)
           [1..<N_INPUT_BLOCKS s] bs)"

definition fake_step ::
  "site \<Rightarrow> 'q hashpipe_ops \<Rightarrow> 's status_ops \<Rightarrow> string \<Rightarrow> (nat \<Rightarrow> nat \<Rightarrow> sample) \<Rightarrow> ('q, 's) fake_state \<Rightarrow>
   ('q, 's) fake_state step_result option" where
  "fake_step s e so status_key noise st =
     (let buf = fk_status st;
          buf = hput so buf ''NETBKOUT'' (I4 (of_nat (fk_block_idx st)));
          buf = hput so buf status_key (Str ''waiting'');
          st = st\<lparr>fk_status := buf\<rparr>
      in case fake_wait_free e so status_key st of
           None \<Rightarrow> None
         | Some (st, False) \<Rightarrow> Some (Exited st)
         | Some (st, True) \<Rightarrow>
             (let buf = hput so (fk_status st) status_key (Str ''receiving'');
                  bs = set_header (fk_block_idx st) (fake_header s (fk_mcnt st)) (fk_blocks st);
                  bs = (if fk_gen_fake st \<noteq> 0 then fake_generate s noise bs else bs);
                  buf = hput so buf ''NETMXERR'' (R4 0);
                  buf = hput so buf ''NETERCNT'' (I4 0);
                  buf = hput so buf ''NETMXECT'' (I4 0);
                  (_, sem) = s6_input_databuf_set_filled e (fk_sem st) (fk_block_idx st)
              in Some (Continue (st\<lparr>fk_status := buf, fk_blocks := bs, fk_gen_fake := 0, fk_sem := sem,
                                    fk_block_idx := (fk_block_idx st + 1) mod N_INPUT_BLOCKS s, fk_mcnt := fk_mcnt st + 1\<rparr>))))"

text \<open>\<open>n\<close> iterations.\<close>

fun fake_loop ::
  "site \<Rightarrow> 'q hashpipe_ops \<Rightarrow> 's status_ops \<Rightarrow> string \<Rightarrow> (nat \<Rightarrow> nat \<Rightarrow> sample) \<Rightarrow> nat \<Rightarrow> ('q, 's) fake_state \<Rightarrow>
   ('q, 's) fake_state step_result option" where
  "fake_loop s e so status_key noise 0 st = Some (Continue st)"
| "fake_loop s e so status_key noise (Suc n) st =
     (case fake_step s e so status_key noise st of
        Some (Continue st) \<Rightarrow> fake_loop s e so status_key noise n st
      | r \<Rightarrow> r)"

definition fake_net_run ::
  "site \<Rightarrow> 'q hashpipe_ops \<Rightarrow> 's status_ops \<Rightarrow> string \<Rightarrow> (nat \<Rightarrow> nat \<Rightarrow> sample) \<Rightarrow> nat \<Rightarrow> ('q, 's) fake_state \<Rightarrow>
   ('q, 's) fake_state step_result option" where
  "fake_net_run s e so status_key noise n st = fake_loop s e so status_key noise n (fake_begin s so st)"

subsection \<open>Extracting a coarse channel\<close>

record dump_file =
  df_length :: int
  df_byte :: "int \<Rightarrow> u8"

definition fseek_cur :: "int \<Rightarrow> int \<Rightarrow> int" where
  "fseek_cur pos offset = (if pos + offset < 0 then pos else pos + offset)"

text \<open>\<open>fread\<close> of one byte into \<open>buff[i]\<close>.\<close>

definition fread1 :: "dump_file \<Rightarrow> nat \<Rightarrow> store \<times> int \<Rightarrow> store \<times> int" where
  "fread1 f i bp =
     (case bp of (buff, pos) \<Rightarrow> if pos < df_length f then (buff(i := df_byte f pos), pos + 1) else (buff, pos))"

definition extract_step :: "site \<Rightarrow> dump_file \<Rightarrow> nat \<Rightarrow> store \<times> int \<Rightarrow> store \<times> int" where
  "extract_step s f i bp =
     (case fread1 f (i + 1) (fread1 f i bp) of
        (buff, pos) \<Rightarrow>
          (buff, fseek_cur pos (int (N_COARSE_CHAN s * N_POLS_PER_BEAM s * N_BYTES_PER_SAMPLE s) - int (N_BYTES_PER_SAMPLE s))))"

text \<open>\<open>for(i=0; i<bound; i+=N_BYTES_PER_SAMPLE)\<close>.\<close>

definition sample_starts :: "site \<Rightarrow> nat \<Rightarrow> nat list" where
  "sample_starts s bound = filter (\<lambda>i. N_BYTES_PER_SAMPLE s dvd i) [0..<bound]"

definition extract_coarse_chan :: "site \<Rightarrow> store \<Rightarrow> dump_file \<Rightarrow> int \<Rightarrow> int \<Rightarrow> int \<Rightarrow> int \<Rightarrow> (int \<times> int) list" where
  "extract_coarse_chan s buff f coarse_chan n_fine_chan beam pol =
     (let n_fine_chan = (if n_fine_chan = 0 then int (N_FINE_CHAN s) else n_fine_chan);
          bps = int (N_BYTES_PER_SAMPLE s);
          pos = 128;
          pos = fseek_cur pos (beam * int (N_BYTES_PER_SAMPLE s * (N_FINE_CHAN s * N_COARSE_CHAN s * N_POLS_PER_BEAM s)));
          pos = fseek_cur pos (coarse_chan * int (N_POLS_PER_BEAM s) * bps + pol * bps);
          (buff, pos) = fold (extract_step s f) (sample_starts s (nat (n_fine_chan * bps))) (buff, pos)
      in map (\<lambda>i. (sint (buff i), sint (buff (i + 1)))) (sample_starts s (nat (n_fine_chan * 2))))"

definition extract_main :: "site \<Rightarrow> store \<Rightarrow> (string \<Rightarrow> dump_file) \<Rightarrow> string list \<Rightarrow> (int \<times> int) list" where
  "extract_main s buff fs argv =
     extract_coarse_chan s buff (fs (argv ! 5)) (atoi (argv ! 1)) (atoi (argv ! 2)) (atoi (argv ! 3)) (atoi (argv ! 4))"

end
