(* ===== verification/S6_Fake_Props.thy ===== *)
theory S6_Fake_Props
  imports S6_Fake
begin

text \<open>
  The fake data lands in the layout the pipeline expects, each sample once; the extraction tool
  reads it back; the fake network thread fills the ring in order.
\<close>

subsection \<open>Writes to a store\<close>

definition writes :: "(store \<Rightarrow> store) \<Rightarrow> nat set \<Rightarrow> store \<Rightarrow> bool" where
  "writes w A c = (\<forall>d a. w d a = (if a \<in> A then c a else d a))"

lemma writesD: "writes w A c \<Longrightarrow> w d a = (if a \<in> A then c a else d a)"
  by (simp add: writes_def)

lemma writes_fold:
  "(\<And>i. i \<in> set xs \<Longrightarrow> writes (w i) (A i) c) \<Longrightarrow> writes (fold w xs) (\<Union>i\<in>set xs. A i) c"
proof (induction xs)
  case (Cons x xs)
  have "writes (fold w xs) (\<Union>i\<in>set xs. A i) c" "writes (w x) (A x) c" using Cons by simp_all
  then show ?case by (simp add: writes_def)
qed (simp add: writes_def)

subsection \<open>The fake data\<close>

text \<open>Which sample a byte of the block belongs to.\<close>

definition fake_byte :: "site \<Rightarrow> (nat \<Rightarrow> nat \<Rightarrow> sample) \<Rightarrow> store" where
  "fake_byte s noise a =
     (let i = a div N_BYTES_PER_SAMPLE s;
          P = N_POLS_PER_BEAM s;
          N = N_COARSE_CHAN_PER_BORS s * N_TIME_SAMPLES s * P;
          xy = gen_time_series s (noise (i div N * P + i mod N mod P)) (i mod N div P)
      in if a mod N_BYTES_PER_SAMPLE s = 0 then fst xy else snd xy)"

lemma bps_cases: "N_BYTES_PER_SAMPLE s = (if s = SOURCE_FAST then 1 else 2)"
  by (cases s) simp_all

lemma put_sample_writes:
  assumes "c (N_BYTES_PER_SAMPLE s * i) = fst xy" "s \<noteq> SOURCE_FAST \<Longrightarrow> c (2 * i + 1) = snd xy"
  shows "writes (put_sample s i xy) {N_BYTES_PER_SAMPLE s * i..<N_BYTES_PER_SAMPLE s * (i + 1)} c"
  using assms by (auto simp: writes_def put_sample_def bps_cases less_Suc_eq)

lemma pols_pos: "0 < N_POLS_PER_BEAM s" by (cases s) simp_all

lemma locator_decoded:
  assumes "pol < N_POLS_PER_BEAM s" "j < n_gpu_input_elements s"
  defines "N \<equiv> N_COARSE_CHAN_PER_BORS s * N_TIME_SAMPLES s * N_POLS_PER_BEAM s"
  shows "dst_locator s b pol j div N = b" "dst_locator s b pol j mod N = j * N_POLS_PER_BEAM s + pol"
proof -
  have r: "j * N_POLS_PER_BEAM s + pol < N"
  proof -
    have "j * N_POLS_PER_BEAM s + pol < (j + 1) * N_POLS_PER_BEAM s" using assms(1) by simp
    also have "\<dots> \<le> n_gpu_input_elements s * N_POLS_PER_BEAM s" using assms(2) by (intro mult_le_mono1) simp
    finally show ?thesis by (simp add: N_def n_gpu_input_elements_def mult.commute mult.left_commute)
  qed
  have d: "dst_locator s b pol j = j * N_POLS_PER_BEAM s + pol + b * N"
    by (simp add: dst_locator_def N_def mult.assoc)
  show "dst_locator s b pol j div N = b" "dst_locator s b pol j mod N = j * N_POLS_PER_BEAM s + pol"
    using r by (simp_all add: d)
qed

lemma fake_byte_at:
  assumes "pol < N_POLS_PER_BEAM s" "j < n_gpu_input_elements s"
  shows "fake_byte s noise (N_BYTES_PER_SAMPLE s * dst_locator s b pol j) = fst (gen_time_series s (noise (b * N_POLS_PER_BEAM s + pol)) j)"
    and "s \<noteq> SOURCE_FAST \<Longrightarrow> fake_byte s noise (2 * dst_locator s b pol j + 1) = snd (gen_time_series s (noise (b * N_POLS_PER_BEAM s + pol)) j)"
  using assms pols_pos [of s] by (simp_all add: fake_byte_def Let_def locator_decoded bps_cases)

definition sample_bytes :: "site \<Rightarrow> nat \<Rightarrow> nat \<Rightarrow> nat \<Rightarrow> nat set" where
  "sample_bytes s b pol j =
     {N_BYTES_PER_SAMPLE s * dst_locator s b pol j..<N_BYTES_PER_SAMPLE s * (dst_locator s b pol j + 1)}"

lemma gen_fake_data_writes:
  "writes (gen_fake_data s noise)
     (\<Union>b\<in>set [0..<N_BORS s]. \<Union>pol\<in>set [0..<N_POLS_PER_BEAM s]. \<Union>j\<in>set [0..<n_gpu_input_elements s]. sample_bytes s b pol j)
     (fake_byte s noise)"
  unfolding gen_fake_data_def Let_def sample_bytes_def
  by (intro writes_fold put_sample_writes) (simp_all add: fake_byte_at fake_byte_at(2) [simplified])

lemma locator_bound:
  assumes "b < N_BORS s" "pol < N_POLS_PER_BEAM s" "j < n_gpu_input_elements s"
  shows "N_BYTES_PER_SAMPLE s * (dst_locator s b pol j + 1) \<le> N_DATA_BYTES_PER_BLOCK s"
proof -
  define N where "N = N_COARSE_CHAN_PER_BORS s * N_TIME_SAMPLES s * N_POLS_PER_BEAM s"
  have "0 < N" by (cases s) (simp_all add: N_def)
  then have "dst_locator s b pol j mod N < N" by simp
  moreover have "N * b + dst_locator s b pol j mod N = dst_locator s b pol j"
    using mult_div_mod_eq [of N "dst_locator s b pol j"] locator_decoded(1) [OF assms(2,3), of b, folded N_def] by simp
  ultimately have "dst_locator s b pol j < N * b + N" by linarith
  also have "N * b + N = N * Suc b" by simp
  also have "\<dots> \<le> N * N_BORS s" using assms(1) by (intro mult_le_mono2) simp
  finally have "dst_locator s b pol j + 1 \<le> N * N_BORS s" by simp
  then have "N_BYTES_PER_SAMPLE s * (dst_locator s b pol j + 1) \<le> N_BYTES_PER_SAMPLE s * (N * N_BORS s)" by (rule mult_le_mono2)
  also have "\<dots> \<le> N_DATA_BYTES_PER_BLOCK s" by (cases s) (simp_all add: N_def s6_const)
  finally show ?thesis .
qed

lemma gen_fake_data_at:
  assumes "b < N_BORS s" "pol < N_POLS_PER_BEAM s" "j < n_gpu_input_elements s" "a \<in> sample_bytes s b pol j"
  shows "gen_fake_data s noise d a = fake_byte s noise a"
proof -
  have "a \<in> (\<Union>b\<in>set [0..<N_BORS s]. \<Union>pol\<in>set [0..<N_POLS_PER_BEAM s]. \<Union>j\<in>set [0..<n_gpu_input_elements s]. sample_bytes s b pol j)"
    using assms by (intro UN_I [of b] UN_I [of pol] UN_I [of j]) simp_all
  then show ?thesis unfolding writesD [OF gen_fake_data_writes] by (rule if_P)
qed

text \<open>Each sample lands at its locator, and nothing behind the data of the block is written.\<close>

lemma fake_data_layout:
  fixes noise :: "nat \<Rightarrow> nat \<Rightarrow> sample"
  assumes "b < N_BORS s" "pol < N_POLS_PER_BEAM s" "j < n_gpu_input_elements s"
  defines "xy \<equiv> gen_time_series s (noise (b * N_POLS_PER_BEAM s + pol)) j"
    and "i \<equiv> dst_locator s b pol j"
  shows "gen_fake_data s noise d (N_BYTES_PER_SAMPLE s * i) = fst xy \<and>
    (s = SOURCE_FAST \<or> gen_fake_data s noise d (2 * i + 1) = snd xy) \<and>
    gen_fake_data s noise d (N_DATA_BYTES_PER_BLOCK s + k) = d (N_DATA_BYTES_PER_BLOCK s + k)"
proof -
  have 1: "N_BYTES_PER_SAMPLE s * i \<in> sample_bytes s b pol j" "s \<noteq> SOURCE_FAST \<Longrightarrow> 2 * i + 1 \<in> sample_bytes s b pol j"
    by (auto simp: sample_bytes_def i_def bps_cases)
  have "N_DATA_BYTES_PER_BLOCK s + k \<notin> sample_bytes s b' pol' j'"
    if "b' < N_BORS s" "pol' < N_POLS_PER_BEAM s" "j' < n_gpu_input_elements s" for b' pol' j'
    using locator_bound [OF that] by (simp add: sample_bytes_def)
  then have "N_DATA_BYTES_PER_BLOCK s + k \<notin> (\<Union>b\<in>set [0..<N_BORS s]. \<Union>pol\<in>set [0..<N_POLS_PER_BEAM s]. \<Union>j\<in>set [0..<n_gpu_input_elements s]. sample_bytes s b pol j)"
    by auto
  then have 2: "gen_fake_data s noise d (N_DATA_BYTES_PER_BLOCK s + k) = d (N_DATA_BYTES_PER_BLOCK s + k)"
    unfolding writesD [OF gen_fake_data_writes] by (rule if_not_P)
  show ?thesis
    using 2 gen_fake_data_at [OF assms(1-3) 1(1), of noise d] gen_fake_data_at [OF assms(1-3) 1(2), of noise d]
      fake_byte_at [OF assms(2,3), of noise b]
    unfolding xy_def i_def by (cases "s = SOURCE_FAST") simp_all
qed

subsection \<open>Extraction\<close>

definition dump_of :: "(nat \<Rightarrow> u8) \<Rightarrow> store \<Rightarrow> dump_file" where
  "dump_of hdr d = \<lparr>df_length = int (128 + N_DATA_BYTES_PER_BLOCK SOURCE_S6),
     df_byte = (\<lambda>p. if p < 128 then hdr (nat p) else d (nat p - 128))\<rparr>"

lemma sample_starts_even: "sample_starts SOURCE_S6 (2 * n) = map (\<lambda>k. 2 * k) [0..<n]"
  by (induction n) (simp_all add: sample_starts_def)

lemma extract_fold:
  assumes "\<And>k. k < n \<Longrightarrow> p + 1280 * int k + 1 < df_length f" "0 \<le> p"
  shows "fold (extract_step SOURCE_S6 f) (map (\<lambda>k. 2 * k) [0..<n]) (buff, p) =
    ((\<lambda>a. if a < 2 * n then df_byte f (p + 1280 * int (a div 2) + int (a mod 2)) else buff a), p + 1280 * int n)"
  using assms(1)
proof (induction n)
  case (Suc n)
  define g where "g = (\<lambda>m a. if a < 2 * m then df_byte f (p + 1280 * int (a div 2) + int (a mod 2)) else buff a)"
  have IH: "fold (extract_step SOURCE_S6 f) (map (\<lambda>k. 2 * k) [0..<n]) (buff, p) = (g n, p + 1280 * int n)"
    using Suc by (simp add: g_def)
  have r: "p + 1280 * int n + 1 < df_length f" using Suc.prems [of n] by simp
  have "extract_step SOURCE_S6 f (2 * n) (g n, p + 1280 * int n) =
      ((g n)(2 * n := df_byte f (p + 1280 * int n), 2 * n + 1 := df_byte f (p + 1280 * int n + 1)), p + 1280 * int (Suc n))"
    using r assms(2) by (simp add: extract_step_def fread1_def fseek_cur_def algebra_simps)
  also have "(g n)(2 * n := df_byte f (p + 1280 * int n), 2 * n + 1 := df_byte f (p + 1280 * int n + 1)) = g (Suc n)"
    by (rule ext) (auto simp: g_def less_Suc_eq)
  finally show ?case using IH by (simp add: g_def)
qed simp

text \<open>C29: From a file with a 128-byte header followed by generated Arecibo data, the extraction
  tool prints exactly the samples generated for the chosen beam, polarisation and coarse
  channel.\<close>
theorem fake_data_extracted:
  assumes "beam < N_BEAMS SOURCE_S6" "cc < N_COARSE_CHAN SOURCE_S6" "pol < N_POLS_PER_BEAM SOURCE_S6"
    and "0 < n" "n \<le> N_FINE_CHAN SOURCE_S6"
  shows "extract_coarse_chan SOURCE_S6 buff (dump_of hdr (gen_fake_data SOURCE_S6 noise d)) (int cc) (int n) (int beam) (int pol) =
    map (\<lambda>t. case gen_time_series SOURCE_S6 (noise (beam * 2 + pol)) (t * 320 + cc) of (x, y) \<Rightarrow> (sint x, sint y)) [0..<n]"
proof -
  define f where "f = dump_of hdr (gen_fake_data SOURCE_S6 noise d)"
  define p where "p = 128 + 2 * (41943040 * 2 * int beam + 2 * int cc + int pol)"
  define h where "h = gen_time_series SOURCE_S6 (noise (beam * 2 + pol))"
  have j: "t * 320 + cc < n_gpu_input_elements SOURCE_S6" if "t < n" for t
    using that assms(2,5) by (simp add: n_gpu_input_elements_def)
  have a: "nat (p + 1280 * int t) - 128 = 2 * dst_locator SOURCE_S6 beam pol (t * 320 + cc)"
    "nat (p + 1280 * int t + 1) - 128 = 2 * dst_locator SOURCE_S6 beam pol (t * 320 + cc) + 1"
    "\<not> p + 1280 * int t < 128" "\<not> p + 1280 * int t + 1 < 128" for t
    by (simp_all add: p_def dst_locator_def nat_add_distrib nat_mult_distrib)
  have b: "df_byte f (p + 1280 * int t) = fst (h (t * 320 + cc))" "df_byte f (p + 1280 * int t + 1) = snd (h (t * 320 + cc))"
    if "t < n" for t
    using gen_fake_data_at [of beam SOURCE_S6 pol "t * 320 + cc" "2 * dst_locator SOURCE_S6 beam pol (t * 320 + cc)" noise d]
      gen_fake_data_at [of beam SOURCE_S6 pol "t * 320 + cc" "2 * dst_locator SOURCE_S6 beam pol (t * 320 + cc) + 1" noise d]
      fake_byte_at [OF _ j [OF that], of pol noise beam] assms(1,3) j [OF that]
    by (simp_all add: f_def dump_of_def a h_def sample_bytes_def)
  have len: "p + 1280 * int k + 1 < df_length f" if "k < n" for k
    using that assms by (simp add: f_def dump_of_def p_def s6_const)
  have "0 \<le> p" by (simp add: p_def)
  note fold = extract_fold [of n p f buff, OF len this]
  have "fseek_cur (fseek_cur 128 (int beam * int (2 * (131072 * 320 * 2)))) (int cc * 2 * 2 + int pol * 2) = p"
    by (simp add: fseek_cur_def p_def algebra_simps)
  then have "extract_coarse_chan SOURCE_S6 buff f (int cc) (int n) (int beam) (int pol) =
      map ((\<lambda>i. (sint (if i < 2 * n then df_byte f (p + 1280 * int (i div 2) + int (i mod 2)) else buff i),
                  sint (if i + 1 < 2 * n then df_byte f (p + 1280 * int ((i + 1) div 2) + int ((i + 1) mod 2)) else buff (i + 1)))) \<circ> (\<lambda>k. 2 * k)) [0..<n]"
    using assms(4) fold by (simp add: extract_coarse_chan_def Let_def nat_mult_distrib sample_starts_even mult.commute [of "int n"] nat_mult_distrib)
  also have "\<dots> = map (\<lambda>t. case h (t * 320 + cc) of (x, y) \<Rightarrow> (sint x, sint y)) [0..<n]"
    by (rule map_cong) (simp_all add: b split_beta)
  finally show ?thesis by (simp add: f_def h_def)
qed

theorem fake_data_extracted_witness:
  "extract_coarse_chan SOURCE_S6 (\<lambda>a. 0) (dump_of (\<lambda>a. 0) (gen_fake_data SOURCE_S6 (\<lambda>k i. (1, 2)) (\<lambda>a. 7))) 319 2 6 1 =
    map (\<lambda>t. case gen_time_series SOURCE_S6 (\<lambda>i. (1, 2)) (t * 320 + 319) of (x, y) \<Rightarrow> (sint x, sint y)) [0..<2]"
  using fake_data_extracted [of 6 319 1 2 "\<lambda>a. 0" "\<lambda>a. 0" "\<lambda>k i. (1, 2)" "\<lambda>a. 7"] by simp

subsection \<open>The fake network thread\<close>

definition fake_calls :: "site \<Rightarrow> nat \<Rightarrow> nat \<Rightarrow> ring_call list" where
  "fake_calls s k n = concat (map (\<lambda>k. [Wait_free (k mod N_INPUT_BLOCKS s), Set_filled (k mod N_INPUT_BLOCKS s)]) [k..<k + n])"

lemma fake_calls_simps [simp]:
  "fake_calls s k 0 = []"
  "fake_calls s k (Suc n) = [Wait_free (k mod N_INPUT_BLOCKS s), Set_filled (k mod N_INPUT_BLOCKS s)] @ fake_calls s (Suc k) n"
  by (simp_all add: fake_calls_def upt_conv_Cons del: upt_Suc)

lemma fake_wait_recorder:
  "fake_wait_free recorder so key st = Some (st\<lparr>fk_sem := fk_sem st @ [Wait_free (fk_block_idx st)]\<rparr>, True)"
  by (subst fake_wait_free.simps) (simp add: s6_databuf_wrappers recorder_def)

lemma set_data_nth: "i < length bs \<Longrightarrow> ib_data (set_data i f bs ! j) = (if j = i then f (ib_data (bs ! i)) else ib_data (bs ! j))"
  by (simp add: set_data_def)

lemma length_set_data_fake: "length (set_data i f bs) = length bs"
  by (simp add: set_data_def)

definition same_data :: "site \<Rightarrow> nat set \<Rightarrow> in_block list \<Rightarrow> bool" where
  "same_data s I bs = (\<forall>i\<in>I. \<forall>a<N_DATA_BYTES_PER_BLOCK s. ib_data (bs ! i) a = ib_data (bs ! 0) a)"

lemma fold_copy:
  fixes s :: site
  assumes "list_all (\<lambda>i. 0 < i \<and> i < length bs) is"
  defines "copy \<equiv> \<lambda>i bs. set_data i (\<lambda>d. memcpy d 0 (ib_data (bs ! 0)) (N_DATA_BYTES_PER_BLOCK s)) bs"
  shows "same_data s I bs \<Longrightarrow> same_data s (I \<union> set is) (fold copy is bs) \<and> length (fold copy is bs) = length bs"
  using assms(1)
proof (induction "is" arbitrary: bs I)
  case (Cons i "is")
  have "same_data s (insert i I) (copy i bs)" "length (copy i bs) = length bs"
    using Cons.prems by (auto simp: same_data_def copy_def set_data_nth memcpy_def length_set_data_fake)
  with Cons.IH [of "insert i I" "copy i bs"] Cons.prems(2) show ?case by simp
qed simp

lemma fake_generate_same:
  assumes "length bs = N_INPUT_BLOCKS s"
  shows "same_data s {..<N_INPUT_BLOCKS s} (fake_generate s noise bs) \<and> length (fake_generate s noise bs) = N_INPUT_BLOCKS s"
proof -
  have "same_data s {0} (set_data 0 (gen_fake_data s noise) bs)" by (simp add: same_data_def)
  from fold_copy [OF _ this, of "[1..<N_INPUT_BLOCKS s]"] assms
  have "same_data s ({0} \<union> {1..<N_INPUT_BLOCKS s}) (fake_generate s noise bs) \<and> length (fake_generate s noise bs) = N_INPUT_BLOCKS s"
    by (simp add: fake_generate_def Let_def list_all_iff length_set_data_fake)
  moreover have "{0} \<union> {1..<N_INPUT_BLOCKS s} = {..<N_INPUT_BLOCKS s}" by (cases s) auto
  ultimately show ?thesis by simp
qed

lemma same_data_header: "same_data s I bs \<Longrightarrow> same_data s I (set_header i f bs)"
  by (simp add: same_data_def)

lemma fake_step_recorder:
  "\<exists>buf. fake_step s recorder so key noise st = Some (Continue (st\<lparr>fk_status := buf,
     fk_blocks := (if fk_gen_fake st \<noteq> 0 then fake_generate s noise else id)
        (set_header (fk_block_idx st) (fake_header s (fk_mcnt st)) (fk_blocks st)),
     fk_gen_fake := 0, fk_sem := fk_sem st @ [Wait_free (fk_block_idx st), Set_filled (fk_block_idx st)],
     fk_block_idx := (fk_block_idx st + 1) mod N_INPUT_BLOCKS s, fk_mcnt := fk_mcnt st + 1\<rparr>))"
  by (simp add: fake_step_def Let_def fake_wait_recorder s6_input_databuf_set_filled_def, simp add: recorder_def,
      intro conjI impI; rule exI, rule refl)

lemma fake_loop_recorder:
  assumes "length (fk_blocks st) = N_INPUT_BLOCKS s" "fk_block_idx st = k mod N_INPUT_BLOCKS s" "fk_mcnt st = of_nat k"
    and "fk_gen_fake st = 0" "same_data s {..<N_INPUT_BLOCKS s} (fk_blocks st)"
  shows "\<exists>st'. fake_loop s recorder so key noise n st = Some (Continue st') \<and>
    fk_sem st' = fk_sem st @ fake_calls s k n \<and>
    fk_mcnt st' = of_nat (k + n) \<and> same_data s {..<N_INPUT_BLOCKS s} (fk_blocks st')"
  using assms
proof (induction n arbitrary: k st)
  case (Suc n)
  obtain buf where step: "fake_step s recorder so key noise st = Some (Continue (st\<lparr>fk_status := buf,
     fk_blocks := set_header (fk_block_idx st) (fake_header s (fk_mcnt st)) (fk_blocks st),
     fk_gen_fake := 0, fk_sem := fk_sem st @ [Wait_free (fk_block_idx st), Set_filled (fk_block_idx st)],
     fk_block_idx := (fk_block_idx st + 1) mod N_INPUT_BLOCKS s, fk_mcnt := fk_mcnt st + 1\<rparr>))"
    using fake_step_recorder [of s so key noise st] Suc.prems(4) by auto
  show ?case
    using Suc.IH [of "st\<lparr>fk_status := buf,
     fk_blocks := set_header (fk_block_idx st) (fake_header s (fk_mcnt st)) (fk_blocks st),
     fk_gen_fake := 0, fk_sem := fk_sem st @ [Wait_free (fk_block_idx st), Set_filled (fk_block_idx st)],
     fk_block_idx := (fk_block_idx st + 1) mod N_INPUT_BLOCKS s, fk_mcnt := fk_mcnt st + 1\<rparr>" "Suc k"] Suc.prems
    by (simp add: step same_data_header mod_Suc_eq add.commute)
qed simp

theorem fake_thread_fills_in_order:
  assumes "length (fk_blocks st) = N_INPUT_BLOCKS s" "hgeti4 so (fk_status (fake_begin s so st)) ''GENFAKE'' = Some 1"
  shows "\<exists>st'. fake_net_run s recorder so key noise (Suc n) st = Some (Continue st') \<and>
    fk_sem st' = fk_sem st @ fake_calls s 0 (Suc n) \<and> fk_mcnt st' = of_nat (Suc n) \<and>
    same_data s {..<N_INPUT_BLOCKS s} (fk_blocks st')"
proof -
  define st0 where "st0 = fake_begin s so st"
  have 0: "fk_block_idx st0 = 0" "fk_mcnt st0 = 0" "fk_gen_fake st0 = 1" "fk_sem st0 = fk_sem st" "fk_blocks st0 = fk_blocks st"
    using assms(2) by (simp_all add: st0_def fake_begin_def Let_def)
  define bs where "bs = fake_generate s noise (set_header 0 (fake_header s 0) (fk_blocks st))"
  have same: "same_data s {..<N_INPUT_BLOCKS s} bs \<and> length bs = N_INPUT_BLOCKS s"
    unfolding bs_def by (rule fake_generate_same) (simp add: assms(1))
  have N: "N_INPUT_BLOCKS s \<noteq> Suc 0" by (cases s) simp_all
  obtain buf where step: "fake_step s recorder so key noise st0 = Some (Continue (st0\<lparr>fk_status := buf, fk_blocks := bs,
     fk_gen_fake := 0, fk_sem := fk_sem st @ [Wait_free 0, Set_filled 0], fk_block_idx := 1, fk_mcnt := 1\<rparr>))"
    using fake_step_recorder [of s so key noise st0] by (auto simp: 0 bs_def N)
  show ?thesis
    using fake_loop_recorder [of "st0\<lparr>fk_status := buf, fk_blocks := bs, fk_gen_fake := 0,
      fk_sem := fk_sem st @ [Wait_free 0, Set_filled 0], fk_block_idx := 1, fk_mcnt := 1\<rparr>" s 1 so key noise n] same N
    by (simp add: fake_net_run_def st0_def [symmetric] step)
qed

definition demo_fake :: "site \<Rightarrow> (ring_call list, (string \<times> stval) list) fake_state" where
  "demo_fake s = \<lparr>fk_block_idx = 0, fk_mcnt = 0, fk_gen_fake = 0,
     fk_blocks = replicate (N_INPUT_BLOCKS s) \<lparr>ib_header = \<lparr>ih_mcnt = 0, ih_coarse_chan_id = 0, ih_num_coarse_chan = 0, ih_sid = 0,
       ih_time_sec = 0, ih_time_nsec = 0, ih_missed_pkts = replicate (N_BORS s) 0\<rparr>, ib_data = (\<lambda>_. 0)\<rparr>,
     fk_sem = [], fk_status = [(''GENFAKE'', I4 1)]\<rparr>"

theorem fake_thread_fills_in_order_witness:
  "\<exists>st'. fake_net_run SOURCE_S6 recorder list_status ''NETSTAT'' noise (Suc 3) (demo_fake SOURCE_S6) = Some (Continue st') \<and>
    fk_sem st' = [Wait_free 0, Set_filled 0, Wait_free 1, Set_filled 1, Wait_free 2, Set_filled 2, Wait_free 0, Set_filled 0]"
proof -
  have 1: "length (fk_blocks (demo_fake SOURCE_S6)) = N_INPUT_BLOCKS SOURCE_S6" "fk_sem (demo_fake SOURCE_S6) = []"
    by (simp_all add: demo_fake_def)
  have 2: "hgeti4 list_status (fk_status (fake_begin SOURCE_S6 list_status (demo_fake SOURCE_S6))) ''GENFAKE'' = Some 1"
    by (simp add: demo_fake_def fake_begin_def list_status_def)
  have 3: "fake_calls SOURCE_S6 0 (Suc 3) = [Wait_free 0, Set_filled 0, Wait_free 1, Set_filled 1, Wait_free 2, Set_filled 2, Wait_free 0, Set_filled 0]"
  proof -
    have "Suc 3 = Suc (Suc (Suc (Suc 0)))" by simp
    then show ?thesis by (simp only: fake_calls_simps) simp
  qed
  show ?thesis
    using fake_thread_fills_in_order [OF 1(1) 2, of "''NETSTAT''" noise 3] unfolding 1(2) 3 append_Nil by blast
qed

end
