(* ===== verification/S6_Chan2if.thy ===== *)
theory S6_Chan2if
  imports S6_Obs
begin

unbundle bit_operations_syntax

text \<open>
  \<open>s6_chan2if.cpp\<close>: the intermediate frequency of a hit, from the channel numbers in an ETFITS file.
  Its \<open>int\<close>s are 32-bit words that wrap; its \<open>double\<close>s are reals.
\<close>

record obs_params =
  op_clock :: real
  op_cc_per_sys :: real
  op_cc_per_instance :: u32
  op_start_cc :: u32
  op_fc_per_cc :: u32

definition gbt_params :: obs_params where
  "gbt_params = \<lparr>op_clock = 3000, op_cc_per_sys = 4096, op_cc_per_instance = 512, op_start_cc = 0, op_fc_per_cc = 2 ^ 19\<rparr>"

definition ao_params :: obs_params where
  "ao_params = \<lparr>op_clock = 896, op_cc_per_sys = 4096, op_cc_per_instance = 320, op_start_cc = 1006, op_fc_per_cc = 2 ^ 17\<rparr>"

definition gbt_signed_fc :: "u32 \<Rightarrow> u32" where
  "gbt_signed_fc unsigned_fc = (unsigned_fc AND 0x0007FFFF) OR (if unsigned_fc AND 0x00040000 \<noteq> 0 then 0xFFF80000 else 0)"

definition ao_signed_fc :: "u32 \<Rightarrow> u32" where
  "ao_signed_fc unsigned_fc = (unsigned_fc AND 0x0001FFFF) OR (if unsigned_fc AND 0x00010000 \<noteq> 0 then 0xFFFE0000 else 0)"

record if_report =
  ir_sys_cc :: u32
  ir_sys_fc :: u32
  ir_ifreq :: real
  ir_resolution :: real
  ir_time_resolution :: real

definition chan2if :: "obs_params \<Rightarrow> (u32 \<Rightarrow> u32) \<Rightarrow> u32 \<Rightarrow> u32 \<Rightarrow> u32 \<Rightarrow> if_report" where
  "chan2if op sign_extend instance_no cc unsigned_fc =
     (let band_width = op_clock op / 2;
          fc_bin_width = band_width / (op_cc_per_sys op * real_of_int (sint (op_fc_per_cc op)));
          resolution = fc_bin_width * 1000000;
          sys_cc = op_start_cc op + instance_no * op_cc_per_instance op + cc;
          signed_fc = sign_extend unsigned_fc;
          sys_fc = op_fc_per_cc op * sys_cc + signed_fc;
          ifreq = real_of_int (sint (sys_fc + op_fc_per_cc op)) * resolution / 1000000
      in \<lparr>ir_sys_cc = sys_cc, ir_sys_fc = sys_fc, ir_ifreq = ifreq, ir_resolution = resolution,
          ir_time_resolution = 1 / resolution\<rparr>)"

datatype chan2if_exit = Usage | Bad_observatory | Report if_report

definition chan2if_main :: "string list \<Rightarrow> chan2if_exit" where
  "chan2if_main argv =
     (if length argv \<noteq> 5 \<or> argv ! 1 = ''-h'' then Usage
      else
        (let observatory = argv ! 1;
             instance_no = of_int (atoi (argv ! 2));
             cc = of_int (atoi (argv ! 3));
             unsigned_fc = of_int (atoi (argv ! 4))
         in if observatory = ''gbt'' then Report (chan2if gbt_params gbt_signed_fc instance_no cc unsigned_fc)
            else if observatory = ''ao'' then Report (chan2if ao_params ao_signed_fc instance_no cc unsigned_fc)
            else Bad_observatory))"

subsection \<open>Sign extension\<close>

lemma sign_extend_word:
  assumes "n < 32" "m = mask (Suc n)" "t = push_bit n 1" "h = NOT (mask (Suc n) :: u32)" "(w :: u32) = of_nat k" "k < 2 ^ Suc n"
  shows "(w AND m) OR (if w AND t \<noteq> 0 then h else 0) = of_int (if k < 2 ^ n then int k else int k - 2 ^ Suc n)"
proof -
  have w: "w AND m = w" unfolding assms(2) take_bit_eq_mask [symmetric]
    using assms(1,5,6) by (simp add: take_bit_of_nat take_bit_nat_eq_self)
  have b: "(w AND t \<noteq> 0) = (\<not> k < 2 ^ n)"
  proof -
    have "(w AND t \<noteq> 0) = bit w n" unfolding assms(3) by (simp add: bit_iff_and_push_bit_not_eq_0)
    also have "\<dots> = bit k n" using assms(1) by (simp add: assms(5) bit_of_nat_iff)
    also have "\<dots> = odd (k div 2 ^ n)" by (rule bit_iff_odd)
    also have "\<dots> = (\<not> k < 2 ^ n)"
    proof (cases "k < 2 ^ n")
      case False
      then have "k div 2 ^ n = 1" using assms(6) by (intro div_nat_eqI) simp_all
      then show ?thesis using False by simp
    qed simp
    finally show ?thesis .
  qed
  have "w OR NOT (mask (Suc n)) = w + NOT (mask (Suc n))"
  proof (rule disjunctive_add [symmetric])
    fix i show "\<not> bit w i \<or> \<not> bit (NOT (mask (Suc n)) :: u32) i"
      by (metis w assms(2) bit_and_iff bit_not_iff)
  qed
  also have "\<dots> = w - 2 ^ Suc n" by (simp add: mask_eq_exp_minus_1 not_eq_complement)
  finally have "w OR h = w - 2 ^ Suc n" by (simp add: assms(4))
  then show ?thesis using w b by (simp add: assms(5))
qed

definition fine_offset :: "nat \<Rightarrow> nat \<Rightarrow> int" where
  "fine_offset n k = (if k < 2 ^ n then int k else int k - 2 ^ Suc n)"

lemma gbt_signed_fc_value: "k < 2 ^ 19 \<Longrightarrow> gbt_signed_fc (of_nat k) = of_int (fine_offset 18 k)"
  unfolding gbt_signed_fc_def fine_offset_def
  by (rule sign_extend_word) (simp_all add: mask_eq_exp_minus_1 not_eq_complement)

lemma ao_signed_fc_value: "k < 2 ^ 17 \<Longrightarrow> ao_signed_fc (of_nat k) = of_int (fine_offset 16 k)"
  unfolding ao_signed_fc_def fine_offset_def
  by (rule sign_extend_word) (simp_all add: mask_eq_exp_minus_1 not_eq_complement)

lemma sint_small: "- (2 ^ 31) \<le> v \<Longrightarrow> v < 2 ^ 31 \<Longrightarrow> sint (of_int v :: u32) = v"
  by (simp add: sint_sbintrunc' signed_take_bit_int_eq_self)

text \<open>The frequency is exact as long as the sum stays below the largest \<open>int\<close>.\<close>

lemma gbt_frequency:
  fixes i c k :: nat
  assumes "k < 2 ^ 19"
  defines "v \<equiv> 2 ^ 19 * (512 * int i + int c) + fine_offset 18 k + 2 ^ 19"
  shows "ir_ifreq (chan2if gbt_params gbt_signed_fc (of_nat i) (of_nat c) (of_nat k)) =
    real_of_int (sint (of_int v :: u32)) * (1500 / (4096 * 2 ^ 19))"
proof -
  have "2 ^ 19 * (of_nat i * 512 + of_nat c) + of_int (fine_offset 18 k) + 2 ^ 19 = (of_int v :: u32)"
    by (simp add: v_def algebra_simps)
  then show ?thesis using gbt_signed_fc_value [OF assms(1)]
    by (simp add: chan2if_def gbt_params_def Let_def algebra_simps)
qed

lemma ao_frequency:
  fixes i c k :: nat
  assumes "k < 2 ^ 17"
  defines "v \<equiv> 2 ^ 17 * (1006 + 320 * int i + int c) + fine_offset 16 k + 2 ^ 17"
  shows "ir_ifreq (chan2if ao_params ao_signed_fc (of_nat i) (of_nat c) (of_nat k)) =
    real_of_int (sint (of_int v :: u32)) * (448 / (4096 * 2 ^ 17))"
proof -
  have "2 ^ 17 * (1006 + of_nat i * 320 + of_nat c) + of_int (fine_offset 16 k) + 2 ^ 17 = (of_int v :: u32)"
    by (simp add: v_def algebra_simps)
  then show ?thesis using ao_signed_fc_value [OF assms(1)]
    by (simp add: chan2if_def ao_params_def Let_def algebra_simps)
qed

lemma fine_offset_bounds:
  "k < 2 ^ 19 \<Longrightarrow> - 262144 \<le> fine_offset 18 k \<and> fine_offset 18 k < 262144"
  "k < 2 ^ 17 \<Longrightarrow> - 65536 \<le> fine_offset 16 k \<and> fine_offset 16 k < 65536"
  by (simp_all add: fine_offset_def)

theorem chan2if_frequency:
  assumes "i < 8"
  shows "(c < 512 \<and> k < 2 ^ 19 \<and> 512 * i + c < 4095 \<longrightarrow>
      ir_ifreq (chan2if gbt_params gbt_signed_fc (of_nat i) (of_nat c) (of_nat k)) =
        (real (512 * i + c) + 1 + real_of_int (fine_offset 18 k) / 2 ^ 19) * 1500 / 4096) \<and>
    (c < 320 \<and> k < 2 ^ 17 \<longrightarrow>
      ir_ifreq (chan2if ao_params ao_signed_fc (of_nat i) (of_nat c) (of_nat k)) =
        (real (1006 + 320 * i + c) + 1 + real_of_int (fine_offset 16 k) / 2 ^ 17) * 448 / 4096)"
proof (intro conjI impI)
  assume g: "c < 512 \<and> k < 2 ^ 19 \<and> 512 * i + c < 4095"
  define v where "v = 2 ^ 19 * (512 * int i + int c) + fine_offset 18 k + 2 ^ 19"
  have "- 262144 \<le> fine_offset 18 k" "fine_offset 18 k < 262144" using fine_offset_bounds(1) [of k] g by simp_all
  moreover have "0 \<le> 512 * int i + int c" "512 * int i + int c \<le> 4094" using g by linarith+
  ultimately have "sint (of_int v :: u32) = v" unfolding v_def by (intro sint_small) simp_all
  then show "ir_ifreq (chan2if gbt_params gbt_signed_fc (of_nat i) (of_nat c) (of_nat k)) =
        (real (512 * i + c) + 1 + real_of_int (fine_offset 18 k) / 2 ^ 19) * 1500 / 4096"
    using gbt_frequency [of k i c, folded v_def] g by (simp add: v_def field_simps)
next
  assume g: "c < 320 \<and> k < 2 ^ 17"
  define v where "v = 2 ^ 17 * (1006 + 320 * int i + int c) + fine_offset 16 k + 2 ^ 17"
  have "- 65536 \<le> fine_offset 16 k" "fine_offset 16 k < 65536" using fine_offset_bounds(2) [of k] g by simp_all
  moreover have "0 \<le> 320 * int i + int c" "320 * int i + int c \<le> 2559" using g assms by linarith+
  ultimately have "sint (of_int v :: u32) = v" unfolding v_def by (intro sint_small) simp_all
  then show "ir_ifreq (chan2if ao_params ao_signed_fc (of_nat i) (of_nat c) (of_nat k)) =
        (real (1006 + 320 * i + c) + 1 + real_of_int (fine_offset 16 k) / 2 ^ 17) * 448 / 4096"
    using ao_frequency [of k i c, folded v_def] g by (simp add: v_def field_simps)
qed

theorem chan2if_frequency_witness:
  "ir_ifreq (chan2if gbt_params gbt_signed_fc (of_nat 3) (of_nat 17) (of_nat 524287)) = (1553 + 1 - 1 / 2 ^ 19) * 1500 / 4096"
  using chan2if_frequency [of 3 17 524287] by (simp add: fine_offset_def)

theorem last_channel_overflows:
  assumes "k < 2 ^ 18"
  shows "ir_ifreq (chan2if gbt_params gbt_signed_fc (of_nat 7) (of_nat 511) (of_nat k)) = (real k / 2 ^ 19 - 4096) * 1500 / 4096"
proof -
  define v where "v = int k - 2 ^ 31"
  have v: "2 ^ 19 * (512 * int 7 + int 511) + fine_offset 18 k + 2 ^ 19 = v + 2 ^ 32"
    using assms by (simp add: fine_offset_def v_def)
  have "(of_int (v + 2 ^ 32) :: u32) = of_int v" by (simp only: of_int_add of_int_power of_int_numeral) simp
  moreover have "sint (of_int v :: u32) = v" using assms by (intro sint_small) (simp_all add: v_def)
  ultimately have w: "sint (of_int (v + 2 ^ 32) :: u32) = v" by (simp only:)
  have "ir_ifreq (chan2if gbt_params gbt_signed_fc (of_nat 7) (of_nat 511) (of_nat k)) =
      real_of_int v * (1500 / (4096 * 2 ^ 19))"
    using assms by (intro gbt_frequency [of k 7 511, unfolded v w]) simp
  then show ?thesis by (simp add: v_def field_simps)
qed

theorem last_channel_overflows_witness:
  "ir_ifreq (chan2if gbt_params gbt_signed_fc (of_nat 7) (of_nat 511) (of_nat 0)) = - 1500"
  using last_channel_overflows [of 0] by simp

end
