(* ===== verification/S6_Obs_Members.thy ===== *)
theory S6_Obs_Members
  imports S6_Obs_Gbt
begin

text \<open>
  The members of \<open>gbtstatus_t\<close> with their C types, \<open>src/src/s6_obs_data_gbt.h\<close>, against the
  assignments the Green Bank status reader makes: no string outgrows its array, and the only
  integers that lose bits are the times of the ADC statistics.
\<close>

datatype ctype = Cchars nat | Clong | Cdouble | Cint

definition gbtstatus_members_1 :: "(string \<times> ctype) list" where
  "gbtstatus_members_1 = [
     (''LASTUPDT'', Cchars 32), (''LASTUPDTSTIME'', Clong), (''LST'', Cchars 32), (''LSTSTIME'', Clong),
     (''UTC'', Cchars 32), (''UTCSTIME'', Clong), (''MJD'', Cdouble), (''MJDSTIME'', Clong), (''EPOCH'', Cchars 32),
     (''EPOCHSTIME'', Clong), (''MAJTYPE'', Cchars 32), (''MAJTYPESTIME'', Clong), (''MINTYPE'', Cchars 32),
     (''MINTYPESTIME'', Clong), (''MAJOR'', Cchars 32), (''MAJORSTIME'', Clong), (''MINOR'', Cchars 32),
     (''MINORSTIME'', Clong), (''AZCOMM'', Cdouble), (''AZCOMMSTIME'', Clong), (''ELCOMM'', Cdouble),
     (''ELCOMMSTIME'', Clong), (''AZACTUAL'', Cdouble), (''AZACTUALSTIME'', Clong), (''ELACTUAL'', Cdouble),
     (''ELACTUALSTIME'', Clong), (''AZERROR'', Cdouble), (''AZERRORSTIME'', Clong), (''ELERROR'', Cdouble),
     (''ELERRORSTIME'', Clong), (''LPCS'', Cchars 32), (''LPCSSTIME'', Clong), (''FOCUSOFF'', Cchars 32),
     (''FOCUSOFFSTIME'', Clong), (''ANTMOT'', Cchars 32), (''ANTMOTSTIME'', Clong), (''RECEIVER'', Cchars 32),
     (''RECEIVERSTIME'', Clong), (''IFFRQ1ST'', Cdouble), (''IFFRQ1STSTIME'', Clong), (''IFFRQRST'', Cdouble),
     (''IFFRQRSTSTIME'', Clong), (''DCRSCFRQ'', Cdouble), (''DCRSCFRQSTIME'', Clong), (''SPRCSFRQ'', Cdouble),
     (''SPRCSFRQSTIME'', Clong), (''FREQ'', Cdouble), (''FREQSTIME'', Clong), (''VELFRAME'', Cchars 32),
     (''VELFRAMESTIME'', Clong), (''VELDEF'', Cchars 32), (''VELDEFSTIME'', Clong), (''J2000MAJ'', Cdouble),
     (''J2000MAJSTIME'', Clong), (''J2000MIN'', Cdouble), (''J2000MINSTIME'', Clong), (''LSTH_DRV'', Cdouble),
     (''LSTH_DRVSTIME'', Clong), (''RA_DRV'', Cdouble), (''RA_DRVSTIME'', Clong), (''RADG_DRV'', Cdouble),
     (''RADG_DRVSTIME'', Clong), (''DEC_DRV'', Cdouble), (''DEC_DRVSTIME'', Clong), (''ATATCOTM'', Cchars 32),
     (''ATATCOTMSTIME'', Clong), (''ATATCOTMMJD'', Cdouble), (''ATBEELOF'', Cchars 32), (''ATBEELOFSTIME'', Clong),
     (''ATBEELOFMJD'', Cdouble), (''ATBOT1EO'', Cchars 32), (''ATBOT1EOSTIME'', Clong), (''ATBOT1EOMJD'', Cdouble),
     (''ATBOT1XO'', Cchars 32), (''ATBOT1XOSTIME'', Clong), (''ATBOT1XOMJD'', Cdouble), (''ATBOT1NM'', Cchars 32),
     (''ATBOT1NMSTIME'', Clong), (''ATBOT1NMMJD'', Cdouble), (''ATBOT1F1'', Cchars 32), (''ATBOT1F1STIME'', Clong),
     (''ATBOT1F1MJD'', Cdouble), (''ATBOT1F2'', Cchars 32), (''ATBOT1F2STIME'', Clong), (''ATBOT1F2MJD'', Cdouble),
     (''ATBEXLOF'', Cchars 32), (''ATBEXLOFSTIME'', Clong), (''ATBEXLOFMJD'', Cdouble), (''ATFCTRMD'', Cchars 32),
     (''ATFCTRMDSTIME'', Clong), (''ATFCTRMDMJD'', Cdouble), (''ATGREGRC'', Cchars 32), (''ATGREGRCSTIME'', Clong),
     (''ATGREGRCMJD'', Cdouble), (''ATLFCX'', Cchars 32), (''ATLFCXSTIME'', Clong), (''ATLFCXMJD'', Cdouble),
     (''ATLFCXT'', Cchars 32), (''ATLFCXTSTIME'', Clong), (''ATLFCXTMJD'', Cdouble), (''ATLFCY'', Cchars 32),
     (''ATLFCYSTIME'', Clong), (''ATLFCYMJD'', Cdouble), (''ATLFCYT'', Cchars 32), (''ATLFCYTSTIME'', Clong),
     (''ATLFCYTMJD'', Cdouble), (''ATLFCZ'', Cchars 32), (''ATLFCZSTIME'', Clong), (''ATLFCZMJD'', Cdouble),
     (''ATLFCZT'', Cchars 32), (''ATLFCZTSTIME'', Clong), (''ATLFCZTMJD'', Cdouble), (''ATLPOAZ1'', Cchars 32),
     (''ATLPOAZ1STIME'', Clong), (''ATLPOAZ1MJD'', Cdouble), (''ATLPOAZ2'', Cchars 32), (''ATLPOAZ2STIME'', Clong),
     (''ATLPOAZ2MJD'', Cdouble), (''ATLPOEL'', Cchars 32), (''ATLPOELSTIME'', Clong)]"

definition gbtstatus_members_2 :: "(string \<times> ctype) list" where
  "gbtstatus_members_2 = [
     (''ATLPOELMJD'', Cdouble), (''ATMATMCA'', Cchars 32), (''ATMATMCASTIME'', Clong), (''ATMATMCAMJD'', Cdouble),
     (''ATMATMCM'', Cchars 32), (''ATMATMCMSTIME'', Clong), (''ATMATMCMMJD'', Cdouble), (''ATMATMCT'', Cchars 32),
     (''ATMATMCTSTIME'', Clong), (''ATMATMCTMJD'', Cdouble), (''ATMCDCJ2'', Cchars 32), (''ATMCDCJ2STIME'', Clong),
     (''ATMCDCJ2MJD'', Cdouble), (''ATMCRAJ2'', Cchars 32), (''ATMCRAJ2STIME'', Clong), (''ATMCRAJ2MJD'', Cdouble),
     (''ATMFBS'', Cchars 32), (''ATMFBSSTIME'', Clong), (''ATMFBSMJD'', Cdouble), (''ATMTLS'', Cchars 32),
     (''ATMTLSSTIME'', Clong), (''ATMTLSMJD'', Cdouble), (''ATOPTMOD'', Cchars 32), (''ATOPTMODSTIME'', Clong),
     (''ATOPTMODMJD'', Cdouble), (''ATRECVR'', Cchars 32), (''ATRECVRSTIME'', Clong), (''ATRECVRMJD'', Cdouble),
     (''ATRXOCTA'', Cchars 32), (''ATRXOCTASTIME'', Clong), (''ATRXOCTAMJD'', Cdouble), (''ATTRBEAM'', Cchars 32),
     (''ATTRBEAMSTIME'', Clong), (''ATTRBEAMMJD'', Cdouble), (''ATTURLOC'', Cchars 256), (''ATTURLOCSTIME'', Clong),
     (''ATTURLOCMJD'', Cdouble), (''BAMBAMCA'', Cchars 32), (''BAMBAMCASTIME'', Clong), (''BAMBAMCAMJD'', Cdouble),
     (''BAMBAMCM'', Cchars 32), (''BAMBAMCMSTIME'', Clong), (''BAMBAMCMMJD'', Cdouble), (''BAMBAMCT'', Cchars 32),
     (''BAMBAMCTSTIME'', Clong), (''BAMBAMCTMJD'', Cdouble), (''BAMMPWR1'', Cchars 32), (''BAMMPWR1STIME'', Clong),
     (''BAMMPWR1MJD'', Cdouble), (''BAMMPWR2'', Cchars 32), (''BAMMPWR2STIME'', Clong), (''BAMMPWR2MJD'', Cdouble),
     (''CLEOPID'', Cchars 32), (''CLEOPIDSTIME'', Clong), (''CLEOPIDMJD'', Cdouble), (''CLEOREV'', Cchars 32),
     (''CLEOREVSTIME'', Clong), (''CLEOREVMJD'', Cdouble), (''IFMIFMCM'', Cchars 32), (''IFMIFMCMSTIME'', Clong),
     (''IFMIFMCMMJD'', Cdouble), (''IFV1BW'', Cchars 32), (''IFV1BWSTIME'', Clong), (''IFV1BWMJD'', Cdouble),
     (''IFV1CSFQ'', Cchars 32), (''IFV1CSFQSTIME'', Clong), (''IFV1CSFQMJD'', Cdouble), (''IFV1LVL'', Cchars 32),
     (''IFV1LVLSTIME'', Clong), (''IFV1LVLMJD'', Cdouble), (''IFV1IFFQ'', Cchars 32), (''IFV1IFFQSTIME'', Clong),
     (''IFV1IFFQMJD'', Cdouble), (''IFV1SSB'', Cchars 32), (''IFV1SSBSTIME'', Clong), (''IFV1SSBMJD'', Cdouble),
     (''IFV1SKFQ'', Cchars 32), (''IFV1SKFQSTIME'', Clong), (''IFV1SKFQMJD'', Cdouble), (''IFV1TH'', Cchars 32),
     (''IFV1THSTIME'', Clong), (''IFV1THMJD'', Cdouble), (''IFV1TNCI'', Cchars 32), (''IFV1TNCISTIME'', Clong),
     (''IFV1TNCIMJD'', Cdouble), (''IFV1TNCO'', Cchars 32), (''IFV1TNCOSTIME'', Clong), (''IFV1TNCOMJD'', Cdouble),
     (''IFV1TT'', Cchars 32), (''IFV1TTSTIME'', Clong), (''IFV1TTMJD'', Cdouble), (''IFV2BW'', Cchars 32),
     (''IFV2BWSTIME'', Clong), (''IFV2BWMJD'', Cdouble), (''IFV2CSFQ'', Cchars 32), (''IFV2CSFQSTIME'', Clong),
     (''IFV2CSFQMJD'', Cdouble), (''IFV2LVL'', Cchars 32), (''IFV2LVLSTIME'', Clong), (''IFV2LVLMJD'', Cdouble),
     (''IFV2IFFQ'', Cchars 32), (''IFV2IFFQSTIME'', Clong), (''IFV2IFFQMJD'', Cdouble), (''IFV2SSB'', Cchars 32),
     (''IFV2SSBSTIME'', Clong), (''IFV2SSBMJD'', Cdouble), (''IFV2SKFQ'', Cchars 32), (''IFV2SKFQSTIME'', Clong),
     (''IFV2SKFQMJD'', Cdouble), (''IFV2TH'', Cchars 32), (''IFV2THSTIME'', Clong), (''IFV2THMJD'', Cdouble),
     (''IFV2TNCI'', Cchars 32), (''IFV2TNCISTIME'', Clong), (''IFV2TNCIMJD'', Cdouble), (''IFV2TNCO'', Cchars 32),
     (''IFV2TNCOSTIME'', Clong), (''IFV2TNCOMJD'', Cdouble), (''IFV2TT'', Cchars 32), (''IFV2TTSTIME'', Clong)]"

definition gbtstatus_members_3 :: "(string \<times> ctype) list" where
  "gbtstatus_members_3 = [
     (''IFV2TTMJD'', Cdouble), (''LO1ACA'', Cchars 32), (''LO1ACASTIME'', Clong), (''LO1ACAMJD'', Cdouble),
     (''LO1ACM'', Cchars 32), (''LO1ACMSTIME'', Clong), (''LO1ACMMJD'', Cdouble), (''LO1ACT'', Cchars 32),
     (''LO1ACTSTIME'', Clong), (''LO1ACTMJD'', Cdouble), (''LO1APSFQ'', Cchars 32), (''LO1APSFQSTIME'', Clong),
     (''LO1APSFQMJD'', Cdouble), (''LO1BCA'', Cchars 32), (''LO1BCASTIME'', Clong), (''LO1BCAMJD'', Cdouble),
     (''LO1BCM'', Cchars 32), (''LO1BCMSTIME'', Clong), (''LO1BCMMJD'', Cdouble), (''LO1BCT'', Cchars 32),
     (''LO1BCTSTIME'', Clong), (''LO1BCTMJD'', Cdouble), (''LO1BPSFQ'', Cchars 32), (''LO1BPSFQSTIME'', Clong),
     (''LO1BPSFQMJD'', Cdouble), (''LO1FQSW'', Cchars 32), (''LO1FQSWSTIME'', Clong), (''LO1FQSWMJD'', Cdouble),
     (''LO1CM'', Cchars 32), (''LO1CMSTIME'', Clong), (''LO1CMMJD'', Cdouble), (''LO1CFG'', Cchars 32),
     (''LO1CFGSTIME'', Clong), (''LO1CFGMJD'', Cdouble), (''LO1PHCAL'', Cchars 32), (''LO1PHCALSTIME'', Clong),
     (''LO1PHCALMJD'', Cdouble), (''OPTGREG'', Cchars 32), (''OPTGREGSTIME'', Clong), (''OPTGREGMJD'', Cdouble),
     (''OPTPRIME'', Cchars 32), (''OPTPRIMESTIME'', Clong), (''OPTPRIMEMJD'', Cdouble), (''SCPROJID'', Cchars 32),
     (''SCPROJIDSTIME'', Clong), (''SCPROJIDMJD'', Cdouble), (''SCSCCM'', Cchars 32), (''SCSCCMSTIME'', Clong),
     (''SCSCCMMJD'', Cdouble), (''SCSNUMBR'', Cchars 32), (''SCSNUMBRSTIME'', Clong), (''SCSNUMBRMJD'', Cdouble),
     (''SCSOURCE'', Cchars 32), (''SCSOURCESTIME'', Clong), (''SCSOURCEMJD'', Cdouble), (''SCSTATE'', Cchars 32),
     (''SCSTATESTIME'', Clong), (''SCSTATEMJD'', Cdouble), (''SCSACTSF'', Cchars 32), (''SCSACTSFSTIME'', Clong),
     (''SCSACTSFMJD'', Cdouble), (''SCSANAFR'', Cchars 32), (''SCSANAFRSTIME'', Clong), (''SCSANAFRMJD'', Cdouble),
     (''SCSANTEN'', Cchars 32), (''SCSANTENSTIME'', Clong), (''SCSANTENMJD'', Cdouble), (''SCSARCHI'', Cchars 32),
     (''SCSARCHISTIME'', Clong), (''SCSARCHIMJD'', Cdouble), (''SCSBCPM'', Cchars 32), (''SCSBCPMSTIME'', Clong),
     (''SCSBCPMMJD'', Cdouble), (''SCSCCB26'', Cchars 32), (''SCSCCB26STIME'', Clong), (''SCSCCB26MJD'', Cdouble),
     (''SCSCRACK'', Cchars 32), (''SCSCRACKSTIME'', Clong), (''SCSCRACKMJD'', Cdouble), (''SCSDCR'', Cchars 32),
     (''SCSDCRSTIME'', Clong), (''SCSDCRMJD'', Cdouble), (''SCSGUPPI'', Cchars 32), (''SCSGUPPISTIME'', Clong),
     (''SCSGUPPIMJD'', Cdouble), (''SCSHOLOG'', Cchars 32), (''SCSHOLOGSTIME'', Clong), (''SCSHOLOGMJD'', Cdouble),
     (''SCSIFM'', Cchars 32), (''SCSIFMSTIME'', Clong), (''SCSIFMMJD'', Cdouble), (''SCSIFR'', Cchars 32),
     (''SCSIFRSTIME'', Clong), (''SCSIFRMJD'', Cdouble), (''SCSLO1'', Cchars 32), (''SCSLO1STIME'', Clong),
     (''SCSLO1MJD'', Cdouble), (''SCSMEASUR'', Cchars 32), (''SCSMEASURSTIME'', Clong), (''SCSMEASURMJD'', Cdouble),
     (''SCSQUADRD'', Cchars 32), (''SCSQUADRDSTIME'', Clong), (''SCSQUADRDMJD'', Cdouble), (''SCSR1'', Cchars 32),
     (''SCSR1STIME'', Clong), (''SCSR1MJD'', Cdouble), (''SCSR12'', Cchars 32), (''SCSR12STIME'', Clong),
     (''SCSR12MJD'', Cdouble), (''SCSR18'', Cchars 32), (''SCSR18STIME'', Clong), (''SCSR18MJD'', Cdouble),
     (''SCSR2'', Cchars 32), (''SCSR2STIME'', Clong), (''SCSR2MJD'', Cdouble), (''SCSR26'', Cchars 32),
     (''SCSR26STIME'', Clong), (''SCSR26MJD'', Cdouble), (''SCSR40'', Cchars 32), (''SCSR40STIME'', Clong)]"

definition gbtstatus_members_4 :: "(string \<times> ctype) list" where
  "gbtstatus_members_4 = [
     (''SCSR40MJD'', Cdouble), (''SCSR4'', Cchars 32), (''SCSR4STIME'', Clong), (''SCSR4MJD'', Cdouble),
     (''SCSR68'', Cchars 32), (''SCSR68STIME'', Clong), (''SCSR68MJD'', Cdouble), (''SCSR8'', Cchars 32),
     (''SCSR8STIME'', Clong), (''SCSR8MJD'', Cdouble), (''SCSRA1'', Cchars 32), (''SCSRA1STIME'', Clong),
     (''SCSRA1MJD'', Cdouble), (''SCSRA18'', Cchars 32), (''SCSRA18STIME'', Clong), (''SCSRA18MJD'', Cdouble),
     (''SCSRMBA1'', Cchars 32), (''SCSRMBA1STIME'', Clong), (''SCSRMBA1MJD'', Cdouble), (''SCSRPAR'', Cchars 32),
     (''SCSRPARSTIME'', Clong), (''SCSRPARMJD'', Cdouble), (''SCSRPF1'', Cchars 32), (''SCSRPF1STIME'', Clong),
     (''SCSRPF1MJD'', Cdouble), (''SCSRPF2'', Cchars 32), (''SCSRPF2STIME'', Clong), (''SCSRPF2MJD'', Cdouble),
     (''SCSSPROC'', Cchars 32), (''SCSSPROCSTIME'', Clong), (''SCSSPROCMJD'', Cdouble), (''SCSSPECT'', Cchars 32),
     (''SCSSPECTSTIME'', Clong), (''SCSSPECTMJD'', Cdouble), (''SCSSWSS'', Cchars 32), (''SCSSWSSSTIME'', Clong),
     (''SCSSWSSMJD'', Cdouble), (''SCSVEGAS'', Cchars 32), (''SCSVEGASSTIME'', Clong), (''SCSVEGASMJD'', Cdouble),
     (''SCSZPECT'', Cchars 32), (''SCSZPECTSTIME'', Clong), (''SCSZPECTMJD'', Cdouble), (''VEGSFBW1'', Cchars 32),
     (''VEGSFBW1STIME'', Clong), (''VEGSFBW1MJD'', Cdouble), (''VEGSFBW2'', Cchars 32), (''VEGSFBW2STIME'', Clong),
     (''VEGSFBW2MJD'', Cdouble), (''VEGSFBW3'', Cchars 32), (''VEGSFBW3STIME'', Clong), (''VEGSFBW3MJD'', Cdouble),
     (''VEGSFBW4'', Cchars 32), (''VEGSFBW4STIME'', Clong), (''VEGSFBW4MJD'', Cdouble), (''VEGSFBW5'', Cchars 32),
     (''VEGSFBW5STIME'', Clong), (''VEGSFBW5MJD'', Cdouble), (''VEGSFBW6'', Cchars 32), (''VEGSFBW6STIME'', Clong),
     (''VEGSFBW6MJD'', Cdouble), (''VEGSFBW7'', Cchars 32), (''VEGSFBW7STIME'', Clong), (''VEGSFBW7MJD'', Cdouble),
     (''VEGSFBW8'', Cchars 32), (''VEGSFBW8STIME'', Clong), (''VEGSFBW8MJD'', Cdouble), (''VEGSSBAM'', Cchars 32),
     (''VEGSSBAMSTIME'', Clong), (''VEGSSBAMMJD'', Cdouble), (''VEGSSBBM'', Cchars 32), (''VEGSSBBMSTIME'', Clong),
     (''VEGSSBBMMJD'', Cdouble), (''VEGSSBCM'', Cchars 32), (''VEGSSBCMSTIME'', Clong), (''VEGSSBCMMJD'', Cdouble),
     (''VEGSSBDM'', Cchars 32), (''VEGSSBDMSTIME'', Clong), (''VEGSSBDMMJD'', Cdouble), (''VEGSSBEM'', Cchars 32),
     (''VEGSSBEMSTIME'', Clong), (''VEGSSBEMMJD'', Cdouble), (''VEGSSBFM'', Cchars 32), (''VEGSSBFMSTIME'', Clong),
     (''VEGSSBFMMJD'', Cdouble), (''VEGSSBGM'', Cchars 32), (''VEGSSBGMSTIME'', Clong), (''VEGSSBGMMJD'', Cdouble),
     (''VEGSSBHM'', Cchars 32), (''VEGSSBHMSTIME'', Clong), (''VEGSSBHMMJD'', Cdouble), (''VEGASCM'', Cchars 32),
     (''VEGASCMSTIME'', Clong), (''VEGASCMMJD'', Cdouble), (''CLEOHELLO'', Cint), (''CLEOMJD'', Cdouble),
     (''LCUDSECS'', Clong), (''LCUDSECSSTIME'', Clong), (''IDLESTATUS'', Clong), (''IDLESTATUSSTIME'', Clong),
     (''coarse_chan_id'', Cint), (''ADC0SDEV'', Cdouble), (''ADC1SDEV'', Cdouble), (''ADC0MEAN'', Cdouble),
     (''ADC1MEAN'', Cdouble), (''ADC0SDEVSTIME'', Cint), (''ADC1SDEVSTIME'', Cint), (''ADC0MEANSTIME'', Cint),
     (''ADC1MEANSTIME'', Cint), (''CLOCKTIM'', Cint), (''CLOCKFRQ'', Cdouble), (''CLOCKDBM'', Cdouble),
     (''CLOCKLOC'', Cint), (''BIRDITIM'', Cint), (''BIRDIFRQ'', Cdouble), (''BIRDIDBM'', Cdouble),
     (''BIRDILOC'', Cint), (''WEBCNTRL'', Cint)]"

definition gbtstatus_members :: "(string \<times> ctype) list" where
  "gbtstatus_members = gbtstatus_members_1 @ gbtstatus_members_2 @ gbtstatus_members_3 @ gbtstatus_members_4"

subsection \<open>Assignments\<close>

definition status_assignments :: "member list" where
  "status_assignments =
     map (\<lambda>(name, field, m). m) (mysql_rows @ cleo_rows_1 @ cleo_rows_2) @
     map (\<lambda>(name, field, m). m) adc_rows @ clocksyn_members @ birdisyn_members @ [Atoi ''WEBCNTRL'' 0]"

lemmas member_tables_def =
  gbtstatus_members_1_def gbtstatus_members_2_def gbtstatus_members_3_def gbtstatus_members_4_def

lemmas row_tables_def =
  mysql_rows_def cleo_rows_1_def cleo_rows_2_def adc_rows_def clocksyn_members_def birdisyn_members_def

text \<open>The times of the ADC statistics are \<open>int\<close> members that get a \<open>long\<close>; no other assignment narrows.\<close>

fun narrows :: "member \<Rightarrow> bool" where
  "narrows (Atol_int f i) \<longleftrightarrow> True"
| "narrows m \<longleftrightarrow> False"

lemma narrowed_times:
  "filter narrows status_assignments = [Atol_int ''ADC0SDEVSTIME'' 0, Atol_int ''ADC1SDEVSTIME'' 0, Atol_int ''ADC0MEANSTIME'' 0, Atol_int ''ADC1MEANSTIME'' 0]"
  by (simp add: status_assignments_def row_tables_def)

subsection \<open>Strings stay in their arrays\<close>

fun string_fits :: "obs \<Rightarrow> string \<times> ctype \<Rightarrow> bool" where
  "string_fits os (f, Cchars n) \<longleftrightarrow> length (o_str os f) < n"
| "string_fits os d \<longleftrightarrow> True"

definition array_size :: "string \<Rightarrow> nat" where
  "array_size f = (if f = ''ATTURLOC'' then 256 else 32)"

fun size_ok :: "member \<Rightarrow> bool" where
  "size_ok (Strcpy f n) \<longleftrightarrow> n = array_size f"
| "size_ok m \<longleftrightarrow> True"

fun declared_size_ok :: "string \<times> ctype \<Rightarrow> bool" where
  "declared_size_ok (f, Cchars n) \<longleftrightarrow> n = array_size f"
| "declared_size_ok d \<longleftrightarrow> True"

lemma members_size_ok: "list_all declared_size_ok gbtstatus_members"
  by (simp add: gbtstatus_members_def member_tables_def array_size_def)

lemma assignments_size_ok: "list_all size_ok status_assignments"
  by (simp add: status_assignments_def row_tables_def array_size_def)

lemma assign_fits:
  assumes "size_ok m" "declared_size_ok d" "string_fits os d"
  shows "string_fits (assign m str os) d"
proof (cases m)
  case (Strcpy f n)
  obtain g t where d: "d = (g, t)" by (cases d)
  show ?thesis using assms by (cases t) (auto simp: Strcpy d s6_strcpy_def array_size_def)
next
  case (Atoi f i)
  then show ?thesis using assms(3) by (cases "(os, d)" rule: string_fits.cases) auto
next
  case (Atol f i)
  then show ?thesis using assms(3) by (cases "(os, d)" rule: string_fits.cases) auto
next
  case (Atol_int f i)
  then show ?thesis using assms(3) by (cases "(os, d)" rule: string_fits.cases) auto
next
  case (Atof f i)
  then show ?thesis using assms(3) by (cases "(os, d)" rule: string_fits.cases) auto
next
  case (Atof_int f i)
  then show ?thesis using assms(3) by (cases "(os, d)" rule: string_fits.cases) auto
qed

definition strings_fit :: "obs \<Rightarrow> bool" where
  "strings_fit os \<longleftrightarrow> list_all (string_fits os) gbtstatus_members"

lemma assign_strings_fit: "size_ok m \<Longrightarrow> strings_fit os \<Longrightarrow> strings_fit (assign m str os)"
  using members_size_ok assign_fits by (auto simp: strings_fit_def list_all_iff)

lemma assign_all_strings_fit:
  "assign_all ms els os = Some os' \<Longrightarrow> list_all size_ok ms \<Longrightarrow> strings_fit os \<Longrightarrow> strings_fit os'"
  by (induction ms els os rule: assign_all.induct) (simp_all add: assign_strings_fit)

lemma gbt_query_strings_fit:
  "gbt_query redis q ms (rv, os) = Some (rv', os') \<Longrightarrow> list_all size_ok ms \<Longrightarrow> strings_fit os \<Longrightarrow> strings_fit os'"
  using assign_all_strings_fit by (auto simp: gbt_query_def Let_def split: if_splits redis_reply.splits)

lemma gbt_queries_strings_fit:
  "gbt_queries redis rows (rv, os) = Some (rv', os') \<Longrightarrow> list_all size_ok (map (\<lambda>(name, field, m). m) rows) \<Longrightarrow>
   strings_fit os \<Longrightarrow> strings_fit os'"
proof (induction redis rows "(rv, os)" arbitrary: rv os rule: gbt_queries.induct)
  case (2 redis name field m rows)
  obtain rv1 os1 where q: "gbt_query redis (''HMGET '' @ name @ '' '' @ field) [m] (rv, os) = Some (rv1, os1)"
    using 2(2) by (auto split: option.splits)
  have "strings_fit os1" by (rule gbt_query_strings_fit [OF q]) (use 2 in simp_all)
  then show ?case using 2(1) [OF q] 2(2,3) q by simp
qed simp

lemma gbt_get_strings_fit:
  "gbt_get redis q m (rv, os) = Some (rv', os') \<Longrightarrow> size_ok m \<Longrightarrow> strings_fit os \<Longrightarrow> strings_fit os'"
  using assign_strings_fit by (auto simp: gbt_get_def Let_def split: if_splits redis_reply.splits option.splits)

lemma strings_fit_cong: "o_str os' = o_str os \<Longrightarrow> strings_fit os' = strings_fit os"
proof -
  assume a: "o_str os' = o_str os"
  have "string_fits os' d = string_fits os d" for d by (cases "(os, d)" rule: string_fits.cases) (simp_all add: a)
  then have "string_fits os' = string_fits os" by (rule ext)
  then show ?thesis by (simp add: strings_fit_def)
qed

lemma gbt_heartbeats_strings_fit:
  assumes "gbt_heartbeats redis m1 m2 (rv, os) stc = Some ((rv', os'), stc')" "strings_fit os"
  shows "strings_fit os'"
proof -
  obtain rv1 os1 where 1: "gbt_query redis ''HMGET MJD VALUE'' [Atof ''MJD'' 0] (rv, os) = Some (rv1, os1)"
    using assms(1) by (auto simp: gbt_heartbeats_def split: option.splits)
  then obtain rv2 rv3 where 2: "gbt_query redis ''HMGET Thump MJD'' [Atof ''CLEOMJD'' 0] (rv2, os1) = Some (rv3, os')"
    using assms(1) by (auto simp: gbt_heartbeats_def 1 Let_def split: option.splits prod.splits)
  have "strings_fit os1" by (rule gbt_query_strings_fit [OF 1 _ assms(2)]) simp
  then show ?thesis by (rule gbt_query_strings_fit [OF 2, rotated]) simp
qed

lemma gbt_fetch_all_strings_fit:
  assumes "gbt_fetch_all redis (rv, os) = Some (rv', os')" "strings_fit os"
  shows "strings_fit os'"
proof -
  have ok: "list_all size_ok (map (\<lambda>(name, field, m). m) (mysql_rows @ cleo_rows_1 @ cleo_rows_2))"
    "list_all size_ok (map (\<lambda>(name, field, m). m) adc_rows)" "list_all size_ok clocksyn_members" "list_all size_ok birdisyn_members"
    using assignments_size_ok unfolding status_assignments_def list_all_append by blast+
  obtain rv1 os1 where 1: "gbt_queries redis (mysql_rows @ cleo_rows_1 @ cleo_rows_2) (rv, os) = Some (rv1, os1)"
    using assms(1) unfolding gbt_fetch_all_def by (auto simp: Option.bind_eq_Some_conv)
  obtain rv2 os2 where 2: "gbt_get redis ''GET WEBCNTRL'' (Atoi ''WEBCNTRL'' 0) (rv1, set_int ''WEBCNTRL'' 0 1 os1) = Some (rv2, os2)"
    using assms(1) unfolding gbt_fetch_all_def 1 by (auto simp: Option.bind_eq_Some_conv)
  obtain rv3 os3 where 3: "gbt_queries redis adc_rows (rv2, os2) = Some (rv3, os3)"
    using assms(1) unfolding gbt_fetch_all_def 1 by (auto simp: 2 Option.bind_eq_Some_conv)
  obtain rv4 os4 where 4: "gbt_query redis ''HMGET CLOCKSYN      CLOCKTIM CLOCKFRQ CLOCKDBM CLOCKLOC'' clocksyn_members (rv3, os3) = Some (rv4, os4)"
    using assms(1) unfolding gbt_fetch_all_def 1 by (auto simp: 2 3 Option.bind_eq_Some_conv)
  have 5: "gbt_query redis ''HMGET BIRDISYN      BIRDITIM BIRDIFRQ BIRDIDBM BIRDILOC'' birdisyn_members (rv4, os4) = Some (rv', os')"
    using assms(1) unfolding gbt_fetch_all_def 1 by (simp add: 2 3 4)
  have "strings_fit os1" by (rule gbt_queries_strings_fit [OF 1 ok(1) assms(2)])
  then have "strings_fit (set_int ''WEBCNTRL'' 0 1 os1)" by (simp add: strings_fit_cong [of "set_int ''WEBCNTRL'' 0 1 os1" os1])
  then have "strings_fit os2" by (rule gbt_get_strings_fit [OF 2, rotated]) simp
  then have "strings_fit os3" by (rule gbt_queries_strings_fit [OF 3 ok(2)])
  then have "strings_fit os4" by (rule gbt_query_strings_fit [OF 4 ok(3)])
  then show ?thesis by (rule gbt_query_strings_fit [OF 5 ok(4)])
qed

text \<open>C36: Whatever redis replies, a fetch at Green Bank that returns leaves every string of the
  status shorter than its array in gbtstatus_t.\<close>
theorem gbt_strings_stay_in_arrays:
  assumes "get_obs_gbt_info_from_redis conn_ok redis mjd1 mjd2 os stc = Fetched rv (os', stc')" "list_all (string_fits os) gbtstatus_members"
  shows "list_all (string_fits os') gbtstatus_members"
proof -
  obtain rv1 os1 stc1 where h: "gbt_heartbeats redis mjd1 mjd2 (if conn_ok then 0 else 1, os) stc = Some ((rv1, os1), stc1)"
    "gbt_fetch_all redis (rv1, os1) = Some (rv, os')"
    using assms(1) by (auto simp: get_obs_gbt_info_from_redis_def split: option.splits prod.splits)
  have "strings_fit os1" using gbt_heartbeats_strings_fit [OF h(1)] assms(2) by (simp add: strings_fit_def)
  then show ?thesis using gbt_fetch_all_strings_fit [OF h(2)] by (simp add: strings_fit_def)
qed

lemma zero_obs_fits: "list_all (string_fits zero_obs) gbtstatus_members"
proof -
  have "list_all (\<lambda>d. declared_size_ok d \<longrightarrow> string_fits zero_obs d) ds" for ds
  proof (induction ds)
    case (Cons d ds)
    then show ?case by (cases "(zero_obs, d)" rule: string_fits.cases) (simp_all add: zero_obs_def array_size_def)
  qed simp
  then show ?thesis using members_size_ok by (simp add: list_all_iff)
qed

text \<open>The witness fetches without a connection.\<close>

theorem gbt_strings_stay_in_arrays_witness:
  "\<exists>os' stc'. get_obs_gbt_info_from_redis False (\<lambda>q. Reply_error) 0 0 zero_obs
       \<lparr>gs_mysql = \<lparr>lag_count = 0, lag_issued = False\<rparr>, gs_cleo = \<lparr>lag_count = 0, lag_issued = False\<rparr>\<rparr> = Fetched 1 (os', stc') \<and>
     list_all (string_fits os') gbtstatus_members"
proof -
  obtain os' stc' where f: "get_obs_gbt_info_from_redis False (\<lambda>q. Reply_error) 0 0 zero_obs
      \<lparr>gs_mysql = \<lparr>lag_count = 0, lag_issued = False\<rparr>, gs_cleo = \<lparr>lag_count = 0, lag_issued = False\<rparr>\<rparr> = Fetched 1 (os', stc')"
    by (simp add: get_obs_gbt_info_from_redis_def gbt_heartbeats_def gbt_fetch_all_def gbt_query_skip gbt_queries_skip lag_check_def gbt_get_def Let_def)
  show ?thesis using gbt_strings_stay_in_arrays [OF f zero_obs_fits] f by blast
qed

end
