(* ===== verification/S6_Coord.thy ===== *)
theory S6_Coord
  imports S6_Etfits
begin

text \<open>
  The coordinate calculations of the observatory programs: \<open>s6_obsaux_gbt.c\<close> (horizontal to
  equatorial coordinates, precession, epochs) and \<open>s6_obsaux_ao.c\<close> (offsets of the ALFA beams,
  Arecibo's conversion).  \<open>double\<close>s are reals; where C would divide by zero the definitions
  say what follows or keep the division, which is 0 in HOL.
\<close>

definition D2R :: real where "D2R = pi / 180"

subsection \<open>Green Bank\<close>

definition GBT_LATITUDE :: real where "GBT_LATITUDE = 38.433121"
definition SECCON :: real where "SECCON = 206264.8062470964"

definition co_ZenAzToRaDec :: "real \<Rightarrow> real \<Rightarrow> real \<Rightarrow> real \<Rightarrow> real \<times> real" where
  "co_ZenAzToRaDec zenith_ang azimuth lsthour latitude =
     (let zenith_ang = zenith_ang * D2R;
          azimuth = azimuth * D2R;
          dec_rad = arcsin (cos zenith_ang * sin (latitude * D2R) + sin zenith_ang * cos (latitude * D2R) * cos azimuth);
          dec = dec_rad / D2R;
          temp = (cos zenith_ang - sin (latitude * D2R) * sin dec_rad) / (cos (latitude * D2R) * cos dec_rad);
          temp = (if temp > 1 then 1 else if temp < - 1 then - 1 else temp);
          hour_ang_rad = arccos temp;
          hour_ang_rad = (if sin azimuth > 0 then 2 * pi - hour_ang_rad else hour_ang_rad);
          ra = lsthour - (hour_ang_rad / D2R) / 15;
          ra = (if ra < 0 then ra + 24 else if ra \<ge> 24 then ra - 24 else ra)
      in (ra, dec))"

type_synonym vec3 = "real \<times> real \<times> real"

definition co_EqToXyz :: "real \<Rightarrow> real \<Rightarrow> vec3" where
  "co_EqToXyz ra decl =
     (let alpha = pi * ra / 12;
          delta = pi * decl / 180;
          cdelta = cos delta
      in (cdelta * cos alpha, cdelta * sin alpha, sin delta))"

definition Atan2 :: "real \<Rightarrow> real \<Rightarrow> real" where
  "Atan2 y x =
     (let arg = (if \<bar>x\<bar> = 0 \<and> \<bar>y\<bar> = 0 then 0
                 else if x > 0 then
                   (if x > \<bar>y\<bar> then arctan (y / x)
                    else if y > 0 then 0.5 * pi - arctan (x / y)
                    else - 0.5 * pi - arctan (x / y))
                 else
                   (if \<bar>x\<bar> > \<bar>y\<bar> then pi + arctan (y / x)
                    else if y > 0 then 0.5 * pi - arctan (x / y)
                    else - 0.5 * pi - arctan (x / y)))
      in if arg < 0 then arg + 2 * pi else arg)"

definition co_XyzToEq :: "vec3 \<Rightarrow> real \<times> real" where
  "co_XyzToEq xyz =
     (case xyz of (x, y, z) \<Rightarrow>
        (let rho = sqrt (x * x + y * y);
             r = sqrt (rho * rho + z * z)
         in if r < 1 / 10 ^ 20 then (0, 0)
            else
              (Atan2 y x * 12 / pi,
               if \<bar>rho\<bar> > \<bar>z\<bar> then arctan (z / rho) * 180 / pi
               else if z > 0 then 90 - arctan (rho / z) * 180 / pi
               else - 90 - arctan (rho / z) * 180 / pi)))"

definition tm_JulianEpochToJulianDate :: "real \<Rightarrow> real" where
  "tm_JulianEpochToJulianDate je = 365.25 * (je - 2000) + 2451545"

definition tm_JulianDateToJulianEpoch :: "real \<Rightarrow> real" where
  "tm_JulianDateToJulianEpoch jd = 2000 + (jd - 2451545) / 365.25"

text \<open>The three angles of Lieske, in radians.\<close>

definition precession_angles :: "real \<Rightarrow> real \<Rightarrow> real \<times> real \<times> real" where
  "precession_angles e1 e2 =
     (let tjd1 = tm_JulianEpochToJulianDate e1;
          tjd2 = tm_JulianEpochToJulianDate e2;
          t0 = (tjd1 - 2451545) / 36525;
          t = (tjd2 - tjd1) / 36525;
          t02 = t0 * t0;
          t2 = t * t;
          t3 = t2 * t;
          zeta0 = (2306.2181 + 1.39656 * t0 - 0.000139 * t02) * t + (0.30188 - 0.000344 * t0) * t2 + 0.017998 * t3;
          zee = (2306.2181 + 1.39656 * t0 - 0.000139 * t02) * t + (1.09468 + 0.000066 * t0) * t2 + 0.018203 * t3;
          theta = (2004.3109 - 0.85330 * t0 - 0.000217 * t02) * t + (- 0.42665 - 0.000217 * t0) * t2 - 0.041833 * t3
      in (zeta0 / SECCON, zee / SECCON, theta / SECCON))"

definition co_Precess :: "real \<Rightarrow> vec3 \<Rightarrow> real \<Rightarrow> vec3" where
  "co_Precess e1 pos1 e2 =
     (case (precession_angles e1 e2, pos1) of
        ((zeta0, zee, theta), (v0, v1, v2)) \<Rightarrow>
          (let czeta0 = cos zeta0; szeta0 = sin zeta0; czee = cos zee; szee = sin zee;
               ctheta = cos theta; stheta = sin theta;
               xx = czeta0 * ctheta * czee - szeta0 * szee;
               yx = - szeta0 * ctheta * czee - czeta0 * szee;
               zx = - stheta * czee;
               xy = czeta0 * ctheta * szee + szeta0 * czee;
               yy = - szeta0 * ctheta * szee + czeta0 * czee;
               zy = - stheta * szee;
               xz = czeta0 * stheta;
               yz = - szeta0 * stheta;
               zz = ctheta
           in (xx * v0 + yx * v1 + zx * v2,
               xy * v0 + yy * v1 + zy * v2,
               xz * v0 + yz * v1 + zz * v2)))"

subsection \<open>Arecibo\<close>

text \<open>The two loops of \<open>wrap\<close>; they need not end when the upper bound is not positive.\<close>

partial_function (option) wrap_down :: "real \<Rightarrow> bool \<Rightarrow> real \<Rightarrow> real option" where
  "wrap_down high inclusive v =
     (if (if inclusive then v \<ge> high else v > high) then wrap_down high inclusive (v - high) else Some v)"

partial_function (option) wrap_up :: "real \<Rightarrow> real \<Rightarrow> bool \<Rightarrow> real \<Rightarrow> real option" where
  "wrap_up low high inclusive v =
     (if (if inclusive then v < low else v \<le> low) then wrap_up low high inclusive (v + high) else Some v)"

definition wrap :: "real \<Rightarrow> int \<Rightarrow> int \<Rightarrow> bool \<Rightarrow> real option" where
  "wrap v low_bound high_bound low_inclusive =
     (case wrap_down (real_of_int high_bound) low_inclusive v of
        None \<Rightarrow> None
      | Some v \<Rightarrow> wrap_up (real_of_int low_bound) (real_of_int high_bound) low_inclusive v)"

definition array_angle :: "real list" where
  "array_angle = [0, 120, 180, - 120, - 60, 0, 60]"

text \<open>
  When the corrected zenith angle is 0 the azimuth offset is divided by 0; the azimuth becomes
  infinite and \<open>wrap\<close> does not end, hence \<open>None\<close>.
\<close>

definition s6_BeamOffset :: "real \<Rightarrow> real \<Rightarrow> nat \<Rightarrow> real \<Rightarrow> (real \<times> real) option" where
  "s6_BeamOffset az za beam alfa_motor_position =
     (let array_az_ellipse = (if beam \<noteq> 0 then 329.06 else 0);
          array_za_ellipse = (if beam \<noteq> 0 then 384.005 else 0);
          posrot = (array_angle ! beam - alfa_motor_position) * D2R;
          az_offset = array_az_ellipse * cos posrot;
          zen_offset = array_za_ellipse * sin posrot;
          za = (if beam \<noteq> 0 then za - zen_offset / 3600 else za)
      in if beam \<noteq> 0 \<and> sin (za * D2R) = 0 then None
         else
           (let az = (if beam \<noteq> 0 then az - (az_offset / 3600) / sin (za * D2R) else az);
                az = az + 180;
                (az, za) = (if za < 0 then (az + 180, 0 - za) else (az, za))
            in map_option (\<lambda>az. (az, za)) (wrap az 0 360 True)))"

text \<open>\<open>gmtime\<close>: the date of a day since 1970 in the Gregorian calendar, as day, month (from 1) and year.\<close>

definition civil_date :: "int \<Rightarrow> int \<times> int \<times> int" where
  "civil_date days =
     (let z = days + 719468;
          era = z div 146097;
          doe = z mod 146097;
          yoe = (doe - doe div 1460 + doe div 36524 - doe div 146096) div 365;
          doy = doe - (365 * yoe + yoe div 4 - yoe div 100);
          mp = (5 * doy + 2) div 153;
          d = doy - (153 * mp + 2) div 5 + 1;
          mon = (if mp < 10 then mp + 3 else mp - 9)
      in (d, mon, yoe + era * 400 + (if mon \<le> 2 then 1 else 0)))"

text \<open>What is used of the observatory's own library: \<open>C_2PI\<close> and the functions.\<close>

record 'i ao_lib =
  lib_C_2PI :: real
  lib_dmToDayNo :: "int \<Rightarrow> int \<Rightarrow> int \<Rightarrow> int"
  lib_gregToMjd :: "int \<Rightarrow> int \<Rightarrow> int \<Rightarrow> int"
  lib_azzaToRaDecInit :: "int \<Rightarrow> int \<Rightarrow> 'i option"
  lib_azzaToRaDec :: "real \<Rightarrow> real \<Rightarrow> int \<Rightarrow> real \<Rightarrow> int \<Rightarrow> 'i \<Rightarrow> real \<times> real"

definition fmod24 :: "real \<Rightarrow> real" where
  "fmod24 x = x - 24 * of_int \<lfloor>x / 24\<rfloor>"

partial_function (option) raise_ra :: "real \<Rightarrow> real option" where
  "raise_ra ra = (if ra < 0 then raise_ra (ra + 24) else Some ra)"

datatype 'a radec = Ra_dec 'a | Init_failed_exit | Ra_loops

definition s6_AzZaToRaDec :: "'i ao_lib \<Rightarrow> real \<Rightarrow> real \<Rightarrow> real \<Rightarrow> (real \<times> real) radec" where
  "s6_AzZaToRaDec lib az za coord_time =
     (let d2r = 0.017453292;
          lcoord_time = \<lfloor>coord_time\<rfloor>;
          fcoord_time = coord_time - of_int \<lfloor>coord_time\<rfloor>;
          (tm_mday, tm_mon, tm_year) = civil_date (lcoord_time div 86400);
          secs = lcoord_time mod 86400;
          dayNum = lib_dmToDayNo lib tm_mday tm_mon tm_year;
          i_mjd = lib_gregToMjd lib tm_mday tm_mon tm_year;
          utcFrac = (of_int secs + fcoord_time) / 86400;
          (i_mjd, utcFrac) = (if utcFrac \<ge> 1 then (i_mjd + 1, utcFrac - 1) else (i_mjd, utcFrac))
      in case lib_azzaToRaDecInit lib dayNum tm_year of
           None \<Rightarrow> Init_failed_exit
         | Some azzaI \<Rightarrow>
             (let (ra, dec) = lib_azzaToRaDec lib (az - 180) za i_mjd utcFrac 0 azzaI;
                  ra = (ra / d2r) / 15;
                  dec = dec / d2r
              in case raise_ra ra of None \<Rightarrow> Ra_loops | Some ra \<Rightarrow> Ra_dec (fmod24 ra, dec)))"

end
