(* ===== verification/S6_Coord_Props.thy ===== *)
theory S6_Coord_Props
  imports S6_Coord
begin

text \<open>
  What the coordinate calculations compute: directions on the sphere, rotations, normalised angles.
\<close>

subsection \<open>Precession is a rotation\<close>

fun dot3 :: "vec3 \<Rightarrow> vec3 \<Rightarrow> real" where
  "dot3 (a, b, c) (x, y, z) = a * x + b * y + c * z"

lemma rotation_dot:
  fixes c1 :: real
  assumes "c1 * c1 + s1 * s1 = 1" "c2 * c2 + s2 * s2 = 1" "c3 * c3 + s3 * s3 = 1"
  shows "((c1 * c3 * c2 - s1 * s2) * a + (- s1 * c3 * c2 - c1 * s2) * b + (- s3 * c2) * c) *
      ((c1 * c3 * c2 - s1 * s2) * x + (- s1 * c3 * c2 - c1 * s2) * y + (- s3 * c2) * z) +
    ((c1 * c3 * s2 + s1 * c2) * a + (- s1 * c3 * s2 + c1 * c2) * b + (- s3 * s2) * c) *
      ((c1 * c3 * s2 + s1 * c2) * x + (- s1 * c3 * s2 + c1 * c2) * y + (- s3 * s2) * z) +
    ((c1 * s3) * a + (- s1 * s3) * b + c3 * c) * ((c1 * s3) * x + (- s1 * s3) * y + c3 * z) = a * x + b * y + c * z"
  using assms by algebra

lemma co_Precess_dot:
  "dot3 (co_Precess e1 u e2) (co_Precess e1 v e2) = dot3 u v \<and> co_Precess e1 u e1 = u"
proof
  obtain a b c where u: "u = (a, b, c)" by (cases u)
  obtain x y z where v: "v = (x, y, z)" by (cases v)
  obtain p q r where p: "precession_angles e1 e2 = (p, q, r)" by (cases "precession_angles e1 e2")
  show "dot3 (co_Precess e1 u e2) (co_Precess e1 v e2) = dot3 u v"
    using rotation_dot [of "cos p" "sin p" "cos q" "sin q" "cos r" "sin r" a b c x y z]
    by (simp add: co_Precess_def Let_def p u v power2_eq_square [symmetric])
  have "precession_angles e1 e1 = (0, 0, 0)" by (simp add: precession_angles_def Let_def)
  then show "co_Precess e1 u e1 = u" by (simp add: co_Precess_def u)
qed

theorem precession_preserves_angles:
  "dot3 (co_Precess e1 u e2) (co_Precess e1 v e2) = dot3 u v \<and> co_Precess e1 u e1 = u"
  by (rule co_Precess_dot)

subsection \<open>Atan2\<close>

lemma cos_arctan_pos: "0 < x \<Longrightarrow> sqrt (x\<^sup>2 + y\<^sup>2) * cos (arctan (y / x)) = x"
proof -
  assume x: "0 < x"
  have "1 + (y / x)\<^sup>2 = (x\<^sup>2 + y\<^sup>2) / x\<^sup>2" using x by (simp add: power_divide field_simps)
  then have "sqrt (1 + (y / x)\<^sup>2) = sqrt (x\<^sup>2 + y\<^sup>2) / x" using x by (simp add: real_sqrt_divide)
  moreover have "0 < sqrt (x\<^sup>2 + y\<^sup>2)" using x by (simp add: add_pos_nonneg)
  ultimately show ?thesis using x by (simp add: cos_arctan)
qed

lemma sin_arctan_pos: "0 < x \<Longrightarrow> sqrt (x\<^sup>2 + y\<^sup>2) * sin (arctan (y / x)) = y"
proof -
  assume x: "0 < x"
  have "sin (arctan (y / x)) = y / x * cos (arctan (y / x))"
    using cos_arctan_not_zero [of "y / x"] tan_arctan [of "y / x"] by (simp add: tan_def field_simps)
  then have "sqrt (x\<^sup>2 + y\<^sup>2) * sin (arctan (y / x)) = y / x * (sqrt (x\<^sup>2 + y\<^sup>2) * cos (arctan (y / x)))"
    by (simp only: mult.left_commute mult.assoc)
  also have "\<dots> = y" using x by (simp only: cos_arctan_pos) simp
  finally show ?thesis .
qed

definition at_angle :: "real \<Rightarrow> real \<Rightarrow> real \<Rightarrow> bool" where
  "at_angle x y a \<longleftrightarrow> sqrt (x\<^sup>2 + y\<^sup>2) * cos a = x \<and> sqrt (x\<^sup>2 + y\<^sup>2) * sin a = y"

lemma at_angle_arctan: "0 < x \<Longrightarrow> at_angle x y (arctan (y / x))"
  by (simp add: at_angle_def cos_arctan_pos sin_arctan_pos)

lemma at_angle_turn: "at_angle (- x) (- y) a \<Longrightarrow> at_angle x y (pi + a)"
  by (simp add: at_angle_def cos_add sin_add)

lemma at_angle_swap: "at_angle y x a \<Longrightarrow> at_angle x y (pi / 2 - a)"
  by (simp add: at_angle_def cos_diff sin_diff add.commute)

lemma at_angle_swap_neg: "at_angle (- y) (- x) a \<Longrightarrow> at_angle x y (- (pi / 2) - a)"
  by (simp add: at_angle_def cos_diff sin_diff add.commute)

lemma at_angle_full: "at_angle x y a \<Longrightarrow> at_angle x y (a + 2 * pi)"
  by (simp add: at_angle_def)

lemma at_angle_cases:
  shows "0 < x \<Longrightarrow> at_angle x y (arctan (y / x))"
    and "x < 0 \<Longrightarrow> at_angle x y (pi + arctan (y / x))"
    and "0 < y \<Longrightarrow> at_angle x y (0.5 * pi - arctan (x / y))"
    and "y < 0 \<Longrightarrow> at_angle x y (- 0.5 * pi - arctan (x / y))"
  using at_angle_arctan [of x y] at_angle_turn [OF at_angle_arctan [of "- x" "- y"]]
    at_angle_swap [OF at_angle_arctan [of y x]] at_angle_swap_neg [OF at_angle_arctan [of "- y" "- x"]]
  by simp_all

lemma Atan2_unnormalised:
  "\<exists>arg. at_angle x y arg \<and> - pi \<le> arg \<and> arg < 2 * pi \<and> Atan2 y x = (if arg < 0 then arg + 2 * pi else arg)"
proof -
  note b = arctan_bounded [of "y / x"] arctan_bounded [of "x / y"] pi_gt_zero
  consider "x = 0 \<and> y = 0" | "0 < x \<and> \<bar>y\<bar> < x" | "x < 0 \<and> \<bar>y\<bar> < - x" | "0 < y \<and> \<bar>x\<bar> \<le> y" | "y < 0 \<and> \<bar>x\<bar> \<le> - y"
    by linarith
  then show ?thesis
  proof cases
    case 1
    then show ?thesis by (intro exI [of _ 0]) (simp add: at_angle_def Atan2_def)
  next
    case 2
    then show ?thesis using b by (intro exI [of _ "arctan (y / x)"]) (simp add: at_angle_cases Atan2_def)
  next
    case 3
    then show ?thesis using b by (intro exI [of _ "pi + arctan (y / x)"]) (simp add: at_angle_cases Atan2_def)
  next
    case 4
    then have "\<not> y < x" "\<not> y < - x" "0 < y" by linarith+
    then show ?thesis using b at_angle_cases(3) [of y x]
      by (intro exI [of _ "0.5 * pi - arctan (x / y)"]) (simp add: Atan2_def)
  next
    case 5
    then have "\<not> - y < x" "\<not> - y < - x" "y < 0" by linarith+
    then show ?thesis using b at_angle_cases(4) [of y x]
      by (intro exI [of _ "- 0.5 * pi - arctan (x / y)"]) (simp add: Atan2_def)
  qed
qed

lemma Atan2_angle: "at_angle x y (Atan2 y x)" and Atan2_range: "0 \<le> Atan2 y x" "Atan2 y x < 2 * pi"
  using Atan2_unnormalised [of x y] at_angle_full by (auto split: if_splits)

theorem Atan2_is_the_angle:
  "sqrt (x\<^sup>2 + y\<^sup>2) * cos (Atan2 y x) = x \<and> sqrt (x\<^sup>2 + y\<^sup>2) * sin (Atan2 y x) = y \<and> 0 \<le> Atan2 y x \<and> Atan2 y x < 2 * pi"
  using Atan2_angle [of x y] by (simp add: at_angle_def Atan2_range)


subsection \<open>From angles to a direction and back\<close>

lemma angle_unique:
  fixes a b :: real
  assumes "cos a = cos b" "sin a = sin b" "0 \<le> a" "a < 2 * pi" "0 \<le> b" "b < 2 * pi"
  shows "a = b"
proof -
  have "cos (a - b) = 1" using assms(1,2) sin_cos_squared_add3 [of b] by (simp add: cos_diff)
  then obtain n :: int where n: "a - b = of_int n * 2 * pi" using cos_one_2pi_int by (metis mult.assoc)
  have "\<bar>of_int n * 2 * pi\<bar> < 2 * pi" using n assms by linarith
  then have "\<bar>of_int n :: real\<bar> < 1" by (simp add: abs_mult)
  then have "n = 0" by linarith
  then show ?thesis using n by simp
qed

lemma at_angle_Atan2:
  assumes "0 < r" "0 \<le> a" "a < 2 * pi"
  shows "Atan2 (r * sin a) (r * cos a) = a"
proof -
  have "(r * cos a)\<^sup>2 + (r * sin a)\<^sup>2 = r\<^sup>2 * ((cos a)\<^sup>2 + (sin a)\<^sup>2)" by (simp only: power_mult_distrib distrib_left)
  also have "\<dots> = r\<^sup>2" by (simp only: sin_cos_squared_add2 mult_1_right)
  finally have "sqrt ((r * cos a)\<^sup>2 + (r * sin a)\<^sup>2) = r" using assms(1) by simp
  then have "r * cos (Atan2 (r * sin a) (r * cos a)) = r * cos a" "r * sin (Atan2 (r * sin a) (r * cos a)) = r * sin a"
    using Atan2_angle [of "r * cos a" "r * sin a"] by (simp_all only: at_angle_def)
  then have "cos (Atan2 (r * sin a) (r * cos a)) = cos a" "sin (Atan2 (r * sin a) (r * cos a)) = sin a"
    using assms(1) by (simp_all only: mult_cancel_left)  auto
  then show ?thesis by (rule angle_unique) (rule Atan2_range assms)+
qed

definition elevation :: "real \<Rightarrow> real \<Rightarrow> real" where
  "elevation rho z =
     (if \<bar>rho\<bar> > \<bar>z\<bar> then arctan (z / rho) * 180 / pi
      else if z > 0 then 90 - arctan (rho / z) * 180 / pi
      else - 90 - arctan (rho / z) * 180 / pi)"

lemma co_XyzToEq_unit:
  assumes "sqrt (x * x + y * y) = rho" "sqrt (rho * rho + z * z) = 1"
  shows "co_XyzToEq (x, y, z) = (Atan2 y x * 12 / pi, elevation rho z)"
proof -
  have "\<not> (1::real) < 1 / 10 ^ 20" by simp
  then show ?thesis unfolding co_XyzToEq_def elevation_def Let_def prod.case assms by (simp only: if_False)
qed

lemma elevation_of_parts:
  assumes "\<bar>d\<bar> < pi / 2"
  shows "elevation (cos d) (sin d) = d * 180 / pi"
proof -
  have c: "0 < cos d" using assms by (intro cos_gt_zero_pi) (simp_all add: abs_less_iff)
  have t: "arctan (sin d / cos d) = d" using assms arctan_tan [of d] by (simp add: tan_def abs_less_iff)
  have p: "arctan (cos d / sin d) = pi / 2 - d" if "0 < sin d"
    using arctan_inverse [of "sin d / cos d"] that c t by (simp add: sgn_if)
  have n: "arctan (cos d / sin d) = - (pi / 2) - d" if "sin d < 0"
    using arctan_inverse [of "sin d / cos d"] that c t by (simp add: sgn_if zero_less_divide_iff)
  show ?thesis
  proof (cases "\<bar>sin d\<bar> < \<bar>cos d\<bar>")
    case True
    then show ?thesis by (simp add: t elevation_def)
  next
    case False
    then have "sin d \<noteq> 0" using c by auto
    then show ?thesis using False p n pi_gt_zero by (simp add: elevation_def left_diff_distrib diff_divide_distrib) linarith?
  qed
qed

theorem equatorial_xyz_roundtrip:
  assumes "0 \<le> ra" "ra < 24" "\<bar>decl\<bar> < 90"
  shows "co_XyzToEq (co_EqToXyz ra decl) = (ra, decl)"
proof -
  define a d where "a = pi * ra / 12" and "d = pi * decl / 180"
  have a: "0 \<le> a" "a < 2 * pi" using assms by (simp_all add: a_def)
  have d: "\<bar>d\<bar> < pi / 2" using assms(3) by (simp add: d_def abs_mult)
  have c: "0 < cos d" using d by (intro cos_gt_zero_pi) (simp_all add: abs_less_iff)
  have "cos d * cos a * (cos d * cos a) + cos d * sin a * (cos d * sin a) = cos d * cos d * (cos a * cos a + sin a * sin a)"
    by (simp only: distrib_left mult.assoc mult.left_commute)
  also have "\<dots> = cos d * cos d" by (simp only: sin_cos_squared_add3 mult_1_right)
  finally have rho: "sqrt (cos d * cos a * (cos d * cos a) + cos d * sin a * (cos d * sin a)) = cos d" using c by simp
  have r: "sqrt (cos d * cos d + sin d * sin d) = 1" by simp
  have "co_XyzToEq (co_EqToXyz ra decl) = (a * 12 / pi, d * 180 / pi)"
    unfolding co_EqToXyz_def Let_def a_def [symmetric] d_def [symmetric] co_XyzToEq_unit [OF rho r]
      elevation_of_parts [OF d] at_angle_Atan2 [OF c a] ..
  then show ?thesis by (simp add: a_def d_def)
qed

theorem equatorial_xyz_roundtrip_witness: "co_XyzToEq (co_EqToXyz 6 30) = (6, 30)"
  by (rule equatorial_xyz_roundtrip) simp_all

end
