(* ===== verification/S6_Coord_Sky.thy ===== *)
theory S6_Coord_Sky
  imports S6_Coord_Props
begin

text \<open>
  The conversion of the telescope's direction to the sky, and the normalisation of angles.
\<close>

subsection \<open>Horizontal to equatorial coordinates\<close>

lemma sky_parts:
  fixes z a p :: real
  defines "S \<equiv> cos z * sin p + sin z * cos p * cos a"
    and "C \<equiv> cos z * cos p - sin z * sin p * cos a"
  shows "S\<^sup>2 + C\<^sup>2 + (sin z * sin a)\<^sup>2 = 1" and "cos z - sin p * S = cos p * C"
proof -
  have z: "sin z * sin z + cos z * cos z = 1" and p: "sin p * sin p + cos p * cos p = 1" and a: "sin a * sin a + cos a * cos a = 1"
    by (simp_all only: sin_cos_squared_add3 add.commute [of "sin _ * sin _"])
  show "S\<^sup>2 + C\<^sup>2 + (sin z * sin a)\<^sup>2 = 1" unfolding S_def C_def power2_eq_square using z p a by algebra
  show "cos z - sin p * S = cos p * C" unfolding S_def C_def using p by algebra
qed

lemma hour_angle_parts:
  fixes c d s w :: real
  assumes "d\<^sup>2 = c\<^sup>2 + (s * w)\<^sup>2" "0 < d" "0 \<le> s"
  shows "\<bar>c / d\<bar> \<le> 1"
    and "d * cos (if w > 0 then 2 * pi - arccos (c / d) else arccos (c / d)) = c"
    and "d * sin (if w > 0 then 2 * pi - arccos (c / d) else arccos (c / d)) = - (s * w)"
proof -
  have "c\<^sup>2 \<le> d\<^sup>2" using assms(1) by simp
  then have "\<bar>c\<bar> \<le> d" using assms(2) abs_le_square_iff [of c d] by simp
  then show le: "\<bar>c / d\<bar> \<le> 1" using assms(2) by (simp add: abs_divide)
  have b: "- 1 \<le> c / d" "c / d \<le> 1" using le unfolding abs_le_iff by linarith+
  have cs: "cos (arccos (c / d)) = c / d" by (rule cos_arccos [OF b])
  have "sin (arccos (c / d)) = sqrt (1 - (c / d)\<^sup>2)" by (rule sin_arccos [OF b])
  also have "1 - (c / d)\<^sup>2 = (s * w)\<^sup>2 / d\<^sup>2"
  proof -
    have "(s * w)\<^sup>2 = d\<^sup>2 - c\<^sup>2" using assms(1) by linarith
    then show ?thesis using assms(2) by (simp only: power_divide diff_divide_distrib) simp
  qed
  also have "sqrt \<dots> = s * \<bar>w\<bar> / d" using assms(2,3) by (simp add: real_sqrt_divide abs_mult)
  finally have sn: "sin (arccos (c / d)) = s * \<bar>w\<bar> / d" .
  show "d * cos (if w > 0 then 2 * pi - arccos (c / d) else arccos (c / d)) = c"
    using assms(2) by (simp add: cos_diff cs)
  show "d * sin (if w > 0 then 2 * pi - arccos (c / d) else arccos (c / d)) = - (s * w)"
    using assms(2) by (simp add: sin_diff sn)
qed

lemma wrapped_ra:
  fixes lst h :: real
  assumes "0 \<le> lst" "lst < 24" "0 \<le> h" "h \<le> 2 * pi"
  defines "r \<equiv> lst - (h / D2R) / 15"
  defines "ra \<equiv> (if r < 0 then r + 24 else if r \<ge> 24 then r - 24 else r)"
  shows "0 \<le> ra" "ra < 24" "cos ((lst - ra) * 15 * D2R) = cos h" "sin ((lst - ra) * 15 * D2R) = sin h"
proof -
  have h: "(h / D2R) / 15 = 12 * h / pi" by (simp add: D2R_def)
  have "0 \<le> 12 * h / pi" "12 * h / pi \<le> 24" using assms(3,4) by (simp_all add: divide_le_eq)
  then have r: "- 24 \<le> r" "r < 24" using assms(1,2) unfolding r_def h by linarith+
  then show "0 \<le> ra" "ra < 24" by (auto simp: ra_def)
  have inv: "(lst - r) * 15 * D2R = h" by (simp add: r_def D2R_def)
  have "(lst - ra) * 15 * D2R = h \<or> (lst - ra) * 15 * D2R = h - 2 * pi"
  proof (cases "r < 0")
    case True
    then have "(lst - ra) * 15 * D2R = (lst - r) * 15 * D2R - 24 * 15 * D2R" by (simp add: ra_def algebra_simps)
    also have "24 * 15 * D2R = 2 * pi" by (simp add: D2R_def)
    finally show ?thesis by (simp only: inv) simp
  next
    case False
    then show ?thesis using r inv by (simp add: ra_def)
  qed
  then show "cos ((lst - ra) * 15 * D2R) = cos h" "sin ((lst - ra) * 15 * D2R) = sin h"
    by (auto simp: cos_diff sin_diff)
qed


lemma sky_angles:
  fixes z a p :: real
  defines "S \<equiv> cos z * sin p + sin z * cos p * cos a"
    and "C \<equiv> cos z * cos p - sin z * sin p * cos a"
  defines "d \<equiv> arcsin S"
  defines "t \<equiv> (cos z - sin p * sin d) / (cos p * cos d)"
  defines "h \<equiv> (if sin a > 0 then 2 * pi - arccos t else arccos t)"
  assumes "0 \<le> sin z" "0 < cos p" "\<bar>d\<bar> \<noteq> pi / 2"
  shows "sin d = S" "\<bar>d\<bar> \<le> pi / 2" "\<bar>t\<bar> \<le> 1" "0 \<le> h" "h \<le> 2 * pi"
    and "cos d * cos h = C" "cos d * sin h = - (sin z * sin a)"
proof -
  have one: "S\<^sup>2 + C\<^sup>2 + (sin z * sin a)\<^sup>2 = 1" and quot: "cos z - sin p * S = cos p * C"
    unfolding S_def C_def by (rule sky_parts)+
  have "S\<^sup>2 \<le> 1" using one zero_le_power2 [of C] zero_le_power2 [of "sin z * sin a"] by linarith
  then have S: "- 1 \<le> S" "S \<le> 1" unfolding abs_square_le_1 abs_le_iff by linarith+
  show sd: "sin d = S" unfolding d_def by (rule sin_arcsin [OF S])
  show db: "\<bar>d\<bar> \<le> pi / 2" using arcsin_bounded [OF S] unfolding d_def abs_le_iff by linarith
  then have "- (pi / 2) < d" "d < pi / 2" using assms(8) by (auto simp: abs_le_iff abs_if split: if_splits)
  then have cd: "0 < cos d" by (rule cos_gt_zero_pi)
  have t: "t = C / cos d" using assms(7) by (simp add: t_def sd quot)
  have "(cos d)\<^sup>2 = C\<^sup>2 + (sin z * sin a)\<^sup>2" using one sin_cos_squared_add [of d] unfolding sd by linarith
  note ha = hour_angle_parts [OF this cd assms(6)]
  show t1: "\<bar>t\<bar> \<le> 1" using ha(1) by (simp only: t)
  show "0 \<le> h" "h \<le> 2 * pi" using arccos_bounded [of t] t1 unfolding h_def abs_le_iff by auto
  show "cos d * cos h = C" "cos d * sin h = - (sin z * sin a)" using ha(2,3) unfolding h_def t by blast+
qed

text \<open>C25: The declination and hour angle computed from zenith angle and azimuth are those of the
  rotated direction: sin(dec), cos(dec)cos(H) and cos(dec)sin(H) are its coordinates, with H
  the sidereal time minus the right ascension; the right ascension lies in [0,24), also where
  it wraps.\<close>
theorem horizontal_to_equatorial:
  fixes zen az lst latitude :: real
  defines "z \<equiv> zen * D2R" and "a \<equiv> az * D2R" and "p \<equiv> latitude * D2R"
    and "sky \<equiv> co_ZenAzToRaDec zen az lst latitude"
  assumes "0 \<le> zen" "zen \<le> 180" "0 \<le> lst" "lst < 24" "\<bar>latitude\<bar> < 90" "\<bar>snd sky\<bar> \<noteq> 90"
  shows "sin (snd sky * D2R) = cos z * sin p + sin z * cos p * cos a \<and>
    cos (snd sky * D2R) * cos ((lst - fst sky) * 15 * D2R) = cos z * cos p - sin z * sin p * cos a \<and>
    cos (snd sky * D2R) * sin ((lst - fst sky) * 15 * D2R) = - (sin z * sin a) \<and>
    0 \<le> fst sky \<and> fst sky < 24 \<and> \<bar>snd sky\<bar> \<le> 90"
proof -
  define d t where "d = arcsin (cos z * sin p + sin z * cos p * cos a)" and "t = (cos z - sin p * sin d) / (cos p * cos d)"
  define t' where "t' = (if t > 1 then 1 else if t < - 1 then - 1 else t)"
  define h where "h = (if sin a > 0 then 2 * pi - arccos t' else arccos t')"
  define r where "r = lst - (h / D2R) / 15"
  have sky: "sky = (if r < 0 then r + 24 else if r \<ge> 24 then r - 24 else r, d / D2R)"
    unfolding sky_def co_ZenAzToRaDec_def Let_def z_def [symmetric] a_def [symmetric] p_def [symmetric]
      d_def [symmetric] t_def [symmetric] t'_def [symmetric] h_def [symmetric] r_def [symmetric] ..
  have "\<bar>latitude\<bar> * pi < 90 * pi" using assms(9) by simp
  then have "\<bar>p\<bar> < pi / 2" by (simp add: p_def D2R_def abs_mult)
  then have cp: "0 < cos p" by (intro cos_gt_zero_pi) linarith+
  have "0 \<le> z" "z \<le> pi" using assms(5,6) by (simp_all add: z_def D2R_def)
  then have sz: "0 \<le> sin z" by (rule sin_ge_zero)
  have dD: "\<bar>d / D2R\<bar> = \<bar>d\<bar> * 180 / pi" by (simp add: D2R_def abs_mult)
  have "\<bar>d\<bar> \<noteq> pi / 2" using assms(10) unfolding sky snd_conv dD by (auto simp only:) simp
  note ang = sky_angles [OF sz cp this [unfolded d_def], folded d_def, folded t_def]
  have t': "t' = t" using ang(3) unfolding t'_def abs_le_iff by auto
  note ang' = ang [folded t'] note hb = ang'(4,5) [folded h_def]
  note ra = wrapped_ra [OF assms(7,8) hb, folded r_def]
  have inv: "d / D2R * D2R = d" by (simp add: D2R_def)
  have "\<bar>d / D2R\<bar> \<le> 90" using ang(2) unfolding dD by (simp add: divide_le_eq)
  then show ?thesis
    using ra ang(1) ang'(6,7) [folded h_def] unfolding sky fst_conv snd_conv inv by metis
qed

theorem horizontal_to_equatorial_witness:
  "fst (co_ZenAzToRaDec 0 0 12 0) < 24 \<and> \<bar>snd (co_ZenAzToRaDec 0 0 12 0)\<bar> \<noteq> 90"
proof -
  have "snd (co_ZenAzToRaDec 0 0 12 0) = 0" by (simp add: co_ZenAzToRaDec_def Let_def)
  then show ?thesis using horizontal_to_equatorial [of 0 12 0 0] by simp
qed

subsection \<open>Normalising an angle\<close>

lemma wrap_down_ends:
  assumes "0 < high"
  shows "v < high + of_nat n * high \<Longrightarrow> \<exists>k w. wrap_down high True v = Some w \<and> w = v - of_nat k * high \<and> w < high \<and> (k = 0 \<or> 0 \<le> w)"
proof (induction n arbitrary: v)
  case 0
  then have "wrap_down high True v = Some v" by (subst wrap_down.simps) simp
  then show ?case using 0 by (intro exI [of _ 0] exI [of _ v]) simp
next
  case (Suc n)
  show ?case
  proof (cases "v < high")
    case True
    then have "wrap_down high True v = Some v" by (subst wrap_down.simps) simp
    then show ?thesis using True by (intro exI [of _ 0] exI [of _ v]) simp
  next
    case False
    have "v - high < high + of_nat n * high" using Suc.prems by (simp add: algebra_simps)
    then obtain k w where kw: "wrap_down high True (v - high) = Some w" "w = v - high - of_nat k * high" "w < high" "k = 0 \<or> 0 \<le> w"
      using Suc.IH by blast
    have "0 \<le> w" using kw(2,4) False by auto
    moreover have "wrap_down high True v = Some w" using False kw(1) by (subst wrap_down.simps) simp
    moreover have "w = v - of_nat (Suc k) * high" using kw(2) by (simp add: algebra_simps)
    ultimately show ?thesis using kw(3) by blast
  qed
qed

lemma wrap_up_ends:
  assumes "0 < high"
  shows "- (of_nat n * high) \<le> v \<Longrightarrow> v < high \<Longrightarrow>
    \<exists>k w. wrap_up 0 high True v = Some w \<and> w = v + of_nat k * high \<and> 0 \<le> w \<and> w < high"
proof (induction n arbitrary: v)
  case 0
  then have "wrap_up 0 high True v = Some v" by (subst wrap_up.simps) simp
  then show ?case using 0 by (intro exI [of _ 0] exI [of _ v]) simp
next
  case (Suc n)
  show ?case
  proof (cases "0 \<le> v")
    case True
    then have "wrap_up 0 high True v = Some v" by (subst wrap_up.simps) simp
    then show ?thesis using True Suc.prems by (intro exI [of _ 0] exI [of _ v]) simp
  next
    case False
    then have "- (of_nat n * high) \<le> v + high" "v + high < high" using Suc.prems(1) by (simp_all add: algebra_simps)
    then obtain k w where kw: "wrap_up 0 high True (v + high) = Some w" "w = v + high + of_nat k * high" "0 \<le> w" "w < high"
      using Suc.IH by blast
    have "wrap_up 0 high True v = Some w" using False kw(1) by (subst wrap_up.simps) simp
    moreover have "w = v + of_nat (Suc k) * high" using kw(2) by (simp add: algebra_simps)
    ultimately show ?thesis using kw(3,4) by blast
  qed
qed

lemma wrap_inclusive:
  assumes "0 < high"
  shows "\<exists>w k. wrap v 0 high True = Some w \<and> 0 \<le> w \<and> w < of_int high \<and> w = v + of_int k * of_int high"
proof -
  have h: "0 < real_of_int high" using assms by simp
  obtain n where "v < of_nat n * real_of_int high" using reals_Archimedean3 [OF h] by blast
  then have "v < of_int high + of_nat n * real_of_int high" using h by linarith
  then obtain k w where d: "wrap_down (of_int high) True v = Some w" "w = v - of_nat k * of_int high" "w < of_int high"
    using wrap_down_ends [OF h] by blast
  obtain m where "- w < of_nat m * real_of_int high" using reals_Archimedean3 [OF h] by blast
  then have "- (of_nat m * real_of_int high) \<le> w" by linarith
  from wrap_up_ends [OF h this d(3)] obtain j x where
    u: "wrap_up 0 (of_int high) True w = Some x" "x = w + of_nat j * of_int high" "0 \<le> x" "x < of_int high" by blast
  have "x = v + of_int (int j - int k) * of_int high" using d(2) u(2) by (simp add: algebra_simps)
  moreover have "wrap v 0 high True = Some x" using d(1) u(1) by (simp add: wrap_def)
  ultimately show ?thesis using u(3,4) by blast
qed

theorem beam_offset_normalises:
  "case s6_BeamOffset az za beam motor of
     Some (az', za') \<Rightarrow> 0 \<le> az' \<and> az' < 360 \<and> 0 \<le> za'
   | None \<Rightarrow> beam \<noteq> 0 \<and> sin ((za - 384.005 * sin ((array_angle ! beam - motor) * D2R) / 3600) * D2R) = 0"
proof (cases "beam \<noteq> 0 \<and> sin ((za - 384.005 * sin ((array_angle ! beam - motor) * D2R) / 3600) * D2R) = 0")
  case True
  then show ?thesis by (simp add: s6_BeamOffset_def Let_def)
next
  case False
  define z a where "z = (if beam \<noteq> 0 then za - 384.005 * sin ((array_angle ! beam - motor) * D2R) / 3600 else za)"
    and "a = (if beam \<noteq> 0 then az - 329.06 * cos ((array_angle ! beam - motor) * D2R) / 3600 / sin (z * D2R) else az) + 180"
  have e: "s6_BeamOffset az za beam motor =
    map_option (\<lambda>w. (w, if z < 0 then - z else z)) (wrap (if z < 0 then a + 180 else a) 0 360 True)"
    using False by (auto simp: s6_BeamOffset_def Let_def z_def a_def split: if_splits)
  obtain w where "wrap (if z < 0 then a + 180 else a) 0 360 True = Some w" "0 \<le> w" "w < 360"
    using wrap_inclusive [of 360 "if z < 0 then a + 180 else a"] by auto
  then show ?thesis by (simp add: e)
qed

text \<open>At the zenith with the beam to the side the division by \<open>sin 0\<close> leaves an infinite azimuth.\<close>

theorem beam_offset_at_zenith: "s6_BeamOffset az 0 5 0 = None"
  by (simp add: s6_BeamOffset_def array_angle_def Let_def)

end
