(* ===== verification/S6_Decimal.thy ===== *)
theory S6_Decimal
  imports S6_Etfits S6_Pktsock
begin

text \<open>
  Numbers as the observatory programs print them for redis (\<open>ftoa\<close>, \<open>%d\<close>, \<open>%ld\<close>) and as the
  status readers get them back (\<open>atof\<close>, \<open>atoi\<close>).
\<close>

subsection \<open>Printing\<close>

definition round_half_even :: "real \<Rightarrow> int" where
  "round_half_even y =
     (if y - of_int \<lfloor>y\<rfloor> < 1 / 2 \<or> y - of_int \<lfloor>y\<rfloor> = 1 / 2 \<and> even \<lfloor>y\<rfloor> then \<lfloor>y\<rfloor> else \<lfloor>y\<rfloor> + 1)"

definition pad_zeros :: "nat \<Rightarrow> string \<Rightarrow> string" where
  "pad_zeros k ds = replicate (k - length ds) CHR ''0'' @ ds"

text \<open>\<open>%.klf\<close>, for \<open>k\<close> positive.\<close>

definition fixed :: "nat \<Rightarrow> real \<Rightarrow> string" where
  "fixed k x =
     (let n = nat (round_half_even (\<bar>x\<bar> * 10 ^ k))
      in (if x < 0 then [CHR ''-''] else []) @ digits (n div 10 ^ k) @ CHR ''.'' # pad_zeros k (digits (n mod 10 ^ k)))"

text \<open>\<open>%d\<close> given a \<open>long\<close>: the low 32 bits.\<close>

definition show_int32 :: "int \<Rightarrow> string" where
  "show_int32 n = show_int (int32_of n)"

subsection \<open>Rounding\<close>

lemma round_half_even_near: "\<bar>of_int (round_half_even y) - y\<bar> \<le> 1 / 2"
proof -
  define f where "f = real_of_int \<lfloor>y\<rfloor>"
  have "f \<le> y" "y < f + 1" unfolding f_def by linarith+
  then show ?thesis unfolding round_half_even_def f_def [symmetric] by (auto simp: f_def [symmetric] abs_if)
qed

lemma round_half_even_nonneg: "0 \<le> y \<Longrightarrow> 0 \<le> round_half_even y"
  by (simp add: round_half_even_def)

lemma round_half_even_of_int: "round_half_even (of_int n) = n"
  by (simp add: round_half_even_def)

subsection \<open>Digits\<close>

lemma of_char_digit: "d < 10 \<Longrightarrow> (of_char (char_of (48 + d :: nat) :: char) :: nat) = 48 + d"
  by (simp add: of_char_of)

lemma of_char_int: "(of_char c :: int) = int (of_char c)"
  by (simp add: of_char_def)

lemma isdigit_char: "d < 10 \<Longrightarrow> isdigit (char_of (48 + d :: nat))"
  by (simp add: isdigit_def of_char_digit)

lemma digits_all_digits: "list_all isdigit (digits n)"
proof (induction n rule: digits.induct)
  case (1 n)
  show ?case
  proof (cases "n < 10")
    case True
    then show ?thesis by (subst digits.simps) (simp add: isdigit_char)
  next
    case False
    then show ?thesis using 1 by (subst digits.simps) (simp add: isdigit_char)
  qed
qed

lemma digits_not_Nil: "digits n \<noteq> []"
  by (subst digits.simps) simp

lemma foldl_base10: "foldl (\<lambda>n c. 10 * n + d c) m b = m * 10 ^ length b + foldl (\<lambda>n c. 10 * n + d c) (0 :: int) b"
proof (induction b arbitrary: m)
  case (Cons c b)
  have "foldl (\<lambda>n c. 10 * n + d c) m (c # b) = (10 * m + d c) * 10 ^ length b + foldl (\<lambda>n c. 10 * n + d c) 0 b"
    using Cons.IH [of "10 * m + d c"] by simp
  moreover have "foldl (\<lambda>n c. 10 * n + d c) 0 (c # b) = d c * 10 ^ length b + foldl (\<lambda>n c. 10 * n + d c) 0 b"
    using Cons.IH [of "d c"] by simp
  moreover have "(10 * m + d c) * 10 ^ length b = m * 10 ^ length (c # b) + d c * 10 ^ length b" by (simp add: distrib_right)
  ultimately show ?case by linarith
qed simp

lemma digits_value_append: "digits_value (a @ b) = digits_value a * 10 ^ length b + digits_value b"
  unfolding digits_value_def foldl_append by (rule foldl_base10)

lemma digits_value_digits [simp]: "digits_value (digits n) = int n"
proof (induction n rule: digits.induct)
  case (1 n)
  have one: "digits_value [char_of (48 + d :: nat)] = int d" if "d < 10" for d
    using that by (simp add: digits_value_def of_char_int of_char_digit)
  show ?case
  proof (cases "n < 10")
    case True
    then show ?thesis by (subst digits.simps) (simp add: one)
  next
    case False
    have "int (n div 10) * 10 + int (n mod 10) = int n" using div_mult_mod_eq [of n 10] by linarith
    then show ?thesis using 1 False by (subst digits.simps) (simp add: one digits_value_append)
  qed
qed

lemma pad_zeros_props:
  assumes "0 < k" "n < 10 ^ k"
  shows "length (pad_zeros k (digits n)) = k" "list_all isdigit (pad_zeros k (digits n))" "digits_value (pad_zeros k (digits n)) = int n"
proof -
  show "length (pad_zeros k (digits n)) = k" using digits_short [OF assms(2,1)] by (simp add: pad_zeros_def)
  have z: "isdigit CHR ''0''" by (simp add: isdigit_def of_char_Char)
  then show "list_all isdigit (pad_zeros k (digits n))"
    by (simp add: pad_zeros_def digits_all_digits) (simp add: list_all_iff)
  have "digits_value (replicate m CHR ''0'') = 0" for m
    by (induction m) (simp_all add: digits_value_def of_char_Char)
  then show "digits_value (pad_zeros k (digits n)) = int n" by (simp add: pad_zeros_def digits_value_append)
qed

subsection \<open>Reading back\<close>

lemma isdigit_not_special: "isdigit c \<Longrightarrow> \<not> isspace c \<and> c \<noteq> CHR ''-'' \<and> c \<noteq> CHR ''+'' \<and> c \<noteq> CHR ''.''"
  by (auto simp: isdigit_def isspace_def of_char_Char)

lemma takeWhile_digits:
  "list_all isdigit ds \<Longrightarrow> \<not> isdigit c \<Longrightarrow> takeWhile isdigit (ds @ c # r) = ds \<and> dropWhile isdigit (ds @ c # r) = c # r"
  by (induction ds) auto

lemma takeWhile_all_digits: "list_all isdigit ds \<Longrightarrow> takeWhile isdigit ds = ds \<and> dropWhile isdigit ds = []"
  by (induction ds) auto

lemma split_sign_shown:
  assumes "list_all isdigit ds" "ds \<noteq> []"
  shows "split_sign (dropWhile isspace ((if neg then [CHR ''-''] else []) @ ds @ r)) = (if neg then - 1 else 1, ds @ r)"
proof -
  obtain c cs where ds: "ds = c # cs" using assms(2) by (cases ds) auto
  then have "isdigit c" using assms(1) by simp
  moreover have "\<not> isspace CHR ''-''" by (simp add: isspace_def of_char_Char)
  ultimately show ?thesis using isdigit_not_special by (auto simp: ds)
qed

lemma atof_fixed:
  assumes "0 < k"
  shows "atof (fixed k x) = (if x < 0 then - 1 else 1) * of_int (round_half_even (\<bar>x\<bar> * 10 ^ k)) / 10 ^ k"
proof -
  define n where "n = nat (round_half_even (\<bar>x\<bar> * 10 ^ k))"
  have n: "int n = round_half_even (\<bar>x\<bar> * 10 ^ k)" by (simp add: n_def round_half_even_nonneg)
  define w f where "w = digits (n div 10 ^ k)" and "f = pad_zeros k (digits (n mod 10 ^ k))"
  have m: "n mod 10 ^ k < 10 ^ k" by simp
  note f = pad_zeros_props [OF assms m, folded f_def]
  have w: "list_all isdigit w" "w \<noteq> []" "digits_value w = int (n div 10 ^ k)"
    by (simp_all add: w_def digits_all_digits digits_not_Nil)
  have fx: "fixed k x = (if x < 0 then [CHR ''-''] else []) @ w @ CHR ''.'' # f"
    by (simp add: fixed_def Let_def n_def w_def f_def)
  have dot: "\<not> isdigit CHR ''.''" by (simp add: isdigit_def of_char_Char)
  have v: "digits_value (w @ f) = int n"
    unfolding digits_value_append w f(1,3)
    using arg_cong [OF div_mult_mod_eq [of n "10 ^ k"], of int] by (simp only: of_nat_add of_nat_mult of_nat_power of_nat_numeral)
  have parts: "takeWhile isdigit (w @ CHR ''.'' # f) = w" "dropWhile isdigit (w @ CHR ''.'' # f) = CHR ''.'' # f"
    "split_fraction (CHR ''.'' # f) = (f, [])"
    using takeWhile_digits [OF w(1) dot] takeWhile_all_digits [OF f(2)] by simp_all
  define g :: int where "g = (if x < 0 then - 1 else 1)"
  have "split_sign (dropWhile isspace (fixed k x)) = (g, w @ CHR ''.'' # f)"
    unfolding fx g_def by (rule split_sign_shown [OF w(1,2)])
  then have "atof (fixed k x) = scale10 (- int k) (of_int (g * int n))"
    unfolding atof_def Let_def by (simp only: parts prod.case w(2) v f(1)) simp
  then show ?thesis using assms unfolding n g_def by (simp add: scale10_def)
qed

theorem atof_fixed_near: "0 < k \<Longrightarrow> \<bar>atof (fixed k x) - x\<bar> \<le> 1 / (2 * 10 ^ k)"
proof -
  assume k: "0 < k"
  define r where "r = real_of_int (round_half_even (\<bar>x\<bar> * 10 ^ k))"
  have "\<bar>r - \<bar>x\<bar> * 10 ^ k\<bar> \<le> 1 / 2" unfolding r_def by (rule round_half_even_near)
  then have "\<bar>r - \<bar>x\<bar> * 10 ^ k\<bar> / 10 ^ k \<le> 1 / 2 / 10 ^ k" by (rule divide_right_mono) simp
  also have "\<bar>r - \<bar>x\<bar> * 10 ^ k\<bar> / 10 ^ k = \<bar>r / 10 ^ k - \<bar>x\<bar>\<bar>"
  proof -
    have "(r - \<bar>x\<bar> * 10 ^ k) / 10 ^ k = r / 10 ^ k - \<bar>x\<bar>" by (simp add: diff_divide_distrib)
    then show ?thesis by (metis abs_divide abs_of_pos zero_less_numeral zero_less_power)
  qed
  finally have "\<bar>r / 10 ^ k - \<bar>x\<bar>\<bar> \<le> 1 / (2 * 10 ^ k)" by simp
  then show ?thesis unfolding atof_fixed [OF k] r_def [symmetric] by (auto simp: abs_if split: if_splits)
qed

lemma decimal_value_show_int [simp]: "decimal_value (show_int n) = n"
proof -
  define ds where "ds = digits (nat \<bar>n\<bar>)"
  have ds: "list_all isdigit ds" "ds \<noteq> []" "digits_value ds = \<bar>n\<bar>" by (simp_all add: ds_def digits_all_digits digits_not_Nil)
  have "show_int n = (if n < 0 then [CHR ''-''] else []) @ ds @ []" by (simp add: show_int_def ds_def)
  then have "split_sign (dropWhile isspace (show_int n)) = (if n < 0 then - 1 else 1, ds @ [])"
    by (simp only: split_sign_shown [OF ds(1,2), of "n < 0" "[]"])
  then show ?thesis unfolding decimal_value_def Let_def by (simp add: takeWhile_all_digits [OF ds(1)] ds(3))
qed

lemma atoi_show_int: "- (2 ^ 31) \<le> n \<Longrightarrow> n < 2 ^ 31 \<Longrightarrow> atoi (show_int n) = n"
  by (simp add: atoi_small)

text \<open>Room in the 24 characters of the buffers \<open>ftoa\<close> writes to.\<close>

theorem fixed_fits_buffer: "\<bar>x\<bar> \<le> 10 ^ 11 - 1 \<Longrightarrow> length (fixed 10 x) < 24"
proof -
  assume x: "\<bar>x\<bar> \<le> 10 ^ 11 - 1"
  define n where "n = nat (round_half_even (\<bar>x\<bar> * 10 ^ 10))"
  have "real_of_int (round_half_even (\<bar>x\<bar> * 10 ^ 10)) \<le> \<bar>x\<bar> * 10 ^ 10 + 1 / 2"
    using round_half_even_near [of "\<bar>x\<bar> * 10 ^ 10"] by linarith
  also have "\<dots> < real_of_int (10 ^ 21)" using x by simp
  finally have "round_half_even (\<bar>x\<bar> * 10 ^ 10) < 10 ^ 21" by (simp only: of_int_less_iff)
  then have "n < 10 ^ 11 * 10 ^ 10" by (simp add: n_def)
  then have "n div 10 ^ 10 < 10 ^ 11" by (rule less_mult_imp_div_less)
  then have d: "length (digits (n div 10 ^ 10)) \<le> 11" by (rule digits_short) simp
  have m: "n mod 10 ^ 10 < 10 ^ 10" by simp
  have "length (pad_zeros 10 (digits (n mod 10 ^ 10))) = 10" by (rule pad_zeros_props(1)) (simp_all only: m zero_less_numeral)
  then show ?thesis using d unfolding fixed_def Let_def n_def [symmetric] by simp
qed

end
