(* ===== verification/S6_RedisDb.thy ===== *)
theory S6_RedisDb
  imports S6_Decimal
begin

text \<open>
  What the two observatory programs share: the commands they send to redis and what these leave
  in the database, command lines, and how a pass of a main loop may end.
\<close>

subsection \<open>Commands to redis\<close>

datatype redis_command = HMSET string "(string \<times> string) list"

type_synonym redis_db = "string \<Rightarrow> string \<Rightarrow> string option"

definition db_set :: "redis_db \<Rightarrow> redis_command \<Rightarrow> redis_db" where
  "db_set db cmd = (case cmd of HMSET key fvs \<Rightarrow> db(key := db key ++ map_of (rev fvs)))"

definition db_after :: "redis_command list \<Rightarrow> redis_db \<Rightarrow> redis_db" where
  "db_after cmds db = foldl db_set db cmds"

subsection \<open>Outcomes\<close>

datatype 'a parsed = Parsed 'a | Usage_exit | Null_argument

text \<open>Going on, \<open>exit\<close>, a loop that does not end, undefined behaviour.\<close>

datatype 'a proc = Goes 'a | Exits int | Hangs | Crashes

subsection \<open>Commands and the database\<close>

fun sets_field :: "string \<Rightarrow> string \<Rightarrow> redis_command \<Rightarrow> bool" where
  "sets_field key f (HMSET k fvs) \<longleftrightarrow> k = key \<and> f \<in> fst ` set fvs"

fun command_key :: "redis_command \<Rightarrow> string" where
  "command_key (HMSET k fvs) = k"

lemma db_set_HMSET: "db_set db (HMSET k fvs) key = (if key = k then db key ++ map_of (rev fvs) else db key)"
  by (simp add: db_set_def)

lemma db_set_other: "\<not> sets_field key f cmd \<Longrightarrow> db_set db cmd key f = db key f"
proof -
  assume a: "\<not> sets_field key f cmd"
  obtain k fvs where c: "cmd = HMSET k fvs" by (cases cmd)
  show ?thesis
  proof (cases "k = key")
    case True
    then have "f \<notin> fst ` set fvs" using a c by simp
    then have "map_of (rev fvs) f = None" by (simp add: map_of_eq_None_iff)
    then show ?thesis by (simp add: c db_set_HMSET map_add_def)
  qed (auto simp: c db_set_HMSET)
qed

text \<open>What the feeders and the readers rely on of redis: a command changes the fields it names and
  no others.\<close>

locale hash_store =
  fixes put :: "'d \<Rightarrow> redis_command \<Rightarrow> 'd"
    and get :: "'d \<Rightarrow> string \<Rightarrow> string \<Rightarrow> string option"
  assumes get_put_other: "\<not> sets_field key f cmd \<Longrightarrow> get (put d cmd) key f = get d key f"
    and get_put_same: "get (put d (HMSET key (fvs @ [(f, v)]))) key f = Some v"
begin

lemma get_puts_other: "list_all (\<lambda>c. \<not> sets_field key f c) cs \<Longrightarrow> get (foldl put d cs) key f = get d key f"
  by (induction cs arbitrary: d) (simp_all add: get_put_other)

lemma get_puts_last:
  "list_all (\<lambda>c. \<not> sets_field key f c) cs \<Longrightarrow> get (foldl put d (HMSET key (fvs @ [(f, v)]) # cs)) key f = Some v"
  by (simp add: get_puts_other get_put_same)

end

interpretation db: hash_store db_set "\<lambda>db. db"
  by unfold_locales (simp_all add: db_set_other db_set_HMSET)

lemma db_after_Nil [simp]: "db_after [] db = db"
  and db_after_Cons [simp]: "db_after (c # cs) db = db_after cs (db_set db c)"
  and db_after_append: "db_after (xs @ ys) db = db_after ys (db_after xs db)"
  by (simp_all add: db_after_def)

lemma db_after_other: "list_all (\<lambda>c. \<not> sets_field key f c) cs \<Longrightarrow> db_after cs db key f = db key f"
  unfolding db_after_def by (rule db.get_puts_other)

end
