(* ===== verification/S6_ObsAo.thy ===== *)
theory S6_ObsAo
  imports S6_Coord_Sky S6_RedisDb
begin

text \<open>
  The program that feeds redis at Arecibo, \<open>src/src/s6_observatory_ao.c\<close>: it reads scramnet
  packets from the network or from a file, keeps a copy of them if asked to, sets one hash for each
  kind of packet and one of derived coordinates.  A packet is what \<open>read_scram\<close> of the
  observatory's library delivers.  Every \<open>time(NULL)\<close> of a pass has its own reading of the clock.
\<close>

subsection \<open>Command line\<close>

text \<open>\<open>ftoa\<close>.\<close>

definition ftoa :: "real \<Rightarrow> string" where "ftoa x = fixed 10 x"

record ao_args =
  aa_dotest :: bool
  aa_dostdout :: bool
  aa_nodb :: bool
  aa_nottl :: bool
  aa_useinfile :: bool
  aa_infilename :: "string option"
  aa_useoutfile :: bool
  aa_outfilename :: "string option"
  aa_hostname :: "string option"
  aa_port :: int
  aa_rotatesecs :: int

definition ao_defaults :: ao_args where
  "ao_defaults = \<lparr>aa_dotest = False, aa_dostdout = False, aa_nodb = False, aa_nottl = False, aa_useinfile = False,
     aa_infilename = Some [], aa_useoutfile = False, aa_outfilename = Some [], aa_hostname = Some ''127.0.0.1'', aa_port = 6379, aa_rotatesecs = 2147483647\<rparr>"

text \<open>The value of an option at the end of the line is a null pointer: \<open>atoi\<close> dereferences it,
  the other options keep it.\<close>

fun ao_parse :: "string list \<Rightarrow> ao_args \<Rightarrow> ao_args parsed" where
  "ao_parse [] a = Parsed a"
| "ao_parse (w # ws) a =
     (let v = (case ws of [] \<Rightarrow> None | v # ws \<Rightarrow> Some v)
      in if w = ''-test'' then ao_parse ws (a\<lparr>aa_dotest := True\<rparr>)
         else if w = ''-infile'' then ao_parse (tl ws) (a\<lparr>aa_useinfile := True, aa_infilename := v\<rparr>)
         else if w = ''-nodb'' then ao_parse ws (a\<lparr>aa_nodb := True\<rparr>)
         else if w = ''-stdout'' then ao_parse ws (a\<lparr>aa_dostdout := True\<rparr>)
         else if w = ''-nottl'' then ao_parse ws (a\<lparr>aa_nottl := True\<rparr>)
         else if w = ''-hostname'' then ao_parse (tl ws) (a\<lparr>aa_hostname := v\<rparr>)
         else if w = ''-port''
         then (case v of None \<Rightarrow> Null_argument | Some v \<Rightarrow> ao_parse (tl ws) (a\<lparr>aa_port := atoi v\<rparr>))
         else if w = ''-outfile'' then ao_parse (tl ws) (a\<lparr>aa_useoutfile := True, aa_outfilename := v\<rparr>)
         else if w = ''-rotate''
         then (case v of None \<Rightarrow> Null_argument | Some v \<Rightarrow> ao_parse (tl ws) (a\<lparr>aa_rotatesecs := atoi v\<rparr>))
         else Usage_exit)"

subsection \<open>Packets\<close>

record scram_packet =
  magic :: string
  raJ :: real
  decJ :: real
  mjd :: real
  ut1Frac :: real
  modelCorEncAz :: real
  modelCorEncZa :: real
  posAz :: int
  posGr :: int
  timeMs :: int
  if1_freqHz0 :: real
  ampDb0 :: int
  rfFreq :: real
  if1FrqMhz :: real
  alfaFb :: int
  if2_freqHz4 :: real
  useAlfa :: bool
  sigSrc :: int
  slv_position :: int
  first_bias :: int
  second_bias :: int
  motor_position :: real

text \<open>The variables that outlive a pass.\<close>

record ao_srv =
  got_pnt :: bool
  got_agc :: bool
  got_alfashm :: bool
  time_pnt :: int
  time_agc :: int
  time_alfashm :: int
  azfix :: real
  zafix :: real
  agctime :: int
  Azdeg :: real
  ZAdeg :: real
  motorpos :: real

definition ao_srv0 :: ao_srv where
  "ao_srv0 = \<lparr>got_pnt = False, got_agc = False, got_alfashm = False, time_pnt = 0, time_agc = 0, time_alfashm = 0,
     azfix = 0, zafix = 0, agctime = 0, Azdeg = 0, ZAdeg = 0, motorpos = 0\<rparr>"

definition pnt_command :: "real \<Rightarrow> int \<Rightarrow> scram_packet \<Rightarrow> redis_command" where
  "pnt_command c_2pi t p = HMSET ''SCRAM:PNT''
     [(''PNTSTIME'', show_int32 t), (''PNTRA'', ftoa (raJ p * (24 / c_2pi))), (''PNTDEC'', ftoa (decJ p * (360 / c_2pi))),
      (''PNTMJD'', ftoa (mjd p + ut1Frac p)), (''PNTAZCOR'', ftoa (modelCorEncAz p / D2R)), (''PNTZACOR'', ftoa (modelCorEncZa p / D2R))]"

definition agc_command :: "int \<Rightarrow> scram_packet \<Rightarrow> redis_command" where
  "agc_command t p = HMSET ''SCRAM:AGC''
     [(''AGCSTIME'', show_int32 t), (''AGCTIME'', show_int32 (timeMs p)), (''AGCAZ'', ftoa (of_int (posAz p) * 0.0001)),
      (''AGCZA'', ftoa (of_int (posGr p) * 0.0001))]"

definition if1_command :: "int \<Rightarrow> scram_packet \<Rightarrow> redis_command" where
  "if1_command t p = HMSET ''SCRAM:IF1''
     [(''IF1STIME'', show_int32 t), (''IF1SYNHZ'', ftoa (if1_freqHz0 p)), (''IF1SYNDB'', show_int32 (ampDb0 p)),
      (''IF1RFFRQ'', ftoa (rfFreq p)), (''IF1IFFRQ'', ftoa (if1FrqMhz p)), (''IF1ALFFB'', show_int32 (alfaFb p))]"

definition if2_command :: "int \<Rightarrow> scram_packet \<Rightarrow> redis_command" where
  "if2_command t p = HMSET ''SCRAM:IF2''
     [(''IF2STIME'', show_int32 t), (''IF2SYNHZ'', ftoa (if2_freqHz4 p)), (''IF2ALFON'', show_int32 (if useAlfa p then 1 else 0)),
      (''IF2SIGSR'', show_int32 (sigSrc p))]"

definition Enc2Deg :: real where "Enc2Deg = 1 / ((4096 * 210 / 5) / 360)"

definition tt_command :: "int \<Rightarrow> scram_packet \<Rightarrow> redis_command" where
  "tt_command t p = HMSET ''SCRAM:TT''
     [(''TTSTIME'', show_int32 t), (''TTTURENC'', show_int32 (slv_position p)), (''TTTURDEG'', ftoa (of_int (slv_position p) * Enc2Deg))]"

definition alfashm_command :: "int \<Rightarrow> scram_packet \<Rightarrow> redis_command" where
  "alfashm_command t p = HMSET ''SCRAM:ALFASHM''
     [(''ALFSTIME'', show_int32 t), (''ALFBIAS1'', show_int32 (first_bias p)), (''ALFBIAS2'', show_int32 (second_bias p)),
      (''ALFMOPOS'', ftoa (motor_position p))]"

text \<open>The chain of tests on the magic word; \<open>t\<close> is the time of the packet.\<close>

definition ao_decode :: "real \<Rightarrow> int \<Rightarrow> scram_packet \<Rightarrow> ao_srv \<Rightarrow> redis_command list \<times> ao_srv" where
  "ao_decode c_2pi t p s =
     (if magic p = ''PNT''
      then ([pnt_command c_2pi t p], s\<lparr>got_pnt := True, time_pnt := t, azfix := modelCorEncAz p / D2R, zafix := modelCorEncZa p / D2R\<rparr>)
      else if magic p = ''AGC''
      then ([agc_command t p],
        s\<lparr>got_agc := True, time_agc := t, agctime := timeMs p, Azdeg := of_int (posAz p) * 0.0001, ZAdeg := of_int (posGr p) * 0.0001\<rparr>)
      else if magic p = ''IF1'' then ([if1_command t p], s)
      else if magic p = ''IF2'' then ([if2_command t p], s)
      else if magic p = ''TT'' then ([tt_command t p], s)
      else if magic p = ''ALFASHM'' then ([alfashm_command t p], s\<lparr>got_alfashm := True, time_alfashm := t, motorpos := motor_position p\<rparr>)
      else ([], s))"

subsection \<open>Derived values\<close>

fun ao_beams :: "'i ao_lib \<Rightarrow> ao_srv \<Rightarrow> real \<Rightarrow> nat list \<Rightarrow> (string \<times> string) list proc" where
  "ao_beams lib s coord_unixtime [] = Goes []"
| "ao_beams lib s coord_unixtime (i # is) =
     (case s6_BeamOffset (Azdeg s - azfix s) (ZAdeg s - zafix s) i (motorpos s) of
        None \<Rightarrow> Hangs
      | Some (beamAz, beamZA) \<Rightarrow>
          (case s6_AzZaToRaDec lib beamAz beamZA coord_unixtime of
             Init_failed_exit \<Rightarrow> Exits 1
           | Ra_loops \<Rightarrow> Hangs
           | Ra_dec (fixedRA, fixedDec) \<Rightarrow>
               (case ao_beams lib s coord_unixtime is of
                  Goes fvs \<Rightarrow> Goes ((''RA'' @ digits i, ftoa fixedRA) # (''DEC'' @ digits i, ftoa fixedDec) # fvs)
                | r \<Rightarrow> r)))"

definition time_fix :: "ao_srv \<Rightarrow> int" where
  "time_fix s =
     (let time_fix = time_alfashm s;
          time_fix = (if time_agc s > time_fix then time_agc s else time_fix)
      in if time_pnt s > time_fix then time_pnt s else time_fix)"

definition ao_derived :: "'i ao_lib \<Rightarrow> ao_srv \<Rightarrow> redis_command list proc" where
  "ao_derived lib s =
     (if got_alfashm s \<and> got_agc s \<and> got_pnt s
      then (case ao_beams lib s (s6_seti_ao_timeMS2unixtime (agctime s) (time_fix s)) [0..<7] of
              Goes fvs \<Rightarrow> Goes [HMSET ''SCRAM:DERIVED'' ((''DERTIME'', show_int32 (time_fix s)) # fvs)]
            | Exits c \<Rightarrow> Exits c
            | Hangs \<Rightarrow> Hangs
            | Crashes \<Rightarrow> Crashes)
      else Goes [])"

text \<open>A pass once the packet is there.\<close>

definition ao_packet :: "'i ao_lib \<Rightarrow> int \<Rightarrow> scram_packet \<Rightarrow> ao_srv \<Rightarrow> redis_command list \<times> ao_srv proc" where
  "ao_packet lib t p s =
     (let (cmds, s) = ao_decode (lib_C_2PI lib) t p s
      in case ao_derived lib s of
           Goes dcmds \<Rightarrow> (cmds @ dcmds, Goes s)
         | Exits c \<Rightarrow> (cmds, Exits c)
         | Hangs \<Rightarrow> (cmds, Hangs)
         | Crashes \<Rightarrow> (cmds, Crashes))"

subsection \<open>The copy on disk\<close>

type_synonym scram_entry = "scram_packet \<times> int"

text \<open>The file being written, the files it was renamed to, the time of the last rotation.\<close>

record scram_files =
  sf_current :: "scram_entry list"
  sf_rotated :: "string \<Rightarrow> scram_entry list option"
  sf_lastrotate :: int

definition rotate_name :: "string \<Rightarrow> int \<Rightarrow> string" where
  "rotate_name outfilename now = outfilename @ ''.'' @ show_int32 now"

text \<open>The four readings of the clock: the time stored with the packet, the one compared with the last
  rotation, the one in the new name, and the one kept as the time of this rotation.\<close>

record save_clock =
  sc_stored :: int
  sc_compared :: int
  sc_named :: int
  sc_rotated :: int

definition save_packet :: "string \<Rightarrow> int \<Rightarrow> bool \<Rightarrow> bool \<Rightarrow> save_clock \<Rightarrow> scram_packet \<Rightarrow> scram_files \<Rightarrow> scram_files proc" where
  "save_packet outfilename rotatesecs fwrite_ok fopen_ok now p sf =
     (if \<not> fwrite_ok then Exits 1
      else
        (let sf = sf\<lparr>sf_current := sf_current sf @ [(p, sc_stored now)]\<rparr>
         in if sc_compared now - sf_lastrotate sf \<ge> rotatesecs
            then if \<not> fopen_ok then Exits 1
                 else Goes (sf\<lparr>sf_rotated := (sf_rotated sf)(rotate_name outfilename (sc_named now) \<mapsto> sf_current sf),
                                sf_current := [], sf_lastrotate := sc_rotated now\<rparr>)
            else Goes sf))"

subsection \<open>Test mode\<close>

text \<open>\<open>now i\<close> is the clock when hash \<open>i\<close> is set.\<close>

definition test_commands :: "(nat \<Rightarrow> int) \<Rightarrow> redis_command list" where
  "test_commands now =
     [HMSET ''SCRAM:PNT'' [(''PNTSTIME'', show_int32 (now 0)), (''PNTRA'', ''1.1''), (''PNTDEC'', ''2.2''), (''PNTMJD'', ''3.3''),
        (''PNTAZCOR'', ''4.4''), (''PNTZACOR'', ''5.5'')],
      HMSET ''SCRAM:AGC'' [(''AGCSTIME'', show_int32 (now 1)), (''AGCTIME'', show_int32 1), (''AGCAZ'', ''2.2''), (''AGCZA'', ''3.3'')],
      HMSET ''SCRAM:IF1'' [(''IF1STIME'', show_int32 (now 2)), (''IF1SYNHZ'', ''1.1''), (''IF1SYNDB'', show_int32 2), (''IF1RFFRQ'', ''3.3''),
        (''IF1IFFRQ'', ''4.4''), (''IF1ALFFB'', show_int32 5)],
      HMSET ''SCRAM:IF2'' [(''IF2STIME'', show_int32 (now 3)), (''IF2SYNHZ'', ''0.0''), (''IF2ALFON'', show_int32 1)],
      HMSET ''SCRAM:TT'' [(''TTSTIME'', show_int32 (now 4)), (''TTTURENC'', show_int32 1), (''TTTURDEG'', ''2.2'')],
      HMSET ''SCRAM:ALFASHM'' [(''ALFSTIME'', show_int32 (now 5)), (''ALFBIAS1'', show_int32 1), (''ALFBIAS2'', show_int32 2), (''ALFMOPOS'', ''3.3'')],
      HMSET ''SCRAM:DERIVED'' [(''DERTIME'', show_int32 (now 6)), (''RA0'', ''0.1''), (''DEC0'', ''0.1''), (''RA1'', ''1.2''), (''DEC1'', ''1.2''),
        (''RA2'', ''2.3''), (''DEC2'', ''2.3''), (''RA3'', ''3.4''), (''DEC3'', ''3.4''), (''RA4'', ''4.5''), (''DEC4'', ''4.5''),
        (''RA5'', ''5.6''), (''DEC5'', ''5.6''), (''RA6'', ''6.7''), (''DEC6'', ''6.7'')]]"

subsection \<open>The main loop\<close>

text \<open>What the outside does in one pass: the clock when a packet is saved, when it is decoded and when the
  hashes of test mode are set, what \<open>read_scram\<close> returns (\<open>None\<close> for -1) and
  whether writing and reopening the copy work.\<close>

record ao_pass =
  ap_save :: save_clock
  ap_now :: int
  ap_test :: "nat \<Rightarrow> int"
  ap_packet :: "scram_packet option"
  ap_fwrite_ok :: bool
  ap_fopen_ok :: bool

text \<open>The state of the program: its variables, what is left of the input file, the copy.\<close>

record ao_prog =
  pr_srv :: ao_srv
  pr_infile :: "scram_entry list"
  pr_files :: scram_files

text \<open>Getting the packet of a pass and its time.\<close>

definition ao_fetch :: "ao_args \<Rightarrow> ao_pass \<Rightarrow> ao_prog \<Rightarrow> (scram_packet \<times> int \<times> ao_prog) proc" where
  "ao_fetch a w pr =
     (if aa_useinfile a
      then (case pr_infile pr of [] \<Rightarrow> Exits 0 | (p, t) # rest \<Rightarrow> Goes (p, t, pr\<lparr>pr_infile := rest\<rparr>))
      else case ap_packet w of
             None \<Rightarrow> Exits 1
           | Some p \<Rightarrow>
               if aa_useoutfile a
               then (case save_packet (case aa_outfilename a of None \<Rightarrow> [] | Some f \<Rightarrow> f) (aa_rotatesecs a)
                            (ap_fwrite_ok w) (ap_fopen_ok w) (ap_save w) p (pr_files pr) of
                       Goes sf \<Rightarrow> Goes (p, ap_now w, pr\<lparr>pr_files := sf\<rparr>)
                     | Exits c \<Rightarrow> Exits c
                     | Hangs \<Rightarrow> Hangs
                     | Crashes \<Rightarrow> Crashes)
               else Goes (p, ap_now w, pr))"

definition ao_step :: "'i ao_lib \<Rightarrow> ao_args \<Rightarrow> ao_pass \<Rightarrow> ao_prog \<Rightarrow> redis_command list \<times> ao_prog proc" where
  "ao_step lib a w pr =
     (if aa_dotest a then (if aa_nodb a then [] else test_commands (ap_test w), Goes pr)
      else
        (case ao_fetch a w pr of
           Goes (p, t, pr) \<Rightarrow>
             (let (cmds, next) = ao_packet lib t p (pr_srv pr)
              in (if aa_nodb a then [] else cmds,
                  case next of
                    Goes s \<Rightarrow> Goes (pr\<lparr>pr_srv := s\<rparr>)
                  | Exits c \<Rightarrow> Exits c
                  | Hangs \<Rightarrow> Hangs
                  | Crashes \<Rightarrow> Crashes))
         | Exits c \<Rightarrow> ([], Exits c)
         | Hangs \<Rightarrow> ([], Hangs)
         | Crashes \<Rightarrow> ([], Crashes)))"

fun ao_loop :: "'i ao_lib \<Rightarrow> ao_args \<Rightarrow> ao_pass list \<Rightarrow> ao_prog \<Rightarrow> redis_command list \<times> ao_prog proc" where
  "ao_loop lib a [] pr = ([], Goes pr)"
| "ao_loop lib a (w # ws) pr =
     (case ao_step lib a w pr of
        (cmds, Goes pr) \<Rightarrow> (let (more, next) = ao_loop lib a ws pr in (cmds @ more, next))
      | r \<Rightarrow> r)"

text \<open>\<open>main\<close>: the outside at the start and then one entry for each pass.\<close>

record ao_start =
  as_infile :: "scram_entry list option"
  as_outfile_ok :: bool
  as_redis_ok :: bool
  as_now :: int

definition ao_prog_start :: "ao_start \<Rightarrow> ao_prog" where
  "ao_prog_start st =
     \<lparr>pr_srv = ao_srv0, pr_infile = (case as_infile st of None \<Rightarrow> [] | Some es \<Rightarrow> es),
      pr_files = \<lparr>sf_current = [], sf_rotated = (\<lambda>f. None), sf_lastrotate = as_now st\<rparr>\<rparr>"

definition s6_observatory_ao ::
  "'i ao_lib \<Rightarrow> string list \<Rightarrow> ao_start \<Rightarrow> ao_pass list \<Rightarrow> redis_command list \<times> ao_prog proc" where
  "s6_observatory_ao lib argv st ws =
     (case ao_parse argv ao_defaults of
        Usage_exit \<Rightarrow> ([], Exits 1)
      | Null_argument \<Rightarrow> ([], Crashes)
      | Parsed a \<Rightarrow>
          if aa_useinfile a \<and> aa_useoutfile a then ([], Exits 1)
          else if aa_useinfile a \<and> aa_infilename a = None \<or> aa_useoutfile a \<and> aa_outfilename a = None then ([], Crashes)
          else if aa_useinfile a \<and> as_infile st = None then ([], Exits 1)
          else if aa_useoutfile a \<and> \<not> as_outfile_ok st then ([], Exits 1)
          else if \<not> aa_nodb a \<and> aa_hostname a = None then ([], Crashes)
          else if \<not> aa_nodb a \<and> \<not> as_redis_ok st then ([], Exits 1)
          else ao_loop lib a ws (ao_prog_start st))"

end
