(* ===== verification/S6_ObsAo_Props.thy ===== *)
theory S6_ObsAo_Props
  imports S6_ObsAo
begin

text \<open>
  The program that feeds redis at Arecibo against the status reader of \<open>S6_Obs\<close>: what the reader
  finds after a packet, why it never gets past the second query, when derived values are set, and
  that a recorded file can be replayed.
\<close>

subsection \<open>The commands of a pass\<close>

lemma ao_derived_key: "ao_derived lib s = Goes cs \<Longrightarrow> list_all (\<lambda>c. command_key c = ''SCRAM:DERIVED'') cs"
  by (auto simp: ao_derived_def split: if_splits proc.splits)

lemma ao_packet_commands:
  "\<exists>cs. fst (ao_packet lib t p s) = fst (ao_decode (lib_C_2PI lib) t p s) @ cs \<and> list_all (\<lambda>c. command_key c = ''SCRAM:DERIVED'') cs"
  using ao_derived_key [of lib "snd (ao_decode (lib_C_2PI lib) t p s)"]
  by (auto simp: ao_packet_def split_def Let_def split: proc.splits)

lemmas packet_commands_def =
  pnt_command_def agc_command_def if1_command_def if2_command_def tt_command_def alfashm_command_def

lemma ao_decode_no_lst: "list_all (\<lambda>c. \<not> sets_field ''SCRAM:AGC'' ''AGCLST'' c) (fst (ao_decode c t p s))"
  by (simp add: ao_decode_def packet_commands_def)

lemma ao_packet_no_lst: "list_all (\<lambda>c. \<not> sets_field ''SCRAM:AGC'' ''AGCLST'' c) (fst (ao_packet lib t p s))"
proof -
  obtain cs where cs: "fst (ao_packet lib t p s) = fst (ao_decode (lib_C_2PI lib) t p s) @ cs"
    "list_all (\<lambda>c. command_key c = ''SCRAM:DERIVED'') cs" using ao_packet_commands by blast
  have "\<not> sets_field ''SCRAM:AGC'' ''AGCLST'' c" if "command_key c = ''SCRAM:DERIVED''" for c
    using that by (cases c) simp
  then have "list_all (\<lambda>c. \<not> sets_field ''SCRAM:AGC'' ''AGCLST'' c) cs" using cs(2) by (simp add: list_all_iff)
  then show ?thesis by (simp add: cs(1) ao_decode_no_lst)
qed

text \<open>What a pass issues is nothing, the test commands or what one packet gives.\<close>

lemma ao_step_commands:
  "fst (ao_step lib a w pr) = [] \<or> fst (ao_step lib a w pr) = test_commands (ap_test w) \<or>
   (\<exists>t p s. fst (ao_step lib a w pr) = fst (ao_packet lib t p s))"
proof (cases "aa_dotest a \<or> aa_nodb a")
  case True
  then show ?thesis by (auto simp: ao_step_def split_def split: proc.splits)
next
  case False
  show ?thesis
  proof (cases "ao_fetch a w pr")
    case (Goes x)
    then have "fst (ao_step lib a w pr) = fst (ao_packet lib (fst (snd x)) (fst x) (pr_srv (snd (snd x))))"
      using False by (simp add: ao_step_def split_def Let_def)
    then show ?thesis by blast
  qed (use False in \<open>simp_all add: ao_step_def\<close>)
qed

lemma ao_loop_Cons:
  "ao_loop lib a (w # ws) pr =
     (case snd (ao_step lib a w pr) of
        Goes pr' \<Rightarrow> (fst (ao_step lib a w pr) @ fst (ao_loop lib a ws pr'), snd (ao_loop lib a ws pr'))
      | r \<Rightarrow> (fst (ao_step lib a w pr), r))"
  by (simp add: split_def Let_def split: proc.split)

lemma ao_loop_commands:
  assumes "\<And>w pr. list_all P (fst (ao_step lib a w pr))"
  shows "list_all P (fst (ao_loop lib a ws pr))"
proof (induction ws arbitrary: pr)
  case (Cons w ws)
  show ?case unfolding ao_loop_Cons using Cons assms [of w pr] by (simp split: proc.split)
qed simp

lemma ao_no_lst: "list_all (\<lambda>c. \<not> sets_field ''SCRAM:AGC'' ''AGCLST'' c) (fst (s6_observatory_ao lib argv st ws))"
proof -
  have "list_all (\<lambda>c. \<not> sets_field ''SCRAM:AGC'' ''AGCLST'' c) (fst (ao_step lib a w pr))" for a w pr
    using ao_step_commands [of lib a w pr] ao_packet_no_lst by (auto simp: test_commands_def)
  then have "list_all (\<lambda>c. \<not> sets_field ''SCRAM:AGC'' ''AGCLST'' c) (fst (ao_loop lib a ws pr))" for a pr
    by (rule ao_loop_commands)
  then show ?thesis by (auto simp: s6_observatory_ao_def split: parsed.splits)
qed

lemma assign_all_missing: "length ms = length els \<Longrightarrow> None \<in> set els \<Longrightarrow> assign_all ms els os = None"
  by (induction ms els os rule: assign_all.induct) auto

lemma ao_query_missing:
  assumes "redis (fst q) = Reply_array (Some v # els)" "None \<in> set els" "length (snd q) = Suc (length els)"
  shows "ao_query redis q os = Query_crash"
proof -
  have "assign_all (snd q) (Some v # els) os = None" by (rule assign_all_missing) (simp_all add: assms)
  then show ?thesis by (simp add: ao_query_def assms(1))
qed

text \<open>C19: Whatever the Arecibo feeder is given, on any command line, it never sets the field
  AGCLST; so once it has set the AGC hash, the status reader, which asks for that field and
  converts it unchecked, dereferences a null pointer at its first query.\<close>
theorem ao_status_reader_crashes:
  assumes "s6_observatory_ao lib argv st ws = (cmds, fin)"
    and "db = db_after cmds db0" "db0 ''SCRAM:AGC'' ''AGCLST'' = None" "db ''SCRAM:AGC'' ''AGCSTIME'' \<noteq> None"
    and "redis (fst agc_query) =
      Reply_array (map (db ''SCRAM:AGC'') [''AGCSTIME'', ''AGCTIME'', ''AGCAZ'', ''AGCZA'', ''AGCLST''])"
  shows "get_obs_info_from_redis True redis now os stc = Crash"
proof -
  have "list_all (\<lambda>c. \<not> sets_field ''SCRAM:AGC'' ''AGCLST'' c) cmds" using ao_no_lst [of lib argv st ws] assms(1) by simp
  then have none: "db ''SCRAM:AGC'' ''AGCLST'' = None" using assms(2,3) db_after_other by simp
  obtain v where v: "db ''SCRAM:AGC'' ''AGCSTIME'' = Some v" using assms(4) by blast
  have "ao_query redis agc_query os = Query_crash"
    by (rule ao_query_missing [where v = v and els = "map (db ''SCRAM:AGC'') [''AGCTIME'', ''AGCAZ'', ''AGCZA'', ''AGCLST'']"])
      (simp_all add: assms(5) v none agc_query_def [THEN arg_cong, of snd])
  then show ?thesis by (simp add: get_obs_info_from_redis_def ao_agc_def)
qed


text \<open>A library whose functions return constants, and a clock that does not tick.\<close>

definition saved_at :: "int \<Rightarrow> save_clock" where
  "saved_at t = \<lparr>sc_stored = t, sc_compared = t, sc_named = t, sc_rotated = t\<rparr>"

definition demo_lib :: "unit ao_lib" where
  "demo_lib = \<lparr>lib_C_2PI = 6, lib_dmToDayNo = (\<lambda>d m y. 1), lib_gregToMjd = (\<lambda>d m y. 57000),
     lib_azzaToRaDecInit = (\<lambda>d y. Some ()), lib_azzaToRaDec = (\<lambda>az za mjd utc od i. (1, 1))\<rparr>"

theorem ao_status_reader_crashes_witness:
  "\<exists>cmds fin. s6_observatory_ao demo_lib [''-test''] \<lparr>as_infile = None, as_outfile_ok = True, as_redis_ok = True, as_now = 0\<rparr>
       [\<lparr>ap_save = saved_at 5, ap_now = 5, ap_test = (\<lambda>i. 5), ap_packet = None, ap_fwrite_ok = True, ap_fopen_ok = True\<rparr>] = (cmds, fin) \<and>
     (let db = db_after cmds (\<lambda>k f. None)
      in get_obs_info_from_redis True
           (\<lambda>q. Reply_array (map (db ''SCRAM:AGC'') [''AGCSTIME'', ''AGCTIME'', ''AGCAZ'', ''AGCZA'', ''AGCLST''])) 5 zero_obs
           \<lparr>prior_agc_time = 0, no_time_change_count = 0\<rparr> = Crash)"
proof -
  define st where "st = \<lparr>as_infile = None, as_outfile_ok = True, as_redis_ok = True, as_now = 0\<rparr>"
  define w where "w = \<lparr>ap_save = saved_at 5, ap_now = 5, ap_test = (\<lambda>i. 5), ap_packet = None, ap_fwrite_ok = True, ap_fopen_ok = True\<rparr>"
  obtain fin where run: "s6_observatory_ao demo_lib [''-test''] st [w] = (test_commands (\<lambda>i. 5), fin)"
    by (simp add: s6_observatory_ao_def ao_defaults_def st_def w_def ao_step_def)
  have "db_after (test_commands (\<lambda>i. 5)) (\<lambda>k f. None) ''SCRAM:AGC'' ''AGCSTIME'' \<noteq> None"
    by (simp add: test_commands_def db_set_HMSET)
  note c = ao_status_reader_crashes [OF run refl refl this]
  show ?thesis unfolding Let_def st_def [symmetric] w_def [symmetric]
    by (intro exI conjI, rule run, rule c) simp
qed

subsection \<open>From the packet to the status\<close>

definition pnt_query :: "string \<times> member list" where
  "pnt_query = hd scram_queries"

lemma atof_ftoa: "\<bar>atof (ftoa x) - x\<bar> \<le> 1 / (2 * 10 ^ 10)"
  unfolding ftoa_def by (rule atof_fixed_near) simp

lemma show_int32_small: "- (2 ^ 31) \<le> n \<Longrightarrow> n < 2 ^ 31 \<Longrightarrow> show_int32 n = show_int n"
  by (simp add: show_int32_def int32_of_small)

text \<open>C28: The query for the PNT hash, asked by itself after the feeder has handled a PNT packet
  with a time of 31 bits, sets the members of the status to the packet's time exactly and to
  its five coordinates within half a unit of the tenth decimal. It is about this one query: on
  the feeder's data the whole reader stops before it, at its first query.\<close>
theorem pointing_survives_redis:
  assumes "ao_packet lib t p s = (cmds, fin)" "magic p = ''PNT''" "db = db_after cmds db0" "0 \<le> t" "t < 2 ^ 31"
    and "redis (fst pnt_query) = Reply_array (map (db ''SCRAM:PNT'')
      [''PNTSTIME'', ''PNTRA'', ''PNTDEC'', ''PNTMJD'', ''PNTAZCOR'', ''PNTZACOR''])"
  shows "\<exists>os'. ao_query redis pnt_query os = Query_ok os' \<and> o_int os' ''PNTSTIME'' 0 = t \<and>
    \<bar>o_dbl os' ''PNTRA'' 0 - raJ p * 24 / lib_C_2PI lib\<bar> \<le> 1 / (2 * 10 ^ 10) \<and>
    \<bar>o_dbl os' ''PNTDEC'' 0 - decJ p * 360 / lib_C_2PI lib\<bar> \<le> 1 / (2 * 10 ^ 10) \<and>
    \<bar>o_dbl os' ''PNTMJD'' 0 - (mjd p + ut1Frac p)\<bar> \<le> 1 / (2 * 10 ^ 10) \<and>
    \<bar>o_dbl os' ''PNTAZCOR'' 0 - modelCorEncAz p / D2R\<bar> \<le> 1 / (2 * 10 ^ 10) \<and>
    \<bar>o_dbl os' ''PNTZACOR'' 0 - modelCorEncZa p / D2R\<bar> \<le> 1 / (2 * 10 ^ 10)"
proof -
  obtain cs where cs: "cmds = pnt_command (lib_C_2PI lib) t p # cs" "list_all (\<lambda>c. command_key c = ''SCRAM:DERIVED'') cs"
    using ao_packet_commands [of lib t p s] assms(1,2) by (auto simp: ao_decode_def)
  have "\<not> sets_field ''SCRAM:PNT'' f c" if "command_key c = ''SCRAM:DERIVED''" for c f
    using that by (cases c) simp
  then have "list_all (\<lambda>c. \<not> sets_field ''SCRAM:PNT'' f c) cs" for f using cs(2) by (simp add: list_all_iff)
  then have db: "db ''SCRAM:PNT'' f = db_set db0 (pnt_command (lib_C_2PI lib) t p) ''SCRAM:PNT'' f" for f
    using db_after_other by (simp add: assms(3) cs(1))
  have t: "show_int32 t = show_int t" using assms(4,5) by (simp add: show_int32_small)
  have i: "atoi (show_int t) = t" using assms(4,5) by (intro atoi_show_int) simp_all
  have r: "redis (fst pnt_query) = Reply_array (map Some [show_int t, ftoa (raJ p * (24 / lib_C_2PI lib)), ftoa (decJ p * (360 / lib_C_2PI lib)),
      ftoa (mjd p + ut1Frac p), ftoa (modelCorEncAz p / D2R), ftoa (modelCorEncZa p / D2R)])"
    unfolding assms(6) list.map db pnt_command_def db_set_HMSET by (simp add: t)
  show ?thesis
    using atof_ftoa [of "raJ p * (24 / lib_C_2PI lib)"] atof_ftoa [of "decJ p * (360 / lib_C_2PI lib)"]
      atof_ftoa [of "mjd p + ut1Frac p"] atof_ftoa [of "modelCorEncAz p / D2R"] atof_ftoa [of "modelCorEncZa p / D2R"]
    unfolding ao_query_def r by (simp add: pnt_query_def scram_queries_def i)
qed


definition pnt_packet :: scram_packet where
  "pnt_packet = \<lparr>magic = ''PNT'', raJ = 1, decJ = 1 / 2, mjd = 57000, ut1Frac = 1 / 4, modelCorEncAz = 0, modelCorEncZa = 0,
     posAz = 0, posGr = 0, timeMs = 0, if1_freqHz0 = 0, ampDb0 = 0, rfFreq = 0, if1FrqMhz = 0, alfaFb = 0, if2_freqHz4 = 0,
     useAlfa = False, sigSrc = 0, slv_position = 0, first_bias = 0, second_bias = 0, motor_position = 0\<rparr>"

theorem pointing_survives_redis_witness:
  "\<exists>os'. ao_query (\<lambda>q. Reply_array (map (db_after (fst (ao_packet demo_lib 9 pnt_packet ao_srv0)) (\<lambda>k f. None) ''SCRAM:PNT'')
      [''PNTSTIME'', ''PNTRA'', ''PNTDEC'', ''PNTMJD'', ''PNTAZCOR'', ''PNTZACOR''])) pnt_query zero_obs = Query_ok os' \<and>
    \<bar>o_dbl os' ''PNTMJD'' 0 - 228001 / 4\<bar> \<le> 1 / (2 * 10 ^ 10)"
proof -
  obtain cmds fin where p: "ao_packet demo_lib 9 pnt_packet ao_srv0 = (cmds, fin)" by (cases "ao_packet demo_lib 9 pnt_packet ao_srv0")
  have m: "magic pnt_packet = ''PNT''" "mjd pnt_packet + ut1Frac pnt_packet = 228001 / 4" by (simp_all add: pnt_packet_def)
  have t: "(0::int) \<le> 9" "(9::int) < 2 ^ 31" by simp_all
  show ?thesis
    using pointing_survives_redis [OF p m(1) refl t, of "\<lambda>q. Reply_array (map (db_after cmds (\<lambda>k f. None) ''SCRAM:PNT'')
      [''PNTSTIME'', ''PNTRA'', ''PNTDEC'', ''PNTMJD'', ''PNTAZCOR'', ''PNTZACOR''])" "\<lambda>k f. None" zero_obs]
    unfolding p fst_conv m(2) by blast
qed

subsection \<open>Derived values come last\<close>

definition sources :: "string set" where "sources = {''SCRAM:PNT'', ''SCRAM:AGC'', ''SCRAM:ALFASHM''}"

fun derived_ok :: "string set \<Rightarrow> redis_command list \<Rightarrow> bool" where
  "derived_ok seen [] \<longleftrightarrow> True"
| "derived_ok seen (c # cs) \<longleftrightarrow> (command_key c = ''SCRAM:DERIVED'' \<longrightarrow> sources \<subseteq> seen) \<and> derived_ok (insert (command_key c) seen) cs"

lemma derived_ok_append:
  "derived_ok seen (xs @ ys) \<longleftrightarrow> derived_ok seen xs \<and> derived_ok (seen \<union> command_key ` set xs) ys"
  by (induction xs arbitrary: seen) auto

definition got_ok :: "ao_srv \<Rightarrow> string set \<Rightarrow> bool" where
  "got_ok s seen \<longleftrightarrow> (got_pnt s \<longrightarrow> ''SCRAM:PNT'' \<in> seen) \<and> (got_agc s \<longrightarrow> ''SCRAM:AGC'' \<in> seen) \<and> (got_alfashm s \<longrightarrow> ''SCRAM:ALFASHM'' \<in> seen)"

lemma got_ok_mono: "got_ok s seen \<Longrightarrow> seen \<subseteq> seen' \<Longrightarrow> got_ok s seen'"
  by (auto simp: got_ok_def)

lemma ao_decode_got:
  "got_ok s seen \<Longrightarrow> got_ok (snd (ao_decode c t p s)) (seen \<union> command_key ` set (fst (ao_decode c t p s))) \<and>
     derived_ok seen (fst (ao_decode c t p s))"
  by (auto simp: ao_decode_def got_ok_def packet_commands_def)

lemma ao_derived_got:
  assumes "ao_derived lib s = Goes cs" "got_ok s seen"
  shows "derived_ok seen cs"
  using assms by (auto simp: ao_derived_def got_ok_def sources_def split: if_splits proc.splits)

lemma ao_packet_got:
  assumes "got_ok s seen"
  shows "derived_ok seen (fst (ao_packet lib t p s)) \<and>
    (\<forall>s'. snd (ao_packet lib t p s) = Goes s' \<longrightarrow> got_ok s' (seen \<union> command_key ` set (fst (ao_packet lib t p s))))"
proof -
  obtain cs s1 where d: "ao_decode (lib_C_2PI lib) t p s = (cs, s1)" by (cases "ao_decode (lib_C_2PI lib) t p s")
  have g: "got_ok s1 (seen \<union> command_key ` set cs)" "derived_ok seen cs"
    using ao_decode_got [OF assms, of "lib_C_2PI lib" t p] by (simp_all add: d)
  show ?thesis
  proof (cases "ao_derived lib s1")
    case (Goes ds)
    then have "derived_ok (seen \<union> command_key ` set cs) ds" using ao_derived_got g(1) by blast
    moreover have "got_ok s1 (seen \<union> command_key ` set (cs @ ds))" by (rule got_ok_mono [OF g(1)]) auto
    ultimately show ?thesis using g(2) by (simp add: ao_packet_def d Goes derived_ok_append)
  qed (simp_all add: ao_packet_def d g)
qed

lemma ao_fetch_srv: "ao_fetch a w pr = Goes (p, t, pr') \<Longrightarrow> pr_srv pr' = pr_srv pr"
  by (auto simp: ao_fetch_def split: if_splits list.splits option.splits proc.splits)

lemma ao_step_got:
  assumes "got_ok (pr_srv pr) seen" "\<not> aa_dotest a" "\<not> aa_nodb a"
  shows "derived_ok seen (fst (ao_step lib a w pr)) \<and>
    (\<forall>pr'. snd (ao_step lib a w pr) = Goes pr' \<longrightarrow> got_ok (pr_srv pr') (seen \<union> command_key ` set (fst (ao_step lib a w pr))))"
proof (cases "ao_fetch a w pr")
  case (Goes x)
  obtain p t pr1 where x: "x = (p, t, pr1)" by (cases x)
  obtain cs n where n: "ao_packet lib t p (pr_srv pr) = (cs, n)" by (cases "ao_packet lib t p (pr_srv pr)")
  have s: "ao_step lib a w pr = (cs, case n of Goes s \<Rightarrow> Goes (pr1\<lparr>pr_srv := s\<rparr>) | Exits c \<Rightarrow> Exits c | Hangs \<Rightarrow> Hangs | Crashes \<Rightarrow> Crashes)"
    using assms ao_fetch_srv [OF Goes [unfolded x]] by (simp add: ao_step_def Goes x n)
  show ?thesis using ao_packet_got [OF assms(1), of lib t p] unfolding s n by (auto split: proc.splits)
qed (use assms in \<open>simp_all add: ao_step_def\<close>)

lemma ao_loop_got:
  assumes "got_ok (pr_srv pr) seen" "\<not> aa_dotest a" "\<not> aa_nodb a"
  shows "derived_ok seen (fst (ao_loop lib a ws pr))"
  using assms(1)
proof (induction ws arbitrary: pr seen)
  case (Cons w ws)
  show ?case
    unfolding ao_loop_Cons using Cons.IH ao_step_got [OF Cons.prems assms(2,3), of lib w]
    by (simp add: derived_ok_append split: proc.split)
qed simp

lemma ao_step_nodb: "aa_nodb a \<Longrightarrow> fst (ao_step lib a w pr) = []"
  by (simp add: ao_step_def split_def split: proc.split)

lemma ao_prog_start_srv: "pr_srv (ao_prog_start st) = ao_srv0"
  by (simp add: ao_prog_start_def)

lemma s6_observatory_ao_cases:
  "ao_parse argv ao_defaults = Parsed a \<Longrightarrow>
   fst (s6_observatory_ao lib argv st ws) = [] \<or> s6_observatory_ao lib argv st ws = ao_loop lib a ws (ao_prog_start st)"
  by (simp add: s6_observatory_ao_def)

end
