(* ===== verification/S6_ObsAo_Replay.thy ===== *)
theory S6_ObsAo_Replay
  imports S6_ObsAo_Props
begin

text \<open>
  The derived values at Arecibo are there as soon as the three kinds of packets are, away from
  the zenith; a recorded file replays to the same commands.
\<close>

subsection \<open>The derived values are computed\<close>

lemma raise_ra_ends: "- (of_nat n * 24) \<le> ra \<Longrightarrow> \<exists>r. raise_ra ra = Some r"
proof (induction n arbitrary: ra)
  case 0
  then show ?case by (subst raise_ra.simps) simp
next
  case (Suc n)
  then have "- (of_nat n * 24) \<le> ra + 24" by simp
  then show ?case using Suc.IH by (subst raise_ra.simps) simp
qed

lemma raise_ra_total: "\<exists>r. raise_ra ra = Some r"
proof -
  obtain n where "- ra < of_nat n * (24 :: real)" using reals_Archimedean3 [of 24] by fastforce
  then show ?thesis by (intro raise_ra_ends [of n]) linarith
qed

lemma AzZaToRaDec_ok:
  assumes "\<And>d y. lib_azzaToRaDecInit lib d y \<noteq> None"
  shows "\<exists>rd. s6_AzZaToRaDec lib az za t = Ra_dec rd"
proof -
  have "\<exists>rd. (case lib_azzaToRaDecInit lib d y of None \<Rightarrow> Init_failed_exit
      | Some azzaI \<Rightarrow> (case f azzaI of (ra, dc) \<Rightarrow> (case raise_ra (ra / k / 15) of None \<Rightarrow> Ra_loops | Some ra \<Rightarrow> Ra_dec (fmod24 ra, dc / k)))) = Ra_dec rd"
    for d y k f
  proof -
    obtain i where i: "lib_azzaToRaDecInit lib d y = Some i" using assms by blast
    obtain ra dc where f: "f i = (ra, dc)" by (cases "f i")
    obtain r where "raise_ra (ra / k / 15) = Some r" using raise_ra_total by blast
    then show ?thesis by (simp add: i f)
  qed
  then show ?thesis unfolding s6_AzZaToRaDec_def Let_def split_def by simp
qed

lemma BeamOffset_ok:
  assumes "1 \<le> za" "za \<le> 179"
  shows "\<exists>r. s6_BeamOffset az za beam motor = Some r"
proof -
  define z where "z = za - 384.005 * sin ((array_angle ! beam - motor) * D2R) / 3600"
  define q where "q = sin ((array_angle ! beam - motor) * D2R)"
  have "\<bar>q\<bar> \<le> 1" by (simp add: q_def)
  moreover have "z = za - q * (76801 / 720000)" by (simp add: z_def q_def)
  ultimately have "0 < z" "z < 180" using assms by linarith+
  then have "0 < z * D2R" "z * D2R < pi" by (simp_all add: D2R_def)
  then have "sin (z * D2R) \<noteq> 0" using sin_gt_zero by fastforce
  moreover have "\<exists>w. wrap a 0 360 True = Some w" for a using wrap_inclusive [of 360 a] by auto
  ultimately show ?thesis unfolding s6_BeamOffset_def Let_def by (auto simp: z_def)
qed

lemma ao_beams_ok:
  assumes "1 \<le> ZAdeg s - zafix s" "ZAdeg s - zafix s \<le> 179" "\<And>d y. lib_azzaToRaDecInit lib d y \<noteq> None"
  shows "\<exists>fvs. ao_beams lib s t is = Goes fvs"
proof (induction "is")
  case (Cons i "is")
  obtain az za where b: "s6_BeamOffset (Azdeg s - azfix s) (ZAdeg s - zafix s) i (motorpos s) = Some (az, za)"
    using BeamOffset_ok [OF assms(1,2)] by fastforce
  obtain ra dc where r: "s6_AzZaToRaDec lib az za t = Ra_dec (ra, dc)" using AzZaToRaDec_ok [of lib az za t] assms(3) by fastforce
  show ?case using Cons by (auto simp: b r)
qed simp

theorem derived_values_follow:
  assumes "got_pnt s" "got_agc s" "got_alfashm s" "1 \<le> ZAdeg s - zafix s" "ZAdeg s - zafix s \<le> 179"
    and "\<And>d y. lib_azzaToRaDecInit lib d y \<noteq> None"
  shows "\<exists>fvs. ao_derived lib s = Goes [HMSET ''SCRAM:DERIVED'' ((''DERTIME'', show_int32 (time_fix s)) # fvs)]"
proof -
  obtain fvs where "ao_beams lib s (s6_seti_ao_timeMS2unixtime (agctime s) (time_fix s)) [0..<7] = Goes fvs"
    using ao_beams_ok [OF assms(4,5,6)] by blast
  then show ?thesis using assms(1,2,3) by (simp add: ao_derived_def)
qed

subsection \<open>Replay\<close>

definition recording :: "ao_args \<Rightarrow> bool" where
  "recording a \<longleftrightarrow> \<not> aa_dotest a \<and> \<not> aa_useinfile a \<and> aa_useoutfile a \<and> \<not> aa_nodb a"

definition replaying :: "ao_args \<Rightarrow> bool" where
  "replaying a \<longleftrightarrow> \<not> aa_dotest a \<and> aa_useinfile a \<and> \<not> aa_nodb a"

text \<open>The same pass with the packet decoded at the time that was stored with it.\<close>

definition stored_time :: "ao_pass \<Rightarrow> ao_pass" where
  "stored_time w = w\<lparr>ap_now := sc_stored (ap_save w)\<rparr>"

definition no_rotation :: "ao_args \<Rightarrow> ao_prog \<Rightarrow> ao_pass \<Rightarrow> bool" where
  "no_rotation a pr w = (sc_compared (ap_save w) - sf_lastrotate (pr_files pr) < aa_rotatesecs a)"

definition keep_packet :: "ao_pass \<Rightarrow> scram_packet \<Rightarrow> ao_prog \<Rightarrow> ao_prog" where
  "keep_packet w p pr = pr\<lparr>pr_files := (pr_files pr)\<lparr>sf_current := sf_current (pr_files pr) @ [(p, sc_stored (ap_save w))]\<rparr>\<rparr>"

lemma keep_packet_simps [simp]:
  "pr_srv (keep_packet w p pr) = pr_srv pr" "sf_lastrotate (pr_files (keep_packet w p pr)) = sf_lastrotate (pr_files pr)"
  "sf_current (pr_files (keep_packet w p pr)) = sf_current (pr_files pr) @ [(p, sc_stored (ap_save w))]"
  by (simp_all add: keep_packet_def)

definition after_packet :: "ao_prog \<Rightarrow> redis_command list \<times> ao_srv proc \<Rightarrow> redis_command list \<times> ao_prog proc" where
  "after_packet pr r = (fst r, case snd r of Goes s \<Rightarrow> Goes (pr\<lparr>pr_srv := s\<rparr>) | Exits c \<Rightarrow> Exits c | Hangs \<Rightarrow> Hangs | Crashes \<Rightarrow> Crashes)"

lemma ao_step_kept:
  assumes "recording a" "ap_packet w = Some p" "ap_fwrite_ok w" "no_rotation a pr w"
  shows "ao_step lib a w pr = after_packet (keep_packet w p pr) (ao_packet lib (ap_now w) p (pr_srv pr))"
  using assms
  by (simp add: ao_step_def ao_fetch_def recording_def save_packet_def no_rotation_def keep_packet_def after_packet_def Let_def split_def
      split: proc.split)

lemma ao_step_recording:
  assumes "recording a" "snd (ao_step lib a w pr) = Goes pr'"
  shows "\<exists>p. ap_packet w = Some p \<and> ap_fwrite_ok w"
proof -
  obtain p where p: "ap_packet w = Some p" using assms by (cases "ap_packet w") (auto simp: ao_step_def ao_fetch_def recording_def)
  have "ap_fwrite_ok w"
    using assms p by (cases "ap_fwrite_ok w") (auto simp: ao_step_def ao_fetch_def recording_def save_packet_def)
  with p show ?thesis by blast
qed

lemma ao_step_replaying:
  assumes "replaying b" "pr_infile pr = (p, t) # rest"
  shows "ao_step lib b w pr = after_packet (pr\<lparr>pr_infile := rest\<rparr>) (ao_packet lib t p (pr_srv pr))"
  using assms by (simp add: ao_step_def ao_fetch_def replaying_def after_packet_def split_def Let_def split: proc.split)

lemma after_packet_Goes:
  "snd (after_packet pr r) = Goes pr' \<Longrightarrow> \<exists>s. snd r = Goes s \<and> pr' = pr\<lparr>pr_srv := s\<rparr>"
  by (auto simp: after_packet_def split: proc.splits)

lemma after_packet_stops: "(\<And>s. snd r \<noteq> Goes s) \<Longrightarrow> fst (after_packet pr r) = fst r \<and> snd (after_packet pr r) \<noteq> Goes pr'"
  by (auto simp: after_packet_def split: proc.splits)

text \<open>Two programs that handle the same packet at the same time and go on alike issue the same commands.\<close>

lemma ao_loop_same_packet:
  assumes "ao_step lib a w pr = after_packet pr1 r" "ao_step lib b w2 pr2 = after_packet pr3 r"
    and "\<And>s. snd r = Goes s \<Longrightarrow> fst (ao_loop lib a ws (pr1\<lparr>pr_srv := s\<rparr>)) = fst (ao_loop lib b ws2 (pr3\<lparr>pr_srv := s\<rparr>))"
  shows "fst (ao_loop lib a (w # ws) pr) = fst (ao_loop lib b (w2 # ws2) pr2)"
  unfolding ao_loop_Cons assms(1,2) using assms(3) by (cases "snd r") (simp_all add: after_packet_def)

lemma ao_loop_replays:
  assumes "recording a" "replaying b"
  shows "ao_loop lib a ws pr = (cs, Goes pr') \<Longrightarrow> list_all (no_rotation a pr) ws \<Longrightarrow>
    \<exists>es. sf_current (pr_files pr') = sf_current (pr_files pr) @ es \<and>
      (\<forall>pr2 pr3 ws2. pr_srv pr2 = pr_srv pr3 \<longrightarrow> sf_lastrotate (pr_files pr2) = sf_lastrotate (pr_files pr) \<longrightarrow>
         pr_infile pr3 = es \<longrightarrow> length ws2 = length ws \<longrightarrow>
         fst (ao_loop lib a (map stored_time ws) pr2) = fst (ao_loop lib b ws2 pr3))"
proof (induction ws arbitrary: pr cs)
  case (Cons w ws)
  obtain pr1 where s: "snd (ao_step lib a w pr) = Goes pr1"
    using Cons.prems(1) unfolding ao_loop_Cons by (auto split: proc.splits)
  have l: "ao_loop lib a ws pr1 = (fst (ao_loop lib a ws pr1), Goes pr')"
    using Cons.prems(1) unfolding ao_loop_Cons s by (auto simp: prod_eq_iff)
  obtain p where p: "ap_packet w = Some p" "ap_fwrite_ok w" using ao_step_recording [OF assms(1) s] by blast
  have "no_rotation a pr w" using Cons.prems(2) by simp
  from after_packet_Goes [OF s [unfolded ao_step_kept [OF assms(1) p this]]]
  have 1: "sf_current (pr_files pr1) = sf_current (pr_files pr) @ [(p, sc_stored (ap_save w))]"
    "sf_lastrotate (pr_files pr1) = sf_lastrotate (pr_files pr)" by auto
  then have "list_all (no_rotation a pr1) ws" using Cons.prems(2) by (simp add: no_rotation_def [abs_def])
  from Cons.IH [OF l this] 1 obtain es where es: "sf_current (pr_files pr') = sf_current (pr_files pr1) @ es"
    "\<And>pr2 pr3 ws2. pr_srv pr2 = pr_srv pr3 \<Longrightarrow> sf_lastrotate (pr_files pr2) = sf_lastrotate (pr_files pr) \<Longrightarrow> pr_infile pr3 = es \<Longrightarrow>
      length ws2 = length ws \<Longrightarrow> fst (ao_loop lib a (map stored_time ws) pr2) = fst (ao_loop lib b ws2 pr3)"
    by auto
  have "fst (ao_loop lib a (map stored_time (w # ws)) pr2) = fst (ao_loop lib b ws2 pr3)"
    if r: "pr_srv pr2 = pr_srv pr3" "sf_lastrotate (pr_files pr2) = sf_lastrotate (pr_files pr)"
      "pr_infile pr3 = (p, sc_stored (ap_save w)) # es" "length ws2 = length (w # ws)" for pr2 pr3 ws2
  proof -
    obtain w2 ws3 where w: "ws2 = w2 # ws3" "length ws3 = length ws" using r(4) by (cases ws2) auto
    have st: "ap_packet (stored_time w) = Some p" "ap_fwrite_ok (stored_time w)" "no_rotation a pr2 (stored_time w)"
      "ap_now (stored_time w) = sc_stored (ap_save w)"
      using p r(2) Cons.prems(2) by (simp_all add: stored_time_def no_rotation_def)
    show ?thesis unfolding w(1) list.map
      by (rule ao_loop_same_packet [OF ao_step_kept [OF assms(1) st(1-3), unfolded st(4) r(1)] ao_step_replaying [OF assms(2) r(3)]],
          rule es(2)) (simp_all add: r(2) w(2))
  qed
  then show ?case using 1(1) es(1) by (intro exI [of _ "(p, sc_stored (ap_save w)) # es"]) simp
qed simp

text \<open>C27: Replaying the file written by a run of the feeder with -outfile issues the commands
  that the run would have issued had each packet been decoded at the time stored with it, as
  long as the file was not rotated; so they are the same commands when no second passed
  between storing a packet and decoding it.\<close>
theorem recording_replays:
  assumes "s6_observatory_ao lib [''-outfile'', f] st ws = (cmds, Goes pr)"
    and "list_all (\<lambda>w. sc_compared (ap_save w) - as_now st < 2147483647) ws" "length ws2 = length ws"
  defines "replay \<equiv> fst (s6_observatory_ao lib [''-infile'', f] (st\<lparr>as_infile := Some (sf_current (pr_files pr))\<rparr>) ws2)"
  shows "replay = fst (s6_observatory_ao lib [''-outfile'', f] st (map stored_time ws))
    \<and> (list_all (\<lambda>w. ap_now w = sc_stored (ap_save w)) ws \<longrightarrow> replay = cmds)"
proof -
  define a b where "a = ao_defaults\<lparr>aa_useoutfile := True, aa_outfilename := Some f\<rparr>"
    and "b = ao_defaults\<lparr>aa_useinfile := True, aa_infilename := Some f\<rparr>"
  have r: "recording a" "replaying b" "aa_rotatesecs a = 2147483647" by (simp_all add: a_def b_def recording_def replaying_def ao_defaults_def)
  have ok: "as_redis_ok st" "as_outfile_ok st" "ao_loop lib a ws (ao_prog_start st) = (cmds, Goes pr)"
    using assms(1) by (auto simp: s6_observatory_ao_def a_def ao_defaults_def split: if_splits)
  have "list_all (no_rotation a (ao_prog_start st)) ws"
    using assms(2) by (simp add: no_rotation_def [abs_def] r(3) ao_prog_start_def)
  from ao_loop_replays [OF r(1,2) ok(3) this] obtain es
    where es: "sf_current (pr_files pr) = sf_current (pr_files (ao_prog_start st)) @ es"
    and same: "\<And>pr2 pr3 ws2. pr_srv pr2 = pr_srv pr3 \<Longrightarrow> sf_lastrotate (pr_files pr2) = sf_lastrotate (pr_files (ao_prog_start st)) \<Longrightarrow>
       pr_infile pr3 = es \<Longrightarrow> length ws2 = length ws \<Longrightarrow>
       fst (ao_loop lib a (map stored_time ws) pr2) = fst (ao_loop lib b ws2 pr3)"
    by blast
  have "fst (ao_loop lib a (map stored_time ws) (ao_prog_start st)) =
      fst (ao_loop lib b ws2 (ao_prog_start (st\<lparr>as_infile := Some (sf_current (pr_files pr))\<rparr>)))"
    by (rule same) (use es in \<open>simp_all add: ao_prog_start_def assms(3)\<close>)
  then have 1: "replay = fst (s6_observatory_ao lib [''-outfile'', f] st (map stored_time ws))"
    using ok(1,2) by (simp add: replay_def s6_observatory_ao_def a_def b_def ao_defaults_def)
  have "map stored_time ws = ws" if "list_all (\<lambda>w. ap_now w = sc_stored (ap_save w)) ws"
    using that by (induction ws) (simp_all add: stored_time_def)
  then show ?thesis using 1 assms(1) by simp
qed

subsection \<open>Sample runs\<close>

definition agc_packet :: scram_packet where
  "agc_packet = pnt_packet\<lparr>magic := ''AGC'', posAz := 100000, posGr := 100000, timeMs := 1000\<rparr>"

definition alfa_packet :: scram_packet where
  "alfa_packet = pnt_packet\<lparr>magic := ''ALFASHM'', motor_position := 10\<rparr>"

definition demo_start :: ao_start where
  "demo_start = \<lparr>as_infile = None, as_outfile_ok = True, as_redis_ok = True, as_now = 0\<rparr>"

definition demo_pass :: "scram_packet \<Rightarrow> ao_pass" where
  "demo_pass p = \<lparr>ap_save = saved_at 9, ap_now = 9, ap_test = (\<lambda>i. 9), ap_packet = Some p, ap_fwrite_ok = True, ap_fopen_ok = True\<rparr>"

theorem derived_values_follow_witness:
  "\<exists>fvs. ao_derived demo_lib (ao_srv0\<lparr>got_pnt := True, got_agc := True, got_alfashm := True, time_agc := 7, ZAdeg := 10\<rparr>) =
     Goes [HMSET ''SCRAM:DERIVED'' ((''DERTIME'', show_int32 7) # fvs)]"
  using derived_values_follow [of "ao_srv0\<lparr>got_pnt := True, got_agc := True, got_alfashm := True, time_agc := 7, ZAdeg := 10\<rparr>" demo_lib]
  by (simp add: ao_srv0_def demo_lib_def time_fix_def)

lemma feeder_demo_run:
  "\<exists>fvs fin. s6_observatory_ao demo_lib [] demo_start (map demo_pass [pnt_packet, agc_packet, alfa_packet]) =
     ([pnt_command 6 9 pnt_packet, agc_command 9 agc_packet, alfashm_command 9 alfa_packet] @ HMSET ''SCRAM:DERIVED'' fvs # [], fin)"
proof -
  define s where "s = snd (ao_decode 6 9 alfa_packet (snd (ao_decode 6 9 agc_packet (snd (ao_decode 6 9 pnt_packet ao_srv0)))))"
  have z: "ZAdeg s - zafix s = 10"
    by (simp add: s_def ao_decode_def pnt_packet_def agc_packet_def alfa_packet_def)
  have "\<exists>fvs. ao_beams demo_lib s t [0..<7] = Goes fvs" for t by (rule ao_beams_ok) (simp_all add: z demo_lib_def)
  then obtain fvs where b: "ao_beams demo_lib s (s6_seti_ao_timeMS2unixtime (agctime s) (time_fix s)) [0..<7] = Goes fvs" by blast
  then have d: "ao_derived demo_lib s = Goes [HMSET ''SCRAM:DERIVED'' ((''DERTIME'', show_int32 (time_fix s)) # fvs)]"
    by (simp add: ao_derived_def s_def ao_decode_def pnt_packet_def agc_packet_def alfa_packet_def)
  have c: "lib_C_2PI demo_lib = 6" by (simp add: demo_lib_def)
  define s1 s2 where "s1 = snd (ao_decode 6 9 pnt_packet ao_srv0)" and "s2 = snd (ao_decode 6 9 agc_packet s1)"
  have "ao_packet demo_lib 9 pnt_packet ao_srv0 = ([pnt_command 6 9 pnt_packet], Goes s1)"
    by (simp add: ao_packet_def ao_decode_def ao_derived_def c pnt_packet_def s1_def ao_srv0_def)
  moreover have "ao_packet demo_lib 9 agc_packet s1 = ([agc_command 9 agc_packet], Goes s2)"
    by (simp add: ao_packet_def ao_decode_def ao_derived_def c agc_packet_def pnt_packet_def s1_def s2_def ao_srv0_def)
  moreover have "ao_packet demo_lib 9 alfa_packet s2 =
      ([alfashm_command 9 alfa_packet, HMSET ''SCRAM:DERIVED'' ((''DERTIME'', show_int32 (time_fix s)) # fvs)], Goes s)"
  proof -
    have "ao_decode 6 9 alfa_packet s2 = ([alfashm_command 9 alfa_packet], s)"
      unfolding s_def s2_def s1_def by (simp add: ao_decode_def alfa_packet_def)
    then show ?thesis by (simp add: ao_packet_def c d)
  qed
  ultimately show ?thesis
    by (simp add: s6_observatory_ao_def ao_defaults_def demo_start_def ao_step_def ao_fetch_def demo_pass_def ao_prog_start_def)
qed

text \<open>C26: Outside test mode the feeder issues the command that sets the derived coordinates only
  after commands that set the PNT, AGC and ALFASHM hashes they are computed from.\<close>
theorem derived_after_sources:
  assumes "ao_parse argv ao_defaults = Parsed a" "\<not> aa_dotest a"
    and "s6_observatory_ao lib argv st ws = (cmds, fin)" "cmds = xs @ HMSET ''SCRAM:DERIVED'' fvs # ys"
  shows "{''SCRAM:PNT'', ''SCRAM:AGC'', ''SCRAM:ALFASHM''} \<subseteq> command_key ` set xs"
proof -
  have "derived_ok {} (fst (ao_loop lib a ws pr))" if "pr_srv pr = ao_srv0" for pr
  proof (cases "aa_nodb a")
    case True
    then have "list_all (\<lambda>c. False) (fst (ao_loop lib a ws pr))" by (intro ao_loop_commands) (simp add: ao_step_nodb)
    then show ?thesis by (cases "fst (ao_loop lib a ws pr)") simp_all
  next
    case False
    then show ?thesis by (intro ao_loop_got [OF _ assms(2)]) (simp_all add: that got_ok_def ao_srv0_def)
  qed
  then have "derived_ok {} cmds"
    using s6_observatory_ao_cases [OF assms(1), of lib st ws] assms(3)
    by (metis derived_ok.simps(1) fst_conv ao_prog_start_srv)
  then show ?thesis by (simp add: assms(4) derived_ok_append sources_def)
qed

theorem derived_after_sources_witness:
  "\<exists>cmds fin xs fvs. s6_observatory_ao demo_lib [] demo_start (map demo_pass [pnt_packet, agc_packet, alfa_packet]) = (cmds, fin) \<and>
     cmds = xs @ HMSET ''SCRAM:DERIVED'' fvs # [] \<and> ''SCRAM:PNT'' \<in> command_key ` set xs"
proof -
  obtain fvs fin where r: "s6_observatory_ao demo_lib [] demo_start (map demo_pass [pnt_packet, agc_packet, alfa_packet]) =
     ([pnt_command 6 9 pnt_packet, agc_command 9 agc_packet, alfashm_command 9 alfa_packet] @ HMSET ''SCRAM:DERIVED'' fvs # [], fin)"
    using feeder_demo_run by blast
  have p: "ao_parse [] ao_defaults = Parsed ao_defaults" "\<not> aa_dotest ao_defaults" by (simp_all add: ao_defaults_def)
  have d: "''SCRAM:PNT'' \<in> command_key ` set [pnt_command 6 9 pnt_packet, agc_command 9 agc_packet, alfashm_command 9 alfa_packet]"
    by (rule subsetD [OF derived_after_sources [OF p r refl]]) (rule insertI1)
  show ?thesis by (intro exI conjI) (rule r, rule refl, rule d)
qed

text \<open>The packet is stored at 8 seconds and decoded at 9: the copy replays with the earlier time.\<close>

theorem recording_replays_witness:
  "\<exists>cmds pr. s6_observatory_ao demo_lib [''-outfile'', ''f''] demo_start [(demo_pass pnt_packet)\<lparr>ap_save := saved_at 8\<rparr>] = (cmds, Goes pr) \<and>
     cmds = [pnt_command 6 9 pnt_packet] \<and>
     fst (s6_observatory_ao demo_lib [''-infile'', ''f''] (demo_start\<lparr>as_infile := Some (sf_current (pr_files pr))\<rparr>) [demo_pass agc_packet]) =
       [pnt_command 6 8 pnt_packet]"
proof -
  define w where "w = (demo_pass pnt_packet)\<lparr>ap_save := saved_at 8\<rparr>"
  have run: "\<exists>pr. s6_observatory_ao demo_lib [''-outfile'', ''f''] demo_start [w\<lparr>ap_now := t\<rparr>] = ([pnt_command 6 t pnt_packet], Goes pr)" for t
    by (simp add: s6_observatory_ao_def ao_defaults_def demo_start_def ao_step_def ao_fetch_def demo_pass_def ao_prog_start_def w_def
        save_packet_def ao_packet_def ao_decode_def ao_derived_def pnt_packet_def ao_srv0_def saved_at_def demo_lib_def)
  have w9: "w\<lparr>ap_now := 9\<rparr> = w" and w8: "map stored_time [w] = [w\<lparr>ap_now := 8\<rparr>]"
    by (simp_all add: w_def demo_pass_def stored_time_def saved_at_def)
  obtain pr where r: "s6_observatory_ao demo_lib [''-outfile'', ''f''] demo_start [w] = ([pnt_command 6 9 pnt_packet], Goes pr)"
    using run [of 9] unfolding w9 by blast
  have "list_all (\<lambda>w. sc_compared (ap_save w) - as_now demo_start < 2147483647) [w]" "length [demo_pass agc_packet] = length [w]"
    by (simp_all add: w_def saved_at_def demo_start_def)
  note R = recording_replays [OF r this, unfolded w8]
  show ?thesis unfolding w_def [symmetric] using r R run [of 8] by (intro exI conjI) (rule r, simp, force)
qed

end
