(* ===== verification/S6_ObsGb.thy ===== *)
theory S6_ObsGb
  imports S6_Coord_Sky S6_RedisDb
begin

text \<open>
  The program that feeds redis at Green Bank, \<open>src/src/s6_observatory_gbt.c\<close>: it asks the status
  table of the observatory's mysql database, derives the pointing, reads lines from the cleo
  socket and sets one hash for each key of two configuration files.
\<close>

subsection \<open>Command line\<close>

record gb_args =
  ga_dostdout :: bool
  ga_nodb :: bool
  ga_nomysql :: bool
  ga_nocleo :: bool
  ga_redishost :: "string option"
  ga_redisport :: int
  ga_cleohost :: "string option"
  ga_cleoport :: int

definition gb_defaults :: gb_args where
  "gb_defaults = \<lparr>ga_dostdout = False, ga_nodb = False, ga_nomysql = False, ga_nocleo = False,
     ga_redishost = Some ''127.0.0.1'', ga_redisport = 6379, ga_cleohost = Some ''euler.gb.nrao.edu'', ga_cleoport = 8030\<rparr>"

fun gb_parse :: "string list \<Rightarrow> gb_args \<Rightarrow> gb_args parsed" where
  "gb_parse [] a = Parsed a"
| "gb_parse (w # ws) a =
     (let v = (case ws of [] \<Rightarrow> None | v # ws \<Rightarrow> Some v)
      in if w = ''-nodb'' then gb_parse ws (a\<lparr>ga_nodb := True\<rparr>)
         else if w = ''-nomysql'' then gb_parse ws (a\<lparr>ga_nomysql := True\<rparr>)
         else if w = ''-nocleo'' then gb_parse ws (a\<lparr>ga_nocleo := True\<rparr>)
         else if w = ''-stdout'' then gb_parse ws (a\<lparr>ga_dostdout := True\<rparr>)
         else if w = ''-redishost'' then gb_parse (tl ws) (a\<lparr>ga_redishost := v\<rparr>)
         else if w = ''-redisport''
         then (case v of None \<Rightarrow> Null_argument | Some v \<Rightarrow> gb_parse (tl ws) (a\<lparr>ga_redisport := atoi v\<rparr>))
         else if w = ''-cleohost'' then gb_parse (tl ws) (a\<lparr>ga_cleohost := v\<rparr>)
         else if w = ''-cleoport''
         then (case v of None \<Rightarrow> Null_argument | Some v \<Rightarrow> gb_parse (tl ws) (a\<lparr>ga_cleoport := atoi v\<rparr>))
         else Usage_exit)"

subsection \<open>The configuration files\<close>

text \<open>\<open>%s\<close>: skips white space and takes what is not; \<open>None\<close> at the end of the input.\<close>

definition scan_word :: "string \<Rightarrow> (string \<times> string) option" where
  "scan_word cs =
     (let cs = dropWhile isspace cs
      in if cs = [] then None else Some (takeWhile (\<lambda>c. \<not> isspace c) cs, dropWhile (\<lambda>c. \<not> isspace c) cs))"

definition newline :: char where "newline = char_of (10 :: nat)"

type_synonym field_keys = "(string \<times> string) list"

datatype 'a scanned = Scanned 'a | Too_many_lines | Overrun

text \<open>The loop over \<open>fscanf(statusfp,"%s %s%[^\n]\n")\<close>, with room for 256 lines and for 255
  characters of each item.\<close>

function read_fields :: "nat \<Rightarrow> string \<Rightarrow> field_keys scanned" where
  "read_fields i txt =
     (if i \<ge> 256 then Too_many_lines
      else case scan_word txt of
             None \<Rightarrow> Scanned []
           | Some (fits, txt) \<Rightarrow>
               (case scan_word txt of
                  None \<Rightarrow> if length fits \<ge> 256 then Overrun else Scanned []
                | Some (key, txt) \<Rightarrow>
                    if length fits \<ge> 256 \<or> length key \<ge> 256 \<or> length (takeWhile (\<lambda>c. c \<noteq> newline) txt) \<ge> 256 then Overrun
                    else case read_fields (i + 1) (dropWhile (\<lambda>c. c \<noteq> newline) txt) of
                           Scanned ks \<Rightarrow> Scanned ((fits, key) # ks)
                         | r \<Rightarrow> r))"
  by pat_completeness auto
termination by (relation "measure (\<lambda>(i, txt). 257 - i)") auto

declare read_fields.simps [simp del]

text \<open>The last line with a key.\<close>

definition key_index :: "string \<Rightarrow> field_keys \<Rightarrow> nat option" where
  "key_index key ks =
     (let is = filter (\<lambda>i. snd (ks ! i) = key) [0..<length ks] in if is = [] then None else Some (last is))"

definition select_command :: "field_keys \<Rightarrow> string" where
  "select_command ks =
     ''select '' @ concat (map (\<lambda>k. snd k @ '','') (butlast ks)) @ snd (last ks) @ '' from status;''"

record gb_config =
  gc_mysql :: field_keys
  gc_cleo :: field_keys
  gc_az :: nat
  gc_el :: nat
  gc_last_update :: nat
  gc_lst :: nat
  gc_mjd :: nat

subsection \<open>State\<close>

record gb_srv =
  gs_connected :: bool
  gs_last_last_update :: string
  gs_lst :: "real \<times> real \<times> real"
  gs_lcudsecs :: int
  gs_lcudwhen :: int
  gs_leaked :: nat

subsection \<open>Mysql\<close>

text \<open>\<open>%lf\<close> of a number without exponent.\<close>

definition scan_lf :: "string \<Rightarrow> (real \<times> string) option" where
  "scan_lf cs =
     (let (sgn, cs) = split_sign (dropWhile isspace cs);
          whole = takeWhile isdigit cs;
          (frac, rest) = split_fraction (dropWhile isdigit cs)
      in if whole = [] \<and> frac = [] then None
         else Some (scale10 (- int (length frac)) (of_int (sgn * digits_value (whole @ frac))), rest))"

text \<open>\<open>sscanf(row[lst_index],"%lf:%lf:%lf")\<close>: what does not match keeps its value.\<close>

definition scan_lst :: "string \<Rightarrow> real \<times> real \<times> real \<Rightarrow> real \<times> real \<times> real" where
  "scan_lst cs old =
     (case old of (h0, m0, s0) \<Rightarrow>
        (case scan_lf cs of
           None \<Rightarrow> (h0, m0, s0)
         | Some (h, CHR '':'' # cs) \<Rightarrow>
             (case scan_lf cs of
                None \<Rightarrow> (h, m0, s0)
              | Some (m, CHR '':'' # cs) \<Rightarrow> (case scan_lf cs of None \<Rightarrow> (h, m, s0) | Some (s, cs) \<Rightarrow> (h, m, s))
              | Some (m, cs) \<Rightarrow> (h, m, s0))
         | Some (h, cs) \<Rightarrow> (h, m0, s0)))"

text \<open>The pointing in coordinates of the year 2000.\<close>

definition gb_derive :: "real \<Rightarrow> real \<Rightarrow> real \<Rightarrow> real \<Rightarrow> real \<times> real" where
  "gb_derive az_actual el_actual lsthour mjd =
     (let za = 90 - el_actual;
          (ra_derived, dec_derived) = co_ZenAzToRaDec za az_actual lsthour GBT_LATITUDE;
          xyz = co_EqToXyz ra_derived dec_derived;
          xyz_precessed = co_Precess (tm_JulianDateToJulianEpoch (mjd + 2400000.5)) xyz 2000
      in co_XyzToEq xyz_precessed)"

datatype mysql_reply = Query_error | Store_error | No_row | Mysql_row "string option list"

definition column :: "string option list \<Rightarrow> nat \<Rightarrow> string option" where
  "column row i = (if i < length row then row ! i else None)"

text \<open>The hashes of the listed keys; \<open>hiredis\<close> cannot format a null pointer.\<close>

fun key_commands :: "int \<Rightarrow> field_keys \<Rightarrow> string option list \<Rightarrow> redis_command list \<times> bool" where
  "key_commands now ((fits, key) # ks) (Some v # row) =
     (let (cmds, ok) = key_commands now ks row in (HMSET fits [(''STIME'', show_int now), (''VALUE'', v)] # cmds, ok))"
| "key_commands now [] row = ([], True)"
| "key_commands now (k # ks) row = ([], False)"

definition derived_commands :: "int \<Rightarrow> real \<times> real \<Rightarrow> real \<Rightarrow> redis_command list" where
  "derived_commands now radec lsthour =
     (case radec of (ra_derived, dec_derived) \<Rightarrow>
        [HMSET ''RA_DRV'' [(''STIME'', show_int now), (''VALUE'', fixed 6 ra_derived)],
         HMSET ''RADG_DRV'' [(''STIME'', show_int now), (''VALUE'', fixed 6 (ra_derived * 15))],
         HMSET ''DEC_DRV'' [(''STIME'', show_int now), (''VALUE'', fixed 6 dec_derived)],
         HMSET ''LSTH_DRV'' [(''STIME'', show_int now), (''VALUE'', fixed 6 lsthour)]])"

text \<open>The result of a pass of the mysql part: \<open>None\<close> of the inner option is the \<open>continue\<close> when the
  database has not been updated.\<close>

definition gb_mysql :: "gb_config \<Rightarrow> bool \<Rightarrow> mysql_reply \<Rightarrow> int \<Rightarrow> gb_srv \<Rightarrow> redis_command list \<times> gb_srv option proc" where
  "gb_mysql cfg nodb reply now s =
     (case reply of
        Query_error \<Rightarrow> ([], Exits 1)
      | Store_error \<Rightarrow> ([], Exits 1)
      | No_row \<Rightarrow> ([], Exits 1)
      | Mysql_row row \<Rightarrow>
          if column row 0 = None then ([], Exits 1)
          else case column row (gc_last_update cfg) of
                 None \<Rightarrow> ([], Crashes)
               | Some last_update \<Rightarrow>
                   if gs_last_last_update s = last_update then ([], Goes None)
                   else if length last_update \<ge> 32 then ([], Crashes)
                   else case (column row (gc_az cfg), column row (gc_el cfg), column row (gc_lst cfg), column row (gc_mjd cfg)) of
                          (Some az, Some el, Some lst, Some mjd) \<Rightarrow>
                            (let (h, m, sec) = scan_lst lst (gs_lst s);
                                 lsthour = h + (m / 60 + sec / 3600);
                                 radec = gb_derive (atof az) (atof el) lsthour (atof mjd);
                                 s = s\<lparr>gs_last_last_update := last_update, gs_lst := (lsthour, m, sec)\<rparr>
                             in if nodb then ([], Goes (Some s))
                                else case key_commands now (gc_mysql cfg) row of
                                       (cmds, True) \<Rightarrow> (cmds @ derived_commands now radec lsthour, Goes (Some s))
                                     | (cmds, False) \<Rightarrow> (cmds, Crashes))
                        | _ \<Rightarrow> ([], Crashes))"

subsection \<open>Cleo\<close>

text \<open>\<open>sscanf(...,"%s %s %[^\n]%n")\<close> with its three results and the text after them.\<close>

definition scan_line :: "string \<Rightarrow> ((string \<times> string \<times> string) \<times> string) option" where
  "scan_line cs =
     (case scan_word cs of
        None \<Rightarrow> None
      | Some (timestamp, cs) \<Rightarrow>
          (case scan_word cs of
             None \<Rightarrow> None
           | Some (key, cs) \<Rightarrow>
               (let cs = dropWhile isspace cs; v = takeWhile (\<lambda>c. c \<noteq> newline) cs
                in if v = [] then None else Some ((timestamp, key, v), dropWhile (\<lambda>c. c \<noteq> newline) cs))))"

lemma scan_word_shorter: "scan_word cs = Some (w, r) \<Longrightarrow> length r < length cs"
proof -
  assume a: "scan_word cs = Some (w, r)"
  define d where "d = dropWhile isspace cs"
  have d: "d \<noteq> []" "r = dropWhile (\<lambda>c. \<not> isspace c) d"
    using a by (auto simp: scan_word_def Let_def d_def split: if_splits)
  then have "\<not> isspace (hd d)" unfolding d_def by (metis hd_dropWhile)
  then have "length r < length d" using d by (cases d) (auto simp: le_imp_less_Suc length_dropWhile_le)
  also have "length d \<le> length cs" unfolding d_def by (rule length_dropWhile_le)
  finally show ?thesis .
qed

lemma scan_line_shorter: "scan_line cs = Some (l, r) \<Longrightarrow> length r < length cs"
proof -
  assume a: "scan_line cs = Some (l, r)"
  then obtain w cs1 k cs2 where s: "scan_word cs = Some (w, cs1)" "scan_word cs1 = Some (k, cs2)"
    "r = dropWhile (\<lambda>c. c \<noteq> newline) (dropWhile isspace cs2)"
    by (auto simp: scan_line_def Let_def split: option.splits if_splits)
  have "length r \<le> length cs2" unfolding s(3) using length_dropWhile_le le_trans by blast
  then show ?thesis using scan_word_shorter [OF s(1)] scan_word_shorter [OF s(2)] by linarith
qed

text \<open>The lines of a reply, the last character of each value dropped; \<open>False\<close> when an item does not
  fit its 256 characters.\<close>

function cleo_lines :: "string \<Rightarrow> (string \<times> string \<times> string) list \<times> bool" where
  "cleo_lines cs =
     (case scan_line cs of
        None \<Rightarrow> ([], True)
      | Some ((timestamp, key, v), cs) \<Rightarrow>
          if length timestamp \<ge> 256 \<or> length key \<ge> 256 \<or> length v \<ge> 256 then ([], False)
          else (let (ls, ok) = cleo_lines cs in ((timestamp, key, butlast v) # ls, ok)))"
  by pat_completeness auto
termination by (relation "measure length") (auto dest: scan_line_shorter)

declare cleo_lines.simps [simp del]

definition line_commands :: "int \<Rightarrow> field_keys \<Rightarrow> string \<times> string \<times> string \<Rightarrow> redis_command list" where
  "line_commands now cleo_keys l =
     (case l of (timestamp, key, v) \<Rightarrow>
        map (\<lambda>(fits, k). HMSET fits [(''STIME'', show_int now), (''VALUE'', v), (''MJD'', timestamp)])
          (filter (\<lambda>(fits, k). key = k) cleo_keys))"

definition lcud_command :: "int \<Rightarrow> int \<Rightarrow> redis_command" where
  "lcud_command now secs = HMSET ''LCUDSECS'' [(''STIME'', show_int now), (''VALUE'', show_int secs)]"

text \<open>The queries at the end of a pass.  The context \<open>c\<close> is never set with \<open>-nodb\<close>.  A reply is looked at
  and freed only if its type is 0, which is none of hiredis' types.\<close>

fun reply_type :: "redis_reply \<Rightarrow> int" where
  "reply_type No_reply = 0"
| "reply_type Reply_error = 6"
| "reply_type (Reply_array els) = 2"
| "reply_type (Reply_string (Some str)) = 1"
| "reply_type (Reply_string None) = 4"

definition idle_queries :: "string list" where
  "idle_queries = [''HMGET ATFCTRMD VALUE'', ''HMGET ATFCTRMD VALUE'', ''GET WEBCNTRL'']"

definition gb_idle_status :: "bool \<Rightarrow> redis \<Rightarrow> gb_srv \<Rightarrow> gb_srv proc" where
  "gb_idle_status nodb replies s =
     (if nodb then Crashes
      else Goes (fold (\<lambda>query s.
                    let reply = replies query
                    in if reply = No_reply \<or> reply_type reply = 0 then s else s\<lparr>gs_leaked := gs_leaked s + 1\<rparr>) idle_queries s))"

text \<open>\<open>recv\<close> gives an error or up to 20000 characters; a zero character ends the text.\<close>

definition gb_cleo :: "gb_config \<Rightarrow> bool \<Rightarrow> redis \<Rightarrow> string option \<Rightarrow> int \<Rightarrow> gb_srv \<Rightarrow> redis_command list \<times> gb_srv proc" where
  "gb_cleo cfg nodb replies server_reply now s =
     (case server_reply of
        None \<Rightarrow>
          (let s = s\<lparr>gs_lcudsecs := now - gs_lcudwhen s\<rparr>
           in (if nodb then [] else [lcud_command now (gs_lcudsecs s)], gb_idle_status nodb replies s))
      | Some buf \<Rightarrow>
          if length buf \<ge> 20000 then ([], Crashes)
          else
            (let (ls, ok) = cleo_lines (takeWhile (\<lambda>c. c \<noteq> char_of (0 :: nat)) buf);
                 cmds = (if nodb then [] else concat (map (line_commands now (gc_cleo cfg)) ls));
                 found_any_key = list_ex (\<lambda>(t, key, v). key \<in> snd ` set (gc_cleo cfg)) ls;
                 s = (if found_any_key then s\<lparr>gs_lcudwhen := now, gs_lcudsecs := 0\<rparr> else s\<lparr>gs_connected := False\<rparr>)
             in if \<not> ok then (cmds, Crashes)
                else (cmds @ (if nodb then [] else [lcud_command now (gs_lcudsecs s)]), gb_idle_status nodb replies s)))"

subsection \<open>The main loop\<close>

record gb_pass =
  gp_socket_ok :: bool
  gp_connect_ok :: bool
  gp_mysql :: mysql_reply
  gp_mysql_now :: int
  gp_recv :: "string option"
  gp_replies :: redis
  gp_cleo_now :: int

definition gb_connect :: "gb_args \<Rightarrow> gb_pass \<Rightarrow> gb_srv \<Rightarrow> gb_srv proc" where
  "gb_connect a w s =
     (if \<not> ga_nocleo a \<and> \<not> gs_connected s
      then if \<not> gp_socket_ok w then Exits 1
           else if \<not> gp_connect_ok w then Exits 1
           else Goes (s\<lparr>gs_connected := True\<rparr>)
      else Goes s)"

definition gb_step :: "gb_config \<Rightarrow> gb_args \<Rightarrow> gb_pass \<Rightarrow> gb_srv \<Rightarrow> redis_command list \<times> gb_srv proc" where
  "gb_step cfg a w s =
     (case gb_connect a w s of
        Goes s \<Rightarrow>
          (case (if ga_nomysql a then ([], Goes (Some s)) else gb_mysql cfg (ga_nodb a) (gp_mysql w) (gp_mysql_now w) s) of
             (cmds, Goes None) \<Rightarrow> (cmds, Goes s)
           | (cmds, Goes (Some s)) \<Rightarrow>
               if ga_nocleo a then (cmds, Goes s)
               else (let (more, r) = gb_cleo cfg (ga_nodb a) (gp_replies w) (gp_recv w) (gp_cleo_now w) s in (cmds @ more, r))
           | (cmds, Exits c) \<Rightarrow> (cmds, Exits c)
           | (cmds, Hangs) \<Rightarrow> (cmds, Hangs)
           | (cmds, Crashes) \<Rightarrow> (cmds, Crashes))
      | r \<Rightarrow> ([], r))"

fun gb_loop :: "gb_config \<Rightarrow> gb_args \<Rightarrow> gb_pass list \<Rightarrow> gb_srv \<Rightarrow> redis_command list \<times> gb_srv proc" where
  "gb_loop cfg a [] s = ([], Goes s)"
| "gb_loop cfg a (w # ws) s =
     (case gb_step cfg a w s of
        (cmds, Goes s) \<Rightarrow> (let (more, r) = gb_loop cfg a ws s in (cmds @ more, r))
      | r \<Rightarrow> r)"

subsection \<open>Start\<close>

record gb_start =
  gt_host_known :: bool
  gt_mysql_fields :: "string option"
  gt_cleo_fields :: "string option"
  gt_redis_ok :: bool
  gt_mysql_ok :: bool
  gt_now :: int
  gt_lst :: "real \<times> real \<times> real"

text \<open>The keys of the two files and the five columns that must be among them.\<close>

definition gb_configure :: "gb_start \<Rightarrow> gb_config proc" where
  "gb_configure st =
     (case gt_mysql_fields st of
        None \<Rightarrow> Exits 1
      | Some txt \<Rightarrow>
          (case read_fields 0 txt of
             Too_many_lines \<Rightarrow> Exits 1
           | Overrun \<Rightarrow> Crashes
           | Scanned mks \<Rightarrow>
               (case (key_index ''az_actual'' mks, key_index ''el_actual'' mks, key_index ''last_update'' mks,
                      key_index ''lst'' mks, key_index ''mjd'' mks) of
                  (Some az, Some el, Some upd, Some lst, Some mjd) \<Rightarrow>
                    (case gt_cleo_fields st of
                       None \<Rightarrow> Exits 1
                     | Some txt \<Rightarrow>
                         (case read_fields 0 txt of
                            Too_many_lines \<Rightarrow> Exits 1
                          | Overrun \<Rightarrow> Crashes
                          | Scanned cks \<Rightarrow>
                              Goes \<lparr>gc_mysql = mks, gc_cleo = cks, gc_az = az, gc_el = el, gc_last_update = upd, gc_lst = lst, gc_mjd = mjd\<rparr>))
                | _ \<Rightarrow> Exits 1)))"

definition s6_observatory_gbt :: "string list \<Rightarrow> gb_start \<Rightarrow> gb_pass list \<Rightarrow> redis_command list \<times> gb_srv proc" where
  "s6_observatory_gbt argv st ws =
     (case gb_parse argv gb_defaults of
        Usage_exit \<Rightarrow> ([], Exits 1)
      | Null_argument \<Rightarrow> ([], Crashes)
      | Parsed a \<Rightarrow>
          if \<not> ga_nocleo a \<and> ga_cleohost a = None then ([], Crashes)
          else if \<not> ga_nocleo a \<and> \<not> gt_host_known st then ([], Exits 0)
          else case gb_configure st of
                 Goes cfg \<Rightarrow>
                   if \<not> ga_nodb a \<and> ga_redishost a = None then ([], Crashes)
                   else if \<not> ga_nodb a \<and> \<not> gt_redis_ok st then ([], Exits 1)
                   else if \<not> ga_nomysql a \<and> \<not> gt_mysql_ok st then ([], Exits 1)
                   else gb_loop cfg a ws
                          \<lparr>gs_connected = False, gs_last_last_update = [], gs_lst = gt_lst st, gs_lcudsecs = 0, gs_lcudwhen = gt_now st, gs_leaked = 0\<rparr>
               | Exits c \<Rightarrow> ([], Exits c)
               | Hangs \<Rightarrow> ([], Hangs)
               | Crashes \<Rightarrow> ([], Crashes))"

end
