(* ===== verification/S6_ObsGb_Props.thy ===== *)
theory S6_ObsGb_Props
  imports S6_ObsGb
begin

text \<open>
  Properties of the program that feeds redis at Green Bank: the pointing it derives, the lines it
  parses, and what an unchanged mysql table does to the cleo half.
\<close>

subsection \<open>The pointing\<close>

lemma co_EqToXyz_unit: "dot3 (co_EqToXyz ra decl) (co_EqToXyz ra decl) = 1"
proof -
  define a d where "a = pi * ra / 12" and "d = pi * decl / 180"
  have "cos d * cos a * (cos d * cos a) + cos d * sin a * (cos d * sin a) + sin d * sin d = 1"
  proof -
    have "cos d * cos a * (cos d * cos a) + cos d * sin a * (cos d * sin a) = cos d * cos d * (cos a * cos a + sin a * sin a)"
      by (simp only: distrib_left mult.assoc mult.left_commute)
    then show ?thesis by (simp only: sin_cos_squared_add3 mult_1_right)
  qed
  then show ?thesis by (simp add: co_EqToXyz_def Let_def a_def [symmetric] d_def [symmetric])
qed

lemma elevation_angle:
  assumes "rho\<^sup>2 + z\<^sup>2 = 1" "0 \<le> rho"
  shows "cos (elevation rho z * pi / 180) = rho" "sin (elevation rho z * pi / 180) = z" "\<bar>elevation rho z\<bar> \<le> 90"
proof -
  have one: "sqrt (rho\<^sup>2 + z\<^sup>2) = 1" using assms(1) by simp
  define e where "e = (if \<bar>z\<bar> < \<bar>rho\<bar> then arctan (z / rho)
    else if 0 < z then pi / 2 - arctan (rho / z) else - (pi / 2) - arctan (rho / z))"
  have el: "elevation rho z = e * 180 / pi"
    by (simp add: elevation_def e_def diff_divide_distrib left_diff_distrib)
  have "at_angle rho z e \<and> \<bar>e\<bar> \<le> pi / 2"
  proof -
    consider "\<bar>z\<bar> < \<bar>rho\<bar>" | "\<bar>rho\<bar> \<le> \<bar>z\<bar>" "0 < z" | "\<bar>rho\<bar> \<le> \<bar>z\<bar>" "z < 0" | "rho = 0" "z = 0" by linarith
    then show ?thesis
    proof cases
      case 1
      then have "0 < rho" using assms(2) by linarith
      then show ?thesis using 1 at_angle_cases(1) [of rho z] arctan_bounded [of "z / rho"] by (simp add: e_def abs_if)
    next
      case 2
      then have "0 \<le> arctan (rho / z)" using assms(2) by simp
      then show ?thesis using 2 at_angle_cases(3) [of z rho] arctan_bounded [of "rho / z"] by (simp add: e_def abs_if)
    next
      case 3
      then have "arctan (rho / z) \<le> 0" using assms(2) by (simp add: divide_nonneg_neg)
      then show ?thesis using 3 at_angle_cases(4) [of z rho] arctan_bounded [of "rho / z"] by (simp add: e_def abs_if)
    next
      case 4
      then show ?thesis using assms(1) by simp
    qed
  qed
  moreover have "elevation rho z * pi / 180 = e" by (simp add: el)
  ultimately show "cos (elevation rho z * pi / 180) = rho" "sin (elevation rho z * pi / 180) = z"
    by (simp_all add: at_angle_def one)
  have "\<bar>elevation rho z\<bar> = \<bar>e\<bar> * 180 / pi" by (simp add: el abs_mult)
  then show "\<bar>elevation rho z\<bar> \<le> 90" using \<open>at_angle rho z e \<and> \<bar>e\<bar> \<le> pi / 2\<close> by (simp add: divide_le_eq)
qed

lemma co_EqToXyz_XyzToEq:
  assumes "dot3 v v = 1"
  shows "case co_XyzToEq v of (ra, decl) \<Rightarrow> co_EqToXyz ra decl = v \<and> 0 \<le> ra \<and> ra < 24 \<and> \<bar>decl\<bar> \<le> 90"
proof -
  obtain x y z where v: "v = (x, y, z)" by (cases v)
  define rho where "rho = sqrt (x * x + y * y)"
  have s: "x * x + y * y + z * z = 1" using assms by (simp add: v)
  have rr: "rho * rho = x * x + y * y" by (simp add: rho_def)
  have r1: "sqrt (rho * rho + z * z) = 1" by (simp add: rr s)
  have e: "co_XyzToEq v = (Atan2 y x * 12 / pi, elevation rho z)"
    unfolding v by (rule co_XyzToEq_unit [OF rho_def [symmetric] r1])
  have "rho\<^sup>2 + z\<^sup>2 = 1" "0 \<le> rho" using rr s by (simp_all add: power2_eq_square rho_def)
  note el = elevation_angle [OF this]
  have "rho = sqrt (x\<^sup>2 + y\<^sup>2)" by (simp add: rho_def power2_eq_square)
  then have a: "rho * cos (Atan2 y x) = x" "rho * sin (Atan2 y x) = y" using Atan2_angle [of x y] by (simp_all add: at_angle_def)
  have b: "0 \<le> Atan2 y x * 12 / pi" "Atan2 y x * 12 / pi < 24" using Atan2_range by (simp_all add: divide_less_eq)
  have p: "pi * (Atan2 y x * 12 / pi) / 12 = Atan2 y x" "pi * elevation rho z / 180 = elevation rho z * pi / 180" by simp_all
  show ?thesis using b el(3) unfolding e prod.case co_EqToXyz_def Let_def p el(1,2) a by (simp add: v)
qed

theorem derived_pointing:
  assumes "co_ZenAzToRaDec (90 - el) az lst GBT_LATITUDE = (ra, decl)" "gb_derive az el lst mjd = (ra', decl')"
  shows "co_EqToXyz ra' decl' = co_Precess (tm_JulianDateToJulianEpoch (mjd + 2400000.5)) (co_EqToXyz ra decl) 2000 \<and>
    0 \<le> ra' \<and> ra' < 24 \<and> \<bar>decl'\<bar> \<le> 90"
proof -
  define v where "v = co_Precess (tm_JulianDateToJulianEpoch (mjd + 2400000.5)) (co_EqToXyz ra decl) 2000"
  have "dot3 v v = 1" unfolding v_def using co_Precess_dot co_EqToXyz_unit by simp
  from co_EqToXyz_XyzToEq [OF this] assms(2)
  show ?thesis unfolding gb_derive_def Let_def assms(1) prod.case v_def by simp
qed

theorem derived_pointing_witness:
  "\<exists>ra decl. gb_derive 180 45 9.5 57170.94 = (ra, decl) \<and> 0 \<le> ra \<and> ra < 24 \<and> \<bar>decl\<bar> \<le> 90"
proof -
  obtain ra decl where z: "co_ZenAzToRaDec (90 - 45) 180 9.5 GBT_LATITUDE = (ra, decl)"
    by (cases "co_ZenAzToRaDec (90 - 45) 180 9.5 GBT_LATITUDE")
  obtain ra' decl' where d: "gb_derive 180 45 9.5 57170.94 = (ra', decl')" by (cases "gb_derive 180 45 9.5 57170.94")
  show ?thesis using derived_pointing [OF z d] d by blast
qed

subsection \<open>The lines of cleo\<close>

definition cleo_line :: "string \<times> string \<times> string \<Rightarrow> string" where
  "cleo_line l = (case l of (timestamp, key, v) \<Rightarrow> timestamp @ '' '' @ key @ '' '' @ v @ [CHR ''\"'', newline])"

definition line_ok :: "string \<times> string \<times> string \<Rightarrow> bool" where
  "line_ok l = (case l of (timestamp, key, v) \<Rightarrow>
     timestamp \<noteq> [] \<and> key \<noteq> [] \<and> list_all (\<lambda>c. \<not> isspace c) (timestamp @ key) \<and> length timestamp < 256 \<and> length key < 256 \<and>
     length v < 255 \<and> list_all (\<lambda>c. c \<noteq> newline) v \<and> (v \<noteq> [] \<longrightarrow> \<not> isspace (hd v)))"

lemma isspace_special:
  shows "isspace (CHR '' '')" and "isspace newline" and "\<not> isspace (CHR ''\"'')" and "CHR ''\"'' \<noteq> newline"
proof -
  have n: "(of_char newline :: nat) = 10" by (simp add: newline_def)
  then show "isspace newline" by (simp add: isspace_def)
  moreover show "\<not> isspace (CHR ''\"'')" "isspace (CHR '' '')" by (simp_all add: isspace_def of_char_Char)
  ultimately show "CHR ''\"'' \<noteq> newline" by metis
qed

lemma is_newline: "(c = newline) = (of_char c = (10 :: nat))"
proof
  assume "of_char c = (10 :: nat)"
  then have "char_of (of_char c :: nat) = newline" by (simp only: newline_def)
  then show "c = newline" by simp
qed (simp add: newline_def)

lemma takeWhile_word:
  "list_all P w \<Longrightarrow> \<not> P c \<Longrightarrow> takeWhile P (w @ c # r) = w \<and> dropWhile P (w @ c # r) = c # r"
  by (induction w) auto

lemma scan_word_word:
  assumes "w \<noteq> []" "list_all (\<lambda>c. \<not> isspace c) w" "isspace c" "list_all isspace sp"
  shows "scan_word (sp @ w @ c # r) = Some (w, c # r)"
proof -
  have "dropWhile isspace (sp @ w @ c # r) = w @ c # r"
    using assms(4) assms(1,2) by (induction sp) (cases w, auto)
  then show ?thesis using takeWhile_word [of "\<lambda>c. \<not> isspace c" w c r] assms by (simp add: scan_word_def)
qed

lemma scan_line_line:
  assumes "line_ok (t, k, v)"
  shows "scan_line (cleo_line (t, k, v) @ r) = Some ((t, k, v @ [CHR ''\"'']), newline # r)"
proof -
  have l: "t \<noteq> []" "k \<noteq> []" "list_all (\<lambda>c. \<not> isspace c) t" "list_all (\<lambda>c. \<not> isspace c) k" "list_all (\<lambda>c. c \<noteq> newline) v" "v \<noteq> [] \<Longrightarrow> \<not> isspace (hd v)"
    using assms(1) by (auto simp: line_ok_def)
  have 1: "scan_word (cleo_line (t, k, v) @ r) = Some (t, CHR '' '' # k @ CHR '' '' # v @ CHR ''\"'' # newline # r)"
    using scan_word_word [OF l(1,3) isspace_special(1), of "[]"] by (simp add: cleo_line_def)
  have 2: "scan_word (CHR '' '' # k @ CHR '' '' # v @ CHR ''\"'' # newline # r) = Some (k, CHR '' '' # v @ CHR ''\"'' # newline # r)"
    using scan_word_word [OF l(2,4) isspace_special(1), of "[CHR '' '']"] by (simp add: isspace_special)
  have 3: "dropWhile isspace (CHR '' '' # v @ CHR ''\"'' # newline # r) = (v @ [CHR ''\"'']) @ newline # r"
    using l(6) by (cases v) (simp_all add: isspace_special)
  have 4: "takeWhile (\<lambda>c. c \<noteq> newline) ((v @ [CHR ''\"'']) @ newline # r) = v @ [CHR ''\"'']"
    "dropWhile (\<lambda>c. c \<noteq> newline) ((v @ [CHR ''\"'']) @ newline # r) = newline # r"
    using takeWhile_word [of "\<lambda>c. c \<noteq> newline" "v @ [CHR ''\"'']" newline r] l(5) by (simp_all add: isspace_special)
  show ?thesis unfolding scan_line_def 1 option.case prod.case 2 3 Let_def 4 by simp
qed

lemma cleo_lines_skip: "list_all isspace sp \<Longrightarrow> cleo_lines (sp @ cs) = cleo_lines cs"
proof -
  assume "list_all isspace sp"
  then have "dropWhile isspace (sp @ cs) = dropWhile isspace cs" by (induction sp) auto
  then have "scan_line (sp @ cs) = scan_line cs" by (simp add: scan_line_def scan_word_def)
  then show ?thesis by (subst (1 2) cleo_lines.simps) simp
qed

lemma cleo_lines_append:
  "list_all line_ok ls \<Longrightarrow> cleo_lines (concat (map cleo_line ls) @ cs) = (ls @ fst (cleo_lines cs), snd (cleo_lines cs))"
proof (induction ls)
  case (Cons l ls)
  obtain t k v where l: "l = (t, k, v)" by (cases l)
  have ok: "line_ok (t, k, v)" "length t < 256" "length k < 256" "length v < 255" using Cons.prems(1) by (simp_all add: l line_ok_def)
  have "cleo_lines (newline # concat (map cleo_line ls) @ cs) = (ls @ fst (cleo_lines cs), snd (cleo_lines cs))"
    using Cons cleo_lines_skip [of "[newline]" "concat (map cleo_line ls) @ cs"] by (simp add: isspace_special)
  then show ?case using scan_line_line [OF ok(1), of "concat (map cleo_line ls) @ cs"] ok
    by (subst cleo_lines.simps) (simp add: l)
qed simp

lemma cleo_lines_Nil: "cleo_lines [] = ([], True)"
  by (subst cleo_lines.simps) (simp add: scan_line_def scan_word_def)

text \<open>C38: A reply of complete cleo lines is parsed to exactly its time stamps, keys and values,
  the closing character of each value dropped.\<close>
theorem cleo_lines_roundtrip:
  "list_all line_ok ls \<Longrightarrow> cleo_lines (concat (map cleo_line ls)) = (ls, True)"
  using cleo_lines_append [of ls "[]"] by (simp add: cleo_lines_Nil)

theorem cleo_lines_roundtrip_witness:
  "cleo_lines (concat (map cleo_line [(''57170.5'', ''Antenna,az'', ''12 deg''), (''57170.6'', ''LO1,freq'', ''1.4'')])) =
     ([(''57170.5'', ''Antenna,az'', ''12 deg''), (''57170.6'', ''LO1,freq'', ''1.4'')], True)"
proof (rule cleo_lines_roundtrip)
  show "list_all line_ok [(''57170.5'', ''Antenna,az'', ''12 deg''), (''57170.6'', ''LO1,freq'', ''1.4'')]"
    by (simp add: line_ok_def isspace_def is_newline of_char_Char)
qed

text \<open>A line cut within its value, as the end of what one \<open>recv\<close> returns: the beginning of the value
  is stored, without its last character.\<close>

theorem cut_line_stores_prefix:
  assumes "list_all line_ok ls" "line_ok (t, k, v)" "v \<noteq> []"
  shows "cleo_lines (concat (map cleo_line ls) @ t @ '' '' @ k @ '' '' @ v) = (ls @ [(t, k, butlast v)], True)"
proof -
  have l: "t \<noteq> []" "k \<noteq> []" "list_all (\<lambda>c. \<not> isspace c) t" "list_all (\<lambda>c. \<not> isspace c) k" "list_all (\<lambda>c. c \<noteq> newline) v" "\<not> isspace (hd v)"
    "length t < 256" "length k < 256" "length v < 255"
    using assms(2,3) by (auto simp: line_ok_def)
  have 1: "scan_word (t @ CHR '' '' # k @ CHR '' '' # v) = Some (t, CHR '' '' # k @ CHR '' '' # v)"
    using scan_word_word [OF l(1,3) isspace_special(1), of "[]"] by simp
  have 2: "scan_word (CHR '' '' # k @ CHR '' '' # v) = Some (k, CHR '' '' # v)"
    using scan_word_word [OF l(2,4) isspace_special(1), of "[CHR '' '']"] by (simp add: isspace_special)
  have 3: "dropWhile isspace (CHR '' '' # v) = v" using l(6) assms(3) by (cases v) (simp_all add: isspace_special)
  have 4: "takeWhile (\<lambda>c. c \<noteq> newline) v = v" "dropWhile (\<lambda>c. c \<noteq> newline) v = []" using l(5) by (simp_all add: list_all_iff)
  have "scan_line (t @ CHR '' '' # k @ CHR '' '' # v) = Some ((t, k, v), [])"
    unfolding scan_line_def 1 option.case prod.case 2 3 Let_def 4 using assms(3) by simp
  then have "cleo_lines (t @ CHR '' '' # k @ CHR '' '' # v) = ([(t, k, butlast v)], True)"
    using l(7,8,9) by (subst cleo_lines.simps) (simp add: cleo_lines_Nil)
  then show ?thesis using cleo_lines_append [OF assms(1), of "t @ CHR '' '' # k @ CHR '' '' # v"] by simp
qed

theorem cut_line_stores_prefix_witness:
  "cleo_lines ''57170.5 LO1,freq 142'' = ([(''57170.5'', ''LO1,freq'', ''14'')], True)"
proof -
  have "line_ok (''57170.5'', ''LO1,freq'', ''142'')" by (simp add: line_ok_def isspace_def is_newline of_char_Char)
  then show ?thesis using cut_line_stores_prefix [of "[]" "''57170.5''" "''LO1,freq''" "''142''"] by simp
qed

subsection \<open>An unchanged mysql table\<close>

lemma gb_step_unchanged:
  assumes "\<not> ga_nomysql a" "ga_nocleo a \<or> gs_connected s"
    and "gp_mysql w = Mysql_row row" "column row 0 \<noteq> None" "column row (gc_last_update cfg) = Some (gs_last_last_update s)"
  shows "gb_step cfg a w s = ([], Goes s)"
  using assms by (auto simp: gb_step_def gb_connect_def gb_mysql_def)

definition unchanged_pass :: "gb_config \<Rightarrow> string \<Rightarrow> gb_pass \<Rightarrow> bool" where
  "unchanged_pass cfg upd w =
     (case gp_mysql w of
        Mysql_row row \<Rightarrow> column row 0 \<noteq> None \<and> column row (gc_last_update cfg) = Some upd
      | _ \<Rightarrow> False)"

text \<open>C40: As long as the mysql table shows the same last update, no pass reads the cleo socket or
  sets anything in redis.\<close>
theorem unchanged_mysql_starves_cleo:
  assumes "\<not> ga_nomysql a" "gs_connected s" "list_all (unchanged_pass cfg (gs_last_last_update s)) ws"
  shows "gb_loop cfg a ws s = ([], Goes s)"
  using assms(3)
proof (induction ws)
  case (Cons w ws)
  then obtain row where "gp_mysql w = Mysql_row row" "column row 0 \<noteq> None" "column row (gc_last_update cfg) = Some (gs_last_last_update s)"
    by (auto simp: unchanged_pass_def split: mysql_reply.splits)
  then have "gb_step cfg a w s = ([], Goes s)" using gb_step_unchanged assms(1,2) by blast
  then show ?case using Cons by simp
qed simp

definition demo_config :: gb_config where
  "demo_config = \<lparr>gc_mysql = [(''LASTUPDT'', ''last_update'')], gc_cleo = [(''LO1FREQ'', ''LO1,freq'')],
     gc_az = 0, gc_el = 0, gc_last_update = 0, gc_lst = 0, gc_mjd = 0\<rparr>"

theorem unchanged_mysql_starves_cleo_witness:
  "gb_loop demo_config gb_defaults
     [\<lparr>gp_socket_ok = True, gp_connect_ok = True, gp_mysql = Mysql_row [Some ''12:00''], gp_mysql_now = 5,
       gp_recv = Some ''57170.5 LO1,freq 142\"'', gp_replies = (\<lambda>q. Reply_error), gp_cleo_now = 5\<rparr>]
     \<lparr>gs_connected = True, gs_last_last_update = ''12:00'', gs_lst = (0, 0, 0), gs_lcudsecs = 0, gs_lcudwhen = 0, gs_leaked = 0\<rparr> =
   ([], Goes \<lparr>gs_connected = True, gs_last_last_update = ''12:00'', gs_lst = (0, 0, 0), gs_lcudsecs = 0, gs_lcudwhen = 0, gs_leaked = 0\<rparr>)"
  by (rule unchanged_mysql_starves_cleo) (simp_all add: gb_defaults_def unchanged_pass_def demo_config_def column_def)

subsection \<open>The end of a pass\<close>

lemma gb_idle_status_leaks:
  assumes "list_all (\<lambda>q. replies q \<noteq> No_reply) idle_queries"
  shows "gb_idle_status nodb replies s = (if nodb then Crashes else Goes (s\<lparr>gs_leaked := gs_leaked s + 3\<rparr>))"
proof -
  have "reply_type r \<noteq> 0" if "r \<noteq> No_reply" for r using that by (cases r rule: reply_type.cases) simp_all
  then show ?thesis using assms by (simp add: gb_idle_status_def idle_queries_def)
qed

lemma gb_cleo_end:
  assumes "gb_cleo cfg nodb replies buf now s = (cmds, Goes s')" "list_all (\<lambda>q. replies q \<noteq> No_reply) idle_queries"
  shows "\<not> nodb \<and> gs_leaked s' = gs_leaked s + 3 \<and> cmds \<noteq> [] \<and> last cmds = lcud_command now (gs_lcudsecs s')"
  using assms(1) by (auto simp: gb_cleo_def gb_idle_status_leaks [OF assms(2)] Let_def split: option.splits prod.splits if_splits)

lemma gb_mysql_leaked: "snd (gb_mysql cfg nodb reply now s) = Goes (Some s') \<Longrightarrow> gs_leaked s' = gs_leaked s"
  by (auto simp: gb_mysql_def Let_def split: mysql_reply.splits option.splits prod.splits if_splits bool.splits)

text \<open>Each pass that reads the cleo socket leaks three replies of redis, and none ends normally with
  \<open>-nodb\<close>.\<close>

theorem gb_pass_leaks_replies:
  assumes "gb_step cfg a w s = (cmds, Goes s')" "\<not> ga_nocleo a" "list_all (\<lambda>q. gp_replies w q \<noteq> No_reply) idle_queries"
    and "ga_nomysql a \<or> \<not> unchanged_pass cfg (gs_last_last_update s) w"
  shows "\<not> ga_nodb a \<and> gs_leaked s' = gs_leaked s + 3 \<and> last cmds = lcud_command (gp_cleo_now w) (gs_lcudsecs s')"
proof -
  obtain s1 where c: "gb_connect a w s = Goes s1" using assms(1) by (cases "gb_connect a w s") (simp_all add: gb_step_def)
  then have s1: "gs_leaked s1 = gs_leaked s" "gs_last_last_update s1 = gs_last_last_update s" by (auto simp: gb_connect_def split: if_splits)
  obtain cmds1 r where m: "(if ga_nomysql a then ([], Goes (Some s1)) else gb_mysql cfg (ga_nodb a) (gp_mysql w) (gp_mysql_now w) s1) = (cmds1, r)"
    by fastforce
  have "r \<noteq> Goes None"
    using m assms(4) s1(2) by (auto simp: gb_mysql_def unchanged_pass_def Let_def split: if_splits mysql_reply.splits option.splits prod.splits bool.splits)
  then obtain s2 where r: "r = Goes (Some s2)" using assms(1) by (cases r) (auto simp: gb_step_def c m)
  have s2: "gs_leaked s2 = gs_leaked s"
    using m r s1(1) gb_mysql_leaked [of cfg "ga_nodb a" "gp_mysql w" "gp_mysql_now w" s1 s2] by (auto split: if_splits)
  obtain more where "gb_cleo cfg (ga_nodb a) (gp_replies w) (gp_recv w) (gp_cleo_now w) s2 = (more, Goes s')" "cmds = cmds1 @ more"
    using assms(1,2) by (auto simp: gb_step_def c m r Let_def split: prod.splits)
  then show ?thesis using gb_cleo_end [OF _ assms(3)] s2 by fastforce
qed

theorem gb_pass_leaks_replies_witness:
  "\<exists>cmds s'. gb_step demo_config (gb_defaults\<lparr>ga_nomysql := True\<rparr>)
     \<lparr>gp_socket_ok = True, gp_connect_ok = True, gp_mysql = Query_error, gp_mysql_now = 5, gp_recv = None,
       gp_replies = (\<lambda>q. Reply_error), gp_cleo_now = 5\<rparr>
     \<lparr>gs_connected = True, gs_last_last_update = [], gs_lst = (0, 0, 0), gs_lcudsecs = 0, gs_lcudwhen = 0, gs_leaked = 0\<rparr> = (cmds, Goes s') \<and>
     gs_leaked s' = 3"
proof -
  define w where "w = \<lparr>gp_socket_ok = True, gp_connect_ok = True, gp_mysql = Query_error, gp_mysql_now = 5, gp_recv = None,
       gp_replies = (\<lambda>q. Reply_error), gp_cleo_now = 5\<rparr>"
  define s where "s = \<lparr>gs_connected = True, gs_last_last_update = [], gs_lst = (0, 0, 0), gs_lcudsecs = 0, gs_lcudwhen = 0, gs_leaked = 0\<rparr>"
  have q: "list_all (\<lambda>q. gp_replies w q \<noteq> No_reply) idle_queries" by (simp add: w_def idle_queries_def)
  obtain cmds s' where r: "gb_step demo_config (gb_defaults\<lparr>ga_nomysql := True\<rparr>) w s = (cmds, Goes s')"
    by (simp add: gb_step_def gb_connect_def gb_cleo_def w_def s_def gb_defaults_def gb_idle_status_leaks idle_queries_def Let_def)
  have "gs_leaked s' = gs_leaked s + 3"
    using gb_pass_leaks_replies [OF r _ q] by (simp add: gb_defaults_def)
  then show ?thesis using r unfolding w_def s_def by auto
qed

end
