(* ===== verification/S6_ObsGb_Reader.thy ===== *)
theory S6_ObsGb_Reader
  imports S6_ObsGb_Props S6_Obs_Gbt
begin

text \<open>
  The Green Bank feeder with the key file of the repository, \<open>src/src/mysql_status_fields\<close>,
  against the status reader: two hashes the reader asks for are never set.
\<close>

definition mysql_status_fields :: string where
  "mysql_status_fields = concat (map (\<lambda>l. l @ [newline]) [
     ''LASTUPDT last_update'', ''LST lst'', ''UTC utc'', ''MJD mjd'', ''EPOCH epoch'', ''MAJTYPE major_type'',
     ''MINTYPE minor_type'', ''MAJOR major'', ''MINOR minor'', ''AZCOMM az_commanded'', ''ELCOMM el_commanded'',
     ''AZACTUAL az_actual'', ''ELACTUAL el_actual'', ''AZERROR az_error'', ''ELERROR el_error'', ''LPCS lpcs'',
     ''FOCUSOFF focus_offset'', ''ANTMOT ant_motion'', ''RECEIVER receiver'', ''IFFRQ1ST first_if_freq'',
     ''IFFRQRST if_rest_freq'', ''FREQ freq'', ''VELFRAME velocity_frame'', ''VELDEF velocity_definition'',
     ''J2000MAJ j2000_major'', ''J2000MIN j2000_minor''])"

subsection \<open>The keys a run sets\<close>

definition known_keys :: "gb_config \<Rightarrow> string set" where
  "known_keys cfg = fst ` set (gc_mysql cfg) \<union> fst ` set (gc_cleo cfg) \<union>
     {''RA_DRV'', ''RADG_DRV'', ''DEC_DRV'', ''LSTH_DRV'', ''LCUDSECS''}"

abbreviation only_known :: "gb_config \<Rightarrow> redis_command list \<Rightarrow> bool" where
  "only_known cfg \<equiv> list_all (\<lambda>c. command_key c \<in> known_keys cfg)"

lemma key_commands_known: "list_all (\<lambda>c. command_key c \<in> fst ` set ks) (fst (key_commands now ks row))"
proof (induction now ks row rule: key_commands.induct)
  case (1 now fits key ks v row)
  then show ?case by (auto simp: split_def Let_def list_all_iff)
qed simp_all

lemma gb_mysql_known: "only_known cfg (fst (gb_mysql cfg nodb reply now s))"
proof -
  have k: "only_known cfg (fst (key_commands now (gc_mysql cfg) row))" for row
    using key_commands_known [of "gc_mysql cfg" now row] by (auto simp: list_all_iff known_keys_def)
  have d: "only_known cfg (derived_commands now rd l)" for rd l
    by (cases rd) (simp add: derived_commands_def known_keys_def)
  show ?thesis
    using k unfolding gb_mysql_def Let_def
    by (auto simp: d split: mysql_reply.splits option.splits prod.splits bool.splits) (metis fst_conv)+
qed

lemma gb_cleo_known: "only_known cfg (fst (gb_cleo cfg nodb replies reply now s))"
proof -
  have l: "only_known cfg (line_commands now (gc_cleo cfg) x)" for x
    by (cases x) (auto simp: line_commands_def known_keys_def list_all_iff split_def)
  then have "only_known cfg (concat (map (line_commands now (gc_cleo cfg)) ls))" for ls
    by (induction ls) simp_all
  moreover have "only_known cfg [lcud_command now secs]" for secs by (simp add: lcud_command_def known_keys_def)
  ultimately show ?thesis by (auto simp: gb_cleo_def Let_def split: option.split prod.split)
qed

lemma gb_step_known: "only_known cfg (fst (gb_step cfg a w s))"
proof (cases "gb_connect a w s")
  case (Goes s1)
  obtain cmds r where m: "(if ga_nomysql a then ([], Goes (Some s1)) else gb_mysql cfg (ga_nodb a) (gp_mysql w) (gp_mysql_now w) s1) = (cmds, r)"
    by fastforce
  have "only_known cfg cmds" using m gb_mysql_known [of cfg "ga_nodb a" "gp_mysql w" "gp_mysql_now w" s1] by (auto split: if_splits)
  then show ?thesis
    using gb_cleo_known [of cfg "ga_nodb a" "gp_replies w" "gp_recv w" "gp_cleo_now w"]
    unfolding gb_step_def Goes proc.case m by (auto simp: split_def Let_def split: proc.splits option.splits)
qed (simp_all add: gb_step_def)

lemma gb_loop_Cons:
  "gb_loop cfg a (w # ws) s =
     (case snd (gb_step cfg a w s) of
        Goes s' \<Rightarrow> (fst (gb_step cfg a w s) @ fst (gb_loop cfg a ws s'), snd (gb_loop cfg a ws s'))
      | r \<Rightarrow> (fst (gb_step cfg a w s), r))"
  by (simp add: split_def Let_def split: proc.split)

lemma gb_loop_known: "only_known cfg (fst (gb_loop cfg a ws s))"
proof (induction ws arbitrary: s)
  case (Cons w ws)
  show ?case unfolding gb_loop_Cons using Cons gb_step_known [of cfg a w s] by (simp split: proc.split)
qed simp

lemma gb_run_known:
  "fst (s6_observatory_gbt argv st ws) = [] \<or>
   (\<exists>cfg. gb_configure st = Goes cfg \<and> only_known cfg (fst (s6_observatory_gbt argv st ws)))"
  using gb_loop_known by (auto simp: s6_observatory_gbt_def split: parsed.split proc.split)

lemma gb_configure_keys:
  assumes "gb_configure st = Goes cfg"
  shows "\<exists>mt ct. gt_mysql_fields st = Some mt \<and> gt_cleo_fields st = Some ct \<and>
    read_fields 0 mt = Scanned (gc_mysql cfg) \<and> read_fields 0 ct = Scanned (gc_cleo cfg)"
  using assms by (auto simp: gb_configure_def split: option.splits scanned.splits)

subsection \<open>The reader\<close>

lemma gbt_queries_fails:
  assumes "s6_redis_get (redis (''HMGET '' @ name @ '' '' @ field)) \<noteq> 0"
  shows "gbt_queries redis rows (rv, os) = Some (rv', os') \<Longrightarrow> rv \<noteq> 0 \<or> (name, field, m) \<in> set rows \<Longrightarrow> rv' \<noteq> 0"
proof (induction rows arbitrary: rv os)
  case (Cons r rows)
  obtain n f x where r: "r = (n, f, x)" by (cases r)
  obtain rv1 os1 where q: "gbt_query redis (''HMGET '' @ n @ '' '' @ f) [x] (rv, os) = Some (rv1, os1)"
    using Cons.prems(1) by (auto simp: r split: option.splits)
  have "rv1 \<noteq> 0" if "rv \<noteq> 0 \<or> (name, field, m) = r" using q assms that by (auto simp: gbt_query_def r split: if_splits)
  then show ?case using Cons.IH [of rv1 os1] Cons.prems q by (auto simp: r)
qed simp

lemma gbt_fetch_all_fails:
  assumes "gbt_fetch_all redis (rv, os) = Some (rv', os')" "(name, field, m) \<in> set mysql_rows"
    and "s6_redis_get (redis (''HMGET '' @ name @ '' '' @ field)) \<noteq> 0"
  shows "rv' \<noteq> 0"
proof -
  obtain rv1 os1 where 1: "gbt_queries redis (mysql_rows @ cleo_rows_1 @ cleo_rows_2) (rv, os) = Some (rv1, os1)"
    using assms(1) unfolding gbt_fetch_all_def by (auto simp: Option.bind_eq_Some_conv)
  then have n: "rv1 \<noteq> 0" using gbt_queries_fails [OF assms(3) 1] assms(2) by auto
  then show ?thesis using assms(1) unfolding gbt_fetch_all_def 1
    by (simp add: gbt_get_def gbt_query_skip gbt_queries_skip)
qed

text \<open>A file of keys is read back as it was written.\<close>

definition key_line :: "string \<times> string \<Rightarrow> string" where
  "key_line r = fst r @ CHR '' '' # snd r @ [newline]"

definition key_ok :: "string \<times> string \<Rightarrow> bool" where
  "key_ok r \<longleftrightarrow> fst r \<noteq> [] \<and> snd r \<noteq> [] \<and> list_all (\<lambda>c. \<not> isspace c) (fst r @ snd r) \<and> length (fst r) < 256 \<and> length (snd r) < 256"

lemma read_key_lines:
  "list_all key_ok rs \<Longrightarrow> i + length rs < 256 \<Longrightarrow> list_all isspace sp \<Longrightarrow> read_fields i (sp @ concat (map key_line rs)) = Scanned rs"
proof (induction rs arbitrary: i sp)
  case Nil
  then have "dropWhile isspace sp = []" by (induction sp) auto
  then show ?case using Nil(2) by (simp add: read_fields.simps scan_word_def)
next
  case (Cons r rs)
  obtain f k where r: "r = (f, k)" by (cases r)
  let ?rest = "concat (map key_line rs)"
  have ok: "f \<noteq> []" "k \<noteq> []" "list_all (\<lambda>c. \<not> isspace c) f" "list_all (\<lambda>c. \<not> isspace c) k" "length f < 256" "length k < 256"
    using Cons.prems(1) by (simp_all add: r key_ok_def)
  have 1: "scan_word (sp @ f @ CHR '' '' # k @ newline # ?rest) = Some (f, CHR '' '' # k @ newline # ?rest)"
    by (rule scan_word_word [OF ok(1,3) isspace_special(1) Cons.prems(3)])
  have 2: "scan_word (CHR '' '' # k @ newline # ?rest) = Some (k, newline # ?rest)"
    using scan_word_word [OF ok(2,4) isspace_special(2), of "[CHR '' '']"] by (simp add: isspace_special)
  have "read_fields (i + 1) ([newline] @ ?rest) = Scanned rs"
    using Cons.prems by (intro Cons.IH) (simp_all add: isspace_special)
  then have "read_fields i (sp @ f @ CHR '' '' # k @ newline # ?rest) = Scanned ((f, k) # rs)"
    using Cons.prems(2) ok(5,6) by (subst read_fields.simps) (simp add: 1 2)
  then show ?case by (simp add: r key_line_def [of "(f, k)"])
qed

definition mysql_keys :: field_keys where
  "mysql_keys = [
     (''LASTUPDT'', ''last_update''), (''LST'', ''lst''), (''UTC'', ''utc''), (''MJD'', ''mjd''), (''EPOCH'', ''epoch''),
     (''MAJTYPE'', ''major_type''), (''MINTYPE'', ''minor_type''), (''MAJOR'', ''major''), (''MINOR'', ''minor''),
     (''AZCOMM'', ''az_commanded''), (''ELCOMM'', ''el_commanded''), (''AZACTUAL'', ''az_actual''), (''ELACTUAL'', ''el_actual''),
     (''AZERROR'', ''az_error''), (''ELERROR'', ''el_error''), (''LPCS'', ''lpcs''), (''FOCUSOFF'', ''focus_offset''),
     (''ANTMOT'', ''ant_motion''), (''RECEIVER'', ''receiver''), (''IFFRQ1ST'', ''first_if_freq''), (''IFFRQRST'', ''if_rest_freq''),
     (''FREQ'', ''freq''), (''VELFRAME'', ''velocity_frame''), (''VELDEF'', ''velocity_definition''), (''J2000MAJ'', ''j2000_major''),
     (''J2000MIN'', ''j2000_minor'')]"

lemma shipped_keys: "read_fields 0 mysql_status_fields = Scanned mysql_keys" "\<forall>k \<in> set mysql_keys. fst k \<noteq> ''DCRSCFRQ''"
proof -
  have "list_all key_ok mysql_keys"
    by (simp add: mysql_keys_def key_ok_def isspace_def of_char_Char)
  from read_key_lines [OF this, of 0 "[]"]
  show "read_fields 0 mysql_status_fields = Scanned mysql_keys"
    by (simp add: mysql_status_fields_def mysql_keys_def key_line_def)
  show "\<forall>k \<in> set mysql_keys. fst k \<noteq> ''DCRSCFRQ''" by (simp add: mysql_keys_def)
qed

lemma dcrscfrq_never_set:
  assumes "s6_observatory_gbt argv st ws = (cmds, fin)" "gt_mysql_fields st = Some mysql_status_fields"
    and "\<And>ct ks. gt_cleo_fields st = Some ct \<Longrightarrow> read_fields 0 ct = Scanned ks \<Longrightarrow> ''DCRSCFRQ'' \<notin> fst ` set ks"
  shows "db_after cmds db0 ''DCRSCFRQ'' f = db0 ''DCRSCFRQ'' f"
proof -
  have "list_all (\<lambda>c. command_key c \<noteq> ''DCRSCFRQ'') cmds"
  proof (cases "cmds = []")
    case False
    then obtain cfg where cfg: "gb_configure st = Goes cfg" "only_known cfg cmds" using gb_run_known [of argv st ws] assms(1) by auto
    then obtain ct where k: "gt_cleo_fields st = Some ct" "read_fields 0 mysql_status_fields = Scanned (gc_mysql cfg)" "read_fields 0 ct = Scanned (gc_cleo cfg)"
      using gb_configure_keys [OF cfg(1)] assms(2) by auto
    have "''DCRSCFRQ'' \<notin> known_keys cfg"
      using assms(3) [OF k(1,3)] shipped_keys k(2) by (auto simp: known_keys_def)
    then show ?thesis using cfg(2) by (auto simp: list_all_iff)
  qed simp
  then have "list_all (\<lambda>c. \<not> sets_field ''DCRSCFRQ'' f c) cmds"
  proof (rule list.pred_mono_strong)
    fix c assume "command_key c \<noteq> ''DCRSCFRQ''"
    then show "\<not> sets_field ''DCRSCFRQ'' f c" by (cases c) simp
  qed
  then show ?thesis by (rule db_after_other)
qed

lemma dcrscfrq_row: "(''DCRSCFRQ'', ''VALUE'', Atof ''DCRSCFRQ'' 0) \<in> set mysql_rows"
proof -
  have "list_ex (\<lambda>r. r = (''DCRSCFRQ'', ''VALUE'', Atof ''DCRSCFRQ'' 0)) mysql_rows" by (simp add: mysql_rows_def)
  then show ?thesis by (simp add: list_ex_iff)
qed

theorem gbt_status_reader_fails:
  assumes "s6_observatory_gbt argv st ws = (cmds, fin)" "gt_mysql_fields st = Some mysql_status_fields"
    and "\<And>ct ks. gt_cleo_fields st = Some ct \<Longrightarrow> read_fields 0 ct = Scanned ks \<Longrightarrow> ''DCRSCFRQ'' \<notin> fst ` set ks"
    and "db = db_after cmds db0" "db0 ''DCRSCFRQ'' ''VALUE'' = None"
    and "redis ''HMGET DCRSCFRQ VALUE'' = Reply_array [db ''DCRSCFRQ'' ''VALUE'']"
    and "get_obs_gbt_info_from_redis conn_ok redis mjd1 mjd2 os stc = Fetched rv res"
  shows "rv \<noteq> 0"
proof -
  have g: "s6_redis_get (redis (''HMGET '' @ ''DCRSCFRQ'' @ '' '' @ ''VALUE'')) \<noteq> 0"
    using dcrscfrq_never_set [OF assms(1-3)] assms(4-6) by (simp add: s6_redis_get_def)
  obtain rv1 os1 stc1 os' where "gbt_fetch_all redis (rv1, os1) = Some (rv, os')"
    using assms(7) by (auto simp: get_obs_gbt_info_from_redis_def split: option.splits prod.splits)
  then show ?thesis by (rule gbt_fetch_all_fails [where redis = redis and name = "''DCRSCFRQ''" and field = "''VALUE''", OF _ dcrscfrq_row g])
qed

theorem gbt_status_reader_fails_witness:
  "\<exists>os' stc'. get_obs_gbt_info_from_redis True
       (\<lambda>q. Reply_array [db_after (fst (s6_observatory_gbt [''-nomysql'', ''-nocleo'']
          \<lparr>gt_host_known = True, gt_mysql_fields = Some mysql_status_fields, gt_cleo_fields = Some [], gt_redis_ok = True,
             gt_mysql_ok = True, gt_now = 0, gt_lst = (0, 0, 0)\<rparr> [])) (\<lambda>k f. None) ''DCRSCFRQ'' ''VALUE'']) 0 0 zero_obs
       \<lparr>gs_mysql = \<lparr>lag_count = 0, lag_issued = False\<rparr>, gs_cleo = \<lparr>lag_count = 0, lag_issued = False\<rparr>\<rparr> = Fetched 1 (os', stc') \<and> (1::int) \<noteq> 0"
proof -
  define st where "st = \<lparr>gt_host_known = True, gt_mysql_fields = Some mysql_status_fields, gt_cleo_fields = Some [], gt_redis_ok = True,
    gt_mysql_ok = True, gt_now = 0, gt_lst = (0, 0, 0)\<rparr>"
  have f: "gt_mysql_fields st = Some mysql_status_fields" "gt_cleo_fields st = Some []" by (simp_all add: st_def)
  obtain cmds fin where run: "s6_observatory_gbt [''-nomysql'', ''-nocleo''] st [] = (cmds, fin)"
    by (cases "s6_observatory_gbt [''-nomysql'', ''-nocleo''] st []")
  then have "cmds = []" by (auto simp: s6_observatory_gbt_def gb_defaults_def split: proc.splits if_splits)
  then have db: "db_after cmds (\<lambda>k f. None) ''DCRSCFRQ'' ''VALUE'' = None" by simp
  define redis where "redis = (\<lambda>q :: string. Reply_array [db_after cmds (\<lambda>k f. None) ''DCRSCFRQ'' ''VALUE''])"
  define gs where "gs = \<lparr>gs_mysql = \<lparr>lag_count = 0, lag_issued = False\<rparr>, gs_cleo = \<lparr>lag_count = 0, lag_issued = False\<rparr>\<rparr>"
  have q: "gbt_query redis q ms (0, os) = Some (1, os)" for q ms os
    by (simp add: gbt_query_def redis_def db s6_redis_get_def)
  obtain os' stc' where r: "get_obs_gbt_info_from_redis True redis 0 0 zero_obs gs = Fetched 1 (os', stc')"
    by (simp add: get_obs_gbt_info_from_redis_def gbt_heartbeats_def gbt_fetch_all_def q gbt_query_skip gbt_queries_skip lag_check_def gbt_get_def Let_def)
  have "\<And>ct ks. gt_cleo_fields st = Some ct \<Longrightarrow> read_fields 0 ct = Scanned ks \<Longrightarrow> ''DCRSCFRQ'' \<notin> fst ` set ks"
    by (simp add: f read_fields.simps scan_word_def)
  note c = gbt_status_reader_fails [OF run f(1) this refl refl _ r]
  have "(1::int) \<noteq> 0" by (rule c) (simp_all add: redis_def)
  then show ?thesis using r unfolding redis_def gs_def st_def [symmetric] run fst_conv by blast
qed

end
