(* ===== verification/S6_GbtIdle.thy ===== *)
theory S6_GbtIdle
  imports S6_ObsGb_Reader S6_Output_Props
begin

text \<open>
  What the failing fetches of Green Bank do to the output thread, and \<open>test_obs.cpp\<close>, which prints two
  members of the status.
\<close>

subsection \<open>Members a query does not assign\<close>

fun target :: "member \<Rightarrow> string" where
  "target (Atoi f i) = f"
| "target (Atol f i) = f"
| "target (Atol_int f i) = f"
| "target (Atof f i) = f"
| "target (Atof_int f i) = f"
| "target (Strcpy f n) = f"

definition same_at :: "string \<Rightarrow> obs \<Rightarrow> obs \<Rightarrow> bool" where
  "same_at x os os' \<longleftrightarrow> o_int os' x = o_int os x \<and> o_dbl os' x = o_dbl os x \<and> o_str os' x = o_str os x"

lemma same_at_refl [simp]: "same_at x os os"
  and same_at_trans: "same_at x os os' \<Longrightarrow> same_at x os' os'' \<Longrightarrow> same_at x os os''"
  by (simp_all add: same_at_def)

lemma assign_same_at: "target m \<noteq> x \<Longrightarrow> same_at x os (assign m str os)"
  by (cases m) (auto simp: same_at_def)

lemma assign_all_same_at:
  "assign_all ms els os = Some os' \<Longrightarrow> list_all (\<lambda>m. target m \<noteq> x) ms \<Longrightarrow> same_at x os os'"
proof (induction ms els os rule: assign_all.induct)
  case (2 m ms str els b)
  then show ?case by (auto intro: same_at_trans [OF assign_same_at])
qed simp_all

lemma gbt_query_same_at:
  "gbt_query redis q ms (rv, os) = Some (rv', os') \<Longrightarrow> list_all (\<lambda>m. target m \<noteq> x) ms \<Longrightarrow> same_at x os os'"
  using assign_all_same_at by (auto simp: gbt_query_def split: if_splits redis_reply.splits)

lemma gbt_queries_same_at:
  "gbt_queries redis rows (rv, os) = Some (rv', os') \<Longrightarrow> list_all (\<lambda>(n, f, m). target m \<noteq> x) rows \<Longrightarrow> same_at x os os'"
proof (induction rows arbitrary: rv os)
  case (Cons r rows)
  obtain n f m where r: "r = (n, f, m)" by (cases r)
  obtain rv1 os1 where q: "gbt_query redis (''HMGET '' @ n @ '' '' @ f) [m] (rv, os) = Some (rv1, os1)"
    using Cons.prems(1) by (auto simp: r split: option.splits)
  have "same_at x os os1" using gbt_query_same_at [OF q, of x] Cons.prems(2) by (simp add: r)
  moreover have "same_at x os1 os'" using Cons.IH [of rv1 os1] Cons.prems q by (simp add: r)
  ultimately show ?case by (rule same_at_trans)
qed simp


lemma lag_check_fails: "rv \<noteq> 0 \<Longrightarrow> fst (lag_check tol lag rv ls) = rv"
  by (simp add: lag_check_def)




subsection \<open>The output thread\<close>












subsection \<open>The status print-out\<close>

text \<open>\<open>main\<close> of \<open>test_obs.cpp\<close>, up to the two members it prints; \<open>os\<close> is the uninitialised structure, and the
  result of the fetch is not looked at.\<close>

definition test_obs :: "bool \<Rightarrow> redis \<Rightarrow> real \<Rightarrow> real \<Rightarrow> obs \<Rightarrow> (real \<times> string) proc" where
  "test_obs conn_ok redis mjd1 mjd2 os =
     (case get_obs_gbt_info_from_redis conn_ok redis mjd1 mjd2 os
             \<lparr>gs_mysql = \<lparr>lag_count = 0, lag_issued = False\<rparr>, gs_cleo = \<lparr>lag_count = 0, lag_issued = False\<rparr>\<rparr> of
        Crash \<Rightarrow> Crashes
      | Fetch_exit \<Rightarrow> Exits 1
      | Fetched rv (os, stc) \<Rightarrow> Goes (o_dbl os ''MJD'' 0, o_str os ''LASTUPDT''))"

lemma later_rows:
  "x = ''MJD'' \<or> x = ''LASTUPDT'' \<Longrightarrow> list_all (\<lambda>(n, f, m). target m \<noteq> x) (tl mysql_rows @ cleo_rows_1 @ cleo_rows_2)"
  "x = ''MJD'' \<or> x = ''LASTUPDT'' \<Longrightarrow> list_all (\<lambda>(n, f, m). target m \<noteq> x) adc_rows"
proof -
  have "list_all (\<lambda>(n, f, m). target m \<noteq> ''MJD'') (tl mysql_rows @ cleo_rows_1 @ cleo_rows_2)"
    "list_all (\<lambda>(n, f, m). target m \<noteq> ''LASTUPDT'') (tl mysql_rows @ cleo_rows_1 @ cleo_rows_2)"
    "list_all (\<lambda>(n, f, m). target m \<noteq> ''MJD'') adc_rows" "list_all (\<lambda>(n, f, m). target m \<noteq> ''LASTUPDT'') adc_rows"
    by (simp_all add: mysql_rows_def cleo_rows_1_def cleo_rows_2_def adc_rows_def)
  then show "x = ''MJD'' \<or> x = ''LASTUPDT'' \<Longrightarrow> list_all (\<lambda>(n, f, m). target m \<noteq> x) (tl mysql_rows @ cleo_rows_1 @ cleo_rows_2)"
    "x = ''MJD'' \<or> x = ''LASTUPDT'' \<Longrightarrow> list_all (\<lambda>(n, f, m). target m \<noteq> x) adc_rows"
    by metis+
qed

lemma same_at_WEBCNTRL: "x \<noteq> ''WEBCNTRL'' \<Longrightarrow> same_at x os (set_int ''WEBCNTRL'' 0 v os)"
  by (auto simp: same_at_def)

lemma gbt_get_same_at: "gbt_get redis q m (rv, os) = Some (rv', os') \<Longrightarrow> target m \<noteq> x \<Longrightarrow> same_at x os os'"
  using assign_same_at by (auto simp: gbt_get_def split: if_splits redis_reply.splits option.splits)

lemma gbt_fetch_all_first:
  assumes "gbt_fetch_all redis (0, os) = Some (rv, os')" "redis ''HMGET LASTUPDT VALUE'' = Reply_array [Some u]"
  shows "o_dbl os' ''MJD'' 0 = o_dbl os ''MJD'' 0 \<and> o_str os' ''LASTUPDT'' = s6_strcpy 32 u"
proof -
  define os1 where "os1 = set_str ''LASTUPDT'' (s6_strcpy 32 u) os"
  have hd: "mysql_rows = (''LASTUPDT'', ''VALUE'', Strcpy ''LASTUPDT'' 32) # tl mysql_rows" by (simp add: mysql_rows_def)
  have "gbt_query redis (''HMGET '' @ ''LASTUPDT'' @ '' '' @ ''VALUE'') [Strcpy ''LASTUPDT'' 32] (0, os) = Some (0, os1)"
    by (simp add: gbt_query_def s6_redis_get_def assms(2) os1_def)
  then have first: "gbt_queries redis (mysql_rows @ rows) (0, os) = gbt_queries redis (tl mysql_rows @ rows) (0, os1)" for rows
    by (subst hd) simp
  obtain rv2 os2 rv3 os3 rv4 os4 rv5 os5 where
    2: "gbt_queries redis (tl mysql_rows @ cleo_rows_1 @ cleo_rows_2) (0, os1) = Some (rv2, os2)" and
    3: "gbt_get redis ''GET WEBCNTRL'' (Atoi ''WEBCNTRL'' 0) (rv2, set_int ''WEBCNTRL'' 0 1 os2) = Some (rv3, os3)" and
    4: "gbt_queries redis adc_rows (rv3, os3) = Some (rv4, os4)" and
    5: "gbt_query redis ''HMGET CLOCKSYN      CLOCKTIM CLOCKFRQ CLOCKDBM CLOCKLOC'' clocksyn_members (rv4, os4) = Some (rv5, os5)" and
    6: "gbt_query redis ''HMGET BIRDISYN      BIRDITIM BIRDIFRQ BIRDIDBM BIRDILOC'' birdisyn_members (rv5, os5) = Some (rv, os')"
    using assms(1) by (auto simp: gbt_fetch_all_def first Option.bind_eq_Some_conv)
  have k: "same_at x os1 os'" if x: "x = ''MJD'' \<or> x = ''LASTUPDT''" for x
  proof -
    note rows = later_rows [OF x]
    have "same_at x os1 os2" using gbt_queries_same_at [OF 2 rows(1)] .
    moreover have "same_at x os2 os3" using same_at_trans [OF same_at_WEBCNTRL gbt_get_same_at [OF 3], of x] x by auto
    moreover have "same_at x os3 os4" using gbt_queries_same_at [OF 4 rows(2)] .
    moreover have "same_at x os4 os5" using gbt_query_same_at [OF 5, of x] x by (auto simp: clocksyn_members_def)
    moreover have "same_at x os5 os'" using gbt_query_same_at [OF 6, of x] x by (auto simp: birdisyn_members_def)
    ultimately show ?thesis by (meson same_at_trans)
  qed
  have "same_at ''MJD'' os1 os'" "same_at ''LASTUPDT'' os1 os'" by (simp_all add: k)
  then show ?thesis by (simp add: same_at_def os1_def)
qed

text \<open>The two members are right although, with the key file of the repository, the fetch fails.\<close>

lemma test_obs_prints:
  assumes "redis ''HMGET MJD VALUE'' = Reply_array [Some m]" "redis ''HMGET Thump MJD'' = Reply_array [Some t]"
    and "redis ''HMGET LASTUPDT VALUE'' = Reply_array [Some u]" "test_obs True redis mjd1 mjd2 os \<noteq> Crashes"
  shows "test_obs True redis mjd1 mjd2 os = Goes (atof m, s6_strcpy 32 u)"
proof -
  define gs where "gs = \<lparr>gs_mysql = \<lparr>lag_count = 0, lag_issued = False\<rparr>, gs_cleo = \<lparr>lag_count = 0, lag_issued = False\<rparr>\<rparr>"
  define os1 where "os1 = set_dbl ''CLEOMJD'' 0 (atof t) (set_dbl ''MJD'' 0 (atof m) os)"
  have first: "fst (lag_check tol lag 0 \<lparr>lag_count = 0, lag_issued = False\<rparr>) = 0" for tol lag
    by (simp add: lag_check_def)
  have "gbt_query redis ''HMGET MJD VALUE'' [Atof ''MJD'' 0] (0, os) = Some (0, set_dbl ''MJD'' 0 (atof m) os)"
    "gbt_query redis ''HMGET Thump MJD'' [Atof ''CLEOMJD'' 0] (0, set_dbl ''MJD'' 0 (atof m) os) = Some (0, os1)"
    by (simp_all add: gbt_query_def s6_redis_get_def assms(1,2) os1_def)
  then obtain stc where h: "gbt_heartbeats redis mjd1 mjd2 (0, os) gs = Some ((0, os1), stc)"
    by (simp add: gbt_heartbeats_def gs_def split_def Let_def first)
  obtain rv os' where f: "gbt_fetch_all redis (0, os1) = Some (rv, os')"
    using assms(4) h by (auto simp: test_obs_def get_obs_gbt_info_from_redis_def gs_def split: option.splits)
  have "o_dbl os' ''MJD'' 0 = atof m \<and> o_str os' ''LASTUPDT'' = s6_strcpy 32 u"
    using gbt_fetch_all_first [OF f assms(3)] by (simp add: os1_def)
  then show ?thesis using h f by (simp add: test_obs_def get_obs_gbt_info_from_redis_def gs_def)
qed

end
