(* ===== verification/S6_Stopwatch.thy ===== *)
theory S6_Stopwatch
  imports S6_GpuThread
begin

text \<open>
  The timing helpers of the GPU code: the class \<open>Stopwatch\<close> of \<open>stopwatch.hpp\<close>, and \<open>timer_start\<close>,
  \<open>timer_stop\<close> and \<open>print_current_time\<close> of \<open>s6GPU.cu\<close>.  Each reading of the clock is an argument.
\<close>

subsection \<open>The class\<close>

type_synonym timeval = "int \<times> int"

record stopwatch =
  sw_start_time :: timeval
  sw_diff_time :: real
  sw_total_time :: real
  sw_running :: bool
  sw_clock_sessions :: int

text \<open>The constructor leaves \<open>start_time\<close> as it finds it.\<close>

definition Stopwatch :: "timeval \<Rightarrow> stopwatch" where
  "Stopwatch t = \<lparr>sw_start_time = t, sw_diff_time = 0, sw_total_time = 0, sw_running = False, sw_clock_sessions = 0\<rparr>"

definition getDiffTime :: "timeval \<Rightarrow> stopwatch \<Rightarrow> real" where
  "getDiffTime t_time w =
     1000 * of_int (fst t_time - fst (sw_start_time w)) + 1 / 1000 * of_int (snd t_time - snd (sw_start_time w))"

definition sw_start :: "timeval \<Rightarrow> stopwatch \<Rightarrow> stopwatch" where
  "sw_start now w = w\<lparr>sw_start_time := now, sw_running := True\<rparr>"

definition sw_stop :: "timeval \<Rightarrow> stopwatch \<Rightarrow> stopwatch" where
  "sw_stop now w =
     (let w = w\<lparr>sw_diff_time := getDiffTime now w\<rparr>;
          w = w\<lparr>sw_total_time := sw_total_time w + sw_diff_time w\<rparr>;
          w = w\<lparr>sw_running := False\<rparr>
      in w\<lparr>sw_clock_sessions := sw_clock_sessions w + 1\<rparr>)"

definition sw_reset :: "timeval \<Rightarrow> stopwatch \<Rightarrow> stopwatch" where
  "sw_reset now w =
     (let w = w\<lparr>sw_diff_time := 0, sw_total_time := 0, sw_clock_sessions := 0\<rparr>
      in if sw_running w then w\<lparr>sw_start_time := now\<rparr> else w)"

definition getTime :: "timeval \<Rightarrow> stopwatch \<Rightarrow> real" where
  "getTime now w =
     (let retval = sw_total_time w;
          retval = (if sw_running w then retval + getDiffTime now w else retval)
      in retval / 1000)"

text \<open>A float divided by an integer zero is not a number: \<open>None\<close>.\<close>

definition getAverageTime :: "stopwatch \<Rightarrow> real option" where
  "getAverageTime w =
     (if sw_clock_sessions w = 0 \<and> sw_total_time w = 0 then None
      else Some (sw_total_time w / of_int (sw_clock_sessions w)))"

definition getStartTimeStamp :: "stopwatch \<Rightarrow> real" where
  "getStartTimeStamp w = of_int (fst (sw_start_time w)) + of_int (snd (sw_start_time w)) / 1000000"

definition timer_start :: "timeval \<Rightarrow> stopwatch \<Rightarrow> stopwatch" where
  "timer_start now timer = sw_start now timer"

text \<open>Only \<open>stop\<close> reads the clock: the watch no longer runs when the time is read and when it is reset.\<close>

definition timer_stop :: "timeval \<Rightarrow> stopwatch \<Rightarrow> real \<times> stopwatch" where
  "timer_stop now timer =
     (let timer = sw_stop now timer;
          elapsed_time = getTime now timer
      in (elapsed_time, sw_reset now timer))"

subsection \<open>What it measures\<close>

text \<open>The time between two readings of the clock, in seconds.\<close>

definition seconds :: "timeval \<Rightarrow> timeval \<Rightarrow> real" where
  "seconds t u = of_int ((fst u - fst t) * 1000000 + (snd u - snd t)) / 1000000"

lemma getDiffTime_seconds: "getDiffTime t w = 1000 * seconds (sw_start_time w) t"
  by (simp add: getDiffTime_def seconds_def field_simps)

definition session :: "timeval \<times> timeval \<Rightarrow> stopwatch \<Rightarrow> stopwatch" where
  "session p w = sw_stop (snd p) (sw_start (fst p) w)"

lemma session_simps [simp]:
  "sw_total_time (session p w) = sw_total_time w + 1000 * seconds (fst p) (snd p)"
  "sw_clock_sessions (session p w) = sw_clock_sessions w + 1" "\<not> sw_running (session p w)"
  by (simp_all add: session_def sw_stop_def sw_start_def getDiffTime_seconds Let_def)

lemma sessions_fold:
  "sw_total_time (fold session ps w) = sw_total_time w + 1000 * sum_list (map (\<lambda>p. seconds (fst p) (snd p)) ps) \<and>
   sw_clock_sessions (fold session ps w) = sw_clock_sessions w + int (length ps) \<and>
   sw_running (fold session ps w) = (sw_running w \<and> ps = [])"
  by (induction ps arbitrary: w) (simp_all add: algebra_simps)

text \<open>After any number of sessions the watch shows their sum in seconds, the running session
  included, and the average in milliseconds; the header comment promises milliseconds for the
  first and, when stopped, the last session only.\<close>

theorem stopwatch_sums_sessions:
  assumes "ps \<noteq> []"
  defines "all \<equiv> sum_list (map (\<lambda>p. seconds (fst p) (snd p)) ps)"
  shows "getTime now (fold session ps (Stopwatch t0)) = all \<and>
    getTime now (sw_start t (fold session ps (Stopwatch t0))) = all + seconds t now \<and>
    getAverageTime (fold session ps (Stopwatch t0)) = Some (1000 * all / real (length ps))"
  using sessions_fold [of ps "Stopwatch t0"] assms
  by (simp_all add: getTime_def getAverageTime_def Stopwatch_def sw_start_def getDiffTime_seconds Let_def)

text \<open>A stretch timed with \<open>timer_start\<close> and \<open>timer_stop\<close> counts for itself, whatever the watch measured
  before, provided it was reset: each \<open>timer_stop\<close> leaves it so.\<close>

definition at_zero :: "stopwatch \<Rightarrow> bool" where
  "at_zero w = (sw_total_time w = 0 \<and> sw_diff_time w = 0 \<and> sw_clock_sessions w = 0 \<and> \<not> sw_running w)"

fun time_stretches :: "(timeval \<times> timeval) list \<Rightarrow> stopwatch \<times> real \<Rightarrow> stopwatch \<times> real" where
  "time_stretches [] ws = ws"
| "time_stretches ((t, u) # ps) (timer, sum_of_times) =
     (let (elapsed, timer) = timer_stop u (timer_start t timer)
      in time_stretches ps (timer, sum_of_times + elapsed))"

lemma timer_stop_start:
  assumes "at_zero w"
  shows "fst (timer_stop u (timer_start t w)) = seconds t u" "at_zero (snd (timer_stop u (timer_start t w)))"
  using assms
  by (simp_all add: at_zero_def timer_stop_def timer_start_def sw_stop_def sw_start_def sw_reset_def getTime_def
      getDiffTime_seconds Let_def)

theorem timed_stretches_add_up:
  assumes "at_zero w" "time_stretches ps (w, sum0) = (w', sum1)"
  shows "at_zero w' \<and> sum1 = sum0 + sum_list (map (\<lambda>p. seconds (fst p) (snd p)) ps)"
  using assms
proof (induction ps arbitrary: w sum0)
  case (Cons p ps)
  obtain t u where p: "p = (t, u)" by (cases p)
  show ?case
    using Cons.IH [OF timer_stop_start(2) [OF Cons.prems(1), of u t], of "sum0 + seconds t u"] Cons.prems(2)
      timer_stop_start(1) [OF Cons.prems(1), of u t]
    by (simp add: p Let_def split_beta)
qed simp

subsection \<open>The current time\<close>

text \<open>\<open>round\<close> of a number that is not negative.\<close>

definition c_round :: "real \<Rightarrow> int" where
  "c_round x = floor (x + 1 / 2)"

definition print_current_time :: "int \<times> int \<Rightarrow> int \<times> int" where
  "print_current_time spec =
     (let s = fst spec;
          ms = c_round (of_int (snd spec) / 1000000)
      in if ms > 999 then (s + 1, 0) else (s, ms))"

theorem printed_time_nearest:
  assumes "0 \<le> ns" "ns < 1000000000" "print_current_time (s, ns) = (s', ms)"
  shows "0 \<le> ms \<and> ms \<le> 999 \<and> \<bar>1000 * real_of_int s' + real_of_int ms - (1000 * real_of_int s + real_of_int ns / 1000000)\<bar> \<le> 1 / 2"
proof -
  define x where "x = real_of_int ns / 1000000"
  define r where "r = c_round x"
  have r: "real_of_int r \<le> x + 1 / 2" "x - 1 / 2 < real_of_int r"
    using of_int_floor_le [of "x + 1 / 2"] real_of_int_floor_gt_diff_one [of "x + 1 / 2"] by (simp_all add: r_def c_round_def)
  have x: "x < 1000" "0 \<le> x" using assms(1,2) by (simp_all add: x_def)
  then have b: "r \<le> 1000" "0 \<le> r" using r by linarith+
  have p: "(s', ms) = (if r > 999 then (s + 1, 0) else (s, r))"
    using assms(3) by (simp add: print_current_time_def Let_def r_def x_def split: if_splits)
  have "\<bar>1000 * real_of_int s' + real_of_int ms - (1000 * real_of_int s + x)\<bar> \<le> 1 / 2"
  proof (cases "r > 999")
    case True
    then have "real_of_int r = 1000" using b by simp
    with r have "\<bar>1000 - x\<bar> \<le> 1 / 2" using x by linarith
    then show ?thesis using p True by (simp add: algebra_simps)
  next
    case False
    have "\<bar>real_of_int r - x\<bar> \<le> 1 / 2" using r by linarith
    then show ?thesis using p False by simp
  qed
  then show ?thesis using p b by (simp add: x_def split: if_splits)
qed

end
