(* ===== verification/S6_Plan.thy ===== *)
theory S6_Plan
  imports S6_Stopwatch S6_GpuMem
begin

text \<open>
  The helpers of \<open>s6GPU.cu\<close> around spectroscopy: plans and executions of the FFT, with what cuFFT documents
  of a batched transform; the transposition; set-up, clean-up and memory report of the device; and
  \<open>cub_allocator.hpp\<close>.  CUDA, cuFFT and cub are parameters.
\<close>

subsection \<open>FFT plans\<close>

text \<open>What the code throws.\<close>

datatype runtime_error = CufftPlanMany_failed | CufftExecC2C_failed | CufftExecR2C_failed | Cuda_failed string

text \<open>The arguments of \<open>cufftPlanMany\<close>.\<close>

record fft_plan =
  fp_rank :: nat
  fp_n :: "nat list"
  fp_inembed :: "nat list"
  fp_istride :: nat
  fp_idist :: nat
  fp_onembed :: "nat list"
  fp_ostride :: nat
  fp_odist :: nat
  fp_type :: cufft_type
  fp_batch :: nat

text \<open>\<open>cufftPlanMany\<close> says whether it made the plan.\<close>

definition create_fft_plan_1d ::
  "(fft_plan \<Rightarrow> bool) \<Rightarrow> nat \<Rightarrow> nat \<Rightarrow> nat \<Rightarrow> nat \<Rightarrow> nat \<Rightarrow> nat \<Rightarrow> cufft_type \<Rightarrow> runtime_error + fft_plan" where
  "create_fft_plan_1d cufftPlanMany istride idist ostride odist nfft_len nbatch fft_type =
     (let rank = 1;
          nfft = [nfft_len];
          inembed = [nfft ! 0];
          onembed = [nfft ! 0];
          plan = \<lparr>fp_rank = rank, fp_n = nfft, fp_inembed = inembed, fp_istride = istride, fp_idist = idist,
                  fp_onembed = onembed, fp_ostride = ostride, fp_odist = odist, fp_type = fft_type, fp_batch = nbatch\<rparr>
      in if \<not> cufftPlanMany plan then Inl CufftPlanMany_failed else Inr plan)"

text \<open>An execution returns the contents of the output vector, or \<open>None\<close> for a result other than success.\<close>

definition execute_fft_plan_c2c ::
  "(fft_plan \<Rightarrow> (real \<times> real) list \<Rightarrow> (real \<times> real) list \<Rightarrow> (real \<times> real) list option) \<Rightarrow> fft_plan \<Rightarrow>
   (real \<times> real) list \<Rightarrow> (real \<times> real) list \<Rightarrow> runtime_error + (real \<times> real) list" where
  "execute_fft_plan_c2c cufftExecC2C plan input output =
     (case cufftExecC2C plan input output of None \<Rightarrow> Inl CufftExecC2C_failed | Some output \<Rightarrow> Inr output)"

definition execute_fft_plan_r2c ::
  "(fft_plan \<Rightarrow> real list \<Rightarrow> (real \<times> real) list \<Rightarrow> (real \<times> real) list option) \<Rightarrow> fft_plan \<Rightarrow>
   real list \<Rightarrow> (real \<times> real) list \<Rightarrow> runtime_error + (real \<times> real) list" where
  "execute_fft_plan_r2c cufftExecR2C plan input output =
     (case cufftExecR2C plan input output of None \<Rightarrow> Inl CufftExecR2C_failed | Some output \<Rightarrow> Inr output)"

text \<open>\<open>do_fft\<close> and \<open>do_r2c_fft\<close>, with the timing that \<open>use_timer\<close> switches on; \<open>t0\<close> is what the watch
  holds when it is made, \<open>t1\<close> and \<open>t2\<close> are the readings of the clock.\<close>

definition do_fft ::
  "(fft_plan \<Rightarrow> (real \<times> real) list \<Rightarrow> (real \<times> real) list \<Rightarrow> (real \<times> real) list option) \<Rightarrow> bool \<Rightarrow>
   timeval \<times> timeval \<times> timeval \<Rightarrow> fft_plan \<Rightarrow> (real \<times> real) list \<Rightarrow> (real \<times> real) list \<Rightarrow> real \<Rightarrow>
   runtime_error + ((real \<times> real) list \<times> real)" where
  "do_fft cufftExecC2C use_timer t fft_plan fft_input fft_output sum_of_times =
     (let (t0, t1, t2) = t;
          timer = Stopwatch t0;
          timer = (if use_timer then timer_start t1 timer else timer)
      in case execute_fft_plan_c2c cufftExecC2C fft_plan fft_input fft_output of
           Inl e \<Rightarrow> Inl e
         | Inr out \<Rightarrow> Inr (out, if use_timer then sum_of_times + fst (timer_stop t2 timer) else sum_of_times))"

definition do_r2c_fft ::
  "(fft_plan \<Rightarrow> real list \<Rightarrow> (real \<times> real) list \<Rightarrow> (real \<times> real) list option) \<Rightarrow> bool \<Rightarrow>
   timeval \<times> timeval \<times> timeval \<Rightarrow> fft_plan \<Rightarrow> real list \<Rightarrow> (real \<times> real) list \<Rightarrow> real \<Rightarrow>
   runtime_error + ((real \<times> real) list \<times> real)" where
  "do_r2c_fft cufftExecR2C use_timer t fft_plan fft_input fft_output sum_of_times =
     (let (t0, t1, t2) = t;
          timer = Stopwatch t0;
          timer = (if use_timer then timer_start t1 timer else timer)
      in case execute_fft_plan_r2c cufftExecR2C fft_plan fft_input fft_output of
           Inl e \<Rightarrow> Inl e
         | Inr out \<Rightarrow> Inr (out, if use_timer then sum_of_times + fst (timer_stop t2 timer) else sum_of_times))"

text \<open>The documented layout of a batched transform: element \<open>x\<close> of batch \<open>b\<close> is read at
  \<open>b * idist + x * istride\<close>, element \<open>k\<close> of its transform is written at \<open>b * odist + k * ostride\<close>.  \<open>tr\<close> is the
  transform of one series.\<close>

definition fft_series :: "fft_plan \<Rightarrow> 'i list \<Rightarrow> nat \<Rightarrow> 'i list" where
  "fft_series p input b = map (\<lambda>x. input ! (b * fp_idist p + x * fp_istride p)) [0..<fp_n p ! 0]"

definition write_batch :: "fft_plan \<Rightarrow> nat \<Rightarrow> 'o list \<Rightarrow> 'o list \<Rightarrow> 'o list" where
  "write_batch p b ys output = fold (\<lambda>k out. out[b * fp_odist p + k * fp_ostride p := ys ! k]) [0..<length ys] output"

definition batched :: "('i list \<Rightarrow> 'o list) \<Rightarrow> fft_plan \<Rightarrow> 'i list \<Rightarrow> 'o list \<Rightarrow> 'o list" where
  "batched tr p input output = fold (\<lambda>b. write_batch p b (tr (fft_series p input b))) [0..<fp_batch p] output"

lemma length_write_consecutive:
  "length (fold (\<lambda>k out. out[base + k := ys ! k]) [0..<m] out) = length out"
  by (induction m) simp_all

lemma write_consecutive:
  assumes "i < length out"
  shows "fold (\<lambda>k out. out[base + k := ys ! k]) [0..<m] out ! i =
     (if base \<le> i \<and> i < base + m then ys ! (i - base) else out ! i)"
proof (induction m)
  case (Suc m)
  then show ?case
    using assms by (cases "i = base + m") (auto simp: length_write_consecutive)
qed auto

lemma write_batch_simps:
  assumes "fp_ostride p = 1"
  shows "length (write_batch p b ys out) = length out"
    and "i < length out \<Longrightarrow> write_batch p b ys out ! i =
      (if b * fp_odist p \<le> i \<and> i < b * fp_odist p + length ys then ys ! (i - b * fp_odist p) else out ! i)"
  using assms by (simp_all only: write_batch_def mult_1_right length_write_consecutive write_consecutive)

lemma batched_nth:
  assumes p: "fp_ostride p = 1" "0 < fp_odist p" and len: "\<And>b. length (tr (fft_series p input b)) \<le> fp_odist p"
    and b: "b < fp_batch p" and k: "k < length (tr (fft_series p input b))"
    and out: "fp_batch p * fp_odist p \<le> length out"
  shows "batched tr p input out ! (b * fp_odist p + k) = tr (fft_series p input b) ! k"
proof -
  let ?w = "\<lambda>b. write_batch p b (tr (fft_series p input b))" and ?i = "b * fp_odist p + k"
  have kd: "k < fp_odist p" using k len [of b] by simp
  have len_w: "length (fold ?w [0..<n] out) = length out" for n
    by (induction n) (simp_all add: write_batch_simps(1) [OF p(1)])
  have "(b + 1) * fp_odist p \<le> fp_batch p * fp_odist p" using b by (intro mult_le_mono1) simp
  then have i: "?i < length out" using kd out by simp
  have "b < n \<Longrightarrow> fold ?w [0..<n] out ! ?i = tr (fft_series p input b) ! k" for n
  proof (induction n)
    case (Suc n)
    show ?case
    proof (cases "n = b")
      case True
      then show ?thesis using i k by (simp add: write_batch_simps(2) [OF p(1)] len_w)
    next
      case False
      then have "(b + 1) * fp_odist p \<le> n * fp_odist p" using Suc.prems by (intro mult_le_mono1) simp
      then have "?i < n * fp_odist p" using kd by simp
      then show ?thesis using False Suc i by (simp add: write_batch_simps(2) [OF p(1)] len_w)
    qed
  qed simp
  then show ?thesis using b by (simp add: batched_def)
qed

lemma length_batched: "fp_ostride p = 1 \<Longrightarrow> length (batched tr p input out) = length out"
proof -
  assume p: "fp_ostride p = 1"
  have "length (fold (\<lambda>b. write_batch p b (tr (fft_series p input b))) [0..<n] out) = length out" for n
    by (induction n) (simp_all add: write_batch_simps(1) [OF p])
  then show ?thesis by (simp add: batched_def)
qed

text \<open>The plan that spectroscopy makes of the thread's configuration, and cuFFT run with it.\<close>

definition planned :: "cufft_config \<Rightarrow> runtime_error + fft_plan" where
  "planned c = create_fft_plan_1d (\<lambda>_. True) (cc_istride c) (cc_idist c) (cc_ostride c) (cc_odist c) (cc_nfft c) (cc_nbatch c)
     (cc_fft_type c)"

definition planned_fft ::
  "((real \<times> real) list \<Rightarrow> (real \<times> real) list) \<Rightarrow> (real list \<Rightarrow> (real \<times> real) list) \<Rightarrow> cufft_config \<Rightarrow> fft_input \<Rightarrow> (real \<times> real) list" where
  "planned_fft dft rdft c inp =
     (case planned c of
        Inl e \<Rightarrow> []
      | Inr p \<Rightarrow>
          (let output = replicate (fp_batch p * fp_odist p) (0, 0)
           in case inp of
                Complex_input xs \<Rightarrow> batched dft p xs output
              | Real_input xs \<Rightarrow> batched rdft p xs output))"

subsection \<open>Functors and the transposition\<close>

definition divide_by :: "nat \<Rightarrow> nat \<Rightarrow> nat" where
  "divide_by val x = x div val"

definition greater_than_val :: "real \<Rightarrow> real \<Rightarrow> bool" where
  "greater_than_val val x = (val < x)"

definition linear_index_to_row_index :: "nat \<Rightarrow> nat \<Rightarrow> nat" where
  "linear_index_to_row_index C i = i div C"

text \<open>\<open>thrust::gather\<close> of \<open>dst->size()\<close> elements of \<open>src\<close>.\<close>

definition transpose :: "nat \<Rightarrow> nat \<Rightarrow> 'a list \<Rightarrow> 'a list \<Rightarrow> 'a list" where
  "transpose m n src dst = map (\<lambda>i. src ! transpose_index n m i) [0..<length dst]"

lemma transpose_nth:
  assumes "i < m" "j < n" "length dst = m * n"
  shows "transpose m n src dst ! (j * m + i) = src ! (i * n + j)"
proof -
  have "(j + 1) * m \<le> n * m" using assms(2) by (intro mult_le_mono1) simp
  then have "j * m + i < length dst" using assms by (simp add: mult.commute)
  then show ?thesis using assms(1) by (simp add: transpose_def transpose_index_def Let_def mult.commute add.commute)
qed

text \<open>The array is transposed, and transposing it back gives the original.\<close>

theorem transpose_correct:
  assumes "length src = m * n" "length dst = m * n" "length dst' = m * n"
  shows "list_all (\<lambda>i. list_all (\<lambda>j. transpose m n src dst ! (j * m + i) = src ! (i * n + j)) [0..<n]) [0..<m] \<and>
    transpose n m (transpose m n src dst) dst' = src"
proof -
  have "transpose n m (transpose m n src dst) dst' ! a = src ! a" if "a < m * n" for a
  proof -
    have n: "0 < n" using that by (cases n) simp_all
    have ij: "a mod n < n" "a div n < m" using that n by (simp_all add: less_mult_imp_div_less)
    have "transpose n m (transpose m n src dst) dst' ! (a div n * n + a mod n) = transpose m n src dst ! (a mod n * m + a div n)"
      using transpose_nth [OF ij] assms(3) by (simp add: mult.commute)
    then show ?thesis using transpose_nth [OF ij(2,1), of dst src] assms(2) by simp
  qed
  then show ?thesis using assms transpose_nth by (auto simp: list_all_iff transpose_def [of n m] intro!: nth_equalityI)
qed

text \<open>The keys of the scan and the reduction, and the hits, in terms of the functors.\<close>

lemma scan_keys: "exclusive_scan n_fc i acc (x # xs) =
   (let acc = (if 0 < i \<and> divide_by n_fc (i - 1) \<noteq> divide_by n_fc i then 0 else acc) in acc # exclusive_scan n_fc (i + 1) (acc + x) xs)"
  by (simp add: divide_by_def)

lemma hits_greater_than: "h_indices (snd (find_hits n maxhits th normalised powspec baseline)) =
   take maxhits (filter (\<lambda>i. greater_than_val th (normalised ! i)) [0..<n])"
  by (simp add: find_hits_def greater_than_val_def Let_def)

subsection \<open>The device\<close>

text \<open>\<open>cudaSetDevice\<close> gives an error number; the caller ignores it.\<close>

definition init_device :: "(int \<Rightarrow> int) \<Rightarrow> int \<Rightarrow> int" where
  "init_device cudaSetDevice gpu_dev = (let rv = cudaSetDevice gpu_dev in rv)"

definition peak_bandwidth :: "int \<Rightarrow> int \<Rightarrow> real" where
  "peak_bandwidth memoryClockRate memoryBusWidth = 2 * of_int memoryClockRate * of_int (memoryBusWidth div 8) / 1000000"

text \<open>The hit vectors are deleted, then the structure itself with every other pointer it holds.\<close>

definition delete_device_vectors :: "('r, 'i) spectroscopy_call \<Rightarrow> ('r, 'i) device \<Rightarrow> ('r, 'i) device" where
  "delete_device_vectors cl d =
     (let d = exec cl [Delete Hit_indices, Delete Hit_powers, Delete Hit_baselines] d
      in d\<lparr>d_faults := d_faults d @ map Leaked (filter (\<lambda>v. is_live (vec_state v (d_vecs d))) vecs)\<rparr>)"

theorem delete_device_vectors_leaks:
  assumes "\<not> list_ex (\<lambda>v. vec_state v (d_vecs d) = Freed) [Hit_indices, Hit_powers, Hit_baselines]"
  shows "d_faults (delete_device_vectors cl d) = d_faults d @ map Leaked (filter (\<lambda>v. is_live (vec_state v (d_vecs d)))
     [Fft_data, Raw_timeseries, Fft_data_out, Powspec, Scanned, Baseline, Normalised, Spectra_sums, Spectra_indices])"
  using assms
  by (cases "dv_hit_indices (d_vecs d)"; cases "dv_hit_powers (d_vecs d)"; cases "dv_hit_baselines (d_vecs d)")
    (simp_all add: delete_device_vectors_def exec_def delete_op_def vecs_def)

text \<open>\<open>cudaMemGetInfo\<close> gives the free and total bytes; the report is in units of \<open>2 ^ 30\<close> bytes.\<close>

record mem_report =
  mr_total_gb :: real
  mr_allocated_gb :: real
  mr_allocated_percent :: real
  mr_free_gb :: real

definition get_gpu_mem_info :: "int + nat \<times> nat \<Rightarrow> int + mem_report" where
  "get_gpu_mem_info cudaMemGetInfo =
     (case cudaMemGetInfo of
        Inl rv \<Rightarrow> Inl rv
      | Inr (free, tot) \<Rightarrow>
          (let total_gb = real tot / (1024 * 1024 * 1024);
               free_gb = real free / (1024 * 1024 * 1024);
               allocated_gb = total_gb - free_gb
           in Inr \<lparr>mr_total_gb = total_gb, mr_allocated_gb = allocated_gb,
                    mr_allocated_percent = allocated_gb / total_gb * 100, mr_free_gb = free_gb\<rparr>))"

lemma mem_report_adds_up:
  assumes "free \<le> tot" "0 < tot" "get_gpu_mem_info (Inr (free, tot)) = Inr r"
  shows "mr_allocated_gb r + mr_free_gb r = mr_total_gb r" "0 \<le> mr_allocated_percent r" "mr_allocated_percent r \<le> 100"
  using assms by (auto simp: get_gpu_mem_info_def Let_def field_simps)

subsection \<open>The caching allocator\<close>

text \<open>cub's allocator: a request returns a pointer or an error number.\<close>

record 'c cub_ops =
  DeviceAllocate :: "'c \<Rightarrow> u64 \<Rightarrow> (int + nat) \<times> 'c"
  DeviceFree :: "'c \<Rightarrow> nat \<Rightarrow> 'c"
  FreeAllCached :: "'c \<Rightarrow> 'c"
  cudaGetErrorString :: "int \<Rightarrow> string"

definition cub_allocate :: "'c cub_ops \<Rightarrow> u64 \<Rightarrow> 'c \<Rightarrow> (runtime_error + nat) \<times> 'c" where
  "cub_allocate c num_bytes st =
     (case DeviceAllocate c st num_bytes of
        (Inl ret, st) \<Rightarrow>
          (Inl (Cuda_failed (''CUDA failed to allocate '' @ digits (unat num_bytes) @ '' bytes: '' @ cudaGetErrorString c ret)), st)
      | (Inr ptr, st) \<Rightarrow> (Inr ptr, st))"

definition cub_deallocate :: "'c cub_ops \<Rightarrow> nat \<Rightarrow> u64 \<Rightarrow> 'c \<Rightarrow> 'c" where
  "cub_deallocate c ptr num_bytes st = DeviceFree c st ptr"

definition cub_free_all_cached :: "'c cub_ops \<Rightarrow> 'c \<Rightarrow> 'c" where
  "cub_free_all_cached c st = FreeAllCached c st"

text \<open>The allocator handed to thrust counts elements; the product is a \<open>size_t\<close>.\<close>

definition thrust_allocate :: "'c cub_ops \<Rightarrow> elem_type \<Rightarrow> u64 \<Rightarrow> 'c \<Rightarrow> (runtime_error + nat) \<times> 'c" where
  "thrust_allocate c T num_elements st = cub_allocate c (num_elements * of_nat (elem_size T)) st"

definition thrust_deallocate :: "'c cub_ops \<Rightarrow> elem_type \<Rightarrow> nat \<Rightarrow> u64 \<Rightarrow> 'c \<Rightarrow> 'c" where
  "thrust_deallocate c T ptr num_elements st = cub_deallocate c ptr (num_elements * of_nat (elem_size T)) st"

text \<open>The vectors of FAST are far below the size at which the product would wrap: the bytes asked of
  cub are those of \<open>S6_GpuMem\<close>, and a refusal is an exception that names them.\<close>

theorem thrust_requests_exact:
  assumes "n < 2 ^ 60"
  shows "thrust_allocate c T (of_nat n) st =
    (case DeviceAllocate c st (of_nat (n * elem_size T)) of
       (Inr ptr, st) \<Rightarrow> (Inr ptr, st)
     | (Inl ret, st) \<Rightarrow> (Inl (Cuda_failed (''CUDA failed to allocate '' @ digits (bytes T (Live n)) @ '' bytes: '' @
          cudaGetErrorString c ret)), st))"
proof -
  have "n * elem_size T < 2 ^ 64" using assms by (cases T) simp_all
  then have "unat (of_nat (n * elem_size T) :: u64) = n * elem_size T" by (rule unat_of_nat_64)
  then show ?thesis by (auto simp: thrust_allocate_def cub_allocate_def split: prod.splits sum.splits)
qed

end
