(* ===== verification/S6_Spectra.thy ===== *)
theory S6_Spectra
  imports S6_Plan S6_Pktsock_Props
begin

text \<open>
  From packets to spectra.
\<close>

subsection \<open>A block collects the packets of its window\<close>

definition store_all :: "site \<Rightarrow> frame list \<Rightarrow> store \<Rightarrow> store" where
  "store_all s fs d = fold (\<lambda>f d. copy_payload s (get_header s f) f d) fs d"

definition ordinary :: "site \<Rightarrow> nat \<Rightarrow> rx_event \<Rightarrow> bool" where
  "ordinary s start ev =
     (\<not> rx_quit ev \<and> udp_size (rx_frame ev) = full_size s \<and> valid_sid s (rx_frame ev) \<and>
      start \<le> pkt_mcnt_of s (rx_frame ev) \<and> pkt_mcnt_of s (rx_frame ev) < start + Nm s)"

lemma full_size_ok: "udp_size f = full_size s \<Longrightarrow> packet_size_ok s f"
  by (cases s) (simp_all add: packet_size_ok_def max_packet_size_def)

lemma ordinary_step:
  assumes inv: "net_inv s (rs_net rs)" and ev: "ordinary s (win_start s (rs_net rs)) ev"
    and r: "run_step s e so ev rs = R" "\<not> exited R"
  obtains rs' where "R = Continue rs'" "net_inv s (rs_net rs')" "win_start s (rs_net rs') = win_start s (rs_net rs)"
    "win_block s (rs_net rs') = win_block s (rs_net rs)"
    "ib_data (n_blocks (rs_net rs') ! win_block s (rs_net rs)) =
       store_all s [rx_frame ev] (ib_data (n_blocks (rs_net rs) ! win_block s (rs_net rs)))"
proof -
  let ?f = "rx_frame ev"
  have w: "in_window s (rs_net rs) ?f" and c: "\<not> closes_block s (rs_net rs) ?f"
    using ev Nm_bounds [of s] by (auto simp: ordinary_def in_window_def closes_block_def)
  have b: "block_for_mcnt s (ph_mcnt (get_header s ?f)) = win_block s (rs_net rs)"
    using in_window_block [OF inv w] ev by (simp add: ordinary_def)
  show ?thesis
  proof (cases rule: run_step_cases [OF r(1), case_names quit bad exit packet])
    case (packet net m rs')
    note P = process_packet_effect [OF inv packet(2)]
    obtain buf where n: "rs_net rs' = net\<lparr>n_status := buf\<rparr>" using packet(4) ..
    show ?thesis
      using P(1,4) P(7) [of "win_block s (rs_net rs)"] P(8) [OF w] c w b ev packet(3)
      by (intro that [of rs']) (simp_all add: n ordinary_def store_all_def)
  qed (use ev r full_size_ok in \<open>auto simp: ordinary_def\<close>)
qed

lemma run_loop_stores:
  assumes "net_inv s (rs_net rs)" "list_all (ordinary s (win_start s (rs_net rs))) evs"
    and "\<not> exited (run_loop s e so evs rs)"
  shows "ib_data (n_blocks (rs_net (result_state (run_loop s e so evs rs))) ! win_block s (rs_net rs)) =
    store_all s (map rx_frame evs) (ib_data (n_blocks (rs_net rs) ! win_block s (rs_net rs)))"
  using assms
proof (induction evs arbitrary: rs)
  case (Cons ev evs)
  obtain R where R: "run_step s e so ev rs = R" by blast
  have "\<not> exited R" using Cons.prems(3) R by (auto split: step_result.splits)
  from ordinary_step [OF Cons.prems(1) _ R this] Cons.prems(2)
  obtain rs' where D: "R = Continue rs'" "net_inv s (rs_net rs')" "win_start s (rs_net rs') = win_start s (rs_net rs)"
    "win_block s (rs_net rs') = win_block s (rs_net rs)"
    "ib_data (n_blocks (rs_net rs') ! win_block s (rs_net rs)) =
       store_all s [rx_frame ev] (ib_data (n_blocks (rs_net rs) ! win_block s (rs_net rs)))" by auto
  show ?case
    using Cons.IH [of rs'] Cons.prems D R by (simp add: store_all_def)
qed (simp add: store_all_def)

definition distinct_slots :: "site \<Rightarrow> frame list \<Rightarrow> bool" where
  "distinct_slots s fs = sorted_wrt (\<lambda>f f'. \<not> same_slot s (get_header s f) (get_header s f')) fs"

lemma store_all_slot:
  assumes "distinct_slots s fs" "list_all (\<lambda>f. udp_size f = full_size s \<and> valid_sid s f) fs"
    and "f \<in> set fs" "slot_bytes s (get_header s f) a"
  shows "store_all s fs d a = payload f (slot_source s a)"
  using assms
proof (induction fs arbitrary: d)
  case (Cons g fs)
  have copy: "copy_payload s (get_header s f) f d = (\<lambda>a. if slot_bytes s (get_header s f) a then payload f (slot_source s a) else d a)"
    if "udp_size f = full_size s" "valid_sid s f" for f d
    by (rule copy_payload_slot [OF that(1) _ header_mcnt_bound]) (use that(2) in \<open>simp add: valid_sid_def\<close>)
  have keep: "store_all s fs d a = d a" if "\<forall>g\<in>set fs. \<not> slot_bytes s (get_header s g) a"
     "list_all (\<lambda>f. udp_size f = full_size s \<and> valid_sid s f) fs" for fs d
    using that by (induction fs arbitrary: d) (simp_all add: store_all_def copy)
  show ?case
  proof (cases "f \<in> set fs")
    case True
    then show ?thesis using Cons by (simp add: store_all_def distinct_slots_def)
  next
    case False
    then have f: "f = g" using Cons.prems(3) by simp
    have "\<forall>h\<in>set fs. \<not> slot_bytes s (get_header s h) a"
      using Cons.prems(1,4) slots_disjoint [OF Cons.prems(4)] by (auto simp: f distinct_slots_def)
    then show ?thesis using keep [of fs] copy [of g] Cons.prems by (simp add: store_all_def f)
  qed
qed simp

subsection \<open>The power spectra of a group\<close>

definition group_input :: "site \<Rightarrow> in_block \<Rightarrow> nat \<Rightarrow> store" where
  "group_input s ib j = (\<lambda>a. ib_data ib (8 * (j * n_bytes_per_bors s div 8) + a))"

definition group_elements :: "site \<Rightarrow> nat \<Rightarrow> nat" where
  "group_elements s n_cc = (if s = SOURCE_FAST then n_cc * N_FINE_CHAN s else n_cc * N_FINE_CHAN s * N_POLS_PER_BEAM s)"

definition group_series :: "site \<Rightarrow> nat \<Rightarrow> in_block \<Rightarrow> nat \<Rightarrow> fft_input" where
  "group_series s n_cc ib j =
     (if s = SOURCE_FAST then Real_input (unpack_real (n_bytes_per_bors s) (group_input s ib j))
      else Complex_input (unpack_complex (group_elements s n_cc) (n_bytes_per_bors s) (group_input s ib j)))"

definition group_powspec ::
  "site \<Rightarrow> (cufft_config \<Rightarrow> fft_input \<Rightarrow> (real \<times> real) list) \<Rightarrow> cufft_config \<Rightarrow> nat \<Rightarrow> in_block \<Rightarrow> nat \<Rightarrow> real list" where
  "group_powspec s cufft plan n_cc ib j =
     (let n = group_elements s n_cc
      in compute_power_spectrum (fft_data_out n (cufft plan (group_series s n_cc ib j))) (replicate n 0))"

text \<open>It is the spectrum in which the thread looks for hits.\<close>

lemma process_bors_powspec:
  "process_bors s gc cufft plan num ib j acc =
     (let n_cc = unat num div N_SUBSPECTRA_PER_SPECTRUM s;
          n_pol = (if s = SOURCE_FAST then unat (ih_sid (ib_header ib) mod 2) else N_POLS_PER_BEAM s);
          powspec = group_powspec s cufft plan n_cc ib j;
          ob = (if s = SOURCE_FAST then snd acc
                else reduce_coarse_channels n_cc n_pol (N_FINE_CHAN s) j powspec (snd acc));
          (nhits, ob) = detect_hits s (group_elements s n_cc) (N_FINE_CHAN s) n_pol j (gc_maxhits gc) (gc_power_thresh gc)
                          (SMOOTH_SCALE s) powspec ob
      in (fst acc + nhits, ob))"
  by (simp add: process_bors_def spectroscopy_def spectroscopy_fast_def group_powspec_def group_elements_def group_series_def
      group_input_def Let_def)

text \<open>Sample \<open>x\<close> of series \<open>b\<close> of group \<open>j\<close>: the byte of the payload at which it starts.\<close>

fun sample_source :: "site \<Rightarrow> nat \<Rightarrow> nat \<Rightarrow> nat \<Rightarrow> nat" where
  "sample_source SOURCE_S6 j x b = 2 * b"
| "sample_source SOURCE_DIBAS j x b = x mod 4 * 2048 + j * 256 + 2 * b"
| "sample_source SOURCE_FAST j x b = x mod 4096"

definition channel_series :: "site \<Rightarrow> (nat \<Rightarrow> frame) \<Rightarrow> nat \<Rightarrow> nat \<Rightarrow> (real \<times> real) list" where
  "channel_series s pk j b =
     map (\<lambda>x. let f = payload (pk (x div N_SPECTRA_PER_PACKET s)); i = sample_source s j x b
              in convert_complex_8b_to_float (f i, f (i + 1))) [0..<N_TIME_SAMPLES s]"

definition voltage_series :: "(nat \<Rightarrow> frame) \<Rightarrow> real list" where
  "voltage_series pk =
     map (\<lambda>x. convert_real_8b_to_float (payload (pk (x div 4096)) (x mod 4096))) [0..<N_TIME_SAMPLES SOURCE_FAST]"

text \<open>\<open>pk t\<close> is the packet number \<open>t\<close> of the block, at Arecibo that of beam \<open>j\<close>.\<close>

definition carries :: "site \<Rightarrow> nat \<Rightarrow> frame list \<Rightarrow> (nat \<Rightarrow> frame) \<Rightarrow> bool" where
  "carries s j fs pk =
     (\<forall>t < Nm s. pk t \<in> set fs \<and> pkt_mcnt_of s (pk t) mod Nm s = t \<and>
        (s = SOURCE_S6 \<longrightarrow> unat (ph_sid (get_header s (pk t))) = j))"

lemma quot_rem: "(a :: nat) = q * n + r \<Longrightarrow> r < n \<Longrightarrow> a div n = q \<and> a mod n = r"
  by simp

lemma sample_slot_s6:
  assumes "j < 7" "x < 131072" "b < 640" "c < 2"
    and "unat (ph_mcnt h) mod 131072 = x" "unat (ph_sid h) = j"
  shows "slot_bytes SOURCE_S6 h (j * 167772160 + 2 * (b + x * 640) + c)"
    "slot_source SOURCE_S6 (j * 167772160 + 2 * (b + x * 640) + c) = 2 * b + c"
proof -
  have "j * 167772160 + 2 * (b + x * 640) + c = (j * 131072 + x) * 1280 + (2 * b + c)" "2 * b + c < 1280"
    using assms by simp_all
  from quot_rem [OF this] show "slot_bytes SOURCE_S6 h (j * 167772160 + 2 * (b + x * 640) + c)"
    "slot_source SOURCE_S6 (j * 167772160 + 2 * (b + x * 640) + c) = 2 * b + c"
    unfolding slot_bytes.simps slot_source.simps using assms(5,6) by blast+
qed

lemma sample_slot_dibas:
  assumes "j < 8" "x < 524288" "b < 128" "c < 2" "unat (ph_mcnt h) mod 131072 = x div 4"
  shows "slot_bytes SOURCE_DIBAS h (j * 134217728 + 2 * (b + x * 128) + c)"
    "slot_source SOURCE_DIBAS (j * 134217728 + 2 * (b + x * 128) + c) = x mod 4 * 2048 + j * 256 + 2 * b + c"
proof -
  define a where "a = j * 134217728 + 2 * (b + x * 128) + c"
  have a: "a = (j * 524288 + x) * 256 + (2 * b + c)" "2 * b + c < 256" using assms by (simp_all add: a_def)
  have q: "a div 256 = j * 524288 + x" "a mod 256 = 2 * b + c" using quot_rem [OF a] by blast+
  have d: "a div 134217728 = j" using q(1) assms(2) div_mult2_eq [of a 256 524288] by simp
  have m: "a div 256 mod 524288 = x" "a div 256 mod 4 = x mod 4" using q(1) assms(2) by (simp_all add: mod_add_eq [symmetric])
  show "slot_bytes SOURCE_DIBAS h (j * 134217728 + 2 * (b + x * 128) + c)"
    unfolding a_def [symmetric] using assms m d by simp
  show "slot_source SOURCE_DIBAS (j * 134217728 + 2 * (b + x * 128) + c) = x mod 4 * 2048 + j * 256 + 2 * b + c"
    unfolding a_def [symmetric] using q m d by simp
qed

text \<open>With all coarse channels in use the vector holds all the samples.\<close>

lemma group_elements_all:
  "s \<noteq> SOURCE_FAST \<Longrightarrow> n_cc = N_COARSE_CHAN s div N_SUBSPECTRA_PER_SPECTRUM s \<Longrightarrow> group_elements s n_cc = n_bytes_per_bors s div 2"
  by (cases s) (simp_all add: group_elements_def N_BYTES_PER_BEAM_def N_BYTES_PER_SUBSPECTRUM_def)

lemma unpack_complex_nth:
  "i < n div 2 \<Longrightarrow> unpack_complex (n div 2) n inp ! i = convert_complex_8b_to_float (inp (2 * i), inp (2 * i + 1))"
  by (simp add: unpack_complex_def Let_def)

lemma unpack_real_nth: "i < n \<Longrightarrow> unpack_real n inp ! i = convert_real_8b_to_float (inp i)"
  by (simp add: unpack_real_def)

definition block_ok :: "site \<Rightarrow> frame list \<Rightarrow> bool" where
  "block_ok s fs = (distinct_slots s fs \<and> list_all (\<lambda>f. udp_size f = full_size s \<and> valid_sid s f) fs)"

lemma block_byte:
  assumes "block_ok s fs" "f \<in> set fs" "ib_data ib = store_all s fs d" "slot_bytes s (get_header s f) a"
  shows "ib_data ib a = payload f (slot_source s a)"
  using store_all_slot [OF _ _ assms(2,4)] assms(1,3) by (simp add: block_ok_def)

lemma group_sample:
  assumes s: "s \<noteq> SOURCE_FAST" and ok: "block_ok s fs" "ib_data ib = store_all s fs d" and c: "carries s j fs pk"
    and j: "j < n_bors s" and b: "b < N_COARSE_CHAN s div N_SUBSPECTRA_PER_SPECTRUM s * N_POLS_PER_BEAM s"
    and x: "x < N_TIME_SAMPLES s"
  defines "i \<equiv> b + x * (N_COARSE_CHAN s div N_SUBSPECTRA_PER_SPECTRUM s * N_POLS_PER_BEAM s)"
  shows "i < n_bytes_per_bors s div 2 \<and>
    (\<forall>e < 2. group_input s ib j (2 * i + e) = payload (pk (x div N_SPECTRA_PER_PACKET s)) (sample_source s j x b + e))"
proof (cases s)
  case SOURCE_S6
  note v = assms(4-7) [unfolded SOURCE_S6]
  have f: "pk x \<in> set fs" "pkt_mcnt_of s (pk x) mod 131072 = x" "unat (ph_sid (get_header s (pk x))) = j"
    using c x by (simp_all add: carries_def SOURCE_S6 Nm_def)
  have "group_input s ib j (2 * i + e) = payload (pk x) (2 * b + e)" if e: "e < 2" for e
  proof -
    have jx: "j < 7" "x < 131072" "b < 640" using v by simp_all
    note L = sample_slot_s6 [OF jx e f(2,3) [unfolded pkt_mcnt_of_def]]
    have "ib_data ib (j * 167772160 + 2 * (b + x * 640) + e) = payload (pk x) (2 * b + e)"
      using block_byte [OF ok(1) f(1) ok(2), of "j * 167772160 + 2 * (b + x * 640) + e"] L unfolding SOURCE_S6 by metis
    then show ?thesis by (simp add: group_input_def i_def SOURCE_S6 N_BYTES_PER_BEAM_def add.assoc mult.commute)
  qed
  then show ?thesis using v by (simp add: i_def SOURCE_S6 N_BYTES_PER_BEAM_def)
next
  case SOURCE_DIBAS
  note v = assms(4-7) [unfolded SOURCE_DIBAS]
  have f: "pk (x div 4) \<in> set fs" "pkt_mcnt_of s (pk (x div 4)) mod 131072 = x div 4"
    using c x by (simp_all add: carries_def SOURCE_DIBAS Nm_def)
  have "group_input s ib j (2 * i + e) = payload (pk (x div 4)) (x mod 4 * 2048 + j * 256 + 2 * b + e)" if e: "e < 2" for e
  proof -
    have jx: "j < 8" "x < 524288" "b < 128" using v by simp_all
    note L = sample_slot_dibas [OF jx e f(2) [unfolded pkt_mcnt_of_def]]
    have "ib_data ib (j * 134217728 + 2 * (b + x * 128) + e) = payload (pk (x div 4)) (x mod 4 * 2048 + j * 256 + 2 * b + e)"
      using block_byte [OF ok(1) f(1) ok(2), of "j * 134217728 + 2 * (b + x * 128) + e"] L unfolding SOURCE_DIBAS by metis
    then show ?thesis by (simp add: group_input_def i_def SOURCE_DIBAS N_BYTES_PER_SUBSPECTRUM_def add.assoc mult.commute)
  qed
  then show ?thesis using v by (simp add: i_def SOURCE_DIBAS N_BYTES_PER_SUBSPECTRUM_def)
qed (use s in simp)

lemma planned_simps:
  assumes "init_gpu_memory s n_cc = Some cfg" "planned cfg = Inr p"
  shows "fp_ostride p = 1" "fp_odist p = N_TIME_SAMPLES s" "fp_idist p = 1" "fp_n p ! 0 = N_TIME_SAMPLES s"
    "fp_istride p = N_COARSE_CHAN s div N_SUBSPECTRA_PER_SPECTRUM s * (if s = SOURCE_FAST then 1 else N_POLS_PER_BEAM s)"
    "fp_batch p = n_cc * (if s = SOURCE_FAST then 1 else N_POLS_PER_BEAM s)"
  using assms by (auto simp: init_gpu_memory_def planned_def create_fft_plan_1d_def Let_def split: if_splits)

lemma series_channelized:
  assumes "s \<noteq> SOURCE_FAST" "block_ok s fs" "ib_data ib = store_all s fs d" "carries s j fs pk" "j < n_bors s"
    and "init_gpu_memory s n_cc = Some cfg" "planned cfg = Inr p"
    and "b < N_COARSE_CHAN s div N_SUBSPECTRA_PER_SPECTRUM s * N_POLS_PER_BEAM s"
  shows "fft_series p (unpack_complex (n_bytes_per_bors s div 2) (n_bytes_per_bors s) (group_input s ib j)) b = channel_series s pk j b"
proof -
  let ?i = "\<lambda>x. b + x * (N_COARSE_CHAN s div N_SUBSPECTRA_PER_SPECTRUM s * N_POLS_PER_BEAM s)"
  have "unpack_complex (n_bytes_per_bors s div 2) (n_bytes_per_bors s) (group_input s ib j) ! ?i x =
      (let f = payload (pk (x div N_SPECTRA_PER_PACKET s)); i = sample_source s j x b
              in convert_complex_8b_to_float (f i, f (i + 1)))" if "x < N_TIME_SAMPLES s" for x
  proof -
    note G = group_sample [OF assms(1-5,8) that]
    have "group_input s ib j (2 * ?i x + 0) = payload (pk (x div N_SPECTRA_PER_PACKET s)) (sample_source s j x b + 0)"
      "group_input s ib j (2 * ?i x + 1) = payload (pk (x div N_SPECTRA_PER_PACKET s)) (sample_source s j x b + 1)"
      by (rule G [THEN conjunct2, rule_format], simp)+
    then show ?thesis unfolding unpack_complex_nth [OF G [THEN conjunct1]] Let_def by (simp only: add_0_right)
  qed
  then show ?thesis
    unfolding fft_series_def channel_series_def planned_simps(3-5) [OF assms(6,7)] using assms(1) by (intro map_cong) auto
qed

lemma series_fast:
  assumes "block_ok SOURCE_FAST fs" "ib_data ib = store_all SOURCE_FAST fs d" "carries SOURCE_FAST 0 fs pk"
    and "init_gpu_memory SOURCE_FAST n_cc = Some cfg" "planned cfg = Inr p"
  shows "fft_series p (unpack_real (n_bytes_per_bors SOURCE_FAST) (group_input SOURCE_FAST ib 0)) 0 = voltage_series pk"
proof -
  have "unpack_real (n_bytes_per_bors SOURCE_FAST) (group_input SOURCE_FAST ib 0) ! x =
      convert_real_8b_to_float (payload (pk (x div 4096)) (x mod 4096))" if x: "x < N_TIME_SAMPLES SOURCE_FAST" for x
  proof -
    have "pk (x div 4096) \<in> set fs" "unat (ph_mcnt (get_header SOURCE_FAST (pk (x div 4096)))) mod 65536 = x div 4096"
      using assms(3) x by (simp_all add: carries_def Nm_def pkt_mcnt_of_def)
    with block_byte [OF assms(1) _ assms(2), of "pk (x div 4096)" x]
    have "ib_data ib x = payload (pk (x div 4096)) (x mod 4096)" by simp
    then show ?thesis using x by (simp add: unpack_real_nth group_input_def N_BYTES_PER_SUBSPECTRUM_def)
  qed
  then show ?thesis
    unfolding fft_series_def voltage_series_def planned_simps(3-5) [OF assms(4,5)] by (intro map_cong) auto
qed

definition series_transform ::
  "site \<Rightarrow> ((real \<times> real) list \<Rightarrow> (real \<times> real) list) \<Rightarrow> (real list \<Rightarrow> (real \<times> real) list) \<Rightarrow> (nat \<Rightarrow> frame) \<Rightarrow> nat \<Rightarrow> nat \<Rightarrow>
   (real \<times> real) list" where
  "series_transform s dft rdft pk j b =
     (if s = SOURCE_FAST then rdft (voltage_series pk) else dft (channel_series s pk j b))"

text \<open>A transform of \<open>n\<close> complex points has \<open>n\<close> points, one of \<open>n\<close> real points \<open>n / 2 + 1\<close>.\<close>

definition transforms :: "((real \<times> real) list \<Rightarrow> (real \<times> real) list) \<Rightarrow> (real list \<Rightarrow> (real \<times> real) list) \<Rightarrow> bool" where
  "transforms dft rdft = ((\<forall>xs. length (dft xs) = length xs) \<and> (\<forall>xs. length (rdft xs) = length xs div 2 + 1))"

definition series_count :: "site \<Rightarrow> nat \<Rightarrow> nat" where
  "series_count s n_cc = n_cc * (if s = SOURCE_FAST then 1 else N_POLS_PER_BEAM s)"

lemma powspec_nth:
  assumes "n \<le> length xs" "i < n"
  shows "compute_power_spectrum (fft_data_out n xs) (replicate n 0) ! i = (if i + 1 = n then 0 else compute_complex_power (xs ! i))"
proof -
  have f: "fft_data_out n xs = take n xs" using assms(1) by (simp add: fft_data_out_def)
  show ?thesis using assms by (auto simp: f compute_power_spectrum_def nth_append nth_butlast min_def)
qed

text \<open>A bin of the spectra of a group, from the series the plan reads.\<close>

lemma planned_out:
  assumes cfg: "init_gpu_memory s n_cc = Some cfg" "n_cc = N_COARSE_CHAN s div N_SUBSPECTRA_PER_SPECTRUM s" and p: "planned cfg = Inr p"
    and t: "transforms dft rdft" and b: "b < series_count s n_cc" and k: "k < N_FINE_CHAN s"
    and zs: "s \<noteq> SOURCE_FAST \<Longrightarrow> fft_series p (unpack_complex (n_bytes_per_bors s div 2) (n_bytes_per_bors s) (group_input s ib j)) b = zs"
    and vs: "s = SOURCE_FAST \<Longrightarrow> fft_series p (unpack_real (n_bytes_per_bors s) (group_input s ib j)) b = vs"
  shows "planned_fft dft rdft cfg (group_series s n_cc ib j) ! (b * N_TIME_SAMPLES s + k) = (if s = SOURCE_FAST then rdft vs else dft zs) ! k"
    "length (planned_fft dft rdft cfg (group_series s n_cc ib j)) = series_count s n_cc * N_TIME_SAMPLES s"
proof -
  note P = planned_simps [OF cfg(1) p]
  have n0: "0 < N_TIME_SAMPLES s" by (cases s) simp_all
  have bp: "b < fp_batch p" using b by (simp add: P series_count_def)
  have ls: "length (fft_series p xs b') = N_TIME_SAMPLES s" for xs :: "'x list" and b' by (simp add: fft_series_def P)
  let ?out = "replicate (fp_batch p * fp_odist p) (0 :: real, 0 :: real)"
  have "planned_fft dft rdft cfg (group_series s n_cc ib j) ! (b * N_TIME_SAMPLES s + k) = (if s = SOURCE_FAST then rdft vs else dft zs) ! k \<and>
    length (planned_fft dft rdft cfg (group_series s n_cc ib j)) = fp_batch p * fp_odist p"
  proof (cases "s = SOURCE_FAST")
    case False
    have "batched dft p (unpack_complex (n_bytes_per_bors s div 2) (n_bytes_per_bors s) (group_input s ib j)) ?out ! (b * fp_odist p + k) = dft zs ! k"
      unfolding zs [OF False, symmetric] using t n0 bp k False
      by (intro batched_nth) (cases s; simp_all add: P transforms_def ls)+
    then show ?thesis
      using False by (simp add: length_batched [OF P(1)] planned_fft_def p group_series_def group_elements_all [OF False cfg(2)] P)
  next
    case True
    have one: "b = 0" using b cfg(2) True by (simp add: series_count_def)
    have "batched rdft p (unpack_real (n_bytes_per_bors s) (group_input s ib j)) ?out ! (b * fp_odist p + k) = rdft vs ! k"
      unfolding vs [OF True, symmetric] True one using t n0 bp k True one
      by (intro batched_nth) (simp_all add: P transforms_def ls)
    then show ?thesis using True by (simp add: length_batched [OF P(1)] planned_fft_def p group_series_def P)
  qed
  then show "planned_fft dft rdft cfg (group_series s n_cc ib j) ! (b * N_TIME_SAMPLES s + k) = (if s = SOURCE_FAST then rdft vs else dft zs) ! k"
    "length (planned_fft dft rdft cfg (group_series s n_cc ib j)) = series_count s n_cc * N_TIME_SAMPLES s"
    by (simp_all add: P series_count_def)
qed

lemma group_powspec_bin:
  assumes "init_gpu_memory s n_cc = Some cfg" "n_cc = N_COARSE_CHAN s div N_SUBSPECTRA_PER_SPECTRUM s" "planned cfg = Inr p"
    and "transforms dft rdft" "b < series_count s n_cc" "k < N_FINE_CHAN s"
    and "s \<noteq> SOURCE_FAST \<Longrightarrow> fft_series p (unpack_complex (n_bytes_per_bors s div 2) (n_bytes_per_bors s) (group_input s ib j)) b = zs"
    and "s = SOURCE_FAST \<Longrightarrow> fft_series p (unpack_real (n_bytes_per_bors s) (group_input s ib j)) b = vs"
  shows "group_powspec s (planned_fft dft rdft) cfg n_cc ib j ! (b * N_FINE_CHAN s + k) =
    (if b * N_FINE_CHAN s + k + 1 = group_elements s n_cc then 0
     else compute_complex_power ((if s = SOURCE_FAST then rdft vs else dft zs) ! k))"
proof -
  have O: "planned_fft dft rdft cfg (group_series s n_cc ib j) ! (b * N_TIME_SAMPLES s + k) = (if s = SOURCE_FAST then rdft vs else dft zs) ! k"
    "length (planned_fft dft rdft cfg (group_series s n_cc ib j)) = series_count s n_cc * N_TIME_SAMPLES s"
    using planned_out [OF assms(1-6), of ib j zs vs] assms(7,8) by blast+
  have n: "group_elements s n_cc = series_count s n_cc * N_FINE_CHAN s"
    by (simp add: group_elements_def series_count_def)
  have le: "N_FINE_CHAN s \<le> N_TIME_SAMPLES s" by (cases s) simp_all
  have "(b + 1) * N_FINE_CHAN s \<le> series_count s n_cc * N_FINE_CHAN s" using assms(5) by (intro mult_le_mono1) simp
  then have i: "b * N_FINE_CHAN s + k < group_elements s n_cc" using assms(6) by (simp add: n)
  have pos: "b * N_FINE_CHAN s + k = b * N_TIME_SAMPLES s + k"
    using assms(2,5) by (cases s) (simp_all add: series_count_def)
  have "group_elements s n_cc \<le> length (planned_fft dft rdft cfg (group_series s n_cc ib j))"
    unfolding O(2) n by (rule mult_le_mono2 [OF le])
  from powspec_nth [OF this i] O(1) show ?thesis
    unfolding group_powspec_def Let_def pos by simp
qed

text \<open>C3: When the network thread has run over a sequence of ordinary packets, no two of them for
  the same slot, that carry every time step of a beam or subspectrum, the power at bin k of
  spectrum b that the GPU thread computes for it is that of the transform of the series of
  samples taken directly from the payloads; only the last element of the vector stays 0. All
  coarse channels are in use (with fewer the unpacking writes past its vector, as S6_GpuMem
  shows). The plan that the GPU thread makes, run on the documented layout of cuFFT, is part
  of the statement.\<close>
theorem packets_become_spectra:
  assumes inv: "net_inv s (rs_net rs)" and evs: "list_all (ordinary s (win_start s (rs_net rs))) evs"
    and slots: "distinct_slots s (map rx_frame evs)" and pk: "carries s j (map rx_frame evs) pk" and j: "j < n_bors s"
    and run: "\<not> exited (run_loop s e so evs rs)"
    and cfg: "init_gpu_memory s n_cc = Some cfg" "n_cc = N_COARSE_CHAN s div N_SUBSPECTRA_PER_SPECTRUM s"
    and t: "transforms dft rdft" and b: "b < series_count s n_cc" and k: "k < N_FINE_CHAN s"
  shows "group_powspec s (planned_fft dft rdft) cfg n_cc
      (n_blocks (rs_net (result_state (run_loop s e so evs rs))) ! win_block s (rs_net rs)) j !
      (b * N_FINE_CHAN s + k) =
    (if b * N_FINE_CHAN s + k + 1 = group_elements s n_cc then 0
     else compute_complex_power (series_transform s dft rdft pk j b ! k))"
proof -
  define ib where "ib = n_blocks (rs_net (result_state (run_loop s e so evs rs))) ! win_block s (rs_net rs)"
  have d: "ib_data ib = store_all s (map rx_frame evs) (ib_data (n_blocks (rs_net rs) ! win_block s (rs_net rs)))"
    using run_loop_stores [OF inv evs run] by (simp add: ib_def)
  have ok: "block_ok s (map rx_frame evs)"
    using slots evs by (auto simp: block_ok_def list_all_iff ordinary_def)
  obtain p where p: "planned cfg = Inr p" by (auto simp: planned_def create_fft_plan_1d_def Let_def)
  have zs: "fft_series p (unpack_complex (n_bytes_per_bors s div 2) (n_bytes_per_bors s) (group_input s ib j)) b = channel_series s pk j b"
    if "s \<noteq> SOURCE_FAST"
    using that b cfg(2) by (intro series_channelized [OF that ok d pk j cfg(1) p]) (simp add: series_count_def)
  have vs: "fft_series p (unpack_real (n_bytes_per_bors s) (group_input s ib j)) b = voltage_series pk" if "s = SOURCE_FAST"
  proof -
    have "b = 0" "j = 0" using b cfg(2) j that by (simp_all add: series_count_def)
    then show ?thesis
      using series_fast [OF ok [unfolded that] d [unfolded that] _ cfg(1) [unfolded that] p] pk that by simp
  qed
  show ?thesis
    unfolding ib_def [symmetric] series_transform_def by (rule group_powspec_bin [OF cfg p t b k zs vs])
qed

definition dibas_packet :: "nat \<Rightarrow> frame" where
  "dibas_packet t = wire_frame SOURCE_DIBAS (wire_word SOURCE_DIBAS (of_nat t) 0 0) (full_size SOURCE_DIBAS)"

lemma dibas_packet_simps:
  assumes "t < 131072"
  shows "udp_size (dibas_packet t) = full_size SOURCE_DIBAS" "pkt_mcnt_of SOURCE_DIBAS (dibas_packet t) = t"
    "valid_sid SOURCE_DIBAS (dibas_packet t)"
proof -
  have u: "unat (of_nat t :: u64) = t" using assms by (simp add: unat_of_nat_64)
  have h: "get_header SOURCE_DIBAS (dibas_packet t) = \<lparr>ph_mcnt = of_nat t, ph_pchan = 0 * 512, ph_nchan = header_nchan SOURCE_DIBAS 8216, ph_sid = 0\<rparr>"
    unfolding dibas_packet_def get_header_wire using assms u by (subst decode_dibas) simp_all
  show "udp_size (dibas_packet t) = full_size SOURCE_DIBAS" by (simp add: dibas_packet_def wire_frame_def)
  show "pkt_mcnt_of SOURCE_DIBAS (dibas_packet t) = t" "valid_sid SOURCE_DIBAS (dibas_packet t)"
    by (simp_all add: pkt_mcnt_of_def valid_sid_def h u)
qed

definition dibas_events :: "rx_event list" where
  "dibas_events = map (\<lambda>t. demo_event (dibas_packet t)) [0..<Nm SOURCE_DIBAS]"

lemma dibas_events_ok:
  "list_all (ordinary SOURCE_DIBAS 0) dibas_events" "distinct_slots SOURCE_DIBAS (map rx_frame dibas_events)"
  "carries SOURCE_DIBAS 0 (map rx_frame dibas_events) dibas_packet"
proof -
  have N: "Nm SOURCE_DIBAS = 131072" by (simp add: Nm_def)
  have f: "map rx_frame dibas_events = map dibas_packet [0..<Nm SOURCE_DIBAS]"
    by (simp add: dibas_events_def demo_event_def comp_def)
  show "list_all (ordinary SOURCE_DIBAS 0) dibas_events"
    by (simp add: dibas_events_def list_all_iff ordinary_def dibas_packet_simps N demo_event_def del: full_size.simps)
  show "distinct_slots SOURCE_DIBAS (map rx_frame dibas_events)"
    unfolding distinct_slots_def f sorted_wrt_map
    by (rule sorted_wrt_mono_rel [OF _ sorted_wrt_upt])
       (use dibas_packet_simps(2) in \<open>simp add: N pkt_mcnt_of_def\<close>)
  show "carries SOURCE_DIBAS 0 (map rx_frame dibas_events) dibas_packet"
    unfolding carries_def f by (simp add: dibas_packet_simps N del: upt_rec_numeral)
qed

theorem packets_become_spectra_witness:
  "group_powspec SOURCE_DIBAS (planned_fft (\<lambda>xs. xs) (\<lambda>xs. replicate (length xs div 2 + 1) (0, 0)))
     (the (init_gpu_memory SOURCE_DIBAS 64)) 64
     (n_blocks (rs_net (result_state (run_loop SOURCE_DIBAS recorder list_status dibas_events (run_init (demo_state SOURCE_DIBAS)))))
        ! 0) 0 ! (3 * N_FINE_CHAN SOURCE_DIBAS + 5) =
   compute_complex_power (channel_series SOURCE_DIBAS dibas_packet 0 3 ! 5)"
proof -
  have "init_gpu_memory SOURCE_DIBAS 64 = Some (the (init_gpu_memory SOURCE_DIBAS 64))" by (simp add: init_gpu_memory_def)
  note W = packets_become_spectra [OF _ _ dibas_events_ok(2,3) _ run_loop_recorder this, where rs = "run_init (demo_state SOURCE_DIBAS)"
      and b = 3 and k = 5 and dft = "\<lambda>xs. xs" and rdft = "\<lambda>xs. replicate (length xs div 2 + 1) (0, 0)"]
  show ?thesis
    using W [of list_status] dibas_events_ok(1)
    by (simp add: run_init_def transforms_def series_count_def group_elements_def series_transform_def)
qed

end
