(* ===== verification/S6_EndToEnd.thy ===== *)
theory S6_EndToEnd
  imports S6_Spectra S6_Pipeline_Props
begin

text \<open>
  From spectra to files: through the hit vectors of the GPU, the output ring and the column arrays of the
  ETFITS writer.
\<close>

subsection \<open>The hits of a spectrum and the table they belong in\<close>

definition spectrum_baseline :: "site \<Rightarrow> nat \<Rightarrow> real list \<Rightarrow> real list" where
  "spectrum_baseline s n_cc ps = compute_baseline (N_FINE_CHAN s) (group_elements s n_cc) (SMOOTH_SCALE s) ps"

definition spectrum_hits :: "site \<Rightarrow> gpu_config \<Rightarrow> nat \<Rightarrow> real list \<Rightarrow> nat list" where
  "spectrum_hits s gc n_cc ps =
     take (gc_maxhits gc)
       (filter (\<lambda>i. gc_power_thresh gc < normalize_power_spectrum ps (spectrum_baseline s n_cc ps) ! i) [0..<group_elements s n_cc])"

definition in_table :: "site \<Rightarrow> nat \<Rightarrow> nat \<Rightarrow> bool" where
  "in_table s input i \<longleftrightarrow>
     (if s = SOURCE_FAST then input = 0 else hit_pol s (N_POLS_PER_BEAM s) (i div N_FINE_CHAN s) = input) \<and> i mod N_FINE_CHAN s \<noteq> 0"

definition hit_table :: "site \<Rightarrow> gpu_config \<Rightarrow> nat \<Rightarrow> nat \<Rightarrow> nat \<Rightarrow> real list \<Rightarrow> hit_columns" where
  "hit_table s gc n_cc bors input ps =
     (let hs = filter (in_table s input) (spectrum_hits s gc n_cc ps)
      in \<lparr>hc_det_pow = map (\<lambda>i. ps ! i) hs,
          hc_mean_pow = map (\<lambda>i. spectrum_baseline s n_cc ps ! i) hs,
          hc_coarse_chan = map (\<lambda>i. int (hit_coarse_chan s bors (i div N_FINE_CHAN s))) hs,
          hc_fine_chan = map (\<lambda>i. int (i mod N_FINE_CHAN s)) hs\<rparr>)"

subsection \<open>What the GPU thread leaves in the row of a beam or subspectrum\<close>

definition row_written :: "site \<Rightarrow> gpu_config \<Rightarrow> nat \<Rightarrow> nat \<Rightarrow> real list \<Rightarrow> out_block \<Rightarrow> bool" where
  "row_written s gc n_cc j ps ob \<longleftrightarrow>
     (let hs = spectrum_hits s gc n_cc ps
      in unat (oh_nhits (ob_header ob) ! j) = length hs \<and>
         list_all (\<lambda>i. ob_power ob j i = ps ! (hs ! i) \<and> ob_baseline ob j i = spectrum_baseline s n_cc ps ! (hs ! i) \<and>
             ob_coarse_chan ob j i = hit_coarse_chan s j (hs ! i div N_FINE_CHAN s) \<and> ob_fine_chan ob j i = hs ! i mod N_FINE_CHAN s \<and>
             (s \<noteq> SOURCE_FAST \<longrightarrow> ob_pol ob j i = hit_pol s (N_POLS_PER_BEAM s) (hs ! i div N_FINE_CHAN s)))
           [0..<length hs])"

lemma process_bors_written:
  fixes ib :: in_block
  assumes "j < length (oh_nhits (ob_header (snd acc)))" "gc_maxhits gc < 2 ^ 64"
  shows "row_written s gc (unat num div N_SUBSPECTRA_PER_SPECTRUM s) j
    (group_powspec s cufft plan (unat num div N_SUBSPECTRA_PER_SPECTRUM s) ib j) (snd (process_bors s gc cufft plan num ib j acc))"
proof -
  define n_cc where "n_cc = unat num div N_SUBSPECTRA_PER_SPECTRUM s"
  define ps where "ps = group_powspec s cufft plan n_cc ib j"
  define hs where "hs = spectrum_hits s gc n_cc ps"
  define bl where "bl = spectrum_baseline s n_cc ps"
  have h: "find_hits (group_elements s n_cc) (gc_maxhits gc) (gc_power_thresh gc) (normalize_power_spectrum ps bl) ps bl =
      (length hs, \<lparr>h_indices = hs, h_powers = map (\<lambda>i. ps ! i) hs, h_baselines = map (\<lambda>i. bl ! i) hs\<rparr>)"
    by (auto simp: find_hits_def hs_def spectrum_hits_def bl_def Let_def min_def)
  have len: "length hs \<le> gc_maxhits gc" by (simp add: hs_def spectrum_hits_def)
  then have w: "unat (of_nat (length hs) :: u64) = length hs" using assms(2) by (intro unat_of_nat_64) simp
  have "\<exists>n_pol ob. snd (process_bors s gc cufft plan num ib j acc) = output_hits s (N_FINE_CHAN s) n_pol j (length hs)
      \<lparr>h_indices = hs, h_powers = map (\<lambda>i. ps ! i) hs, h_baselines = map (\<lambda>i. bl ! i) hs\<rparr> ob \<and>
      ob_header ob = ob_header (snd acc) \<and> (s \<noteq> SOURCE_FAST \<longrightarrow> n_pol = N_POLS_PER_BEAM s)"
    using len
    by (simp add: process_bors_powspec n_cc_def [symmetric] ps_def [symmetric] detect_hits_def spectrum_baseline_def [symmetric]
        bl_def [symmetric] h Let_def reduce_coarse_channels_def) (fastforce simp: reduce_coarse_channels_def Let_def)
  then obtain n_pol ob where ob: "snd (process_bors s gc cufft plan num ib j acc) = output_hits s (N_FINE_CHAN s) n_pol j (length hs)
      \<lparr>h_indices = hs, h_powers = map (\<lambda>i. ps ! i) hs, h_baselines = map (\<lambda>i. bl ! i) hs\<rparr> ob"
    "ob_header ob = ob_header (snd acc)" "s \<noteq> SOURCE_FAST \<Longrightarrow> n_pol = N_POLS_PER_BEAM s" by blast
  show ?thesis
    using assms(1) ob(3)
    by (auto simp: row_written_def n_cc_def [symmetric] ps_def [symmetric] hs_def [symmetric] bl_def [symmetric] ob(1,2) Let_def
        output_hits_def copy_row_def w list_all_iff)
qed

lemma process_bors_other:
  fixes s gc cufft plan num j k and ib :: in_block and acc :: "nat \<times> out_block"
  assumes "j \<noteq> k"
  defines "ob' \<equiv> snd (process_bors s gc cufft plan num ib k acc)"
  shows "oh_nhits (ob_header ob') ! j = oh_nhits (ob_header (snd acc)) ! j" "ob_power ob' j = ob_power (snd acc) j"
    "ob_baseline ob' j = ob_baseline (snd acc) j" "ob_pol ob' j = ob_pol (snd acc) j"
    "ob_coarse_chan ob' j = ob_coarse_chan (snd acc) j" "ob_fine_chan ob' j = ob_fine_chan (snd acc) j"
  using assms(1)
  by (simp_all add: ob'_def process_bors_powspec detect_hits_def output_hits_def reduce_coarse_channels_def copy_row_def Let_def
      split_def fun_eq_iff)

lemma process_bors_length:
  "length (oh_nhits (ob_header (snd (process_bors s gc cufft plan num ib k acc)))) = length (oh_nhits (ob_header (snd acc)))"
  by (simp add: process_bors_powspec detect_hits_def output_hits_def reduce_coarse_channels_def Let_def split_def)

lemma row_written_cong:
  assumes "oh_nhits (ob_header ob') ! j = oh_nhits (ob_header ob) ! j" "ob_power ob' j = ob_power ob j"
    "ob_baseline ob' j = ob_baseline ob j" "ob_pol ob' j = ob_pol ob j" "ob_coarse_chan ob' j = ob_coarse_chan ob j"
    "ob_fine_chan ob' j = ob_fine_chan ob j"
  shows "row_written s gc n_cc j ps ob' = row_written s gc n_cc j ps ob"
  using assms by (simp add: row_written_def)

lemma process_fold_written:
  fixes ib :: in_block
  assumes "j < n" "n \<le> length (oh_nhits (ob_header (snd acc)))" "gc_maxhits gc < 2 ^ 64"
  shows "row_written s gc (unat num div N_SUBSPECTRA_PER_SPECTRUM s) j
    (group_powspec s cufft plan (unat num div N_SUBSPECTRA_PER_SPECTRUM s) ib j)
    (snd (fold (process_bors s gc cufft plan num ib) [0..<n] acc))"
  using assms(1,2)
proof (induction n)
  case (Suc n)
  define acc' where "acc' = fold (process_bors s gc cufft plan num ib) [0..<n] acc"
  have len: "length (oh_nhits (ob_header (snd acc'))) = length (oh_nhits (ob_header (snd acc)))"
  proof -
    have "length (oh_nhits (ob_header (snd (fold (process_bors s gc cufft plan num ib) js acc)))) = length (oh_nhits (ob_header (snd acc)))" for js
      by (induction js arbitrary: acc) (simp_all add: process_bors_length)
    then show ?thesis by (simp add: acc'_def)
  qed
  have f: "fold (process_bors s gc cufft plan num ib) [0..<Suc n] acc = process_bors s gc cufft plan num ib n acc'"
    by (simp add: acc'_def)
  show ?case
  proof (cases "j = n")
    case True
    then show ?thesis unfolding f using process_bors_written [of n acc' gc] len Suc.prems(2) assms(3) by simp
  next
    case False
    then have "row_written s gc (unat num div N_SUBSPECTRA_PER_SPECTRUM s) j
        (group_powspec s cufft plan (unat num div N_SUBSPECTRA_PER_SPECTRUM s) ib j) (snd acc')"
      using Suc unfolding acc'_def by simp
    then show ?thesis unfolding f by (subst row_written_cong [OF process_bors_other [OF False]])
  qed
qed simp

subsection \<open>What the ETFITS writer makes of it\<close>

lemma map_filter_nth: "map (\<lambda>i. f (xs ! i)) (filter (\<lambda>i. P (xs ! i)) [0..<length xs]) = map f (filter P xs)"
proof -
  have "map f (filter P (map (nth xs) [0..<length xs])) = map (\<lambda>i. f (xs ! i)) (filter (\<lambda>i. P (xs ! i)) [0..<length xs])"
    by (simp add: filter_map comp_def)
  then show ?thesis by (simp add: map_nth)
qed

lemma written_row_collected:
  assumes "row_written s gc n_cc bors ps ob" "gc_maxhits gc \<le> MAXHITS"
  shows "collect_hits s ob bors input [0..<unat (oh_nhits (ob_header ob) ! bors)] (0, no_hits) =
    Some (length (filter (in_table s input) (spectrum_hits s gc n_cc ps)), hit_table s gc n_cc bors input ps)"
proof -
  define hs where "hs = spectrum_hits s gc n_cc ps"
  have n: "unat (oh_nhits (ob_header ob) ! bors) = length hs" using assms by (simp add: row_written_def hs_def Let_def)
  have w: "ob_power ob bors i = ps ! (hs ! i)" "ob_baseline ob bors i = spectrum_baseline s n_cc ps ! (hs ! i)"
    "ob_coarse_chan ob bors i = hit_coarse_chan s bors (hs ! i div N_FINE_CHAN s)" "ob_fine_chan ob bors i = hs ! i mod N_FINE_CHAN s"
    "s \<noteq> SOURCE_FAST \<Longrightarrow> ob_pol ob bors i = hit_pol s (N_POLS_PER_BEAM s) (hs ! i div N_FINE_CHAN s)" if "i < length hs" for i
    using assms that by (auto simp: row_written_def hs_def [symmetric] Let_def list_all_iff)
  define sel where "sel = filter (\<lambda>i. in_table s input (hs ! i)) [0..<length hs]"
  have sel: "selected s ob bors input = sel"
    unfolding selected_def sel_def n using w(4,5) by (intro filter_cong) (auto simp: in_table_def)
  have m: "map g sel = map f (filter (in_table s input) hs)" if "\<And>i. i < length hs \<Longrightarrow> g i = f (hs ! i)" for g :: "nat \<Rightarrow> 'a" and f
    using that unfolding map_filter_nth [of f hs, symmetric] sel_def by (intro map_cong) auto
  have l: "length sel = length (filter (in_table s input) hs)" using arg_cong [OF m [of "\<lambda>i. ()" "\<lambda>i. ()"], of length] by simp
  have "length (filter (in_table s input) hs) \<le> MAXHITS"
    using assms(2) by (intro order_trans [OF length_filter_le]) (simp add: hs_def spectrum_hits_def)
  then show ?thesis using l
    unfolding collect_hits_selected sel columns_of_def hit_table_def Let_def hs_def [symmetric]
    using w by (auto intro!: m)
qed

lemma n_bors_N_BORS: "n_bors s = N_BORS s"
  by (cases s) simp_all

lemma gpu_item_written:
  assumes "well_sized s (ib, plan, num, pad)" "num \<noteq> 0" "gc_maxhits gc < 2 ^ 64" "bors < N_BORS s"
  shows "row_written s gc (unat num div N_SUBSPECTRA_PER_SPECTRUM s) bors
    (group_powspec s cufft plan (unat num div N_SUBSPECTRA_PER_SPECTRUM s) ib bors)
    (gpu_item s gc cufft (ib, plan, num, pad) (zero_out_block s))"
proof -
  have "length (oh_nhits (pass_metadata s pad (ib_header ib) (ob_header (zero_out_block s)))) = N_BORS s"
    using assms(1) by (cases s) (simp_all add: pass_metadata_def copy_missed_pkts_def zero_out_block_def well_sized_def)
  then show ?thesis
    using assms unfolding gpu_item_def gpu_block_def process_block_def Let_def prod.case
    by (simp add: n_bors_N_BORS) (intro process_fold_written, simp_all)
qed

text \<open>C4: In every run of the three threads the column arrays that the ETFITS writer fills for a
  table from the k-th block it takes hold exactly this: of the bins over threshold in the
  power spectrum of that beam or subspectrum, as the network thread's k-th block gives it, the
  lowest maxhits, and of those the ones of the table's polarisation outside the DC bin, with
  their powers, baselines and channels. The block's arrays have the sizes of the source, all
  coarse channels are in use, and maxhits is at most MAXHITS; the arrays are then never
  overrun.\<close>
theorem spectra_reach_files:
  assumes "pipe_run s (gpu_item s gc cufft) (zero_out_block s) (pipe_start ins (zero_out_block s)) ls p"
    and "k < length (p_consumed p)" "p_produced p ! k = (ib, plan, num, padding)" "well_sized s (ib, plan, num, padding)"
    and "gc_maxhits gc \<le> MAXHITS" "bors < N_BORS s"
  defines "n_cc \<equiv> unat num div N_SUBSPECTRA_PER_SPECTRUM s"
  assumes "n_cc = N_COARSE_CHAN s div N_SUBSPECTRA_PER_SPECTRUM s"
  defines "ps \<equiv> group_powspec s cufft plan n_cc ib bors"
  shows "collect_hits s (p_consumed p ! k) bors input [0..<unat (oh_nhits (ob_header (p_consumed p ! k)) ! bors)] (0, no_hits) =
      Some (length (filter (in_table s input) (spectrum_hits s gc n_cc ps)), hit_table s gc n_cc bors input ps)"
proof -
  have c: "p_consumed p = map (\<lambda>item. gpu_item s gc cufft item (zero_out_block s)) (take (length (p_consumed p)) (p_produced p))"
    by (rule consumed_are_items [OF assms(1)])
  have l: "k < length (p_produced p)" using arg_cong [OF c, of length] assms(2) by simp
  have "num \<noteq> 0" using assms(8) by (cases s) (auto simp: n_cc_def)
  moreover have "gc_maxhits gc < 2 ^ 64" using assms(5) by (simp add: MAXHITS_def)
  ultimately have "row_written s gc n_cc bors ps (gpu_item s gc cufft (ib, plan, num, padding) (zero_out_block s))"
    using gpu_item_written [OF assms(4)] assms(6) by (simp add: n_cc_def ps_def)
  moreover have "p_consumed p ! k = gpu_item s gc cufft (ib, plan, num, padding) (zero_out_block s)"
    using assms(2,3) l by (subst c) simp
  ultimately show ?thesis using written_row_collected assms(5) by simp
qed

theorem spectra_reach_files_witness:
  "\<exists>p :: (in_item, out_block) pipe. length (p_consumed p) = 1 \<and>
     (let ps = group_powspec SOURCE_FAST (\<lambda>c d. []) (default_cufft SOURCE_FAST) 1 (fst (demo_item 5)) 0
      in collect_hits SOURCE_FAST (p_consumed p ! 0) 0 0 [0..<unat (oh_nhits (ob_header (p_consumed p ! 0)) ! 0)] (0, no_hits) =
         Some (length (filter (in_table SOURCE_FAST 0) (spectrum_hits SOURCE_FAST demo_gpu_config 1 ps)),
               hit_table SOURCE_FAST demo_gpu_config 1 0 0 ps))"
proof -
  obtain p where p:
    "pipe_run SOURCE_FAST (gpu_item SOURCE_FAST demo_gpu_config (\<lambda>c d. [])) (zero_out_block SOURCE_FAST)
      (pipe_start (\<lambda>i. demo_item 0) (zero_out_block SOURCE_FAST)) item_schedule p"
    "p_produced p = [demo_item 5]"
    "p_consumed p = [gpu_item SOURCE_FAST demo_gpu_config (\<lambda>c d. []) (demo_item 5) (zero_out_block SOURCE_FAST)]"
    by (rule item_run)
  have d: "p_produced p ! 0 = (fst (demo_item 5), default_cufft SOURCE_FAST, 1, 0)"
    by (simp add: p(2) demo_item_def)
  have w: "well_sized SOURCE_FAST (fst (demo_item 5), default_cufft SOURCE_FAST, 1, 0)"
    using demo_item_ok(1) [of 5] by (simp add: demo_item_def)
  have g: "gc_maxhits demo_gpu_config \<le> MAXHITS" by (simp add: demo_gpu_config_def MAXHITS_def)
  have k: "0 < length (p_consumed p)" "0 < N_BORS SOURCE_FAST" by (simp_all add: p(3))
  have n: "unat (1 :: u64) div N_SUBSPECTRA_PER_SPECTRUM SOURCE_FAST = N_COARSE_CHAN SOURCE_FAST div N_SUBSPECTRA_PER_SPECTRUM SOURCE_FAST"
    by simp
  note c = spectra_reach_files [OF p(1) k(1) d w g k(2) n, of 0]
  have "length (p_consumed p) = 1" by (simp add: p(3))
  then show ?thesis using c unfolding Let_def by (intro exI [of _ p] conjI) simp_all
qed

end
