(* ===== verification/S6_LogRms.thy ===== *)
theory S6_LogRms
  imports S6_Spectra
begin

text \<open>
  \<open>log_rms\<close> of \<open>s6_pktsock_thread.cpp\<close>, the mean voltage of a coarse channel in the block just completed
  (compiled with \<open>LOG_RMS\<close>), against the series that the FFT of that channel reads.
\<close>

text \<open>The channel comes from the status buffer and is not checked; here it is not negative.\<close>

definition log_rms :: "site \<Rightarrow> store \<Rightarrow> nat \<Rightarrow> real \<times> real" where
  "log_rms s data coarse_chan =
     (let per = N_COARSE_CHAN s div N_SUBSPECTRA_PER_SPECTRUM s;
          coarse_chan_p = coarse_chan div per * N_FINE_CHAN s * per * N_POLS_PER_BEAM s * N_BYTES_PER_SAMPLE s
                          + coarse_chan mod per * N_POLS_PER_BEAM s * N_BYTES_PER_SAMPLE s;
          step = per * N_POLS_PER_BEAM s * N_BYTES_PER_SAMPLE s;
          sample = (\<lambda>p. sint (data p));
          sum_p0 = sum_list (map (\<lambda>i. sample (coarse_chan_p + i * step) * sample (coarse_chan_p + i * step)) [0..<N_FINE_CHAN s]);
          sum_p1 = sum_list (map (\<lambda>i. sample (coarse_chan_p + i * step + 2) * sample (coarse_chan_p + i * step + 2)) [0..<N_FINE_CHAN s])
      in (sqrt (of_int sum_p0 / real (N_FINE_CHAN s)), sqrt (of_int sum_p1 / real (N_FINE_CHAN s))))"

definition real_rms :: "(real \<times> real) list \<Rightarrow> real" where
  "real_rms xs = sqrt (sum_list (map (\<lambda>z. fst z * fst z) xs) / real (length xs))"

lemma log_rms_byte:
  fixes ib :: in_block
  assumes s: "s \<noteq> SOURCE_FAST" and ok: "block_ok s fs" "ib_data ib = store_all s fs d"
    and cc: "cc < N_COARSE_CHAN s" and c: "carries s (cc div (N_COARSE_CHAN s div N_SUBSPECTRA_PER_SPECTRUM s)) fs pk"
    and x: "x < N_TIME_SAMPLES s" and p: "p < 2"
  defines "per \<equiv> N_COARSE_CHAN s div N_SUBSPECTRA_PER_SPECTRUM s"
  shows "ib_data ib (cc div per * N_FINE_CHAN s * per * N_POLS_PER_BEAM s * N_BYTES_PER_SAMPLE s
      + cc mod per * N_POLS_PER_BEAM s * N_BYTES_PER_SAMPLE s + x * (per * N_POLS_PER_BEAM s * N_BYTES_PER_SAMPLE s) + 2 * p) =
    payload (pk (x div N_SPECTRA_PER_PACKET s)) (sample_source s (cc div per) x (2 * (cc mod per) + p))"
proof -
  have b: "2 * (cc mod per) + p < per * N_POLS_PER_BEAM s" and j: "cc div per < n_bors s"
    using s cc p by (cases s; simp add: per_def less_mult_imp_div_less)+
  note G = group_sample [OF s ok c [folded per_def] j b [unfolded per_def] x, THEN conjunct2, rule_format, of 0]
  have "group_input s ib (cc div per) (2 * (2 * (cc mod per) + p + x * (per * N_POLS_PER_BEAM s)) + 0) =
      ib_data ib (cc div per * N_FINE_CHAN s * per * N_POLS_PER_BEAM s * N_BYTES_PER_SAMPLE s
      + cc mod per * N_POLS_PER_BEAM s * N_BYTES_PER_SAMPLE s + x * (per * N_POLS_PER_BEAM s * N_BYTES_PER_SAMPLE s) + 2 * p)"
    using s cc by (cases s) (simp_all add: group_input_def per_def N_BYTES_PER_BEAM_def N_BYTES_PER_SUBSPECTRUM_def algebra_simps)
  with G [folded per_def] show ?thesis by simp
qed

theorem log_rms_reads_channel:
  fixes ib :: in_block
  assumes s: "s \<noteq> SOURCE_FAST" and ok: "block_ok s fs" "ib_data ib = store_all s fs d"
    and cc: "cc < N_COARSE_CHAN s" and c: "carries s (cc div (N_COARSE_CHAN s div N_SUBSPECTRA_PER_SPECTRUM s)) fs pk"
  defines "per \<equiv> N_COARSE_CHAN s div N_SUBSPECTRA_PER_SPECTRUM s"
  shows "log_rms s (ib_data ib) cc =
    (real_rms (channel_series s pk (cc div per) (2 * (cc mod per))), real_rms (channel_series s pk (cc div per) (2 * (cc mod per) + 1)))"
proof -
  have n: "N_FINE_CHAN s = N_TIME_SAMPLES s" using s by (cases s) simp_all
  note B = log_rms_byte [OF s ok cc c, folded per_def]
  have "sum_list (map (\<lambda>z. fst z * fst z) (channel_series s pk (cc div per) (2 * (cc mod per) + p))) =
      of_int (sum_list (map (\<lambda>x. sint (ib_data ib (cc div per * N_FINE_CHAN s * per * N_POLS_PER_BEAM s * N_BYTES_PER_SAMPLE s
        + cc mod per * N_POLS_PER_BEAM s * N_BYTES_PER_SAMPLE s + x * (per * N_POLS_PER_BEAM s * N_BYTES_PER_SAMPLE s) + 2 * p))
        * sint (ib_data ib (cc div per * N_FINE_CHAN s * per * N_POLS_PER_BEAM s * N_BYTES_PER_SAMPLE s
        + cc mod per * N_POLS_PER_BEAM s * N_BYTES_PER_SAMPLE s + x * (per * N_POLS_PER_BEAM s * N_BYTES_PER_SAMPLE s) + 2 * p)))
        [0..<N_TIME_SAMPLES s]))" if p: "p < 2" for p
    unfolding channel_series_def map_map comp_def Let_def convert_complex_8b_to_float_def
    unfolding sum_list_of_int [symmetric] map_map comp_def
    by (rule arg_cong [of _ _ sum_list], rule map_cong [OF refl]) (use B p in auto)
  from this [of 0] this [of 1] show ?thesis
    by (simp add: log_rms_def Let_def real_rms_def per_def [symmetric] n channel_series_def)
qed

theorem log_rms_reads_channel_witness:
  "log_rms SOURCE_DIBAS (store_all SOURCE_DIBAS (map rx_frame dibas_events) (\<lambda>a. 0)) 5 =
     (real_rms (channel_series SOURCE_DIBAS dibas_packet 0 10), real_rms (channel_series SOURCE_DIBAS dibas_packet 0 11))"
proof -
  have "block_ok SOURCE_DIBAS (map rx_frame dibas_events)"
    using dibas_events_ok(1,2) by (auto simp: block_ok_def list_all_iff ordinary_def)
  from log_rms_reads_channel [OF _ this, of "(n_blocks (demo_state SOURCE_DIBAS) ! 0)\<lparr>ib_data := store_all SOURCE_DIBAS (map rx_frame dibas_events) (\<lambda>a. 0)\<rparr>"
      "\<lambda>a. 0" 5 dibas_packet] dibas_events_ok(3)
  show ?thesis by simp
qed

end
