(* ===== verification/S6_NullPkt.thy ===== *)
theory S6_NullPkt
  imports S6_Net_Equiv
begin

text \<open>
  \<open>process_packet\<close> of \<open>s6_net_null_thread.cpp\<close> and its helpers.  \<open>run\<close> of that file does not call it
  (the call is compiled out); it handles packets like the packet-socket thread at Arecibo,
  counts of missed packets in the status buffer included.
\<close>

subsection \<open>Blocks\<close>

definition null_Nm :: nat where "null_Nm = N_FINE_CHAN SOURCE_S6"
definition null_packets_per_block :: u32 where "null_packets_per_block = of_nat (null_Nm * N_BEAMS SOURCE_S6)"
definition null_max_out_of_seq :: int where "null_max_out_of_seq = 2 * int (N_BEAMS SOURCE_S6)"
definition null_late_threshold :: nat where "null_late_threshold = 2 * null_Nm * N_INPUT_BLOCKS SOURCE_S6"

abbreviation Nmn :: u64 where "Nmn \<equiv> of_nat null_Nm"

definition null_block_for_mcnt :: "u64 \<Rightarrow> nat" where
  "null_block_for_mcnt mcnt = unat ((mcnt div Nmn) mod of_nat (N_INPUT_BLOCKS SOURCE_S6))"

definition null_get_header :: "udp_packet \<Rightarrow> packet_header" where
  "null_get_header p =
     (let raw_header = load_be64 (\<lambda>i. up_data p (8 + i))
      in \<lparr>ph_mcnt = drop_bit 16 raw_header,
          ph_pchan = drop_bit 4 raw_header AND 0x0000000000000FFF,
          ph_nchan = of_int ((up_size p - 2 * 8) sdiv 4),
          ph_sid = raw_header AND 0x000000000000000F\<rparr>)"

definition null_set_block_filled ::
  "'q hashpipe_ops \<Rightarrow> 's status_ops \<Rightarrow> ('q, 's) net_state \<Rightarrow> ('q, 's) net_state \<times> u64 option" where
  "null_set_block_filled e so st =
     (let binfo = n_binfo st;
          block_i = null_block_for_mcnt (bi_mcnt_start binfo);
          last_filled = (n_last_filled st + 1) mod int (N_INPUT_BLOCKS SOURCE_S6);
          st = st\<lparr>n_last_filled := last_filled\<rparr>;
          st = (if last_filled \<noteq> int block_i then warn (Fill_order block_i last_filled) st else st);
          st = (if block_i \<noteq> bi_block_i binfo then warn (Block_mismatch block_i (bi_block_i binfo)) st else st);
          (rv, sem) = s6_input_databuf_set_filled e (n_sem st) block_i;
          st = st\<lparr>n_sem := sem\<rparr>
      in if rv \<noteq> HASHPIPE_OK then (st, None)
         else
           (let block_missed_pkt_cnt = null_packets_per_block - bi_block_packet_counter binfo ! block_i;
                block_missed_beams = block_missed_pkt_cnt div of_nat null_Nm;
                block_missed_mod_cnt = block_missed_pkt_cnt mod of_nat null_Nm;
                buf = n_status st;
                buf = hput so buf ''NETBKOUT'' (U4 (of_nat block_i));
                buf = hput so buf ''MISSEDBM'' (U4 block_missed_beams);
                buf = (if block_missed_mod_cnt \<noteq> 0
                       then (let missed_pkt_cnt =
                                   (case hgetu4 so buf ''MISSEDPK'' of Some v \<Rightarrow> v | None \<Rightarrow> 0)
                                   + block_missed_mod_cnt
                             in hput so buf ''MISSEDPK'' (U4 missed_pkt_cnt))
                       else buf);
                buf = hput so buf ''SCHAN'' (I4 (ucast (bi_pchan binfo)));
                buf = hput so buf ''NCHAN'' (I4 (ucast (bi_nchan binfo)))
            in (st\<lparr>n_status := buf\<rparr>, Some (bi_mcnt_start binfo))))"

definition null_calc_block_indexes ::
  "packet_header \<Rightarrow> ('q, 's) net_state \<Rightarrow> ('q, 's) net_state \<times> bool" where
  "null_calc_block_indexes h st =
     (if of_nat (N_BEAMS SOURCE_S6) \<le> ph_sid h then (warn (Bad_sid (ph_sid h)) st, False)
      else
        (let b = n_binfo st;
             b = (if bi_nchan b = 0 then b\<lparr>bi_nchan := ph_nchan h, bi_pchan := ph_pchan h\<rparr> else b);
             st = st\<lparr>n_binfo := b\<rparr>;
             st = (if ph_pchan h \<noteq> bi_pchan b then warn (Pchan_changed (ph_pchan h) (bi_pchan b)) st else st);
             st = (if ph_nchan h \<noteq> bi_nchan b then warn (Nchan_changed (ph_nchan h) (bi_nchan b)) st else st)
         in (st, True)))"

text \<open>As in \<open>s6_net_thread.cpp\<close>, the loop writes one element beyond \<open>missed_pkts\<close>, into the padding.\<close>

definition null_initialize_block :: "u64 \<Rightarrow> u64 \<Rightarrow> u64 \<Rightarrow> in_block list \<Rightarrow> in_block list" where
  "null_initialize_block mcnt pchan nchan bs =
     (let block_i = null_block_for_mcnt mcnt
      in set_header block_i
           (\<lambda>h. h\<lparr>ih_missed_pkts := take (N_BORS SOURCE_S6)
                    (map (\<lambda>i. if i < N_BEAMS SOURCE_S6 then Nmn else 0) [0..<N_BEAM_SLOTS SOURCE_S6]),
                  ih_mcnt := mcnt - (mcnt mod Nmn),
                  ih_coarse_chan_id := pchan,
                  ih_num_coarse_chan := nchan\<rparr>) bs)"

definition null_initialize_block_info :: "block_info \<Rightarrow> block_info" where
  "null_initialize_block_info binfo =
     (if bi_initialized binfo then binfo
      else \<lparr>bi_initialized = True, bi_pchan = 0, bi_nchan = 0, bi_mcnt_start = 0, bi_mcnt_log_late = Nmn,
            bi_out_of_seq_cnt = 0, bi_block_i = 0, bi_block_packet_counter = replicate (N_INPUT_BLOCKS SOURCE_S6) 0\<rparr>)"

subsection \<open>Packets\<close>

definition null_dest :: "u64 \<Rightarrow> u64 \<Rightarrow> u64" where
  "null_dest sid pkt_mcnt = (sid * Nmn + pkt_mcnt mod Nmn) * of_nat (N_COARSE_CHAN SOURCE_S6) * 4 div 8"

definition null_copy_len :: "int \<Rightarrow> nat" where
  "null_copy_len packet_size = unat (of_int (packet_size - 8 - 8) :: u64)"

definition null_warn_missed :: "('q, 's) net_state \<Rightarrow> ('q, 's) net_state" where
  "null_warn_missed st =
     (let missed = ih_missed_pkts (ib_header (n_blocks st ! bi_block_i (n_binfo st)))
      in fold (\<lambda>i st. if missed ! i \<noteq> 0 then warn (Missed_packets (missed ! i) i) st else st) [0..<N_BEAMS SOURCE_S6] st)"

definition null_finish_block ::
  "'q hashpipe_ops \<Rightarrow> 's status_ops \<Rightarrow> packet_header \<Rightarrow> ('q, 's) net_state \<Rightarrow> ('q, 's) net_state \<times> u64 option" where
  "null_finish_block e so h st =
     (case null_set_block_filled e so (null_warn_missed st) of
        (st, None) \<Rightarrow> (st, None)
      | (st, Some netmcnt) \<Rightarrow>
          (let b = n_binfo st;
               b = b\<lparr>bi_mcnt_start := bi_mcnt_start b + Nmn,
                     bi_block_i := (bi_block_i b + 1) mod N_INPUT_BLOCKS SOURCE_S6,
                     bi_pchan := 0,
                     bi_nchan := 0\<rparr>;
               st = st\<lparr>n_binfo := b\<rparr>;
               new_block_i = (bi_block_i b + 1) mod N_INPUT_BLOCKS SOURCE_S6;
               (rv, sem) = s6_input_databuf_busywait_free e (n_sem st) new_block_i;
               st = st\<lparr>n_sem := sem\<rparr>
           in if rv \<noteq> HASHPIPE_OK then (st, None)
              else
                (st\<lparr>n_blocks := null_initialize_block (ph_mcnt h + Nmn) (ph_pchan h) (ph_nchan h) (n_blocks st),
                    n_binfo := b\<lparr>bi_block_packet_counter := (bi_block_packet_counter b)[new_block_i := 0]\<rparr>\<rparr>,
                 Some netmcnt)))"

definition null_accept_packet ::
  "packet_header \<Rightarrow> udp_packet \<Rightarrow> u64 \<Rightarrow> ('q, 's) net_state \<Rightarrow> ('q, 's) net_state \<times> u64" where
  "null_accept_packet h p netmcnt st =
     (let pkt_block_i = null_block_for_mcnt (ph_mcnt h);
          b = n_binfo st;
          b = b\<lparr>bi_out_of_seq_cnt := 0\<rparr>;
          b = b\<lparr>bi_block_packet_counter :=
                  (bi_block_packet_counter b)[pkt_block_i := bi_block_packet_counter b ! pkt_block_i + 1]\<rparr>;
          st = st\<lparr>n_binfo := b\<rparr>;
          (st, ok) = null_calc_block_indexes h st
      in if \<not> ok then (st, - 1)
         else
           (let k = unat (ph_sid h);
                bs = set_header pkt_block_i
                       (\<lambda>hd. hd\<lparr>ih_missed_pkts := (ih_missed_pkts hd)[k := ih_missed_pkts hd ! k - 1]\<rparr>)
                       (n_blocks st);
                bs = set_data pkt_block_i
                       (\<lambda>d. s6_memcpy_at d (8 * unat (null_dest (ph_sid h) (ph_mcnt h))) (\<lambda>i. up_data p (8 + 8 + i))
                              (null_copy_len (up_size p))) bs
            in (st\<lparr>n_blocks := bs\<rparr>, netmcnt)))"

definition null_ignore_late :: "packet_header \<Rightarrow> ('q, 's) net_state \<Rightarrow> ('q, 's) net_state" where
  "null_ignore_late h st =
     (let cur_mcnt = bi_mcnt_start (n_binfo st)
      in if bi_mcnt_log_late (n_binfo st) \<le> cur_mcnt then warn (Late_packet (cur_mcnt - ph_mcnt h)) st else st)"

definition null_reset_window :: "packet_header \<Rightarrow> ('q, 's) net_state \<Rightarrow> ('q, 's) net_state" where
  "null_reset_window h st =
     (let b = n_binfo st;
          pkt_block_i = null_block_for_mcnt (ph_mcnt h);
          pkt_mcnt =
            (if pkt_block_i < bi_block_i b then ph_mcnt h + Nmn * of_nat (bi_block_i b - pkt_block_i)
             else if bi_block_i b < pkt_block_i
             then ph_mcnt h + Nmn * of_nat (bi_block_i b + N_INPUT_BLOCKS SOURCE_S6 - pkt_block_i)
             else ph_mcnt h);
          mcnt_start = pkt_mcnt - (pkt_mcnt mod Nmn);
          block_i = null_block_for_mcnt mcnt_start;
          b = b\<lparr>bi_mcnt_start := mcnt_start, bi_mcnt_log_late := mcnt_start + Nmn, bi_block_i := block_i,
                bi_pchan := 0, bi_nchan := 0\<rparr>;
          st = warn (Resetting mcnt_start block_i pkt_mcnt) st;
          bs = null_initialize_block mcnt_start (ph_pchan h) (ph_nchan h) (n_blocks st);
          bs = null_initialize_block (mcnt_start + Nmn) (ph_pchan h) (ph_nchan h) bs;
          cs = bi_block_packet_counter b;
          cs = cs[block_i := 0];
          cs = cs[(block_i + 1) mod N_INPUT_BLOCKS SOURCE_S6 := 0]
      in st\<lparr>n_blocks := bs, n_binfo := b\<lparr>bi_block_packet_counter := cs\<rparr>\<rparr>)"

definition null_out_of_seq :: "packet_header \<Rightarrow> ('q, 's) net_state \<Rightarrow> ('q, 's) net_state" where
  "null_out_of_seq h st =
     (let st = (if bi_mcnt_start (n_binfo st) \<noteq> 0 then warn (Out_of_seq (ph_mcnt h)) st else st);
          b = n_binfo st;
          b = b\<lparr>bi_out_of_seq_cnt := bi_out_of_seq_cnt b + 1\<rparr>;
          st = st\<lparr>n_binfo := b\<rparr>
      in if null_max_out_of_seq < bi_out_of_seq_cnt b then null_reset_window h st else st)"

definition null_process_packet ::
  "'q hashpipe_ops \<Rightarrow> 's status_ops \<Rightarrow> udp_packet \<Rightarrow> ('q, 's) net_state \<Rightarrow> ('q, 's) net_state \<times> u64 option" where
  "null_process_packet e so p st =
     (let st = st\<lparr>n_binfo := null_initialize_block_info (n_binfo st)\<rparr>;
          h = null_get_header p;
          pkt_mcnt = ph_mcnt h;
          cur_mcnt = bi_mcnt_start (n_binfo st);
          pkt_mcnt_dist = sint (pkt_mcnt - cur_mcnt)
      in if 0 \<le> pkt_mcnt_dist \<and> pkt_mcnt_dist < 2 * int null_Nm
         then
           (case (if 3 * (int null_Nm div 2) \<le> pkt_mcnt_dist then null_finish_block e so h st else (st, Some (- 1))) of
              (st, None) \<Rightarrow> (st, None)
            | (st, Some netmcnt) \<Rightarrow> (let (st, rv) = null_accept_packet h p netmcnt st in (st, Some rv)))
         else if pkt_mcnt_dist < 0 \<and> - int null_late_threshold < pkt_mcnt_dist
         then (null_ignore_late h st, Some (- 1))
         else (null_out_of_seq h st, Some (- 1)))"

end
