(* ===== verification/S6_NullPkt_Equiv.thy ===== *)
theory S6_NullPkt_Equiv
  imports S6_NullPkt S6_Pktsock_Props
begin

text \<open>
  The packet handling of \<open>s6_net_null_thread.cpp\<close> against that of the packet-socket thread at Arecibo.
\<close>

fun missed_warning :: "net_warning \<Rightarrow> bool" where
  "missed_warning (Missed_packets _ _) = True"
| "missed_warning _ = False"

definition unmissed :: "net_warning list \<Rightarrow> net_warning list" where
  "unmissed ws = filter (\<lambda>w. \<not> missed_warning w) ws"

definition null_related :: "('q, 's) net_state \<Rightarrow> ('q, 's) net_state \<Rightarrow> bool" where
  "null_related st nu =
     (n_binfo nu = n_binfo st \<and> n_last_filled nu = n_last_filled st \<and> n_sem nu = n_sem st \<and> n_status nu = n_status st \<and>
      unmissed (n_warnings nu) = unmissed (n_warnings st) \<and> map strip (n_blocks nu) = map strip (n_blocks st))"

lemma null_relatedD:
  assumes "null_related st nu"
  shows "n_binfo nu = n_binfo st" "n_last_filled nu = n_last_filled st" "n_sem nu = n_sem st" "n_status nu = n_status st"
    "unmissed (n_warnings nu) = unmissed (n_warnings st)" "map strip (n_blocks nu) = map strip (n_blocks st)"
  using assms by (simp_all add: null_related_def)

lemma null_consts:
  "null_Nm = Nm SOURCE_S6" "null_packets_per_block = of_nat (N_PACKETS_PER_BLOCK SOURCE_S6)"
  "null_max_out_of_seq = MAX_OUT_OF_SEQ SOURCE_S6" "null_late_threshold = LATE_PKT_MCNT_THRESHOLD SOURCE_S6"
  "null_block_for_mcnt m = block_for_mcnt SOURCE_S6 m" "null_dest i m = dest_s6 i m"
  "null_initialize_block_info b = initialize_block_info SOURCE_S6 b"
  by (simp_all add: null_Nm_def Nm_def null_packets_per_block_def N_PACKETS_PER_BLOCK_def null_max_out_of_seq_def MAX_OUT_OF_SEQ_def
      null_late_threshold_def LATE_PKT_MCNT_THRESHOLD_def null_block_for_mcnt_def block_for_mcnt_def null_dest_def dest_s6_def
      null_initialize_block_info_def initialize_block_info_def)

text \<open>The functions without a difference.\<close>

lemma null_same:
  "null_set_block_filled e so st = set_block_filled SOURCE_S6 e so st"
  "null_calc_block_indexes h st = calc_block_indexes SOURCE_S6 h st"
  "null_ignore_late h st = ignore_late_packet h st"
  "null_get_header p = nt_get_header p" "null_copy_len n = nt_copy_len n"
  "null_initialize_block m c k bs = nt_initialize_block m c k bs"
proof -
  show "null_set_block_filled e so st = set_block_filled SOURCE_S6 e so st"
    unfolding null_set_block_filled_def set_block_filled_def null_consts ..
  show "null_initialize_block m c k bs = nt_initialize_block m c k bs"
    unfolding null_initialize_block_def nt_initialize_block_def null_consts nt_consts ..
qed (simp_all add: null_calc_block_indexes_def calc_block_indexes_def null_ignore_late_def ignore_late_packet_def
      null_get_header_def nt_get_header_def null_copy_len_def nt_copy_len_def Let_def)

lemma unmissed_simps [simp]: "unmissed (xs @ ys) = unmissed xs @ unmissed ys" "unmissed [] = []"
  "unmissed (w # ws) = (if missed_warning w then unmissed ws else w # unmissed ws)"
  by (simp_all add: unmissed_def)

lemma null_warn_missed_related:
  assumes "null_related st nu"
  shows "null_related st (null_warn_missed nu)"
proof -
  have "null_related st (fold (\<lambda>i st. if m ! i \<noteq> 0 then warn (Missed_packets (m ! i) i) st else st) is nu)"
    if "null_related st nu" for "is" and m :: "u64 list" and nu
    using that by (induction "is" arbitrary: nu) (auto simp: null_related_def warn_def unmissed_def)
  from this [OF assms] show ?thesis by (simp add: null_warn_missed_def Let_def)
qed

lemma null_set_filled_related:
  assumes "null_related st nu"
  shows "null_related (fst (set_block_filled SOURCE_S6 e so st)) (fst (set_block_filled SOURCE_S6 e so nu)) \<and>
    snd (set_block_filled SOURCE_S6 e so nu) = snd (set_block_filled SOURCE_S6 e so st)"
  using null_relatedD [OF assms]
  by (simp add: set_block_filled_def Let_def split_beta null_related_def warn_def)

lemma null_calc_related:
  assumes "null_related st nu"
  shows "null_related (fst (calc_block_indexes SOURCE_S6 h st)) (fst (calc_block_indexes SOURCE_S6 h nu)) \<and>
    snd (calc_block_indexes SOURCE_S6 h nu) = snd (calc_block_indexes SOURCE_S6 h st)"
  using null_relatedD [OF assms]
  by (simp add: calc_block_indexes_def Let_def null_related_def warn_def)

definition null_rest where
  "null_rest e h st netmcnt = (let b = n_binfo st;
               b = b\<lparr>bi_mcnt_start := bi_mcnt_start b + Nmn,
                     bi_block_i := (bi_block_i b + 1) mod N_INPUT_BLOCKS SOURCE_S6,
                     bi_pchan := 0,
                     bi_nchan := 0\<rparr>;
               st = st\<lparr>n_binfo := b\<rparr>;
               new_block_i = (bi_block_i b + 1) mod N_INPUT_BLOCKS SOURCE_S6;
               (rv, sem) = s6_input_databuf_busywait_free e (n_sem st) new_block_i;
               st = st\<lparr>n_sem := sem\<rparr>
           in if rv \<noteq> HASHPIPE_OK then (st, None)
              else
                (st\<lparr>n_blocks := null_initialize_block (ph_mcnt h + Nmn) (ph_pchan h) (ph_nchan h) (n_blocks st),
                    n_binfo := b\<lparr>bi_block_packet_counter := (bi_block_packet_counter b)[new_block_i := 0]\<rparr>\<rparr>,
                 Some netmcnt))"

lemma null_finish_related:
  assumes "null_related st nu"
  shows "null_related (fst (finish_block SOURCE_S6 e so now h st)) (fst (null_finish_block e so h nu)) \<and>
    snd (null_finish_block e so h nu) = snd (finish_block SOURCE_S6 e so now h st)"
proof -
  define st1 where "st1 = st\<lparr>n_blocks := set_header (bi_block_i (n_binfo st))
                    (\<lambda>hd. hd\<lparr>ih_time_sec := fst now, ih_time_nsec := snd now\<rparr>) (n_blocks st)\<rparr>"
  have "null_related st1 nu"
    using assms by (simp add: null_related_def st1_def strip_time)
  note 1 = null_set_filled_related [OF null_warn_missed_related [OF this], of e so]
  obtain st2 r where s: "set_block_filled SOURCE_S6 e so st1 = (st2, r)" by (rule prod.exhaust)
  obtain nu2 where n: "null_set_block_filled e so (null_warn_missed nu) = (nu2, r)" and 2: "null_related st2 nu2"
    using 1 by (cases "null_set_block_filled e so (null_warn_missed nu)") (simp add: s null_same)
  note D = null_relatedD [OF 2]
  have F: "finish_block SOURCE_S6 e so now h st = (case (st2, r) of (st, None) \<Rightarrow> (st, None)
      | (st, Some m) \<Rightarrow> fb_rest e h st m)"
    unfolding finish_block_def fb_rest_def Let_def s [unfolded st1_def] ..
  have G: "null_finish_block e so h nu = (case (nu2, r) of (st, None) \<Rightarrow> (st, None) | (st, Some m) \<Rightarrow> null_rest e h st m)"
    unfolding null_finish_block_def null_rest_def n ..
  show ?thesis
  proof (cases r)
    case None
    with 2 show ?thesis unfolding F G by simp
  next
    case (Some m)
    have "map strip (null_initialize_block (ph_mcnt h + Nmw SOURCE_S6) (ph_pchan h) (ph_nchan h) (n_blocks nu2)) =
        map strip (initialize_block SOURCE_S6 (ph_mcnt h + Nmw SOURCE_S6) (ph_pchan h) (ph_nchan h) (ph_sid h) (n_blocks st2))"
      unfolding null_same by (rule initialize_block_related [OF D(6)])
    then show ?thesis using Some D unfolding F G
      by (simp add: fb_rest_def null_rest_def null_consts split_beta null_related_def Let_def)
  qed
qed

lemma null_accept_related:
  assumes "null_related st nu" "same_packet f p" "whole_words p"
  shows "null_related (fst (accept_packet SOURCE_S6 h f m st)) (fst (null_accept_packet h p m nu)) \<and>
    snd (null_accept_packet h p m nu) = snd (accept_packet SOURCE_S6 h f m st)"
proof -
  define upd where "upd b = b\<lparr>bi_out_of_seq_cnt := 0, bi_block_packet_counter :=
      (bi_block_packet_counter b)[block_for_mcnt SOURCE_S6 (ph_mcnt h) := bi_block_packet_counter b ! block_for_mcnt SOURCE_S6 (ph_mcnt h) + 1]\<rparr>"
    for b :: block_info
  have "null_related (st\<lparr>n_binfo := upd (n_binfo st)\<rparr>) (nu\<lparr>n_binfo := upd (n_binfo nu)\<rparr>)"
    using assms(1) by (simp add: null_related_def)
  note 1 = null_calc_related [OF this, of h]
  obtain st2 r where s: "calc_block_indexes SOURCE_S6 h (st\<lparr>n_binfo := upd (n_binfo st)\<rparr>) = (st2, r)" by (rule prod.exhaust)
  obtain nu2 where n: "null_calc_block_indexes h (nu\<lparr>n_binfo := upd (n_binfo nu)\<rparr>) = (nu2, r)" and 2: "null_related st2 nu2"
    using 1 by (cases "null_calc_block_indexes h (nu\<lparr>n_binfo := upd (n_binfo nu)\<rparr>)") (simp add: s null_same)
  define hu where "hu = (\<lambda>hd :: in_hdr. hd\<lparr>ih_missed_pkts := (ih_missed_pkts hd)[unat (ph_sid h) := ih_missed_pkts hd ! unat (ph_sid h) - 1]\<rparr>)"
  have hu: "strip_hdr (hu a) = strip_hdr (hu b)" if "strip_hdr a = strip_hdr b" for a b
    using strip_hdr_eqD [OF that] by (intro strip_hdrI) (simp_all add: hu_def)
  let ?cp = "\<lambda>d. s6_memcpy_at d (8 * unat (dest_s6 (ph_sid h) (ph_mcnt h))) (\<lambda>i. up_data p (8 + 8 + i)) (nt_copy_len (up_size p))"
  have copy: "?cp d = copy_payload SOURCE_S6 h f d" for d
    using assms(2) copy_lengths [OF assms(2,3)] by (simp add: s6_memcpy_at_eq same_packet_def payload_def)
  have 3: "map strip (set_data i ?cp (set_header i hu (n_blocks nu2))) =
      map strip (set_data i (copy_payload SOURCE_S6 h f) (set_header i hu (n_blocks st2)))" for i
    by (intro strip_set_data strip_set_header null_relatedD(6) [OF 2] hu copy)
  have F: "accept_packet SOURCE_S6 h f m st = (if \<not> r then (st2, - 1) else
      (st2\<lparr>n_blocks := set_data (block_for_mcnt SOURCE_S6 (ph_mcnt h)) (copy_payload SOURCE_S6 h f)
         (set_header (block_for_mcnt SOURCE_S6 (ph_mcnt h)) hu (n_blocks st2))\<rparr>, m))"
    using s by (simp add: accept_packet_def Let_def upd_def hu_def)
  have G: "null_accept_packet h p m nu = (if \<not> r then (nu2, - 1) else
      (nu2\<lparr>n_blocks := set_data (block_for_mcnt SOURCE_S6 (ph_mcnt h)) ?cp
         (set_header (block_for_mcnt SOURCE_S6 (ph_mcnt h)) hu (n_blocks nu2))\<rparr>, m))"
    using n by (simp add: null_accept_packet_def Let_def upd_def hu_def null_consts(5,6) null_same(5))
  show ?thesis using null_relatedD [OF 2] 3 2 unfolding F G by (auto simp: null_related_def)
qed

lemma null_reset_related:
  assumes "null_related st nu"
  shows "null_related (reset_window SOURCE_S6 h st) (null_reset_window h nu)"
proof -
  note D = null_relatedD [OF assms]
  have B: "n_binfo (warn w nu) = n_binfo st" "n_binfo (warn w st) = n_binfo st" "n_blocks (warn w nu) = n_blocks nu"
    "n_blocks (warn w st) = n_blocks st" "n_status (warn w nu) = n_status st" "n_status (warn w st) = n_status st" for w
    by (simp_all add: warn_def D)
  show ?thesis unfolding null_related_def reset_window_def null_reset_window_def Let_def reset_mcnt_def null_consts null_same D
    by (simp add: B D initialize_block_related warn_def)
qed

lemma null_out_of_seq_related:
  assumes "null_related st nu"
  shows "null_related (out_of_seq_packet SOURCE_S6 h st) (null_out_of_seq h nu)"
proof -
  define upd where "upd b = b\<lparr>bi_out_of_seq_cnt := bi_out_of_seq_cnt b + 1\<rparr>" for b :: block_info
  define w1 where "w1 st = (if bi_mcnt_start (n_binfo st) \<noteq> 0 then warn (Out_of_seq (ph_mcnt h)) st else st)" for st :: "('a, 'b) net_state"
  have 1: "null_related ((w1 st)\<lparr>n_binfo := upd (n_binfo (w1 st))\<rparr>) ((w1 nu)\<lparr>n_binfo := upd (n_binfo (w1 nu))\<rparr>)"
    using assms by (simp add: null_related_def w1_def warn_def)
  have "upd (n_binfo (w1 nu)) = upd (n_binfo (w1 st))" using null_relatedD(1) [OF 1] by simp
  with null_reset_related [OF 1, of h] 1 show ?thesis
    unfolding out_of_seq_packet_def null_out_of_seq_def Let_def w1_def [symmetric] upd_def [symmetric] null_consts(3) by simp
qed

text \<open>C17: For a packet of at least 16 (and less than 2^31) bytes whose length less 16, that of
  its data without header and trailer, is a multiple of 32, process_packet of the null thread
  and that of the packet-socket thread at Arecibo, from related states, do the same to the
  semaphores, the status buffer, the window and the payload of the blocks and return the same.
  They may differ in the warnings about missed packets and, in the headers of blocks, in the
  time stamps and the source ID.\<close>
theorem null_thread_handles_packets_alike:
  assumes "null_related st nu" "same_packet f p" "whole_words p"
  shows "null_related (fst (process_packet SOURCE_S6 e so now f st)) (fst (null_process_packet e so p nu)) \<and>
    snd (null_process_packet e so p nu) = snd (process_packet SOURCE_S6 e so now f st)"
proof -
  define h where "h = get_header SOURCE_S6 f"
  have h: "null_get_header p = h" using headers_agree [OF assms(2,3)] by (simp add: h_def null_same)
  define st0 where "st0 = st\<lparr>n_binfo := initialize_block_info SOURCE_S6 (n_binfo st)\<rparr>"
  define nu0 where "nu0 = nu\<lparr>n_binfo := null_initialize_block_info (n_binfo nu)\<rparr>"
  have 0: "null_related st0 nu0" using assms(1) by (simp add: null_related_def st0_def nu0_def null_consts)
  define dist where "dist = sint (ph_mcnt h - bi_mcnt_start (n_binfo st0))"
  define x where "x = (if 3 * (int (Nm SOURCE_S6) div 2) \<le> dist then finish_block SOURCE_S6 e so now h st0 else (st0, Some (- 1)))"
  define y where "y = (if 3 * (int (Nm SOURCE_S6) div 2) \<le> dist then null_finish_block e so h nu0 else (nu0, Some (- 1)))"
  have xy: "null_related (fst x) (fst y)" "snd y = snd x"
    using null_finish_related [OF 0, of e so now h] 0 by (simp_all add: x_def y_def)
  have d: "sint (ph_mcnt h - bi_mcnt_start (n_binfo nu0)) = dist" by (simp add: dist_def null_relatedD(1) [OF 0])
  have F: "process_packet SOURCE_S6 e so now f st =
      (if 0 \<le> dist \<and> dist < 2 * int (Nm SOURCE_S6)
       then (case x of (st, None) \<Rightarrow> (st, None) | (st, Some m) \<Rightarrow> (let (st, rv) = accept_packet SOURCE_S6 h f m st in (st, Some rv)))
       else if dist < 0 \<and> - int (LATE_PKT_MCNT_THRESHOLD SOURCE_S6) < dist
       then (ignore_late_packet h st0, Some (- 1)) else (out_of_seq_packet SOURCE_S6 h st0, Some (- 1)))"
    unfolding process_packet_def Let_def st0_def [symmetric] h_def [symmetric] dist_def [symmetric] x_def [symmetric] ..
  have G: "null_process_packet e so p nu =
      (if 0 \<le> dist \<and> dist < 2 * int (Nm SOURCE_S6)
       then (case y of (nu, None) \<Rightarrow> (nu, None) | (nu, Some m) \<Rightarrow> (let (nu, rv) = null_accept_packet h p m nu in (nu, Some rv)))
       else if dist < 0 \<and> - int (LATE_PKT_MCNT_THRESHOLD SOURCE_S6) < dist
       then (null_ignore_late h nu0, Some (- 1)) else (null_out_of_seq h nu0, Some (- 1)))"
    unfolding null_process_packet_def Let_def nu0_def [symmetric] h null_consts(1,4) d y_def [symmetric] ..
  obtain st1 r where x: "x = (st1, r)" by (rule prod.exhaust)
  obtain nu1 where y: "y = (nu1, r)" using xy(2) x by (cases y) simp
  have 1: "null_related st1 nu1" using xy(1) by (simp add: x y)
  have late: "null_related (ignore_late_packet h st0) (null_ignore_late h nu0)"
    using null_relatedD [OF 0] by (simp add: null_same null_related_def ignore_late_packet_def warn_def Let_def)
  show ?thesis unfolding F G x y
    using 1 late null_accept_related [OF 1 assms(2,3), of h] null_out_of_seq_related [OF 0, of h]
    by (simp add: split_beta split: option.splits)
qed

theorem null_thread_handles_packets_alike_witness:
  "null_related
     (fst (process_packet SOURCE_S6 recorder list_status (1, 2) \<lparr>udp_data = (\<lambda>i. 0), udp_size = 56\<rparr> (boot_state SOURCE_S6 [] [])))
     (fst (null_process_packet recorder list_status \<lparr>up_data = (\<lambda>i. 0), up_size = 48\<rparr> (boot_state SOURCE_S6 [] [])))"
  by (rule null_thread_handles_packets_alike [THEN conjunct1])
    (simp_all add: null_related_def same_packet_def whole_words_def)

end
