(* ===== verification/S6_Hello.thy ===== *)
theory S6_Hello
  imports S6_RedisDb S6_Obs
begin

text \<open>
  \<open>cleo_hello.cpp\<close>: asks the cleo server for a sign of life.  Name service and socket are parameters,
  the replies a list; a receive that finds no reply blocks, as \<open>O_NONBLOCK\<close> is cleared.
\<close>

datatype sock_call = Connect string "16 word" | Send string | Recv | Sleep | Close

record hello_net =
  hn_resolve :: "string \<Rightarrow> string option"
  hn_socket :: bool
  hn_connect :: bool
  hn_send :: bool
  hn_replies :: "string option list"

definition nul :: char where "nul = char_of (0 :: nat)"

definition reply_size :: nat where "reply_size = 20000"

text \<open>What \<open>recv\<close> and the terminating NUL leave in \<open>server_reply\<close>.  With a full buffer the NUL is
  written one past the end.\<close>

definition store_reply :: "string \<Rightarrow> string \<Rightarrow> string option" where
  "store_reply r buf = (if length r < reply_size then Some (r @ [nul] @ drop (Suc (length r)) buf) else None)"

definition c_string :: "string \<Rightarrow> string" where
  "c_string buf = takeWhile (\<lambda>c. c \<noteq> nul) buf"

fun strstr :: "string \<Rightarrow> string \<Rightarrow> nat option" where
  "strstr [] needle = (if needle = [] then Some 0 else None)"
| "strstr (c # cs) needle = (if take (length needle) (c # cs) = needle then Some 0 else map_option Suc (strstr cs needle))"

text \<open>The loop; \<open>n\<close> tries are left.  The result has the calls in order and how the program ends.\<close>

fun hello_tries :: "nat \<Rightarrow> string option list \<Rightarrow> string \<Rightarrow> sock_call list \<times> unit proc" where
  "hello_tries 0 rs buf = ([Close], Exits 1)"
| "hello_tries (Suc n) [] buf = ([Recv], Hangs)"
| "hello_tries (Suc n) (None # rs) buf = ([Recv, Close], Exits 1)"
| "hello_tries (Suc n) (Some r # rs) buf =
     (case store_reply r buf of
        None \<Rightarrow> ([Recv], Crashes)
      | Some buf \<Rightarrow>
          (if strstr (c_string buf) ''GOODDAY'' \<noteq> None then ([Recv, Close], Exits 0)
           else (let (cs, end) = hello_tries n rs buf in (Recv # Sleep # cs, end))))"

definition cleo_hello :: "string list \<Rightarrow> hello_net \<Rightarrow> string \<Rightarrow> sock_call list \<times> unit proc" where
  "cleo_hello args w buf =
     (case args of
        [server_host_name, port] \<Rightarrow>
          (case hn_resolve w server_host_name of
             None \<Rightarrow> ([], Exits 1)
           | Some addr \<Rightarrow>
               (if \<not> hn_socket w then ([], Exits 1)
                else (let c = Connect addr (word_of_int (atoi port)); hello = Send (''HELLO'' @ [char_of (10 :: nat)])
                      in if \<not> hn_connect w then ([c, Close], Exits 1)
                         else if \<not> hn_send w then ([c, hello, Close], Exits 1)
                         else (let (cs, end) = hello_tries 10 (hn_replies w) buf in (c # hello # cs, end)))))
      | _ \<Rightarrow> ([], Exits 1))"

subsection \<open>What the program finds out\<close>

lemma strstr_iff: "strstr hay needle \<noteq> None \<longleftrightarrow> (\<exists>a b. hay = a @ needle @ b)"
proof (induction hay needle rule: strstr.induct)
  case (2 c cs needle)
  have "(\<exists>a b. c # cs = a @ needle @ b) \<longleftrightarrow> (\<exists>b. c # cs = needle @ b) \<or> (\<exists>a b. cs = a @ needle @ b)"
    by (metis append_Cons append_Nil list.sel(3) neq_Nil_conv)
  moreover have "(\<exists>b. c # cs = needle @ b) \<longleftrightarrow> take (length needle) (c # cs) = needle"
    by (metis append_eq_conv_conj append_take_drop_id)
  ultimately show ?case using 2 by auto
qed auto

lemma c_string_store: "store_reply r buf = Some buf' \<Longrightarrow> c_string buf' = c_string r"
proof -
  have "takeWhile (\<lambda>c. c \<noteq> nul) (r @ nul # cs) = takeWhile (\<lambda>c. c \<noteq> nul) r" for r cs
    by (induction r) simp_all
  then show "store_reply r buf = Some buf' \<Longrightarrow> c_string buf' = c_string r"
    by (auto simp: store_reply_def c_string_def split: if_splits)
qed

definition good_day :: "string option \<Rightarrow> bool" where
  "good_day r = (\<exists>s a b. r = Some s \<and> c_string s = a @ ''GOODDAY'' @ b)"

definition readable :: "string option \<Rightarrow> bool" where
  "readable r = (\<exists>s. r = Some s \<and> length s < reply_size)"

lemma hello_tries_outcome:
  "snd (hello_tries n rs buf) =
     (let seen = takeWhile (\<lambda>r. readable r \<and> \<not> good_day r) (take n rs); k = length seen
      in if k = n then Exits 1
         else if k = length rs then Hangs
         else if rs ! k = None then Exits 1
         else if \<not> readable (rs ! k) then Crashes
         else Exits 0)"
proof (induction n rs buf rule: hello_tries.induct)
  case (4 n r rs buf)
  show ?case
  proof (cases "store_reply r buf")
    case None
    then show ?thesis by (auto simp: readable_def store_reply_def split: if_splits)
  next
    case (Some buf')
    then have r: "readable (Some r)" by (auto simp: readable_def store_reply_def split: if_splits)
    have g: "strstr (c_string buf') ''GOODDAY'' \<noteq> None \<longleftrightarrow> good_day (Some r)"
      unfolding strstr_iff c_string_store [OF Some] good_day_def by simp
    show ?thesis
    proof (cases "good_day (Some r)")
      case True
      then show ?thesis using Some r g by simp
    next
      case False
      then have "snd (hello_tries (Suc n) (Some r # rs) buf) = snd (hello_tries n rs buf')"
        using Some g by (simp add: split_def Let_def)
      also have "\<dots> = (let seen = takeWhile (\<lambda>r. readable r \<and> \<not> good_day r) (take n rs); k = length seen
          in if k = n then Exits 1 else if k = length rs then Hangs else if rs ! k = None then Exits 1
             else if \<not> readable (rs ! k) then Crashes else Exits 0)"
        using 4 [OF Some] g False by simp
      finally show ?thesis using r False by (simp add: Let_def)
    qed
  qed
qed (simp_all add: readable_def)

lemma takeWhile_bound:
  assumes "k < length xs" "\<not> P (xs ! k)" "list_all P (take k xs)"
  shows "length (takeWhile P xs) = k"
proof -
  have "takeWhile P (take k xs @ xs ! k # drop (Suc k) xs) = take k xs"
    using assms(2,3) by (subst takeWhile_append2) (auto simp: list_all_iff)
  then show ?thesis using assms(1) by (simp add: id_take_nth_drop [symmetric])
qed

lemma hello_tries_goodday:
  "snd (hello_tries n rs buf) = Exits 0 \<longleftrightarrow>
     (\<exists>k. k < n \<and> k < length rs \<and> readable (rs ! k) \<and> good_day (rs ! k) \<and> list_all readable (take k rs))"
  (is "?l \<longleftrightarrow> ?r")
proof -
  define P where "P = (\<lambda>r. readable r \<and> \<not> good_day r)"
  define k where "k = length (takeWhile P (take n rs))"
  have l: "?l \<longleftrightarrow> k < n \<and> k < length rs \<and> readable (rs ! k)"
  proof -
    have "k \<le> length (take n rs)" unfolding k_def by (rule length_takeWhile_le)
    then have "k \<le> n" "k \<le> length rs" by simp_all
    then show ?thesis unfolding hello_tries_outcome Let_def P_def [symmetric] k_def [symmetric]
      by (auto simp: readable_def)
  qed
  show ?thesis
  proof
    assume ?l
    then have b: "k < n" "k < length rs" "readable (rs ! k)" using l by simp_all
    then have "\<not> P (rs ! k)" using nth_length_takeWhile [of P "take n rs"] by (simp add: k_def)
    moreover have "take k rs = takeWhile P (take n rs)"
      using takeWhile_eq_take [of P "take n rs"] b(1) by (simp add: k_def min_def)
    then have "list_all readable (take k rs)" by (auto simp: P_def list_all_iff dest: set_takeWhileD)
    ultimately show ?r using b by (auto simp: P_def)
  next
    assume ?r
    then obtain m where m: "m < n" "m < length rs" "readable (rs ! m)" "good_day (rs ! m)" "list_all readable (take m rs)" by blast
    have "readable (rs ! k) \<and> k \<le> m"
    proof (cases "list_all P (take m rs)")
      case True
      then have "k = m" unfolding k_def using m by (intro takeWhile_bound) (simp_all add: P_def min_def)
      then show ?thesis using m by simp
    next
      case False
      then obtain j where j: "j < m" "\<not> P (rs ! j)" using m(2) by (auto simp: list_all_length)
      have "k \<le> j"
      proof (rule ccontr)
        assume "\<not> k \<le> j"
        then have "takeWhile P (take n rs) ! j = rs ! j" "j < length (takeWhile P (take n rs))"
          using takeWhile_nth [of j P "take n rs"] j(1) m(1) by (simp_all add: k_def)
        then show False using j(2) nth_mem [of j "takeWhile P (take n rs)"] by (auto dest: set_takeWhileD)
      qed
      then show ?thesis using j m by (auto simp: list_all_length)
    qed
    then show ?l using l m by simp
  qed
qed

lemma hello_tries_calls: "fst (hello_tries n rs buf) \<noteq> []"
  by (cases "(n, rs, buf)" rule: hello_tries.cases) (auto simp: split_def Let_def split: option.splits)

lemma hello_tries_closes: "snd (hello_tries n rs buf) = Exits c \<Longrightarrow> last (fst (hello_tries n rs buf)) = Close"
  by (induction n rs buf rule: hello_tries.induct) (auto simp: hello_tries_calls split_def Let_def split: option.splits if_splits)

text \<open>C39: The cleo probe exits with 0 exactly if it gets a connection and one of the first ten
  replies has GOODDAY in it as a whole before its first zero character, all replies up to that
  one being readable; whenever it exits after having made a call on the socket, the last call
  closes it.\<close>
theorem cleo_hello_reports:
  "(snd (cleo_hello args w buf) = Exits 0 \<longleftrightarrow>
     (\<exists>host port addr k. args = [host, port] \<and> hn_resolve w host = Some addr \<and> hn_socket w \<and> hn_connect w \<and> hn_send w \<and>
        k < 10 \<and> k < length (hn_replies w) \<and> good_day (hn_replies w ! k) \<and> list_all readable (take (Suc k) (hn_replies w))))
   \<and> (snd (cleo_hello args w buf) = Exits c \<and> fst (cleo_hello args w buf) \<noteq> [] \<longrightarrow> last (fst (cleo_hello args w buf)) = Close)"
proof -
  have take: "list_all readable (take (Suc k) rs) \<longleftrightarrow> readable (rs ! k) \<and> list_all readable (take k rs)"
    if "k < length rs" for k and rs :: "string option list"
    using that by (auto simp: take_Suc_conv_app_nth)
  show ?thesis
    using hello_tries_goodday [of 10 "hn_replies w" buf] hello_tries_closes [of 10 "hn_replies w" buf c]
      hello_tries_calls [of 10 "hn_replies w" buf]
    by (auto simp: cleo_hello_def Let_def split_def take split: list.split option.split)
qed

theorem cleo_hello_reports_witness:
  "snd (cleo_hello [''cleo'', ''8011''] \<lparr>hn_resolve = Some, hn_socket = True, hn_connect = True, hn_send = True,
      hn_replies = [Some [], Some ''A GOODDAY'']\<rparr> []) = Exits 0"
proof -
  have g: "good_day (Some ''A GOODDAY'')"
    unfolding good_day_def
    by (rule exI [of _ "''A GOODDAY''"], rule exI [of _ "''A ''"], rule exI [of _ "[]"]) (simp add: c_string_def nul_def char_of_def)
  show ?thesis
    by (rule cleo_hello_reports [THEN conjunct1, THEN iffD2], rule exI [of _ "''cleo''"], rule exI [of _ "''8011''"], rule exI [of _ "''cleo''"], rule exI [of _ 1])
      (simp add: readable_def reply_size_def g)
qed

text \<open>A greeting that arrives in two pieces is not seen.\<close>

lemma split_goodday_missed:
  "cleo_hello [''cleo'', ''8011''] \<lparr>hn_resolve = Some, hn_socket = True, hn_connect = True, hn_send = True,
      hn_replies = [Some ''GOOD'', Some ''DAY'', None]\<rparr> buf =
   ([Connect ''cleo'' 8011, Send (''HELLO'' @ [char_of (10 :: nat)]), Recv, Sleep, Recv, Sleep, Recv, Close], Exits 1)"
proof -
  have "atoi ''8011'' = 8011"
    by (rule atoi_small) (simp_all add: decimal_value_def isspace_def isdigit_def digits_value_def Let_def)
  then show ?thesis
    by (simp add: cleo_hello_def store_reply_def reply_size_def c_string_def nul_def eval_nat_numeral)
qed

end
