(* ===== verification/S6_DatabufApi.thy ===== *)
theory S6_DatabufApi
  imports S6_Databuf
begin

text \<open>
  The inline wrappers of \<open>s6_databuf.h\<close> that \<open>S6_Databuf\<close> does not need: attaching, clearing and the status
  of both rings, and the semaphores of the output ring.  The locale extends that of the semaphores.
\<close>

record 'q databuf_api =
  hp_attach :: "int \<Rightarrow> int \<Rightarrow> 'q option"
  hp_detach :: "'q \<Rightarrow> int"
  hp_clear :: "'q \<Rightarrow> 'q"
  hp_block_status :: "'q \<Rightarrow> nat \<Rightarrow> int"
  hp_total_status :: "'q \<Rightarrow> int"

subsection \<open>The input ring\<close>

definition s6_input_databuf_attach :: "'q databuf_api \<Rightarrow> int \<Rightarrow> int \<Rightarrow> 'q option" where
  "s6_input_databuf_attach api instance_id databuf_id = hp_attach api instance_id databuf_id"

definition s6_input_databuf_detach :: "'q databuf_api \<Rightarrow> 'q \<Rightarrow> int" where
  "s6_input_databuf_detach api d = hp_detach api d"

definition s6_input_databuf_clear :: "'q databuf_api \<Rightarrow> 'q \<Rightarrow> 'q" where
  "s6_input_databuf_clear api d = hp_clear api d"

definition s6_input_databuf_block_status :: "'q databuf_api \<Rightarrow> 'q \<Rightarrow> nat \<Rightarrow> int" where
  "s6_input_databuf_block_status api d block_id = hp_block_status api d block_id"

definition s6_input_databuf_total_status :: "'q databuf_api \<Rightarrow> 'q \<Rightarrow> int" where
  "s6_input_databuf_total_status api d = hp_total_status api d"

subsection \<open>The output ring\<close>

definition s6_output_databuf_clear :: "'q databuf_api \<Rightarrow> 'q \<Rightarrow> 'q" where
  "s6_output_databuf_clear api d = hp_clear api d"

definition s6_output_databuf_attach :: "'q databuf_api \<Rightarrow> int \<Rightarrow> int \<Rightarrow> 'q option" where
  "s6_output_databuf_attach api instance_id databuf_id = hp_attach api instance_id databuf_id"

definition s6_output_databuf_detach :: "'q databuf_api \<Rightarrow> 'q \<Rightarrow> int" where
  "s6_output_databuf_detach api d = hp_detach api d"

definition s6_output_databuf_block_status :: "'q databuf_api \<Rightarrow> 'q \<Rightarrow> nat \<Rightarrow> int" where
  "s6_output_databuf_block_status api d block_id = hp_block_status api d block_id"

definition s6_output_databuf_total_status :: "'q databuf_api \<Rightarrow> 'q \<Rightarrow> int" where
  "s6_output_databuf_total_status api d = hp_total_status api d"

definition s6_output_databuf_wait_free :: "'q hashpipe_ops \<Rightarrow> 'q \<Rightarrow> nat \<Rightarrow> hp_rv \<times> 'q" where
  "s6_output_databuf_wait_free e d block_id = hp_wait_free e d block_id"

definition s6_output_databuf_busywait_free :: "'q hashpipe_ops \<Rightarrow> 'q \<Rightarrow> nat \<Rightarrow> hp_rv \<times> 'q" where
  "s6_output_databuf_busywait_free e d block_id = hp_busywait_free e d block_id"

definition s6_output_databuf_wait_filled :: "'q hashpipe_ops \<Rightarrow> 'q \<Rightarrow> nat \<Rightarrow> hp_rv \<times> 'q" where
  "s6_output_databuf_wait_filled e d block_id = hp_wait_filled e d block_id"

definition s6_output_databuf_busywait_filled :: "'q hashpipe_ops \<Rightarrow> 'q \<Rightarrow> nat \<Rightarrow> hp_rv \<times> 'q" where
  "s6_output_databuf_busywait_filled e d block_id = hp_busywait_filled e d block_id"

definition s6_output_databuf_set_free :: "'q hashpipe_ops \<Rightarrow> 'q \<Rightarrow> nat \<Rightarrow> hp_rv \<times> 'q" where
  "s6_output_databuf_set_free e d block_id = hp_set_free e d block_id"

definition s6_output_databuf_set_filled :: "'q hashpipe_ops \<Rightarrow> 'q \<Rightarrow> nat \<Rightarrow> hp_rv \<times> 'q" where
  "s6_output_databuf_set_filled e d block_id = hp_set_filled e d block_id"

subsection \<open>The contract\<close>

text \<open>Documented: the status of a block is 1 when it is filled and 0 when it is free, the total status is
  the sum over the \<open>n_block\<close> blocks of the ring, and clearing frees them all.\<close>

locale databuf_status = databuf_ring ops filled
  for ops :: "'q hashpipe_ops" and filled :: "'q \<Rightarrow> nat \<Rightarrow> bool" +
  fixes api :: "'q databuf_api" and n_block :: nat
  assumes clear_law: "\<not> filled (hp_clear api q) i"
    and block_status_law: "hp_block_status api q i = of_bool (filled q i)"
    and total_status_law: "hp_total_status api q = (\<Sum>i<n_block. hp_block_status api q i)"
begin

lemma total_status_card: "hp_total_status api q = int (card {i. i < n_block \<and> filled q i})"
proof -
  have "(\<Sum>i<n_block. of_bool (filled q i)) = int (card {i \<in> {..<n_block}. filled q i})"
    by (simp add: sum.If_cases of_bool_def Int_def)
  then show ?thesis by (simp add: total_status_law block_status_law)
qed

lemma total_status_bounds: "0 \<le> hp_total_status api q" "hp_total_status api q \<le> int n_block"
proof -
  have "card {i. i < n_block \<and> filled q i} \<le> card {..<n_block}" by (rule card_mono) auto
  then show "0 \<le> hp_total_status api q" "hp_total_status api q \<le> int n_block" by (simp_all add: total_status_card)
qed

lemma cleared: "hp_total_status api (hp_clear api q) = 0"
  by (simp add: total_status_card clear_law)

lemma filling_counts:
  assumes "s6_output_databuf_set_filled ops q i = (HASHPIPE_OK, q')" "i < n_block" "\<not> filled q i"
  shows "hp_total_status api q' = hp_total_status api q + 1"
proof -
  have "{j. j < n_block \<and> filled q' j} = insert i {j. j < n_block \<and> filled q j}"
    using set_filled_law [OF assms(1) [unfolded s6_output_databuf_set_filled_def]] assms(2) by auto
  then show ?thesis using assms(3) by (simp add: total_status_card)
qed

lemma freeing_counts:
  assumes "s6_output_databuf_set_free ops q i = (HASHPIPE_OK, q')" "i < n_block" "filled q i"
  shows "hp_total_status api q' = hp_total_status api q - 1"
proof -
  have "{j. j < n_block \<and> filled q j} = insert i {j. j < n_block \<and> filled q' j}"
    using set_free_law [OF assms(1) [unfolded s6_output_databuf_set_free_def]] assms(2,3) by auto
  moreover have "\<not> filled q' i"
    using set_free_law [OF assms(1) [unfolded s6_output_databuf_set_free_def]] by simp
  ultimately show ?thesis by (simp add: total_status_card)
qed

lemma handed_over:
  assumes "s6_output_databuf_wait_filled ops q i = (HASHPIPE_OK, q1)" "s6_output_databuf_set_free ops q1 i = (HASHPIPE_OK, q2)" "i < n_block"
  shows "hp_total_status api q2 = hp_total_status api q - 1"
proof -
  have "filled q i \<and> q1 = q" by (rule wait_filled_law) (use assms(1) in \<open>simp add: s6_output_databuf_wait_filled_def\<close>)
  then show ?thesis using freeing_counts assms(2,3) by simp
qed

end

definition flag_api :: "nat \<Rightarrow> (nat \<Rightarrow> bool) databuf_api" where
  "flag_api n = \<lparr>hp_attach = (\<lambda>i k. Some (\<lambda>b. False)), hp_detach = (\<lambda>q. 0), hp_clear = (\<lambda>q b. False),
     hp_block_status = (\<lambda>q i. of_bool (q i)), hp_total_status = (\<lambda>q. \<Sum>i<n. of_bool (q i))\<rparr>"

interpretation flags: databuf_status flag_ring "\<lambda>q. q" "flag_api n" n for n
  by unfold_locales (simp_all add: flag_api_def)

end
