(* ===== verification/S6_FakeSpectra.thy ===== *)
theory S6_FakeSpectra
  imports S6_Spectra S6_Fake_Props
begin

text \<open>
  Generated data in the GPU thread: \<open>s6_gen_fake_data.cpp\<close> puts its time series where the plan of
  \<open>s6GPU.cu\<close> looks for them, the places at which the network threads put the samples of packets.
\<close>

text \<open>The series generated for a coarse channel and a polarisation.\<close>

definition generated_series :: "site \<Rightarrow> (nat \<Rightarrow> nat \<Rightarrow> sample) \<Rightarrow> nat \<Rightarrow> nat \<Rightarrow> nat \<Rightarrow> (real \<times> real) list" where
  "generated_series s noise bors cc pol =
     map (\<lambda>t. convert_complex_8b_to_float (gen_time_series s (noise (bors * N_POLS_PER_BEAM s + pol)) (t * N_COARSE_CHAN_PER_BORS s + cc)))
       [0..<N_TIME_SAMPLES s]"

definition generated_voltages :: "(nat \<Rightarrow> nat \<Rightarrow> sample) \<Rightarrow> real list" where
  "generated_voltages noise =
     map (\<lambda>t. convert_real_8b_to_float (fst (gen_time_series SOURCE_FAST (noise 0) t))) [0..<N_TIME_SAMPLES SOURCE_FAST]"

lemma generated_sample:
  assumes s: "s \<noteq> SOURCE_FAST" and j: "j < N_BORS s" and cc: "cc < N_COARSE_CHAN_PER_BORS s" and pol: "pol < N_POLS_PER_BEAM s"
    and x: "x < N_TIME_SAMPLES s" and ib: "ib_data ib = gen_fake_data s noise d"
  defines "i \<equiv> cc * N_POLS_PER_BEAM s + pol + x * (N_COARSE_CHAN s div N_SUBSPECTRA_PER_SPECTRUM s * N_POLS_PER_BEAM s)"
    and "xy \<equiv> gen_time_series s (noise (j * N_POLS_PER_BEAM s + pol)) (x * N_COARSE_CHAN_PER_BORS s + cc)"
  shows "i < n_bytes_per_bors s div 2 \<and> group_input s ib j (2 * i) = fst xy \<and> group_input s ib j (2 * i + 1) = snd xy"
proof -
  have jl: "x * N_COARSE_CHAN_PER_BORS s + cc < n_gpu_input_elements s"
  proof -
    have "(x + 1) * N_COARSE_CHAN_PER_BORS s \<le> N_TIME_SAMPLES s * N_COARSE_CHAN_PER_BORS s" using x by (intro mult_le_mono1) simp
    then show ?thesis using cc by (simp add: n_gpu_input_elements_def)
  qed
  note L = fake_data_layout [OF j pol jl, of noise d 0]
  have g: "group_input s ib j (2 * i + e) = gen_fake_data s noise d (2 * dst_locator s j pol (x * N_COARSE_CHAN_PER_BORS s + cc) + e)" for e
    using s by (cases s) (simp_all add: group_input_def ib dst_locator_def i_def N_BYTES_PER_BEAM_def N_BYTES_PER_SUBSPECTRUM_def algebra_simps)
  have "i < n_bytes_per_bors s div 2"
    using s cc pol x by (cases s) (simp_all add: i_def N_BYTES_PER_BEAM_def N_BYTES_PER_SUBSPECTRUM_def)
  then show ?thesis using g [of 0] g [of 1] L s by (cases s) (simp_all add: xy_def)
qed

text \<open>C21: The power at bin k of the spectrum of a coarse channel and polarisation that the GPU
  thread computes from a block of generated data is that of the transform of the series that
  was generated for that beam or subspectrum, channel and polarisation, at every site, with
  all coarse channels in use; only the last element of the vector stays 0. The generator so
  puts its samples where the plan of the GPU thread, and by C3 the network threads, have them.\<close>
theorem fake_data_gives_its_spectra:
  assumes "init_gpu_memory s n_cc = Some cfg" "n_cc = N_COARSE_CHAN s div N_SUBSPECTRA_PER_SPECTRUM s" "transforms dft rdft"
    and "j < N_BORS s" "cc < N_COARSE_CHAN_PER_BORS s" "pol < N_POLS_PER_BEAM s" "k < N_FINE_CHAN s"
    and "ib_data ib = gen_fake_data s noise d"
  defines "b \<equiv> cc * N_POLS_PER_BEAM s + pol"
  shows "group_powspec s (planned_fft dft rdft) cfg n_cc ib j ! (b * N_FINE_CHAN s + k) =
    (if b * N_FINE_CHAN s + k + 1 = group_elements s n_cc then 0
     else compute_complex_power ((if s = SOURCE_FAST then rdft (generated_voltages noise) else dft (generated_series s noise j cc pol)) ! k))"
proof -
  obtain p where p: "planned cfg = Inr p" by (auto simp: planned_def create_fft_plan_1d_def Let_def)
  have b: "b < series_count s n_cc"
    using assms(2,5,6) by (cases s) (simp_all add: b_def series_count_def)
  have zs: "fft_series p (unpack_complex (n_bytes_per_bors s div 2) (n_bytes_per_bors s) (group_input s ib j)) b = generated_series s noise j cc pol"
    if s: "s \<noteq> SOURCE_FAST"
    using s generated_sample [OF s assms(4,5,6) _ assms(8)]
    by (auto simp: fft_series_def generated_series_def planned_simps [OF assms(1) p] unpack_complex_nth b_def)
  have vs: "fft_series p (unpack_real (n_bytes_per_bors s) (group_input s ib j)) b = generated_voltages noise" if s: "s = SOURCE_FAST"
  proof -
    have z: "j = 0" "b = 0" "cc = 0" "pol = 0" using assms(4-6) by (simp_all add: s b_def)
    have "gen_fake_data s noise d t = fst (gen_time_series SOURCE_FAST (noise 0) t)" if "t < N_TIME_SAMPLES SOURCE_FAST" for t
      using fake_data_layout [of 0 s 0 t noise d 0] that by (simp add: s dst_locator_def n_gpu_input_elements_def)
    then show ?thesis
      by (auto simp: fft_series_def generated_voltages_def planned_simps [OF assms(1) p] z s unpack_real_nth group_input_def assms(8)
          N_BYTES_PER_SUBSPECTRUM_def simp del: upt_rec_numeral)
  qed
  show ?thesis by (rule group_powspec_bin [OF assms(1,2) p assms(3) b assms(7) zs vs])
qed

theorem fake_data_gives_its_spectra_witness:
  "group_powspec SOURCE_S6 (planned_fft (\<lambda>xs. xs) (\<lambda>xs. replicate (length xs div 2 + 1) (0, 0))) (the (init_gpu_memory SOURCE_S6 320)) 320
     ((ge_block demo_gpu_event)\<lparr>ib_data := gen_fake_data SOURCE_S6 (\<lambda>n i. (1, 2)) (\<lambda>a. 0)\<rparr>) 6 !
     ((5 * N_POLS_PER_BEAM SOURCE_S6 + 1) * N_FINE_CHAN SOURCE_S6 + 7) =
   compute_complex_power (generated_series SOURCE_S6 (\<lambda>n i. (1, 2)) 6 5 1 ! 7)"
proof -
  have c: "init_gpu_memory SOURCE_S6 320 = Some (the (init_gpu_memory SOURCE_S6 320))" by (simp add: init_gpu_memory_def)
  have n: "320 = N_COARSE_CHAN SOURCE_S6 div N_SUBSPECTRA_PER_SPECTRUM SOURCE_S6" by simp
  have t: "transforms (\<lambda>xs. xs) (\<lambda>xs. replicate (length xs div 2 + 1) (0, 0))" by (simp add: transforms_def)
  have d: "ib_data ((ge_block demo_gpu_event)\<lparr>ib_data := gen_fake_data SOURCE_S6 (\<lambda>n i. (1, 2)) (\<lambda>a. 0)\<rparr>) =
      gen_fake_data SOURCE_S6 (\<lambda>n i. (1, 2)) (\<lambda>a. 0)" by simp
  have b: "6 < N_BORS SOURCE_S6" "5 < N_COARSE_CHAN_PER_BORS SOURCE_S6" "1 < N_POLS_PER_BEAM SOURCE_S6" "7 < N_FINE_CHAN SOURCE_S6"
    by simp_all
  have "(5 * N_POLS_PER_BEAM SOURCE_S6 + 1) * N_FINE_CHAN SOURCE_S6 + 7 + 1 \<noteq> group_elements SOURCE_S6 320"
    by (simp add: group_elements_def)
  then show ?thesis using fake_data_gives_its_spectra [OF c n t b d] by (simp only: if_False site.distinct)
qed

end
