(* ===== verification/Spec2Isabelle.thy ===== *)
theory Spec2Isabelle
  imports S6_Pktsock_Props S6_Output_Props S6_Obs_Props S6_Pipeline_Props S6_GpuMem_Results S6_Net_Props S6_Null S6_Fake_Props S6_Chan2if
    S6_Obs_Members S6_ObsAo_Replay S6_GbtIdle S6_EndToEnd S6_LogRms S6_NullPkt_Equiv S6_Hello S6_DatabufApi S6_FakeSpectra
begin

text \<open>
  SERENDIP VI is the spectrometer of a search for narrow-band signals at three radio telescopes:
  Arecibo (\<open>SOURCE_S6\<close>), Green Bank (\<open>SOURCE_DIBAS\<close>) and FAST (\<open>SOURCE_FAST\<close>).  This
  development models its programs, which are under \<open>src/src/\<close>.

  \<^bold>\<open>The program.\<close>  One process runs three hashpipe threads.  A network thread sorts UDP
  packets of channelised voltages into the blocks of an input ring in shared memory; the GPU
  thread turns each block into power spectra, normalises them by a running mean and extracts the
  bins above a threshold into a block of an output ring; the output thread writes these hits and
  the status of the telescope to ETFITS files.  The rings are handed on by semaphores.  The status
  comes from a redis database, which a second program fills: \<open>s6_observatory_ao.c\<close> from scramnet
  packets at Arecibo, \<open>s6_observatory_gbt.c\<close> from mysql and a socket at Green Bank.  Some tools go
  with it: a network thread that makes up its data, one that only counts packets, an extractor of
  one coarse channel, a converter from channels to frequencies, and two probes for Green Bank.

  \<^bold>\<open>The theories and the code.\<close>

  \<^item> \<open>S6_Prelude\<close>: words, byte stores with \<open>memcpy\<close>, decimal numerals.

  \<^item> \<open>S6_Databuf\<close>: \<open>s6_databuf.h\<close> and \<open>s6_databuf.cpp\<close>, with the constants of the three sites
  (type \<open>site\<close>), block headers, and the semaphore wrappers.  Hashpipe is a record of functions;
  the locales \<open>databuf_ring\<close> and \<open>status_buffer\<close> state what is used of it.  \<open>S6_DatabufApi\<close>: the
  other wrappers of the header, with a locale that extends \<open>databuf_ring\<close> by the status of blocks.

  \<^item> \<open>S6_Window\<close>: the locale \<open>mcnt_window\<close>, the arithmetic of cutting packet counters into blocks.

  \<^item> \<open>S6_Pktsock\<close> with \<open>S6_Pktsock_Inv\<close>, \<open>_Slots\<close>, \<open>_Run\<close>, \<open>_Props\<close>: \<open>s6_pktsock_thread.cpp\<close>.
  \<open>process_packet\<close> and its helpers pass the statics \<open>binfo\<close> and \<open>last_filled\<close>, the ring and the
  status buffer as one record.  The invariant ties the window to the ring; on it rest the order in
  which blocks are filled, the place of every payload byte, the recovery from packets out of
  sequence, and that packets may come in any order.

  \<^item> \<open>S6_Net\<close>, \<open>S6_Net_Equiv\<close>, \<open>S6_Net_Run\<close>, \<open>S6_Net_Props\<close>: \<open>s6_net_thread.cpp\<close>, related to the
  packet-socket thread by an equivalence; hold-off, log and unchecked lengths.  \<open>S6_Null\<close>: \<open>run\<close> of
  \<open>s6_net_null_thread.cpp\<close>; \<open>S6_NullPkt\<close>, \<open>S6_NullPkt_Equiv\<close>: its packet handling, and its
  equivalence with that of the packet-socket thread.

  \<^item> \<open>S6_Fake\<close>, \<open>S6_Fake_Props\<close>: \<open>s6_gen_fake_data.cpp\<close>, \<open>s6_fake_net_thread.cpp\<close> and
  \<open>s6_extract_coarse_chan.cpp\<close>.  \<open>S6_Chan2if\<close>: \<open>s6_chan2if.cpp\<close>.

  \<^item> \<open>S6_Gpu\<close>: what the kernels of \<open>s6GPU.cu\<close> compute, with vectors as lists.  \<open>S6_GpuMem\<close>,
  \<open>_Props\<close>, \<open>_Results\<close>: the versions of \<open>spectroscopy\<close> as sequences of allocations and kernels on
  device memory; which of them compute the spectra of \<open>S6_Gpu\<close>, how much memory they need and
  where they run past a vector.

  \<^item> \<open>S6_Stopwatch\<close>, \<open>S6_Plan\<close>: \<open>stopwatch.hpp\<close>, \<open>cub_allocator.hpp\<close> and the helpers of \<open>s6GPU.cu\<close>:
  timers, FFT plans with the layout that cuFFT documents, transposition, set-up and memory report.

  \<^item> \<open>S6_GpuThread\<close>: \<open>s6_gpu_thread.cpp\<close>, its calls on the two rings in order.

  \<^item> \<open>S6_Spectra\<close>: the network thread, the FFT plan and the kernels together: the spectra are those of the
  samples in the packets, if all coarse channels are in use.  \<open>S6_LogRms\<close>: \<open>log_rms\<close> of the network
  thread reads the same samples.  \<open>S6_FakeSpectra\<close>: generated data give the spectra of the series generated.
  \<open>S6_EndToEnd\<close>: GPU thread, output ring and ETFITS writer together: the tables of a file hold the bins
  over threshold of these spectra, up to the hit limit.

  \<^item> \<open>S6_Etfits\<close>, \<open>S6_Etfits_Props\<close>, \<open>S6_Etfits_Files\<close>: \<open>s6_etfits.cpp\<close> and \<open>s6_time.c\<close>.  The
  calls of cfitsio and the file system go through one function \<open>sys\<close>; the properties hold for
  every such function: which tables are written, and that files follow a protocol given as an automaton.
  The arrays of \<open>write_hits\<close> on the stack are bounded as in the source; writing past them is the outcome
  \<open>Stack_smashed\<close>, which \<open>S6_Pipeline_Props\<close> excludes for hit limits up to \<open>MAXHITS\<close>.

  \<^item> \<open>S6_Obs\<close>, \<open>S6_Obs_Gbt\<close>, \<open>S6_Obs_Props\<close>, \<open>S6_Obs_Members\<close>: \<open>s6_obs_data.cpp\<close> and its versions
  for FAST and Green Bank, with the members of \<open>gbtstatus_t\<close> and their C types.  \<open>atoi\<close> and \<open>atol\<close> are
  kept apart, and a \<open>long\<close> that goes to an \<open>int\<close> is cut to 32 bits.

  \<^item> \<open>S6_Output\<close>, \<open>S6_Output_Props\<close>: \<open>s6_output_thread.cpp\<close>.

  \<^item> \<open>S6_Pipeline\<close>, \<open>S6_Pipeline_Props\<close>: the three threads together, an inductive step relation
  over their calls.  No block is ever held by two threads, the pipeline refines a queue of blocks,
  some thread can always go on, and the metadata of a block arrives with it.

  \<^item> \<open>S6_Coord\<close>, \<open>S6_Coord_Props\<close>, \<open>S6_Coord_Sky\<close>: \<open>s6_obsaux_gbt.c\<close> and \<open>s6_obsaux_ao.c\<close>.
  Conversions are proved against the geometry they stand for; loops that normalise angles end.

  \<^item> \<open>S6_Decimal\<close>, \<open>S6_RedisDb\<close>: numbers as text, and commands to redis with the locale
  \<open>hash_store\<close>.  \<open>S6_ObsAo\<close>, \<open>S6_ObsAo_Props\<close>, \<open>S6_ObsAo_Replay\<close>: \<open>s6_observatory_ao.c\<close>.
  \<open>S6_ObsGb\<close>, \<open>S6_ObsGb_Props\<close>, \<open>S6_ObsGb_Reader\<close>: \<open>s6_observatory_gbt.c\<close>.  Each program is
  set against the status reader of its site: what survives the way through redis, and why the
  reader fails.  Each reading of the clock at Arecibo (storing a packet, rotating the copy, decoding) is
  an input of its own.  \<open>S6_GbtIdle\<close>: what the failing reader does to the output thread, and \<open>test_obs.cpp\<close>.
  \<open>S6_Hello\<close>: \<open>cleo_hello.cpp\<close>.

  \<^bold>\<open>Conventions.\<close>  Packet counters and lengths that may wrap are machine words, other integers
  are \<open>int\<close> or \<open>nat\<close> within their range; where a conversion to 32 bits matters it is written
  (\<open>int32_of\<close>, \<open>show_int32\<close>).  \<open>float\<close> and \<open>double\<close> are reals: rounding is not modelled, except
  where numbers are printed.  A division by zero is 0 in HOL; where the code could meet one, the
  definition says so or the property excludes it.  Errors are values: \<open>pthread_exit\<close> and
  \<open>exit\<close> are results, so are a null pointer followed (\<open>Crash\<close>, \<open>Crashes\<close>), a write past an array
  and a loop that does not end.  Code outside the repository (hashpipe, cuFFT, cfitsio, hiredis,
  mysql, the libraries of the observatories) and what the outside does (packets, replies, clocks,
  file operations) are parameters.

  \<^bold>\<open>Loops.\<close>  Threads run over the list of what each pass receives, or for a given number of
  passes.  Loops that wait without a bound are \<open>partial_function (option)\<close>: the hold-off (\<open>nt_holdoff\<close>), waiting for a free block
  (\<open>fake_wait_free\<close>), the normalisation of angles (\<open>wrap_down\<close>, \<open>wrap_up\<close>, \<open>raise_ra\<close>); what ends
  them is proved.  The parsers of configuration files and of cleo lines are total functions with a
  measure.  Nothing runs on fuel.

  \<^bold>\<open>Not modelled.\<close>  The FFT itself, and device memory allocators beyond what \<open>spectroscopy\<close> asks
  of them; text written to terminals and the timing statistics; the status-buffer timing of the
  network thread, whose reader is compiled out, and the packet log under \<open>LOG_MCNTS\<close>;
  \<open>put_obs_fast_info_to_redis\<close>, called nowhere and without a connection of its own, so that all it does
  is undefined; shell, Ruby and make files.
\<close>

end
